(* ===== verification/Py_Prelude.thy ===== *)
theory Py_Prelude
  imports Complex_Main "HOL-Library.AList" "HOL-Library.Char_ord"
    "HOL-Library.List_Lexorder" "HOL-Library.Product_Lexorder" "HOL-Library.Multiset"
begin

text \<open>
  The part of Python that every component of the benchmark uses, as HOL functions:
  exceptions as the left summand of a result type, strings as lists of characters (code
  points below 256), insertion-ordered dictionaries as association lists, dynamically typed
  row cells, and the string methods the sources call.  The lemmas are the facts the component
  theories share; \<open>py_simps\<close> collects the ones that are safe as rewrite rules.
\<close>

named_theorems py_simps \<open>rewrite rules for the Python operations\<close>

section \<open>Exceptions and results\<close>

datatype pyexc =
    ValueError string
  | KeyError string
  | IndexError
  | TypeError string
  | AttributeError string
  | AssertionError string
  | FileNotFoundError string
  | FileExistsError string
  | RuntimeError string
  | TimeoutError
  | CalledProcessError int
  | ConnectionError string
  | OSError string
  | ZeroDivisionError
  | OverflowError
  | UnicodeDecodeError
  | SystemExit string
  | KeyboardInterrupt
  | OutsideModel string

text \<open>The name \<open>type(error).__name__\<close> of an exception.\<close>

fun exc_name :: "pyexc \<Rightarrow> string" where
  "exc_name (ValueError _) = ''ValueError''"
| "exc_name (KeyError _) = ''KeyError''"
| "exc_name IndexError = ''IndexError''"
| "exc_name (TypeError _) = ''TypeError''"
| "exc_name (AttributeError _) = ''AttributeError''"
| "exc_name (AssertionError _) = ''AssertionError''"
| "exc_name (FileNotFoundError _) = ''FileNotFoundError''"
| "exc_name (FileExistsError _) = ''FileExistsError''"
| "exc_name (RuntimeError _) = ''RuntimeError''"
| "exc_name TimeoutError = ''TimeoutError''"
| "exc_name (CalledProcessError _) = ''CalledProcessError''"
| "exc_name (ConnectionError _) = ''ConnectionError''"
| "exc_name (OSError _) = ''OSError''"
| "exc_name ZeroDivisionError = ''ZeroDivisionError''"
| "exc_name OverflowError = ''OverflowError''"
| "exc_name UnicodeDecodeError = ''UnicodeDecodeError''"
| "exc_name (SystemExit _) = ''SystemExit''"
| "exc_name KeyboardInterrupt = ''KeyboardInterrupt''"
| "exc_name (OutsideModel _) = ''OutsideModel''"

type_synonym 'a res = "pyexc + 'a"

definition bindr :: "'a res \<Rightarrow> ('a \<Rightarrow> 'b res) \<Rightarrow> 'b res" where
  "bindr m f = (case m of Inl e \<Rightarrow> Inl e | Inr x \<Rightarrow> f x)"

lemma bindr_simps [simp, py_simps]:
  "bindr (Inl e) f = Inl e"
  "bindr (Inr x) f = f x"
  by (simp_all add: bindr_def)

lemma bindr_eq_Inr: "bindr m f = Inr y \<longleftrightarrow> (\<exists>x. m = Inr x \<and> f x = Inr y)"
  by (cases m) simp_all

lemma bindr_eq_Inl: "bindr m f = Inl e \<longleftrightarrow> m = Inl e \<or> (\<exists>x. m = Inr x \<and> f x = Inl e)"
  by (cases m) simp_all

lemma bindr_cong [fundef_cong]:
  "m = m' \<Longrightarrow> (\<And>x. m' = Inr x \<Longrightarrow> f x = g x) \<Longrightarrow> bindr m f = bindr m' g"
  by (cases m') simp_all

definition guardr :: "bool \<Rightarrow> pyexc \<Rightarrow> unit res" where
  "guardr b e = (if b then Inr () else Inl e)"

lemma guardr_simps [simp, py_simps]:
  "guardr True e = Inr ()" "guardr False e = Inl e"
  by (simp_all add: guardr_def)

lemma guardr_eq_Inr [simp]: "guardr b e = Inr u \<longleftrightarrow> b"
  by (simp add: guardr_def)

lemma guardr_eq_Inl [simp]: "guardr b e = Inl e' \<longleftrightarrow> \<not> b \<and> e = e'"
  by (auto simp: guardr_def)

text \<open>A comprehension whose body may raise, and a loop that updates an accumulator.\<close>

fun mapr :: "('a \<Rightarrow> 'b res) \<Rightarrow> 'a list \<Rightarrow> 'b list res" where
  "mapr f [] = Inr []"
| "mapr f (x # xs) = bindr (f x) (\<lambda>y. bindr (mapr f xs) (\<lambda>ys. Inr (y # ys)))"

fun foldr_res :: "('s \<Rightarrow> 'a \<Rightarrow> 's res) \<Rightarrow> 's \<Rightarrow> 'a list \<Rightarrow> 's res" where
  "foldr_res f s [] = Inr s"
| "foldr_res f s (x # xs) = bindr (f s x) (\<lambda>s'. foldr_res f s' xs)"

lemma mapr_Inr_iff: "mapr f xs = Inr ys \<longleftrightarrow> list_all2 (\<lambda>x y. f x = Inr y) xs ys"
  by (induction xs arbitrary: ys) (auto simp: bindr_eq_Inr list_all2_Cons1)

lemma mapr_length: "mapr f xs = Inr ys \<Longrightarrow> length ys = length xs"
  by (auto simp: mapr_Inr_iff dest: list_all2_lengthD)

lemma mapr_map: "(\<And>x. x \<in> set xs \<Longrightarrow> f x = Inr (g x)) \<Longrightarrow> mapr f xs = Inr (map g xs)"
  by (induction xs) auto

lemma mapr_Inl: "mapr f xs = Inl e \<Longrightarrow> \<exists>x\<in>set xs. f x = Inl e"
  by (induction xs) (auto simp: bindr_eq_Inl)

lemma foldr_res_append:
  "foldr_res f s (xs @ ys) = bindr (foldr_res f s xs) (\<lambda>s'. foldr_res f s' ys)"
proof (induction xs arbitrary: s)
  case (Cons x xs)
  show ?case by (cases "f s x") (simp_all add: Cons)
qed simp

lemma foldr_res_invariant:
  assumes "foldr_res f s xs = Inr t" and "P s"
    and "\<And>s x s'. x \<in> set xs \<Longrightarrow> P s \<Longrightarrow> f s x = Inr s' \<Longrightarrow> P s'"
  shows "P t"
  using assms by (induction xs arbitrary: s) (auto simp: bindr_eq_Inr)

section \<open>Insertion-ordered dictionaries\<close>

text \<open>
  A dictionary keeps the order of first insertion; storing to a present key replaces the value
  in place.  That is \<open>AList.update\<close>.
\<close>

type_synonym ('k, 'v) dict = "('k \<times> 'v) list"

definition dget :: "('k, 'v) dict \<Rightarrow> 'k \<Rightarrow> 'v \<Rightarrow> 'v" where
  "dget d k dflt = (case map_of d k of None \<Rightarrow> dflt | Some v \<Rightarrow> v)"

definition dset :: "'k \<Rightarrow> 'v \<Rightarrow> ('k, 'v) dict \<Rightarrow> ('k, 'v) dict" where
  "dset = AList.update"

definition dhas :: "('k, 'v) dict \<Rightarrow> 'k \<Rightarrow> bool" where
  "dhas d k = (map_of d k \<noteq> None)"

definition dupdate :: "('k, 'v) dict \<Rightarrow> ('k, 'v) dict \<Rightarrow> ('k, 'v) dict" where
  "dupdate d e = fold (\<lambda>(k, v). dset k v) e d"

definition dsetdefault :: "'k \<Rightarrow> 'v \<Rightarrow> ('k, 'v) dict \<Rightarrow> ('k, 'v) dict" where
  "dsetdefault k v d = (if dhas d k then d else dset k v d)"

definition dappend :: "'k \<Rightarrow> 'v \<Rightarrow> ('k, 'v list) dict \<Rightarrow> ('k, 'v list) dict" where
  "dappend k v d = dset k (dget d k [] @ [v]) d"

definition dict_of :: "('k \<times> 'v) list \<Rightarrow> ('k, 'v) dict" where
  "dict_of kvs = dupdate [] kvs"

text \<open>\<open>d[key]\<close> on string-keyed dictionaries.\<close>

definition dindex :: "(string, 'v) dict \<Rightarrow> string \<Rightarrow> 'v res" where
  "dindex d k = (case map_of d k of None \<Rightarrow> Inl (KeyError k) | Some v \<Rightarrow> Inr v)"

lemma map_of_dset [simp, py_simps]: "map_of (dset k v d) = (map_of d)(k \<mapsto> v)"
  by (simp add: dset_def update_conv')

lemma dget_dset [simp, py_simps]: "dget (dset k v d) k' dflt = (if k' = k then v else dget d k' dflt)"
  by (simp add: dget_def)

lemma dhas_dset [simp, py_simps]: "dhas (dset k v d) k' \<longleftrightarrow> k' = k \<or> dhas d k'"
  by (simp add: dhas_def)

lemma dindex_dset [simp, py_simps]:
  "dindex (dset k v d) k' = (if k' = k then Inr v else dindex d k')"
  by (simp add: dindex_def)

lemma dset_keys:
  "map fst (dset k v d) = (if k \<in> set (map fst d) then map fst d else map fst d @ [k])"
  by (simp add: dset_def update_keys)

lemma distinct_dset: "distinct (map fst d) \<Longrightarrow> distinct (map fst (dset k v d))"
  by (simp add: dset_keys)

lemma dset_id: "map_of d k = Some v \<Longrightarrow> distinct (map fst d) \<Longrightarrow> dset k v d = d"
  by (simp add: dset_def update_triv)

lemma map_of_dupdate: "map_of (dupdate d e) k = (case map_of (rev e) k of None \<Rightarrow> map_of d k | Some v \<Rightarrow> Some v)"
  by (induction e arbitrary: d) (auto simp: dupdate_def map_add_def split: option.splits)

lemma distinct_dupdate: "distinct (map fst d) \<Longrightarrow> distinct (map fst (dupdate d e))"
  by (induction e arbitrary: d) (auto simp: dupdate_def distinct_dset)

lemma set_dset_keys: "set (map fst (dset k v d)) = insert k (set (map fst d))"
  by (auto simp: dset_keys)

lemma map_of_dappend:
  "map_of (dappend k v d) k' = (if k' = k then Some (dget d k [] @ [v]) else map_of d k')"
  by (simp add: dappend_def)

lemma dhas_iff_key: "dhas d k \<longleftrightarrow> k \<in> fst ` set d"
  by (simp add: dhas_def map_of_eq_None_iff)

text \<open>
  Grouping into a \<open>defaultdict(list)\<close>: \<open>for x in xs: d[f(x)].append(x)\<close>.  Keys appear in the
  order of first occurrence, each group keeps the order of the input.
\<close>

definition group_by :: "('a \<Rightarrow> 'k) \<Rightarrow> 'a list \<Rightarrow> ('k, 'a list) dict" where
  "group_by f xs = fold (\<lambda>x d. dappend (f x) x d) xs []"

lemma group_by_snoc: "group_by f (xs @ [x]) = dappend (f x) x (group_by f xs)"
  by (simp add: group_by_def)

lemma group_by_Nil [simp]: "group_by f [] = []"
  by (simp add: group_by_def)

lemma map_of_group_by:
  "map_of (group_by f xs) k =
     (let g = filter (\<lambda>x. f x = k) xs in if g = [] then None else Some g)"
  by (induction xs rule: rev_induct)
     (auto simp: group_by_snoc map_of_dappend dget_def Let_def filter_empty_conv split: if_splits)

lemma group_by_distinct: "distinct (map fst (group_by f xs))"
  by (induction xs rule: rev_induct) (auto simp: group_by_snoc dappend_def intro: distinct_dset)

lemma group_by_keys: "set (map fst (group_by f xs)) = f ` set xs"
proof (induction xs rule: rev_induct)
  case (snoc x xs)
  have "set (map fst (group_by f (xs @ [x]))) = insert (f x) (set (map fst (group_by f xs)))"
    by (simp only: group_by_snoc dappend_def set_dset_keys)
  with snoc show ?case by auto
qed simp

lemma group_by_items:
  "(k, g) \<in> set (group_by f xs) \<longleftrightarrow> g = filter (\<lambda>x. f x = k) xs \<and> g \<noteq> []"
proof -
  have "(k, g) \<in> set (group_by f xs) \<longleftrightarrow> map_of (group_by f xs) k = Some g"
    by (rule map_of_eq_Some_iff [symmetric]) (rule group_by_distinct)
  then show ?thesis by (auto simp: map_of_group_by Let_def split: if_splits)
qed

lemma mset_concat_partition:
  assumes "distinct ks" and "f ` set xs \<subseteq> set ks"
  shows "mset (concat (map (\<lambda>k. filter (\<lambda>x. f x = k) xs) ks)) = mset xs"
  using assms(2)
proof (induction xs)
  case Nil
  then show ?case by (simp add: concat_eq_Nil_conv)
next
  case (Cons x xs)
  have step: "mset (concat (map (\<lambda>k. filter (\<lambda>y. f y = k) (x # xs)) js)) =
      (if f x \<in> set js then {#x#} else {#}) + mset (concat (map (\<lambda>k. filter (\<lambda>y. f y = k) xs) js))"
    if "distinct js" for js
    using that by (induction js) auto
  from step [OF assms(1)] Cons show ?case by simp
qed

section \<open>Row cells\<close>

text \<open>
  Rows of the result tables are \<open>dict[str, object]\<close>.  A cell is one of the Python values the
  sources store there; the floating-point cells hold finite doubles.
\<close>

datatype pyval =
    PNone
  | PBool bool
  | PInt int
  | PFloat rat
  | PStr string
  | PList "pyval list"
  | PDict "(string \<times> pyval) list"

type_synonym srow = "(string, string) dict"
type_synonym row = "(string, pyval) dict"

section \<open>Characters and strings\<close>

definition ccode :: "char \<Rightarrow> int" where
  "ccode c = of_char c"

definition is_space :: "char \<Rightarrow> bool" where
  "is_space c = (let n = ccode c in
     (9 \<le> n \<and> n \<le> 13) \<or> (28 \<le> n \<and> n \<le> 32) \<or> n = 133 \<or> n = 160)"

definition is_line_end :: "char \<Rightarrow> bool" where
  "is_line_end c = (let n = ccode c in
     (10 \<le> n \<and> n \<le> 13) \<or> (28 \<le> n \<and> n \<le> 30) \<or> n = 133)"

definition is_digit :: "char \<Rightarrow> bool" where
  "is_digit c = (let n = ccode c in 48 \<le> n \<and> n \<le> 57)"

definition is_lower_az :: "char \<Rightarrow> bool" where
  "is_lower_az c = (let n = ccode c in 97 \<le> n \<and> n \<le> 122)"

definition is_upper_az :: "char \<Rightarrow> bool" where
  "is_upper_az c = (let n = ccode c in 65 \<le> n \<and> n \<le> 90)"

definition lower_char :: "char \<Rightarrow> char" where
  "lower_char c = (let n = ccode c in
     if (65 \<le> n \<and> n \<le> 90) \<or> (192 \<le> n \<and> n \<le> 222 \<and> n \<noteq> 215) then char_of (n + 32) else c)"

definition py_lower :: "string \<Rightarrow> string" where
  "py_lower s = map lower_char s"

definition py_strip :: "string \<Rightarrow> string" where
  "py_strip s = rev (dropWhile is_space (rev (dropWhile is_space s)))"

definition py_strip_of :: "char \<Rightarrow> string \<Rightarrow> string" where
  "py_strip_of c s = rev (dropWhile (\<lambda>x. x = c) (rev (dropWhile (\<lambda>x. x = c) s)))"

definition startswith :: "string \<Rightarrow> string \<Rightarrow> bool" where
  "startswith s p = (take (length p) s = p)"

fun contains :: "string \<Rightarrow> string \<Rightarrow> bool" where
  "contains [] p = (p = [])"
| "contains (c # s) p = (startswith (c # s) p \<or> contains s p)"

text \<open>\<open>s.split(sep, 1)\<close> when \<open>sep\<close> occurs: the text before and after its first occurrence.\<close>

fun split_once :: "string \<Rightarrow> string \<Rightarrow> (string \<times> string) option" where
  "split_once [] p = (if p = [] then Some ([], []) else None)"
| "split_once (c # s) p =
     (if startswith (c # s) p then Some ([], drop (length p) (c # s))
      else map_option (\<lambda>(a, b). (c # a, b)) (split_once s p))"

text \<open>\<open>s.split()\<close>: the maximal runs of non-space characters.\<close>

function split_ws :: "string \<Rightarrow> string list" where
  "split_ws s = (let t = dropWhile is_space s in
     if t = [] then []
     else takeWhile (\<lambda>c. \<not> is_space c) t # split_ws (dropWhile (\<lambda>c. \<not> is_space c) t))"
  by pat_completeness auto
termination
proof (relation "measure length", simp)
  fix s t :: string
  assume t: "t = dropWhile is_space s" and ne: "t \<noteq> []"
  obtain c u where c: "t = c # u" using ne by (cases t) auto
  then have "\<not> is_space c"
    using t by (metis hd_dropWhile list.sel(1) ne)
  with c have "length (dropWhile (\<lambda>c. \<not> is_space c) t) \<le> length u"
    by (simp add: length_dropWhile_le)
  moreover have "length t \<le> length s"
    by (simp add: t length_dropWhile_le)
  ultimately show "(dropWhile (\<lambda>c. \<not> is_space c) t, s) \<in> measure length"
    using c by simp
qed

declare split_ws.simps [simp del]

text \<open>\<open>s.splitlines()\<close>; a carriage return followed by a newline is one line end.\<close>

fun splitlines_aux :: "string \<Rightarrow> string \<Rightarrow> string list" where
  "splitlines_aux cur [] = (if cur = [] then [] else [rev cur])"
| "splitlines_aux cur (c # s) =
     (if is_line_end c then
        rev cur # splitlines_aux []
          (if ccode c = 13 \<and> s \<noteq> [] \<and> ccode (hd s) = 10 then tl s else s)
      else splitlines_aux (c # cur) s)"

definition splitlines :: "string \<Rightarrow> string list" where
  "splitlines s = splitlines_aux [] s"

fun join :: "string \<Rightarrow> string list \<Rightarrow> string" where
  "join sep [] = []"
| "join sep [x] = x"
| "join sep (x # y # ys) = x @ sep @ join sep (y # ys)"

text \<open>\<open>s.replace(old, new)\<close> for a non-empty \<open>old\<close>, left to right without overlaps.\<close>

function replace_all :: "string \<Rightarrow> string \<Rightarrow> string \<Rightarrow> string" where
  "replace_all p r s =
     (if p = [] \<or> s = [] then s
      else if startswith s p then r @ replace_all p r (drop (length p) s)
      else hd s # replace_all p r (tl s))"
  by pat_completeness auto
termination
  by (relation "measure (\<lambda>(p, r, s). length s)") auto

declare replace_all.simps [simp del]

section \<open>Decimal and hexadecimal numerals\<close>

text \<open>The decimal digits of a non-negative integer, most significant first.\<close>

function pos_digits :: "int \<Rightarrow> int list" where
  "pos_digits n = (if n < 10 then [n] else pos_digits (n div 10) @ [n mod 10])"
  by pat_completeness auto
termination
  by (relation "measure nat") auto

declare pos_digits.simps [simp del]

definition digit_char :: "int \<Rightarrow> char" where
  "digit_char d = char_of (48 + d)"

definition str_pos :: "int \<Rightarrow> string" where
  "str_pos n = map digit_char (pos_digits n)"

definition str_nat :: "nat \<Rightarrow> string" where
  "str_nat n = str_pos (int n)"

definition str_int :: "int \<Rightarrow> string" where
  "str_int i = (if i < 0 then CHR ''-'' # str_pos (- i) else str_pos i)"

definition digit_val :: "char \<Rightarrow> int" where
  "digit_val c = ccode c - 48"

fun digits_val :: "int \<Rightarrow> string \<Rightarrow> int" where
  "digits_val acc [] = acc"
| "digits_val acc (c # s) = digits_val (10 * acc + digit_val c) s"

text \<open>
  The digit part of a numeral: digits with single underscores between them.  The result is the
  digits without the underscores.
\<close>

fun digit_run :: "string \<Rightarrow> string option" where
  "digit_run [] = None"
| "digit_run [c] = (if is_digit c then Some [c] else None)"
| "digit_run (c # d # s) =
     (if \<not> is_digit c then None
      else if d = CHR ''_'' then map_option ((#) c) (digit_run s)
      else map_option ((#) c) (digit_run (d # s)))"

text \<open>\<open>int(s)\<close> on a string.\<close>

definition py_int :: "string \<Rightarrow> int res" where
  "py_int s = (let t = py_strip s;
       (neg, u) = (case t of [] \<Rightarrow> (False, [])
                   | c # v \<Rightarrow> if c = CHR ''-'' then (True, v)
                               else if c = CHR ''+'' then (False, v) else (False, t))
     in case digit_run u of
          None \<Rightarrow> Inl (ValueError (''invalid literal for int() with base 10: '' @ s))
        | Some ds \<Rightarrow> Inr ((if neg then - 1 else 1) * digits_val 0 ds))"

definition hex_digit :: "int \<Rightarrow> char" where
  "hex_digit d = (if d < 10 then char_of (48 + d) else char_of (87 + d))"

function hex_digits :: "int \<Rightarrow> int list" where
  "hex_digits n = (if n < 16 then [n] else hex_digits (n div 16) @ [n mod 16])"
  by pat_completeness auto
termination
  by (relation "measure nat") auto

declare hex_digits.simps [simp del]

text \<open>\<open>f"{n:0wx}"\<close> for a non-negative \<open>n\<close>: lower-case hexadecimal, zero-padded to width \<open>w\<close>.\<close>

definition hex_pad :: "nat \<Rightarrow> int \<Rightarrow> string" where
  "hex_pad w n = (let ds = hex_digits n in
     replicate (w - length ds) CHR ''0'' @ map hex_digit ds)"

text \<open>\<open>f"{n:0wd}"\<close> for a non-negative \<open>n\<close>.\<close>

definition dec_pad :: "nat \<Rightarrow> int \<Rightarrow> string" where
  "dec_pad w n = (let ds = str_pos n in replicate (w - length ds) CHR ''0'' @ ds)"

text \<open>\<open>repr(s)\<close> of a string of printable ASCII characters.\<close>

definition py_repr :: "string \<Rightarrow> string" where
  "py_repr s = (let q = (if CHR 0x27 \<in> set s \<and> CHR 0x22 \<notin> set s then CHR 0x22 else CHR 0x27)
     in q # concat (map (\<lambda>c. if c = CHR 0x5C \<or> c = q then [CHR 0x5C, c] else [c]) s) @ [q])"

definition quote :: "string \<Rightarrow> string" where
  "quote s = CHR 0x22 # s @ [CHR 0x22]"

abbreviation newline :: string where
  "newline \<equiv> [CHR 0x0A]"

text \<open>\<open>a or b\<close> on strings.\<close>

definition str_or :: "string \<Rightarrow> string \<Rightarrow> string" where
  "str_or a b = (if a = [] then b else a)"

lemma str_or_simps [simp, py_simps]:
  "str_or [] b = b" "str_or (c # s) b = c # s" "str_or a [] = a" "str_or a a = a"
  by (simp_all add: str_or_def)

lemma str_or_assoc: "str_or (str_or a b) c = str_or a (str_or b c)"
  by (simp add: str_or_def)

section \<open>Facts about numerals\<close>

lemma pos_digits_range: "0 \<le> n \<Longrightarrow> d \<in> set (pos_digits n) \<Longrightarrow> 0 \<le> d \<and> d < 10"
proof (induction n rule: pos_digits.induct)
  case (1 n)
  then show ?case by (auto simp: pos_digits.simps [of n] split: if_splits)
qed

lemma pos_digits_ne [simp]: "pos_digits n \<noteq> []"
  by (subst pos_digits.simps) simp

lemma ccode_digit_char: "0 \<le> d \<Longrightarrow> d < 10 \<Longrightarrow> ccode (digit_char d) = 48 + d"
  by (simp add: ccode_def digit_char_def)

lemma digit_val_digit_char: "0 \<le> d \<Longrightarrow> d < 10 \<Longrightarrow> digit_val (digit_char d) = d"
  by (simp add: digit_val_def ccode_digit_char)

lemma is_digit_digit_char: "0 \<le> d \<Longrightarrow> d < 10 \<Longrightarrow> is_digit (digit_char d)"
  by (simp add: is_digit_def Let_def ccode_digit_char)

lemma digits_val_append: "digits_val acc (s @ t) = digits_val (digits_val acc s) t"
  by (induction s arbitrary: acc) auto

lemma digits_val_str_pos: "0 \<le> n \<Longrightarrow> digits_val 0 (str_pos n) = n"
proof (induction n rule: pos_digits.induct)
  case (1 n)
  show ?case
  proof (cases "n < 10")
    case True
    with 1 show ?thesis by (simp add: str_pos_def pos_digits.simps [of n] digit_val_digit_char)
  next
    case False
    with 1 show ?thesis
      by (simp add: str_pos_def pos_digits.simps [of n] digit_val_digit_char digits_val_append)
  qed
qed

lemma str_pos_all_digits: "0 \<le> n \<Longrightarrow> c \<in> set (str_pos n) \<Longrightarrow> is_digit c"
  by (auto simp: str_pos_def is_digit_digit_char dest: pos_digits_range)

lemma str_pos_ne [simp]: "str_pos n \<noteq> []"
  by (simp add: str_pos_def)

lemma str_nat_ne [simp]: "str_nat n \<noteq> []"
  by (simp add: str_nat_def)

lemma str_nat_all_digits: "c \<in> set (str_nat n) \<Longrightarrow> is_digit c"
  unfolding str_nat_def by (rule str_pos_all_digits) simp_all

lemma digit_run_all_digits: "s \<noteq> [] \<Longrightarrow> \<forall>c\<in>set s. is_digit c \<Longrightarrow> digit_run s = Some s"
  by (induction s rule: digit_run.induct) (auto simp: is_digit_def ccode_def)

lemma dropWhile_id: "s = [] \<or> \<not> P (hd s) \<Longrightarrow> dropWhile P s = s"
  by (cases s) auto

lemma py_strip_id:
  assumes "s = [] \<or> (\<not> is_space (hd s) \<and> \<not> is_space (last s))"
  shows "py_strip s = s"
  using assms by (auto simp: py_strip_def dropWhile_id hd_rev)

lemma not_space_digit: "is_digit c \<Longrightarrow> \<not> is_space c"
  by (auto simp: is_digit_def is_space_def Let_def)

lemma digit_not_sign: "is_digit c \<Longrightarrow> c \<noteq> CHR ''-'' \<and> c \<noteq> CHR ''+''"
  by (auto simp: is_digit_def ccode_def)

lemma py_int_str_pos: assumes "0 \<le> n" shows "py_int (str_pos n) = Inr n"
proof -
  obtain c u where c: "str_pos n = c # u" by (cases "str_pos n") auto
  have dig: "\<forall>x\<in>set (str_pos n). is_digit x" using assms by (auto intro: str_pos_all_digits)
  have "py_strip (str_pos n) = str_pos n"
    using dig by (intro py_strip_id) (simp add: not_space_digit)
  moreover have "is_digit c" using dig c by simp
  moreover have "digit_run (str_pos n) = Some (str_pos n)"
    using dig by (simp add: digit_run_all_digits)
  ultimately show ?thesis
    using digit_not_sign [of c] digits_val_str_pos [OF assms] by (simp add: py_int_def c)
qed

text \<open>\<open>int(str(i)) == i\<close>: integer cells survive a trip through a CSV file.\<close>

lemma py_int_str_int [simp, py_simps]: "py_int (str_int i) = Inr i"
proof (cases "i < 0")
  case False
  then show ?thesis using py_int_str_pos [of i] by (simp add: str_int_def)
next
  case True
  let ?s = "str_pos (- i)"
  have dig: "\<forall>x\<in>set ?s. is_digit x" using True by (auto intro: str_pos_all_digits [of "- i"])
  have "\<not> is_space (CHR ''-'')" by (simp add: is_space_def ccode_def)
  then have "py_strip (CHR ''-'' # ?s) = CHR ''-'' # ?s"
    using dig by (intro py_strip_id) (simp add: not_space_digit)
  moreover have "digit_run ?s = Some ?s"
    using dig by (simp add: digit_run_all_digits)
  ultimately show ?thesis
    using True digits_val_str_pos [of "- i"] by (simp add: py_int_def str_int_def)
qed

lemma py_int_str_nat [simp, py_simps]: "py_int (str_nat n) = Inr (int n)"
  using py_int_str_int [of "int n"] by (simp add: str_int_def str_nat_def)

lemma str_int_inj: "str_int i = str_int j \<longleftrightarrow> i = j"
  by (metis py_int_str_int sum.inject(2))

section \<open>Facts about strings\<close>

lemma startswith_append [simp]: "startswith (p @ s) p"
  by (simp add: startswith_def)

lemma startswith_iff: "startswith s p \<longleftrightarrow> (\<exists>t. s = p @ t)"
  by (metis append_eq_conv_conj append_take_drop_id startswith_def)

lemma split_once_Some: "split_once s p = Some (a, b) \<Longrightarrow> s = a @ p @ b"
  by (induction s arbitrary: a b) (auto simp: startswith_iff split: if_splits)

lemma split_once_None_iff: "split_once s p = None \<longleftrightarrow> \<not> contains s p"
  by (induction s) auto

lemma split_ws_unfold:
  "split_ws s = (if dropWhile is_space s = [] then []
     else takeWhile (\<lambda>c. \<not> is_space c) (dropWhile is_space s) #
       split_ws (dropWhile (\<lambda>c. \<not> is_space c) (dropWhile is_space s)))"
  by (subst split_ws.simps) (simp only: Let_def)

lemma split_ws_no_space: "w \<in> set (split_ws s) \<Longrightarrow> w \<noteq> [] \<and> (\<forall>c\<in>set w. \<not> is_space c)"
proof (induction s rule: split_ws.induct)
  case (1 s)
  define t where "t = dropWhile is_space s"
  have ne: "t \<noteq> []" using "1.prems" by (subst (asm) split_ws_unfold) (auto simp: t_def split: if_splits)
  then have hd: "\<not> is_space (hd t)" unfolding t_def by (rule hd_dropWhile)
  have "split_ws s = takeWhile (\<lambda>c. \<not> is_space c) t # split_ws (dropWhile (\<lambda>c. \<not> is_space c) t)"
    using ne unfolding t_def by (subst split_ws_unfold) (rule if_not_P)
  with "1.prems" consider "w = takeWhile (\<lambda>c. \<not> is_space c) t"
    | "w \<in> set (split_ws (dropWhile (\<lambda>c. \<not> is_space c) t))"
    by auto
  then show ?case
  proof cases
    case 1
    have "\<not> is_space c" if "c \<in> set w" for c
      using that 1 set_takeWhileD [of c "\<lambda>c. \<not> is_space c" t] by simp
    moreover have "w \<noteq> []" using 1 ne hd by (simp add: takeWhile_eq_Nil_iff)
    ultimately show ?thesis by simp
  next
    case 2
    then show ?thesis by (rule "1.IH" [OF t_def ne])
  qed
qed

end
