(* ===== verification/Py_Sha256.thy ===== *)
theory Py_Sha256
  imports Py_Prelude "HOL-Library.Word"
begin

text \<open>
  Byte strings as lists of 8-bit words, \<open>int.to_bytes\<close> and \<open>int.from_bytes\<close>, and
  \<open>hashlib.sha256\<close>: FIPS 180-4 on byte strings.  A hash object is the byte string it has
  absorbed, so feeding it in several pieces is feeding it their concatenation.
\<close>

unbundle bit_operations_syntax

type_synonym byte = "8 word"
type_synonym u32 = "32 word"

definition byte_of :: "int \<Rightarrow> byte" where
  "byte_of n = word_of_int n"

text \<open>
  \<open>s.encode("utf-8")\<close> for code points below 256, and \<open>bs.decode()\<close>: a byte string
  that denotes characters above U+00FF or no characters at all is outside the model.
\<close>

definition encode_char :: "char \<Rightarrow> byte list" where
  "encode_char c = (let n = ccode c in
     if n < 128 then [byte_of n] else [byte_of (192 + n div 64), byte_of (128 + n mod 64)])"

definition encode_str :: "string \<Rightarrow> byte list" where
  "encode_str s = concat (map encode_char s)"

fun decode_utf8 :: "byte list \<Rightarrow> string res" where
  "decode_utf8 [] = Inr []"
| "decode_utf8 [b] = (if uint b < 128 then Inr [char_of (uint b)] else Inl UnicodeDecodeError)"
| "decode_utf8 (b # c # bs) =
     (if uint b < 128 then bindr (decode_utf8 (c # bs)) (\<lambda>s. Inr (char_of (uint b) # s))
      else if 194 \<le> uint b \<and> uint b \<le> 195 \<and> 128 \<le> uint c \<and> uint c < 192
      then bindr (decode_utf8 bs) (\<lambda>s. Inr (char_of ((uint b - 192) * 64 + (uint c - 128)) # s))
      else Inl (OutsideModel ''text outside Latin-1''))"

definition decode_replace :: "byte list \<Rightarrow> string res" where
  "decode_replace bs = (case decode_utf8 bs of Inr s \<Rightarrow> Inr s
     | Inl e \<Rightarrow> Inl (OutsideModel ''replacement character''))"

text \<open>\<open>int.from_bytes(bs, "big")\<close> and \<open>n.to_bytes(k, "big")\<close> for \<open>n\<close> in range.\<close>

definition from_bytes_be :: "byte list \<Rightarrow> int" where
  "from_bytes_be bs = fold (\<lambda>b acc. acc * 256 + uint b) bs 0"

fun to_bytes_be :: "nat \<Rightarrow> int \<Rightarrow> byte list" where
  "to_bytes_be 0 n = []"
| "to_bytes_be (Suc k) n = to_bytes_be k (n div 256) @ [byte_of (n mod 256)]"

lemma length_to_bytes_be [simp]: "length (to_bytes_be k n) = k"
  by (induction k arbitrary: n) simp_all

lemma uint_byte_of: "uint (byte_of n) = n mod 256"
  by (simp add: byte_of_def uint_word_of_int)

lemma from_bytes_be_snoc: "from_bytes_be (bs @ [b]) = from_bytes_be bs * 256 + uint b"
  by (simp add: from_bytes_be_def)

lemma from_to_bytes_be: "from_bytes_be (to_bytes_be k n) = n mod 256 ^ k"
proof (induction k arbitrary: n)
  case (Suc k)
  have "n mod 256 ^ Suc k = n div 256 mod 256 ^ k * 256 + n mod 256"
    using mod_mult2_eq' [of n 256 "256 ^ k"] by (simp add: mult.commute)
  with Suc show ?case by (simp add: from_bytes_be_snoc uint_byte_of)
qed (simp add: from_bytes_be_def)

lemma from_to_bytes_be_id:
  "0 \<le> n \<Longrightarrow> n < 256 ^ k \<Longrightarrow> from_bytes_be (to_bytes_be k n) = n"
  by (simp add: from_to_bytes_be)

lemma from_bytes_be_nonneg: "0 \<le> from_bytes_be bs"
  by (induction bs rule: rev_induct) (simp_all add: from_bytes_be_snoc, simp add: from_bytes_be_def)

lemma from_bytes_be_less: "from_bytes_be bs < 256 ^ length bs"
proof (induction bs rule: rev_induct)
  case (snoc b bs)
  have "uint b < 256" using uint_lt2p [of b] by simp
  with snoc show ?case by (simp add: from_bytes_be_snoc)
qed (simp add: from_bytes_be_def)

definition to_bytes_checked :: "nat \<Rightarrow> int \<Rightarrow> byte list res" where
  "to_bytes_checked k n = (if 0 \<le> n \<and> n < 256 ^ k then Inr (to_bytes_be k n) else Inl OverflowError)"

lemma ccode_range: "0 \<le> ccode c \<and> ccode c < 256"
proof -
  have "ccode c = int (of_char c)" unfolding ccode_def by (rule of_nat_of_char [symmetric])
  moreover have "(of_char c :: nat) < 256" by (rule nat_of_char_less_256)
  ultimately show ?thesis by linarith
qed

lemma char_of_ccode [simp]: "char_of (ccode c) = c"
  by (simp add: ccode_def)

lemma decode_char: "decode_utf8 (encode_char c @ bs) = bindr (decode_utf8 bs) (\<lambda>s. Inr (c # s))"
proof (cases "ccode c < 128")
  case True
  then have "uint (byte_of (ccode c)) = ccode c" using ccode_range [of c] by (simp add: uint_byte_of)
  with True show ?thesis by (cases bs) (simp_all add: encode_char_def)
next
  case False
  have n: "128 \<le> ccode c" "ccode c < 256" using False ccode_range [of c] by simp_all
  then have d: "2 \<le> ccode c div 64" "ccode c div 64 \<le> 3" by linarith+
  have m: "0 \<le> ccode c mod 64" "ccode c mod 64 < 64" by simp_all
  have u: "uint (byte_of (192 + ccode c div 64)) = 192 + ccode c div 64"
    using d by (simp add: uint_byte_of)
  have v: "uint (byte_of (128 + ccode c mod 64)) = 128 + ccode c mod 64"
    using m by (simp add: uint_byte_of)
  have e: "ccode c div 64 * 64 + ccode c mod 64 = ccode c" by simp
  show ?thesis using False d m by (simp add: encode_char_def Let_def u v e)
qed

lemma decode_encode_str: "decode_utf8 (encode_str s) = Inr s"
proof (induction s)
  case (Cons c s)
  have "decode_utf8 (encode_char c @ encode_str s) = Inr (c # s)" by (simp add: decode_char Cons)
  then show ?case by (simp add: encode_str_def)
qed (simp add: encode_str_def)

lemma encode_str_append: "encode_str (s @ t) = encode_str s @ encode_str t"
  by (simp add: encode_str_def)

lemma decode_replace_encode: "decode_replace (encode_str s) = Inr s"
  by (simp add: decode_replace_def decode_encode_str)

section \<open>SHA-256\<close>

definition sha_k :: "u32 list" where
  "sha_k = [
    1116352408, 1899447441, 3049323471, 3921009573, 961987163, 1508970993, 2453635748, 2870763221,
    3624381080, 310598401, 607225278, 1426881987, 1925078388, 2162078206, 2614888103, 3248222580,
    3835390401, 4022224774, 264347078, 604807628, 770255983, 1249150122, 1555081692, 1996064986,
    2554220882, 2821834349, 2952996808, 3210313671, 3336571891, 3584528711, 113926993, 338241895,
    666307205, 773529912, 1294757372, 1396182291, 1695183700, 1986661051, 2177026350, 2456956037,
    2730485921, 2820302411, 3259730800, 3345764771, 3516065817, 3600352804, 4094571909, 275423344,
    430227734, 506948616, 659060556, 883997877, 958139571, 1322822218, 1537002063, 1747873779,
    1955562222, 2024104815, 2227730452, 2361852424, 2428436474, 2756734187, 3204031479, 3329325298]"

definition sha_iv :: "u32 list" where
  "sha_iv = [1779033703, 3144134277, 1013904242, 2773480762, 1359893119, 2600822924, 528734635, 1541459225]"

definition rotr :: "nat \<Rightarrow> u32 \<Rightarrow> u32" where
  "rotr n x = drop_bit n x OR push_bit (32 - n) x"

definition sha_pad :: "byte list \<Rightarrow> byte list" where
  "sha_pad m = m @ [0x80] @ replicate ((119 - length m mod 64) mod 64) 0 @
     to_bytes_be 8 (8 * int (length m))"

fun be_words :: "byte list \<Rightarrow> u32 list" where
  "be_words (a # b # c # d # r) = word_of_int (from_bytes_be [a, b, c, d]) # be_words r"
| "be_words _ = []"

text \<open>The message schedule, most recent word first.\<close>

fun sha_extend :: "nat \<Rightarrow> u32 list \<Rightarrow> u32 list" where
  "sha_extend 0 ws = ws"
| "sha_extend (Suc n) ws =
     (let a = ws ! 14; b = ws ! 1;
          s0 = rotr 7 a XOR rotr 18 a XOR drop_bit 3 a;
          s1 = rotr 17 b XOR rotr 19 b XOR drop_bit 10 b
      in sha_extend n ((ws ! 15 + s0 + ws ! 6 + s1) # ws))"

fun sha_rounds :: "(u32 \<times> u32) list \<Rightarrow> u32 \<times> u32 \<times> u32 \<times> u32 \<times> u32 \<times> u32 \<times> u32 \<times> u32 \<Rightarrow> u32 list" where
  "sha_rounds [] (a, b, c, d, e, f, g, h) = [a, b, c, d, e, f, g, h]"
| "sha_rounds ((k, w) # r) (a, b, c, d, e, f, g, h) =
     (let s1 = rotr 6 e XOR rotr 11 e XOR rotr 25 e;
          ch = (e AND f) XOR (NOT e AND g);
          t1 = h + s1 + ch + k + w;
          s0 = rotr 2 a XOR rotr 13 a XOR rotr 22 a;
          maj = (a AND b) XOR (a AND c) XOR (b AND c);
          t2 = s0 + maj
      in sha_rounds r (t1 + t2, a, b, c, d + t1, e, f, g))"

definition sha_block :: "u32 list \<Rightarrow> byte list \<Rightarrow> u32 list" where
  "sha_block hs block = (let ws = rev (sha_extend 48 (rev (be_words block))) in
     map2 (+) hs (sha_rounds (zip sha_k ws)
       (hs ! 0, hs ! 1, hs ! 2, hs ! 3, hs ! 4, hs ! 5, hs ! 6, hs ! 7)))"

function sha_blocks :: "u32 list \<Rightarrow> byte list \<Rightarrow> u32 list" where
  "sha_blocks hs m = (if length m < 64 then hs else sha_blocks (sha_block hs (take 64 m)) (drop 64 m))"
  by pat_completeness auto
termination
  by (relation "measure (\<lambda>(hs, m). length m)") auto

declare sha_blocks.simps [simp del]

definition sha256 :: "byte list \<Rightarrow> byte list" where
  "sha256 m = concat (map (\<lambda>w. to_bytes_be 4 (uint w)) (sha_blocks sha_iv (sha_pad m)))"

definition hexdigest :: "byte list \<Rightarrow> string" where
  "hexdigest bs = concat (map (\<lambda>b. hex_pad 2 (uint b)) bs)"

definition sha256_hex :: "byte list \<Rightarrow> string" where
  "sha256_hex m = hexdigest (sha256 m)"

lemma length_sha_rounds: "length (sha_rounds r s) = 8"
  by (induction r s rule: sha_rounds.induct) (simp_all add: Let_def)

lemma length_sha_block: "length hs = 8 \<Longrightarrow> length (sha_block hs b) = 8"
  by (simp add: sha_block_def Let_def length_sha_rounds)

lemma length_sha_blocks: "length hs = 8 \<Longrightarrow> length (sha_blocks hs m) = 8"
proof (induction hs m rule: sha_blocks.induct)
  case (1 hs m)
  then show ?case by (subst sha_blocks.simps) (simp add: length_sha_block)
qed

lemma length_sha256 [simp]: "length (sha256 m) = 32"
proof -
  have len: "length (concat (map (\<lambda>w::u32. to_bytes_be 4 (uint w)) ws)) = 4 * length ws" for ws
    by (induction ws) simp_all
  show ?thesis unfolding sha256_def len by (simp add: length_sha_blocks sha_iv_def)
qed

end
