(* ===== verification/Algorithms.thy ===== *)
theory Algorithms
  imports Py_Sha256
begin

text \<open>
  \<open>benchmarklib/algorithms.py\<close>: the tables of KEM groups and signature algorithms, the
  identifier function \<open>slug\<close>, the public-key-infrastructure chains built from the tables, and
  the mapping of legacy certificate-verify labels to TLS signature schemes.
\<close>

record kem =
  kem_name :: string
  kem_nist_level :: int
  kem_public_key_bytes :: int
  kem_ciphertext_bytes :: int
  kem_shared_secret_bytes :: int
  kem_family :: string
  kem_wolfssl_group :: string
  kem_openssl_group :: string

record signature =
  sig_name :: string
  sig_nist_level :: int
  sig_public_key_bytes :: int
  sig_private_key_bytes :: int
  sig_signature_bytes :: int
  sig_family :: string
  sig_issuer_key_type :: string
  sig_leaf_key_type :: string
  sig_certificate_verify :: string
  sig_tls_scheme :: string
  sig_tls_scheme_id :: int
  sig_expected_support :: string
  sig_notes :: string

record pki_chain =
  chain_id :: string
  chain_kind :: string
  chain_root :: string
  chain_intermediate :: string
  chain_leaf :: string

definition mk_kem ::
  "string \<Rightarrow> int \<Rightarrow> int \<Rightarrow> int \<Rightarrow> int \<Rightarrow> string \<Rightarrow> string \<Rightarrow> string \<Rightarrow> kem" where
  "mk_kem n l pk ct ss fam wg og = \<lparr>kem_name = n, kem_nist_level = l, kem_public_key_bytes = pk,
     kem_ciphertext_bytes = ct, kem_shared_secret_bytes = ss, kem_family = fam,
     kem_wolfssl_group = wg, kem_openssl_group = og\<rparr>"

definition mk_sig ::
  "string \<Rightarrow> int \<Rightarrow> int \<Rightarrow> int \<Rightarrow> int \<Rightarrow> string \<Rightarrow> string \<Rightarrow> string \<Rightarrow> string \<Rightarrow> string \<Rightarrow> int \<Rightarrow>
   string \<Rightarrow> string \<Rightarrow> signature" where
  "mk_sig n l pk sk sg fam ik lk cv sch i supp nt = \<lparr>sig_name = n, sig_nist_level = l,
     sig_public_key_bytes = pk, sig_private_key_bytes = sk, sig_signature_bytes = sg,
     sig_family = fam, sig_issuer_key_type = ik, sig_leaf_key_type = lk,
     sig_certificate_verify = cv, sig_tls_scheme = sch, sig_tls_scheme_id = i,
     sig_expected_support = supp, sig_notes = nt\<rparr>"

definition KEMS :: "kem list" where
  "KEMS = [
    mk_kem ''ECDHE-P-256'' 1 65 65 32 ''classic'' ''WOLFSSL_ECC_SECP256R1'' ''P-256'',
    mk_kem ''ECDHE-P-384'' 3 97 97 48 ''classic'' ''WOLFSSL_ECC_SECP384R1'' ''P-384'',
    mk_kem ''ECDHE-P-521'' 5 133 133 66 ''classic'' ''WOLFSSL_ECC_SECP521R1'' ''P-521'',
    mk_kem ''MLKEM512'' 1 800 768 32 ''pqc'' ''WOLFSSL_ML_KEM_512'' ''MLKEM512'',
    mk_kem ''MLKEM768'' 3 1184 1088 32 ''pqc'' ''WOLFSSL_ML_KEM_768'' ''MLKEM768'',
    mk_kem ''MLKEM1024'' 5 1568 1568 32 ''pqc'' ''WOLFSSL_ML_KEM_1024'' ''MLKEM1024'',
    mk_kem ''SecP256r1MLKEM768'' 3 1249 1153 64 ''pqc'' ''WOLFSSL_SECP256R1MLKEM768'' ''SecP256r1MLKEM768'',
    mk_kem ''X25519MLKEM768'' 3 1216 1120 64 ''pqc'' ''WOLFSSL_X25519MLKEM768'' ''X25519MLKEM768'',
    mk_kem ''SecP384r1MLKEM1024'' 5 1665 1665 80 ''pqc'' ''WOLFSSL_SECP384R1MLKEM1024'' ''SecP384r1MLKEM1024'']"

definition SIGNATURES :: "signature list" where
  "SIGNATURES = [
    mk_sig ''ECDSA-P-256'' 1 65 32 64 ''classic''
      ''ec:prime256v1'' ''ec:prime256v1'' ''ECDSA-P-256'' ''ecdsa_secp256r1_sha256'' 0x0403 ''required'' [],
    mk_sig ''ECDSA-P-384'' 3 97 48 96 ''classic''
      ''ec:secp384r1'' ''ec:secp384r1'' ''ECDSA-P-384'' ''ecdsa_secp384r1_sha384'' 0x0503 ''required'' [],
    mk_sig ''ECDSA-P-521'' 5 133 66 132 ''classic''
      ''ec:secp521r1'' ''ec:secp521r1'' ''ECDSA-P-521'' ''ecdsa_secp521r1_sha512'' 0x0603 ''required'' [],
    mk_sig ''RSA-PSS-3072'' 1 384 384 384 ''classic''
      ''RSA-PSS-3072'' ''RSA-PSS-3072'' ''RSA-PSS-3072'' ''rsa_pss_rsae_sha256'' 0x0804 ''required'' [],
    mk_sig ''RSA-PSS-7680'' 3 960 960 960 ''classic''
      ''RSA-PSS-7680'' ''RSA-PSS-7680'' ''RSA-PSS-7680'' ''rsa_pss_rsae_sha384'' 0x0805 ''required'' [],
    mk_sig ''RSA-PSS-15360'' 5 1920 1920 1920 ''classic''
      ''RSA-PSS-15360'' ''RSA-PSS-15360'' ''RSA-PSS-15360'' ''rsa_pss_rsae_sha512'' 0x0806 ''required'' [],
    mk_sig ''ML-DSA-44'' 2 1312 2560 2420 ''pqc''
      ''ML-DSA-44'' ''ML-DSA-44'' ''ML-DSA-44'' ''mldsa44'' 0x0904 ''required'' [],
    mk_sig ''ML-DSA-65'' 3 1952 4032 3309 ''pqc''
      ''ML-DSA-65'' ''ML-DSA-65'' ''ML-DSA-65'' ''mldsa65'' 0x0905 ''required'' [],
    mk_sig ''ML-DSA-87'' 5 2592 4896 4627 ''pqc''
      ''ML-DSA-87'' ''ML-DSA-87'' ''ML-DSA-87'' ''mldsa87'' 0x0906 ''required'' [],
    mk_sig ''SLH-DSA-SHAKE-128s'' 1 32 64 7856 ''pqc''
      ''SLH-DSA-SHAKE-128s'' ''ec:prime256v1'' ''ECDSA-P-256'' ''ecdsa_secp256r1_sha256'' 0x0403 ''required'' [],
    mk_sig ''SLH-DSA-SHAKE-128f'' 1 32 64 17088 ''pqc''
      ''SLH-DSA-SHAKE-128f'' ''ec:prime256v1'' ''ECDSA-P-256'' ''ecdsa_secp256r1_sha256'' 0x0403 ''required'' [],
    mk_sig ''SLH-DSA-SHAKE-192s'' 3 48 96 16224 ''pqc''
      ''SLH-DSA-SHAKE-192s'' ''ec:secp384r1'' ''ECDSA-P-384'' ''ecdsa_secp384r1_sha384'' 0x0503 ''required'' [],
    mk_sig ''SLH-DSA-SHAKE-192f'' 3 48 96 35664 ''pqc''
      ''SLH-DSA-SHAKE-192f'' ''ec:secp384r1'' ''ECDSA-P-384'' ''ecdsa_secp384r1_sha384'' 0x0503 ''required'' [],
    mk_sig ''SLH-DSA-SHAKE-256s'' 5 64 128 29792 ''pqc''
      ''SLH-DSA-SHAKE-256s'' ''ec:secp521r1'' ''ECDSA-P-521'' ''ecdsa_secp521r1_sha512'' 0x0603 ''required'' [],
    mk_sig ''SLH-DSA-SHAKE-256f'' 5 64 128 49856 ''pqc''
      ''SLH-DSA-SHAKE-256f'' ''ec:secp521r1'' ''ECDSA-P-521'' ''ecdsa_secp521r1_sha512'' 0x0603 ''required'' [],
    mk_sig ''LMS-HSS-L2-H10-W4'' 5 60 64 5076 ''pqc''
      ''LMS-HSS-L2-H10-W4'' ''ec:prime256v1'' ''ECDSA-P-256'' ''ecdsa_secp256r1_sha256'' 0x0403 ''required'' ''LMS/HSS signs the chain; TLS CertificateVerify uses ECDSA'',
    mk_sig ''XMSS-SHA2_20_256'' 5 68 2573 2820 ''pqc''
      ''XMSS-SHA2_20_256'' ''ec:prime256v1'' ''ECDSA-P-256'' ''ecdsa_secp256r1_sha256'' 0x0403 ''required'' ''XMSS signs the chain; TLS CertificateVerify uses ECDSA'']"

definition KEMS_BY_NAME :: "(string, kem) dict" where
  "KEMS_BY_NAME = dict_of (map (\<lambda>k. (kem_name k, k)) KEMS)"

definition SIGNATURES_BY_NAME :: "(string, signature) dict" where
  "SIGNATURES_BY_NAME = dict_of (map (\<lambda>s. (sig_name s, s)) SIGNATURES)"

section \<open>Identifiers\<close>

text \<open>\<open>re.sub(P+, "_", s)\<close>: every maximal run of characters in \<open>P\<close> becomes one underscore.\<close>

function sub_runs :: "(char \<Rightarrow> bool) \<Rightarrow> string \<Rightarrow> string" where
  "sub_runs P [] = []"
| "sub_runs P (c # s) =
     (if P c then CHR ''_'' # sub_runs P (dropWhile P s) else c # sub_runs P s)"
  by pat_completeness auto
termination
  by (relation "measure (\<lambda>(P, s). length s)") (auto simp: le_imp_less_Suc length_dropWhile_le)

definition is_slug_char :: "char \<Rightarrow> bool" where
  "is_slug_char c \<longleftrightarrow> is_lower_az c \<or> is_digit c"

definition slug :: "string \<Rightarrow> string" where
  "slug s = py_strip_of CHR ''_''
     (sub_runs (\<lambda>c. c = CHR ''_'') (sub_runs (\<lambda>c. \<not> is_slug_char c) (py_lower s)))"

section \<open>Certificate chains\<close>

definition LIGHT_SIGNATURES_BY_LEVEL :: "(int, string list) dict" where
  "LIGHT_SIGNATURES_BY_LEVEL = [
    (1, [''ECDSA-P-256'', ''ML-DSA-44'']),
    (3, [''ECDSA-P-384'', ''ML-DSA-65'']),
    (5, [''ECDSA-P-521'', ''ML-DSA-87''])]"

definition HEAVY_ROOTS_BY_LEVEL :: "(int, string list) dict" where
  "HEAVY_ROOTS_BY_LEVEL = [
    (1, [''SLH-DSA-SHAKE-128s'', ''SLH-DSA-SHAKE-128f'', ''RSA-PSS-3072'']),
    (3, [''SLH-DSA-SHAKE-192s'', ''SLH-DSA-SHAKE-192f'', ''RSA-PSS-7680'']),
    (5, [''SLH-DSA-SHAKE-256s'', ''SLH-DSA-SHAKE-256f'', ''RSA-PSS-15360'',
         ''LMS-HSS-L2-H10-W4'', ''XMSS-SHA2_20_256''])]"

definition homogeneous_chain :: "string \<Rightarrow> string \<Rightarrow> pki_chain" where
  "homogeneous_chain kind s = \<lparr>chain_id = ''homogeneous_'' @ slug s, chain_kind = kind,
     chain_root = s, chain_intermediate = s, chain_leaf = s\<rparr>"

definition heavy_root_chain :: "string \<Rightarrow> string \<Rightarrow> pki_chain" where
  "heavy_root_chain rt leaf = \<lparr>chain_id = ''root_'' @ slug rt @ ''__leaf_'' @ slug leaf,
     chain_kind = ''heavy_root'', chain_root = rt, chain_intermediate = leaf, chain_leaf = leaf\<rparr>"

text \<open>
  \<open>_pki_chains()\<close>.  The lookup \<open>LIGHT_SIGNATURES_BY_LEVEL[level]\<close> never misses: the two
  tables have the same levels.
\<close>

definition pki_chains :: "pki_chain list" where
  "pki_chains =
     concat (map (\<lambda>(lv, sigs). map (homogeneous_chain ''homogeneous'') sigs) LIGHT_SIGNATURES_BY_LEVEL) @
     concat (map (\<lambda>(lv, roots). concat (map (\<lambda>rt.
       map (heavy_root_chain rt) (dget LIGHT_SIGNATURES_BY_LEVEL lv [])) roots)) HEAVY_ROOTS_BY_LEVEL)"

definition HEAVY_HOMOGENEOUS_CHAINS :: "pki_chain list" where
  "HEAVY_HOMOGENEOUS_CHAINS =
     concat (map (\<lambda>(lv, sigs). map (homogeneous_chain ''homogeneous_x509'') sigs) HEAVY_ROOTS_BY_LEVEL)"

definition ALL_PKI_CHAINS :: "pki_chain list" where
  "ALL_PKI_CHAINS = pki_chains @ HEAVY_HOMOGENEOUS_CHAINS"

definition PKI_CHAINS_BY_ID :: "(string, pki_chain) dict" where
  "PKI_CHAINS_BY_ID = dict_of (map (\<lambda>c. (chain_id c, c)) ALL_PKI_CHAINS)"

definition SIGNATURE_SCHEME_NAMES :: "(int, string) dict" where
  "SIGNATURE_SCHEME_NAMES = dict_of (map (\<lambda>s. (sig_tls_scheme_id s, sig_tls_scheme s)) SIGNATURES)"

section \<open>Signature schemes\<close>

definition expected_signature_scheme :: "string \<Rightarrow> string res" where
  "expected_signature_scheme n = bindr (dindex SIGNATURES_BY_NAME n) (\<lambda>s. Inr (sig_tls_scheme s))"

definition normalize_signature_scheme :: "string \<Rightarrow> string \<Rightarrow> string res" where
  "normalize_signature_scheme value n = bindr (dindex SIGNATURES_BY_NAME n) (\<lambda>s.
     if value = [] \<or> value \<in> {sig_name s, sig_certificate_verify s, sig_leaf_key_type s}
     then Inr (sig_tls_scheme s) else Inr value)"

section \<open>Facts about identifiers\<close>

definition us :: char where
  "us = CHR ''_''"

definition slug_form :: "string \<Rightarrow> bool" where
  "slug_form s \<longleftrightarrow> (\<forall>c\<in>set s. is_slug_char c \<or> c = us) \<and>
     successively (\<lambda>a b. \<not> (a = us \<and> b = us)) s \<and>
     (s = [] \<or> (hd s \<noteq> us \<and> last s \<noteq> us))"

lemma not_slug_us [simp]: "\<not> is_slug_char us"
  by (simp add: us_def is_slug_char_def is_lower_az_def is_digit_def ccode_def)

lemma sub_runs_us: "sub_runs P (c # s) =
    (if P c then us # sub_runs P (dropWhile P s) else c # sub_runs P s)"
  by (simp add: us_def)

lemma set_sub_runs: "set (sub_runs P s) \<subseteq> insert us {c \<in> set s. \<not> P c}"
proof (induction P s rule: sub_runs.induct)
  case (2 P c s)
  then show ?case by (auto simp: sub_runs_us dest: set_dropWhileD simp del: sub_runs.simps)
qed simp

lemma hd_sub_runs_us: "sub_runs (\<lambda>c. c = us) s = [] \<or> hd (sub_runs (\<lambda>c. c = us) s) = hd s"
  by (cases s) (simp_all add: us_def)

lemma successively_sub_runs:
  "successively (\<lambda>a b. \<not> (a = us \<and> b = us)) (sub_runs (\<lambda>c. c = us) s)"
proof (induction "\<lambda>c. c = us" s rule: sub_runs.induct)
  case (2 c s)
  show ?case
  proof (cases "c = us")
    case True
    let ?t = "sub_runs (\<lambda>c. c = us) (dropWhile (\<lambda>c. c = us) s)"
    have "?t = [] \<or> hd ?t \<noteq> us"
      using hd_sub_runs_us [of "dropWhile (\<lambda>c. c = us) s"] hd_dropWhile [of "\<lambda>c. c = us" s]
      by (cases "dropWhile (\<lambda>c. c = us) s") (auto simp del: dropWhile_eq_Nil_conv)
    with 2(1) True show ?thesis by (auto simp: sub_runs_us successively_Cons simp del: sub_runs.simps)
  next
    case False
    with 2(2) show ?thesis by (auto simp: sub_runs_us successively_Cons simp del: sub_runs.simps)
  qed
qed simp

lemma sub_runs_id_slug:
  assumes "\<forall>c\<in>set s. P c \<longrightarrow> c = us" "successively (\<lambda>a b. \<not> (a = us \<and> b = us)) s"
  shows "sub_runs P s = s"
  using assms
proof (induction P s rule: sub_runs.induct)
  case (2 P c s)
  have tl: "\<forall>c\<in>set s. P c \<longrightarrow> c = us" "successively (\<lambda>a b. \<not> (a = us \<and> b = us)) s"
    using 2(3,4) by (auto simp: successively_Cons)
  show ?case
  proof (cases "P c")
    case True
    then have c: "c = us" using 2(3) by simp
    have d: "dropWhile P s = s"
    proof (cases s)
      case (Cons d u)
      then have "\<not> (c = us \<and> d = us)" using 2(4) by simp
      then have "\<not> P d" using c tl(1) Cons by auto
      then show ?thesis using Cons by simp
    qed simp
    have "sub_runs P s = s" using 2(1) [OF True] tl by (simp only: d)
    with True c d show ?thesis by (simp add: sub_runs_us del: sub_runs.simps)
  next
    case False
    with 2(2) [OF False tl] show ?thesis by simp
  qed
qed simp

lemma lower_slug_char: "is_slug_char c \<or> c = us \<Longrightarrow> lower_char c = c"
  by (auto simp: us_def is_slug_char_def is_lower_az_def is_digit_def lower_char_def Let_def ccode_def)

lemma strip_of_form:
  assumes "\<forall>c\<in>set s. is_slug_char c \<or> c = us" "successively (\<lambda>a b. \<not> (a = us \<and> b = us)) s"
  shows "slug_form (py_strip_of us s)"
proof -
  let ?P = "\<lambda>x. x = us"
  let ?t = "dropWhile ?P s"
  let ?r = "py_strip_of us s"
  have "\<exists>a b. s = a @ ?r @ b"
  proof -
    have s: "s = takeWhile ?P s @ ?t" by simp
    have "rev ?t = takeWhile ?P (rev ?t) @ dropWhile ?P (rev ?t)" by simp
    then have "?t = ?r @ rev (takeWhile ?P (rev ?t))"
      unfolding py_strip_of_def by (metis rev_append rev_rev_ident)
    with s show ?thesis by metis
  qed
  then obtain a b where ab: "s = a @ ?r @ b" by blast
  have ends: "hd ?r \<noteq> us \<and> last ?r \<noteq> us" if ne: "?r \<noteq> []"
  proof -
    have d: "dropWhile ?P (rev ?t) \<noteq> []" using ne by (simp add: py_strip_of_def)
    then have l: "last ?r \<noteq> us"
      using hd_dropWhile [OF d] by (simp add: py_strip_of_def last_rev)
    have "?t \<noteq> []" using d by (cases ?t) (simp_all del: dropWhile_eq_Nil_conv)
    have tr: "?t = ?r @ rev (takeWhile ?P (rev ?t))"
      unfolding py_strip_of_def by (metis rev_append rev_rev_ident takeWhile_dropWhile_id)
    have "hd ?t = hd ?r" by (subst tr) (simp add: ne)
    with hd_dropWhile [OF \<open>?t \<noteq> []\<close>] l show ?thesis by simp
  qed
  have "set ?r \<subseteq> set s" by (subst (2) ab) auto
  moreover have "successively (\<lambda>a b. \<not> (a = us \<and> b = us)) ?r"
    using assms(2) by (subst (asm) ab) (simp add: successively_append_iff)
  ultimately show ?thesis using assms(1) ends unfolding slug_form_def by blast
qed

lemma slug_form_slug: "slug_form (slug s)"
proof -
  let ?a = "sub_runs (\<lambda>c. \<not> is_slug_char c) (py_lower s)"
  have 1: "\<forall>c\<in>set ?a. is_slug_char c \<or> c = us"
    using set_sub_runs [of "\<lambda>c. \<not> is_slug_char c" "py_lower s"] by auto
  have "\<forall>c\<in>set (sub_runs (\<lambda>c. c = us) ?a). is_slug_char c \<or> c = us"
    using set_sub_runs [of "\<lambda>c. c = us" ?a] 1 by auto
  then show ?thesis
    unfolding slug_def us_def [symmetric] by (rule strip_of_form) (rule successively_sub_runs)
qed

lemma slug_of_form: assumes "slug_form s" shows "slug s = s"
proof -
  have chars: "\<forall>c\<in>set s. is_slug_char c \<or> c = us"
    and succ: "successively (\<lambda>a b. \<not> (a = us \<and> b = us)) s"
    and ends: "s = [] \<or> (hd s \<noteq> us \<and> last s \<noteq> us)"
    using assms by (simp_all add: slug_form_def)
  have "py_lower s = s"
    using chars lower_slug_char by (simp add: py_lower_def map_idI)
  moreover have "sub_runs (\<lambda>c. \<not> is_slug_char c) s = s"
    by (rule sub_runs_id_slug) (use chars succ in auto)
  moreover have "sub_runs (\<lambda>c. c = us) s = s"
    by (rule sub_runs_id_slug) (use succ in auto)
  moreover have "py_strip_of us s = s"
    using ends by (auto simp: py_strip_of_def dropWhile_id hd_rev)
  ultimately show ?thesis by (simp add: slug_def us_def [symmetric])
qed

section \<open>Facts about the tables\<close>

lemma dict_of_distinct:
  assumes "distinct (map fst kvs)"
  shows "map_of (dict_of kvs) k = map_of kvs k"
proof -
  have "map_of (rev kvs) = map_of kvs"
    using assms by (subst map_of_inject_set) (simp_all add: rev_map [symmetric])
  then show ?thesis by (simp add: dict_of_def map_of_dupdate split: option.splits)
qed

lemma dict_of_id:
  assumes "distinct (map fst kvs)"
  shows "dict_of kvs = kvs"
proof -
  have "distinct (map fst (d @ e)) \<Longrightarrow> dupdate d e = d @ e" for d e :: "('a, 'b) dict"
  proof (induction e arbitrary: d)
    case (Cons x e)
    have "dset (fst x) (snd x) d = d @ [x]"
      using Cons.prems by (induction d) (auto simp: dset_def)
    with Cons.IH [of "d @ [x]"] Cons.prems show ?case
      by (simp add: dupdate_def case_prod_beta)
  qed (simp add: dupdate_def)
  from this [of "[]" kvs] assms show ?thesis by (simp add: dict_of_def)
qed

lemma dindex_by_name:
  assumes "distinct (map nm xs)" "x \<in> set xs"
  shows "dindex (dict_of (map (\<lambda>y. (nm y, y)) xs)) (nm x) = Inr x"
proof -
  have d: "distinct (map fst (map (\<lambda>y. (nm y, y)) xs))"
    using assms(1) by (simp add: comp_def)
  have "map_of (map (\<lambda>y. (nm y, y)) xs) (nm x) = Some x"
    by (rule map_of_is_SomeI [OF d]) (use assms(2) in auto)
  then show ?thesis
    unfolding dindex_def dict_of_distinct [OF d] by (simp only: option.case)
qed

lemma distinct_kem_names: "distinct (map kem_name KEMS)"
  by code_simp

lemma distinct_signature_names: "distinct (map sig_name SIGNATURES)"
  by code_simp

lemma signature_lookup:
  "s \<in> set SIGNATURES \<Longrightarrow> dindex SIGNATURES_BY_NAME (sig_name s) = Inr s"
  unfolding SIGNATURES_BY_NAME_def by (rule dindex_by_name [OF distinct_signature_names])

lemma kem_lookup: "k \<in> set KEMS \<Longrightarrow> dindex KEMS_BY_NAME (kem_name k) = Inr k"
  unfolding KEMS_BY_NAME_def by (rule dindex_by_name [OF distinct_kem_names])

lemma distinct_chain_ids: "distinct (map chain_id ALL_PKI_CHAINS)"
  by code_simp

lemma length_chains: "length pki_chains = 28" "length ALL_PKI_CHAINS = 39"
  by code_simp+

lemma signatures_by_name: "SIGNATURES_BY_NAME = map (\<lambda>s. (sig_name s, s)) SIGNATURES"
  unfolding SIGNATURES_BY_NAME_def
  by (rule dict_of_id) (use distinct_signature_names in \<open>simp add: comp_def\<close>)

text \<open>What the client code relies on when it looks up the algorithms of a chain.\<close>

definition level_of :: "string \<Rightarrow> int" where
  "level_of n = (case dindex SIGNATURES_BY_NAME n of Inr s \<Rightarrow> sig_nist_level s | Inl _ \<Rightarrow> - 1)"

definition chain_ok :: "pki_chain \<Rightarrow> bool" where
  "chain_ok c \<longleftrightarrow> dhas SIGNATURES_BY_NAME (chain_root c) \<and> dhas SIGNATURES_BY_NAME (chain_leaf c) \<and>
     chain_intermediate c = chain_leaf c \<and> level_of (chain_root c) \<le> level_of (chain_leaf c) \<and>
     dindex PKI_CHAINS_BY_ID (chain_id c) = Inr c"

definition signature_levels :: "(string, int) dict" where
  "signature_levels = map (\<lambda>s. (sig_name s, sig_nist_level s)) SIGNATURES"

lemma map_of_name_level:
  "map_of (map (\<lambda>s. (sig_name s, sig_nist_level s)) ss) n =
     map_option sig_nist_level (map_of (map (\<lambda>s. (sig_name s, s)) ss) n)"
  by (induction ss) auto

lemma level_of_eq: "level_of n = dget signature_levels n (- 1)"
  by (simp add: level_of_def dget_def dindex_def signatures_by_name signature_levels_def
      map_of_name_level split: option.splits)

lemma known_eq: "dhas SIGNATURES_BY_NAME n \<longleftrightarrow> dhas signature_levels n"
  by (simp add: dhas_iff_key signatures_by_name signature_levels_def image_image)

definition signature_ends :: "(string \<times> string \<times> string) list" where
  "signature_ends = map (\<lambda>c. (chain_root c, chain_intermediate c, chain_leaf c)) ALL_PKI_CHAINS"

lemma signature_ends_eq: "signature_ends =
    concat (map (\<lambda>(lv, sigs). map (\<lambda>s. (s, s, s)) sigs) LIGHT_SIGNATURES_BY_LEVEL) @
    concat (map (\<lambda>(lv, roots). concat (map (\<lambda>rt.
       map (\<lambda>leaf. (rt, leaf, leaf)) (dget LIGHT_SIGNATURES_BY_LEVEL lv [])) roots)) HEAVY_ROOTS_BY_LEVEL) @
    concat (map (\<lambda>(lv, sigs). map (\<lambda>s. (s, s, s)) sigs) HEAVY_ROOTS_BY_LEVEL)"
  by (simp add: signature_ends_def ALL_PKI_CHAINS_def pki_chains_def HEAVY_HOMOGENEOUS_CHAINS_def
      homogeneous_chain_def heavy_root_chain_def map_concat comp_def case_prod_beta')

lemma ends_known: "list_all (\<lambda>(r, i, l). dhas signature_levels r \<and> dhas signature_levels l \<and> i = l \<and>
    dget signature_levels r (- 1) \<le> dget signature_levels l (- 1)) signature_ends"
  unfolding signature_ends_eq by code_simp

lemma all_chains_ok: "list_all chain_ok ALL_PKI_CHAINS"
proof -
  have "dindex PKI_CHAINS_BY_ID (chain_id c) = Inr c" if "c \<in> set ALL_PKI_CHAINS" for c
    unfolding PKI_CHAINS_BY_ID_def by (rule dindex_by_name [OF distinct_chain_ids that])
  with ends_known show ?thesis
    by (auto simp: list_all_iff chain_ok_def signature_ends_def level_of_eq known_eq)
qed

lemma normalize_signature_scheme_idem:
  "normalize_signature_scheme v n = Inr r \<Longrightarrow> normalize_signature_scheme r n = Inr r"
  by (auto simp: normalize_signature_scheme_def bindr_eq_Inr split: if_splits)

lemma normalize_signature_scheme_empty:
  "normalize_signature_scheme [] n = expected_signature_scheme n"
  by (simp add: normalize_signature_scheme_def expected_signature_scheme_def)

lemma normalize_unknown_signature:
  "\<not> dhas SIGNATURES_BY_NAME n \<Longrightarrow> normalize_signature_scheme v n = Inl (KeyError n)"
  by (simp add: normalize_signature_scheme_def dindex_def dhas_def)

lemma slug_idem: "slug (slug s) = slug s"
  by (rule slug_of_form) (rule slug_form_slug)

section \<open>Properties\<close>

text \<open>
  \<open>slug\<close> produces exactly the canonical identifiers (lower-case letters and digits, single
  underscores between them, none at either end) and leaves a canonical identifier unchanged, so
  it is idempotent.
\<close>

theorem slug_canonical:
  "slug (slug s) = slug s \<and> range slug = {t. slug_form t} \<and> (slug t = t \<longleftrightarrow> slug_form t)"
proof -
  have "slug t = t \<longleftrightarrow> slug_form t" for t
    using slug_of_form [of t] slug_form_slug [of t] by auto
  then show ?thesis using slug_form_slug slug_idem by (auto intro: range_eqI [OF sym])
qed

text \<open>
  Every chain of \<open>ALL_PKI_CHAINS\<close> names known root and leaf algorithms, signs the
  intermediate with the leaf algorithm, never has a root of a higher NIST level than its leaf, and
  is found under its own id in \<open>PKI_CHAINS_BY_ID\<close>; the 28 default and 11 heavy homogeneous
  chains have pairwise different ids.
\<close>

theorem pki_chains_consistent:
  "list_all chain_ok ALL_PKI_CHAINS \<and> distinct (map chain_id ALL_PKI_CHAINS) \<and>
   length pki_chains = 28 \<and> length ALL_PKI_CHAINS = 39"
  using all_chains_ok distinct_chain_ids length_chains by simp

end
