(* ===== verification/Py_Random.thy ===== *)
theory Py_Random
  imports Py_Prelude
begin

text \<open>
  \<open>random.Random(seed).shuffle(xs)\<close>.  The generator behind \<open>random.Random\<close> is a C
  extension, so it is a parameter of the model: a record with its seeding and its
  \<open>_randbelow\<close>, which returns an index below the bound and the next state.  The shuffle
  itself is \<open>Random.shuffle\<close>, the Fisher-Yates loop from the last position down.  The index
  is reduced modulo the bound; on every index that \<open>_randbelow\<close> can return the reduction is
  the identity, so the model covers each concrete generator and needs no hypothesis on it.
\<close>

record 'g rng =
  rng_seed :: "int \<Rightarrow> 'g"
  rng_below :: "'g \<Rightarrow> nat \<Rightarrow> nat \<times> 'g"

definition swap_at :: "nat \<Rightarrow> nat \<Rightarrow> 'a list \<Rightarrow> 'a list" where
  "swap_at i j xs = xs[i := xs ! j, j := xs ! i]"

fun shuffle_from :: "'g rng \<Rightarrow> nat \<Rightarrow> 'g \<Rightarrow> 'a list \<Rightarrow> 'a list \<times> 'g" where
  "shuffle_from R 0 g xs = (xs, g)"
| "shuffle_from R (Suc i) g xs =
     (let (r, g') = rng_below R g (Suc (Suc i))
      in shuffle_from R i g' (swap_at (Suc i) (r mod Suc (Suc i)) xs))"

definition shuffle_with :: "'g rng \<Rightarrow> 'g \<Rightarrow> 'a list \<Rightarrow> 'a list \<times> 'g" where
  "shuffle_with R g xs = shuffle_from R (length xs - 1) g xs"

definition seeded_shuffle :: "'g rng \<Rightarrow> int \<Rightarrow> 'a list \<Rightarrow> 'a list" where
  "seeded_shuffle R seed xs = fst (shuffle_with R (rng_seed R seed) xs)"

lemma length_swap_at [simp]: "length (swap_at i j xs) = length xs"
  by (simp add: swap_at_def)

lemma mset_swap_at: "i < length xs \<Longrightarrow> j < length xs \<Longrightarrow> mset (swap_at i j xs) = mset xs"
  by (simp add: swap_at_def mset_swap)

lemma map_swap_at:
  "i < length xs \<Longrightarrow> j < length xs \<Longrightarrow> map f (swap_at i j xs) = swap_at i j (map f xs)"
  by (simp add: swap_at_def map_update)

lemma mset_shuffle_from: "i < length xs \<or> i = 0 \<Longrightarrow> mset (fst (shuffle_from R i g xs)) = mset xs"
proof (induction i arbitrary: g xs)
  case (Suc i)
  obtain r g' where r: "rng_below R g (Suc (Suc i)) = (r, g')" by fastforce
  have "r mod Suc (Suc i) < length xs"
    using Suc.prems mod_less_divisor [of "Suc (Suc i)" r] by linarith
  then show ?case
    using Suc.IH [of "swap_at (Suc i) (r mod Suc (Suc i)) xs" g'] Suc.prems
    by (simp add: r mset_swap_at)
qed simp

lemma shuffle_from_map:
  "i < length xs \<or> i = 0 \<Longrightarrow>
   shuffle_from R i g (map f xs) = apfst (map f) (shuffle_from R i g xs)"
proof (induction i arbitrary: g xs)
  case (Suc i)
  obtain r g' where r: "rng_below R g (Suc (Suc i)) = (r, g')" by fastforce
  have "r mod Suc (Suc i) < length xs"
    using Suc.prems mod_less_divisor [of "Suc (Suc i)" r] by linarith
  then show ?case
    using Suc.IH [of "swap_at (Suc i) (r mod Suc (Suc i)) xs" g'] Suc.prems
    by (simp add: r map_swap_at)
qed simp

lemma mset_shuffle_with [simp]: "mset (fst (shuffle_with R g xs)) = mset xs"
  by (cases xs) (simp_all add: shuffle_with_def mset_shuffle_from)

lemma mset_seeded_shuffle [simp, py_simps]: "mset (seeded_shuffle R seed xs) = mset xs"
  by (simp add: seeded_shuffle_def)

lemma set_seeded_shuffle [simp, py_simps]: "set (seeded_shuffle R seed xs) = set xs"
  by (rule mset_eq_setD) simp

lemma set_shuffle_with [simp]: "set (fst (shuffle_with R g xs)) = set xs"
  by (rule mset_eq_setD) simp

lemma length_seeded_shuffle [simp, py_simps]: "length (seeded_shuffle R seed xs) = length xs"
  by (rule mset_eq_length) simp

lemma distinct_seeded_shuffle [simp]: "distinct (seeded_shuffle R seed xs) = distinct xs"
  by (rule mset_eq_imp_distinct_iff) simp

text \<open>The permutation depends on the length of the list only, not on its elements.\<close>

lemma seeded_shuffle_map: "seeded_shuffle R seed (map f xs) = map f (seeded_shuffle R seed xs)"
proof -
  have "length xs - 1 < length xs \<or> length xs - 1 = 0" by auto
  then show ?thesis
    by (simp add: seeded_shuffle_def shuffle_with_def shuffle_from_map)
qed

end
