(* ===== verification/Scheduler.thy ===== *)
theory Scheduler
  imports Py_Random
begin

text \<open>
  \<open>benchmarklib/scheduler.py\<close>: the ordered list of connection attempts of one campaign.  A case is
  a row of the case table (\<open>dict[str, str]\<close>); \<open>build_jobs\<close> numbers the attempts of every case,
  shuffles the attempts of the supported cases and appends the known-unsupported cases, each kept
  contiguous, in shuffled order.
\<close>

record session_job =
  sj_sequence :: int
  sj_case_id :: string
  sj_session :: int
  sj_attempt_in_session :: int
  sj_warmup :: int
  sj_measured_index :: int

section \<open>The jobs of one case\<close>

text \<open>The nested loops over sessions and attempts, in the order in which they run.\<close>

definition attempt_grid :: "int \<Rightarrow> int \<Rightarrow> (int \<times> int) list" where
  "attempt_grid sessions attempts =
     concat (map (\<lambda>s. map (\<lambda>a. (s, a)) [1..attempts]) [1..sessions])"

definition session_job_of ::
  "srow \<Rightarrow> int \<Rightarrow> int \<Rightarrow> int \<times> int \<Rightarrow> session_job res" where
  "session_job_of case_row warmups sequence sa = (case sa of (session, attempt) \<Rightarrow>
     (let is_warmup = (attempt \<le> warmups) in
      bindr (dindex case_row ''case_id'') (\<lambda>cid.
        Inr \<lparr>sj_sequence = sequence, sj_case_id = cid, sj_session = session,
             sj_attempt_in_session = attempt, sj_warmup = (if is_warmup then 1 else 0),
             sj_measured_index = (if is_warmup then 0 else attempt - warmups)\<rparr>)))"

fun number_jobs :: "srow \<Rightarrow> int \<Rightarrow> int \<Rightarrow> (int \<times> int) list \<Rightarrow> session_job list res" where
  "number_jobs case_row warmups sequence [] = Inr []"
| "number_jobs case_row warmups sequence (sa # grid) =
     bindr (session_job_of case_row warmups (sequence + 1) sa) (\<lambda>j.
     bindr (number_jobs case_row warmups (sequence + 1) grid) (\<lambda>js. Inr (j # js)))"

definition case_jobs_of :: "int \<Rightarrow> int \<Rightarrow> srow \<Rightarrow> session_job list res" where
  "case_jobs_of sessions_per_case sequence case_row =
     bindr (bindr (dindex case_row ''warmup_iterations'') py_int) (\<lambda>warmups.
     bindr (bindr (dindex case_row ''iterations'') py_int) (\<lambda>iterations.
     number_jobs case_row warmups sequence (attempt_grid sessions_per_case (warmups + iterations))))"

definition known_unsupported :: "srow \<Rightarrow> bool" where
  "known_unsupported case_row \<longleftrightarrow> map_of case_row ''expected_support'' = Some ''known_unsupported''"

section \<open>The whole plan\<close>

type_synonym plan_state = "session_job list \<times> session_job list list \<times> int"

definition add_case :: "int \<Rightarrow> plan_state \<Rightarrow> srow \<Rightarrow> plan_state res" where
  "add_case sessions_per_case st case_row = (case st of (normal, deferred, sequence) \<Rightarrow>
     bindr (case_jobs_of sessions_per_case sequence case_row) (\<lambda>js.
       Inr (if known_unsupported case_row
            then (normal, deferred @ [js], sequence + int (length js))
            else (normal @ js, deferred, sequence + int (length js)))))"

definition build_jobs :: "'g rng \<Rightarrow> srow list \<Rightarrow> int \<Rightarrow> int \<Rightarrow> session_job list res" where
  "build_jobs R cases seed sessions_per_case =
     bindr (foldr_res (add_case sessions_per_case) ([], [], 0) cases) (\<lambda>(normal, deferred, sequence).
       let (normal', g) = shuffle_with R (rng_seed R seed) normal;
           (deferred', g') = shuffle_with R g deferred
       in Inr (normal' @ concat deferred'))"

section \<open>What the jobs of a case look like\<close>

lemma number_jobs_sequences:
  "number_jobs c w n grid = Inr js \<Longrightarrow> map sj_sequence js = [n + 1..n + int (length grid)]"
proof (induction grid arbitrary: n js)
  case (Cons sa grid)
  then obtain j js' where j: "session_job_of c w (n + 1) sa = Inr j"
    and js': "number_jobs c w (n + 1) grid = Inr js'" and js: "js = j # js'"
    by (auto simp: bindr_eq_Inr)
  have "sj_sequence j = n + 1" using j
    by (auto simp: session_job_of_def bindr_eq_Inr Let_def split: prod.splits)
  with Cons.IH [OF js'] show ?case
    using upto_rec1 [of "n + 1" "n + int (length (sa # grid))"] by (simp add: js algebra_simps)
qed simp

lemma number_jobs_length: "number_jobs c w n grid = Inr js \<Longrightarrow> length js = length grid"
  by (drule number_jobs_sequences, drule arg_cong [where f = length]) simp

lemma number_jobs_slots:
  "number_jobs c w n grid = Inr js \<Longrightarrow>
   map (\<lambda>j. (sj_session j, sj_attempt_in_session j)) js = grid"
proof (induction grid arbitrary: n js)
  case (Cons sa grid)
  then show ?case
    by (fastforce simp: session_job_of_def bindr_eq_Inr Let_def split: prod.splits)
qed simp

definition job_fields_ok :: "string \<Rightarrow> int \<Rightarrow> session_job \<Rightarrow> bool" where
  "job_fields_ok cid w j \<longleftrightarrow> sj_case_id j = cid \<and>
     sj_warmup j = (if sj_attempt_in_session j \<le> w then 1 else 0) \<and>
     sj_measured_index j = (if sj_attempt_in_session j \<le> w then 0 else sj_attempt_in_session j - w)"

lemma number_jobs_fields:
  "number_jobs c w n grid = Inr js \<Longrightarrow> j \<in> set js \<Longrightarrow>
   \<exists>cid. map_of c ''case_id'' = Some cid \<and> job_fields_ok cid w j"
proof (induction grid arbitrary: n js)
  case (Cons sa grid)
  then show ?case
    by (fastforce simp: session_job_of_def bindr_eq_Inr Let_def dindex_def job_fields_ok_def
        split: prod.splits option.splits)
qed simp

lemma length_attempt_grid: "length (attempt_grid s a) = nat s * nat a"
  by (simp add: attempt_grid_def length_concat comp_def sum_list_triv)

lemma attempt_grid_mem: "(s, a) \<in> set (attempt_grid ns na) \<longleftrightarrow> 1 \<le> s \<and> s \<le> ns \<and> 1 \<le> a \<and> a \<le> na"
  by (auto simp: attempt_grid_def image_iff)

lemma distinct_grid:
  "distinct xs \<Longrightarrow> distinct ys \<Longrightarrow> distinct (concat (map (\<lambda>s. map (Pair s) ys) xs))"
  by (induction xs) (auto simp: distinct_map inj_on_def)

lemma distinct_attempt_grid: "distinct (attempt_grid s a)"
  by (simp add: attempt_grid_def distinct_grid)

section \<open>What the loop over the cases accumulates\<close>

text \<open>The jobs the loop has produced so far, in the order of their sequence numbers.\<close>

definition plan_ok :: "plan_state \<Rightarrow> bool" where
  "plan_ok st \<longleftrightarrow> (case st of (normal, deferred, sequence) \<Rightarrow>
     0 \<le> sequence \<and> mset (map sj_sequence (normal @ concat deferred)) = mset [1..sequence])"

lemma upto_append: "0 \<le> n \<Longrightarrow> 0 \<le> (k::int) \<Longrightarrow> [1..n] @ [n + 1..n + k] = [1..n + k]"
  using upto_split1 [of 1 "n + 1" "n + k"] by (cases "k = 0") simp_all

lemma case_jobs_sequences:
  "case_jobs_of s n c = Inr js \<Longrightarrow> map sj_sequence js = [n + 1..n + int (length js)]"
  by (auto simp: case_jobs_of_def bindr_eq_Inr number_jobs_length dest: number_jobs_sequences)

lemma add_case_plan_ok:
  assumes "plan_ok st" "add_case s st c = Inr st'"
  shows "plan_ok st'"
proof -
  obtain normal deferred n where st: "st = (normal, deferred, n)" by (cases st)
  obtain js where js: "case_jobs_of s n c = Inr js"
    and st': "st' = (if known_unsupported c
            then (normal, deferred @ [js], n + int (length js))
            else (normal @ js, deferred, n + int (length js)))"
    using assms(2) by (auto simp: add_case_def st bindr_eq_Inr)
  have n: "0 \<le> n" and m: "mset (map sj_sequence (normal @ concat deferred)) = mset [1..n]"
    using assms(1) by (simp_all add: plan_ok_def st)
  have "mset (map sj_sequence (normal @ concat deferred @ js)) =
      mset ([1..n] @ [n + 1..n + int (length js)])"
    using m by (simp add: case_jobs_sequences [OF js])
  also have "\<dots> = mset [1..n + int (length js)]"
    using n by (simp only: upto_append of_nat_0_le_iff)
  finally show ?thesis using n by (simp add: plan_ok_def st' ac_simps)
qed

lemma fold_plan_ok:
  "foldr_res (add_case s) ([], [], 0) cases = Inr st \<Longrightarrow> plan_ok st"
  by (erule foldr_res_invariant) (simp add: plan_ok_def, rule add_case_plan_ok)

lemma fold_plan_parts:
  "foldr_res (add_case s) (n0, d0, q0) cases = Inr (normal, deferred, q) \<Longrightarrow>
   \<exists>ns ds. normal = n0 @ concat ns \<and> deferred = d0 @ ds \<and>
     list_all2 (\<lambda>c js. \<exists>q. case_jobs_of s q c = Inr js) (filter (\<lambda>c. \<not> known_unsupported c) cases) ns \<and>
     list_all2 (\<lambda>c js. \<exists>q. case_jobs_of s q c = Inr js) (filter known_unsupported cases) ds"
proof (induction cases arbitrary: n0 d0 q0)
  case (Cons c cs)
  from Cons.prems obtain js where js: "case_jobs_of s q0 c = Inr js"
    and rest: "foldr_res (add_case s)
      (if known_unsupported c then (n0, d0 @ [js], q0 + int (length js))
       else (n0 @ js, d0, q0 + int (length js))) cs = Inr (normal, deferred, q)"
    by (cases "case_jobs_of s q0 c") (simp_all add: add_case_def [of s "(n0, d0, q0)" c])
  show ?case
  proof (cases "known_unsupported c")
    case True
    from Cons.IH [of n0 "d0 @ [js]" "q0 + int (length js)"] rest True obtain ns ds where
      "normal = n0 @ concat ns" "deferred = (d0 @ [js]) @ ds"
      "list_all2 (\<lambda>c js. \<exists>q. case_jobs_of s q c = Inr js) (filter (\<lambda>c. \<not> known_unsupported c) cs) ns"
      "list_all2 (\<lambda>c js. \<exists>q. case_jobs_of s q c = Inr js) (filter known_unsupported cs) ds"
      by auto
    with js True show ?thesis by (intro exI [of _ ns] exI [of _ "js # ds"]) auto
  next
    case False
    from Cons.IH [of "n0 @ js" d0 "q0 + int (length js)"] rest False obtain ns ds where
      "normal = (n0 @ js) @ concat ns" "deferred = d0 @ ds"
      "list_all2 (\<lambda>c js. \<exists>q. case_jobs_of s q c = Inr js) (filter (\<lambda>c. \<not> known_unsupported c) cs) ns"
      "list_all2 (\<lambda>c js. \<exists>q. case_jobs_of s q c = Inr js) (filter known_unsupported cs) ds"
      by auto
    with js False show ?thesis by (intro exI [of _ "js # ns"] exI [of _ ds]) auto
  qed
qed simp

lemma build_jobs_parts:
  assumes "build_jobs R cases seed s = Inr jobs"
  obtains ns ds normal' deferred' where
    "jobs = normal' @ concat deferred'"
    "mset normal' = mset (concat ns)" "mset deferred' = mset ds"
    "list_all2 (\<lambda>c js. \<exists>q. case_jobs_of s q c = Inr js) (filter (\<lambda>c. \<not> known_unsupported c) cases) ns"
    "list_all2 (\<lambda>c js. \<exists>q. case_jobs_of s q c = Inr js) (filter known_unsupported cases) ds"
    "mset (map sj_sequence jobs) = mset [1..int (length jobs)]"
proof -
  from assms obtain normal deferred q where
    f: "foldr_res (add_case s) ([], [], 0) cases = Inr (normal, deferred, q)"
    and j: "(let (normal', g) = shuffle_with R (rng_seed R seed) normal;
           (deferred', g') = shuffle_with R g deferred
       in Inr (normal' @ concat deferred')) = (Inr jobs :: session_job list res)"
    by (auto simp: build_jobs_def bindr_eq_Inr)
  obtain normal' g where n': "shuffle_with R (rng_seed R seed) normal = (normal', g)" by fastforce
  obtain deferred' g' where d': "shuffle_with R g deferred = (deferred', g')" by fastforce
  have jobs: "jobs = normal' @ concat deferred'" using j by (simp add: n' d')
  have mn: "mset normal' = mset normal" using mset_shuffle_with [of R "rng_seed R seed" normal] n' by simp
  have md: "mset deferred' = mset deferred" using mset_shuffle_with [of R g deferred] d' by simp
  from fold_plan_parts [OF f] obtain ns ds where parts: "normal = concat ns" "deferred = ds"
    "list_all2 (\<lambda>c js. \<exists>q. case_jobs_of s q c = Inr js) (filter (\<lambda>c. \<not> known_unsupported c) cases) ns"
    "list_all2 (\<lambda>c js. \<exists>q. case_jobs_of s q c = Inr js) (filter known_unsupported cases) ds"
    by auto
  have mc: "mset (concat deferred') = mset (concat deferred)"
    by (metis md mset_concat mset_map sum_mset_sum_list)
  have ok: "0 \<le> q" "mset (map sj_sequence (normal @ concat deferred)) = mset [1..q]"
    using fold_plan_ok [OF f] by (simp_all add: plan_ok_def)
  have mj: "mset jobs = mset (normal @ concat deferred)" by (simp add: jobs mn mc)
  have seqs: "mset (map sj_sequence jobs) = mset [1..q]" using ok(2) mj by (metis mset_map)
  have "int (length jobs) = q"
    using arg_cong [OF seqs, of size] ok(1) by simp
  with seqs that [OF jobs] mn md parts show thesis by simp
qed

section \<open>Properties\<close>

text \<open>
  C10: the plan is a numbered permutation: whatever generator is used, \<open>build_jobs\<close> gives every
  attempt exactly one sequence number (the numbers are 1 to the number of jobs, each once), and the
  jobs are exactly the jobs of the cases.  The jobs of the known-unsupported cases come after all
  others and those of one case stay together in their original order.
\<close>

theorem build_jobs_permutes:
  assumes "build_jobs R cases seed sessions = Inr jobs"
  shows "mset (map sj_sequence jobs) = mset [1..int (length jobs)] \<and>
    (\<exists>ns ds normal' deferred'. jobs = normal' @ concat deferred' \<and>
       mset normal' = mset (concat ns) \<and> mset deferred' = mset ds \<and>
       list_all2 (\<lambda>c js. \<exists>q. case_jobs_of sessions q c = Inr js)
         (filter (\<lambda>c. \<not> known_unsupported c) cases) ns \<and>
       list_all2 (\<lambda>c js. \<exists>q. case_jobs_of sessions q c = Inr js) (filter known_unsupported cases) ds)"
  using assms by (rule build_jobs_parts) blast

definition demo_rng :: "nat rng" where
  "demo_rng = \<lparr>rng_seed = nat, rng_below = \<lambda>g n. ((g * 7 + 3) mod n, g + 1)\<rparr>"

definition demo_cases :: "srow list" where
  "demo_cases = [[(''case_id'', ''a''), (''warmup_iterations'', ''1''), (''iterations'', ''2'')],
     [(''case_id'', ''b''), (''warmup_iterations'', ''0''), (''iterations'', ''1''),
      (''expected_support'', ''known_unsupported'')]]"

lemma demo_jobs: "\<exists>jobs. build_jobs demo_rng demo_cases 5 2 = Inr jobs \<and> length jobs = 8"
proof -
  have "(case build_jobs demo_rng demo_cases 5 2 of Inl e \<Rightarrow> False | Inr jobs \<Rightarrow> length jobs = 8)"
    by code_simp
  then show ?thesis by (auto split: sum.splits)
qed

theorem build_jobs_permutes_witness:
  "\<exists>jobs. build_jobs demo_rng demo_cases 5 2 = Inr jobs \<and>
     mset (map sj_sequence jobs) = mset [1..int (length jobs)] \<and> length jobs = 8"
  using demo_jobs build_jobs_permutes [of demo_rng demo_cases 5 2] by blast

text \<open>
  The attempts of one case run through every session 1..S and every attempt 1..W+N in that
  order; exactly the first W attempts of a session are warm-ups, and the measured attempts are
  numbered 1..N from the first attempt after the warm-ups.
\<close>

theorem case_jobs_layout:
  assumes "case_jobs_of sessions q c = Inr js"
    and "dindex c ''warmup_iterations'' = Inr ws" and "py_int ws = Inr w"
    and "dindex c ''iterations'' = Inr ns" and "py_int ns = Inr n"
  shows "map (\<lambda>j. (sj_session j, sj_attempt_in_session j)) js = attempt_grid sessions (w + n) \<and>
    length js = nat sessions * nat (w + n) \<and>
    (\<forall>j\<in>set js. map_of c ''case_id'' = Some (sj_case_id j) \<and>
       1 \<le> sj_attempt_in_session j \<and> sj_attempt_in_session j \<le> w + n \<and>
       sj_warmup j = (if sj_attempt_in_session j \<le> w then 1 else 0) \<and>
       sj_measured_index j = (if sj_attempt_in_session j \<le> w then 0 else sj_attempt_in_session j - w))"
proof -
  have n: "number_jobs c w q (attempt_grid sessions (w + n)) = Inr js"
    using assms by (simp add: case_jobs_of_def)
  have slots: "map (\<lambda>j. (sj_session j, sj_attempt_in_session j)) js = attempt_grid sessions (w + n)"
    by (rule number_jobs_slots [OF n])
  have grid: "(sj_session j, sj_attempt_in_session j) \<in> set (attempt_grid sessions (w + n))"
    if "j \<in> set js" for j
    using that by (simp add: image_iff flip: slots) blast
  show ?thesis
    using slots number_jobs_length [OF n] number_jobs_fields [OF n] grid
    by (fastforce simp: length_attempt_grid attempt_grid_mem job_fields_ok_def)
qed

theorem case_jobs_layout_witness:
  "\<exists>js. case_jobs_of 2 0 (hd demo_cases) = Inr js \<and> length js = 6"
proof -
  have ok: "(case case_jobs_of 2 0 (hd demo_cases) of Inl e \<Rightarrow> False | Inr js \<Rightarrow> True)"
    by code_simp
  then obtain js where js: "case_jobs_of 2 0 (hd demo_cases) = Inr js" by (auto split: sum.splits)
  have c: "dindex (hd demo_cases) ''warmup_iterations'' = Inr ''1''" "py_int ''1'' = Inr 1"
    "dindex (hd demo_cases) ''iterations'' = Inr ''2''" "py_int ''2'' = Inr 2"
    by code_simp+
  from case_jobs_layout [OF js c] js show ?thesis by auto
qed

end
