(* ===== verification/Py_Float.thy ===== *)
theory Py_Float
  imports Py_Prelude "HOL-Library.Log_Nat"
begin

text \<open>
  Python floats.  A finite double is the rational number it stands for; every arithmetic
  operation is the exact rational operation followed by \<open>round64\<close>, IEEE 754 binary64
  round-half-to-even with gradual underflow.  Infinities, NaN and the sign of zero are outside
  the model: parsing one of them yields \<open>OutsideModel\<close>.  The locale \<open>rounding\<close>
  states what the numerical lemmas of the other theories need of the rounding; \<open>round64\<close>
  is shown to provide it.  The functions of the module \<open>statistics\<close> that the sources call
  (\<open>fmean\<close>, \<open>mean\<close>, \<open>median\<close>, \<open>stdev\<close>), the format specifiers
  \<open>.kf\<close> and the parser \<open>float(s)\<close> follow.
\<close>

section \<open>Rounding to an integer, half to even\<close>

definition rhe :: "rat \<Rightarrow> int" where
  "rhe x = (let f = \<lfloor>x\<rfloor>; d = x - of_int f in
     if d < 1 / 2 then f else if 1 / 2 < d then f + 1 else if even f then f else f + 1)"

lemma rhe_of_int [simp]: "rhe (of_int n) = n"
  by (simp add: rhe_def)

lemma rhe_bounds: "\<lfloor>x\<rfloor> \<le> rhe x" "rhe x \<le> \<lfloor>x\<rfloor> + 1"
  by (simp_all add: rhe_def Let_def)

lemma rhe_mono: assumes "x \<le> y" shows "rhe x \<le> rhe y"
proof (cases "\<lfloor>x\<rfloor> = \<lfloor>y\<rfloor>")
  case True
  then show ?thesis using assms by (auto simp: rhe_def Let_def)
next
  case False
  then have "\<lfloor>x\<rfloor> + 1 \<le> \<lfloor>y\<rfloor>" using floor_mono [OF assms] by linarith
  then show ?thesis using rhe_bounds(2) [of x] rhe_bounds(1) [of y] by linarith
qed

lemma rhe_between: "of_int a \<le> x \<Longrightarrow> x \<le> of_int b \<Longrightarrow> a \<le> rhe x \<and> rhe x \<le> b"
  using rhe_mono [of "of_int a" x] rhe_mono [of x "of_int b"] by simp

lemma rhe_error: "\<bar>of_int (rhe x) - x\<bar> \<le> 1 / 2"
proof -
  have b: "of_int \<lfloor>x\<rfloor> \<le> x" "x < of_int \<lfloor>x\<rfloor> + 1" by linarith+
  consider "x - of_int \<lfloor>x\<rfloor> < 1 / 2" "rhe x = \<lfloor>x\<rfloor>" | "1 / 2 < x - of_int \<lfloor>x\<rfloor>" "rhe x = \<lfloor>x\<rfloor> + 1"
    | "x - of_int \<lfloor>x\<rfloor> = 1 / 2" "rhe x = \<lfloor>x\<rfloor> \<or> rhe x = \<lfloor>x\<rfloor> + 1"
    unfolding rhe_def Let_def by (cases "x - of_int \<lfloor>x\<rfloor>" "1 / 2 :: rat" rule: linorder_cases) auto
  then show ?thesis
    using b by cases (simp_all add: abs_le_iff, auto)
qed

section \<open>The binary exponent\<close>

text \<open>Powers of two with an integer exponent, computed over the integers.\<close>

definition pow2 :: "int \<Rightarrow> rat" where
  "pow2 e = (if 0 \<le> e then of_int (2 ^ nat e) else 1 / of_int (2 ^ nat (- e)))"

lemma pow2_powi [simp]: "pow2 e = 2 powi e"
  by (simp add: pow2_def power_int_def field_simps)

definition flog2 :: "rat \<Rightarrow> int" where
  "flog2 x = (let (p, q) = quotient_of x; e = bitlen p - bitlen q in
     if pow2 e \<le> x then e else e - 1)"

lemma powi_mono_2: "a \<le> b \<Longrightarrow> (2::rat) powi a \<le> 2 powi b"
  by (rule power_int_increasing) simp_all

lemma powi_pos_2 [simp]: "0 < (2::rat) powi a"
  by (simp add: zero_less_power_int)

lemma powi_2_less_iff: "(2::rat) powi a < 2 powi b \<longleftrightarrow> a < b"
  using powi_mono_2 [of b a] power_int_strict_increasing [of a b "2::rat"] by (meson linorder_not_le one_less_numeral_iff semiring_norm(76))

lemma powi_2_add: "(2::rat) powi (a + b) = 2 powi a * 2 powi b"
  by (rule power_int_add) simp

lemma powi_2_diff: "(2::rat) powi (a - b) = 2 powi a / 2 powi b"
  by (rule power_int_diff) simp

lemma powi_2_int: "0 \<le> a \<Longrightarrow> (2::rat) powi a = of_int (2 ^ nat a)"
  by (simp add: power_int_def)

lemma bitlen_rat_bounds:
  assumes "0 < n"
  shows "2 powi (bitlen n - 1) \<le> (of_int n :: rat)" "(of_int n :: rat) < 2 powi bitlen n"
proof -
  have b: "2 ^ nat (bitlen n - 1) \<le> n \<and> n < 2 ^ nat (bitlen n)"
    using bitlen_bounds assms by blast
  have nn: "0 \<le> bitlen n - 1"
    using assms bitlen_eq_zero_iff [of n] bitlen_nonneg [of n] by linarith
  from b have "(of_int (2 ^ nat (bitlen n - 1)) :: rat) \<le> of_int n" by (simp only: of_int_le_iff)
  with nn show "2 powi (bitlen n - 1) \<le> (of_int n :: rat)" by (simp only: powi_2_int)
  from b have "(of_int n :: rat) < of_int (2 ^ nat (bitlen n))" by (simp only: of_int_less_iff)
  with nn show "(of_int n :: rat) < 2 powi bitlen n" by (simp only: powi_2_int)
qed

lemma flog2_bounds:
  assumes "0 < x"
  shows "2 powi flog2 x \<le> x" "x < 2 powi (flog2 x + 1)"
proof -
  obtain p q where pq: "quotient_of x = (p, q)" by (cases "quotient_of x")
  have q: "0 < q" using pq by (rule quotient_of_denom_pos)
  have x: "x = of_int p / of_int q" using pq by (rule quotient_of_div)
  with assms q have p: "0 < p" by (simp add: zero_less_divide_iff)
  let ?e = "bitlen p - bitlen q"
  have "2 powi (bitlen p - 1) / 2 powi bitlen q \<le> x"
    unfolding x using q p bitlen_rat_bounds [of p] bitlen_rat_bounds [of q]
    by (intro frac_le) auto
  then have lo: "2 powi (?e - 1) \<le> x" by (simp flip: powi_2_diff add: algebra_simps)
  have "x < 2 powi bitlen p / 2 powi (bitlen q - 1)"
    unfolding x using q p bitlen_rat_bounds [of p] bitlen_rat_bounds [of q]
    by (intro frac_less) auto
  then have hi: "x < 2 powi (?e + 1)" by (simp flip: powi_2_diff add: algebra_simps)
  show "2 powi flog2 x \<le> x" "x < 2 powi (flog2 x + 1)"
    using lo hi by (auto simp: flog2_def pq Let_def)
qed

lemma flog2_unique:
  assumes "2 powi e \<le> x" "x < 2 powi (e + 1)"
  shows "flog2 x = e"
proof -
  have x: "0 < x" using assms(1) powi_pos_2 [of e] by linarith
  have "(2::rat) powi e < 2 powi (flog2 x + 1)" "(2::rat) powi flog2 x < 2 powi (e + 1)"
    using assms flog2_bounds [OF x] by linarith+
  then show ?thesis by (simp only: powi_2_less_iff)
qed

section \<open>Rounding to binary64\<close>

definition quantum_exp :: "rat \<Rightarrow> int" where
  "quantum_exp x = max (flog2 x - 52) (- 1074)"

definition round_pos :: "rat \<Rightarrow> rat" where
  "round_pos x = (let q = pow2 (quantum_exp x) in of_int (rhe (x / q)) * q)"

lemma round_pos_powi: "round_pos x = of_int (rhe (x / 2 powi quantum_exp x)) * 2 powi quantum_exp x"
  by (simp add: round_pos_def Let_def)

definition round64 :: "rat \<Rightarrow> rat" where
  "round64 x = (if x = 0 then 0 else if 0 < x then round_pos x else - round_pos (- x))"

definition is_f64 :: "rat \<Rightarrow> bool" where
  "is_f64 v \<longleftrightarrow> (\<exists>n e. v = of_int n * 2 powi e \<and> \<bar>n\<bar> \<le> 2 ^ 53 \<and> - 1074 \<le> e)"

lemma rhe_scale_int:
  assumes "e' \<le> e"
  shows "\<exists>m. of_int n * (2::rat) powi e / 2 powi e' = of_int m"
proof -
  have "of_int n * (2::rat) powi e / 2 powi e' = of_int n * 2 powi (e - e')"
    by (simp add: powi_2_diff)
  also have "\<dots> = of_int (n * 2 ^ nat (e - e'))"
    using assms by (simp add: powi_2_int)
  finally show ?thesis by blast
qed

lemma round_pos_exact:
  assumes "v / 2 powi quantum_exp v = of_int m"
  shows "round_pos v = v"
proof -
  have "round_pos v = v / 2 powi quantum_exp v * 2 powi quantum_exp v"
    by (simp add: round_pos_powi assms)
  then show ?thesis by simp
qed

lemma round_pos_f64:
  assumes v: "v = of_int n * 2 powi e" and n: "0 < n" "n \<le> 2 ^ 53" and e: "- 1074 \<le> e"
  shows "round_pos v = v"
proof -
  have vpos: "0 < v" using n by (simp add: v)
  have le: "(of_int n :: rat) \<le> of_int (2 ^ 53)" using n by (simp only: of_int_le_iff)
  show ?thesis
  proof (cases "quantum_exp v \<le> e")
    case True
    then obtain m where "v / 2 powi quantum_exp v = of_int m"
      unfolding v using rhe_scale_int by blast
    then show ?thesis by (rule round_pos_exact)
  next
    case False
    with e have f: "e + 53 \<le> flog2 v" "quantum_exp v = flog2 v - 52"
      by (auto simp: quantum_exp_def max_def split: if_splits)
    have "2 powi (e + 53) \<le> v"
      using flog2_bounds(1) [OF vpos] powi_mono_2 [OF f(1)] by linarith
    then have "2 powi 53 \<le> (of_int n :: rat)"
      by (simp add: v powi_2_add mult.commute)
    with le have n53: "(of_int n :: rat) = 2 powi 53" by (simp add: power_int_def)
    then have v': "v = 2 powi (e + 53)" by (simp only: v powi_2_add mult.commute)
    have "flog2 v = e + 53" by (rule flog2_unique) (simp_all add: v' powi_2_add)
    with f v' have "v / 2 powi quantum_exp v = of_int (2 ^ 52)"
      by (simp flip: powi_2_diff add: powi_2_int)
    then show ?thesis by (rule round_pos_exact)
  qed
qed

lemma round64_0 [simp]: "round64 0 = 0"
  by (simp add: round64_def)

lemma round64_minus: "round64 (- x) = - round64 x"
  by (simp add: round64_def)

lemma round64_f64: assumes "is_f64 v" shows "round64 v = v"
proof -
  obtain n e where v: "v = of_int n * 2 powi e" and n: "\<bar>n\<bar> \<le> 2 ^ 53" and e: "- 1074 \<le> e"
    using assms by (auto simp: is_f64_def)
  consider "n = 0" | "0 < n" | "n < 0" by linarith
  then show ?thesis
  proof cases
    case 2
    then have "0 < v" by (simp add: v)
    then show ?thesis using round_pos_f64 [OF v 2 _ e] n by (simp add: round64_def)
  next
    case 3
    then have "v < 0" by (simp add: v mult_less_0_iff)
    moreover have "- v = of_int (- n) * 2 powi e" by (simp add: v)
    ultimately show ?thesis using round_pos_f64 [of "- v" "- n" e] 3 n e by (simp add: round64_def)
  qed (simp add: v)
qed

lemma round_pos_rep:
  assumes "0 < x"
  shows "\<exists>n. round_pos x = of_int n * 2 powi quantum_exp x \<and> 0 \<le> n \<and> n \<le> 2 ^ 53"
proof -
  let ?q = "quantum_exp x"
  have "x < 2 powi (flog2 x + 1)" using flog2_bounds [OF assms] by simp
  also have "\<dots> \<le> 2 powi (?q + 53)" by (rule powi_mono_2) (simp add: quantum_exp_def)
  finally have "x \<le> 2 powi 53 * 2 powi ?q" by (simp only: powi_2_add mult.commute less_imp_le)
  then have "x / 2 powi ?q \<le> 2 powi 53" by (simp only: pos_divide_le_eq powi_pos_2)
  then have "x / 2 powi ?q \<le> of_int (2 ^ 53)" by (simp only: powi_2_int) simp
  moreover have "of_int 0 \<le> x / 2 powi ?q" using assms by (simp add: less_imp_le)
  ultimately have "0 \<le> rhe (x / 2 powi ?q) \<and> rhe (x / 2 powi ?q) \<le> 2 ^ 53"
    using rhe_between by blast
  then show ?thesis by (auto simp: round_pos_powi)
qed

lemma round_pos_nonneg: "0 < x \<Longrightarrow> 0 \<le> round_pos x"
  using round_pos_rep [of x] by (auto simp: less_imp_le)

lemma is_f64_minus: assumes "is_f64 v" shows "is_f64 (- v)"
proof -
  obtain n e where "v = of_int n * 2 powi e" "\<bar>n\<bar> \<le> 2 ^ 53" "- 1074 \<le> e"
    using assms by (auto simp: is_f64_def)
  then show ?thesis unfolding is_f64_def by (intro exI [of _ "- n"] exI [of _ e]) simp
qed

lemma is_f64_round64: "is_f64 (round64 x)"
proof -
  have pos: "is_f64 (round_pos y)" if y: "0 < y" for y
  proof -
    obtain n where "round_pos y = of_int n * 2 powi quantum_exp y" "0 \<le> n" "n \<le> 2 ^ 53"
      using round_pos_rep [OF y] by blast
    then show ?thesis unfolding is_f64_def
      by (intro exI [of _ n] exI [of _ "quantum_exp y"]) (simp add: quantum_exp_def)
  qed
  have "is_f64 0" by (auto simp: is_f64_def intro!: exI [of _ 0])
  with pos [of x] pos [of "- x"] show ?thesis
    by (auto simp: round64_def intro: is_f64_minus)
qed

lemma round64_idem [simp]: "round64 (round64 x) = round64 x"
  by (rule round64_f64) (rule is_f64_round64)

lemma is_f64_of_int: "\<bar>n\<bar> \<le> 2 ^ 53 \<Longrightarrow> is_f64 (of_int n)"
  unfolding is_f64_def by (intro exI [of _ n] exI [of _ 0]) simp

lemma round64_of_int: "\<bar>n\<bar> \<le> 2 ^ 53 \<Longrightarrow> round64 (of_int n) = of_int n"
  by (rule round64_f64) (rule is_f64_of_int)

lemma flog2_mono: assumes "0 < x" "x \<le> y" shows "flog2 x \<le> flog2 y"
proof -
  have "(2::rat) powi flog2 x < 2 powi (flog2 y + 1)"
    using assms flog2_bounds [of x] flog2_bounds [of y] by linarith
  then show ?thesis by (simp only: powi_2_less_iff)
qed

lemma round_pos_mono:
  assumes "0 < x" "x \<le> y"
  shows "round_pos x \<le> round_pos y"
proof (cases "quantum_exp x = quantum_exp y")
  case True
  have "x / 2 powi quantum_exp y \<le> y / 2 powi quantum_exp y"
    using assms by (simp add: divide_right_mono less_imp_le)
  then have "rhe (x / 2 powi quantum_exp y) \<le> rhe (y / 2 powi quantum_exp y)" by (rule rhe_mono)
  then show ?thesis by (simp add: round_pos_powi True mult_right_mono less_imp_le)
next
  case False
  let ?B = "(2::rat) powi flog2 y"
  have f: "quantum_exp x < quantum_exp y" "quantum_exp y = flog2 y - 52" "flog2 x < flog2 y"
    using False flog2_mono [OF assms] by (auto simp: quantum_exp_def max_def split: if_splits)
  obtain m where m: "?B / 2 powi quantum_exp x = of_int m"
    using rhe_scale_int [of "quantum_exp x" "flog2 y" 1] f by auto
  have "x < 2 powi (flog2 x + 1)" using flog2_bounds assms by simp
  also have "\<dots> \<le> ?B" using f by (intro powi_mono_2) simp
  finally have "x / 2 powi quantum_exp x \<le> of_int m"
    by (simp flip: m add: divide_right_mono less_imp_le)
  then have "(of_int (rhe (x / 2 powi quantum_exp x)) :: rat) \<le> ?B / 2 powi quantum_exp x"
    using rhe_mono [of _ "of_int m"] by (simp add: m)
  then have "round_pos x \<le> ?B" by (simp add: round_pos_powi pos_le_divide_eq)
  moreover
  obtain k where k: "?B / 2 powi quantum_exp y = of_int k"
    using rhe_scale_int [of "quantum_exp y" "flog2 y" 1] f by auto
  have "?B \<le> y" using flog2_bounds assms by simp
  then have "of_int k \<le> y / 2 powi quantum_exp y"
    by (simp flip: k add: divide_right_mono less_imp_le)
  then have "?B / 2 powi quantum_exp y \<le> of_int (rhe (y / 2 powi quantum_exp y))"
    using rhe_mono [of "of_int k"] by (simp add: k)
  then have "?B \<le> round_pos y" by (simp add: round_pos_powi pos_divide_le_eq)
  ultimately show ?thesis by linarith
qed

lemma round64_mono: assumes "x \<le> y" shows "round64 x \<le> round64 y"
proof -
  consider "0 < x" | "x \<le> 0" "0 \<le> y" | "y < 0" by linarith
  then show ?thesis
  proof cases
    case 1
    then show ?thesis using assms round_pos_mono [of x y] by (simp add: round64_def)
  next
    case 2
    then have "round64 x \<le> 0 \<and> 0 \<le> round64 y"
      using round_pos_nonneg [of y] round_pos_nonneg [of "- x"] by (auto simp: round64_def)
    then show ?thesis by linarith
  next
    case 3
    then show ?thesis using assms round_pos_mono [of "- y" "- x"] by (simp add: round64_def)
  qed
qed

section \<open>The rounding error\<close>

lemma round_pos_error:
  assumes "0 < x"
  shows "\<bar>round_pos x - x\<bar> \<le> x / 2 ^ 53 + 1 / 2 ^ 1075"
proof -
  let ?q = "(2::rat) powi quantum_exp x"
  have q: "0 < ?q" by simp
  have le: "?q \<le> x / 2 ^ 52 + 1 / 2 ^ 1074"
  proof (cases "flog2 x - 52 \<le> - 1074")
    case True
    then have "?q = 2 powi (- 1074)" by (simp add: quantum_exp_def max_def)
    also have "\<dots> = 1 / 2 ^ 1074" by (simp only: power_int_minus power_int_numeral inverse_eq_divide)
    also have "\<dots> \<le> x / 2 ^ 52 + 1 / 2 ^ 1074" using assms by (intro add_increasing) simp_all
    finally show ?thesis .
  next
    case False
    then have "quantum_exp x = flog2 x - 52" by (simp add: quantum_exp_def max_def)
    then have "?q = 2 powi flog2 x / 2 ^ 52" by (simp only: powi_2_diff power_int_numeral)
    also have "\<dots> \<le> x / 2 ^ 52" using flog2_bounds(1) [OF assms] by (intro divide_right_mono) simp_all
    also have "\<dots> \<le> x / 2 ^ 52 + 1 / 2 ^ 1074" by (intro add_increasing2) simp_all
    finally show ?thesis .
  qed
  have "round_pos x - x = (of_int (rhe (x / ?q)) - x / ?q) * ?q"
    by (simp add: round_pos_powi left_diff_distrib)
  then have "\<bar>round_pos x - x\<bar> = \<bar>of_int (rhe (x / ?q)) - x / ?q\<bar> * ?q"
    using q by (simp add: abs_mult)
  also have "\<dots> \<le> 1 / 2 * ?q"
    using rhe_error [of "x / ?q"] q by (intro mult_right_mono) simp_all
  also have "1 / 2 * ?q \<le> 1 / 2 * (x / 2 ^ 52 + 1 / 2 ^ 1074)" using le by (intro mult_left_mono) simp_all
  also have "1 / 2 * (x / 2 ^ 52 + 1 / 2 ^ 1074) = x / 2 ^ Suc 52 + 1 / 2 ^ Suc 1074"
    by (simp only: power_Suc ring_distribs times_divide_times_eq mult_1)
  finally show ?thesis by (simp only: Suc_numeral semiring_norm)
qed

lemma round64_error: "\<bar>round64 x - x\<bar> \<le> \<bar>x\<bar> / 2 ^ 53 + 1 / 2 ^ 1075"
  using round_pos_error [of x] round_pos_error [of "- x"] by (auto simp: round64_def abs_minus_commute)

definition tiny :: rat where
  "tiny = 1 / 2 ^ 1075"

lemma tiny_bounds: "0 < tiny" "tiny \<le> 1 / 2 ^ 75" "t \<le> 2 ^ 1000 \<Longrightarrow> tiny * t \<le> 1 / 2 ^ 75"
proof -
  show pos: "0 < tiny" by (simp only: tiny_def zero_less_divide_1_iff zero_less_power zero_less_numeral)
  have "tiny * 2 ^ 1000 = 2 ^ 1000 / (2 ^ 1000 * 2 ^ 75)"
    unfolding tiny_def by (simp only: flip: power_add) (simp only: numeral_plus_numeral add_num_simps times_divide_eq_left mult_1)
  also have "\<dots> = 1 / 2 ^ 75" by (simp only: nonzero_divide_mult_cancel_left power_not_zero zero_neq_numeral not_False_eq_True simp_thms)
  finally have e: "tiny * 2 ^ 1000 = 1 / 2 ^ 75" .
  show le: "t \<le> 2 ^ 1000 \<Longrightarrow> tiny * t \<le> 1 / 2 ^ 75" for t
    using mult_left_mono [of t "2 ^ 1000" tiny] pos by (simp only: e less_imp_le)
  have "(1::rat) \<le> 2 ^ 1000" by (simp only: one_le_power one_le_numeral)
  from le [OF this] show "tiny \<le> 1 / 2 ^ 75" by simp
qed

lemma round64_close: "round64 x - x \<le> \<bar>x\<bar> / 9007199254740992 + tiny" "x - round64 x \<le> \<bar>x\<bar> / 9007199254740992 + tiny"
proof -
  have "\<bar>round64 x - x\<bar> \<le> \<bar>x\<bar> / 2 ^ 53 + tiny" using round64_error [of x] by (simp only: tiny_def)
  then show "round64 x - x \<le> \<bar>x\<bar> / 9007199254740992 + tiny" "x - round64 x \<le> \<bar>x\<bar> / 9007199254740992 + tiny"
    by (simp_all add: abs_le_iff)
qed

lemma round64_within:
  assumes "\<bar>x\<bar> \<le> m"
  shows "round64 x \<le> x + m / 9007199254740992 + tiny" "x - m / 9007199254740992 - tiny \<le> round64 x"
  using round64_close [of x] assms divide_right_mono [of "\<bar>x\<bar>" m "9007199254740992"] by simp_all

section \<open>What the numerical lemmas need of the rounding\<close>

locale rounding =
  fixes rnd :: "rat \<Rightarrow> rat"
  assumes rnd_mono: "x \<le> y \<Longrightarrow> rnd x \<le> rnd y"
    and rnd_idem: "rnd (rnd x) = rnd x"
    and rnd_minus: "rnd (- x) = - rnd x"
begin

lemma rnd_0: "rnd 0 = 0"
  using rnd_minus [of 0] by simp

lemma rnd_nonneg: "0 \<le> x \<Longrightarrow> 0 \<le> rnd x"
  using rnd_mono [of 0 x] by (simp add: rnd_0)

lemma rnd_nonpos: "x \<le> 0 \<Longrightarrow> rnd x \<le> 0"
  using rnd_mono [of x 0] by (simp add: rnd_0)

lemma rnd_lower: "rnd a = a \<Longrightarrow> a \<le> x \<Longrightarrow> a \<le> rnd x"
  using rnd_mono [of a x] by simp

lemma rnd_upper: "rnd b = b \<Longrightarrow> x \<le> b \<Longrightarrow> rnd x \<le> b"
  using rnd_mono [of x b] by simp

lemma rnd_scaled_le:
  assumes "0 \<le> d" "0 \<le> t" "t \<le> 1" "rnd d = d"
  shows "0 \<le> rnd (d * t) \<and> rnd (d * t) \<le> d"
proof -
  have "d * t \<le> d" using assms mult_left_le [of t d] by simp
  then show ?thesis using assms by (simp add: rnd_nonneg rnd_upper)
qed

text \<open>
  Linear interpolation \<open>a + (b - a) * t\<close> in rounded arithmetic never falls below its left
  end, and never passes its right end when the difference of the ends is exact.
\<close>

lemma rnd_lerp_lower:
  assumes "rnd a = a" "a \<le> b" "0 \<le> t"
  shows "a \<le> rnd (a + rnd (rnd (b - a) * t))"
  using assms by (intro rnd_lower) (auto intro!: rnd_nonneg mult_nonneg_nonneg)

lemma rnd_lerp_upper:
  assumes "rnd b = b" "a \<le> b" "0 \<le> t" "t \<le> 1" "rnd (b - a) = b - a"
  shows "rnd (a + rnd (rnd (b - a) * t)) \<le> b"
proof -
  have "rnd (rnd (b - a) * t) \<le> b - a"
    using rnd_scaled_le [of "b - a" t] assms by simp
  then show ?thesis using assms(1) by (intro rnd_upper) simp_all
qed

end

interpretation f64: rounding round64
  by unfold_locales (simp_all add: round64_mono round64_minus)

section \<open>Arithmetic\<close>

definition fadd :: "rat \<Rightarrow> rat \<Rightarrow> rat" where
  "fadd a b = round64 (a + b)"

definition fsub :: "rat \<Rightarrow> rat \<Rightarrow> rat" where
  "fsub a b = round64 (a - b)"

definition fmul :: "rat \<Rightarrow> rat \<Rightarrow> rat" where
  "fmul a b = round64 (a * b)"

text \<open>Division by a divisor the source has tested to be non-zero.\<close>

definition fdiv :: "rat \<Rightarrow> rat \<Rightarrow> rat" where
  "fdiv a b = round64 (a / b)"

definition float_of_int :: "int \<Rightarrow> rat" where
  "float_of_int n = round64 (of_int n)"

definition float_of_nat :: "nat \<Rightarrow> rat" where
  "float_of_nat n = round64 (of_nat n)"

text \<open>\<open>sum(xs)\<close> of floats: left to right from the integer zero.\<close>

definition py_sum :: "rat list \<Rightarrow> rat" where
  "py_sum xs = fold (\<lambda>x acc. fadd acc x) xs 0"

text \<open>The mean \<open>sum(xs) / len(xs)\<close> as the sources write it.\<close>

definition sum_over_len :: "rat list \<Rightarrow> rat" where
  "sum_over_len xs = fdiv (py_sum xs) (float_of_nat (length xs))"

lemma py_sum_nonneg: "\<forall>x\<in>set xs. 0 \<le> x \<Longrightarrow> 0 \<le> py_sum xs"
proof -
  have "0 \<le> acc \<Longrightarrow> \<forall>x\<in>set xs. 0 \<le> x \<Longrightarrow> 0 \<le> fold (\<lambda>x acc. fadd acc x) xs acc" for acc
    by (induction xs arbitrary: acc) (auto simp: fadd_def f64.rnd_nonneg)
  then show "\<forall>x\<in>set xs. 0 \<le> x \<Longrightarrow> 0 \<le> py_sum xs" by (simp add: py_sum_def)
qed

section \<open>The functions of the statistics module\<close>

definition stat_fmean :: "rat list \<Rightarrow> rat" where
  "stat_fmean xs = fdiv (round64 (sum_list xs)) (float_of_nat (length xs))"

definition stat_mean :: "rat list \<Rightarrow> rat" where
  "stat_mean xs = round64 (sum_list xs / of_nat (length xs))"

definition stat_median :: "rat list \<Rightarrow> rat" where
  "stat_median xs = (let ys = sort xs; n = length ys in
     if odd n then ys ! (n div 2)
     else fdiv (fadd (ys ! (n div 2 - 1)) (ys ! (n div 2))) 2)"

function isqrt :: "int \<Rightarrow> int" where
  "isqrt n = (if n \<le> 0 then 0
     else let r = 2 * isqrt (n div 4) in if (r + 1) * (r + 1) \<le> n then r + 1 else r)"
  by pat_completeness auto
termination
  by (relation "measure nat") auto

declare isqrt.simps [simp del]

lemma isqrt_bounds: "0 \<le> n \<Longrightarrow> 0 \<le> isqrt n \<and> isqrt n * isqrt n \<le> n \<and> n < (isqrt n + 1) * (isqrt n + 1)"
proof (induction n rule: isqrt.induct)
  case (1 n)
  show ?case
  proof (cases "n = 0")
    case True
    then show ?thesis by (simp add: isqrt.simps [of 0])
  next
    case False
    define s where "s = isqrt (n div 4)"
    from 1 False have IH: "0 \<le> s" "s * s \<le> n div 4" "n div 4 < (s + 1) * (s + 1)"
      by (simp_all add: s_def)
    then have "4 * (s * s) \<le> n" "n < 4 * ((s + 1) * (s + 1))" by linarith+
    moreover have "isqrt n = (if (2 * s + 1) * (2 * s + 1) \<le> n then 2 * s + 1 else 2 * s)"
      using False "1.prems" by (simp add: isqrt.simps [of n] s_def Let_def)
    ultimately show ?thesis using IH(1) by (auto simp: algebra_simps)
  qed
qed

text \<open>
  The correctly rounded square root of an exact rational: an integer square root of at least
  54 significant bits with a sticky bit, then one rounding.
\<close>

definition fsqrt :: "rat \<Rightarrow> rat" where
  "fsqrt x = (if x \<le> 0 then 0 else
     let k = max 0 (57 - flog2 x div 2);
         y = x * pow2 (2 * k);
         s = isqrt \<lfloor>y\<rfloor>;
         m = (if of_int (s * s) = y then 2 * s else 2 * s + 1)
     in round64 (of_int m / pow2 (k + 1)))"

definition stat_stdev :: "rat list \<Rightarrow> rat" where
  "stat_stdev xs = (let n = of_nat (length xs); mean = sum_list xs / n in
     fsqrt (sum_list (map (\<lambda>x. (x - mean) * (x - mean)) xs) / (n - 1)))"

lemma isqrt_nonneg: "0 \<le> isqrt n"
proof (cases "0 \<le> n")
  case True
  then show ?thesis using isqrt_bounds [of n] by blast
next
  case False
  then show ?thesis by (subst isqrt.simps) simp
qed

lemma fsqrt_nonneg: "0 \<le> fsqrt x"
proof -
  have pos: "0 \<le> round64 (of_int m / pow2 k)" if "0 \<le> m" for m k
    using that by (intro f64.rnd_nonneg) simp
  show ?thesis unfolding fsqrt_def Let_def
    by (simp del: pow2_powi add: isqrt_nonneg pos)
qed

lemma stat_fmean_nonneg: "\<forall>x\<in>set xs. 0 \<le> x \<Longrightarrow> 0 \<le> stat_fmean xs"
  by (auto simp: stat_fmean_def fdiv_def float_of_nat_def
      intro!: f64.rnd_nonneg divide_nonneg_nonneg sum_list_nonneg)

section \<open>Formatting and parsing\<close>

text \<open>\<open>f"{x:.kf}"\<close>: the exact value rounded half to even at \<open>k\<close> decimals.\<close>

definition fmt_fixed :: "nat \<Rightarrow> rat \<Rightarrow> string" where
  "fmt_fixed k x = (let n = rhe (\<bar>x\<bar> * 10 ^ k); sgn = (if x < 0 then ''-'' else []) in
     sgn @ str_pos (n div 10 ^ k) @
     (if k = 0 then [] else CHR ''.'' # dec_pad k (n mod 10 ^ k)))"

definition opt_run :: "string \<Rightarrow> string option" where
  "opt_run s = (if s = [] then Some [] else digit_run s)"

definition parse_mantissa :: "string \<Rightarrow> (int \<times> nat) option" where
  "parse_mantissa s = (case split_once s ''.'' of
       None \<Rightarrow> map_option (\<lambda>ds. (digits_val 0 ds, 0)) (digit_run s)
     | Some (a, b) \<Rightarrow>
         (if a = [] \<and> b = [] then None
          else case (opt_run a, opt_run b) of
              (Some da, Some db) \<Rightarrow> Some (digits_val 0 (da @ db), length db)
            | _ \<Rightarrow> None))"

definition split_sign :: "string \<Rightarrow> bool \<times> string" where
  "split_sign s = (case s of [] \<Rightarrow> (False, [])
     | c # t \<Rightarrow> if c = CHR ''-'' then (True, t) else if c = CHR ''+'' then (False, t) else (False, s))"

definition parse_exponent :: "string \<Rightarrow> int option" where
  "parse_exponent s = (let (neg, t) = split_sign s in
     map_option (\<lambda>ds. (if neg then - 1 else 1) * digits_val 0 ds) (digit_run t))"

definition pow10 :: "int \<Rightarrow> rat" where
  "pow10 e = (if 0 \<le> e then of_int (10 ^ nat e) else 1 / of_int (10 ^ nat (- e)))"

definition max_f64 :: rat where
  "max_f64 = of_int ((2 ^ 53 - 1) * 2 ^ 971)"

text \<open>\<open>float(s)\<close> on a string.\<close>

definition py_float :: "string \<Rightarrow> rat res" where
  "py_float s = (let t = py_lower (py_strip s); (neg, u) = split_sign t;
       bad = Inl (ValueError (''could not convert string to float: '' @ py_repr s));
       (m, e) = (case split_once u ''e'' of None \<Rightarrow> (u, Some 0)
                   | Some (m, e) \<Rightarrow> (m, parse_exponent e))
     in if u \<in> {''inf'', ''infinity'', ''nan''} then Inl (OutsideModel ''non-finite float'')
        else case (parse_mantissa m, e) of
            (Some (n, d), Some x) \<Rightarrow>
              (let v = round64 ((if neg then - 1 else 1) * of_int n * pow10 (x - int d))
               in if max_f64 < \<bar>v\<bar> then Inl (OutsideModel ''non-finite float'') else Inr v)
          | _ \<Rightarrow> bad)"

section \<open>Conversions of row cells\<close>

fun pv_float :: "pyval \<Rightarrow> rat res" where
  "pv_float (PStr s) = py_float s"
| "pv_float (PInt i) = Inr (float_of_int i)"
| "pv_float (PFloat x) = Inr x"
| "pv_float (PBool b) = Inr (if b then 1 else 0)"
| "pv_float _ = Inl (TypeError ''float() argument'')"

fun pv_int :: "pyval \<Rightarrow> int res" where
  "pv_int (PStr s) = py_int s"
| "pv_int (PInt i) = Inr i"
| "pv_int (PFloat x) = Inr (if x < 0 then - \<lfloor>- x\<rfloor> else \<lfloor>x\<rfloor>)"
| "pv_int (PBool b) = Inr (if b then 1 else 0)"
| "pv_int _ = Inl (TypeError ''int() argument'')"

text \<open>The truth value of a cell.\<close>

fun pv_true :: "pyval \<Rightarrow> bool" where
  "pv_true PNone = False"
| "pv_true (PBool b) = b"
| "pv_true (PInt i) = (i \<noteq> 0)"
| "pv_true (PFloat x) = (x \<noteq> 0)"
| "pv_true (PStr s) = (s \<noteq> [])"
| "pv_true (PList xs) = (xs \<noteq> [])"
| "pv_true (PDict d) = (d \<noteq> [])"

lemma py_float_examples:
  "py_float ''12.5'' = Inr (25 / 2)"
  "py_float '' -3 '' = Inr (- 3)"
  "fmt_fixed 3 (25 / 2) = ''12.500''"
  by code_simp+

end
