(* ===== verification/Metrics.thy ===== *)
theory Metrics
  imports Py_Float
begin

text \<open>
  \<open>benchmarklib/metrics.py\<close>: the parser of the \<open>[BENCH_...]\<close> log lines and the sample
  statistics of the summary tables.  The regular expression of \<open>parse_bench_line\<close> is written out
  as the deterministic scan it denotes: the run of kind characters is followed by a bracket, which
  is not a kind character, and the body runs to the end of the stripped line, which a newline
  inside the body prevents.
\<close>

section \<open>Log lines\<close>

definition is_kind_char :: "char \<Rightarrow> bool" where
  "is_kind_char c \<longleftrightarrow> is_upper_az c \<or> c = CHR ''_''"

definition bench_token :: "string \<Rightarrow> srow \<Rightarrow> srow" where
  "bench_token tok d = (case split_once tok ''='' of None \<Rightarrow> d | Some (k, v) \<Rightarrow> dset k v d)"

definition bench_values :: "string \<Rightarrow> srow" where
  "bench_values body = fold bench_token (split_ws body) []"

definition parse_bench_line :: "string \<Rightarrow> (string \<times> srow) option" where
  "parse_bench_line line = (let t = py_strip line; u = drop 7 t in
     if \<not> startswith t ''[BENCH_'' then None
     else if takeWhile is_kind_char u = [] then None
     else case dropWhile is_kind_char u of
         [] \<Rightarrow> None
       | c # v \<Rightarrow>
           (if c \<noteq> CHR '']'' then None
            else let body = dropWhile is_space v in
              if CHR 0x0A \<in> set body then None
              else Some (takeWhile is_kind_char u, bench_values body)))"

text \<open>\<open>number(values, key)\<close>: a missing key or an unparsable value is \<open>None\<close>.\<close>

definition number :: "srow \<Rightarrow> string \<Rightarrow> rat option res" where
  "number values key = (case map_of values key of None \<Rightarrow> Inr None
     | Some s \<Rightarrow> (case py_float s of Inr x \<Rightarrow> Inr (Some x)
         | Inl (ValueError m) \<Rightarrow> Inr None | Inl e \<Rightarrow> Inl e))"

section \<open>Statistics\<close>

definition p95_index :: "int \<Rightarrow> int" where
  "p95_index n = max 0 (min (n - 1) (rhe (fmul (round64 (95 / 100)) (float_of_int (n - 1)))))"

definition percentile_95 :: "rat list \<Rightarrow> rat option" where
  "percentile_95 values = (if values = [] then None
     else Some (sort values ! nat (p95_index (int (length values)))))"

definition min_of :: "rat list \<Rightarrow> rat" where
  "min_of xs = fold min (tl xs) (hd xs)"

definition max_of :: "rat list \<Rightarrow> rat" where
  "max_of xs = fold max (tl xs) (hd xs)"

definition aggregate :: "rat list \<Rightarrow> srow" where
  "aggregate data = (if data = []
     then map (\<lambda>k. (k, [])) [''mean'', ''median'', ''p95'', ''min'', ''max'', ''stddev'']
     else [(''mean'', fmt_fixed 3 (stat_fmean data)),
           (''median'', fmt_fixed 3 (stat_median data)),
           (''p95'', fmt_fixed 3 (case percentile_95 data of None \<Rightarrow> 0 | Some p \<Rightarrow> p)),
           (''min'', fmt_fixed 3 (min_of data)),
           (''max'', fmt_fixed 3 (max_of data)),
           (''stddev'', fmt_fixed 3 (if 1 < length data then stat_stdev data else 0))])"

section \<open>Words and joins\<close>

definition word :: "string \<Rightarrow> bool" where
  "word w \<longleftrightarrow> w \<noteq> [] \<and> (\<forall>c\<in>set w. \<not> is_space c)"

lemma word_hd: "word w \<Longrightarrow> \<not> is_space (hd w)"
  by (cases w) (auto simp: word_def)

lemma space_is_space [simp]: "is_space (CHR '' '')"
  by (simp add: is_space_def ccode_def)

lemma split_ws_Nil [simp]: "split_ws [] = []"
  by (subst split_ws_unfold) simp

lemma split_ws_word: "word w \<Longrightarrow> split_ws (w @ CHR '' '' # s) = w # split_ws s"
proof -
  assume w: "word w"
  then have d: "dropWhile is_space (w @ CHR '' '' # s) = w @ CHR '' '' # s"
    by (cases w) (auto simp: word_def)
  have nsp: "\<forall>c\<in>set w. \<not> is_space c" using w by (simp add: word_def)
  have "split_ws (CHR '' '' # s) = split_ws s"
    by (subst (1 2) split_ws_unfold) simp
  then show ?thesis
    by (subst split_ws_unfold) (simp add: d takeWhile_append2 nsp dropWhile_append2)
qed

lemma split_ws_last_word: "word w \<Longrightarrow> split_ws w = [w]"
proof -
  assume w: "word w"
  then have d: "dropWhile is_space w = w" by (cases w) (auto simp: word_def)
  have nsp: "\<forall>c\<in>set w. \<not> is_space c" and ne: "w \<noteq> []" using w by (simp_all add: word_def)
  have tw: "takeWhile (\<lambda>c. \<not> is_space c) w = w" and dw: "dropWhile (\<lambda>c. \<not> is_space c) w = []"
    using nsp by (simp_all add: takeWhile_eq_all_conv)
  show ?thesis
    by (subst split_ws_unfold) (simp only: d ne dw tw split_ws_Nil if_False)
qed

lemma split_ws_join: "\<forall>w\<in>set ws. word w \<Longrightarrow> split_ws (join '' '' ws) = ws"
proof (induction ws rule: induct_list012)
  case (3 x y zs)
  then show ?case by (simp add: split_ws_word)
qed (simp_all add: split_ws_last_word split_ws_Nil)

lemma join_word_ends:
  "ws \<noteq> [] \<Longrightarrow> \<forall>w\<in>set ws. word w \<Longrightarrow>
   join '' '' ws \<noteq> [] \<and> \<not> is_space (hd (join '' '' ws)) \<and> \<not> is_space (last (join '' '' ws))"
proof (induction ws rule: induct_list012)
  case (2 x)
  then show ?case by (auto simp: word_def)
next
  case (3 x y zs)
  then show ?case by (auto simp: word_def)
qed simp

lemma join_no_newline: "\<forall>w\<in>set ws. word w \<Longrightarrow> CHR 0x0A \<notin> set (join '' '' ws)"
proof (induction ws rule: induct_list012)
  case (2 x)
  then show ?case by (auto simp: word_def is_space_def ccode_def)
next
  case (3 x y zs)
  then show ?case by (auto simp: word_def is_space_def ccode_def)
qed simp

section \<open>Rendering a log line\<close>

text \<open>
  The form in which the firmware, the gateway and the transfer controller print a line: the kind
  in brackets and \<open>key=value\<close> tokens separated by single spaces.
\<close>

definition bench_pair :: "string \<times> string \<Rightarrow> string" where
  "bench_pair kv = fst kv @ ''='' @ snd kv"

definition bench_line :: "string \<Rightarrow> srow \<Rightarrow> string" where
  "bench_line kind kvs = ''[BENCH_'' @ kind @ '']'' @ '' '' @ join '' '' (map bench_pair kvs)"

definition bench_key :: "string \<Rightarrow> bool" where
  "bench_key k \<longleftrightarrow> (\<forall>c\<in>set k. \<not> is_space c \<and> c \<noteq> CHR ''='')"

definition bench_row_ok :: "srow \<Rightarrow> bool" where
  "bench_row_ok kvs \<longleftrightarrow> kvs \<noteq> [] \<and> distinct (map fst kvs) \<and>
     (\<forall>(k, v)\<in>set kvs. bench_key k \<and> (\<forall>c\<in>set v. \<not> is_space c))"

lemma split_once_key: "CHR ''='' \<notin> set k \<Longrightarrow> split_once (k @ CHR ''='' # v) ''='' = Some (k, v)"
  by (induction k) (auto simp: startswith_def)

lemma bench_pair_word: "bench_key k \<Longrightarrow> \<forall>c\<in>set v. \<not> is_space c \<Longrightarrow> word (bench_pair (k, v))"
  by (auto simp: bench_pair_def word_def bench_key_def is_space_def ccode_def)

lemma fold_bench_tokens:
  assumes "\<forall>(k, v)\<in>set kvs. bench_key k" "distinct (map fst (d @ kvs))"
  shows "fold bench_token (map bench_pair kvs) d = d @ kvs"
  using assms
proof (induction kvs arbitrary: d)
  case (Cons kv kvs)
  obtain k v where kv: "kv = (k, v)" by (cases kv)
  have "CHR ''='' \<notin> set k" using Cons.prems by (auto simp: kv bench_key_def)
  moreover have "dset k v d = d @ [(k, v)]"
    using Cons.prems by (induction d) (auto simp: dset_def kv)
  ultimately have "bench_token (bench_pair kv) d = d @ [kv]"
    by (simp add: kv bench_token_def bench_pair_def split_once_key)
  with Cons.IH [of "d @ [kv]"] Cons.prems show ?case by simp
qed simp

lemma py_strip_no_ends:
  "s \<noteq> [] \<Longrightarrow> \<not> is_space (hd s) \<Longrightarrow> \<not> is_space (last s) \<Longrightarrow> py_strip s = s"
  by (rule py_strip_id) simp

lemma parse_bench_line_render:
  assumes kind: "kind \<noteq> []" "\<forall>c\<in>set kind. is_kind_char c" and row: "bench_row_ok kvs"
  shows "parse_bench_line (bench_line kind kvs) = Some (kind, kvs)"
proof -
  let ?ws = "map bench_pair kvs"
  let ?b = "join '' '' ?ws"
  have words: "\<forall>w\<in>set ?ws. word w" using row by (auto simp: bench_row_ok_def bench_pair_word)
  have ne: "?ws \<noteq> []" using row by (simp add: bench_row_ok_def)
  note ends = join_word_ends [OF ne words]
  have rb: "\<not> is_kind_char (CHR '']'')" by (simp add: is_kind_char_def is_upper_az_def ccode_def)
  have strip: "py_strip (bench_line kind kvs) = bench_line kind kvs"
    by (rule py_strip_no_ends) (use ends in \<open>auto simp: bench_line_def is_space_def ccode_def\<close>)
  have u: "drop 7 (bench_line kind kvs) = kind @ CHR '']'' # CHR '' '' # ?b"
    by (simp add: bench_line_def)
  have tk: "takeWhile is_kind_char (kind @ CHR '']'' # CHR '' '' # ?b) = kind"
    "dropWhile is_kind_char (kind @ CHR '']'' # CHR '' '' # ?b) = CHR '']'' # CHR '' '' # ?b"
    using kind rb by (simp_all add: takeWhile_append2 dropWhile_append2)
  have b: "dropWhile is_space ?b = ?b"
    using ends by (simp add: dropWhile_id)
  then have body: "dropWhile is_space (CHR '' '' # ?b) = ?b"
    by simp
  have vals: "bench_values ?b = kvs"
    using fold_bench_tokens [of kvs "[]"] row
    by (auto simp: bench_values_def split_ws_join [OF words] bench_row_ok_def)
  have pre: "startswith (bench_line kind kvs) ''[BENCH_''"
    by (simp add: bench_line_def startswith_def)
  show ?thesis
    unfolding parse_bench_line_def Let_def strip u tk body
    using pre kind(1) join_no_newline [OF words] vals b by simp
qed

section \<open>Order statistics\<close>

lemma p95_index_range: "0 < n \<Longrightarrow> 0 \<le> p95_index n \<and> p95_index n < n"
  by (simp add: p95_index_def)

lemma p95_index_mono: "m \<le> n \<Longrightarrow> p95_index m \<le> p95_index n"
proof -
  assume le: "m \<le> n"
  have "float_of_int (m - 1) \<le> float_of_int (n - 1)"
    unfolding float_of_int_def by (rule round64_mono) (use le in simp)
  then have "round64 (95 / 100) * float_of_int (m - 1) \<le> round64 (95 / 100) * float_of_int (n - 1)"
    by (rule mult_left_mono) (simp add: f64.rnd_nonneg)
  then have "rhe (fmul (round64 (95 / 100)) (float_of_int (m - 1)))
      \<le> rhe (fmul (round64 (95 / 100)) (float_of_int (n - 1)))"
    unfolding fmul_def by (intro rhe_mono round64_mono)
  with le show ?thesis unfolding p95_index_def by (intro max.mono min.mono) simp_all
qed

lemma sorted_count_le:
  fixes ys :: "rat list"
  assumes "sorted ys" "i < length ys"
  shows "i + 1 \<le> length (filter (\<lambda>x. x \<le> ys ! i) ys)"
proof -
  have "filter (\<lambda>x. x \<le> ys ! i) (take (Suc i) ys) = take (Suc i) ys"
    using assms by (auto simp: filter_id_conv in_set_conv_nth sorted_nth_mono)
  then have "length (take (Suc i) ys) \<le> length (filter (\<lambda>x. x \<le> ys ! i) (take (Suc i) ys @ drop (Suc i) ys))"
    by (simp only: filter_append length_append le_add1)
  then show ?thesis using assms(2) by (simp only: append_take_drop_id) simp
qed

lemma sorted_count_ge:
  fixes ys :: "rat list"
  assumes "sorted ys" "i < length ys"
  shows "length ys - i \<le> length (filter (\<lambda>x. ys ! i \<le> x) ys)"
proof -
  have "filter (\<lambda>x. ys ! i \<le> x) (drop i ys) = drop i ys"
    using assms by (auto simp: filter_id_conv in_set_conv_nth intro!: sorted_nth_mono)
  then have "length (drop i ys) \<le> length (filter (\<lambda>x. ys ! i \<le> x) (take i ys @ drop i ys))"
    by (simp only: filter_append length_append le_add2)
  then show ?thesis by (simp only: append_take_drop_id) simp
qed

lemma length_filter_sort: "length (filter P (sort xs)) = length (filter P xs)"
  by (metis mset_filter mset_sort size_mset)

section \<open>Properties\<close>

text \<open>
  A log line survives printing and parsing: for a kind of capital letters and underscores and
  a non-empty row with distinct keys, no spaces and no equals sign in a key, parsing the printed line
  gives back the kind and the row.
\<close>

theorem bench_line_roundtrip:
  assumes "kind \<noteq> []" and "\<forall>c\<in>set kind. is_kind_char c" and "bench_row_ok kvs"
  shows "parse_bench_line (bench_line kind kvs) = Some (kind, kvs)"
  using assms by (rule parse_bench_line_render)

theorem bench_line_roundtrip_witness:
  "parse_bench_line (bench_line ''TIMING'' [(''status'', ''ok''), (''total_us'', ''a=b'')]) =
     Some (''TIMING'', [(''status'', ''ok''), (''total_us'', ''a=b'')])"
  by (rule bench_line_roundtrip; code_simp)

text \<open>
  \<open>percentile_95\<close> returns a sample: for a non-empty list the index it uses is within the
  list, at least that many samples plus one are not above the result and at least the remaining ones
  are not below it; the empty list gives no value.
\<close>

theorem percentile_95_rank:
  assumes "xs \<noteq> []"
  shows "\<exists>v. percentile_95 xs = Some v \<and> v \<in> set xs \<and>
    0 \<le> p95_index (int (length xs)) \<and> p95_index (int (length xs)) < int (length xs) \<and>
    nat (p95_index (int (length xs))) + 1 \<le> length (filter (\<lambda>x. x \<le> v) xs) \<and>
    length xs - nat (p95_index (int (length xs))) \<le> length (filter (\<lambda>x. v \<le> x) xs)"
proof -
  let ?i = "nat (p95_index (int (length xs)))"
  have r: "0 \<le> p95_index (int (length xs)) \<and> p95_index (int (length xs)) < int (length xs)"
    using assms by (intro p95_index_range) simp
  then have i: "?i < length (sort xs)" by (simp add: nat_less_iff)
  have "sort xs ! ?i \<in> set xs" using nth_mem [OF i] by simp
  then show ?thesis
    using assms r sorted_count_le [OF sorted_sort i] sorted_count_ge [OF sorted_sort i]
    by (simp add: percentile_95_def length_filter_sort)
qed

theorem percentile_95_rank_witness: "\<exists>v. percentile_95 [3, 1, 2] = Some v \<and> v \<in> set [3, 1, 2]"
  using percentile_95_rank [of "[3, 1, 2]"] by auto

end
