(* ===== verification/Server_Backends.thy ===== *)
theory Server_Backends
  imports Algorithms
begin

text \<open>
  \<open>benchmarklib/server_backends.py\<close>: which TLS server serves a case.  \<open>None\<close> means that the
  requested server cannot serve it.
\<close>

definition OPENSSL_MOSQUITTO :: string where
  "OPENSSL_MOSQUITTO = ''openssl-mosquitto''"

definition WOLFSSL :: string where
  "WOLFSSL = ''wolfssl''"

definition AUTO :: string where
  "AUTO = ''auto''"

definition HASH_BASED_SIGNATURES :: "string set" where
  "HASH_BASED_SIGNATURES = {''LMS-HSS-L2-H10-W4'', ''XMSS-SHA2_20_256''}"

definition LONG_RSA_SIGNATURES :: "string set" where
  "LONG_RSA_SIGNATURES = {''RSA-PSS-7680'', ''RSA-PSS-15360''}"

definition server_backend_for_case :: "srow \<Rightarrow> string \<Rightarrow> string option res" where
  "server_backend_for_case case_row requested =
     bindr (dindex case_row ''cert_sig_alg'') (\<lambda>sg.
       let root_signature = dget case_row ''root_sig_alg'' sg in
       if requested = AUTO then
         Inr (Some (if root_signature \<in> HASH_BASED_SIGNATURES \<or>
                       sg \<in> HASH_BASED_SIGNATURES \<union> LONG_RSA_SIGNATURES
                    then WOLFSSL else OPENSSL_MOSQUITTO))
       else if requested = OPENSSL_MOSQUITTO \<and> root_signature \<in> HASH_BASED_SIGNATURES
       then Inr None else Inr (Some requested))"

definition unsupported_backend_reason :: "srow \<Rightarrow> string \<Rightarrow> string res" where
  "unsupported_backend_reason case_row requested =
     bindr (case map_of case_row ''root_sig_alg'' of
              Some (c # s) \<Rightarrow> Inr (c # s) | _ \<Rightarrow> dindex case_row ''cert_sig_alg'') (\<lambda>sg.
     Inr (requested @ '' cannot load or verify '' @ sg @ '' certificate chains; use '' @
          ''--server-backend auto or --server-backend wolfssl''))"

lemmas backend_defs = server_backend_for_case_def dindex_def dget_def

text \<open>The case row that names the algorithms of a certificate chain.\<close>

definition chain_row :: "pki_chain \<Rightarrow> srow" where
  "chain_row c = [(''root_sig_alg'', chain_root c), (''cert_sig_alg'', chain_leaf c)]"

text \<open>
  The automatic choice always serves a case that names its certificate algorithm, and never with
  a server that an explicit request would reject: if the explicit request for the server it chose
  is made for the same case, it is accepted.  An explicit request is rejected exactly for the
  OpenSSL broker and a hash-based root.
\<close>

theorem backend_choice_sound:
  assumes "map_of c ''cert_sig_alg'' = Some sg"
  shows "(\<exists>b. server_backend_for_case c AUTO = Inr (Some b) \<and>
            b \<in> {WOLFSSL, OPENSSL_MOSQUITTO} \<and> server_backend_for_case c b = Inr (Some b)) \<and>
    (\<forall>r. r \<noteq> AUTO \<longrightarrow> (server_backend_for_case c r = Inr None \<longleftrightarrow>
            r = OPENSSL_MOSQUITTO \<and> dget c ''root_sig_alg'' sg \<in> HASH_BASED_SIGNATURES))"
  using assms
  by (auto simp: backend_defs Let_def AUTO_def WOLFSSL_def OPENSSL_MOSQUITTO_def split: option.splits)

theorem backend_choice_sound_witness:
  "\<exists>b. server_backend_for_case (chain_row (hd ALL_PKI_CHAINS)) AUTO = Inr (Some b) \<and>
     server_backend_for_case (chain_row (hd ALL_PKI_CHAINS)) b = Inr (Some b)"
  using backend_choice_sound [of "chain_row (hd ALL_PKI_CHAINS)" "chain_leaf (hd ALL_PKI_CHAINS)"]
  by (auto simp: chain_row_def)

end
