(* ===== verification/Transfer_Plan.thy ===== *)
theory Transfer_Plan
  imports Py_Sha256 Py_Random Py_Float
begin

text \<open>
  \<open>benchmarklib/transfer.py\<close>: the deterministic payload streams, the plan of a large-transfer
  campaign, the MQTT fixed header and the statistics of the transfer summaries.  The payload is
  served from a 64 KiB period; the lemmas show that every slice is the pointwise stream
  \<open>payload_byte\<close>.
\<close>

section \<open>Payload streams\<close>

definition PAYLOAD_SIZES :: "int list" where
  "PAYLOAD_SIZES = [128, 1024, 8 * 1024, 16 * 1024, 32 * 1024, 64 * 1024]"

definition DIRECTIONS :: "string list" where
  "DIRECTIONS = [''server_to_device'', ''device_to_server'']"

definition PAYLOAD_PERIOD_SIZE :: int where
  "PAYLOAD_PERIOD_SIZE = push_bit 16 1"

definition BASE_PAYLOAD_PERIOD :: "byte list" where
  "BASE_PAYLOAD_PERIOD = map (\<lambda>offset. byte_of (and (offset * 31 + drop_bit 8 offset * 17) 0xFF))
     [0..PAYLOAD_PERIOD_SIZE - 1]"

definition timeout_for_payload :: "int \<Rightarrow> rat" where
  "timeout_for_payload n = 30"

definition payload_byte :: "int \<Rightarrow> int \<Rightarrow> int" where
  "payload_byte seed offset = and (seed + offset * 31 + drop_bit 8 offset * 17) 0xFF"

definition payload_period :: "int \<Rightarrow> byte list" where
  "payload_period seed_low_byte =
     (let translation = map (\<lambda>v. byte_of (and (v + seed_low_byte) 0xFF)) [0..255]
      in map (\<lambda>b. translation ! unat b) BASE_PAYLOAD_PERIOD)"

text \<open>The slices \<open>period[a:a + n]\<close> and \<open>period * k\<close> for non-negative arguments.\<close>

definition bslice :: "byte list \<Rightarrow> int \<Rightarrow> int \<Rightarrow> byte list" where
  "bslice bs a b = take (nat b - nat a) (drop (nat a) bs)"

definition brepeat :: "byte list \<Rightarrow> int \<Rightarrow> byte list" where
  "brepeat bs k = concat (replicate (nat k) bs)"

definition slice_of_period :: "byte list \<Rightarrow> int \<Rightarrow> int \<Rightarrow> byte list" where
  "slice_of_period period offset sz =
     (let start = offset mod PAYLOAD_PERIOD_SIZE;
          first = min sz (PAYLOAD_PERIOD_SIZE - start);
          remaining = sz - first
      in bslice period start (start + first)
         @ brepeat period (remaining div PAYLOAD_PERIOD_SIZE)
         @ bslice period 0 (remaining mod PAYLOAD_PERIOD_SIZE))"

definition payload_slice :: "int \<Rightarrow> int \<Rightarrow> int \<Rightarrow> byte list res" where
  "payload_slice seed offset sz =
     (if offset < 0 \<or> sz < 0
      then Inl (ValueError ''payload offset and size must be non-negative'')
      else Inr (slice_of_period (payload_period (and seed 0xFF)) offset sz))"

definition payload_bytes :: "int \<Rightarrow> int \<Rightarrow> byte list res" where
  "payload_bytes seed sz = payload_slice seed 0 sz"

text \<open>The hash object absorbs the period once per full period and then the rest.\<close>

definition payload_digest :: "byte list \<Rightarrow> int \<Rightarrow> string" where
  "payload_digest period sz =
     (let full = fold (\<lambda>_ absorbed. absorbed @ period) [1..sz div PAYLOAD_PERIOD_SIZE] []
      in sha256_hex (full @ bslice period 0 (sz mod PAYLOAD_PERIOD_SIZE)))"

definition payload_sha256 :: "int \<Rightarrow> int \<Rightarrow> int \<Rightarrow> string res" where
  "payload_sha256 seed sz chunk_size =
     (if sz < 0 \<or> chunk_size \<le> 0
      then Inl (ValueError ''payload size and chunk size must be positive'')
      else Inr (payload_digest (payload_period (and seed 0xFF)) sz))"

section \<open>The plan\<close>

record transfer_operation =
  op_order :: int
  op_iteration :: int
  op_direction :: string
  op_payload_bytes :: int
  op_payload_seed :: int

record transfer_round =
  tr_sequence :: int
  tr_case_id :: string
  tr_round_index :: int
  tr_operations :: "transfer_operation list"

text \<open>The properties that make a round look like a job of the normal runner.\<close>

definition tr_session :: "transfer_round \<Rightarrow> int" where
  "tr_session r = tr_round_index r"

definition tr_attempt_in_session :: "transfer_round \<Rightarrow> int" where
  "tr_attempt_in_session r = 1"

definition tr_warmup :: "transfer_round \<Rightarrow> int" where
  "tr_warmup r = 0"

definition tr_measured_index :: "transfer_round \<Rightarrow> int" where
  "tr_measured_index r = tr_round_index r"

definition derived_seed :: "int \<Rightarrow> string \<Rightarrow> int \<Rightarrow> int" where
  "derived_seed seed case_id round_index =
     from_bytes_be (take 4 (sha256 (encode_str
       (str_int seed @ '':'' @ case_id @ '':'' @ str_int round_index))))"

definition transfer_pairs :: "(string \<times> int) list" where
  "transfer_pairs = concat (map (\<lambda>sz. map (\<lambda>direction. (direction, sz)) DIRECTIONS) PAYLOAD_SIZES)"

fun enumerate_from :: "int \<Rightarrow> 'a list \<Rightarrow> (int \<times> 'a) list" where
  "enumerate_from n [] = []"
| "enumerate_from n (x # xs) = (n, x) # enumerate_from (n + 1) xs"

definition operations_for_round :: "'g rng \<Rightarrow> int \<Rightarrow> string \<Rightarrow> int \<Rightarrow> transfer_operation list" where
  "operations_for_round R seed case_id round_index =
     (let round_seed = derived_seed seed case_id round_index;
          pairs = seeded_shuffle R round_seed transfer_pairs
      in map (\<lambda>(index, direction, sz).
           \<lparr>op_order = index, op_iteration = round_index, op_direction = direction,
            op_payload_bytes = sz, op_payload_seed = derived_seed round_seed direction sz\<rparr>)
         (enumerate_from 1 pairs))"

definition unordered_operation :: "int \<Rightarrow> string \<Rightarrow> int \<Rightarrow> string \<times> int \<Rightarrow> transfer_operation" where
  "unordered_operation seed case_id iteration ds = (case ds of (direction, sz) \<Rightarrow>
     \<lparr>op_order = 0, op_iteration = iteration, op_direction = direction, op_payload_bytes = sz,
      op_payload_seed = derived_seed (derived_seed seed case_id iteration) direction sz\<rparr>)"

definition unordered_operations :: "int \<Rightarrow> string \<Rightarrow> int \<Rightarrow> transfer_operation list" where
  "unordered_operations seed case_id iterations =
     concat (map (\<lambda>iteration. map (unordered_operation seed case_id iteration) transfer_pairs)
       [1..iterations])"

definition operations_for_case :: "'g rng \<Rightarrow> int \<Rightarrow> string \<Rightarrow> int \<Rightarrow> transfer_operation list" where
  "operations_for_case R seed case_id iterations =
     map (\<lambda>(order, operation). operation\<lparr>op_order := order\<rparr>)
       (enumerate_from 1 (seeded_shuffle R (derived_seed seed case_id iterations)
          (unordered_operations seed case_id iterations)))"

definition transfer_round_of :: "'g rng \<Rightarrow> int \<Rightarrow> int \<times> srow \<Rightarrow> transfer_round res" where
  "transfer_round_of R seed sc = (case sc of (sequence, case_row) \<Rightarrow>
     bindr (dindex case_row ''case_id'') (\<lambda>cid.
     bindr (bindr (dindex case_row ''iterations'') py_int) (\<lambda>n.
       Inr \<lparr>tr_sequence = sequence, tr_case_id = cid, tr_round_index = 1,
            tr_operations = operations_for_case R seed cid n\<rparr>)))"

definition build_transfer_rounds :: "'g rng \<Rightarrow> srow list \<Rightarrow> int \<Rightarrow> transfer_round list res" where
  "build_transfer_rounds R cases seed =
     bindr (mapr (transfer_round_of R seed) (enumerate_from 1 cases)) (\<lambda>rounds.
       Inr (seeded_shuffle R seed rounds))"

section \<open>MQTT framing\<close>

text \<open>
  The loop of \<open>encode_remaining_length\<close>.  It ends on every non-negative value; the guard of
  \<open>encode_remaining_length\<close> admits no other.
\<close>

fun remaining_length_loop :: "nat \<Rightarrow> byte list" where
  "remaining_length_loop v = (let digit = v mod 128; v' = v div 128 in
     if v' = 0 then [byte_of (int digit)]
     else byte_of (or (int digit) 0x80) # remaining_length_loop v')"

declare remaining_length_loop.simps [simp del]

definition encode_remaining_length :: "int \<Rightarrow> byte list res" where
  "encode_remaining_length value =
     (if \<not> (0 \<le> value \<and> value \<le> 268435455)
      then Inl (ValueError ''MQTT remaining length is out of range'')
      else Inr (remaining_length_loop (nat value)))"

definition mqtt_publish_header :: "string \<Rightarrow> int \<Rightarrow> int \<Rightarrow> byte list res" where
  "mqtt_publish_header topic packet_id payload_size =
     (let topic_bytes = encode_str topic in
      bindr (to_bytes_checked 2 (int (length topic_bytes))) (\<lambda>len.
      bindr (to_bytes_checked 2 packet_id) (\<lambda>pid.
        let variable = len @ topic_bytes @ pid in
        bindr (encode_remaining_length (int (length variable) + payload_size)) (\<lambda>rl.
          Inr ([0x32] @ rl @ variable)))))"

section \<open>Statistics\<close>

definition transfer_percentile_95 :: "rat list \<Rightarrow> rat res" where
  "transfer_percentile_95 values =
     (if length values = 1 then Inr (hd values)
      else if values = [] then Inl IndexError
      else let ordered = sort values; n = int (length values);
               index = fmul (round64 (95 / 100)) (float_of_int (n - 1));
               lower = \<lfloor>index\<rfloor>;
               upper = min (lower + 1) (n - 1);
               fraction = fsub index (float_of_int lower)
           in Inr (fadd (ordered ! nat lower)
                (fmul (fsub (ordered ! nat upper) (ordered ! nat lower)) fraction)))"

text \<open>\<open>len(values) ** 0.5\<close> is taken to be the correctly rounded root.\<close>

definition confidence_95_half_width :: "rat list \<Rightarrow> rat option" where
  "confidence_95_half_width values =
     (if length values < 2 then None
      else Some (fdiv (fmul (round64 (196 / 100)) (stat_stdev values))
             (fsqrt (float_of_nat (length values)))))"

section \<open>The period is the pointwise stream\<close>

lemma period_size: "PAYLOAD_PERIOD_SIZE = 65536"
  by (simp add: PAYLOAD_PERIOD_SIZE_def)

lemma and_255: "and (n::int) 255 = n mod 256"
  using take_bit_eq_mask [of 8 n] by (simp add: take_bit_eq_mod mask_eq_exp_minus_1)

lemma payload_byte_mod: "payload_byte seed i = (seed + i * 31 + i div 256 * 17) mod 256"
  by (simp add: payload_byte_def and_255 drop_bit_eq_div)

lemma payload_byte_periodic: "payload_byte seed (i + 65536 * k) = payload_byte seed i"
proof -
  have "(i + 65536 * k) div 256 = i div 256 + 256 * k"
    using div_mult_self2 [of 256 i "256 * k"] by (simp add: algebra_simps)
  then have "seed + (i + 65536 * k) * 31 + (i + 65536 * k) div 256 * 17 =
      seed + i * 31 + i div 256 * 17 + 256 * (k * (256 * 31 + 17))"
    by (simp add: algebra_simps)
  then show ?thesis by (simp only: payload_byte_mod mod_mult_self2)
qed

lemma payload_byte_low: "payload_byte (and seed 255) i = payload_byte seed i"
  by (simp add: payload_byte_mod and_255 add.assoc mod_add_left_eq)

lemma payload_byte_range: "0 \<le> payload_byte seed i \<and> payload_byte seed i < 256"
  by (simp add: payload_byte_mod)

definition pattern :: "int \<Rightarrow> int \<Rightarrow> int \<Rightarrow> byte list" where
  "pattern seed offset sz = map (\<lambda>i. byte_of (payload_byte seed i)) [offset..offset + sz - 1]"

lemma payload_period_eq: "payload_period (and seed 255) = pattern seed 0 65536"
proof -
  let ?tr = "map (\<lambda>v. byte_of (and (v + and seed 255) 0xFF)) [0..255]"
  have tr: "?tr ! unat b = byte_of (and (uint b + and seed 255) 0xFF)" for b :: byte
  proof -
    have "unat b < 2 ^ LENGTH(8)" by (rule unsigned_less)
    then have ub: "unat b < 256" by simp
    then have len: "unat b < length [0..255::int]" by (simp only: length_upto)
    have "[0..255::int] ! unat b = 0 + int (unat b)" by (rule nth_upto) (use ub in linarith)
    then show ?thesis by (simp only: nth_map [OF len] uint_nat add_0)
  qed
  have "byte_of (and (uint (byte_of (and (i * 31 + drop_bit 8 i * 17) 0xFF)) + and seed 255) 0xFF) =
      byte_of (payload_byte seed i)" for i
    by (simp only: uint_byte_of and_255 payload_byte_mod drop_bit_eq_div mod_mod_trivial mod_add_eq)
      (simp add: algebra_simps)
  then show ?thesis
    by (simp add: payload_period_def Let_def tr BASE_PAYLOAD_PERIOD_def pattern_def period_size comp_def)
qed

lemma pattern_append:
  "0 \<le> m \<Longrightarrow> 0 \<le> n \<Longrightarrow> pattern seed a m @ pattern seed (a + m) n = pattern seed a (m + n)"
proof -
  assume "0 \<le> m" "0 \<le> n"
  then have "[a..a + (m + n) - 1] = [a..a + m - 1] @ [a + m..a + (m + n) - 1]"
    using upto_split1 [of a "a + m" "a + (m + n) - 1"] by (cases "n = 0") simp_all
  then show ?thesis by (simp add: pattern_def algebra_simps)
qed

lemma length_pattern: "length (pattern seed a n) = nat n"
  by (simp add: pattern_def)

lemma pattern_shift: "pattern seed (a + 65536 * k) n = pattern seed a n"
proof -
  have "[a + 65536 * k..a + 65536 * k + n - 1] = map (\<lambda>i. i + 65536 * k) [a..a + n - 1]"
    by (rule nth_equalityI) (simp_all add: nth_upto)
  then show ?thesis by (simp add: pattern_def comp_def payload_byte_periodic)
qed

lemma pattern_bslice:
  assumes "0 \<le> a" "a \<le> b" "b \<le> n"
  shows "bslice (pattern seed 0 n) a b = pattern seed a (b - a)"
proof -
  have "pattern seed 0 n = pattern seed 0 a @ pattern seed a (b - a) @ pattern seed b (n - b)"
    using assms pattern_append [of a "b - a" seed 0] pattern_append [of b "n - b" seed 0]
    by (simp flip: append_assoc)
  then show ?thesis using assms by (simp add: bslice_def length_pattern nat_diff_distrib)
qed

lemma pattern_repeat: "concat (replicate k (pattern seed 0 65536)) = pattern seed 0 (65536 * int k)"
proof (induction k)
  case 0
  then show ?case by (simp add: pattern_def)
next
  case (Suc k)
  have "pattern seed 0 (65536 * int (Suc k)) =
      pattern seed 0 65536 @ pattern seed (0 + 65536) (65536 * int k)"
    by (subst pattern_append) (simp_all add: algebra_simps)
  also have "pattern seed (0 + 65536) (65536 * int k) = pattern seed 0 (65536 * int k)"
    using pattern_shift [of seed 0 1] by simp
  finally show ?case using Suc by simp
qed

lemma slice_of_period_eq:
  assumes "0 \<le> offset" "0 \<le> sz"
  shows "slice_of_period (pattern seed 0 65536) offset sz = pattern seed offset sz"
proof -
  define start where "start = offset mod 65536"
  define first where "first = min sz (65536 - start)"
  define rest where "rest = sz - first"
  have b: "0 \<le> start" "start < 65536" "0 \<le> first" "start + first \<le> 65536" "0 \<le> rest"
    using assms by (auto simp: start_def first_def rest_def)
  have off: "offset = start + 65536 * (offset div 65536)" by (simp add: start_def)
  have 1: "bslice (pattern seed 0 65536) start (start + first) = pattern seed start first"
    using b by (subst pattern_bslice) simp_all
  have 2: "brepeat (pattern seed 0 65536) (rest div 65536) = pattern seed 0 (65536 * (rest div 65536))"
    using b by (simp add: brepeat_def pattern_repeat pos_imp_zdiv_nonneg_iff)
  have 3: "bslice (pattern seed 0 65536) 0 (rest mod 65536) =
      pattern seed (0 + 65536 * (rest div 65536)) (rest mod 65536)"
    using b pattern_shift [of seed 0 "rest div 65536"]
    by (subst pattern_bslice) (simp_all add: less_imp_le)
  have 23: "pattern seed 0 (65536 * (rest div 65536)) @
      pattern seed (0 + 65536 * (rest div 65536)) (rest mod 65536) = pattern seed 0 rest"
    using b by (subst pattern_append) (simp_all add: pos_imp_zdiv_nonneg_iff)
  have 4: "pattern seed 0 rest = pattern seed (start + first) rest"
  proof (cases "rest = 0")
    case True
    then show ?thesis by (simp add: pattern_def)
  next
    case False
    then have "start + first = 0 + 65536 * 1" by (auto simp: rest_def first_def min_def split: if_splits)
    then show ?thesis using pattern_shift [of seed 0 1 rest] by simp
  qed
  have "slice_of_period (pattern seed 0 65536) offset sz =
      pattern seed start first @ pattern seed (start + first) rest"
    using 1 2 3 23 4
    by (simp add: slice_of_period_def period_size Let_def flip: start_def first_def rest_def)
  also have "\<dots> = pattern seed start sz" using b by (subst pattern_append) (simp_all add: rest_def)
  also have "\<dots> = pattern seed (start + 65536 * (offset div 65536)) sz"
    by (rule pattern_shift [symmetric])
  also have "start + 65536 * (offset div 65536) = offset" by (rule off [symmetric])
  finally show ?thesis .
qed

lemma payload_slice_eq:
  "payload_slice seed offset sz =
     (if offset < 0 \<or> sz < 0 then Inl (ValueError ''payload offset and size must be non-negative'')
      else Inr (pattern seed offset sz))"
  by (simp add: payload_slice_def payload_period_eq slice_of_period_eq)

lemma fold_absorb: "fold (\<lambda>_ absorbed. absorbed @ p) xs acc = acc @ concat (replicate (length xs) p)"
  by (induction xs arbitrary: acc) simp_all

lemma payload_digest_eq:
  assumes "0 \<le> sz"
  shows "payload_digest (pattern seed 0 65536) sz = sha256_hex (pattern seed 0 sz)"
proof -
  have nn: "0 \<le> sz div 65536" "0 \<le> sz mod 65536" "sz mod 65536 \<le> 65536"
    using assms by (simp_all add: pos_imp_zdiv_nonneg_iff less_imp_le)
  have "pattern seed 0 (65536 * (sz div 65536)) @ bslice (pattern seed 0 65536) 0 (sz mod 65536) =
      pattern seed 0 (65536 * (sz div 65536)) @
      pattern seed (0 + 65536 * (sz div 65536)) (sz mod 65536)"
    using nn pattern_shift [of seed 0 "sz div 65536"] by (subst pattern_bslice) simp_all
  also have "\<dots> = pattern seed 0 sz"
    using nn by (subst pattern_append) simp_all
  finally show ?thesis
    using nn by (simp add: payload_digest_def period_size fold_absorb pattern_repeat)
qed

section \<open>Facts about the plan\<close>

lemma enumerate_from_fst: "map fst (enumerate_from n xs) = [n..n + int (length xs) - 1]"
proof (induction xs arbitrary: n)
  case (Cons x xs)
  have "[n..n + int (length xs)] = n # [n + 1..n + int (length xs)]" by (rule upto_rec1) simp
  with Cons [of "n + 1"] show ?case by (simp add: algebra_simps)
qed simp

lemma enumerate_from_snd: "map snd (enumerate_from n xs) = xs"
  by (induction xs arbitrary: n) simp_all

lemma length_enumerate_from [simp]: "length (enumerate_from n xs) = length xs"
  by (induction xs arbitrary: n) simp_all

lemma operations_for_case_order:
  "map op_order (operations_for_case R seed cid n) =
     [1..int (length (operations_for_case R seed cid n))]"
proof -
  have "map op_order (operations_for_case R seed cid n) = map fst (enumerate_from 1
      (seeded_shuffle R (derived_seed seed cid n) (unordered_operations seed cid n)))"
    by (simp add: operations_for_case_def comp_def case_prod_beta')
  then show ?thesis by (simp add: enumerate_from_fst operations_for_case_def)
qed

definition op_content :: "transfer_operation \<Rightarrow> int \<times> string \<times> int \<times> int" where
  "op_content p = (op_iteration p, op_direction p, op_payload_bytes p, op_payload_seed p)"

lemma operations_for_case_content:
  "mset (map op_content (operations_for_case R seed cid n)) =
     mset (map op_content (unordered_operations seed cid n))"
proof -
  let ?u = "seeded_shuffle R (derived_seed seed cid n) (unordered_operations seed cid n)"
  have "map op_content (operations_for_case R seed cid n) = map op_content (map snd (enumerate_from 1 ?u))"
    by (simp add: operations_for_case_def op_content_def comp_def case_prod_beta')
  then show ?thesis by (simp add: enumerate_from_snd)
qed

lemma length_transfer_pairs: "length transfer_pairs = 12"
  by code_simp

lemma length_unordered_operations: "length (unordered_operations seed cid n) = 12 * nat n"
  by (simp add: unordered_operations_def length_concat comp_def length_transfer_pairs sum_list_triv)

lemma derived_seed_range: "0 \<le> derived_seed seed cid i \<and> derived_seed seed cid i < 2 ^ 32"
  unfolding derived_seed_def
  using from_bytes_be_nonneg from_bytes_be_less [of "take 4 (sha256 (encode_str
       (str_int seed @ '':'' @ cid @ '':'' @ str_int i)))"] by simp

section \<open>Facts about the fixed header\<close>

definition max_remaining :: int where
  "max_remaining = 268435455"

lemma remaining_length_loop_length:
  "v < 128 ^ Suc k \<Longrightarrow> length (remaining_length_loop v) \<le> Suc k"
proof (induction k arbitrary: v)
  case 0
  then show ?case by (simp add: remaining_length_loop.simps [of v])
next
  case (Suc k)
  have "v div 128 < 128 ^ Suc k" using Suc.prems by (simp add: div_less_iff_less_mult)
  from Suc.IH [OF this] show ?case by (simp add: remaining_length_loop.simps [of v] Let_def)
qed

lemma remaining_length_loop_ne: "remaining_length_loop v \<noteq> []"
  by (simp add: remaining_length_loop.simps [of v] Let_def)

section \<open>Facts about the interpolated percentile\<close>

lemma f95_range: "0 \<le> round64 (95 / 100) \<and> round64 (95 / 100) \<le> (1::rat)"
proof -
  have "round64 (95 / 100) \<le> round64 1" by (rule round64_mono) simp
  then show ?thesis using round64_of_int [of 1] by (simp add: f64.rnd_nonneg)
qed

lemma scaled_index:
  assumes "1 \<le> n" "n \<le> 2 ^ 53"
  shows "0 \<le> fmul (round64 (95 / 100)) (float_of_int (n - 1))"
    "fmul (round64 (95 / 100)) (float_of_int (n - 1)) \<le> of_int (n - 1)"
proof -
  have f: "float_of_int (n - 1) = of_int (n - 1)"
    unfolding float_of_int_def by (rule round64_of_int) (use assms in simp)
  show "0 \<le> fmul (round64 (95 / 100)) (float_of_int (n - 1))"
    unfolding f fmul_def using assms f95_range by (intro f64.rnd_nonneg mult_nonneg_nonneg) simp_all
  have "round64 (95 / 100) * of_int (n - 1) \<le> (of_int (n - 1) :: rat)"
    using f95_range assms by (intro mult_left_le_one_le) simp_all
  moreover have "round64 (of_int (n - 1)) = of_int (n - 1)"
    by (rule round64_of_int) (use assms in simp)
  ultimately show "fmul (round64 (95 / 100)) (float_of_int (n - 1)) \<le> of_int (n - 1)"
    unfolding f fmul_def by (intro f64.rnd_upper) simp_all
qed

definition int_sample :: "rat \<Rightarrow> bool" where
  "int_sample x \<longleftrightarrow> (\<exists>m. x = of_int m \<and> 0 \<le> m \<and> m \<le> 2 ^ 53)"

lemma int_sample_exact: "int_sample x \<Longrightarrow> round64 x = x"
  by (auto simp: int_sample_def intro: round64_of_int)

lemma int_sample_diff: "int_sample x \<Longrightarrow> int_sample y \<Longrightarrow> round64 (y - x) = y - x"
  unfolding int_sample_def by (auto simp flip: of_int_diff intro!: round64_of_int)

lemma lerp_bounds:
  assumes "int_sample a" "int_sample b" "a \<le> b" "0 \<le> t" "t \<le> 1"
  shows "a \<le> fadd a (fmul (fsub b a) t) \<and> fadd a (fmul (fsub b a) t) \<le> b"
  unfolding fadd_def fmul_def fsub_def
  using f64.rnd_lerp_lower [OF int_sample_exact [OF assms(1)] assms(3,4)]
    f64.rnd_lerp_upper [OF int_sample_exact [OF assms(2)] assms(3-5) int_sample_diff [OF assms(1,2)]]
  by (rule conjI)

lemma transfer_percentile_bounds:
  assumes ne: "xs \<noteq> []" and smp: "\<forall>x\<in>set xs. int_sample x" and len: "int (length xs) \<le> 2 ^ 53"
  shows "\<exists>v i. transfer_percentile_95 xs = Inr v \<and> i < length xs \<and>
    sort xs ! i \<le> v \<and> v \<le> sort xs ! min (i + 1) (length xs - 1)"
proof (cases "length xs = 1")
  case True
  then show ?thesis by (cases xs) (auto simp: transfer_percentile_95_def)
next
  case False
  define n where "n = int (length xs)"
  define index where "index = fmul (round64 (95 / 100)) (float_of_int (n - 1))"
  have n: "1 \<le> n" "n \<le> 2 ^ 53" using ne len by (cases xs; simp add: n_def)+
  have idx: "0 \<le> index" "index \<le> of_int (n - 1)"
    using scaled_index [OF n] by (simp_all add: index_def)
  define l where "l = nat \<lfloor>index\<rfloor>"
  have fl: "0 \<le> \<lfloor>index\<rfloor>" "\<lfloor>index\<rfloor> \<le> n - 1" using idx by linarith+
  then have l: "int l = \<lfloor>index\<rfloor>" "l < length xs" by (auto simp: l_def n_def nat_less_iff)
  have u: "nat (min (\<lfloor>index\<rfloor> + 1) (n - 1)) = min (l + 1) (length xs - 1)"
    using l n by (auto simp: n_def min_def)
  have ff: "float_of_int \<lfloor>index\<rfloor> = of_int \<lfloor>index\<rfloor>"
    unfolding float_of_int_def by (rule round64_of_int) (use fl n in linarith)
  have fr: "0 \<le> fsub index (float_of_int \<lfloor>index\<rfloor>)" "fsub index (float_of_int \<lfloor>index\<rfloor>) \<le> 1"
    unfolding ff fsub_def using round64_of_int [of 1]
    by (auto intro!: f64.rnd_nonneg f64.rnd_upper) linarith+
  have mem: "int_sample (sort xs ! j)" if "j < length xs" for j
    using smp nth_mem [of j "sort xs"] that by simp
  have le: "sort xs ! l \<le> sort xs ! min (l + 1) (length xs - 1)"
    by (rule sorted_nth_mono) (use l ne in auto)
  have "transfer_percentile_95 xs = Inr (fadd (sort xs ! l)
      (fmul (fsub (sort xs ! min (l + 1) (length xs - 1)) (sort xs ! l))
        (fsub index (float_of_int \<lfloor>index\<rfloor>))))"
    unfolding transfer_percentile_95_def Let_def n_def [symmetric] index_def [symmetric]
    using ne False u by (simp add: l_def)
  with lerp_bounds [OF mem mem le fr] l show ?thesis by force
qed

section \<open>Properties\<close>

text \<open>
  C9: a payload slice is the corresponding piece of the infinite byte stream of the seed: for
  every seed, offset and size the periodic construction equals the bytes \<open>payload_byte\<close> of the
  positions of the slice, and a negative offset or size is a \<open>ValueError\<close>.
\<close>

theorem payload_slice_pointwise:
  "payload_slice seed offset sz =
     (if offset < 0 \<or> sz < 0 then Inl (ValueError ''payload offset and size must be non-negative'')
      else Inr (map (\<lambda>i. byte_of (payload_byte seed i)) [offset..offset + sz - 1]))"
  by (simp add: payload_slice_eq pattern_def)

text \<open>
  C38: the incremental digest over full periods is the SHA-256 of the payload itself.
\<close>

theorem payload_sha256_of_payload:
  "payload_sha256 seed sz chunk =
     (if sz < 0 \<or> chunk \<le> 0 then Inl (ValueError ''payload size and chunk size must be positive'')
      else bindr (payload_bytes seed sz) (\<lambda>bs. Inr (sha256_hex bs)))"
  by (simp add: payload_sha256_def payload_bytes_def payload_slice_eq payload_period_eq payload_digest_eq)

text \<open>
  C37: a transfer plan of n iterations contains, whatever generator shuffles it, exactly the
  12 n transfers of every direction and size, each with the seed derived from the case and its
  iteration, and its positions are numbered 1 to 12 n in the order of execution.
\<close>

theorem operations_for_case_complete:
  "map op_order (operations_for_case R seed cid n) = [1..12 * int (nat n)] \<and>
   mset (map op_content (operations_for_case R seed cid n)) =
     mset (concat (map (\<lambda>i. map (\<lambda>(d, s). (i, d, s, derived_seed (derived_seed seed cid i) d s))
       transfer_pairs) [1..n]))"
proof -
  have "length (operations_for_case R seed cid n) = 12 * nat n"
    by (simp add: operations_for_case_def length_unordered_operations)
  moreover have "map op_content (unordered_operations seed cid n) =
      concat (map (\<lambda>i. map (\<lambda>(d, s). (i, d, s, derived_seed (derived_seed seed cid i) d s))
       transfer_pairs) [1..n])"
    by (simp add: unordered_operations_def map_concat comp_def unordered_operation_def op_content_def
        case_prod_beta')
  ultimately show ?thesis
    using operations_for_case_order [of R seed cid n] operations_for_case_content [of R seed cid n]
    by simp
qed

text \<open>
  The interpolated 95th percentile of the transfer summaries, computed in binary64, lies
  between two neighbouring order statistics of the samples, when these are counts of at most
  \<open>2 ^ 53\<close> (the microsecond columns); so rounding never pushes it outside the observed range.
\<close>

theorem transfer_percentile_95_between:
  assumes "xs \<noteq> []" and "\<forall>x\<in>set xs. int_sample x" and "int (length xs) \<le> 2 ^ 53"
  shows "\<exists>v i. transfer_percentile_95 xs = Inr v \<and> i < length xs \<and>
    sort xs ! i \<le> v \<and> v \<le> sort xs ! min (i + 1) (length xs - 1)"
  using assms by (rule transfer_percentile_bounds)

theorem transfer_percentile_95_between_witness:
  "\<exists>v i. transfer_percentile_95 [7, 5, 9] = Inr v \<and> i < length [7, 5, 9 :: rat] \<and>
    sort [7, 5, 9] ! i \<le> v \<and> v \<le> sort [7, 5, 9] ! min (i + 1) (length [7, 5, 9 :: rat] - 1)"
proof (rule transfer_percentile_95_between)
  show "\<forall>x\<in>set [7, 5, 9]. int_sample x"
    by (auto simp: int_sample_def intro: exI [of _ 7] exI [of _ 5] exI [of _ 9])
qed simp_all

end
