(* ===== verification/Py_State.thy ===== *)
theory Py_State
  imports Py_Prelude
begin

text \<open>
  Stateful Python code: a computation takes the state and returns a result, which may be an
  exception, together with the state it leaves; an exception keeps the effects that came before it.
\<close>

type_synonym ('s, 'a) io = "'s \<Rightarrow> 'a res \<times> 's"

definition retm :: "'a \<Rightarrow> ('s, 'a) io" where
  "retm x s = (Inr x, s)"

definition raisem :: "pyexc \<Rightarrow> ('s, 'a) io" where
  "raisem e s = (Inl e, s)"

definition bindm :: "('s, 'a) io \<Rightarrow> ('a \<Rightarrow> ('s, 'b) io) \<Rightarrow> ('s, 'b) io" where
  "bindm m f s = (case m s of (Inl e, t) \<Rightarrow> (Inl e, t) | (Inr x, t) \<Rightarrow> f x t)"

definition getm :: "('s \<Rightarrow> 'a) \<Rightarrow> ('s, 'a) io" where
  "getm f s = (Inr (f s), s)"

definition modifym :: "('s \<Rightarrow> 's) \<Rightarrow> ('s, unit) io" where
  "modifym f s = (Inr (), f s)"

definition liftm :: "'a res \<Rightarrow> ('s, 'a) io" where
  "liftm r s = (r, s)"

definition whenm :: "bool \<Rightarrow> ('s, unit) io \<Rightarrow> ('s, unit) io" where
  "whenm b m = (if b then m else retm ())"

text \<open>\<open>try: m finally: f\<close>, where an exception of \<open>f\<close> replaces that of \<open>m\<close>.\<close>

definition finallym :: "('s, 'a) io \<Rightarrow> ('s, unit) io \<Rightarrow> ('s, 'a) io" where
  "finallym m f s = (case m s of (r, t) \<Rightarrow>
     (case f t of (Inl e, u) \<Rightarrow> (Inl e, u) | (Inr _, u) \<Rightarrow> (r, u)))"

fun eachm :: "('a \<Rightarrow> ('s, unit) io) \<Rightarrow> 'a list \<Rightarrow> ('s, unit) io" where
  "eachm f [] = retm ()"
| "eachm f (x # xs) = bindm (f x) (\<lambda>_. eachm f xs)"

lemma io_simps [simp, py_simps]:
  "retm x s = (Inr x, s)"
  "raisem e s = (Inl e, s)"
  "getm f s = (Inr (f s), s)"
  "modifym g s = (Inr (), g s)"
  "liftm r s = (r, s)"
  by (simp_all add: retm_def raisem_def getm_def modifym_def liftm_def)

lemma bindm_Inr: "m s = (Inr x, t) \<Longrightarrow> bindm m f s = f x t"
  by (simp add: bindm_def)

lemma bindm_Inl: "m s = (Inl e, t) \<Longrightarrow> bindm m f s = (Inl e, t)"
  by (simp add: bindm_def)

lemma bindm_simps [simp, py_simps]:
  "bindm (retm x) f = f x"
  "bindm (raisem e) f = raisem e"
  by (simp_all add: bindm_def fun_eq_iff)

lemma bindm_eq_Inr:
  "bindm m f s = (Inr y, u) \<longleftrightarrow> (\<exists>x t. m s = (Inr x, t) \<and> f x t = (Inr y, u))"
  by (auto simp: bindm_def split: prod.splits sum.splits)

lemma bindm_eq_Inl:
  "bindm m f s = (Inl e, u) \<longleftrightarrow> m s = (Inl e, u) \<or> (\<exists>x t. m s = (Inr x, t) \<and> f x t = (Inl e, u))"
  by (auto simp: bindm_def split: prod.splits sum.splits)

lemma bindm_assoc: "bindm (bindm m f) g = bindm m (\<lambda>x. bindm (f x) g)"
  by (auto simp: bindm_def fun_eq_iff split: prod.splits sum.splits)

text \<open>An invariant of the state kept by a computation on every outcome.\<close>

definition keeps :: "('s \<Rightarrow> bool) \<Rightarrow> ('s, 'a) io \<Rightarrow> bool" where
  "keeps P m \<longleftrightarrow> (\<forall>s. P s \<longrightarrow> P (snd (m s)))"

named_theorems keeps_intros \<open>computations that keep an invariant\<close>

lemma keepsD: "keeps P m \<Longrightarrow> P s \<Longrightarrow> m s = (r, t) \<Longrightarrow> P t"
  unfolding keeps_def by force

lemma keepsI: "(\<And>s r t. P s \<Longrightarrow> m s = (r, t) \<Longrightarrow> P t) \<Longrightarrow> keeps P m"
  unfolding keeps_def by (metis prod.collapse)

lemma keeps_basic [keeps_intros]:
  "keeps P (retm x)" "keeps P (raisem e)" "keeps P (getm f)" "keeps P (liftm r)"
  by (simp_all add: keeps_def)

lemma keeps_bindm [keeps_intros]:
  assumes "keeps P m" "\<And>x. keeps P (f x)" shows "keeps P (bindm m f)"
proof (rule keepsI)
  fix s r t assume s: "P s" and b: "bindm m f s = (r, t)"
  obtain q u where m: "m s = (q, u)" by fastforce
  have u: "P u" using assms(1) s m by (rule keepsD)
  show "P t"
  proof (cases q)
    case (Inl e)
    then show ?thesis using b m u by (simp add: bindm_def)
  next
    case (Inr x)
    then have "f x u = (r, t)" using b m by (simp add: bindm_def)
    with assms(2) u show ?thesis by (rule keepsD)
  qed
qed

lemma keeps_whenm [keeps_intros]: "keeps P m \<Longrightarrow> keeps P (whenm b m)"
  by (simp add: whenm_def keeps_basic)

lemma keeps_eachm [keeps_intros]: "(\<And>x. keeps P (f x)) \<Longrightarrow> keeps P (eachm f xs)"
  by (induction xs) (simp_all add: keeps_intros)

lemma keeps_finallym [keeps_intros]:
  assumes "keeps P m" "keeps P f" shows "keeps P (finallym m f)"
proof (rule keepsI)
  fix s r t assume s: "P s" and b: "finallym m f s = (r, t)"
  obtain q u where m: "m s = (q, u)" by fastforce
  obtain q' u' where f: "f u = (q', u')" by fastforce
  have "P u" using assms(1) s m by (rule keepsD)
  with assms(2) have "P u'" using f by (rule keepsD)
  then show "P t" using b m f by (auto simp: finallym_def split: sum.splits)
qed

lemma keeps_if [keeps_intros]: "keeps P m \<Longrightarrow> keeps P n \<Longrightarrow> keeps P (if b then m else n)"
  by simp

end
