(* ===== verification/Mqtt_Controller.thy ===== *)
theory Mqtt_Controller
  imports Transfer_Plan Py_State Metrics
begin

text \<open>
  \<open>gateway/mqtt_transfer_controller.py\<close>: the MQTT client that drives the board through a
  transfer plan.  The state is the client object together with its environment: \<open>mq_rx\<close> are
  the segments that \<open>recv\<close> will deliver (the empty segment is the end of the stream, an exhausted
  list is a timeout), \<open>mq_tx\<close> the bytes sent, \<open>mq_clock\<close> the readings of the
  monotonic clock and \<open>mq_out\<close> the lines printed.  Sending never fails in the model; a
  broken connection shows at the next read.
\<close>

definition TOPIC_CONTROL :: string where "TOPIC_CONTROL = ''bench/control''"
definition TOPIC_DOWN :: string where "TOPIC_DOWN = ''bench/down''"
definition TOPIC_UP :: string where "TOPIC_UP = ''bench/up''"
definition TOPIC_DEVICE_ACK :: string where "TOPIC_DEVICE_ACK = ''bench/device_ack''"
definition TOPIC_METRICS :: string where "TOPIC_METRICS = ''bench/metrics''"
definition TRANSFER_TIMEOUT_SECONDS :: rat where "TRANSFER_TIMEOUT_SECONDS = 30"

record mqtt =
  mq_rx :: "byte list list"
  mq_tx :: "byte list"
  mq_packet_id :: int
  mq_inbox :: "(string \<times> byte list \<times> int) list"
  mq_timeout :: rat
  mq_clock :: "int list"
  mq_out :: "string list"

type_synonym 'a mq = "(mqtt, 'a) io"

section \<open>Encoders and payloads\<close>

text \<open>The controller's own copies of the functions of \<open>benchmarklib/transfer.py\<close>.\<close>

definition ctl_encode_remaining_length :: "nat \<Rightarrow> byte list" where
  "ctl_encode_remaining_length value = remaining_length_loop value"

definition encode_utf8 :: "string \<Rightarrow> byte list res" where
  "encode_utf8 value = (let data = encode_str value in
     bindr (to_bytes_checked 2 (int (length data))) (\<lambda>n. Inr (n @ data)))"

definition ctl_payload_slice :: "int \<Rightarrow> int \<Rightarrow> int \<Rightarrow> byte list" where
  "ctl_payload_slice seed offset sz = slice_of_period (payload_period (and seed 0xFF)) offset sz"

definition make_payload :: "int \<Rightarrow> int \<Rightarrow> byte list" where
  "make_payload seed sz = ctl_payload_slice seed 0 sz"

definition payload_hash :: "int \<Rightarrow> int \<Rightarrow> string" where
  "payload_hash seed sz = payload_digest (payload_period (and seed 0xFF)) sz"

section \<open>The socket\<close>

fun recv :: "nat \<Rightarrow> byte list list \<Rightarrow> byte list res \<times> byte list list" where
  "recv n [] = (Inl TimeoutError, [])"
| "recv n (seg # segs) =
     (if seg = [] then (Inr [], seg # segs)
      else if length seg \<le> n then (Inr seg, segs)
      else (Inr (take n seg), drop n seg # segs))"

function read_loop :: "nat \<Rightarrow> byte list \<Rightarrow> byte list list \<Rightarrow> byte list res \<times> byte list list" where
  "read_loop sz acc rx =
     (if length acc < sz
      then (case recv (sz - length acc) rx of
              (Inl e, rx') \<Rightarrow> (Inl e, rx')
            | (Inr chunk, rx') \<Rightarrow>
                (if chunk = [] then (Inl (ConnectionError ''MQTT broker closed the connection''), rx')
                 else read_loop sz (acc @ chunk) rx'))
      else (Inr acc, rx))"
  by pat_completeness auto
termination
  by (relation "measure (\<lambda>(sz, acc, rx). sz - length acc)")
     (auto simp: length_greater_0_conv [symmetric] simp del: length_greater_0_conv)

declare read_loop.simps [simp del]

definition read_exact :: "nat \<Rightarrow> byte list mq" where
  "read_exact sz c = (case read_loop sz [] (mq_rx c) of (r, rx) \<Rightarrow> (r, c\<lparr>mq_rx := rx\<rparr>))"

definition sendall :: "byte list \<Rightarrow> unit mq" where
  "sendall bs = modifym (\<lambda>c. c\<lparr>mq_tx := mq_tx c @ bs\<rparr>)"

definition close_client :: "unit mq" where
  "close_client = sendall [0xE0, 0x00]"

definition next_id :: "int mq" where
  "next_id c = (let value = mq_packet_id c in
     (Inr value, c\<lparr>mq_packet_id := (if value = 65535 then 1 else value + 1)\<rparr>))"

section \<open>Packets\<close>

text \<open>The header parser over any exact reader; the client uses \<open>read_exact\<close>.\<close>

fun length_digits :: "(nat \<Rightarrow> ('s, byte list) io) \<Rightarrow> nat \<Rightarrow> int \<Rightarrow> int \<Rightarrow> ('s, int) io" where
  "length_digits rd 0 remaining multiplier = raisem (ValueError ''malformed MQTT remaining length'')"
| "length_digits rd (Suc k) remaining multiplier =
     bindm (rd 1) (\<lambda>bs. let digit = uint (hd bs);
         remaining' = remaining + and digit 0x7F * multiplier
       in if and digit 0x80 = 0 then retm remaining'
          else length_digits rd k remaining' (multiplier * 128))"

definition packet_header_with :: "(nat \<Rightarrow> ('s, byte list) io) \<Rightarrow> ('s, int \<times> int) io" where
  "packet_header_with rd = bindm (rd 1) (\<lambda>bs. bindm (length_digits rd 4 0 1) (\<lambda>remaining.
     retm (uint (hd bs), remaining)))"

definition packet_with :: "(nat \<Rightarrow> ('s, byte list) io) \<Rightarrow> ('s, int \<times> byte list) io" where
  "packet_with rd = bindm (packet_header_with rd) (\<lambda>(first, remaining).
     bindm (rd (nat remaining)) (\<lambda>body. retm (first, body)))"

definition read_packet_header :: "(int \<times> int) mq" where
  "read_packet_header = packet_header_with read_exact"

definition read_packet :: "(int \<times> byte list) mq" where
  "read_packet = packet_with read_exact"

text \<open>\<open>repr\<close> of a byte string, for the texts of the errors.\<close>

definition repr_byte :: "byte \<Rightarrow> string" where
  "repr_byte b = (let n = uint b in
     if n = 9 then [CHR 0x5C, CHR ''t''] else if n = 10 then [CHR 0x5C, CHR ''n'']
     else if n = 13 then [CHR 0x5C, CHR ''r'']
     else if n = 92 then [CHR 0x5C, CHR 0x5C]
     else if n < 32 \<or> 127 \<le> n then [CHR 0x5C, CHR ''x''] @ hex_pad 2 n else [char_of n])"

definition repr_bytes :: "byte list \<Rightarrow> string" where
  "repr_bytes bs = (let q = (if 0x27 \<in> set bs \<and> 0x22 \<notin> set bs then CHR 0x22 else CHR 0x27)
     in ''b'' @ [q] @ concat (map (\<lambda>b. if char_of (uint b) = q then [CHR 0x5C, q] else repr_byte b) bs) @ [q])"

definition hex_prefixed :: "int \<Rightarrow> string" where
  "hex_prefixed n = ''0x'' @ hex_pad 1 n"

definition connect_client :: "unit mq" where
  "connect_client =
     bindm (liftm (encode_utf8 ''MQTT'')) (\<lambda>proto.
     bindm (liftm (encode_utf8 ''transfer-controller'')) (\<lambda>ident.
     let body = proto @ [0x04, 0x02, 0x00, 0x3C] @ ident in
     bindm (sendall ([0x10] @ ctl_encode_remaining_length (length body) @ body)) (\<lambda>_.
     bindm read_packet (\<lambda>(packet, reply).
       if packet \<noteq> 0x20 \<or> reply \<noteq> [0, 0]
       then raisem (RuntimeError (''MQTT CONNACK rejected: '' @ hex_prefixed packet @ '' '' @
              repr_bytes reply))
       else retm ()))))"

section \<open>Receiving published messages\<close>

definition store_publish :: "int \<Rightarrow> byte list \<Rightarrow> unit mq" where
  "store_publish packet body =
     (if drop_bit 4 packet \<noteq> 3 then retm ()
      else let topic_len = nat (from_bytes_be (take 2 body)); offset = 2 + topic_len;
               qos = and (drop_bit 1 packet) 3 in
        bindm (liftm (decode_utf8 (take topic_len (drop 2 body)))) (\<lambda>topic.
          if qos \<noteq> 0 then
            (let packet_id = from_bytes_be (take 2 (drop offset body)) in
             bindm (sendall ([0x40, 0x02] @ to_bytes_be 2 packet_id)) (\<lambda>_.
               modifym (\<lambda>c. c\<lparr>mq_inbox := mq_inbox c @ [(topic, drop (offset + 2) body, packet_id)]\<rparr>)))
          else modifym (\<lambda>c. c\<lparr>mq_inbox := mq_inbox c @ [(topic, drop offset body, 0)]\<rparr>)))"

text \<open>
  \<open>while True\<close>: the body returns a value when the loop returns.  The bound on the rounds is
  the number of bytes that can still arrive, and every round reads at least one packet;
  \<open>loopm_unfold\<close> below shows that the bound never cuts a loop off.
\<close>

fun loopm :: "nat \<Rightarrow> ('s, 'a option) io \<Rightarrow> ('s, 'a) io" where
  "loopm 0 body = raisem (OutsideModel ''loop bound'')"
| "loopm (Suc k) body =
     bindm body (\<lambda>r. case r of Some x \<Rightarrow> retm x | None \<Rightarrow> loopm k body)"

definition rx_bytes :: "mqtt \<Rightarrow> nat" where
  "rx_bytes c = length (concat (mq_rx c))"

definition packet_loop :: "'a option mq \<Rightarrow> 'a mq" where
  "packet_loop body c = loopm (Suc (rx_bytes c)) body c"

definition suback_round :: "byte list \<Rightarrow> unit option mq" where
  "suback_round pid = bindm read_packet (\<lambda>(packet, response).
     if packet = 0x90 \<and> take 2 response = pid then retm (Some ())
     else bindm (store_publish packet response) (\<lambda>_. retm None))"

definition subscribe_client :: "string list \<Rightarrow> unit mq" where
  "subscribe_client topics =
     bindm next_id (\<lambda>packet_id.
     bindm (liftm (to_bytes_checked 2 packet_id)) (\<lambda>pid.
     bindm (liftm (mapr (\<lambda>t. bindr (encode_utf8 t) (\<lambda>e. Inr (e @ [0x01]))) topics)) (\<lambda>filters.
     let body = pid @ concat filters in
     bindm (sendall ([0x82] @ ctl_encode_remaining_length (length body) @ body)) (\<lambda>_.
     packet_loop (suback_round pid)))))"

definition puback_round :: "byte list \<Rightarrow> unit option mq" where
  "puback_round expected = bindm read_packet (\<lambda>(packet, body).
     if packet = 0x40 \<and> body = expected then retm (Some ())
     else bindm (store_publish packet body) (\<lambda>_. retm None))"

definition wait_puback :: "int \<Rightarrow> unit mq" where
  "wait_puback packet_id = bindm (liftm (to_bytes_checked 2 packet_id)) (\<lambda>expected.
     packet_loop (puback_round expected))"

definition publish :: "string \<Rightarrow> byte list \<Rightarrow> unit mq" where
  "publish topic payload =
     bindm next_id (\<lambda>packet_id.
     bindm (liftm (encode_utf8 topic)) (\<lambda>t.
     bindm (liftm (to_bytes_checked 2 packet_id)) (\<lambda>pid.
     let body = t @ pid @ payload in
     bindm (sendall ([0x32] @ ctl_encode_remaining_length (length body) @ body)) (\<lambda>_.
     wait_puback packet_id))))"

definition chunk_offsets :: "int \<Rightarrow> int list" where
  "chunk_offsets sz = map (\<lambda>k. 1024 * k) [0..(sz - 1) div 1024]"

definition publish_pattern :: "string \<Rightarrow> int \<Rightarrow> int \<Rightarrow> unit mq" where
  "publish_pattern topic seed sz =
     bindm next_id (\<lambda>packet_id.
     bindm (liftm (encode_utf8 topic)) (\<lambda>t.
     bindm (liftm (to_bytes_checked 2 packet_id)) (\<lambda>pid.
     let variable = t @ pid in
     bindm (sendall ([0x32] @ ctl_encode_remaining_length (length variable + nat sz) @ variable)) (\<lambda>_.
     bindm (eachm (\<lambda>offset. sendall (ctl_payload_slice seed offset (min 1024 (sz - offset))))
        (chunk_offsets sz)) (\<lambda>_.
     wait_puback packet_id)))))"

text \<open>
  The receive loop of \<open>wait_pattern_publish\<close>.  \<open>read_exact\<close> returns exactly the bytes
  it was asked for, so the offset advances by that number.
\<close>

function recv_pattern :: "int \<Rightarrow> int \<Rightarrow> int \<Rightarrow> byte list \<Rightarrow> bool \<Rightarrow> (byte list \<times> bool) mq" where
  "recv_pattern seed payload_size offset absorbed valid =
     (if offset < payload_size
      then bindm (read_exact (nat (min 1024 (payload_size - offset)))) (\<lambda>chunk.
        recv_pattern seed payload_size (offset + min 1024 (payload_size - offset)) (absorbed @ chunk)
          (valid \<and> chunk = ctl_payload_slice seed offset (int (length chunk))))
      else retm (absorbed, valid))"
  by pat_completeness auto
termination
  by (relation "measure (\<lambda>(seed, n, off, ab, v). nat (n - off))") auto

declare recv_pattern.simps [simp del]

definition wait_pattern_publish :: "string \<Rightarrow> int \<Rightarrow> int \<Rightarrow> (string \<times> bool) mq" where
  "wait_pattern_publish topic seed sz =
     bindm read_packet_header (\<lambda>(packet, remaining).
     if drop_bit 4 packet \<noteq> 3
     then raisem (RuntimeError (''expected MQTT PUBLISH, received '' @ hex_prefixed packet))
     else
       bindm (read_exact 2) (\<lambda>ts. let topic_size = from_bytes_be ts in
       bindm (read_exact (nat topic_size)) (\<lambda>tb.
       bindm (liftm (decode_utf8 tb)) (\<lambda>actual_topic.
       let qos = and (drop_bit 1 packet) 3 in
       bindm (if qos \<noteq> 0 then bindm (read_exact 2) (\<lambda>b. retm (from_bytes_be b)) else retm 0) (\<lambda>packet_id.
       let payload_size = remaining - 2 - topic_size - (if qos \<noteq> 0 then 2 else 0) in
       bindm (recv_pattern seed payload_size 0 [] (actual_topic = topic \<and> payload_size = sz)) (\<lambda>(absorbed, valid).
       bindm (whenm (packet_id \<noteq> 0) (sendall ([0x40, 0x02] @ to_bytes_be 2 packet_id))) (\<lambda>_.
       retm (sha256_hex absorbed, valid))))))))"

definition take_topic ::
  "string \<Rightarrow> (string \<times> byte list \<times> int) list \<Rightarrow> (byte list \<times> (string \<times> byte list \<times> int) list) option" where
  "take_topic topic inbox = (case dropWhile (\<lambda>item. fst item \<noteq> topic) inbox of
       [] \<Rightarrow> None
     | item # later \<Rightarrow> Some (fst (snd item), takeWhile (\<lambda>item. fst item \<noteq> topic) inbox @ later))"

definition publish_round :: "string \<Rightarrow> byte list option mq" where
  "publish_round topic = bindm (getm mq_inbox) (\<lambda>inbox.
     case take_topic topic inbox of
       Some (payload, inbox') \<Rightarrow>
         bindm (modifym (\<lambda>c. c\<lparr>mq_inbox := inbox'\<rparr>)) (\<lambda>_. retm (Some payload))
     | None \<Rightarrow> bindm read_packet (\<lambda>(packet, body).
         bindm (store_publish packet body) (\<lambda>_. retm None)))"

definition wait_publish :: "string \<Rightarrow> byte list mq" where
  "wait_publish topic = packet_loop (publish_round topic)"

section \<open>The protocol of one plan\<close>

definition print_line :: "string \<Rightarrow> unit mq" where
  "print_line t = modifym (\<lambda>c. c\<lparr>mq_out := mq_out c @ [t]\<rparr>)"

definition monotonic_ns :: "int mq" where
  "monotonic_ns c = (case mq_clock c of [] \<Rightarrow> (Inl (OutsideModel ''clock''), c)
     | t # ts \<Rightarrow> (Inr t, c\<lparr>mq_clock := ts\<rparr>))"

definition set_timeout :: "rat \<Rightarrow> unit mq" where
  "set_timeout t = modifym (\<lambda>c. c\<lparr>mq_timeout := t\<rparr>)"

definition row_int :: "row \<Rightarrow> string \<Rightarrow> int res" where
  "row_int r k = bindr (dindex r k) pv_int"

definition row_text :: "row \<Rightarrow> string \<Rightarrow> string res" where
  "row_text r k = bindr (dindex r k) (\<lambda>v. case v of PStr s \<Rightarrow> Inr s | PInt i \<Rightarrow> Inr (str_int i)
     | _ \<Rightarrow> Inl (OutsideModel ''str() of a cell''))"

definition bool_digit :: "bool \<Rightarrow> string" where
  "bool_digit b = (if b then ''1'' else ''0'')"

definition down_transfer :: "int \<Rightarrow> int \<Rightarrow> int \<Rightarrow> string \<Rightarrow> (string \<times> bool) mq" where
  "down_transfer sequence sz seed expected =
     bindm (publish_pattern TOPIC_DOWN seed sz) (\<lambda>_.
     bindm (wait_publish TOPIC_DEVICE_ACK) (\<lambda>raw.
     bindm (liftm (decode_replace raw)) (\<lambda>ack.
     let words = split_ws ack in
     retm (if 4 \<le> length words then words ! 3 else [],
           startswith ack (''ACK_DOWN '' @ str_int sequence @ '' 1 '' @ expected)))))"

definition up_transfer :: "int \<Rightarrow> int \<Rightarrow> int \<Rightarrow> string \<Rightarrow> (string \<times> bool) mq" where
  "up_transfer sequence sz seed expected =
     bindm (wait_pattern_publish TOPIC_UP seed sz) (\<lambda>(actual, ok).
     let valid = (ok \<and> actual = expected) in
     bindm (publish TOPIC_CONTROL (encode_str
        (''ACK_UP '' @ str_int sequence @ '' '' @ bool_digit valid @ '' '' @ actual))) (\<lambda>_.
     retm (actual, valid)))"

definition device_line :: "string \<Rightarrow> string" where
  "device_line m = ''[BENCH_TRANSFER_DEVICE] '' @ m"

definition server_row :: "int \<Rightarrow> string \<Rightarrow> int \<Rightarrow> bool \<Rightarrow> string \<Rightarrow> int \<Rightarrow> srow" where
  "server_row sequence direction sz valid actual elapsed_us =
     [(''sequence'', str_int sequence), (''direction'', direction), (''payload_bytes'', str_int sz),
      (''status'', if valid then ''success'' else ''fail''), (''integrity_match'', bool_digit valid),
      (''sha256'', actual), (''server_end_to_end_us'', str_int elapsed_us)]"

definition server_line :: "int \<Rightarrow> string \<Rightarrow> int \<Rightarrow> bool \<Rightarrow> string \<Rightarrow> int \<Rightarrow> string" where
  "server_line sequence direction sz valid actual elapsed_us =
     ''[BENCH_TRANSFER_SERVER] '' @
     ''sequence='' @ str_int sequence @ '' direction='' @ direction @
     '' payload_bytes='' @ str_int sz @ '' status='' @ (if valid then ''success'' else ''fail'') @
     '' integrity_match='' @ bool_digit valid @ '' sha256='' @ actual @
     '' server_end_to_end_us='' @ str_int elapsed_us"

definition run_operation :: "row \<Rightarrow> unit mq" where
  "run_operation operation =
     bindm (liftm (row_int operation ''order'')) (\<lambda>sequence.
     bindm (liftm (row_text operation ''direction'')) (\<lambda>direction.
     bindm (liftm (row_int operation ''payload_bytes'')) (\<lambda>sz.
     bindm (liftm (row_int operation ''payload_seed'')) (\<lambda>seed.
     bindm (set_timeout TRANSFER_TIMEOUT_SECONDS) (\<lambda>_.
     let expected = payload_hash seed sz; down = (direction = ''server_to_device'') in
     bindm (publish TOPIC_CONTROL (encode_str ((if down then ''DOWN'' else ''UP'') @ '' '' @
        str_int sequence @ '' '' @ str_int sz @ '' '' @ str_int seed @ '' '' @ expected))) (\<lambda>_.
     bindm monotonic_ns (\<lambda>started.
     bindm (if down then down_transfer sequence sz seed expected
            else up_transfer sequence sz seed expected) (\<lambda>(actual, valid).
     bindm monotonic_ns (\<lambda>now.
     let elapsed_us = (now - started) div 1000 in
     bindm (wait_publish TOPIC_METRICS) (\<lambda>raw.
     bindm (liftm (decode_replace raw)) (\<lambda>device_metrics.
     bindm (print_line (device_line device_metrics)) (\<lambda>_.
     bindm (print_line (server_line sequence direction sz valid actual elapsed_us)) (\<lambda>_.
     if valid then retm ()
     else raisem (RuntimeError (''payload validation failed for operation '' @ str_int sequence)))))))))))))))"

definition run_plan :: "row list \<Rightarrow> unit mq" where
  "run_plan operations =
     bindm connect_client (\<lambda>_.
     bindm (subscribe_client [TOPIC_UP, TOPIC_DEVICE_ACK, TOPIC_METRICS]) (\<lambda>_.
     bindm (wait_publish TOPIC_UP) (\<lambda>ready.
     if ready \<noteq> encode_str ''READY''
     then raisem (RuntimeError (''expected board READY, received '' @ repr_bytes (take 80 ready)))
     else
       bindm (print_line ''[BENCH_TRANSFER_SERVER] status=ready'') (\<lambda>_.
       bindm (publish TOPIC_CONTROL (encode_str (''BEGIN '' @ str_nat (length operations)))) (\<lambda>_.
       bindm (eachm run_operation operations) (\<lambda>_.
       print_line ''[BENCH_TRANSFER_SERVER] status=complete''))))))"

definition run_controller :: "row list \<Rightarrow> unit mq" where
  "run_controller operations = finallym (run_plan operations) close_client"

text \<open>A new client object on a connected socket.\<close>

definition new_client :: "byte list list \<Rightarrow> int list \<Rightarrow> rat \<Rightarrow> mqtt" where
  "new_client rx clock timeout = \<lparr>mq_rx = rx, mq_tx = [], mq_packet_id = 1, mq_inbox = [],
     mq_timeout = timeout, mq_clock = clock, mq_out = []\<rparr>"

section \<open>Reading is independent of the segmentation\<close>

lemma low_digit_bits:
  assumes "0 \<le> d" "d < 128"
  shows "and d 127 = d \<and> and d 128 = 0 \<and> and (or d 128) 127 = d \<and> and (or d 128) 128 = 128 \<and>
    uint (byte_of d) = d \<and> uint (byte_of (or d 128)) = or d (128 :: int)"
proof -
  have "d \<in> set [0..127]" using assms by auto
  moreover have "\<forall>x\<in>set [0..127]. and x 127 = x \<and> and x 128 = 0 \<and> and (or x 128) 127 = x \<and>
      and (or x 128) 128 = 128 \<and> uint (byte_of x) = x \<and> uint (byte_of (or x 128)) = or x (128 :: int)"
    by code_simp
  ultimately show ?thesis by blast
qed

text \<open>
  The interface between the packet parser and its byte source: enough content gives exactly the
  next bytes and leaves the others.
\<close>

locale byte_source =
  fixes rd :: "nat \<Rightarrow> ('s, byte list) io" and content :: "'s \<Rightarrow> byte list"
  assumes rd_enough: "n \<le> length (content s) \<Longrightarrow>
    \<exists>t. rd n s = (Inr (take n (content s)), t) \<and> content t = drop n (content s)"
begin

lemma rd_prefix:
  assumes "content s = p @ r"
  obtains t where "rd (length p) s = (Inr p, t)" "content t = r"
  using rd_enough [of "length p" s] assms by auto

lemma rd_one:
  assumes "content s = b # r"
  obtains t where "rd 1 s = (Inr [b], t)" "content t = r"
  using rd_prefix [of s "[b]" r] assms by auto

lemma length_digits_encode:
  assumes "content s = remaining_length_loop v @ r" "v < 128 ^ k" "0 < k"
  shows "\<exists>t. length_digits rd k remaining multiplier s = (Inr (remaining + int v * multiplier), t) \<and>
    content t = r"
  using assms
proof (induction k arbitrary: s v remaining multiplier)
  case (Suc k)
  define d where "d = int (v mod 128)"
  have d: "0 \<le> d" "d < 128" by (simp_all add: d_def)
  have lo: "and d 127 = d" "and d 128 = 0" "and (or d 128) 127 = d" "and (or d 128) 128 = 128"
    and ub: "uint (byte_of d) = d" "uint (byte_of (or d 128)) = or d 128"
    using low_digit_bits [OF d] by simp_all
  have "v = v mod 128 + 128 * (v div 128)" by (rule mod_mult_div_eq [symmetric])
  then have "int v = int (v mod 128 + 128 * (v div 128))" by (rule arg_cong)
  then have v: "int v = d + 128 * int (v div 128)"
    by (simp only: d_def of_nat_add of_nat_mult of_nat_numeral)
  show ?case
  proof (cases "v div 128 = 0")
    case True
    then have "content s = byte_of d # r"
      using Suc.prems(1) by (simp add: remaining_length_loop.simps [of v] Let_def d_def)
    then obtain t where "rd 1 s = (Inr [byte_of d], t)" "content t = r" by (rule rd_one)
    then show ?thesis using True v lo ub by (simp add: bindm_def)
  next
    case False
    then have c: "content s = byte_of (or d 128) # remaining_length_loop (v div 128) @ r"
      using Suc.prems(1) by (simp add: remaining_length_loop.simps [of v] Let_def d_def)
    obtain t where t: "rd 1 s = (Inr [byte_of (or d 128)], t)"
      "content t = remaining_length_loop (v div 128) @ r" using c by (rule rd_one)
    have "v div 128 < 128 ^ k" using Suc.prems(2) by (simp add: div_less_iff_less_mult mult.commute)
    moreover have "0 < k" using False \<open>v div 128 < 128 ^ k\<close> by (cases k) auto
    ultimately obtain u where
      "length_digits rd k (remaining + d * multiplier) (multiplier * 128) t =
         (Inr (remaining + d * multiplier + int (v div 128) * (multiplier * 128)), u)" "content u = r"
      using Suc.IH [OF t(2)] by blast
    moreover have "remaining + d * multiplier + int (v div 128) * (multiplier * 128) =
        remaining + int v * multiplier" by (simp add: v algebra_simps)
    ultimately show ?thesis using t lo ub by (simp add: bindm_def)
  qed
qed simp

lemma packet_header_encode:
  assumes "content s = b # remaining_length_loop v @ r" "v < 128 ^ 4"
  shows "\<exists>t. packet_header_with rd s = (Inr (uint b, int v), t) \<and> content t = r"
proof -
  obtain t where t: "rd 1 s = (Inr [b], t)" "content t = remaining_length_loop v @ r"
    using assms(1) by (rule rd_one)
  obtain u where "length_digits rd 4 0 1 t = (Inr (int v), u)" "content u = r"
    using length_digits_encode [OF t(2) assms(2), of 0 1] by auto
  with t show ?thesis by (simp add: packet_header_with_def bindm_def)
qed

lemma packet_encode:
  assumes "content s = b # remaining_length_loop (length body) @ body @ r" "length body < 128 ^ 4"
  shows "\<exists>t. packet_with rd s = (Inr (uint b, body), t) \<and> content t = r"
proof -
  obtain t where t: "packet_header_with rd s = (Inr (uint b, int (length body)), t)"
    "content t = body @ r"
    using packet_header_encode [OF assms] by blast
  obtain u where "rd (length body) t = (Inr body, u)" "content u = r"
    using t(2) by (rule rd_prefix)
  with t show ?thesis by (simp add: packet_with_def bindm_def)
qed

end

section \<open>The socket provides the byte source\<close>

definition stream_of :: "byte list list \<Rightarrow> byte list" where
  "stream_of rx = concat (takeWhile (\<lambda>seg. seg \<noteq> []) rx)"

definition stream :: "mqtt \<Rightarrow> byte list" where
  "stream c = stream_of (mq_rx c)"

lemma read_loop_enough:
  assumes "length acc \<le> sz" "sz - length acc \<le> length (stream_of rx)"
  shows "\<exists>rx'. read_loop sz acc rx = (Inr (acc @ take (sz - length acc) (stream_of rx)), rx') \<and>
    stream_of rx' = drop (sz - length acc) (stream_of rx)"
  using assms
proof (induction sz acc rx rule: read_loop.induct)
  case (1 sz acc rx)
  show ?case
  proof (cases "length acc < sz")
    case False
    then show ?thesis using 1(2) by (simp add: read_loop.simps [of sz acc rx])
  next
    case True
    let ?n = "sz - length acc"
    obtain seg segs where rx: "rx = seg # segs" and ne: "seg \<noteq> []"
      using True 1(3) by (cases rx) (auto simp: stream_of_def split: if_splits)
    have str: "stream_of rx = seg @ stream_of segs" by (simp add: rx ne stream_of_def)
    show ?thesis
    proof (cases "length seg \<le> ?n")
      case True
      then have r: "recv ?n rx = (Inr seg, segs)" by (simp add: rx ne)
      have "\<exists>rx'. read_loop sz (acc @ seg) segs =
          (Inr ((acc @ seg) @ take (sz - length (acc @ seg)) (stream_of segs)), rx') \<and>
          stream_of rx' = drop (sz - length (acc @ seg)) (stream_of segs)"
        by (rule 1(1) [OF \<open>length acc < sz\<close> r [symmetric] refl ne])
          (use True \<open>length acc < sz\<close> 1(3) in \<open>auto simp: str\<close>)
      then show ?thesis
        using \<open>length acc < sz\<close> ne True
        by (simp add: read_loop.simps [of sz acc rx] r str)
    next
      case False
      then have r: "recv ?n rx = (Inr (take ?n seg), drop ?n seg # segs)" by (simp add: rx ne)
      have done_: "read_loop sz (acc @ take ?n seg) (drop ?n seg # segs) =
          (Inr (acc @ take ?n seg), drop ?n seg # segs)"
        using False by (subst read_loop.simps) simp
      have "take ?n seg \<noteq> []" using ne \<open>length acc < sz\<close> by simp
      then show ?thesis
        using \<open>length acc < sz\<close> False
        by (simp add: read_loop.simps [of sz acc rx] r done_ str) (simp add: stream_of_def)
    qed
  qed
qed

interpretation socket: byte_source read_exact stream
proof
  fix n s assume "n \<le> length (stream s)"
  then show "\<exists>t. read_exact n s = (Inr (take n (stream s)), t) \<and> stream t = drop n (stream s)"
    using read_loop_enough [of "[]" n "mq_rx s"] by (auto simp: read_exact_def stream_def)
qed

section \<open>What reading consumes\<close>

lemma recv_Inr:
  "recv n rx = (Inr bs, rx') \<Longrightarrow> length bs \<le> n \<and> concat rx = bs @ concat rx'"
  by (cases rx) (auto split: if_splits)

lemma read_loop_Inr:
  "read_loop sz acc rx = (Inr bs, rx') \<Longrightarrow> length acc \<le> sz \<Longrightarrow>
   length bs = sz \<and> acc @ concat rx = bs @ concat rx'"
proof (induction sz acc rx rule: read_loop.induct)
  case (1 sz acc rx)
  show ?case
  proof (cases "length acc < sz")
    case True
    obtain r rx2 where r: "recv (sz - length acc) rx = (r, rx2)" by fastforce
    from 1(2) True r obtain chunk where chunk: "r = Inr chunk" "chunk \<noteq> []"
      "read_loop sz (acc @ chunk) rx2 = (Inr bs, rx')"
      by (auto simp: read_loop.simps [of sz acc rx] split: sum.splits if_splits)
    have c: "length chunk \<le> sz - length acc" "concat rx = chunk @ concat rx2"
      using recv_Inr [of "sz - length acc" rx chunk rx2] r chunk by simp_all
    have "length bs = sz \<and> (acc @ chunk) @ concat rx2 = bs @ concat rx'"
      by (rule 1(1) [OF True r [symmetric] chunk(1,2,3)]) (use c True in simp)
    with c show ?thesis by simp
  next
    case False
    with 1(2,3) show ?thesis by (simp add: read_loop.simps [of sz acc rx])
  qed
qed

lemma read_exact_Inr:
  assumes "read_exact n c = (Inr bs, c')"
  shows "length bs = n" "rx_bytes c = n + rx_bytes c'" "c' = c\<lparr>mq_rx := mq_rx c'\<rparr>"
proof -
  obtain rx where r: "read_loop n [] (mq_rx c) = (Inr bs, rx)" "c' = c\<lparr>mq_rx := rx\<rparr>"
    using assms by (auto simp: read_exact_def split: prod.splits)
  from read_loop_Inr [OF r(1)] have l: "length bs = n" "concat (mq_rx c) = bs @ concat rx" by simp_all
  show "length bs = n" by (rule l(1))
  show "rx_bytes c = n + rx_bytes c'" using l r(2) by (simp add: rx_bytes_def)
  show "c' = c\<lparr>mq_rx := mq_rx c'\<rparr>" using r(2) by simp
qed

lemma length_digits_consumes:
  "length_digits read_exact k remaining multiplier c = (Inr x, c') \<Longrightarrow> rx_bytes c' < rx_bytes c"
proof (induction k arbitrary: remaining multiplier c)
  case (Suc k)
  from Suc.prems obtain bs t where t: "read_exact 1 c = (Inr bs, t)"
    and r: "(let digit = uint (hd bs); remaining' = remaining + and digit 127 * multiplier
       in if and digit 128 = 0 then retm remaining'
          else length_digits read_exact k remaining' (multiplier * 128)) t = (Inr x, c')"
    by (auto simp: bindm_eq_Inr)
  show ?case
    using r Suc.IH [of _ _ t] read_exact_Inr(2) [OF t]
    by (fastforce simp: Let_def split: if_splits)
qed simp

lemma read_packet_consumes: "read_packet c = (Inr p, c') \<Longrightarrow> rx_bytes c' < rx_bytes c"
  by (auto simp: read_packet_def packet_with_def packet_header_with_def bindm_eq_Inr
      dest!: read_exact_Inr(2) length_digits_consumes)

lemma store_publish_rx: "store_publish p body c = (r, c') \<Longrightarrow> rx_bytes c' = rx_bytes c"
  by (auto simp: store_publish_def bindm_def Let_def sendall_def rx_bytes_def
      split: if_splits sum.splits)

section \<open>The receive loops\<close>

lemma loopm_enough:
  assumes dec: "\<And>s t. body s = (Inr None, t) \<Longrightarrow> m t < (m s :: nat)"
  shows "m s < k \<Longrightarrow> m s < k' \<Longrightarrow> loopm k body s = loopm k' body s"
proof (induction "m s" arbitrary: s k k' rule: less_induct)
  case less
  obtain i j where ij: "k = Suc i" "k' = Suc j" using less.prems by (cases k; cases k') auto
  obtain r t where r: "body s = (r, t)" by fastforce
  show ?case
  proof (cases "r = Inr None")
    case True
    have mt: "m t < m s" by (rule dec) (simp only: r True)
    have "loopm i body t = loopm j body t"
      by (rule less.hyps [OF mt]) (use mt less.prems ij in linarith)+
    then show ?thesis by (simp add: ij bindm_def r True)
  next
    case False
    then show ?thesis by (auto simp: ij bindm_def r split: sum.splits option.splits)
  qed
qed

definition consuming :: "'a option mq \<Rightarrow> bool" where
  "consuming body \<longleftrightarrow> (\<forall>s t. body s = (Inr None, t) \<longrightarrow> rx_bytes t < rx_bytes s)"

lemma packet_loop_unfold:
  assumes "consuming body"
  shows "packet_loop body c = bindm body (\<lambda>r. case r of Some x \<Rightarrow> retm x | None \<Rightarrow> packet_loop body) c"
proof -
  obtain r t where r: "body c = (r, t)" by fastforce
  show ?thesis
  proof (cases "r = Inr None")
    case True
    then have "rx_bytes t < rx_bytes c" using assms r by (simp add: consuming_def)
    then have "loopm (rx_bytes c) body t = loopm (Suc (rx_bytes t)) body t"
      by (intro loopm_enough [where m = rx_bytes]) (use assms in \<open>auto simp: consuming_def\<close>)
    then show ?thesis by (simp add: packet_loop_def bindm_def r True)
  next
    case False
    then show ?thesis by (auto simp: packet_loop_def bindm_def r split: sum.splits option.splits)
  qed
qed

lemma consuming_rounds:
  "consuming (suback_round pid)" "consuming (puback_round pid)" "consuming (publish_round topic)"
  by (auto simp: consuming_def suback_round_def puback_round_def publish_round_def bindm_eq_Inr
      split: if_splits option.splits dest!: read_packet_consumes dest: store_publish_rx)

section \<open>The pattern receiver\<close>

lemma ctl_payload_slice_eq:
  "0 \<le> offset \<Longrightarrow> 0 \<le> sz \<Longrightarrow> ctl_payload_slice seed offset sz = pattern seed offset sz"
  by (simp add: ctl_payload_slice_def payload_period_eq slice_of_period_eq)

lemma payload_hash_eq: "0 \<le> sz \<Longrightarrow> payload_hash seed sz = sha256_hex (pattern seed 0 sz)"
  by (simp add: payload_hash_def payload_period_eq payload_digest_eq)

lemma recv_pattern_none: "n \<le> off \<Longrightarrow> recv_pattern seed n off ab v = retm (ab, v)"
  by (simp add: recv_pattern.simps [of seed n off])

lemma recv_pattern_spec:
  assumes "recv_pattern seed n off ab v c = (Inr (ab', v'), c')" "0 \<le> off" "off \<le> n"
  shows "\<exists>bs. ab' = ab @ bs \<and> int (length bs) = n - off \<and>
    (v' \<longleftrightarrow> v \<and> bs = pattern seed off (n - off))"
  using assms
proof (induction seed n off ab v arbitrary: c rule: recv_pattern.induct)
  case (1 seed n off ab v)
  show ?case
  proof (cases "off < n")
    case False
    then show ?thesis using 1(2,4) by (auto simp: recv_pattern_none pattern_def)
  next
    case True
    let ?k = "min 1024 (n - off)"
    have k: "0 < ?k" "off + ?k \<le> n" using True by auto
    obtain chunk t where ch: "read_exact (nat ?k) c = (Inr chunk, t)"
      and rec: "recv_pattern seed n (off + ?k) (ab @ chunk)
        (v \<and> chunk = ctl_payload_slice seed off (int (length chunk))) t = (Inr (ab', v'), c')"
      using 1(2) True by (auto simp: recv_pattern.simps [of seed n off] bindm_eq_Inr)
    have len: "int (length chunk) = ?k" using read_exact_Inr(1) [OF ch] k by simp
    obtain bs where bs: "ab' = (ab @ chunk) @ bs" "int (length bs) = n - (off + ?k)"
      "v' \<longleftrightarrow> (v \<and> chunk = ctl_payload_slice seed off (int (length chunk))) \<and>
        bs = pattern seed (off + ?k) (n - (off + ?k))"
      using 1(1) [OF True rec] 1(3) k by auto
    have split: "pattern seed off (n - off) = pattern seed off ?k @ pattern seed (off + ?k) (n - (off + ?k))"
      using k by (subst pattern_append) simp_all
    have "chunk @ bs = pattern seed off (n - off) \<longleftrightarrow>
        chunk = pattern seed off ?k \<and> bs = pattern seed (off + ?k) (n - (off + ?k))"
      unfolding split using len by (subst append_eq_append_conv) (auto simp: length_pattern)
    then have "v' \<longleftrightarrow> v \<and> chunk @ bs = pattern seed off (n - off)"
      using bs(3) len k 1(3) by (auto simp: ctl_payload_slice_eq)
    with bs len show ?thesis by (intro exI [of _ "chunk @ bs"]) simp
  qed
qed

text \<open>The pieces of \<open>publish_pattern\<close> are the payload.\<close>

lemma chunks_pattern:
  assumes "0 \<le> sz" "0 \<le> k" "k \<le> (sz - 1) div 1024 + 1"
  shows "concat (map (\<lambda>offset. ctl_payload_slice seed offset (min 1024 (sz - offset)))
      (map (\<lambda>i. 1024 * i) [0..k - 1])) = pattern seed 0 (min sz (1024 * k))"
  using assms(2,3)
proof (induction k rule: int_ge_induct)
  case base
  then show ?case using assms(1) by (simp add: pattern_def)
next
  case (step k)
  have le: "k \<le> (sz - 1) div 1024" using step by simp
  then have lt: "1024 * k < sz" by linarith
  have "[0..k + 1 - 1] = [0..k - 1] @ [k]" using step(1) by (simp add: upto_rec2)
  moreover have "ctl_payload_slice seed (1024 * k) (min 1024 (sz - 1024 * k)) =
      pattern seed (1024 * k) (min 1024 (sz - 1024 * k))"
    using lt step(1) by (simp add: ctl_payload_slice_eq)
  moreover have "pattern seed 0 (1024 * k) @ pattern seed (0 + 1024 * k) (min 1024 (sz - 1024 * k)) =
      pattern seed 0 (1024 * k + min 1024 (sz - 1024 * k))"
    using lt step(1) by (intro pattern_append) simp_all
  moreover have "1024 * k + min 1024 (sz - 1024 * k) = min sz (1024 * (k + 1))" by (simp add: min_def)
  ultimately show ?case using step lt by (simp add: min_def)
qed

lemma chunk_offsets_pattern:
  assumes "0 \<le> sz"
  shows "concat (map (\<lambda>offset. ctl_payload_slice seed offset (min 1024 (sz - offset))) (chunk_offsets sz)) =
    pattern seed 0 sz"
proof -
  define q r where "q = (sz - 1) div 1024" and "r = (sz - 1) mod 1024"
  have e: "sz - 1 = 1024 * q + r" by (simp only: q_def r_def mult_div_mod_eq)
  have r: "r < 1024" "0 \<le> r" by (simp_all add: r_def)
  have "0 \<le> q + 1" using e r assms by linarith
  moreover have "sz \<le> 1024 * (q + 1)" using e r(1) by (simp add: distrib_left)
  ultimately have nn: "0 \<le> (sz - 1) div 1024 + 1" "sz \<le> 1024 * ((sz - 1) div 1024 + 1)"
    by (simp_all add: q_def)
  then have "min sz (1024 * ((sz - 1) div 1024 + 1)) = sz" by simp
  then show ?thesis using chunks_pattern [OF assms nn(1), of seed] by (simp add: chunk_offsets_def)
qed

lemma eachm_sendall:
  "eachm (\<lambda>x. sendall (f x)) xs c = (Inr (), c\<lparr>mq_tx := mq_tx c @ concat (map f xs)\<rparr>)"
  by (induction xs arbitrary: c) (simp_all add: bindm_def sendall_def)

section \<open>The packet identifier\<close>

definition id_ok :: "mqtt \<Rightarrow> bool" where
  "id_ok c \<longleftrightarrow> 1 \<le> mq_packet_id c \<and> mq_packet_id c \<le> 65535"

lemma keeps_loopm [keeps_intros]: "keeps P body \<Longrightarrow> keeps P (loopm k body)"
proof (induction k)
  case (Suc k)
  have "keeps P (case r of Some x \<Rightarrow> retm x | None \<Rightarrow> loopm k body)" for r
    using Suc by (cases r) (simp_all add: keeps_basic)
  then show ?case using Suc by (simp add: keeps_bindm)
qed (simp add: keeps_basic)

lemma keeps_packet_loop [keeps_intros]: "keeps P body \<Longrightarrow> keeps P (packet_loop body)"
  using keeps_loopm [of P body] unfolding keeps_def packet_loop_def by blast

lemma keeps_read_exact [keeps_intros]: "keeps id_ok (read_exact n)"
  by (simp add: keeps_def id_ok_def read_exact_def split: prod.splits)

lemma keeps_length_digits [keeps_intros]: "keeps id_ok (length_digits read_exact k a b)"
  by (induction k arbitrary: a b) (simp_all add: keeps_intros Let_def)

lemma keeps_simple [keeps_intros]:
  "keeps id_ok (sendall bs)" "keeps id_ok (print_line l)" "keeps id_ok (set_timeout t)"
  "keeps id_ok next_id" "keeps id_ok monotonic_ns"
  "keeps id_ok (modifym (\<lambda>c. c\<lparr>mq_inbox := f c\<rparr>))"
  by (auto simp: keeps_def id_ok_def sendall_def print_line_def set_timeout_def next_id_def
      monotonic_ns_def Let_def split: list.splits)

lemma keeps_split [keeps_intros]:
  "(\<And>a b. keeps P (f a b)) \<Longrightarrow> keeps P (case p of (a, b) \<Rightarrow> f a b)"
  by (cases p) simp

lemma keeps_packets [keeps_intros]:
  "keeps id_ok read_packet_header" "keeps id_ok read_packet"
  unfolding read_packet_header_def read_packet_def packet_with_def packet_header_with_def
  by (intro keeps_intros)+

lemma keeps_store_publish [keeps_intros]: "keeps id_ok (store_publish p body)"
  unfolding store_publish_def Let_def by (intro keeps_intros)

lemma keeps_rounds [keeps_intros]:
  "keeps id_ok (suback_round pid)" "keeps id_ok (puback_round pid)"
  unfolding suback_round_def puback_round_def by (intro keeps_intros)+

lemma keeps_publish_round [keeps_intros]: "keeps id_ok (publish_round topic)"
  unfolding publish_round_def
  by (intro keeps_bindm) (auto intro!: keeps_intros split: option.splits)

lemma keeps_recv_pattern [keeps_intros]: "keeps id_ok (recv_pattern seed n off ab v)"
proof (induction seed n off ab v rule: recv_pattern.induct)
  case (1 seed n off ab v)
  show ?case
    by (subst recv_pattern.simps) (use 1 in \<open>auto intro!: keeps_intros\<close>)
qed

lemma keeps_client [keeps_intros]:
  "keeps id_ok connect_client" "keeps id_ok (subscribe_client topics)" "keeps id_ok (wait_puback pid)"
  unfolding connect_client_def subscribe_client_def wait_puback_def Let_def
  by (intro keeps_intros)+

lemma keeps_client2 [keeps_intros]:
  "keeps id_ok (publish topic payload)" "keeps id_ok (publish_pattern topic seed sz)"
  "keeps id_ok (wait_pattern_publish topic seed sz)" "keeps id_ok (wait_publish topic)"
  unfolding publish_def publish_pattern_def wait_pattern_publish_def wait_publish_def Let_def
  by (intro keeps_intros)+

lemma keeps_run: "keeps id_ok (run_controller plan)"
  unfolding run_controller_def run_plan_def run_operation_def down_transfer_def up_transfer_def
    close_client_def Let_def
  by (intro keeps_intros)+

section \<open>The printed lines\<close>

lemma server_line_render:
  "server_line sequence direction sz valid actual us =
     bench_line ''TRANSFER_SERVER'' (server_row sequence direction sz valid actual us)"
  by (simp add: server_line_def bench_line_def server_row_def bench_pair_def)

lemma no_space_str_int: "c \<in> set (str_int i) \<Longrightarrow> \<not> is_space c"
  by (auto simp: str_int_def split: if_splits dest: str_pos_all_digits [rotated] not_space_digit)
    (auto simp: is_space_def ccode_def)

lemma server_row_ok:
  assumes "direction \<in> set DIRECTIONS" "\<forall>c\<in>set actual. \<not> is_space c"
  shows "bench_row_ok (server_row sequence direction sz valid actual us)"
proof -
  have keys: "\<forall>k\<in>set [''sequence'', ''direction'', ''payload_bytes'', ''status'', ''integrity_match'',
      ''sha256'', ''server_end_to_end_us'']. bench_key k"
    by code_simp
  have vals: "\<forall>v\<in>set [''server_to_device'', ''device_to_server'', ''success'', ''fail'', ''1'', ''0''].
      \<forall>c\<in>set v. \<not> is_space c"
    by code_simp
  have "direction = ''server_to_device'' \<or> direction = ''device_to_server''"
    using assms(1) by (simp add: DIRECTIONS_def)
  then have dir: "\<forall>c\<in>set direction. \<not> is_space c" using vals by auto
  show ?thesis
    using keys vals dir assms(2) no_space_str_int
    by (simp add: bench_row_ok_def server_row_def bool_digit_def)
qed

section \<open>Only a valid transfer continues\<close>

lemma print_out: "print_line l c = (r, c') \<Longrightarrow> r = Inr () \<and> mq_out c' = mq_out c @ [l]"
  by (auto simp: print_line_def)

text \<open>The computations that print nothing.\<close>

definition silent :: "'a mq \<Rightarrow> bool" where
  "silent m \<longleftrightarrow> (\<forall>out. keeps (\<lambda>c. mq_out c = out) m)"

lemma silentD: "silent m \<Longrightarrow> m c = (r, c') \<Longrightarrow> mq_out c' = mq_out c"
  unfolding silent_def keeps_def by (metis snd_conv)

named_theorems silent_intros \<open>computations that print nothing\<close>

lemma silent_basic [silent_intros]:
  "silent (retm x)" "silent (raisem e)" "silent (getm f)" "silent (liftm r)"
  "silent m \<Longrightarrow> (\<And>y. silent (k y)) \<Longrightarrow> silent (bindm m k)"
  "silent m' \<Longrightarrow> silent (whenm b m')" "(\<And>z. silent (g z)) \<Longrightarrow> silent (eachm g zs)"
  "silent m1 \<Longrightarrow> silent m2 \<Longrightarrow> silent (if b then m1 else m2)"
  "silent body \<Longrightarrow> silent (packet_loop body)"
  "(\<And>u v. silent (h u v)) \<Longrightarrow> silent (case p of (u, v) \<Rightarrow> h u v)"
  by (simp_all add: silent_def keeps_intros split: prod.splits)

lemma silent_simple [silent_intros]:
  "silent (sendall bs)" "silent (set_timeout t)" "silent next_id" "silent monotonic_ns"
  "silent (modifym (\<lambda>c. c\<lparr>mq_inbox := f c\<rparr>))" "silent (read_exact n)"
  by (auto simp: silent_def keeps_def sendall_def set_timeout_def next_id_def monotonic_ns_def
      read_exact_def Let_def split: list.splits prod.splits)

lemma silent_length_digits [silent_intros]: "silent (length_digits read_exact k a b)"
  by (induction k arbitrary: a b) (simp_all add: silent_intros Let_def)

lemma silent_packets [silent_intros]:
  "silent read_packet_header" "silent read_packet" "silent (store_publish p body)"
  unfolding read_packet_header_def read_packet_def packet_with_def packet_header_with_def
    store_publish_def Let_def
  by (intro silent_intros)+

lemma silent_rounds [silent_intros]:
  "silent (suback_round pid)" "silent (puback_round pid)"
  unfolding suback_round_def puback_round_def by (intro silent_intros)+

lemma silent_publish_round [silent_intros]: "silent (publish_round topic)"
  unfolding publish_round_def
  by (intro silent_basic(5)) (auto intro!: silent_intros split: option.splits)

lemma silent_recv_pattern [silent_intros]: "silent (recv_pattern seed n off ab v)"
proof (induction seed n off ab v rule: recv_pattern.induct)
  case (1 seed n off ab v)
  show ?case
    by (subst recv_pattern.simps) (use 1 in \<open>auto intro!: silent_intros\<close>)
qed

lemma silent_client [silent_intros]:
  "silent connect_client" "silent (subscribe_client topics)" "silent (wait_puback pid)"
  unfolding connect_client_def subscribe_client_def wait_puback_def Let_def
  by (intro silent_intros)+

lemma silent_client2 [silent_intros]:
  "silent (publish topic payload)" "silent (publish_pattern topic seed sz)"
  "silent (wait_pattern_publish topic seed sz)" "silent (wait_publish topic)"
  "silent (down_transfer n sz seed h)" "silent (up_transfer n sz seed h)" "silent close_client"
  unfolding publish_def publish_pattern_def wait_pattern_publish_def wait_publish_def Let_def
    down_transfer_def up_transfer_def close_client_def
  by (intro silent_intros)+

definition transfer_lines :: "row \<Rightarrow> string list \<Rightarrow> bool" where
  "transfer_lines operation ls \<longleftrightarrow> (\<exists>n direction sz seed m actual us.
     row_int operation ''order'' = Inr n \<and> row_text operation ''direction'' = Inr direction \<and>
     row_int operation ''payload_bytes'' = Inr sz \<and> row_int operation ''payload_seed'' = Inr seed \<and>
     (direction \<noteq> ''server_to_device'' \<longrightarrow> actual = payload_hash seed sz) \<and>
     ls = [device_line m, server_line n direction sz True actual us])"

lemma run_operation_lines:
  assumes "run_operation operation c = (Inr (), c')"
  shows "\<exists>ls. transfer_lines operation ls \<and> mq_out c' = mq_out c @ ls"
proof -
  obtain n direction sz seed where f:
    "row_int operation ''order'' = Inr n" "row_text operation ''direction'' = Inr direction"
    "row_int operation ''payload_bytes'' = Inr sz" "row_int operation ''payload_seed'' = Inr seed"
    using assms by (auto simp: run_operation_def bindm_eq_Inr)
  let ?expected = "payload_hash seed sz"
  define cmd where "cmd = encode_str ((if direction = ''server_to_device'' then ''DOWN'' else ''UP'') @
    '' '' @ str_int n @ '' '' @ str_int sz @ '' '' @ str_int seed @ '' '' @ ?expected)"
  from assms f obtain c1 c2 c3 t1 actual valid c4 t2 c5 raw c6 m where steps:
    "set_timeout TRANSFER_TIMEOUT_SECONDS c = (Inr (), c1)"
    "publish TOPIC_CONTROL cmd c1 = (Inr (), c2)" "monotonic_ns c2 = (Inr t1, c3)"
    "(if direction = ''server_to_device'' then down_transfer n sz seed ?expected
      else up_transfer n sz seed ?expected) c3 = (Inr (actual, valid), c4)"
    "monotonic_ns c4 = (Inr t2, c5)" "wait_publish TOPIC_METRICS c5 = (Inr raw, c6)"
    "decode_replace raw = Inr m"
    "bindm (print_line (device_line m)) (\<lambda>_.
      bindm (print_line (server_line n direction sz valid actual ((t2 - t1) div 1000))) (\<lambda>_.
      if valid then retm () else raisem (RuntimeError
        (''payload validation failed for operation '' @ str_int n)))) c6 = (Inr (), c')"
    by (auto simp: run_operation_def bindm_eq_Inr Let_def cmd_def split: prod.splits)
  have "mq_out c6 = mq_out c"
  proof -
    have "silent (if direction = ''server_to_device'' then down_transfer n sz seed ?expected
      else up_transfer n sz seed ?expected)" by (intro silent_intros)
    from silentD [OF this steps(4)] show ?thesis
      using steps(1-3,5,6)
      by (simp add: silentD [OF silent_simple(2)] silentD [OF silent_simple(4)]
          silentD [OF silent_client2(1)] silentD [OF silent_client2(4)])
  qed
  moreover have v: valid and "mq_out c' = mq_out c6 @ [device_line m,
      server_line n direction sz valid actual ((t2 - t1) div 1000)]"
    using steps(8) by (auto simp: bindm_eq_Inr dest!: print_out split: if_splits)
  moreover have "actual = ?expected" if "direction \<noteq> ''server_to_device''"
    using steps(4) that v by (auto simp: up_transfer_def bindm_eq_Inr Let_def split: prod.splits)
  ultimately show ?thesis using f by (auto simp: transfer_lines_def)
qed

lemma each_operation_lines:
  "eachm run_operation ops c = (Inr (), c') \<Longrightarrow>
   \<exists>lss. list_all2 transfer_lines ops lss \<and> mq_out c' = mq_out c @ concat lss"
proof (induction ops arbitrary: c)
  case (Cons p ops)
  then obtain c1 where c1: "run_operation p c = (Inr (), c1)" "eachm run_operation ops c1 = (Inr (), c')"
    by (auto simp: bindm_eq_Inr)
  from run_operation_lines [OF c1(1)] obtain ls where "transfer_lines p ls" "mq_out c1 = mq_out c @ ls"
    by blast
  moreover from Cons.IH [OF c1(2)] obtain lss where
    "list_all2 transfer_lines ops lss" "mq_out c' = mq_out c1 @ concat lss" by blast
  ultimately show ?case by (intro exI [of _ "ls # lss"]) simp
qed simp

section \<open>A concrete run\<close>

text \<open>
  A scripted broker and board: one upload of one byte succeeds.  The segments cut the stream at
  packet boundaries; the digest stays symbolic.
\<close>

definition demo_at :: "int \<Rightarrow> byte list list \<Rightarrow> byte list \<Rightarrow> int list \<Rightarrow> string list \<Rightarrow> mqtt" where
  "demo_at n rx tx clk out = \<lparr>mq_rx = rx, mq_tx = tx, mq_packet_id = n, mq_inbox = [],
     mq_timeout = 30, mq_clock = clk, mq_out = out\<rparr>"

lemma demo_state:
  assumes "fst (m s) = Inr x" "(snd (m s))\<lparr>mq_tx := []\<rparr> = demo_at n R [] clk out"
  shows "\<exists>tx. m s = (Inr x, demo_at n R tx clk out)"
proof -
  have "snd (m s) = demo_at n R (mq_tx (snd (m s))) clk out"
    using assms(2) by (cases "snd (m s)") (simp add: demo_at_def)
  with assms(1) show ?thesis by (metis prod.collapse)
qed

lemma demo_puback:
  "wait_puback 2 (demo_at 3 ([64, 2, 0, 2] # R) tx clk out) = (Inr (), demo_at 3 R tx clk out)"
  "wait_puback 3 (demo_at 4 ([64, 2, 0, 3] # R) tx clk out) = (Inr (), demo_at 4 R tx clk out)"
  "wait_puback 4 (demo_at 5 ([64, 2, 0, 4] # R) tx clk out) = (Inr (), demo_at 5 R tx clk out)"
  by code_simp+

lemma demo_publish_step:
  assumes "n \<in> {2, 3, 4}"
  shows "\<exists>tx'. publish TOPIC_CONTROL m (demo_at n ([64, 2, 0, word_of_int n] # R) tx clk out) =
     (Inr (), demo_at (n + 1) R tx' clk out)"
proof -
  have e: "encode_utf8 TOPIC_CONTROL = Inr ([0, 13] @ encode_str TOPIC_CONTROL)" by code_simp
  have p: "to_bytes_checked 2 2 = Inr [0, 2]" "to_bytes_checked 2 3 = Inr [0, 3]"
    "to_bytes_checked 2 4 = Inr [0, 4]" by code_simp+
  have "publish TOPIC_CONTROL m (demo_at n ([64, 2, 0, word_of_int n] # R) tx clk out) =
      wait_puback n (demo_at (n + 1) ([64, 2, 0, word_of_int n] # R)
        (tx @ [0x32] @ ctl_encode_remaining_length (length ([0, 13] @ encode_str TOPIC_CONTROL @ to_bytes_be 2 n @ m))
          @ [0, 13] @ encode_str TOPIC_CONTROL @ to_bytes_be 2 n @ m) clk out)"
    using assms by (auto simp: publish_def bindm_def next_id_def e to_bytes_checked_def demo_at_def sendall_def Let_def)
  then show ?thesis using assms demo_puback by auto
qed

lemma demo_connect:
  "\<exists>tx. connect_client (demo_at 1 ([0x20, 2, 0, 0] # R) [] clk out) = (Inr (), demo_at 1 R tx clk out)"
  by (rule demo_state) code_simp+

lemma demo_subscribe:
  "\<exists>tx'. subscribe_client [TOPIC_UP, TOPIC_DEVICE_ACK, TOPIC_METRICS]
     (demo_at 1 ([0x90, 5, 0, 1, 1, 1, 1] # R) tx clk out) = (Inr (), demo_at 2 R tx' clk out)"
  by (rule demo_state) code_simp+

lemma demo_header:
  "read_packet_header (demo_at 4 (([0x30, 11, 0, 8] @ encode_str ''bench/up'' @ [9]) # R) tx clk out) =
     (Inr (0x30, 11), demo_at 4 (([0, 8] @ encode_str ''bench/up'' @ [9]) # R) tx clk out)"
  "read_exact 2 (demo_at 4 (([0, 8] @ encode_str ''bench/up'' @ [9]) # R) tx clk out) =
     (Inr [0, 8], demo_at 4 ((encode_str ''bench/up'' @ [9]) # R) tx clk out)"
  "read_exact 8 (demo_at 4 ((encode_str ''bench/up'' @ [9]) # R) tx clk out) =
     (Inr (encode_str ''bench/up''), demo_at 4 ([9] # R) tx clk out)"
  "read_exact 1 (demo_at 4 ([9] # R) tx clk out) = (Inr [9], demo_at 4 R tx clk out)"
  "from_bytes_be [0, 8] = 8" "decode_utf8 (encode_str ''bench/up'') = Inr TOPIC_UP"
  by code_simp+

lemma demo_pattern: "pattern 9 0 1 = [9]" by code_simp

lemma demo_upload:
  "wait_pattern_publish TOPIC_UP 9 1
     (demo_at 4 (([0x30, 11, 0, 8] @ encode_str ''bench/up'' @ [9]) # R) tx clk out) =
     (Inr (payload_hash 9 1, True), demo_at 4 R tx clk out)"
proof -
  have "drop_bit 4 (0x30 :: int) = 3" "and (drop_bit 1 (0x30 :: int)) 3 = 0" by code_simp+
  then show ?thesis
    using demo_header demo_pattern
    by (simp add: wait_pattern_publish_def bindm_def recv_pattern.simps [of 9] whenm_def
        ctl_payload_slice_eq payload_hash_eq)
qed

lemma demo_metrics:
  "wait_publish TOPIC_METRICS (demo_at 5 (([0x30, 17, 0, 13] @ encode_str ''bench/metrics'' @ encode_str ''ok'') # [])
     tx clk out) = (Inr (encode_str ''ok''), demo_at 5 [] tx clk out)"
  by code_simp
definition demo_operation :: row where
  "demo_operation = [(''order'', PInt 1), (''direction'', PStr ''device_to_server''),
     (''payload_bytes'', PInt 1), (''payload_seed'', PInt 9)]"

lemma demo_fields: "row_int demo_operation ''order'' = Inr 1"
  "row_text demo_operation ''direction'' = Inr ''device_to_server''"
  "row_int demo_operation ''payload_bytes'' = Inr 1" "row_int demo_operation ''payload_seed'' = Inr 9"
  by code_simp+

definition demo_rx :: "byte list list" where
  "demo_rx = [[0x20, 2, 0, 0], [0x90, 5, 0, 1, 1, 1, 1],
     [0x30, 15, 0, 8] @ encode_str ''bench/up'' @ encode_str ''READY'', [64, 2, 0, word_of_int 2],
     [64, 2, 0, word_of_int 3], [0x30, 11, 0, 8] @ encode_str ''bench/up'' @ [9], [64, 2, 0, word_of_int 4],
     [0x30, 17, 0, 13] @ encode_str ''bench/metrics'' @ encode_str ''ok'']"

lemma demo_ready:
  "wait_publish TOPIC_UP (demo_at 2 (drop 2 demo_rx) tx clk out) =
     (Inr (encode_str ''READY''), demo_at 2 ([64, 2, 0, word_of_int 2] # drop 4 demo_rx) tx clk out)"
  by code_simp

lemma demo_run_operation:
  "\<exists>tx' out'. run_operation demo_operation (demo_at 3 (drop 4 demo_rx) tx [5000, 905000] out) =
     (Inr (), demo_at 5 [] tx' [] out')"
proof -
  have st: "set_timeout TRANSFER_TIMEOUT_SECONDS (demo_at 3 R tx clk out) = (Inr (), demo_at 3 R tx clk out)" for R clk
    by (simp add: set_timeout_def TRANSFER_TIMEOUT_SECONDS_def demo_at_def)
  have clk: "monotonic_ns (demo_at n R t (k # ks) out) = (Inr k, demo_at n R t ks out)" for n R t k ks
    by (simp add: monotonic_ns_def demo_at_def)
  have pr: "print_line l (demo_at n R t ks o1) = (Inr (), demo_at n R t ks (o1 @ [l]))" for l n R t ks o1
    by (simp add: print_line_def demo_at_def)
  have dm: "decode_replace (encode_str ''ok'') = Inr ''ok''" by (rule decode_replace_encode)
  define cmd where "cmd = encode_str (''UP'' @ '' '' @ str_int 1 @ '' '' @ str_int 1 @ '' '' @ str_int 9 @ '' '' @ payload_hash 9 1)"
  define ack where "ack = encode_str (''ACK_UP '' @ str_int 1 @ '' '' @ bool_digit True @ '' '' @ payload_hash 9 1)"
  obtain t1 where t1: "publish TOPIC_CONTROL cmd (demo_at 3 ([64, 2, 0, word_of_int 3] # drop 5 demo_rx) tx [5000, 905000] out) =
     (Inr (), demo_at (3 + 1) (drop 5 demo_rx) t1 [5000, 905000] out)" using demo_publish_step [of 3] by blast
  obtain t2 where t2: "publish TOPIC_CONTROL ack (demo_at 4 ([64, 2, 0, word_of_int 4] # drop 7 demo_rx) t1 [905000] out) =
     (Inr (), demo_at (4 + 1) (drop 7 demo_rx) t2 [905000] out)" using demo_publish_step [of 4] by blast
  have d: "drop 4 demo_rx = [64, 2, 0, word_of_int 3] # drop 5 demo_rx"
    "drop 5 demo_rx = ([0x30, 11, 0, 8] @ encode_str ''bench/up'' @ [9]) # [64, 2, 0, word_of_int 4] # drop 7 demo_rx"
    "drop 7 demo_rx = [[0x30, 17, 0, 13] @ encode_str ''bench/metrics'' @ encode_str ''ok'']"
    by (simp_all add: demo_rx_def)
  have up: "up_transfer 1 1 9 (payload_hash 9 1) (demo_at 4 (drop 5 demo_rx) t1 [905000] out) =
      (Inr (payload_hash 9 1, True), demo_at 5 (drop 7 demo_rx) t2 [905000] out)"
    unfolding d(2) up_transfer_def using demo_upload t2 by (simp add: bindm_def ack_def)
  show ?thesis
    unfolding run_operation_def
    using t1 up demo_metrics [of t2 "[]" out]
    by (intro exI [of _ t2] exI [of _ "out @ [device_line ''ok'',
        server_line 1 ''device_to_server'' 1 True (payload_hash 9 1) 900]"]) (simp add: bindm_def demo_fields st clk pr dm d(1,3) Let_def cmd_def)
qed

lemma demo_run: "\<exists>c'. run_controller [demo_operation] (demo_at 1 demo_rx [] [5000, 905000] []) = (Inr (), c')"
proof -
  have d: "demo_rx = [0x20, 2, 0, 0] # [0x90, 5, 0, 1, 1, 1, 1] #
     ([0x30, 15, 0, 8] @ encode_str ''bench/up'' @ encode_str ''READY'') # [64, 2, 0, word_of_int 2] # drop 4 demo_rx"
    by (simp add: demo_rx_def)
  let ?k = "[5000, 905000]"
  obtain t1 where 1: "connect_client (demo_at 1 demo_rx [] ?k []) = (Inr (), demo_at 1 (tl demo_rx) t1 ?k [])"
    using demo_connect by (metis d list.sel(3))
  obtain t2 where 2: "subscribe_client [TOPIC_UP, TOPIC_DEVICE_ACK, TOPIC_METRICS] (demo_at 1 (tl demo_rx) t1 ?k []) =
     (Inr (), demo_at 2 (drop 2 demo_rx) t2 ?k [])"
    using demo_subscribe by (metis d drop_Suc_Cons drop0 list.sel(3) numeral_2_eq_2)
  have 3: "wait_publish TOPIC_UP (demo_at 2 (drop 2 demo_rx) t2 ?k []) =
     (Inr (encode_str ''READY''), demo_at 2 ([64, 2, 0, word_of_int 2] # drop 4 demo_rx) t2 ?k [])"
    by (rule demo_ready)
  obtain t3 where 4: "publish TOPIC_CONTROL (encode_str (''BEGIN '' @ str_nat 1))
     (demo_at 2 ([64, 2, 0, word_of_int 2] # drop 4 demo_rx) t2 ?k [''[BENCH_TRANSFER_SERVER] status=ready'']) =
     (Inr (), demo_at 3 (drop 4 demo_rx) t3 ?k [''[BENCH_TRANSFER_SERVER] status=ready''])"
    using demo_publish_step [of 2] by force
  have pr: "print_line l (demo_at n R t ks o1) = (Inr (), demo_at n R t ks (o1 @ [l]))" for l n R t ks o1
    by (simp add: print_line_def demo_at_def)
  obtain t4 o4 where 5: "run_operation demo_operation (demo_at 3 (drop 4 demo_rx) t3 ?k [''[BENCH_TRANSFER_SERVER] status=ready'']) =
     (Inr (), demo_at 5 [] t4 [] o4)" using demo_run_operation by blast
  show ?thesis
    by (simp add: run_controller_def finallym_def run_plan_def bindm_def 1 2 3 4 [simplified] 5 pr close_client_def sendall_def)
qed
section \<open>Properties\<close>

text \<open>
  C35: framing is independent of the segmentation of the TCP stream: a packet whose length was
  written by \<open>encode_remaining_length\<close> is read back with its first byte and its exact body,
  however \<open>recv\<close> cuts the stream, and the bytes behind it stay unread.
\<close>

theorem read_packet_any_segmentation:
  assumes "encode_remaining_length (int (length body)) = Inr rl"
    and "stream c = b # rl @ body @ later"
  shows "\<exists>c'. read_packet c = (Inr (uint b, body), c') \<and> stream c' = later"
proof -
  have rl: "rl = remaining_length_loop (length body)" and len: "length body < 128 ^ 4"
    using assms(1) by (auto simp: encode_remaining_length_def split: if_splits)
  show ?thesis
    unfolding read_packet_def using assms(2) len by (intro socket.packet_encode) (simp add: rl)
qed

theorem read_packet_any_segmentation_witness:
  "\<exists>c'. read_packet (new_client [[0x40], [2, 0], [7, 0xE0]] [] 1) = (Inr (0x40, [0, 7]), c') \<and>
     stream c' = [0xE0]"
proof -
  have rl: "encode_remaining_length (int (length [0, 7 :: byte])) = Inr [2]" by code_simp
  have st: "stream (new_client [[0x40], [2, 0], [7, 0xE0]] [] 1) = 0x40 # [2] @ [0, 7] @ [0xE0]"
    by (simp add: stream_def stream_of_def new_client_def)
  from read_packet_any_segmentation [OF rl st] show ?thesis by simp
qed

text \<open>
  The three receive loops (\<open>subscribe\<close>, \<open>_wait_puback\<close>, \<open>wait_publish\<close>) are the loops
  of the code: the bound of the model never cuts them off, one round followed by the loop
  again is the loop.
\<close>

theorem receive_loops_unfold:
  "packet_loop (suback_round pid) c =
     bindm (suback_round pid) (\<lambda>r. case r of Some x \<Rightarrow> retm x | None \<Rightarrow> packet_loop (suback_round pid)) c \<and>
   packet_loop (puback_round pid) c =
     bindm (puback_round pid) (\<lambda>r. case r of Some x \<Rightarrow> retm x | None \<Rightarrow> packet_loop (puback_round pid)) c \<and>
   wait_publish topic c =
     bindm (publish_round topic) (\<lambda>r. case r of Some x \<Rightarrow> retm x | None \<Rightarrow> wait_publish topic) c"
  unfolding wait_publish_def
  by (intro conjI packet_loop_unfold consuming_rounds)


definition demo_publish :: mqtt where
  "demo_publish = new_client [[0x30, 4, 0, 1, 0x74], [9]] [] 1"

lemma demo_publish_run:
  "wait_pattern_publish ''t'' 9 1 demo_publish =
     (Inr (sha256_hex [9], [9 :: byte] = ctl_payload_slice 9 0 1), demo_publish\<lparr>mq_rx := []\<rparr>)"
proof -
  have "read_packet_header demo_publish = (Inr (0x30, 4), demo_publish\<lparr>mq_rx := [[0, 1, 0x74], [9]]\<rparr>)"
    by code_simp
  moreover have "read_exact 2 (demo_publish\<lparr>mq_rx := [[0, 1, 0x74], [9]]\<rparr>) =
      (Inr [0, 1], demo_publish\<lparr>mq_rx := [[0x74], [9]]\<rparr>)" by code_simp
  moreover have "from_bytes_be [0, 1] = 1" by code_simp
  moreover have "read_exact 1 (demo_publish\<lparr>mq_rx := [[0x74], [9]]\<rparr>) =
      (Inr [0x74], demo_publish\<lparr>mq_rx := [[9]]\<rparr>)" by code_simp
  moreover have "decode_utf8 [0x74] = Inr ''t''" by code_simp
  moreover have "read_exact 1 (demo_publish\<lparr>mq_rx := [[9]]\<rparr>) = (Inr [9], demo_publish\<lparr>mq_rx := []\<rparr>)"
    by code_simp
  moreover have "drop_bit 4 (0x30 :: int) = 3" "and (drop_bit 1 (0x30 :: int)) 3 = 0" by code_simp+
  ultimately show ?thesis
    by (simp add: wait_pattern_publish_def bindm_def recv_pattern.simps [of 9] whenm_def)
qed


text \<open>
  C4: the controller reports completion only for a plan whose every transfer was validated: when
  \<open>run\<close> returns normally it has printed the ready line, for every operation in order the device
  metrics and a success line, whose digest on an upload is the one of the planned payload, and
  the complete line.
\<close>

theorem run_controller_complete:
  assumes "run_controller operations c = (Inr (), c')"
  shows "\<exists>lss. list_all2 transfer_lines operations lss \<and>
    mq_out c' = mq_out c @ [''[BENCH_TRANSFER_SERVER] status=ready''] @ concat lss @
      [''[BENCH_TRANSFER_SERVER] status=complete'']"
proof -
  from assms obtain c1 where p: "run_plan operations c = (Inr (), c1)" and c': "mq_out c' = mq_out c1"
    by (auto simp: run_controller_def finallym_def close_client_def sendall_def split: prod.splits sum.splits)
  from p obtain a1 a2 a3 a4 a5 a6 ready where s:
    "connect_client c = (Inr (), a1)"
    "subscribe_client [TOPIC_UP, TOPIC_DEVICE_ACK, TOPIC_METRICS] a1 = (Inr (), a2)"
    "wait_publish TOPIC_UP a2 = (Inr ready, a3)"
    "print_line ''[BENCH_TRANSFER_SERVER] status=ready'' a3 = (Inr (), a4)"
    "publish TOPIC_CONTROL (encode_str (''BEGIN '' @ str_nat (length operations))) a4 = (Inr (), a5)"
    "eachm run_operation operations a5 = (Inr (), a6)"
    "print_line ''[BENCH_TRANSFER_SERVER] status=complete'' a6 = (Inr (), c1)"
    by (auto simp: run_plan_def bindm_eq_Inr split: if_splits)
  have "mq_out a3 = mq_out c"
    using silentD [OF silent_client(1) s(1)] silentD [OF silent_client(2) s(2)]
      silentD [OF silent_client2(4) s(3)] by simp
  moreover have "mq_out a5 = mq_out a4" by (rule silentD [OF silent_client2(1) s(5)])
  moreover note print_out [OF s(4)] print_out [OF s(7)] each_operation_lines [OF s(6)]
  ultimately show ?thesis using c' by auto
qed

theorem run_controller_complete_witness:
  "\<exists>c' ls. run_controller [demo_operation] (demo_at 1 demo_rx [] [5000, 905000] []) = (Inr (), c') \<and>
     transfer_lines demo_operation ls \<and>
     mq_out c' = [''[BENCH_TRANSFER_SERVER] status=ready''] @ ls @
       [''[BENCH_TRANSFER_SERVER] status=complete'']"
proof -
  obtain c' where c': "run_controller [demo_operation] (demo_at 1 demo_rx [] [5000, 905000] []) = (Inr (), c')"
    using demo_run by blast
  obtain lss where l: "list_all2 transfer_lines [demo_operation] lss"
    "mq_out c' = mq_out (demo_at 1 demo_rx [] [5000, 905000] []) @
      [''[BENCH_TRANSFER_SERVER] status=ready''] @ concat lss @
      [''[BENCH_TRANSFER_SERVER] status=complete'']"
    using run_controller_complete [OF c'] by blast
  then obtain ls where "lss = [ls]" "transfer_lines demo_operation ls"
    by (auto simp: list_all2_Cons1)
  with c' l show ?thesis by (simp add: demo_at_def)
qed



text \<open>
  The result line of a transfer is read back by \<open>parse_bench_line\<close> as the fields that
  were printed, for the two directions of a plan and a digest without spaces.
\<close>

theorem server_line_parsed:
  assumes "direction \<in> set DIRECTIONS" and "\<forall>c\<in>set actual. \<not> is_space c"
  shows "parse_bench_line (server_line n direction sz valid actual us) =
    Some (''TRANSFER_SERVER'', server_row n direction sz valid actual us)"
  unfolding server_line_render
  by (rule parse_bench_line_render) (simp, code_simp, rule server_row_ok [OF assms])

theorem server_line_parsed_witness:
  "parse_bench_line (server_line 3 ''device_to_server'' 128 True ''ab12'' 77) =
    Some (''TRANSFER_SERVER'', server_row 3 ''device_to_server'' 128 True ''ab12'' 77)"
proof (rule server_line_parsed)
  show "''device_to_server'' \<in> set DIRECTIONS" by (simp add: DIRECTIONS_def)
  show "\<forall>c\<in>set ''ab12''. \<not> is_space c" by code_simp
qed

end
