(* ===== verification/Py_Csv.thy ===== *)
theory Py_Csv
  imports Py_Prelude
begin

text \<open>
  The part of the module \<open>csv\<close> that the sources use, with its default dialect (comma, double
  quotes doubled inside quoted fields, lines ended by CR LF, quoting only where needed), on the
  text of a file opened with \<open>newline=""\<close>.  A table is a list of rows of fields; the
  dictionary reader and writer put a header line in front.
\<close>

section \<open>Writing\<close>

definition csv_special :: "char \<Rightarrow> bool" where
  "csv_special c \<longleftrightarrow> c = CHR '','' \<or> c = CHR 0x22 \<or> c = CHR 0x0D \<or> c = CHR 0x0A"

definition csv_field :: "string \<Rightarrow> string" where
  "csv_field s = (if \<exists>c\<in>set s. csv_special c
     then CHR 0x22 # concat (map (\<lambda>c. if c = CHR 0x22 then [c, c] else [c]) s) @ [CHR 0x22]
     else s)"

text \<open>A row of one empty field is quoted, so that it does not look like an empty line.\<close>

definition csv_line :: "string list \<Rightarrow> string" where
  "csv_line fields = (if fields = [[]] then [CHR 0x22, CHR 0x22]
     else join '','' (map csv_field fields)) @ [CHR 0x0D, CHR 0x0A]"

definition csv_text :: "string list list \<Rightarrow> string" where
  "csv_text rows = concat (map csv_line rows)"

text \<open>\<open>str(value)\<close> of a cell, as the writer applies it.\<close>

fun cell_text :: "pyval \<Rightarrow> string res" where
  "cell_text (PStr s) = Inr s"
| "cell_text (PInt i) = Inr (str_int i)"
| "cell_text PNone = Inr []"
| "cell_text (PBool b) = Inr (if b then ''True'' else ''False'')"
| "cell_text _ = Inl (OutsideModel ''text of a cell'')"

text \<open>
  \<open>DictWriter\<close>: missing keys are written empty; extra keys are an error unless they are ignored.
\<close>

definition dict_line :: "bool \<Rightarrow> string list \<Rightarrow> row \<Rightarrow> string list res" where
  "dict_line ignore fields r =
     (if \<not> ignore \<and> \<not> set (map fst r) \<subseteq> set fields
      then Inl (ValueError ''dict contains fields not in fieldnames'')
      else mapr (\<lambda>f. cell_text (dget r f (PStr []))) fields)"

definition dict_table :: "bool \<Rightarrow> string list \<Rightarrow> row list \<Rightarrow> string list list res" where
  "dict_table ignore fields rows =
     bindr (mapr (dict_line ignore fields) rows) (\<lambda>ls. Inr (fields # ls))"

section \<open>Reading\<close>

datatype csv_state = StartRecord | StartField | InField | InQuoted | QuoteInQuoted | EatCrnl

text \<open>The reader: current field and current record, both reversed, and the records read.\<close>

definition csv_step ::
  "csv_state \<times> string \<times> string list \<times> string list list \<Rightarrow> char \<Rightarrow>
   csv_state \<times> string \<times> string list \<times> string list list" where
  "csv_step st c = (case st of (q, fld, rec, out) \<Rightarrow>
     let nl = (c = CHR 0x0D \<or> c = CHR 0x0A); field_end = (StartField, [], rev fld # rec, out);
         record_end = (EatCrnl, [], [], rev (rev fld # rec) # out) in
     (case q of
        EatCrnl \<Rightarrow>
          (if c = CHR 0x0A then (StartRecord, [], [], out)
           else if nl then (EatCrnl, [], [], [] # out)
           else if c = CHR '','' then (StartField, [], [[]], out)
           else if c = CHR 0x22 then (InQuoted, [], [], out)
           else (InField, [c], [], out))
      | StartRecord \<Rightarrow>
          (if nl then (EatCrnl, [], [], [] # out)
           else if c = CHR '','' then (StartField, [], [[]], out)
           else if c = CHR 0x22 then (InQuoted, [], [], out)
           else (InField, [c], [], out))
      | StartField \<Rightarrow>
          (if nl then record_end
           else if c = CHR '','' then field_end
           else if c = CHR 0x22 then (InQuoted, fld, rec, out)
           else (InField, c # fld, rec, out))
      | InField \<Rightarrow>
          (if nl then record_end
           else if c = CHR '','' then field_end
           else (InField, c # fld, rec, out))
      | InQuoted \<Rightarrow>
          (if c = CHR 0x22 then (QuoteInQuoted, fld, rec, out)
           else (InQuoted, c # fld, rec, out))
      | QuoteInQuoted \<Rightarrow>
          (if c = CHR 0x22 then (InQuoted, c # fld, rec, out)
           else if c = CHR '','' then field_end
           else if nl then record_end
           else (InField, c # fld, rec, out))))"

definition csv_finish ::
  "csv_state \<times> string \<times> string list \<times> string list list \<Rightarrow> string list list" where
  "csv_finish st = (case st of (q, fld, rec, out) \<Rightarrow>
     (case q of StartRecord \<Rightarrow> rev out | EatCrnl \<Rightarrow> rev out
      | _ \<Rightarrow> rev (rev (rev fld # rec) # out)))"

definition csv_rows :: "string \<Rightarrow> string list list" where
  "csv_rows text = csv_finish (fold (\<lambda>c st. csv_step st c) text (StartRecord, [], [], []))"

text \<open>
  \<open>DictReader\<close>: the first row names the fields, empty rows are skipped.  A row of a different
  length has \<open>None\<close> keys or values, which is outside the model.
\<close>

definition dict_row :: "string list \<Rightarrow> string list \<Rightarrow> srow res" where
  "dict_row fields vals = (if length vals = length fields then Inr (dict_of (zip fields vals))
     else Inl (OutsideModel ''row length''))"

definition dict_reader :: "string \<Rightarrow> (string list \<times> srow list) res" where
  "dict_reader text = (case dropWhile (\<lambda>r. r = []) (csv_rows text) of
       [] \<Rightarrow> Inr ([], [])
     | fields # rows \<Rightarrow>
         bindr (mapr (dict_row fields) (filter (\<lambda>r. r \<noteq> []) rows)) (\<lambda>ds. Inr (fields, ds)))"

section \<open>A table survives the file\<close>

definition feed :: "string \<Rightarrow> csv_state \<times> string \<times> string list \<times> string list list \<Rightarrow>
    csv_state \<times> string \<times> string list \<times> string list list" where
  "feed text st = fold (\<lambda>c s. csv_step s c) text st"

lemma feed_append: "feed (s @ t) st = feed t (feed s st)"
  by (simp add: feed_def)

lemma feed_Cons: "feed (c # t) st = feed t (csv_step st c)"
  by (simp add: feed_def)

lemma feed_Nil [simp]: "feed [] st = st"
  by (simp add: feed_def)

lemma feed_plain:
  "\<forall>c\<in>set s. \<not> csv_special c \<Longrightarrow> feed s (InField, fld, rec, out) = (InField, rev s @ fld, rec, out)"
  by (induction s arbitrary: fld) (simp_all add: feed_Cons csv_step_def csv_special_def Let_def)

lemma feed_quoted:
  "feed (concat (map (\<lambda>c. if c = CHR 0x22 then [c, c] else [c]) s)) (InQuoted, fld, rec, out) =
     (InQuoted, rev s @ fld, rec, out)"
  by (induction s arbitrary: fld) (simp_all add: feed_Cons feed_append csv_step_def Let_def)

text \<open>The state at the start of a field of a record that has begun, and at its start.\<close>

definition at_field :: "csv_state \<Rightarrow> bool" where
  "at_field q \<longleftrightarrow> q = StartField \<or> q = StartRecord \<or> q = EatCrnl"

lemma feed_field_comma:
  assumes "at_field q" "q = StartField \<or> rec = []"
  shows "feed (csv_field s @ '','') (q, [], rec, out) = (StartField, [], s # rec, out)"
proof (cases "\<exists>c\<in>set s. csv_special c")
  case True
  then have f: "csv_field s = CHR 0x22 # concat (map (\<lambda>c. if c = CHR 0x22 then [c, c] else [c]) s) @ [CHR 0x22]"
    by (simp add: csv_field_def)
  have "csv_step (q, [], rec, out) CHR 0x22 = (InQuoted, [], rec, out)"
    using assms by (auto simp: at_field_def csv_step_def Let_def)
  then show ?thesis
    unfolding f by (simp add: feed_Cons feed_append feed_quoted) (simp add: csv_step_def Let_def)
next
  case False
  then have f: "csv_field s = s" by (simp add: csv_field_def)
  show ?thesis
  proof (cases s)
    case Nil
    then show ?thesis using assms f by (auto simp: feed_Cons csv_step_def at_field_def Let_def)
  next
    case (Cons c t)
    then have c: "\<not> csv_special c" and t: "\<forall>c\<in>set t. \<not> csv_special c" using False by auto
    have "csv_step (q, [], rec, out) c = (InField, [c], rec, out)"
      using assms c by (auto simp: at_field_def csv_step_def csv_special_def Let_def)
    then show ?thesis
      unfolding f unfolding Cons
      by (simp add: feed_Cons feed_append feed_plain [OF t]) (simp add: csv_step_def Let_def)
  qed
qed

lemma feed_field_end:
  assumes "at_field q" "q = StartField \<or> rec = []" "q = StartField \<or> s \<noteq> []"
  shows "feed (csv_field s @ [CHR 0x0D, CHR 0x0A]) (q, [], rec, out) =
    (StartRecord, [], [], rev (s # rec) # out)"
proof (cases "\<exists>c\<in>set s. csv_special c")
  case True
  then have f: "csv_field s = CHR 0x22 # concat (map (\<lambda>c. if c = CHR 0x22 then [c, c] else [c]) s) @ [CHR 0x22]"
    by (simp add: csv_field_def)
  have "csv_step (q, [], rec, out) CHR 0x22 = (InQuoted, [], rec, out)"
    using assms by (auto simp: at_field_def csv_step_def Let_def)
  then show ?thesis
    unfolding f by (simp add: feed_Cons feed_append feed_quoted) (simp add: csv_step_def Let_def)
next
  case False
  then have f: "csv_field s = s" by (simp add: csv_field_def)
  show ?thesis
  proof (cases s)
    case Nil
    then show ?thesis using assms f by (auto simp: feed_Cons csv_step_def at_field_def Let_def)
  next
    case (Cons c t)
    then have c: "\<not> csv_special c" and t: "\<forall>c\<in>set t. \<not> csv_special c" using False by auto
    have "csv_step (q, [], rec, out) c = (InField, [c], rec, out)"
      using assms c by (auto simp: at_field_def csv_step_def csv_special_def Let_def)
    then show ?thesis
      unfolding f unfolding Cons
      by (simp add: feed_Cons feed_append feed_plain [OF t]) (simp add: csv_step_def Let_def)
  qed
qed

lemma feed_fields:
  assumes "fs \<noteq> []" "at_field q" "q = StartField \<or> rec = []" "q = StartField \<or> fs \<noteq> [[]]"
  shows "feed (join '','' (map csv_field fs) @ [CHR 0x0D, CHR 0x0A]) (q, [], rec, out) =
    (StartRecord, [], [], (rev rec @ fs) # out)"
  using assms
proof (induction fs arbitrary: q rec rule: induct_list012)
  case (2 x)
  then show ?case by (simp add: feed_field_end)
next
  case (3 x y zs)
  have s: "join '','' (map csv_field (x # y # zs)) @ [CHR 0x0D, CHR 0x0A] =
      (csv_field x @ '','') @ (join '','' (map csv_field (y # zs)) @ [CHR 0x0D, CHR 0x0A])"
    by simp
  have h: "feed (csv_field x @ '','') (q, [], rec, out) = (StartField, [], x # rec, out)"
    by (rule feed_field_comma) (use 3 in auto)
  have t: "feed (join '','' (map csv_field (y # zs)) @ [CHR 0x0D, CHR 0x0A]) (StartField, [], x # rec, out) =
      (StartRecord, [], [], (rev (x # rec) @ y # zs) # out)"
    by (rule "3.IH"(2)) (simp_all add: at_field_def)
  show ?case by (subst s, subst feed_append, subst h, subst t) simp
qed simp

lemma feed_line:
  "fs \<noteq> [] \<Longrightarrow> feed (csv_line fs) (StartRecord, [], [], out) = (StartRecord, [], [], fs # out)"
proof (cases "fs = [[]]")
  case True
  then show ?thesis by (simp add: csv_line_def feed_Cons csv_step_def Let_def)
next
  case False
  assume "fs \<noteq> []"
  with False show ?thesis by (simp add: csv_line_def feed_fields at_field_def)
qed

lemma feed_text:
  "\<forall>fs\<in>set rows. fs \<noteq> [] \<Longrightarrow>
   feed (csv_text rows) (StartRecord, [], [], out) = (StartRecord, [], [], rev rows @ out)"
  by (induction rows arbitrary: out) (simp_all add: csv_text_def feed_append feed_line)

lemma csv_rows_text: "\<forall>fs\<in>set rows. fs \<noteq> [] \<Longrightarrow> csv_rows (csv_text rows) = rows"
  using feed_text [of rows "[]"] by (simp add: csv_rows_def csv_finish_def flip: feed_def)

section \<open>Dictionaries survive the file\<close>

definition text_row :: "srow \<Rightarrow> row" where
  "text_row r = map (\<lambda>(k, v). (k, PStr v)) r"

lemma map_of_text_row: "map_of (text_row r) k = map_option PStr (map_of r k)"
  by (induction r) (auto simp: text_row_def)

lemma dict_line_text:
  assumes "map fst r = fields" "distinct fields"
  shows "dict_line ignore fields (text_row r) = Inr (map snd r)"
proof -
  have keys: "map fst (text_row r) = fields" using assms(1) by (auto simp: text_row_def comp_def case_prod_beta)
  have "mapr (\<lambda>f. cell_text (dget (text_row r) f (PStr []))) fields =
      Inr (map (\<lambda>f. dget r f []) fields)"
    by (rule mapr_map) (simp add: dget_def map_of_text_row split: option.splits)
  moreover have "map (\<lambda>f. dget r f []) fields = map snd r"
  proof -
    have "distinct (map fst r)" using assms by simp
    then have "map (\<lambda>f. dget r f []) (map fst r) = map snd r"
      by (auto simp: dget_def comp_def)
    then show ?thesis using assms(1) by simp
  qed
  ultimately show ?thesis by (simp add: dict_line_def keys)
qed

lemma dict_of_zip:
  fixes r :: srow
  assumes "map fst r = fields" "distinct fields"
  shows "dict_of (zip fields (map snd r)) = r"
proof -
  have "zip fields (map snd r) = r" using assms(1) by (metis zip_map_fst_snd)
  moreover have "dict_of r = r"
  proof -
    have "distinct (map fst (d @ e)) \<Longrightarrow> dupdate d e = d @ e" for d e :: srow
    proof (induction e arbitrary: d)
      case (Cons x e)
      have "dset (fst x) (snd x) d = d @ [x]"
        using Cons.prems by (induction d) (auto simp: dset_def)
      with Cons.IH [of "d @ [x]"] Cons.prems show ?case
        by (simp add: dupdate_def case_prod_beta)
    qed (simp add: dupdate_def)
    from this [of "[]" r] assms show ?thesis by (simp add: dict_of_def)
  qed
  ultimately show ?thesis by simp
qed

lemma dict_file_roundtrip:
  assumes "fields \<noteq> []" "distinct fields" "\<forall>r\<in>set rows. map fst r = fields"
  shows "bindr (dict_table ignore fields (map text_row rows)) (\<lambda>t. dict_reader (csv_text t)) =
    Inr (fields, rows)"
proof -
  have m: "mapr (dict_line ignore fields) (map text_row rows) = Inr (map (map snd) rows)"
  proof -
    have "mapr (dict_line ignore fields) (map text_row rows) = mapr (\<lambda>r. dict_line ignore fields (text_row r)) rows"
      by (induction rows) simp_all
    also have "\<dots> = Inr (map (map snd) rows)"
      by (rule mapr_map) (use assms dict_line_text in blast)
    finally show ?thesis .
  qed
  have len: "length (map snd r) = length fields" if "r \<in> set rows" for r
    using assms(3) that by (metis length_map)
  have ne: "\<forall>fs\<in>set (fields # map (map snd) rows). fs \<noteq> []"
    using assms(1) len by fastforce
  have rd: "mapr (dict_row fields) (map (map snd) rows) = Inr rows"
  proof -
    have "dict_row fields (map snd r) = Inr r" if "r \<in> set rows" for r
      using assms that len by (simp add: dict_row_def dict_of_zip)
    then have "mapr (\<lambda>r. dict_row fields (map snd r)) rows = Inr (map (\<lambda>r. r) rows)"
      by (intro mapr_map)
    moreover have "mapr (dict_row fields) (map (map snd) rows) = mapr (\<lambda>r. dict_row fields (map snd r)) rows"
      by (induction rows) simp_all
    ultimately show ?thesis by simp
  qed
  have fl: "filter (\<lambda>r. r \<noteq> []) (map (map snd) rows) = map (map snd) rows"
    using ne by (simp add: filter_id_conv)
  have "csv_rows (csv_text (fields # map (map snd) rows)) = fields # map (map snd) rows"
    by (rule csv_rows_text [OF ne])
  then show ?thesis
    using assms(1) m rd fl by (simp add: dict_table_def dict_reader_def del: filter_map)
qed

text \<open>The same for rows of cells that need not be strings.\<close>

definition cells_row :: "string list \<Rightarrow> row \<Rightarrow> string list \<Rightarrow> bool" where
  "cells_row fields r vs \<longleftrightarrow> map fst r = fields \<and> list_all2 (\<lambda>c v. cell_text (snd c) = Inr v) r vs"

lemma dict_line_cells:
  assumes "cells_row fields r vs" "distinct fields"
  shows "dict_line ignore fields r = Inr vs"
proof -
  have keys: "map fst r = fields" and cells: "list_all2 (\<lambda>c v. cell_text (snd c) = Inr v) r vs"
    using assms(1) by (simp_all add: cells_row_def)
  have look: "dget r (fst c) (PStr []) = snd c" if "c \<in> set r" for c
  proof -
    have "map_of r (fst c) = Some (snd c)"
      using that keys assms(2) by (intro map_of_is_SomeI) auto
    then show ?thesis by (simp add: dget_def)
  qed
  have "list_all2 (\<lambda>f v. cell_text (dget r f (PStr [])) = Inr v) (map fst r) vs"
    unfolding list_all2_map1 using cells look
    by (simp add: list_all2_conv_all_nth)
  then have "mapr (\<lambda>f. cell_text (dget r f (PStr []))) fields = Inr vs"
    by (simp add: mapr_Inr_iff keys)
  then show ?thesis by (simp add: dict_line_def keys)
qed

lemma dict_table_cells:
  assumes "distinct fields" "list_all2 (cells_row fields) rows vss"
  shows "dict_table ignore fields rows = Inr (fields # vss)"
proof -
  have "list_all2 (\<lambda>r vs. dict_line ignore fields r = Inr vs) rows vss"
    using assms(2) by (rule list_all2_mono) (rule dict_line_cells [OF _ assms(1)])
  then have "mapr (dict_line ignore fields) rows = Inr vss" by (simp add: mapr_Inr_iff)
  then show ?thesis by (simp add: dict_table_def)
qed

lemma dict_reader_table:
  assumes "fields \<noteq> []" "distinct fields" "\<forall>vs\<in>set vss. length vs = length fields"
  shows "dict_reader (csv_text (fields # vss)) = Inr (fields, map (zip fields) vss)"
proof -
  have ne: "\<forall>fs\<in>set (fields # vss). fs \<noteq> []" using assms(1,3) by fastforce
  have "dict_row fields vs = Inr (zip fields vs)" if "vs \<in> set vss" for vs
  proof -
    have l: "length vs = length fields" using assms(3) that by blast
    then have "map fst (zip fields vs) = fields" "map snd (zip fields vs) = vs" by simp_all
    then have "dict_of (zip fields vs) = zip fields vs" using dict_of_zip [of "zip fields vs" fields] assms(2) by simp
    then show ?thesis by (simp add: dict_row_def l)
  qed
  then have rd: "mapr (dict_row fields) vss = Inr (map (zip fields) vss)" by (rule mapr_map)
  have fl: "filter (\<lambda>r. r \<noteq> []) vss = vss" using ne by (simp add: filter_id_conv)
  show ?thesis
    using assms(1) rd fl by (simp add: csv_rows_text [OF ne] dict_reader_def)
qed

lemma cells_row_length: "cells_row fields r vs \<Longrightarrow> length vs = length fields"
  by (auto simp: cells_row_def dest: list_all2_lengthD)

lemma table_file_roundtrip:
  assumes "fields \<noteq> []" "distinct fields" "list_all2 (cells_row fields) rows vss"
  shows "bindr (dict_table ignore fields rows) (\<lambda>t. dict_reader (csv_text t)) =
    Inr (fields, map (zip fields) vss)"
proof -
  have "\<forall>vs\<in>set vss. length vs = length fields"
  proof -
    have "list_all2 (\<lambda>r vs. length vs = length fields) rows vss"
      using assms(3) by (rule list_all2_mono) (rule cells_row_length)
    then show ?thesis by (auto simp: list_all2_conv_all_nth in_set_conv_nth)
  qed
  then show ?thesis
    using assms by (simp add: dict_table_cells dict_reader_table)
qed

lemma mapr_mem: "mapr f xs = Inr ys \<Longrightarrow> y \<in> set ys \<Longrightarrow> \<exists>x\<in>set xs. f x = Inr y"
  by (induction xs arbitrary: ys) (auto simp: bindr_eq_Inr)

section \<open>Sorting with a key that may raise\<close>

definition sorted_res :: "('a \<Rightarrow> int res) \<Rightarrow> 'a list \<Rightarrow> 'a list res" where
  "sorted_res f xs = bindr (mapr f xs) (\<lambda>ks. Inr (map snd (sort_key fst (zip ks xs))))"

lemma sorted_res_mset: "sorted_res f xs = Inr ys \<Longrightarrow> mset ys = mset xs"
proof -
  assume "sorted_res f xs = Inr ys"
  then obtain ks where ks: "mapr f xs = Inr ks" "ys = map snd (sort_key fst (zip ks xs))"
    by (auto simp: sorted_res_def bindr_eq_Inr)
  have "mset ys = mset (map snd (zip ks xs))" by (simp add: ks(2))
  also have "map snd (zip ks xs) = xs" using mapr_length [OF ks(1)] by simp
  finally show ?thesis .
qed

lemma sorted_res_sorted:
  assumes "mapr f xs = Inr ks" "sorted ks"
  shows "sorted_res f xs = Inr xs"
proof -
  have "length ks = length xs" using assms(1) by (rule mapr_length)
  then have "sorted (map fst (zip ks xs))" using assms(2) by simp
  then have "sort_key fst (zip ks xs) = zip ks xs" by (rule sort_key_id_if_sorted)
  with \<open>length ks = length xs\<close> show ?thesis by (simp add: sorted_res_def assms(1))
qed

end
