(* ===== verification/Case_Files.thy ===== *)
theory Case_Files
  imports Py_Csv Algorithms Scheduler Transfer_Plan
begin

text \<open>
  The case table and the files of a campaign: \<open>generate_cases.py\<close> builds and writes the
  cases, \<open>run_benchmarks.py\<close> reads and normalises them, keeps the session, round and transfer
  manifests, and stores a checkpoint after every job.  Files are their texts.
\<close>

section \<open>Generating cases\<close>

definition FIELDS :: "string list" where
  "FIELDS = [''case_id'', ''enabled'',
    ''pki_chain_id'', ''pki_kind'', ''root_sig_alg'',
    ''intermediate_sig_alg'', ''leaf_sig_alg'',
    ''kex_group'', ''kex_family'', ''kex_nist_level'',
    ''kex_public_key_bytes'', ''kex_ciphertext_bytes'', ''kex_shared_secret_bytes'',
    ''cert_sig_alg'', ''sig_family'', ''sig_nist_level'',
    ''sig_public_key_bytes'', ''sig_private_key_bytes'', ''sig_signature_bytes'',
    ''certificate_verify_alg'', ''iterations'', ''warmup_iterations'',
    ''expected_support'', ''notes'']"

definition case_notes :: "pki_chain \<Rightarrow> signature \<Rightarrow> string" where
  "case_notes chain sg =
     (if chain_kind chain = ''homogeneous_x509'' \<and>
         (startswith (sig_name sg) ''SLH-DSA'' \<or> startswith (sig_name sg) ''LMS-'' \<or>
          startswith (sig_name sg) ''XMSS-'')
      then sig_name sg @ '' signs all X.509 certificates; TLS CertificateVerify uses ECDSA''
      else sig_notes sg)"

definition case_row :: "int \<Rightarrow> int \<Rightarrow> kem \<Rightarrow> pki_chain \<Rightarrow> signature \<Rightarrow> srow" where
  "case_row iterations warmups k chain sg = [
     (''case_id'', slug (kem_name k) @ ''__'' @ chain_id chain),
     (''enabled'', ''1''),
     (''pki_chain_id'', chain_id chain),
     (''pki_kind'', chain_kind chain),
     (''root_sig_alg'', chain_root chain),
     (''intermediate_sig_alg'', chain_intermediate chain),
     (''leaf_sig_alg'', chain_leaf chain),
     (''kex_group'', kem_name k),
     (''kex_family'', kem_family k),
     (''kex_nist_level'', str_int (kem_nist_level k)),
     (''kex_public_key_bytes'', str_int (kem_public_key_bytes k)),
     (''kex_ciphertext_bytes'', str_int (kem_ciphertext_bytes k)),
     (''kex_shared_secret_bytes'', str_int (kem_shared_secret_bytes k)),
     (''cert_sig_alg'', sig_name sg),
     (''sig_family'', sig_family sg),
     (''sig_nist_level'', str_int (sig_nist_level sg)),
     (''sig_public_key_bytes'', str_int (sig_public_key_bytes sg)),
     (''sig_private_key_bytes'', str_int (sig_private_key_bytes sg)),
     (''sig_signature_bytes'', str_int (sig_signature_bytes sg)),
     (''certificate_verify_alg'', sig_tls_scheme sg),
     (''iterations'', str_int iterations),
     (''warmup_iterations'', str_int warmups),
     (''expected_support'', sig_expected_support sg),
     (''notes'', case_notes chain sg)]"

definition cases_of_chain :: "int \<Rightarrow> int \<Rightarrow> bool \<Rightarrow> kem \<Rightarrow> pki_chain \<Rightarrow> srow list res" where
  "cases_of_chain iterations warmups separate k chain =
     bindr (dindex SIGNATURES_BY_NAME (chain_leaf chain)) (\<lambda>sg.
       Inr (if separate \<and> kem_family k \<noteq> sig_family sg then []
            else [case_row iterations warmups k chain sg]))"

definition build_cases :: "int \<Rightarrow> int \<Rightarrow> bool \<Rightarrow> bool \<Rightarrow> srow list res" where
  "build_cases iterations warmups separate include_heavy_homogeneous =
     (let chains = pki_chains @ (if include_heavy_homogeneous then HEAVY_HOMOGENEOUS_CHAINS else []) in
      bindr (mapr (\<lambda>k. bindr (mapr (cases_of_chain iterations warmups separate k) chains) (\<lambda>rs.
        Inr (concat rs))) KEMS) (\<lambda>rs. Inr (concat rs)))"

text \<open>
  The work of \<open>main\<close> once the arguments are parsed: the text of the case file.  The seed is the
  given one or the one drawn from the system.
\<close>

definition generate_case_file ::
  "'g rng \<Rightarrow> int \<Rightarrow> int \<Rightarrow> bool \<Rightarrow> bool \<Rightarrow> bool \<Rightarrow> int \<Rightarrow> string option \<Rightarrow> string \<Rightarrow> string res" where
  "generate_case_file R iterations warmups separate heavy no_shuffle seed existing path =
     (if iterations < 1 \<or> warmups < 0
      then Inl (ValueError ''iterations must be positive and warmups cannot be negative'')
      else bindr (build_cases iterations warmups separate heavy) (\<lambda>rows.
        let rows' = (if no_shuffle then rows else seeded_shuffle R seed rows) in
        if existing \<noteq> None then Inl (FileExistsError (''refusing to overwrite '' @ path))
        else bindr (dict_table False FIELDS (map text_row rows')) (\<lambda>t. Inr (csv_text t))))"

section \<open>Normalising a case\<close>

text \<open>\<open>row.get(key) or default\<close>, where the default is evaluated only when it is needed.\<close>

definition get_or :: "srow \<Rightarrow> string \<Rightarrow> string res \<Rightarrow> string res" where
  "get_or r key dflt = (case map_of r key of Some (c # s) \<Rightarrow> Inr (c # s) | _ \<Rightarrow> dflt)"

definition normalize_case_pki :: "srow \<Rightarrow> srow res" where
  "normalize_case_pki r0 =
     bindr (dindex r0 ''case_id'') (\<lambda>cid.
     bindr (get_or r0 ''leaf_sig_alg'' (dindex r0 ''cert_sig_alg'')) (\<lambda>leaf.
     bindr (get_or r0 ''root_sig_alg'' (Inr leaf)) (\<lambda>rt.
     bindr (get_or r0 ''intermediate_sig_alg'' (Inr leaf)) (\<lambda>intermediate.
     if \<not> dhas SIGNATURES_BY_NAME rt \<or> \<not> dhas SIGNATURES_BY_NAME leaf
     then Inl (ValueError (cid @ '': unknown PKI signature''))
     else if intermediate \<noteq> leaf
     then Inl (ValueError (cid @ '': intermediate and leaf algorithms must match''))
     else
       let r1 = dset ''leaf_sig_alg'' leaf (dset ''intermediate_sig_alg'' intermediate
                  (dset ''root_sig_alg'' rt r0)) in
       bindr (get_or r1 ''pki_kind'' (Inr (if rt = leaf then ''homogeneous'' else ''heavy_root''))) (\<lambda>kind.
       let r2 = dset ''pki_kind'' kind r1 in
       bindr (get_or r2 ''pki_chain_id'' (Inr (if rt = leaf then ''homogeneous_'' @ slug leaf
                else ''root_'' @ slug rt @ ''__leaf_'' @ slug leaf))) (\<lambda>chid.
       let r3 = dset ''pki_chain_id'' chid r2 in
       bindr (dindex r3 ''cert_sig_alg'') (\<lambda>csa.
       if csa \<noteq> leaf then Inl (ValueError (cid @ '': cert_sig_alg must describe the leaf''))
       else Inr r3)))))))"

section \<open>Reading the cases of a run\<close>

definition PKI_FIELDS :: "string list" where
  "PKI_FIELDS = [''pki_chain_id'', ''pki_kind'', ''root_sig_alg'', ''intermediate_sig_alg'', ''leaf_sig_alg'']"

definition case_enabled :: "srow \<Rightarrow> bool" where
  "case_enabled r \<longleftrightarrow> py_lower (dget r ''enabled'' []) \<in> {''1'', ''true'', ''yes''}"

definition check_case :: "string list \<times> srow list \<Rightarrow> srow \<Rightarrow> (string list \<times> srow list) res" where
  "check_case st r = (case st of (seen, done_rows) \<Rightarrow>
     bindr (dindex r ''case_id'') (\<lambda>cid.
     if cid = [] \<or> cid \<in> set seen
     then Inl (ValueError (''empty or duplicate case_id: '' @ py_repr cid))
     else
       bindr (dindex r ''kex_group'') (\<lambda>kex.
       if \<not> dhas KEMS_BY_NAME kex then Inl (ValueError (cid @ '': unknown KEM '' @ kex))
       else
         bindr (dindex r ''cert_sig_alg'') (\<lambda>csa.
         if \<not> dhas SIGNATURES_BY_NAME csa
         then Inl (ValueError (cid @ '': unknown signature '' @ csa))
         else
           bindr (normalize_case_pki r) (\<lambda>r'.
           bindr (bindr (dindex r' ''iterations'') py_int) (\<lambda>n.
           bindr (if n < 1 then Inr True
                  else bindr (bindr (dindex r' ''warmup_iterations'') py_int) (\<lambda>w. Inr (w < 0))) (\<lambda>bad.
           if bad then Inl (ValueError (cid @ '': invalid iteration counts''))
           else Inr (seen @ [cid], done_rows @ [r']))))))))"

definition read_cases :: "string \<Rightarrow> srow list res" where
  "read_cases text = bindr (dict_reader text) (\<lambda>(names, all_rows).
     let missing = filter (\<lambda>f. f \<notin> set PKI_FIELDS \<and> f \<notin> set names) FIELDS in
     if missing \<noteq> []
     then Inl (ValueError (''case CSV is missing fields: '' @ join '', '' (sort missing)))
     else
       bindr (foldr_res check_case ([], []) (filter case_enabled all_rows)) (\<lambda>(seen, rows).
       if rows = [] then Inl (ValueError ''case CSV has no enabled cases'') else Inr rows))"

section \<open>Manifests\<close>

definition load_manifest_cases :: "string \<Rightarrow> srow list res" where
  "load_manifest_cases text = bindr (dict_reader text) (\<lambda>(names, rows).
     bindr (sorted_res (\<lambda>r. bindr (dindex r ''sequence'') py_int) rows) (\<lambda>ordered.
     mapr (\<lambda>r. normalize_case_pki (map (\<lambda>f. (f, dget r f [])) FIELDS)) ordered))"

definition cell_int :: "srow \<Rightarrow> string \<Rightarrow> int res" where
  "cell_int r k = bindr (dindex r k) py_int"

definition session_job_of_row :: "srow \<Rightarrow> session_job res" where
  "session_job_of_row r =
     bindr (cell_int r ''source_sequence'') (\<lambda>sequence.
     bindr (dindex r ''case_id'') (\<lambda>cid.
     bindr (cell_int r ''session'') (\<lambda>session.
     bindr (cell_int r ''attempt_in_session'') (\<lambda>attempt.
     bindr (cell_int r ''warmup'') (\<lambda>warmup.
     bindr (cell_int r ''measured_index'') (\<lambda>measured.
       Inr \<lparr>sj_sequence = sequence, sj_case_id = cid, sj_session = session,
            sj_attempt_in_session = attempt, sj_warmup = warmup, sj_measured_index = measured\<rparr>))))))"

definition load_session_jobs :: "string \<Rightarrow> session_job list res" where
  "load_session_jobs text = bindr (dict_reader text) (\<lambda>(names, rows).
     bindr (sorted_res (\<lambda>r. cell_int r ''execution_order'') rows) (\<lambda>ordered.
     mapr session_job_of_row ordered))"

definition SESSION_FIELDS :: "string list" where
  "SESSION_FIELDS = [''execution_order'', ''source_sequence'', ''case_id'', ''session'',
     ''attempt_in_session'', ''warmup'', ''measured_index'', ''firmware_profile'', ''seed'']"

definition session_row :: "(string \<Rightarrow> string) \<Rightarrow> int \<Rightarrow> int \<times> session_job \<Rightarrow> row" where
  "session_row profile seed oj = (case oj of (order, j) \<Rightarrow>
     [(''execution_order'', PInt order), (''source_sequence'', PInt (sj_sequence j)),
      (''case_id'', PStr (sj_case_id j)), (''session'', PInt (sj_session j)),
      (''attempt_in_session'', PInt (sj_attempt_in_session j)), (''warmup'', PInt (sj_warmup j)),
      (''measured_index'', PInt (sj_measured_index j)),
      (''firmware_profile'', PStr (profile (sj_case_id j))), (''seed'', PInt seed)])"

definition write_csv :: "string list \<Rightarrow> row list \<Rightarrow> string res" where
  "write_csv names rows = bindr (dict_table True names rows) (\<lambda>t. Inr (csv_text t))"

definition session_manifest :: "(string \<Rightarrow> string) \<Rightarrow> int \<Rightarrow> session_job list \<Rightarrow> string res" where
  "session_manifest profile seed jobs =
     write_csv SESSION_FIELDS (map (session_row profile seed) (enumerate_from 1 jobs))"

definition transfer_operation_of_row :: "srow \<Rightarrow> transfer_operation res" where
  "transfer_operation_of_row r =
     bindr (cell_int r ''transfer_order'') (\<lambda>order.
     bindr (bindr (get_or r ''iteration'' (Inr ''1'')) py_int) (\<lambda>iteration.
     bindr (dindex r ''direction'') (\<lambda>direction.
     bindr (cell_int r ''payload_bytes'') (\<lambda>n.
     bindr (cell_int r ''payload_seed'') (\<lambda>seed.
       Inr \<lparr>op_order = order, op_iteration = iteration, op_direction = direction,
            op_payload_bytes = n, op_payload_seed = seed\<rparr>)))))"

definition add_transfer_row ::
  "(int \<times> string, transfer_operation list) dict \<Rightarrow> srow \<Rightarrow>
   (int \<times> string, transfer_operation list) dict res" where
  "add_transfer_row d r =
     bindr (cell_int r ''execution_order'') (\<lambda>order.
     bindr (dindex r ''case_id'') (\<lambda>cid.
     bindr (transfer_operation_of_row r) (\<lambda>operation.
       Inr (dappend (order, cid) operation d))))"

definition transfer_round_of_row ::
  "(int \<times> string, transfer_operation list) dict \<Rightarrow> srow \<Rightarrow> transfer_round res" where
  "transfer_round_of_row operations r =
     bindr (cell_int r ''source_sequence'') (\<lambda>sequence.
     bindr (dindex r ''case_id'') (\<lambda>cid.
     bindr (cell_int r ''round_index'') (\<lambda>round_index.
     bindr (cell_int r ''execution_order'') (\<lambda>order.
       Inr \<lparr>tr_sequence = sequence, tr_case_id = cid, tr_round_index = round_index,
            tr_operations = sort_key op_order (dget operations (order, cid) [])\<rparr>))))"

definition load_transfer_rounds :: "string \<Rightarrow> string \<Rightarrow> transfer_round list res" where
  "load_transfer_rounds transfer_text round_text =
     bindr (dict_reader transfer_text) (\<lambda>(tnames, trows).
     bindr (foldr_res add_transfer_row [] trows) (\<lambda>operations.
     bindr (dict_reader round_text) (\<lambda>(rnames, rrows).
     bindr (sorted_res (\<lambda>r. cell_int r ''execution_order'') rrows) (\<lambda>ordered.
     mapr (transfer_round_of_row operations) ordered))))"

definition ROUND_FIELDS :: "string list" where
  "ROUND_FIELDS = [''execution_order'', ''source_sequence'', ''case_id'', ''round_index'',
     ''firmware_profile'', ''seed'']"

definition round_row :: "(string \<Rightarrow> string) \<Rightarrow> int \<Rightarrow> int \<times> transfer_round \<Rightarrow> row" where
  "round_row profile seed oj = (case oj of (order, j) \<Rightarrow>
     [(''execution_order'', PInt order), (''source_sequence'', PInt (tr_sequence j)),
      (''case_id'', PStr (tr_case_id j)), (''round_index'', PInt (tr_round_index j)),
      (''firmware_profile'', PStr (profile (tr_case_id j))), (''seed'', PInt seed)])"

definition TRANSFER_MANIFEST_FIELDS :: "string list" where
  "TRANSFER_MANIFEST_FIELDS = [''execution_order'', ''case_id'', ''round_index'', ''transfer_order'',
     ''iteration'', ''direction'', ''payload_bytes'', ''payload_seed'', ''expected_sha256'']"

definition transfer_manifest_row :: "int \<Rightarrow> transfer_round \<Rightarrow> transfer_operation \<Rightarrow> row res" where
  "transfer_manifest_row order j p =
     bindr (payload_sha256 (op_payload_seed p) (op_payload_bytes p) 1024) (\<lambda>h.
       Inr [(''execution_order'', PInt order), (''case_id'', PStr (tr_case_id j)),
            (''round_index'', PInt (tr_round_index j)), (''transfer_order'', PInt (op_order p)),
            (''iteration'', PInt (op_iteration p)), (''direction'', PStr (op_direction p)),
            (''payload_bytes'', PInt (op_payload_bytes p)),
            (''payload_seed'', PInt (op_payload_seed p)), (''expected_sha256'', PStr h)])"

definition round_manifest :: "(string \<Rightarrow> string) \<Rightarrow> int \<Rightarrow> transfer_round list \<Rightarrow> string res" where
  "round_manifest profile seed jobs =
     write_csv ROUND_FIELDS (map (round_row profile seed) (enumerate_from 1 jobs))"

definition transfer_manifest :: "transfer_round list \<Rightarrow> string res" where
  "transfer_manifest jobs =
     bindr (mapr (\<lambda>(order, j). mapr (transfer_manifest_row order j) (tr_operations j))
        (enumerate_from 1 jobs)) (\<lambda>rss.
     write_csv TRANSFER_MANIFEST_FIELDS (concat rss))"

section \<open>Stored attempts and checkpoints\<close>

text \<open>The stored rows of every case directory that has the file.\<close>

definition load_attempts :: "(string, string option) dict \<Rightarrow> (string, srow list) dict res" where
  "load_attempts files = foldr_res (\<lambda>d (cid, text). case text of None \<Rightarrow> Inr d
     | Some t \<Rightarrow> bindr (dict_reader t) (\<lambda>(names, rows). Inr (dset cid (dget d cid [] @ rows) d))) [] files"

definition load_transmissions :: "(string, string option) dict \<Rightarrow> (string, srow list) dict res" where
  "load_transmissions files = foldr_res (\<lambda>d (cid, text). case text of None \<Rightarrow> Inr d
     | Some t \<Rightarrow> bindr (dict_reader t) (\<lambda>(names, rows). Inr (dset cid (dget d cid [] @ rows) d))) [] files"

text \<open>The checkpoint is a JSON object; the model keeps the object.\<close>

definition read_checkpoint :: "string \<Rightarrow> row option \<Rightarrow> row res" where
  "read_checkpoint run_dir file = (case file of
       None \<Rightarrow> Inl (FileNotFoundError (run_dir @
         '' has no checkpoint.json; only checkpoint-enabled runs can be resumed safely''))
     | Some payload \<Rightarrow> Inr payload)"

definition write_checkpoint ::
  "int \<Rightarrow> int \<Rightarrow> string \<Rightarrow> int \<Rightarrow> int \<Rightarrow> string \<Rightarrow> string \<Rightarrow> row" where
  "write_checkpoint execution_order total_jobs cid session attempt profile now = [
     (''version'', PInt 1),
     (''status'', PStr (if total_jobs \<le> execution_order then ''complete'' else ''running'')),
     (''last_completed_execution_order'', PInt execution_order),
     (''next_execution_order'',
        if execution_order < total_jobs then PInt (execution_order + 1) else PNone),
     (''case_id'', PStr cid), (''session'', PInt session), (''attempt_in_session'', PInt attempt),
     (''firmware_profile'', PStr profile), (''updated_at'', PStr now)]"

definition METADATA_REQUIRED :: "string list" where
  "METADATA_REQUIRED = [''kex_group'', ''kex_nist_level'', ''kex_public_key_bytes'',
     ''kex_ciphertext_bytes'', ''kex_shared_secret_bytes'', ''cert_sig_alg'',
     ''sig_nist_level'', ''sig_public_key_bytes'', ''sig_private_key_bytes'', ''sig_signature_bytes'']"

definition METADATA_OPTIONAL :: "string list" where
  "METADATA_OPTIONAL = [''firmware_profile'', ''pki_chain_id'', ''pki_kind'', ''root_sig_alg'',
     ''intermediate_sig_alg'', ''leaf_sig_alg'']"

definition case_metadata :: "srow \<Rightarrow> srow res" where
  "case_metadata c =
     bindr (mapr (\<lambda>k. bindr (dindex c k) (\<lambda>v. Inr (k, v))) METADATA_REQUIRED) (\<lambda>required.
     let metadata = dupdate (dict_of required) (map (\<lambda>k. (k, dget c k [])) METADATA_OPTIONAL) in
     bindr (dindex c ''cert_sig_alg'') (\<lambda>csa.
     bindr (normalize_signature_scheme (dget c ''certificate_verify_alg'' []) csa) (\<lambda>s.
       Inr (dset ''expected_certificate_verify_alg'' s metadata))))"

section \<open>Manifests survive the file\<close>

definition session_texts :: "(string \<Rightarrow> string) \<Rightarrow> int \<Rightarrow> int \<times> session_job \<Rightarrow> string list" where
  "session_texts profile seed oj = (case oj of (order, j) \<Rightarrow>
     [str_int order, str_int (sj_sequence j), sj_case_id j, str_int (sj_session j),
      str_int (sj_attempt_in_session j), str_int (sj_warmup j), str_int (sj_measured_index j),
      profile (sj_case_id j), str_int seed])"

lemma session_cells: "cells_row SESSION_FIELDS (session_row p seed oj) (session_texts p seed oj)"
  by (cases oj) (simp add: cells_row_def session_row_def session_texts_def SESSION_FIELDS_def)

lemma distinct_fields: "distinct SESSION_FIELDS" "distinct ROUND_FIELDS" "distinct TRANSFER_MANIFEST_FIELDS"
  "distinct FIELDS"
  by code_simp+

lemma list_all2_maps: "(\<And>x. P (f x) (g x)) \<Longrightarrow> list_all2 P (map f xs) (map g xs)"
  by (simp add: list_all2_map1 list_all2_map2 list.rel_refl)

lemma session_fields_read:
  "cell_int (zip SESSION_FIELDS (session_texts p seed (order, j))) ''execution_order'' = Inr order"
  "session_job_of_row (zip SESSION_FIELDS (session_texts p seed (order, j))) = Inr j"
  by (simp_all add: cell_int_def session_job_of_row_def session_texts_def SESSION_FIELDS_def dindex_def)

lemma mapr_comp: "mapr f (map g xs) = mapr (\<lambda>x. f (g x)) xs"
  by (induction xs) simp_all

lemma mapr_all: "(\<And>x. f x = Inr (g x)) \<Longrightarrow> mapr f xs = Inr (map g xs)"
  by (rule mapr_map)

lemma session_manifest_load:
  "bindr (session_manifest profile seed jobs) load_session_jobs = Inr jobs"
proof -
  let ?e = "enumerate_from 1 jobs"
  let ?v = "map (session_texts profile seed) ?e"
  have c: "list_all2 (cells_row SESSION_FIELDS) (map (session_row profile seed) ?e) ?v"
    by (rule list_all2_maps) (rule session_cells)
  have ne: "SESSION_FIELDS \<noteq> []" by (simp add: SESSION_FIELDS_def)
  have t: "dict_table True SESSION_FIELDS (map (session_row profile seed) ?e) = Inr (SESSION_FIELDS # ?v)"
    by (rule dict_table_cells [OF distinct_fields(1) c])
  have r: "dict_reader (csv_text (SESSION_FIELDS # ?v)) = Inr (SESSION_FIELDS, map (zip SESSION_FIELDS) ?v)"
    using table_file_roundtrip [OF ne distinct_fields(1) c, of True] by (simp add: t)
  have k: "mapr (\<lambda>r. cell_int r ''execution_order'') (map (zip SESSION_FIELDS) ?v) = Inr (map fst ?e)"
    unfolding mapr_comp
    by (rule mapr_all) (metis prod.collapse session_fields_read(1))
  have srt: "sorted_res (\<lambda>r. cell_int r ''execution_order'') (map (zip SESSION_FIELDS) ?v) =
      Inr (map (zip SESSION_FIELDS) ?v)"
    by (rule sorted_res_sorted [OF k]) (simp add: enumerate_from_fst)
  have j: "mapr session_job_of_row (map (zip SESSION_FIELDS) ?v) = Inr (map snd ?e)"
    unfolding mapr_comp
    by (rule mapr_all) (metis prod.collapse session_fields_read(2))
  show ?thesis
    by (simp add: session_manifest_def write_csv_def t load_session_jobs_def r srt j enumerate_from_snd del: map_map)
qed

section \<open>Transfer manifests survive the files\<close>

definition round_texts :: "(string \<Rightarrow> string) \<Rightarrow> int \<Rightarrow> int \<times> transfer_round \<Rightarrow> string list" where
  "round_texts profile seed oj = (case oj of (order, j) \<Rightarrow>
     [str_int order, str_int (tr_sequence j), tr_case_id j, str_int (tr_round_index j),
      profile (tr_case_id j), str_int seed])"

lemma round_cells: "cells_row ROUND_FIELDS (round_row p seed oj) (round_texts p seed oj)"
  by (cases oj) (simp add: cells_row_def round_row_def round_texts_def ROUND_FIELDS_def)

definition operation_hash :: "transfer_operation \<Rightarrow> string" where
  "operation_hash p = sha256_hex (pattern (op_payload_seed p) 0 (op_payload_bytes p))"

definition transfer_texts :: "int \<Rightarrow> transfer_round \<Rightarrow> transfer_operation \<Rightarrow> string list" where
  "transfer_texts order j p = [str_int order, tr_case_id j, str_int (tr_round_index j),
     str_int (op_order p), str_int (op_iteration p), op_direction p, str_int (op_payload_bytes p),
     str_int (op_payload_seed p), operation_hash p]"

definition transfer_cells :: "int \<Rightarrow> transfer_round \<Rightarrow> transfer_operation \<Rightarrow> row" where
  "transfer_cells order j p =
     [(''execution_order'', PInt order), (''case_id'', PStr (tr_case_id j)),
      (''round_index'', PInt (tr_round_index j)), (''transfer_order'', PInt (op_order p)),
      (''iteration'', PInt (op_iteration p)), (''direction'', PStr (op_direction p)),
      (''payload_bytes'', PInt (op_payload_bytes p)),
      (''payload_seed'', PInt (op_payload_seed p)), (''expected_sha256'', PStr (operation_hash p))]"

lemma transfer_manifest_row_eq:
  "0 \<le> op_payload_bytes p \<Longrightarrow> transfer_manifest_row order j p = Inr (transfer_cells order j p)"
  by (simp add: transfer_manifest_row_def transfer_cells_def operation_hash_def payload_sha256_def
      payload_period_eq payload_digest_eq)

lemma transfer_cells_row:
  "cells_row TRANSFER_MANIFEST_FIELDS (transfer_cells order j p) (transfer_texts order j p)"
  by (simp add: cells_row_def transfer_cells_def transfer_texts_def TRANSFER_MANIFEST_FIELDS_def)

lemma get_or_str_int: "map_of r k = Some (str_int i) \<Longrightarrow> get_or r k d = Inr (str_int i)"
proof -
  assume a: "map_of r k = Some (str_int i)"
  obtain c s where "str_int i = c # s" by (cases "str_int i") (auto simp: str_int_def split: if_splits)
  with a show ?thesis by (simp add: get_or_def)
qed

lemma transfer_row_read:
  fixes d :: "(int \<times> string, transfer_operation list) dict"
  shows "add_transfer_row d (zip TRANSFER_MANIFEST_FIELDS (transfer_texts order j p)) =
    Inr (dappend (order, tr_case_id j) p d)"
proof -
  let ?r = "zip TRANSFER_MANIFEST_FIELDS (transfer_texts order j p)"
  have it: "get_or ?r ''iteration'' (Inr ''1'') = Inr (str_int (op_iteration p))"
    by (rule get_or_str_int) (simp add: transfer_texts_def TRANSFER_MANIFEST_FIELDS_def)
  have f: "cell_int ?r ''execution_order'' = Inr order" "dindex ?r ''case_id'' = Inr (tr_case_id j)"
    "cell_int ?r ''transfer_order'' = Inr (op_order p)" "dindex ?r ''direction'' = Inr (op_direction p)"
    "cell_int ?r ''payload_bytes'' = Inr (op_payload_bytes p)"
    "cell_int ?r ''payload_seed'' = Inr (op_payload_seed p)"
    by (simp_all add: cell_int_def dindex_def transfer_texts_def TRANSFER_MANIFEST_FIELDS_def)
  have eta: "\<lparr>op_order = op_order p, op_iteration = op_iteration p, op_direction = op_direction p,
      op_payload_bytes = op_payload_bytes p, op_payload_seed = op_payload_seed p\<rparr> = p"
    by (cases p) simp
  show ?thesis by (simp add: add_transfer_row_def transfer_operation_of_row_def f it eta)
qed

definition keyed_operations :: "(int \<times> transfer_round) list \<Rightarrow> (int \<times> transfer_round \<times> transfer_operation) list" where
  "keyed_operations ojs = concat (map (\<lambda>(n, j). map (\<lambda>p. (n, j, p)) (tr_operations j)) ojs)"

lemma fold_transfer_rows:
  "foldr_res add_transfer_row d (map (\<lambda>(n, j, p). zip TRANSFER_MANIFEST_FIELDS (transfer_texts n j p)) kops) =
   Inr (fold (\<lambda>(n, j, p). dappend (n, tr_case_id j) p) kops d)"
  by (induction kops arbitrary: d) (auto simp: transfer_row_read)

lemma dget_fold_dappend:
  "dget (fold (\<lambda>(n, j, p). dappend (n, tr_case_id j) p) kops d) k [] =
   dget d k [] @ map (\<lambda>(n, j, p). p) (filter (\<lambda>(n, j, p). (n, tr_case_id j) = k) kops)"
proof (induction kops arbitrary: d)
  case (Cons x xs)
  obtain n j p where x: "x = (n, j, p)" by (cases x) auto
  show ?case by (simp add: Cons x) (simp add: dappend_def)
qed simp

lemma filter_keyed:
  assumes "distinct (map fst ojs)" "(n, j) \<in> set ojs"
  shows "map (\<lambda>(n, j, p). p) (filter (\<lambda>(m, i, p). (m, tr_case_id i) = (n, tr_case_id j)) (keyed_operations ojs)) =
    tr_operations j"
  using assms
proof (induction ojs)
  case (Cons mi ojs)
  obtain m i where mi: "mi = (m, i)" by (cases mi)
  have none: "filter (\<lambda>(m, i, p). (m, tr_case_id i) = (n, tr_case_id j)) (keyed_operations ojs) = []"
    if "n \<notin> set (map fst ojs)"
    using that by (force simp: keyed_operations_def filter_empty_conv)
  have split: "keyed_operations (mi # ojs) = map (\<lambda>p. (m, i, p)) (tr_operations i) @ keyed_operations ojs"
    by (simp add: keyed_operations_def mi)
  show ?case
  proof (cases "n = m")
    case True
    then have "n \<notin> set (map fst ojs)" "i = j"
      using Cons.prems by (auto simp: mi image_iff)
    then show ?thesis unfolding split using none True by (simp add: comp_def)
  next
    case False
    then have "(n, j) \<in> set ojs" using Cons.prems by (auto simp: mi)
    then show ?thesis unfolding split using Cons False by (simp add: filter_map comp_def)
  qed
qed simp

definition round_loadable :: "transfer_round \<Rightarrow> bool" where
  "round_loadable j \<longleftrightarrow> sorted (map op_order (tr_operations j)) \<and>
     (\<forall>p\<in>set (tr_operations j). 0 \<le> op_payload_bytes p)"

lemma round_row_read:
  assumes "dget d (n, tr_case_id j) [] = tr_operations j" "round_loadable j"
  shows "cell_int (zip ROUND_FIELDS (round_texts pr seed (n, j))) ''execution_order'' = Inr n"
    "transfer_round_of_row d (zip ROUND_FIELDS (round_texts pr seed (n, j))) = Inr j"
proof -
  have "sort_key op_order (tr_operations j) = tr_operations j"
    using assms(2) by (simp add: round_loadable_def sort_key_id_if_sorted)
  then show "cell_int (zip ROUND_FIELDS (round_texts pr seed (n, j))) ''execution_order'' = Inr n"
    "transfer_round_of_row d (zip ROUND_FIELDS (round_texts pr seed (n, j))) = Inr j"
    using assms(1)
    by (simp_all add: cell_int_def transfer_round_of_row_def round_texts_def ROUND_FIELDS_def dindex_def)
qed

lemma transfer_manifests_load:
  assumes "\<forall>j\<in>set jobs. round_loadable j"
  shows "bindr (transfer_manifest jobs) (\<lambda>t. bindr (round_manifest profile seed jobs) (\<lambda>r.
    load_transfer_rounds t r)) = Inr jobs"
proof -
  let ?e = "enumerate_from 1 jobs"
  let ?k = "keyed_operations ?e"
  let ?tv = "map (\<lambda>(n, j, p). transfer_texts n j p) ?k"
  let ?rv = "map (round_texts profile seed) ?e"
  have jin: "j \<in> set jobs" if "(n, j) \<in> set ?e" for n j
    using that enumerate_from_snd [of 1 jobs] by (metis in_set_conv_nth length_map nth_map snd_conv)
  have rows: "mapr (\<lambda>(order, j). mapr (transfer_manifest_row order j) (tr_operations j)) ?e =
      Inr (map (\<lambda>(n, j). map (transfer_cells n j) (tr_operations j)) ?e)"
    by (rule mapr_map)
      (use assms jin in \<open>auto intro!: mapr_map transfer_manifest_row_eq simp: round_loadable_def\<close>)
  have cc: "concat (map (\<lambda>(n, j). map (transfer_cells n j) (tr_operations j)) ?e) =
      map (\<lambda>(n, j, p). transfer_cells n j p) ?k"
    by (simp add: keyed_operations_def map_concat comp_def case_prod_beta')
  have tc: "list_all2 (cells_row TRANSFER_MANIFEST_FIELDS) (map (\<lambda>(n, j, p). transfer_cells n j p) ?k) ?tv"
    by (rule list_all2_maps) (auto simp: transfer_cells_row)
  have tne: "TRANSFER_MANIFEST_FIELDS \<noteq> []" "ROUND_FIELDS \<noteq> []"
    by (simp_all add: TRANSFER_MANIFEST_FIELDS_def ROUND_FIELDS_def)
  have tt: "dict_table True TRANSFER_MANIFEST_FIELDS (map (\<lambda>(n, j, p). transfer_cells n j p) ?k) =
      Inr (TRANSFER_MANIFEST_FIELDS # ?tv)"
    by (rule dict_table_cells [OF distinct_fields(3) tc])
  have tr: "dict_reader (csv_text (TRANSFER_MANIFEST_FIELDS # ?tv)) =
      Inr (TRANSFER_MANIFEST_FIELDS, map (zip TRANSFER_MANIFEST_FIELDS) ?tv)"
    using table_file_roundtrip [OF tne(1) distinct_fields(3) tc, of True] by (simp add: tt)
  have rc: "list_all2 (cells_row ROUND_FIELDS) (map (round_row profile seed) ?e) ?rv"
    by (rule list_all2_maps) (rule round_cells)
  have rt: "dict_table True ROUND_FIELDS (map (round_row profile seed) ?e) = Inr (ROUND_FIELDS # ?rv)"
    by (rule dict_table_cells [OF distinct_fields(2) rc])
  have rr: "dict_reader (csv_text (ROUND_FIELDS # ?rv)) = Inr (ROUND_FIELDS, map (zip ROUND_FIELDS) ?rv)"
    using table_file_roundtrip [OF tne(2) distinct_fields(2) rc, of True] by (simp add: rt)
  define d where "d = fold (\<lambda>(n, j, p). dappend (n, tr_case_id j) p) ?k []"
  have fold: "foldr_res add_transfer_row [] (map (zip TRANSFER_MANIFEST_FIELDS) ?tv) = Inr d"
    using fold_transfer_rows [of "[]" ?k] by (simp add: d_def comp_def case_prod_beta')
  have dist: "distinct (map fst ?e)" by (simp add: enumerate_from_fst)
  have look: "dget d (n, tr_case_id j) [] = tr_operations j" if "(n, j) \<in> set ?e" for n j
  proof -
    have "dget d (n, tr_case_id j) [] = dget [] (n, tr_case_id j) [] @
        map (\<lambda>(n, j, p). p) (filter (\<lambda>(m, i, p). (m, tr_case_id i) = (n, tr_case_id j)) ?k)"
      unfolding d_def by (rule dget_fold_dappend)
    also have "dget [] (n, tr_case_id j) [] = ([] :: transfer_operation list)" by (simp add: dget_def)
    finally show ?thesis by (simp only: filter_keyed [OF dist that] append_Nil)
  qed
  have rd: "cell_int (zip ROUND_FIELDS (round_texts profile seed x)) ''execution_order'' = Inr (fst x) \<and>
      transfer_round_of_row d (zip ROUND_FIELDS (round_texts profile seed x)) = Inr (snd x)"
    if "x \<in> set ?e" for x
  proof -
    obtain n j where x: "x = (n, j)" by (cases x)
    then have m: "(n, j) \<in> set ?e" using that by simp
    then have "round_loadable j" using jin assms by blast
    from round_row_read [OF look [OF m] this] show ?thesis by (simp add: x)
  qed
  have k: "mapr (\<lambda>r. cell_int r ''execution_order'') (map (zip ROUND_FIELDS) ?rv) = Inr (map fst ?e)"
    unfolding mapr_comp by (rule mapr_map) (rule conjunct1 [OF rd])
  have srt: "sorted_res (\<lambda>r. cell_int r ''execution_order'') (map (zip ROUND_FIELDS) ?rv) =
      Inr (map (zip ROUND_FIELDS) ?rv)"
    by (rule sorted_res_sorted [OF k]) (simp add: enumerate_from_fst)
  have js: "mapr (transfer_round_of_row d) (map (zip ROUND_FIELDS) ?rv) = Inr (map snd ?e)"
    unfolding mapr_comp by (rule mapr_map) (rule conjunct2 [OF rd])
  show ?thesis
    by (simp add: transfer_manifest_def rows cc write_csv_def tt round_manifest_def rt
        load_transfer_rounds_def tr fold rr srt js enumerate_from_snd del: map_map)
qed

section \<open>Generated cases are accepted\<close>

lemma successively_dbl: "successively (\<lambda>a b. \<not> (a = us \<and> b = us)) (xs @ us # us # ys) \<Longrightarrow> False"
  by (simp add: successively_append_iff)

lemma slug_prefix_unique:
  assumes "slug_form a" "slug_form b" "a @ ''__'' @ x = b @ ''__'' @ y" "length a \<le> length b"
  shows "a = b \<and> x = y"
proof -
  obtain z where b: "b = a @ z" and z: "''__'' @ x = z @ ''__'' @ y"
    using assms(3,4) by (auto simp: append_eq_append_conv_if) (metis append_take_drop_id)
  show ?thesis
  proof (cases z)
    case Nil
    then show ?thesis using b z by simp
  next
    case (Cons c u)
    then have c: "c = us" using z by (simp add: us_def)
    show ?thesis
    proof (cases u)
      case Nil
      then have "last b = us" "b \<noteq> []" using b Cons c by simp_all
      then show ?thesis using assms(2) by (auto simp: slug_form_def)
    next
      case (Cons d v)
      then have "d = us" using z \<open>z = c # u\<close> by (auto simp: us_def)
      then have "b = a @ us # us # v" using b \<open>z = c # u\<close> Cons c by simp
      then show ?thesis using assms(2) successively_dbl by (auto simp: slug_form_def)
    qed
  qed
qed

lemma slug_case_id_inj:
  assumes "slug_form a" "slug_form b" "a @ ''__'' @ x = b @ ''__'' @ y"
  shows "a = b \<and> x = y"
proof (cases "length a \<le> length b")
  case True
  with assms show ?thesis by (rule slug_prefix_unique)
next
  case False
  then have "b = a \<and> y = x" using assms by (intro slug_prefix_unique) simp_all
  then show ?thesis by simp
qed

definition signature_of :: "pki_chain \<Rightarrow> signature" where
  "signature_of ch = (case dindex SIGNATURES_BY_NAME (chain_leaf ch) of Inr s \<Rightarrow> s | Inl e \<Rightarrow> hd SIGNATURES)"

definition all_chains :: "bool \<Rightarrow> pki_chain list" where
  "all_chains heavy = pki_chains @ (if heavy then HEAVY_HOMOGENEOUS_CHAINS else [])"

lemma all_chains_subset: "set (all_chains heavy) \<subseteq> set ALL_PKI_CHAINS"
  by (auto simp: all_chains_def ALL_PKI_CHAINS_def)

lemma distinct_all_chains: "distinct (map chain_id (all_chains heavy))"
  using distinct_chain_ids by (auto simp: all_chains_def ALL_PKI_CHAINS_def)

lemma chain_facts:
  assumes "ch \<in> set ALL_PKI_CHAINS"
  shows "dindex SIGNATURES_BY_NAME (chain_leaf ch) = Inr (signature_of ch)"
    "signature_of ch \<in> set SIGNATURES" "sig_name (signature_of ch) = chain_leaf ch"
    "dhas SIGNATURES_BY_NAME (chain_root ch)" "dhas SIGNATURES_BY_NAME (chain_leaf ch)"
    "chain_intermediate ch = chain_leaf ch"
proof -
  have ok: "chain_ok ch" using all_chains_ok assms by (simp add: list_all_iff)
  then show "dhas SIGNATURES_BY_NAME (chain_root ch)" "chain_intermediate ch = chain_leaf ch"
    and l: "dhas SIGNATURES_BY_NAME (chain_leaf ch)"
    by (simp_all add: chain_ok_def)
  then obtain s where m: "map_of SIGNATURES_BY_NAME (chain_leaf ch) = Some s"
    by (auto simp: dhas_def)
  then show d: "dindex SIGNATURES_BY_NAME (chain_leaf ch) = Inr (signature_of ch)"
    by (simp add: signature_of_def dindex_def)
  have "s = signature_of ch" using d m by (simp add: dindex_def)
  moreover have "(chain_leaf ch, s) \<in> set SIGNATURES_BY_NAME" using m by (rule map_of_SomeD)
  ultimately show "signature_of ch \<in> set SIGNATURES" "sig_name (signature_of ch) = chain_leaf ch"
    by (auto simp: signatures_by_name)
qed

lemma names_nonempty: "[] \<notin> set (map sig_name SIGNATURES)" "[] \<notin> set (map kem_name KEMS)"
  by code_simp+

lemma known_nonempty: "dhas SIGNATURES_BY_NAME n \<Longrightarrow> n \<noteq> []"
  using names_nonempty(1) by (auto simp: dhas_iff_key signatures_by_name image_iff)

lemma distinct_kem_slugs: "distinct (map (\<lambda>k. slug (kem_name k)) KEMS)"
  by code_simp

lemma chain_kinds: "list_all (\<lambda>c. chain_kind c \<noteq> [] \<and> chain_id c \<noteq> []) ALL_PKI_CHAINS"
  by (auto simp: ALL_PKI_CHAINS_def pki_chains_def HEAVY_HOMOGENEOUS_CHAINS_def list_all_iff
      homogeneous_chain_def heavy_root_chain_def case_prod_beta)

definition keep_case :: "bool \<Rightarrow> kem \<times> pki_chain \<Rightarrow> bool" where
  "keep_case separate kc \<longleftrightarrow> \<not> (separate \<and> kem_family (fst kc) \<noteq> sig_family (signature_of (snd kc)))"

definition case_of :: "int \<Rightarrow> int \<Rightarrow> kem \<times> pki_chain \<Rightarrow> srow" where
  "case_of n w kc = case_row n w (fst kc) (snd kc) (signature_of (snd kc))"

definition case_pairs :: "bool \<Rightarrow> bool \<Rightarrow> (kem \<times> pki_chain) list" where
  "case_pairs separate heavy = filter (keep_case separate) (List.product KEMS (all_chains heavy))"

lemma build_cases_eq:
  "build_cases n w separate heavy = Inr (map (case_of n w) (case_pairs separate heavy))"
proof -
  have chain: "cases_of_chain n w separate k ch =
      Inr (map (case_of n w) (filter (keep_case separate) [(k, ch)]))"
    if "ch \<in> set (all_chains heavy)" for k ch
  proof -
    have "ch \<in> set ALL_PKI_CHAINS" using that all_chains_subset by blast
    then show ?thesis
      by (auto simp: chain_facts(1) cases_of_chain_def case_of_def keep_case_def)
  qed
  have kem: "mapr (cases_of_chain n w separate k) (all_chains heavy) =
      Inr (map (\<lambda>ch. map (case_of n w) (filter (keep_case separate) [(k, ch)])) (all_chains heavy))" for k
    by (rule mapr_map) (rule chain)
  have flat: "concat (map (\<lambda>ch. map (case_of n w) (filter (keep_case separate) [(k, ch)])) cs) =
      map (case_of n w) (filter (keep_case separate) (map (Pair k) cs))" for k and cs :: "pki_chain list"
    by (induction cs) auto
  have "mapr (\<lambda>k. bindr (mapr (cases_of_chain n w separate k) (all_chains heavy)) (\<lambda>rs. Inr (concat rs))) KEMS =
      Inr (map (\<lambda>k. map (case_of n w) (filter (keep_case separate) (map (Pair k) (all_chains heavy)))) KEMS)"
    by (rule mapr_map) (simp only: kem bindr_simps flat)
  moreover have "concat (map (\<lambda>k. map (case_of n w) (filter (keep_case separate) (map (Pair k) cs))) ks) =
      map (case_of n w) (filter (keep_case separate) (List.product ks cs))" for ks and cs :: "pki_chain list"
    by (induction ks) simp_all
  ultimately show ?thesis
    by (simp add: build_cases_def Let_def case_pairs_def flip: all_chains_def)
qed

lemma keys_case_row: "map fst (case_of n w kc) = FIELDS"
  by (simp add: case_of_def case_row_def FIELDS_def)

lemma case_row_get:
  "map_of (case_of n w (k, ch)) ''case_id'' = Some (slug (kem_name k) @ ''__'' @ chain_id ch)"
  "map_of (case_of n w (k, ch)) ''enabled'' = Some ''1''"
  "map_of (case_of n w (k, ch)) ''pki_chain_id'' = Some (chain_id ch)"
  "map_of (case_of n w (k, ch)) ''pki_kind'' = Some (chain_kind ch)"
  "map_of (case_of n w (k, ch)) ''root_sig_alg'' = Some (chain_root ch)"
  "map_of (case_of n w (k, ch)) ''intermediate_sig_alg'' = Some (chain_intermediate ch)"
  "map_of (case_of n w (k, ch)) ''leaf_sig_alg'' = Some (chain_leaf ch)"
  "map_of (case_of n w (k, ch)) ''kex_group'' = Some (kem_name k)"
  "map_of (case_of n w (k, ch)) ''cert_sig_alg'' = Some (sig_name (signature_of ch))"
  "map_of (case_of n w (k, ch)) ''iterations'' = Some (str_int n)"
  "map_of (case_of n w (k, ch)) ''warmup_iterations'' = Some (str_int w)"
  by (simp_all add: case_of_def case_row_def)

lemma get_or_Some: "map_of r k = Some v \<Longrightarrow> v \<noteq> [] \<Longrightarrow> get_or r k d = Inr v"
  by (cases v) (simp_all add: get_or_def)

lemma normalize_case_row:
  assumes "ch \<in> set ALL_PKI_CHAINS"
  shows "normalize_case_pki (case_of n w (k, ch)) = Inr (case_of n w (k, ch))"
proof -
  let ?r = "case_of n w (k, ch)"
  note f = chain_facts [OF assms]
  have ne: "chain_leaf ch \<noteq> []" "chain_root ch \<noteq> []" "chain_kind ch \<noteq> []" "chain_id ch \<noteq> []"
    using f(4,5) known_nonempty chain_kinds assms by (auto simp: list_all_iff)
  have d: "distinct (map fst ?r)" by (simp add: keys_case_row distinct_fields)
  have g: "get_or ?r ''leaf_sig_alg'' e = Inr (chain_leaf ch)" "get_or ?r ''root_sig_alg'' e = Inr (chain_root ch)"
    "get_or ?r ''intermediate_sig_alg'' e = Inr (chain_leaf ch)" "get_or ?r ''pki_kind'' e = Inr (chain_kind ch)"
    "get_or ?r ''pki_chain_id'' e = Inr (chain_id ch)" for e
    using ne f(6) by (intro get_or_Some; simp add: case_row_get)+
  have s: "dset ''leaf_sig_alg'' (chain_leaf ch) ?r = ?r" "dset ''root_sig_alg'' (chain_root ch) ?r = ?r"
    "dset ''intermediate_sig_alg'' (chain_leaf ch) ?r = ?r" "dset ''pki_kind'' (chain_kind ch) ?r = ?r"
    "dset ''pki_chain_id'' (chain_id ch) ?r = ?r"
    using f(6) by (intro dset_id [OF _ d]; simp add: case_row_get)+
  have i: "dindex ?r ''case_id'' = Inr (slug (kem_name k) @ ''__'' @ chain_id ch)"
    "dindex ?r ''cert_sig_alg'' = Inr (chain_leaf ch)"
    by (simp_all add: dindex_def case_row_get f(3))
  show ?thesis
    by (simp add: normalize_case_pki_def g s i f(4,5) Let_def)
qed

lemma check_case_row:
  assumes "ch \<in> set ALL_PKI_CHAINS" "k \<in> set KEMS" "1 \<le> n" "0 \<le> w"
    and "slug (kem_name k) @ ''__'' @ chain_id ch \<notin> set seen"
  shows "check_case (seen, rows) (case_of n w (k, ch)) =
    Inr (seen @ [slug (kem_name k) @ ''__'' @ chain_id ch], rows @ [case_of n w (k, ch)])"
proof -
  let ?r = "case_of n w (k, ch)"
  have i: "dindex ?r ''case_id'' = Inr (slug (kem_name k) @ ''__'' @ chain_id ch)"
    "dindex ?r ''kex_group'' = Inr (kem_name k)" "dindex ?r ''cert_sig_alg'' = Inr (chain_leaf ch)"
    "dindex ?r ''iterations'' = Inr (str_int n)" "dindex ?r ''warmup_iterations'' = Inr (str_int w)"
    by (simp_all add: dindex_def case_row_get chain_facts(3) [OF assms(1)])
  have k: "dhas KEMS_BY_NAME (kem_name k)"
    using kem_lookup [OF assms(2)] by (auto simp: dhas_def dindex_def split: option.splits)
  show ?thesis
    using assms(3-5) k chain_facts(5) [OF assms(1)]
    by (simp add: check_case_def i normalize_case_row [OF assms(1)])
qed

definition pair_id :: "kem \<times> pki_chain \<Rightarrow> string" where
  "pair_id kc = slug (kem_name (fst kc)) @ ''__'' @ chain_id (snd kc)"

lemma inj_pair_id:
  assumes "kc \<in> set KEMS \<times> set ALL_PKI_CHAINS" "kd \<in> set KEMS \<times> set ALL_PKI_CHAINS" "pair_id kc = pair_id kd"
  shows "kc = kd"
proof -
  have "slug (kem_name (fst kc)) = slug (kem_name (fst kd)) \<and> chain_id (snd kc) = chain_id (snd kd)"
    using assms(3) by (intro slug_case_id_inj) (simp_all add: pair_id_def slug_form_slug)
  moreover have "inj_on (\<lambda>k. slug (kem_name k)) (set KEMS)" using distinct_kem_slugs by (simp add: distinct_map)
  moreover have "inj_on chain_id (set ALL_PKI_CHAINS)" using distinct_chain_ids by (simp add: distinct_map)
  ultimately show ?thesis using assms(1,2) by (auto simp: inj_on_def prod_eq_iff mem_Times_iff)
qed

lemma case_pairs_subset: "set (case_pairs separate heavy) \<subseteq> set KEMS \<times> set ALL_PKI_CHAINS"
  using all_chains_subset by (auto simp: case_pairs_def)

lemma distinct_case_pairs: "distinct (case_pairs separate heavy)"
  using distinct_kem_names distinct_all_chains [of heavy]
  by (simp add: case_pairs_def distinct_map distinct_product)

lemma check_cases:
  assumes "set kcs \<subseteq> set KEMS \<times> set ALL_PKI_CHAINS" "1 \<le> n" "0 \<le> w"
    and "distinct kcs" "pair_id ` set kcs \<inter> set seen = {}"
  shows "foldr_res check_case (seen, rows) (map (case_of n w) kcs) =
    Inr (seen @ map pair_id kcs, rows @ map (case_of n w) kcs)"
  using assms
proof (induction kcs arbitrary: seen rows)
  case (Cons kc kcs)
  obtain k ch where kc: "kc = (k, ch)" by (cases kc)
  have new: "pair_id kc \<notin> pair_id ` set kcs"
  proof
    assume "pair_id kc \<in> pair_id ` set kcs"
    then obtain kd where kd: "kd \<in> set kcs" "pair_id kc = pair_id kd" by blast
    have "kc = kd"
      by (rule inj_pair_id) (use Cons.prems(1) kd in auto)
    with kd Cons.prems(4) show False by simp
  qed
  have "check_case (seen, rows) (case_of n w kc) = Inr (seen @ [pair_id kc], rows @ [case_of n w kc])"
    unfolding kc pair_id_def fst_conv snd_conv
    by (rule check_case_row) (use Cons.prems in \<open>auto simp: kc pair_id_def\<close>)
  moreover have "foldr_res check_case (seen @ [pair_id kc], rows @ [case_of n w kc]) (map (case_of n w) kcs) =
      Inr ((seen @ [pair_id kc]) @ map pair_id kcs, (rows @ [case_of n w kc]) @ map (case_of n w) kcs)"
    by (rule Cons.IH) (use Cons.prems new in auto)
  ultimately show ?case by simp
qed simp

lemma enabled_case: "case_enabled (case_of n w kc)"
proof -
  have "py_lower ''1'' = ''1''" by code_simp
  then show ?thesis by (cases kc) (simp add: case_enabled_def dget_def case_row_get)
qed

lemma read_written_cases:
  assumes "set kcs \<subseteq> set KEMS \<times> set ALL_PKI_CHAINS" "distinct kcs" "kcs \<noteq> []" "1 \<le> n" "0 \<le> w"
  shows "bindr (dict_table False FIELDS (map text_row (map (case_of n w) kcs))) (\<lambda>t. read_cases (csv_text t)) =
    Inr (map (case_of n w) kcs)"
proof -
  let ?rows = "map (case_of n w) kcs"
  have f: "bindr (dict_table False FIELDS (map text_row ?rows)) (\<lambda>t. dict_reader (csv_text t)) =
      Inr (FIELDS, ?rows)"
    by (rule dict_file_roundtrip) (simp add: FIELDS_def, rule distinct_fields, auto simp: keys_case_row)
  then obtain t where t: "dict_table False FIELDS (map text_row ?rows) = Inr t"
    and r: "dict_reader (csv_text t) = Inr (FIELDS, ?rows)"
    by (auto simp: bindr_eq_Inr)
  have en: "filter case_enabled ?rows = ?rows" by (simp add: filter_id_conv enabled_case)
  show ?thesis
    using assms check_cases [OF assms(1,4,5,2), of "[]" "[]"]
    by (simp only: t bindr_simps) (simp add: read_cases_def r en filter_empty_conv del: filter_map)
qed

lemma case_pairs_nonempty: "case_pairs separate heavy \<noteq> []"
proof -
  have k: "hd KEMS \<in> set KEMS" by (simp add: KEMS_def)
  have c: "homogeneous_chain ''homogeneous'' ''ECDSA-P-256'' \<in> set (all_chains heavy)"
    by (simp add: all_chains_def pki_chains_def LIGHT_SIGNATURES_BY_LEVEL_def)
  have s: "dindex SIGNATURES_BY_NAME ''ECDSA-P-256'' = Inr (hd SIGNATURES)"
    using signature_lookup [of "hd SIGNATURES"] by (simp add: SIGNATURES_def mk_sig_def)
  have "keep_case separate (hd KEMS, homogeneous_chain ''homogeneous'' ''ECDSA-P-256'')"
    by (simp add: keep_case_def signature_of_def homogeneous_chain_def s) (simp add: KEMS_def mk_kem_def SIGNATURES_def mk_sig_def)
  then have "(hd KEMS, homogeneous_chain ''homogeneous'' ''ECDSA-P-256'') \<in> set (case_pairs separate heavy)"
    using k c by (simp add: case_pairs_def)
  then show ?thesis by auto
qed

section \<open>Properties\<close>

text \<open>
  C30: a generated case file is accepted by the runner and means what was generated: for at least
  one iteration and no negative number of warm-ups, whatever the options and the shuffle,
  \<open>generate_cases.py\<close> writes a file and \<open>read_cases\<close> returns exactly the generated rows, in
  the order of the file and unchanged by the normalisation.
\<close>

theorem generated_cases_accepted:
  assumes "1 \<le> n" and "0 \<le> w"
  shows "\<exists>text rows rows'. generate_case_file R n w separate heavy no_shuffle seed None path = Inr text \<and>
    build_cases n w separate heavy = Inr rows \<and> mset rows' = mset rows \<and> rows' \<noteq> [] \<and>
    read_cases text = Inr rows'"
proof -
  let ?kcs = "case_pairs separate heavy"
  let ?p = "if no_shuffle then ?kcs else seeded_shuffle R seed ?kcs"
  have p: "mset ?p = mset ?kcs" by simp
  then have ps: "set ?p = set ?kcs" by (rule mset_eq_setD)
  have rows: "(if no_shuffle then map (case_of n w) ?kcs else seeded_shuffle R seed (map (case_of n w) ?kcs)) =
      map (case_of n w) ?p" by (simp add: seeded_shuffle_map)
  have ok: "bindr (dict_table False FIELDS (map text_row (map (case_of n w) ?p))) (\<lambda>t. read_cases (csv_text t)) =
      Inr (map (case_of n w) ?p)"
  proof (rule read_written_cases)
    show "set ?p \<subseteq> set KEMS \<times> set ALL_PKI_CHAINS" using case_pairs_subset ps by metis
    show "distinct ?p" using distinct_case_pairs by simp
    show "?p \<noteq> []" using case_pairs_nonempty ps by (metis set_empty)
  qed (rule assms)+
  then obtain t where t: "dict_table False FIELDS (map text_row (map (case_of n w) ?p)) = Inr t"
    "read_cases (csv_text t) = Inr (map (case_of n w) ?p)" by (auto simp: bindr_eq_Inr)
  have "generate_case_file R n w separate heavy no_shuffle seed None path = Inr (csv_text t)"
    using assms t(1) by (simp only: generate_case_file_def build_cases_eq bindr_simps Let_def rows) simp
  moreover have "mset (map (case_of n w) ?p) = mset (map (case_of n w) ?kcs)" using p by (simp only: mset_map)
  moreover have "map (case_of n w) ?p \<noteq> []" using case_pairs_nonempty ps by (metis map_is_Nil_conv set_empty)
  ultimately show ?thesis using t(2) build_cases_eq by blast
qed

theorem generated_cases_accepted_witness:
  "\<exists>text rows'. generate_case_file demo_rng 5 1 False True False 7 None ''cases.csv'' = Inr text \<and>
    read_cases text = Inr rows' \<and> rows' \<noteq> []"
  using generated_cases_accepted [of 5 1 demo_rng False True False 7 "''cases.csv''"] by force

text \<open>
  C12: the session manifest is lossless: writing the jobs of a run and loading them again gives
  the same jobs in the same execution order, whatever the case ids and firmware profiles contain.
\<close>

theorem session_manifest_roundtrip:
  "bindr (session_manifest profile seed jobs) load_session_jobs = Inr jobs"
  by (rule session_manifest_load)

text \<open>
  So are the two manifests of a transfer campaign: whatever was planned by
  \<open>build_transfer_rounds\<close> is loaded again with the same rounds and the same operations.
\<close>

theorem transfer_manifest_roundtrip:
  assumes "build_transfer_rounds R cases seed = Inr rounds"
  shows "bindr (transfer_manifest rounds) (\<lambda>t. bindr (round_manifest profile seed rounds) (\<lambda>r.
    load_transfer_rounds t r)) = Inr rounds"
proof (rule transfer_manifests_load, rule ballI)
  fix j assume j: "j \<in> set rounds"
  obtain rs where rs: "mapr (transfer_round_of R seed) (enumerate_from 1 cases) = Inr rs"
    "rounds = seeded_shuffle R seed rs"
    using assms by (auto simp: build_transfer_rounds_def bindr_eq_Inr)
  then have "j \<in> set rs" using j by simp
  then obtain cid n where ops: "tr_operations j = operations_for_case R seed cid n"
    using mapr_mem [OF rs(1)] by (fastforce simp: transfer_round_of_def bindr_eq_Inr split: prod.splits)
  have "sorted (map op_order (tr_operations j))"
    unfolding ops by (simp add: operations_for_case_order)
  moreover have "0 \<le> op_payload_bytes p" if "p \<in> set (tr_operations j)" for p
  proof -
    have "set (map op_content (operations_for_case R seed cid n)) =
        set (map op_content (unordered_operations seed cid n))"
      by (rule mset_eq_setD) (rule operations_for_case_content)
    then have "op_content p \<in> set (map op_content (unordered_operations seed cid n))"
      using that by (auto simp: ops)
    then show ?thesis
      by (auto simp: unordered_operations_def unordered_operation_def op_content_def transfer_pairs_def
          PAYLOAD_SIZES_def)
  qed
  ultimately show "round_loadable j" by (simp add: round_loadable_def)
qed

lemma demo_rounds: "\<exists>rounds. build_transfer_rounds demo_rng demo_cases 5 = Inr rounds"
proof -
  have "py_int ''2'' = Inr 2" "py_int ''1'' = Inr 1" by code_simp+
  then show ?thesis
    by (simp add: build_transfer_rounds_def transfer_round_of_def demo_cases_def dindex_def)
qed

theorem transfer_manifest_roundtrip_witness:
  "\<exists>rounds. build_transfer_rounds demo_rng demo_cases 5 = Inr rounds \<and>
    bindr (transfer_manifest rounds) (\<lambda>t. bindr (round_manifest (\<lambda>_. ''universal'') 5 rounds) (\<lambda>r.
      load_transfer_rounds t r)) = Inr rounds"
  using demo_rounds transfer_manifest_roundtrip by blast

end
