(* ===== verification/Firmware_Profiles.thy ===== *)
theory Firmware_Profiles
  imports Scheduler
begin

text \<open>
  The trust-bundle planning of \<open>run_benchmarks.py\<close>: when the image with all root certificates
  leaves less than 32 KiB of flash, the roots are packed into several firmware profiles, first fit
  in decreasing size, and the jobs are grouped so that each profile is flashed once.  Building an
  image and reading its flash usage is a parameter of the model.
\<close>

section \<open>Packing the roots\<close>

type_synonym profile = "int \<times> string list"

fun place_root :: "int \<Rightarrow> string \<Rightarrow> int \<Rightarrow> profile list \<Rightarrow> profile list res" where
  "place_root capacity rt sz [] =
     (if capacity < sz
      then Inl (RuntimeError (''root '' @ rt @ '' ('' @ str_int sz @ '' bytes) exceeds profile capacity '' @
             str_int capacity))
      else Inr [(sz, [rt])])"
| "place_root capacity rt sz ((used, members) # profiles) =
     (if used + sz \<le> capacity then Inr ((used + sz, members @ [rt]) # profiles)
      else bindr (place_root capacity rt sz profiles) (\<lambda>ps. Inr ((used, members) # ps)))"

definition largest_first :: "(string, int) dict \<Rightarrow> (string, int) dict" where
  "largest_first root_sizes = sort_key (\<lambda>(rt, sz). (- sz, rt)) root_sizes"

definition pack_root_profiles :: "(string, int) dict \<Rightarrow> int \<Rightarrow> string list list res" where
  "pack_root_profiles root_sizes capacity =
     bindr (foldr_res (\<lambda>profiles (rt, sz). place_root capacity rt sz profiles) []
        (largest_first root_sizes)) (\<lambda>profiles.
     Inr (map snd profiles))"

section \<open>Choosing the profiles of a run\<close>

text \<open>
  The parameter \<open>usage\<close> builds the image of a profile with the given roots and returns the used
  and available flash.
\<close>

definition FLASH_MARGIN :: int where
  "FLASH_MARGIN = 32 * 1024"

fun smallest_root :: "(string, int) dict \<Rightarrow> (string \<times> int) res" where
  "smallest_root [] = Inl (ValueError ''min() arg is an empty sequence'')"
| "smallest_root [x] = Inr x"
| "smallest_root (x # y # xs) = bindr (smallest_root (y # xs)) (\<lambda>z.
     Inr (if snd x \<le> snd z then x else z))"

fun number_profiles :: "int \<Rightarrow> string list list \<Rightarrow> (string, string list) dict" where
  "number_profiles n [] = []"
| "number_profiles n (g # gs) = (''profile-'' @ dec_pad 2 n, g) # number_profiles (n + 1) gs"

definition plan_profiles ::
  "(string \<Rightarrow> string list \<Rightarrow> (int \<times> int) res) \<Rightarrow> (string, int) dict \<Rightarrow>
   (string, string list) dict res" where
  "plan_profiles usage root_sizes =
     (let all_roots = map fst root_sizes;
          split = bindr (smallest_root root_sizes) (\<lambda>(probe_root, probe_size).
            bindr (usage ''profile-probe'' [probe_root]) (\<lambda>(probe_used, capacity).
            let base_used = probe_used - probe_size;
                root_capacity = capacity - base_used - FLASH_MARGIN in
            bindr (pack_root_profiles root_sizes root_capacity) (\<lambda>packed.
              Inr (number_profiles 1 packed))))
      in case usage ''universal'' all_roots of
           Inr (used, capacity) \<Rightarrow>
             (if FLASH_MARGIN \<le> capacity - used then Inr [(''universal'', all_roots)] else split)
         | Inl (CalledProcessError c) \<Rightarrow> split
         | Inl (ValueError m) \<Rightarrow> split
         | Inl e \<Rightarrow> Inl e)"

definition root_to_profile :: "(string, string list) dict \<Rightarrow> (string, string) dict" where
  "root_to_profile profile_roots =
     dict_of (concat (map (\<lambda>(profile, roots). map (\<lambda>rt. (rt, profile)) roots) profile_roots))"

definition assign_profile :: "(string, string list) dict \<Rightarrow> srow \<Rightarrow> srow res" where
  "assign_profile profile_roots c =
     bindr (dindex c ''root_sig_alg'') (\<lambda>rt.
     bindr (dindex (root_to_profile profile_roots) rt) (\<lambda>p. Inr (dset ''firmware_profile'' p c)))"

section \<open>Grouping the jobs\<close>

definition job_profile :: "('j \<Rightarrow> string) \<Rightarrow> (string, srow) dict \<Rightarrow> 'j \<Rightarrow> string res" where
  "job_profile cid cases j = bindr (dindex cases (cid j)) (\<lambda>c. dindex c ''firmware_profile'')"

fun shuffle_groups ::
  "'g rng \<Rightarrow> 'g \<Rightarrow> (string, 'j list) dict \<Rightarrow> string list \<Rightarrow> 'j list" where
  "shuffle_groups R g grouped [] = []"
| "shuffle_groups R g grouped (p # ps) =
     (let (block, g') = shuffle_with R g (dget grouped p []) in block @ shuffle_groups R g' grouped ps)"

definition group_jobs_by_firmware_profile ::
  "'g rng \<Rightarrow> ('j \<Rightarrow> string) \<Rightarrow> 'j list \<Rightarrow> (string, srow) dict \<Rightarrow> int \<Rightarrow> 'j list res" where
  "group_jobs_by_firmware_profile R cid jobs cases seed =
     bindr (foldr_res (\<lambda>d j. bindr (job_profile cid cases j) (\<lambda>p. Inr (dappend p j d))) [] jobs) (\<lambda>grouped.
     if length grouped = 1 then Inr jobs
     else let (profile_names, g) = shuffle_with R (rng_seed R seed) (sort (map fst grouped))
          in Inr (shuffle_groups R g grouped profile_names))"

section \<open>First fit\<close>

definition total_size :: "(string, int) dict \<Rightarrow> string list \<Rightarrow> int" where
  "total_size sizes members = sum_list (map (\<lambda>r. dget sizes r 0) members)"

definition packing_ok :: "int \<Rightarrow> (string, int) dict \<Rightarrow> profile list \<Rightarrow> bool" where
  "packing_ok capacity sizes ps \<longleftrightarrow>
     list_all (\<lambda>(used, ms). used = total_size sizes ms \<and> used \<le> capacity \<and> ms \<noteq> []) ps \<and>
     sorted_wrt (\<lambda>p q. list_all (\<lambda>r. capacity < fst p + dget sizes r 0) (snd q)) ps"

lemma place_root_mset:
  "place_root capacity rt sz ps = Inr qs \<Longrightarrow>
   mset (concat (map snd qs)) = add_mset rt (mset (concat (map snd ps)))"
  by (induction ps arbitrary: qs) (auto simp: bindr_eq_Inr split: if_splits)

lemma total_snoc: "total_size sizes (ms @ [r]) = total_size sizes ms + dget sizes r 0"
  by (simp add: total_size_def)

lemma place_root_nonneg:
  "place_root capacity rt sz ps = Inr qs \<Longrightarrow> list_all (\<lambda>p. 0 \<le> fst p) ps \<Longrightarrow> 0 \<le> sz \<Longrightarrow>
   list_all (\<lambda>p. 0 \<le> fst p) qs"
  by (induction ps arbitrary: qs) (auto simp: bindr_eq_Inr split: if_splits)

lemma place_root_members:
  "place_root capacity rt sz ps = Inr qs \<Longrightarrow> q \<in> set qs \<Longrightarrow> r \<in> set (snd q) \<Longrightarrow>
   r = rt \<or> (\<exists>p\<in>set ps. r \<in> set (snd p))"
  by (induction ps arbitrary: qs) (fastforce simp: bindr_eq_Inr split: if_splits)+

lemma place_root_ok:
  assumes "packing_ok capacity sizes ps" "place_root capacity rt sz ps = Inr qs"
    and "0 \<le> sz" "dget sizes rt 0 = sz"
  shows "packing_ok capacity sizes qs"
  using assms
proof (induction ps arbitrary: qs)
  case Nil
  then show ?case by (auto simp: packing_ok_def total_size_def split: if_splits)
next
  case (Cons p ps)
  obtain used ms where p: "p = (used, ms)" by (cases p)
  show ?case
  proof (cases "used + sz \<le> capacity")
    case True
    then have qs: "qs = (used + sz, ms @ [rt]) # ps" using Cons.prems(2) by (simp add: p)
    have "capacity < used + sz + dget sizes r 0" if "q \<in> set ps" "r \<in> set (snd q)" for q r
      using Cons.prems(1,3) that by (fastforce simp: packing_ok_def p list_all_iff)
    then show ?thesis
      using Cons.prems(1,4) True unfolding qs
      by (auto simp: packing_ok_def p total_snoc list_all_iff)
  next
    case False
    then obtain rs where rs: "place_root capacity rt sz ps = Inr rs" "qs = (used, ms) # rs"
      using Cons.prems(2) by (auto simp: p bindr_eq_Inr)
    have ok: "packing_ok capacity sizes ps" using Cons.prems(1) by (simp add: packing_ok_def)
    have "capacity < used + dget sizes r 0" if "q \<in> set rs" "r \<in> set (snd q)" for q r
      using place_root_members [OF rs(1) that] Cons.prems(1,4) False
      by (auto simp: packing_ok_def p list_all_iff)
    with Cons.IH [OF ok rs(1) Cons.prems(3,4)] Cons.prems(1) show ?thesis
      unfolding rs(2) by (auto simp: packing_ok_def p list_all_iff)
  qed
qed

lemma place_root_fails:
  assumes "place_root capacity rt sz ps = Inl e"
  shows "capacity < sz"
  using assms by (induction ps) (auto simp: bindr_eq_Inl split: if_splits)

lemma place_root_too_large:
  assumes "capacity < sz" "list_all (\<lambda>p. 0 \<le> fst p) ps"
  shows "\<exists>e. place_root capacity rt sz ps = Inl e"
  using assms by (induction ps) (auto simp: split: if_splits)

lemma fold_place_ok:
  assumes "foldr_res (\<lambda>ps (rt, sz). place_root capacity rt sz ps) ps0 items = Inr ps"
    and "packing_ok capacity sizes ps0" "\<forall>(rt, sz)\<in>set items. 0 \<le> sz \<and> dget sizes rt 0 = sz"
  shows "packing_ok capacity sizes ps \<and>
    mset (concat (map snd ps)) = mset (concat (map snd ps0)) + mset (map fst items)"
  using assms
proof (induction items arbitrary: ps0)
  case (Cons x xs)
  obtain rt sz where x: "x = (rt, sz)" by (cases x)
  from Cons.prems obtain ps1 where p1: "place_root capacity rt sz ps0 = Inr ps1"
    and r: "foldr_res (\<lambda>ps (rt, sz). place_root capacity rt sz ps) ps1 xs = Inr ps"
    by (auto simp: x bindr_eq_Inr)
  have "packing_ok capacity sizes ps1"
    by (rule place_root_ok [OF Cons.prems(2) p1]) (use Cons.prems(3) in \<open>auto simp: x\<close>)
  from Cons.IH [OF r this] Cons.prems(3) place_root_mset [OF p1] show ?case by (simp add: x)
qed simp

lemma packed_total:
  "packing_ok capacity sizes ps \<Longrightarrow> (used, ms) \<in> set ps \<Longrightarrow> used = total_size sizes ms \<and> used \<le> capacity"
  by (fastforce simp: packing_ok_def list_all_iff)

lemma largest_first_facts:
  "mset (largest_first d) = mset d" "set (largest_first d) = set d"
  by (simp_all add: largest_first_def)

lemma sizes_lookup:
  assumes "distinct (map fst d)" "(rt, sz) \<in> set d"
  shows "dget d rt 0 = sz"
  using assms by (simp add: dget_def)

lemma pack_root_profiles_facts:
  assumes p: "pack_root_profiles sizes capacity = Inr groups"
    and d: "distinct (map fst sizes)" and nn: "\<forall>(rt, sz)\<in>set sizes. 0 \<le> sz"
  shows "mset (concat groups) = mset (map fst sizes)"
    "list_all (\<lambda>g. total_size sizes g \<le> capacity \<and> g \<noteq> []) groups"
    "sorted_wrt (\<lambda>g h. list_all (\<lambda>r. capacity < total_size sizes g + dget sizes r 0) h) groups"
proof -
  from p obtain ps where f: "foldr_res (\<lambda>ps (rt, sz). place_root capacity rt sz ps) [] (largest_first sizes) = Inr ps"
    and g: "groups = map snd ps"
    by (auto simp: pack_root_profiles_def bindr_eq_Inr)
  have items: "\<forall>(rt, sz)\<in>set (largest_first sizes). 0 \<le> sz \<and> dget sizes rt 0 = sz"
    using nn sizes_lookup [OF d] by (auto simp: largest_first_facts)
  have ok: "packing_ok capacity sizes ps"
    and ms: "mset (concat (map snd ps)) = mset (map fst (largest_first sizes))"
    using fold_place_ok [OF f _ items] by (simp_all add: packing_ok_def)
  show "mset (concat groups) = mset (map fst sizes)"
    using ms by (simp add: g largest_first_facts)
  show "list_all (\<lambda>g. total_size sizes g \<le> capacity \<and> g \<noteq> []) groups"
    using ok by (auto simp: packing_ok_def g list_all_iff)
  have t: "fst p = total_size sizes (snd p)" if "p \<in> set ps" for p
    using packed_total [OF ok, of "fst p" "snd p"] that by simp
  have w: "sorted_wrt (\<lambda>p q. list_all (\<lambda>r. capacity < fst p + dget sizes r 0) (snd q)) ps"
    using ok by (simp add: packing_ok_def)
  have "sorted_wrt (\<lambda>p q. list_all (\<lambda>r. capacity < total_size sizes (snd p) + dget sizes r 0) (snd q)) ps"
    by (rule sorted_wrt_mono_rel [OF _ w]) (simp only: t)
  then show "sorted_wrt (\<lambda>g h. list_all (\<lambda>r. capacity < total_size sizes g + dget sizes r 0) h) groups"
    by (simp only: g sorted_wrt_map)
qed

lemma pack_fails_iff:
  assumes nn: "\<forall>(rt, sz)\<in>set sizes. 0 \<le> sz"
  shows "(\<exists>groups. pack_root_profiles sizes capacity = Inr groups) \<longleftrightarrow> (\<forall>(rt, sz)\<in>set sizes. sz \<le> capacity)"
proof -
  have fold: "(\<exists>ps. foldr_res (\<lambda>ps (rt, sz). place_root capacity rt sz ps) ps0 items = Inr ps) \<longleftrightarrow>
      (\<forall>(rt, sz)\<in>set items. sz \<le> capacity)"
    if "\<forall>(rt, sz)\<in>set items. 0 \<le> sz" "list_all (\<lambda>p. 0 \<le> fst p) ps0" for items ps0
    using that
  proof (induction items arbitrary: ps0)
    case (Cons x xs)
    obtain rt sz where x: "x = (rt, sz)" by (cases x)
    show ?case
    proof (cases "sz \<le> capacity")
      case True
      then obtain ps1 where p1: "place_root capacity rt sz ps0 = Inr ps1"
        using place_root_fails [of capacity rt sz ps0] by (cases "place_root capacity rt sz ps0") simp_all
      have "list_all (\<lambda>p. 0 \<le> fst p) ps1"
        by (rule place_root_nonneg [OF p1]) (use Cons.prems in \<open>simp_all add: x\<close>)
      then show ?thesis using Cons.IH [of ps1] Cons.prems True by (simp add: x p1)
    next
      case False
      then show ?thesis using place_root_too_large [of capacity sz ps0 rt] Cons.prems by (auto simp: x)
    qed
  qed simp
  have "\<forall>(rt, sz)\<in>set (largest_first sizes). 0 \<le> sz" using nn by (simp add: largest_first_facts)
  from fold [OF this, of "[]"] show ?thesis
    by (auto simp: pack_root_profiles_def bindr_eq_Inr largest_first_facts)
qed

section \<open>Grouping\<close>

lemma fold_group:
  assumes "foldr_res (\<lambda>d j. bindr (f j) (\<lambda>p. Inr (dappend p j d))) [] jobs = Inr d"
  shows "\<exists>g. (\<forall>j\<in>set jobs. f j = Inr (g j)) \<and> d = group_by g jobs"
proof -
  define g where "g j = (case f j of Inr p \<Rightarrow> p | Inl e \<Rightarrow> undefined)" for j
  have "(\<forall>j\<in>set js. f j = Inr (g j)) \<and> d' = fold (\<lambda>j. dappend (g j) j) js d0"
    if "foldr_res (\<lambda>d j. bindr (f j) (\<lambda>p. Inr (dappend p j d))) d0 js = Inr d'" for js d0 d'
    using that
  proof (induction js arbitrary: d0)
    case (Cons j js)
    then obtain p where "f j = Inr p"
      "foldr_res (\<lambda>d j. bindr (f j) (\<lambda>p. Inr (dappend p j d))) (dappend p j d0) js = Inr d'"
      by (auto simp: bindr_eq_Inr)
    with Cons.IH show ?case by (simp add: g_def)
  qed simp
  from this [OF assms] show ?thesis by (auto simp: group_by_def)
qed

lemma shuffle_groups_blocks:
  "\<exists>bs. shuffle_groups R g grouped ps = concat bs \<and>
     list_all2 (\<lambda>p b. mset b = mset (dget grouped p [])) ps bs"
proof (induction ps arbitrary: g)
  case (Cons p ps)
  obtain b g' where b: "shuffle_with R g (dget grouped p []) = (b, g')" by fastforce
  have m: "mset b = mset (dget grouped p [])"
    using mset_shuffle_with [of R g "dget grouped p []"] by (simp add: b)
  obtain bs where "shuffle_groups R g' grouped ps = concat bs"
    "list_all2 (\<lambda>p b. mset b = mset (dget grouped p [])) ps bs" using Cons by blast
  then show ?case using b m by (intro exI [of _ "b # bs"]) simp
qed simp

lemma group_jobs_blocks:
  assumes "group_jobs_by_firmware_profile R cid jobs cases seed = Inr ordered"
  shows "\<exists>g names bs. (\<forall>j\<in>set jobs. job_profile cid cases j = Inr (g j)) \<and> distinct names \<and>
    set names = g ` set jobs \<and> ordered = concat bs \<and>
    list_all2 (\<lambda>p b. mset b = mset (filter (\<lambda>j. g j = p) jobs)) names bs"
proof -
  from assms obtain d where d: "foldr_res (\<lambda>d j. bindr (job_profile cid cases j) (\<lambda>p. Inr (dappend p j d))) [] jobs = Inr d"
    and o: "(if length d = 1 then Inr jobs
     else let (profile_names, g) = shuffle_with R (rng_seed R seed) (sort (map fst d))
          in Inr (shuffle_groups R g d profile_names)) = (Inr ordered :: _ res)"
    by (cases "foldr_res (\<lambda>d j. bindr (job_profile cid cases j) (\<lambda>p. Inr (dappend p j d))) [] jobs")
      (simp_all add: group_jobs_by_firmware_profile_def)
  from fold_group [OF d] obtain g where g: "\<forall>j\<in>set jobs. job_profile cid cases j = Inr (g j)"
    and dg: "d = group_by g jobs" by blast
  have look: "dget d p [] = filter (\<lambda>j. g j = p) jobs" for p
    by (simp add: dget_def dg map_of_group_by Let_def split: option.splits)
  show ?thesis
  proof (cases "length d = 1")
    case True
    then obtain p b where pb: "d = [(p, b)]" by (auto simp: length_Suc_conv)
    have "set (map fst d) = g ` set jobs" unfolding dg by (rule group_by_keys)
    then have gs: "g ` set jobs = {p}" by (simp add: pb)
    then have "filter (\<lambda>j. g j = p) jobs = jobs" by (auto simp: filter_id_conv)
    then have "mset (filter (\<lambda>j. g j = p) jobs) = mset jobs" by (rule arg_cong)
    moreover have "ordered = jobs" using o True by simp
    ultimately show ?thesis using g gs
      by (intro exI [of _ g] exI [of _ "[p]"] exI [of _ "[jobs]"]) (simp del: mset_filter)
  next
    case False
    obtain names h where n: "shuffle_with R (rng_seed R seed) (sort (map fst d)) = (names, h)" by fastforce
    have mn: "mset names = mset (map fst d)"
      using mset_shuffle_with [of R "rng_seed R seed" "sort (map fst d)"] by (simp add: n)
    have dn: "distinct names"
      using mset_eq_imp_distinct_iff [OF mn] group_by_distinct [of g jobs] by (simp add: dg)
    have sn: "set names = g ` set jobs"
      using mset_eq_setD [OF mn] group_by_keys [of g jobs] by (simp add: dg)
    have "ordered = shuffle_groups R h d names" using o False by (simp add: n)
    moreover obtain bs where "shuffle_groups R h d names = concat bs"
      "list_all2 (\<lambda>p b. mset b = mset (dget d p [])) names bs"
      using shuffle_groups_blocks [of R h d names] by (elim exE conjE)
    ultimately show ?thesis using g dn sn
      by (intro exI [of _ g] exI [of _ names] exI [of _ bs]) (simp add: look del: mset_filter)
  qed
qed

lemma blocks_permute:
  assumes "list_all2 (\<lambda>p b. mset b = mset (filter (\<lambda>j. g j = p) jobs)) names bs"
    "distinct names" "set names = g ` set jobs"
  shows "mset (concat bs) = mset jobs"
proof -
  have "mset (concat bs) = mset (concat (map (\<lambda>p. filter (\<lambda>j. g j = p) jobs) names))"
    using assms(1) by (induction names bs rule: list_all2_induct) simp_all
  also have "\<dots> = mset jobs" by (rule mset_concat_partition) (use assms in auto)
  finally show ?thesis .
qed

section \<open>Properties\<close>

text \<open>
  C11: packing is a capacity-respecting first-fit partition: for distinct roots of non-negative
  size it fails exactly when some root alone exceeds the capacity; otherwise every root is in
  exactly one profile, no profile is empty or exceeds the capacity, and no root would have fitted
  into an earlier profile.
\<close>

theorem pack_root_profiles_correct:
  assumes "distinct (map fst sizes)" and "\<forall>(rt, sz)\<in>set sizes. 0 \<le> sz"
  shows "((\<exists>groups. pack_root_profiles sizes capacity = Inr groups) \<longleftrightarrow>
      (\<forall>(rt, sz)\<in>set sizes. sz \<le> capacity)) \<and>
    (\<forall>groups. pack_root_profiles sizes capacity = Inr groups \<longrightarrow>
      mset (concat groups) = mset (map fst sizes) \<and>
      list_all (\<lambda>g. total_size sizes g \<le> capacity \<and> g \<noteq> []) groups \<and>
      sorted_wrt (\<lambda>g h. list_all (\<lambda>r. capacity < total_size sizes g + dget sizes r 0) h) groups)"
  using pack_fails_iff [OF assms(2)] pack_root_profiles_facts [OF _ assms] by blast

theorem pack_root_profiles_correct_witness:
  "\<exists>groups. pack_root_profiles [(''a'', 5), (''b'', 7), (''c'', 4)] 10 = Inr groups \<and>
    mset (concat groups) = {#''a'', ''b'', ''c''#}"
  using pack_root_profiles_correct [of "[(''a'', 5), (''b'', 7), (''c'', 4)]" 10] by auto

text \<open>
  The split respects the flash margin: when the universal image does not fit and the plan
  falls back to packed profiles, every root of the run is in exactly one profile, and the
  predicted use of every profile (the probe image without its root, plus the roots of the profile)
  leaves 32 KiB of the flash free.
\<close>

theorem plan_profiles_margin:
  assumes "usage ''universal'' (map fst sizes) = Inr (used, flash)" and "flash - used < 32 * 1024"
    and "smallest_root sizes = Inr (probe, probe_size)"
    and "usage ''profile-probe'' [probe] = Inr (probe_used, capacity)"
    and "distinct (map fst sizes)" and "\<forall>(rt, sz)\<in>set sizes. 0 \<le> sz"
    and "plan_profiles usage sizes = Inr profiles"
  shows "mset (concat (map snd profiles)) = mset (map fst sizes) \<and>
    (\<forall>p\<in>set profiles. (probe_used - probe_size) + total_size sizes (snd p) + 32 * 1024 \<le> capacity)"
proof -
  from assms(1-4,7) obtain groups where
    g: "pack_root_profiles sizes (capacity - (probe_used - probe_size) - FLASH_MARGIN) = Inr groups"
    and p: "profiles = number_profiles 1 groups"
    by (auto simp: plan_profiles_def Let_def FLASH_MARGIN_def bindr_eq_Inr)
  have snd: "map snd (number_profiles n gs) = gs" for n gs by (induction gs arbitrary: n) simp_all
  note f = pack_root_profiles_facts [OF g assms(5,6)]
  have "(probe_used - probe_size) + total_size sizes (snd q) + 32 * 1024 \<le> capacity" if "q \<in> set profiles" for q
  proof -
    have "snd q \<in> set groups" using that snd [of 1 groups] unfolding p by (metis image_eqI list.set_map)
    then show ?thesis using f(2) by (fastforce simp: list_all_iff FLASH_MARGIN_def)
  qed
  then show ?thesis using f(1) by (simp add: p snd)
qed

definition demo_usage :: "string \<Rightarrow> string list \<Rightarrow> (int \<times> int) res" where
  "demo_usage name roots = Inr (if name = ''universal'' then (100000, 110000) else (60005, 110000))"

lemma demo_plan: "\<exists>profiles. plan_profiles demo_usage [(''a'', 9000), (''b'', 10000)] = Inr profiles"
proof -
  have "(case plan_profiles demo_usage [(''a'', 9000), (''b'', 10000)] of Inl e \<Rightarrow> False | Inr p \<Rightarrow> True)"
    by code_simp
  then show ?thesis by (auto split: sum.splits)
qed

theorem plan_profiles_margin_witness:
  "\<exists>profiles. plan_profiles demo_usage [(''a'', 9000), (''b'', 10000)] = Inr profiles \<and>
    (\<forall>p\<in>set profiles. 51005 + total_size [(''a'', 9000), (''b'', 10000)] (snd p) + 32 * 1024 \<le> 110000)"
proof -
  obtain profiles where p: "plan_profiles demo_usage [(''a'', 9000), (''b'', 10000)] = Inr profiles"
    using demo_plan by blast
  from plan_profiles_margin [of demo_usage "[(''a'', 9000), (''b'', 10000)]" 100000 110000 "''a''" 9000 60005 110000,
      OF _ _ _ _ _ _ p]
  have "\<forall>q\<in>set profiles. 60005 - 9000 + total_size [(''a'', 9000), (''b'', 10000)] (snd q) + 32 * 1024 \<le> 110000"
    by (simp add: demo_usage_def)
  then show ?thesis using p by auto
qed

text \<open>
  Grouping by firmware profile loses no job and flashes each profile once: the grouped
  schedule is a permutation of the jobs and a concatenation of one block per profile, each block
  a permutation of the jobs of its profile.
\<close>

theorem group_jobs_contiguous:
  assumes "group_jobs_by_firmware_profile R cid jobs cases seed = Inr ordered"
  shows "mset ordered = mset jobs \<and>
    (\<exists>g names bs. (\<forall>j\<in>set jobs. job_profile cid cases j = Inr (g j)) \<and> distinct names \<and>
      set names = g ` set jobs \<and> ordered = concat bs \<and>
      list_all2 (\<lambda>p b. mset b = mset (filter (\<lambda>j. g j = p) jobs)) names bs)"
proof -
  obtain g names bs where f: "\<forall>j\<in>set jobs. job_profile cid cases j = Inr (g j)" "distinct names"
      "set names = g ` set jobs" "ordered = concat bs"
      "list_all2 (\<lambda>p b. mset b = mset (filter (\<lambda>j. g j = p) jobs)) names bs"
    using group_jobs_blocks [OF assms] by blast
  have "mset ordered = mset jobs" unfolding f(4) by (rule blocks_permute [OF f(5,2,3)])
  with f show ?thesis by blast
qed

definition demo_group_jobs :: "session_job list" where
  "demo_group_jobs = map (\<lambda>(n, c). \<lparr>sj_sequence = n, sj_case_id = c, sj_session = 1,
     sj_attempt_in_session = 1, sj_warmup = 0, sj_measured_index = 1\<rparr>)
     [(1, ''a''), (2, ''b''), (3, ''a'')]"

definition demo_group_cases :: "(string, srow) dict" where
  "demo_group_cases = [(''a'', [(''firmware_profile'', ''p1'')]), (''b'', [(''firmware_profile'', ''p2'')])]"

theorem group_jobs_contiguous_witness:
  "\<exists>ordered. group_jobs_by_firmware_profile demo_rng sj_case_id demo_group_jobs demo_group_cases 3 = Inr ordered \<and>
     mset ordered = mset demo_group_jobs"
proof -
  have "(case group_jobs_by_firmware_profile demo_rng sj_case_id demo_group_jobs demo_group_cases 3 of
      Inl e \<Rightarrow> False | Inr p \<Rightarrow> True)" by code_simp
  then obtain ordered where
    o: "group_jobs_by_firmware_profile demo_rng sj_case_id demo_group_jobs demo_group_cases 3 = Inr ordered"
    by (auto split: sum.splits)
  with group_jobs_contiguous [OF o] show ?thesis by blast
qed

end
