(* ===== verification/Py_Host.thy ===== *)
theory Py_Host
  imports Py_State Py_Sha256 Py_Float
begin

text \<open>
  The services of the operating system that the runners use: the monotonic clock,
  sub-processes, text files and the serial port.  They are no code of the repository and
  stay a parameter: a record of computations over an arbitrary world type.  Loops that
  poll the clock take a fuel, the number of rounds they may make; running out of fuel is
  the exception \<open>OutsideModel\<close>, which no handler of the model catches.
\<close>

section \<open>The host\<close>

text \<open>
  A sub-process is given its arguments, a working directory and an environment, and gives
  its return code and the text that is captured: its standard output, with the error
  stream merged in when the run is logged.  \<open>h_environ\<close> reads the environment of the process,
  \<open>h_archive\<close> packs a directory in a temporary file, \<open>h_exc_text\<close> is \<open>str(error)\<close>.
\<close>

datatype capture = Merged | StdoutOnly

record 'w host =
  h_monotonic :: "('w, rat) io"
  h_sleep :: "rat \<Rightarrow> ('w, unit) io"
  h_run :: "capture \<Rightarrow> string list \<Rightarrow> string option \<Rightarrow> (string, string) dict option \<Rightarrow> ('w, int \<times> string) io"
  h_exists :: "string \<Rightarrow> ('w, bool) io"
  h_is_file :: "string \<Rightarrow> ('w, bool) io"
  h_is_dir :: "string \<Rightarrow> ('w, bool) io"
  h_archive :: "string \<Rightarrow> ('w, string) io"
  h_size :: "string \<Rightarrow> ('w, int) io"
  h_read :: "string \<Rightarrow> ('w, string) io"
  h_read_bytes :: "string \<Rightarrow> ('w, byte list) io"
  h_write :: "string \<Rightarrow> string \<Rightarrow> ('w, unit) io"
  h_append :: "string \<Rightarrow> string \<Rightarrow> ('w, unit) io"
  h_unlink :: "string \<Rightarrow> ('w, unit) io"
  h_rename :: "string \<Rightarrow> string \<Rightarrow> ('w, unit) io"
  h_mkdir :: "string \<Rightarrow> ('w, unit) io"
  h_readline :: "('w, byte list) io"
  h_reset_input :: "('w, unit) io"
  h_now :: "('w, string) io"
  h_environ :: "('w, (string, string) dict) io"
  h_exc_text :: "pyexc \<Rightarrow> string"

section \<open>Handlers\<close>

text \<open>\<open>except Exception\<close>: everything but \<open>SystemExit\<close>, an interrupt and the end of the model.\<close>

fun is_exception :: "pyexc \<Rightarrow> bool" where
  "is_exception (SystemExit _) = False"
| "is_exception KeyboardInterrupt = False"
| "is_exception (OutsideModel _) = False"
| "is_exception _ = True"

fun is_os_error :: "pyexc \<Rightarrow> bool" where
  "is_os_error (OSError _) = True"
| "is_os_error (FileNotFoundError _) = True"
| "is_os_error (FileExistsError _) = True"
| "is_os_error (ConnectionError _) = True"
| "is_os_error TimeoutError = True"
| "is_os_error _ = False"

fun is_value_error :: "pyexc \<Rightarrow> bool" where
  "is_value_error (ValueError _) = True"
| "is_value_error UnicodeDecodeError = True"
| "is_value_error _ = False"

fun is_called_process_error :: "pyexc \<Rightarrow> bool" where
  "is_called_process_error (CalledProcessError _) = True"
| "is_called_process_error _ = False"

fun is_runtime_error :: "pyexc \<Rightarrow> bool" where
  "is_runtime_error (RuntimeError _) = True"
| "is_runtime_error _ = False"

definition catchm :: "('s, 'a) io \<Rightarrow> (pyexc \<Rightarrow> bool) \<Rightarrow> (pyexc \<Rightarrow> ('s, 'a) io) \<Rightarrow> ('s, 'a) io" where
  "catchm m P h s = (case m s of (Inl e, t) \<Rightarrow> (if P e then h e t else (Inl e, t))
     | (Inr x, t) \<Rightarrow> (Inr x, t))"

definition tryr :: "'a res \<Rightarrow> (pyexc \<Rightarrow> bool) \<Rightarrow> (pyexc \<Rightarrow> 'a res) \<Rightarrow> 'a res" where
  "tryr m P h = (case m of Inl e \<Rightarrow> if P e then h e else Inl e | Inr x \<Rightarrow> Inr x)"

fun mapm :: "('a \<Rightarrow> ('s, 'b) io) \<Rightarrow> 'a list \<Rightarrow> ('s, 'b list) io" where
  "mapm f [] = retm []"
| "mapm f (x # xs) = bindm (f x) (\<lambda>y. bindm (mapm f xs) (\<lambda>ys. retm (y # ys)))"

fun foldm :: "('b \<Rightarrow> 'a \<Rightarrow> ('s, 'b) io) \<Rightarrow> 'b \<Rightarrow> 'a list \<Rightarrow> ('s, 'b) io" where
  "foldm f b [] = retm b"
| "foldm f b (x # xs) = bindm (f b x) (\<lambda>b'. foldm f b' xs)"

definition seqm :: "('s, 'a) io \<Rightarrow> ('s, 'b) io \<Rightarrow> ('s, 'b) io" where
  "seqm m n = bindm m (\<lambda>_. n)"

lemma keeps_seqm [keeps_intros]: "keeps P m \<Longrightarrow> keeps P n \<Longrightarrow> keeps P (seqm m n)"
  unfolding seqm_def by (intro keeps_intros)

lemma keeps_foldm [keeps_intros]: "(\<And>b a. keeps P (f b a)) \<Longrightarrow> keeps P (foldm f b xs)"
  by (induction xs arbitrary: b) (auto intro!: keeps_intros)

lemma keeps_mapm [keeps_intros]: "(\<And>a. keeps P (f a)) \<Longrightarrow> keeps P (mapm f xs)"
  by (induction xs) (auto intro!: keeps_intros)

definition out_of_fuel :: pyexc where
  "out_of_fuel = OutsideModel ''out of fuel''"

lemma out_of_fuel_uncaught [simp]:
  "\<not> is_exception out_of_fuel" "\<not> is_os_error out_of_fuel" "\<not> is_value_error out_of_fuel"
  by (simp_all add: out_of_fuel_def)

lemma bindm_retm [simp]: "bindm (retm x) f = f x"
  by (rule ext) (simp add: bindm_def retm_def)

lemma bindm_raisem [simp]: "bindm (raisem e) f = raisem e"
  by (rule ext) (simp add: bindm_def raisem_def)

lemma bindm_liftm_Inr [simp]: "bindm (liftm (Inr x)) f = f x"
  by (rule ext) (simp add: bindm_def liftm_def)

lemma bindm_liftm_Inl [simp]: "bindm (liftm (Inl e)) f = raisem e"
  by (rule ext) (simp add: bindm_def liftm_def raisem_def)

lemma bindm_ok: "m s = (Inr x, t) \<Longrightarrow> bindm m f s = f x t"
  by (simp add: bindm_def)

lemma bindm_err: "m s = (Inl e, t) \<Longrightarrow> bindm m f s = (Inl e, t)"
  by (simp add: bindm_def)

lemma bindm_okE:
  assumes "bindm m f s = (Inr r, t)"
  obtains x u where "m s = (Inr x, u)" "f x u = (Inr r, t)"
  using assms by (auto simp: bindm_def split: sum.splits prod.splits)

lemma seqm_okE:
  assumes "seqm m n s = (Inr r, t)"
  obtains x u where "m s = (Inr x, u)" "n u = (Inr r, t)"
  using assms by (auto simp: seqm_def elim: bindm_okE)

lemma retm_ok [simp]: "retm x s = (Inr r, t) \<longleftrightarrow> r = x \<and> t = s"
  by (auto simp: retm_def)

lemma raisem_ok [simp]: "raisem e s \<noteq> (Inr r, t)" "raisem e s = (Inl e', t) \<longleftrightarrow> e' = e \<and> t = s"
  by (auto simp: raisem_def)

lemma getm_ok [simp]: "getm f s = (Inr r, t) \<longleftrightarrow> r = f s \<and> t = s"
  by (auto simp: getm_def)

lemma modifym_ok [simp]: "modifym f s = (Inr r, t) \<longleftrightarrow> t = f s"
  by (auto simp: modifym_def)

lemma liftm_ok [simp]: "liftm v s = (Inr r, t) \<longleftrightarrow> v = Inr r \<and> t = s"
  by (auto simp: liftm_def)

lemma bindm_errE:
  assumes "bindm m f s = (Inl e, t)"
  obtains "m s = (Inl e, t)" | x u where "m s = (Inr x, u)" "f x u = (Inl e, t)"
  using assms by (auto simp: bindm_def split: sum.splits prod.splits)

lemma seqm_errE:
  assumes "seqm m n s = (Inl e, t)"
  obtains "m s = (Inl e, t)" | x u where "m s = (Inr x, u)" "n u = (Inl e, t)"
  using assms by (auto simp: seqm_def elim: bindm_errE)

lemma getm_err [simp]: "getm f s \<noteq> (Inl e, t)" "modifym g s \<noteq> (Inl e, t)" "retm x s \<noteq> (Inl e, t)"
  by (simp_all add: getm_def modifym_def retm_def)

lemma catchm_ok: "m s = (Inr x, t) \<Longrightarrow> catchm m P h s = (Inr x, t)"
  by (simp add: catchm_def)

lemma catchm_err: "m s = (Inl e, t) \<Longrightarrow> catchm m P h s = (if P e then h e t else (Inl e, t))"
  by (simp add: catchm_def)

section \<open>Polling\<close>

text \<open>
  A loop that polls: one round either goes on with a new value (\<open>Inl\<close>) or ends with a
  result (\<open>Inr\<close>).  The loop ends when every round that goes on starts before a deadline and
  moves the clock forward, and what every last round establishes holds at the end.
\<close>

fun poll :: "('a \<Rightarrow> ('s, 'a + 'r) io) \<Rightarrow> nat \<Rightarrow> 'a \<Rightarrow> ('s, 'r) io" where
  "poll body 0 a = raisem out_of_fuel"
| "poll body (Suc fuel) a = bindm (body a) (\<lambda>x. case x of Inl a' \<Rightarrow> poll body fuel a' | Inr r \<Rightarrow> retm r)"

definition round_advances ::
  "('s \<Rightarrow> rat) \<Rightarrow> rat \<Rightarrow> rat \<Rightarrow> ('a \<Rightarrow> ('s, 'a + 'r) io) \<Rightarrow> bool" where
  "round_advances clk deadline \<delta> body \<longleftrightarrow> 0 < \<delta> \<and> (\<forall>a s. case body a s of
       (Inl e, t) \<Rightarrow> e \<noteq> out_of_fuel
     | (Inr (Inl a'), t) \<Rightarrow> clk s < deadline \<and> clk s + \<delta> \<le> clk t
     | (Inr (Inr r), t) \<Rightarrow> True)"

lemma round_advancesD:
  assumes "round_advances clk deadline \<delta> body"
  shows "0 < \<delta>" and "body a s = (Inl e, t) \<Longrightarrow> e \<noteq> out_of_fuel"
    and "body a s = (Inr (Inl a'), t) \<Longrightarrow> clk s < deadline \<and> clk s + \<delta> \<le> clk t"
  using assms unfolding round_advances_def by (auto dest!: spec [of _ a] spec [of _ s])

lemma poll_returns:
  assumes body: "round_advances clk deadline \<delta> body"
    and fuel: "deadline \<le> clk s + of_nat fuel * \<delta>"
  shows "fst (poll body (Suc fuel) a s) \<noteq> Inl out_of_fuel"
  using fuel
proof (induction fuel arbitrary: a s)
  case 0
  then show ?case
    using round_advancesD [OF body]
    by (fastforce simp: bindm_def retm_def split: sum.splits prod.splits)
next
  case (Suc fuel)
  obtain x t where xt: "body a s = (x, t)" by (cases "body a s")
  consider e where "x = Inl e" | r where "x = Inr (Inr r)" | a' where "x = Inr (Inl a')"
    by (cases x) (auto, metis sum.exhaust)
  then show ?case
  proof cases
    case 3
    then have "deadline \<le> clk t + of_nat fuel * \<delta>"
      using round_advancesD(3) [OF body] xt Suc.prems by (fastforce simp: algebra_simps)
    then show ?thesis
      using Suc.IH xt 3 by (simp add: bindm_def)
  qed (use xt round_advancesD(2) [OF body] in \<open>auto simp: bindm_def retm_def\<close>)
qed

lemma poll_result:
  assumes "\<And>a s r t. body a s = (Inr (Inr r), t) \<Longrightarrow> P r t"
    and "poll body fuel a s = (Inr r, t)"
  shows "P r t"
  using assms(2)
  by (induction fuel arbitrary: a s) (auto split: sum.splits elim!: bindm_okE dest: assms(1))

section \<open>A part of the state\<close>

text \<open>A computation over the world runs inside a larger state that holds the world.\<close>

definition zoom :: "('s \<Rightarrow> 'w) \<Rightarrow> ('w \<Rightarrow> 's \<Rightarrow> 's) \<Rightarrow> ('w, 'a) io \<Rightarrow> ('s, 'a) io" where
  "zoom get put m s = (case m (get s) of (r, w) \<Rightarrow> (r, put w s))"

section \<open>Calm computations\<close>

text \<open>
  The clock of a host advances by at least \<open>\<delta>\<close> with every reading; a calm computation does not
  turn it back and does not run out of fuel.
\<close>

definition clock_advances :: "'w host \<Rightarrow> ('w \<Rightarrow> rat) \<Rightarrow> rat \<Rightarrow> bool" where
  "clock_advances H clk \<delta> \<longleftrightarrow> 0 < \<delta> \<and>
     (\<forall>w. \<exists>w'. h_monotonic H w = (Inr (clk w), w') \<and> clk w + \<delta> \<le> clk w')"

definition calm :: "('w \<Rightarrow> rat) \<Rightarrow> ('w, 'a) io \<Rightarrow> bool" where
  "calm clk m \<longleftrightarrow> (\<forall>w. clk w \<le> clk (snd (m w)) \<and> fst (m w) \<noteq> Inl out_of_fuel)"

lemma calm_retm [simp]: "calm clk (retm x)"
  by (simp add: calm_def retm_def)

lemma calm_raisem [simp]: "calm clk (raisem e) \<longleftrightarrow> e \<noteq> out_of_fuel"
  by (auto simp: calm_def raisem_def)

lemma calm_liftm [simp]: "calm clk (liftm r) \<longleftrightarrow> r \<noteq> Inl out_of_fuel"
  by (simp add: calm_def liftm_def)

lemma calm_bindm:
  assumes "calm clk m" "\<And>x. calm clk (f x)"
  shows "calm clk (bindm m f)"
  unfolding calm_def
proof
  fix w
  obtain r u where m: "m w = (r, u)" by (cases "m w") auto
  then have u: "clk w \<le> clk u" "r \<noteq> Inl out_of_fuel" using assms(1) by (auto simp: calm_def dest: spec [of _ w])
  show "clk w \<le> clk (snd (bindm m f w)) \<and> fst (bindm m f w) \<noteq> Inl out_of_fuel"
  proof (cases r)
    case (Inl e)
    with m u show ?thesis by (simp add: bindm_def)
  next
    case (Inr x)
    with m u assms(2) [of x] show ?thesis
      by (auto simp: bindm_def calm_def dest: spec [of _ u] intro: order_trans)
  qed
qed

lemma calm_seqm: "calm clk m \<Longrightarrow> calm clk n \<Longrightarrow> calm clk (seqm m n)"
  by (simp add: seqm_def calm_bindm)

lemma calm_monotonic: "clock_advances H clk \<delta> \<Longrightarrow> calm clk (h_monotonic H)"
  unfolding clock_advances_def calm_def
proof safe
  fix w assume "0 < \<delta>" "\<forall>w. \<exists>w'. h_monotonic H w = (Inr (clk w), w') \<and> clk w + \<delta> \<le> clk w'"
  then obtain w' where "h_monotonic H w = (Inr (clk w), w')" "clk w + \<delta> \<le> clk w'" "0 < \<delta>" by blast
  then show "clk w \<le> clk (snd (h_monotonic H w))" by simp
next
  fix w assume "\<forall>w. \<exists>w'. h_monotonic H w = (Inr (clk w), w') \<and> clk w + \<delta> \<le> clk w'"
    and *: "fst (h_monotonic H w) = Inl out_of_fuel"
  then obtain w' where "h_monotonic H w = (Inr (clk w), w')" by blast
  with * show False by simp
qed

section \<open>JSON text\<close>

lemma mapr_cong [fundef_cong]:
  "xs = ys \<Longrightarrow> (\<And>x. x \<in> set ys \<Longrightarrow> f x = g x) \<Longrightarrow> mapr f xs = mapr g ys"
  by (induction ys arbitrary: xs) auto

definition json_char :: "char \<Rightarrow> string" where
  "json_char c = (let n = ccode c; bs = CHR 0x5C in
     if c = CHR 0x22 \<or> c = bs then [bs, c]
     else if n = 10 then [bs, CHR ''n''] else if n = 13 then [bs, CHR ''r'']
     else if n = 9 then [bs, CHR ''t''] else if n = 8 then [bs, CHR ''b'']
     else if n = 12 then [bs, CHR ''f'']
     else if n < 32 \<or> 126 < n then bs # CHR ''u'' # hex_pad 4 n else [c])"

definition json_string :: "string \<Rightarrow> string" where
  "json_string s = CHR 0x22 # concat (map json_char s) @ [CHR 0x22]"

fun json_text :: "pyval \<Rightarrow> string res" where
  "json_text PNone = Inr ''null''"
| "json_text (PBool b) = Inr (if b then ''true'' else ''false'')"
| "json_text (PInt i) = Inr (str_int i)"
| "json_text (PStr s) = Inr (json_string s)"
| "json_text (PFloat x) = Inl (OutsideModel ''text of a float'')"
| "json_text (PList xs) = bindr (mapr json_text xs) (\<lambda>ts. Inr (''['' @ join '', '' ts @ '']''))"
| "json_text (PDict d) = bindr (mapr (\<lambda>kv. bindr (json_text (snd kv)) (\<lambda>t.
     Inr (json_string (fst kv) @ '': '' @ t))) d) (\<lambda>ts. Inr (''{'' @ join '', '' ts @ ''}''))"

section \<open>Paths\<close>

definition path_join :: "string \<Rightarrow> string \<Rightarrow> string" where
  "path_join a b = a @ ''/'' @ b"

definition path_parent :: "string \<Rightarrow> string" where
  "path_parent s = (if CHR ''/'' \<notin> set s then ''.''
     else let d = rev (tl (dropWhile (\<lambda>c. c \<noteq> CHR ''/'') (rev s))) in if d = [] then ''/'' else d)"

definition path_name :: "string \<Rightarrow> string" where
  "path_name s = rev (takeWhile (\<lambda>c. c \<noteq> CHR ''/'') (rev s))"

section \<open>Logged commands\<close>

text \<open>
  The pattern the drivers share: append the command to a log, run it with its output going
  to the log, and give the return code.
\<close>

definition run_to_log ::
  "'w host \<Rightarrow> string \<Rightarrow> string \<Rightarrow> string list \<Rightarrow> string option \<Rightarrow> (string, string) dict option \<Rightarrow> ('w, int) io" where
  "run_to_log H logf header command cwd env =
     seqm (h_mkdir H (path_parent logf))
     (seqm (h_append H logf header)
     (bindm (h_run H Merged command cwd env) (\<lambda>(rc, text).
      seqm (h_append H logf text) (retm rc))))"

section \<open>The format specifier g\<close>

definition dec_exponent :: "rat \<Rightarrow> int" where
  "dec_exponent x = (if 1 \<le> x then int (length (pos_digits \<lfloor>x\<rfloor>)) - 1
     else - int (length (pos_digits (\<lceil>1 / x\<rceil> - 1))))"

definition strip_zeros :: "string \<Rightarrow> string" where
  "strip_zeros s = rev (dropWhile (\<lambda>c. c = CHR ''0'') (rev s))"

definition fmt_g :: "rat \<Rightarrow> string" where
  "fmt_g x = (if x = 0 then ''0'' else
     let e0 = dec_exponent \<bar>x\<bar>;
         n0 = rhe (\<bar>x\<bar> * pow10 (5 - e0));
         (n, e) = (if n0 = 10 ^ 6 then (10 ^ 5, e0 + 1) else (n0, e0));
         ds = str_pos n;
         point = (\<lambda>a b. let b' = strip_zeros b in if b' = [] then a else a @ ''.'' @ b')
     in (if x < 0 then ''-'' else []) @
        (if e < - 4 \<or> 6 \<le> e
         then point (take 1 ds) (drop 1 ds) @ ''e'' @ (if e < 0 then ''-'' else ''+'') @ dec_pad 2 \<bar>e\<bar>
         else if 0 \<le> e then point (take (nat e + 1) ds) (drop (nat e + 1) ds)
         else point ''0'' (replicate (nat (- e) - 1) CHR ''0'' @ ds)))"

section \<open>Shell words\<close>

definition shell_safe :: "char \<Rightarrow> bool" where
  "shell_safe c \<longleftrightarrow> is_lower_az c \<or> is_upper_az c \<or> is_digit c \<or> c \<in> set ''_@%+=:,./-''"

definition shlex_quote :: "string \<Rightarrow> string" where
  "shlex_quote s = (let q = CHR 0x27; d = CHR 0x22 in
     if s = [] then [q, q]
     else if list_all shell_safe s then s
     else [q] @ concat (map (\<lambda>c. if c = q then [q, d, q, d, q] else [c]) s) @ [q])"

section \<open>A scripted host\<close>

text \<open>
  A host for concrete runs: the clock moves by one with every reading, serial lines and
  command results are taken from lists, files are a dictionary, and commands are recorded.
\<close>

record script =
  sc_clock :: rat
  sc_serial :: "byte list list"
  sc_runs :: "(int \<times> string) list"
  sc_files :: "(string, string) dict"
  sc_commands :: "string list list"

definition script_run :: "string list \<Rightarrow> (script, int \<times> string) io" where
  "script_run cmd s = (let s' = s\<lparr>sc_commands := sc_commands s @ [cmd]\<rparr> in case sc_runs s of
       [] \<Rightarrow> (Inr (0, []), s') | r # rs \<Rightarrow> (Inr r, s'\<lparr>sc_runs := rs\<rparr>))"

definition script_read :: "string \<Rightarrow> (script, string) io" where
  "script_read p s = (case map_of (sc_files s) p of None \<Rightarrow> (Inl (FileNotFoundError p), s)
     | Some t \<Rightarrow> (Inr t, s))"

definition script_readline :: "(script, byte list) io" where
  "script_readline s = (case sc_serial s of [] \<Rightarrow> (Inr [], s)
     | l # ls \<Rightarrow> (Inr l, s\<lparr>sc_serial := ls\<rparr>))"

definition script_put :: "string \<Rightarrow> string \<Rightarrow> (script, unit) io" where
  "script_put p t = modifym (\<lambda>s. s\<lparr>sc_files := dset p t (sc_files s)\<rparr>)"

definition script_add :: "string \<Rightarrow> string \<Rightarrow> (script, unit) io" where
  "script_add p t = modifym (\<lambda>s. s\<lparr>sc_files := dset p (dget (sc_files s) p [] @ t) (sc_files s)\<rparr>)"

definition script_host :: "script host" where
  "script_host = \<lparr>
     h_monotonic = (\<lambda>s. (Inr (sc_clock s), s\<lparr>sc_clock := sc_clock s + 1\<rparr>)),
     h_sleep = (\<lambda>d. modifym (\<lambda>s. s\<lparr>sc_clock := sc_clock s + d\<rparr>)),
     h_run = (\<lambda>c cmd cwd env. script_run cmd),
     h_exists = (\<lambda>p. getm (\<lambda>s. dhas (sc_files s) p)),
     h_is_file = (\<lambda>p. getm (\<lambda>s. dhas (sc_files s) p)),
     h_is_dir = (\<lambda>p. retm False),
     h_archive = (\<lambda>p. retm p),
     h_size = (\<lambda>p. bindm (script_read p) (\<lambda>t. retm (int (length t)))),
     h_read = script_read,
     h_read_bytes = (\<lambda>p. bindm (script_read p) (\<lambda>t. retm (encode_str t))),
     h_write = script_put,
     h_append = script_add,
     h_unlink = (\<lambda>p. modifym (\<lambda>s. s\<lparr>sc_files := filter (\<lambda>kv. fst kv \<noteq> p) (sc_files s)\<rparr>)),
     h_rename = (\<lambda>p q. bindm (script_read p) (\<lambda>t. script_put q t)),
     h_mkdir = (\<lambda>p. retm ()),
     h_readline = script_readline,
     h_reset_input = retm (),
     h_now = retm ''2025-01-01'',
     h_environ = retm [],
     h_exc_text = exc_name\<rparr>"

definition script_start :: "byte list list \<Rightarrow> (int \<times> string) list \<Rightarrow> (string, string) dict \<Rightarrow> script" where
  "script_start serial runs files = \<lparr>sc_clock = 0, sc_serial = serial, sc_runs = runs,
     sc_files = files, sc_commands = []\<rparr>"

lemma script_clock: "clock_advances script_host sc_clock 1"
  by (simp add: clock_advances_def script_host_def)

section \<open>Reading shell words\<close>

text \<open>
  How a POSIX shell splits text that holds no expansion: single quotes keep everything, double
  quotes are read here only around plain text, blanks separate words; any other special
  character leaves the fragment.
\<close>

fun sh_plain :: "string option \<Rightarrow> string \<Rightarrow> string list option"
  and sh_single :: "string \<Rightarrow> string \<Rightarrow> string list option"
  and sh_double :: "string \<Rightarrow> string \<Rightarrow> string list option" where
  "sh_plain w [] = Some (case w of None \<Rightarrow> [] | Some v \<Rightarrow> [v])"
| "sh_plain w (c # s) =
     (let v = (case w of None \<Rightarrow> [] | Some v \<Rightarrow> v) in
      if c = CHR 0x27 then sh_single v s
      else if c = CHR 0x22 then sh_double v s
      else if c = CHR '' '' then map_option (\<lambda>ws. (case w of None \<Rightarrow> [] | Some v \<Rightarrow> [v]) @ ws) (sh_plain None s)
      else if shell_safe c then sh_plain (Some (v @ [c])) s
      else None)"
| "sh_single v [] = None"
| "sh_single v (c # s) = (if c = CHR 0x27 then sh_plain (Some v) s else sh_single (v @ [c]) s)"
| "sh_double v [] = None"
| "sh_double v (c # s) =
     (if c = CHR 0x22 then sh_plain (Some v) s
      else if c \<in> {CHR ''$'', CHR ''`'', CHR 0x5C} then None else sh_double (v @ [c]) s)"

definition sh_words :: "string \<Rightarrow> string list option" where
  "sh_words s = sh_plain None s"

abbreviation quoted_char :: "char \<Rightarrow> string" where
  "quoted_char c \<equiv> (if c = CHR 0x27 then [CHR 0x27, CHR 0x22, CHR 0x27, CHR 0x22, CHR 0x27] else [c])"

lemma sh_single_quoted:
  "sh_single v (concat (map quoted_char s) @ CHR 0x27 # t) = sh_plain (Some (v @ s)) t"
proof (induction s arbitrary: v)
  case (Cons c s)
  then show ?case using Cons.IH [of "v @ [c]"] by (cases "c = CHR 0x27") simp_all
qed simp

lemma shell_safe_plain:
  "shell_safe c \<Longrightarrow> c \<noteq> CHR 0x27 \<and> c \<noteq> CHR 0x22 \<and> c \<noteq> CHR '' ''"
  by (auto simp: shell_safe_def is_lower_az_def is_upper_az_def is_digit_def ccode_def Let_def)

lemma sh_plain_safe:
  "list_all shell_safe s \<Longrightarrow> s \<noteq> [] \<or> w \<noteq> None \<Longrightarrow>
   sh_plain w (s @ t) = sh_plain (Some ((case w of None \<Rightarrow> [] | Some v \<Rightarrow> v) @ s)) t"
proof (induction s arbitrary: w)
  case (Cons c s)
  then show ?case
    using shell_safe_plain [of c] Cons.IH [of "Some ((case w of None \<Rightarrow> [] | Some v \<Rightarrow> v) @ [c])"]
    by (simp split: option.splits)
qed (auto split: option.splits)

lemma sh_plain_quote:
  "sh_plain None (shlex_quote s @ t) = sh_plain (Some s) t"
proof -
  consider "s = []" | "s \<noteq> []" "list_all shell_safe s" | "s \<noteq> []" "\<not> list_all shell_safe s" by blast
  then show ?thesis
  proof cases
    case 2
    then show ?thesis using sh_plain_safe [of s None t] by (simp add: shlex_quote_def)
  next
    case 3
    then show ?thesis using sh_single_quoted [of "[]" s t] by (simp add: shlex_quote_def Let_def)
  qed (simp add: shlex_quote_def Let_def)
qed

end
