(* ===== verification/Pi_Gateway.thy ===== *)
theory Pi_Gateway
  imports Py_Host Metrics Py_Csv
begin

text \<open>
  The driver of the Raspberry Pi (\<open>benchmarklib/gateway.py\<close>).  Every operation is a
  command, run locally (ssh, rsync) or over ssh in a login shell of the Pi; the text of each
  command is the one the source composes.  \<open>ble_addr\<close> is the one attribute that changes:
  \<open>start_session\<close> stores the address that a later \<open>stop_session\<close> disconnects.
\<close>

abbreviation sq :: string where
  "sq \<equiv> [CHR 0x27]"

abbreviation bsl :: string where
  "bsl \<equiv> [CHR 0x5C]"

abbreviation dq :: string where
  "dq \<equiv> [CHR 0x22]"

section \<open>The station\<close>

text \<open>
  The state of a run: the world, the address stored in the gateway, and the list of
  observations that the wait loops fill for their caller.
\<close>

record 'w station =
  st_world :: 'w
  st_ble_addr :: string
  st_observations :: "(string \<times> srow) list"

definition hostm :: "('w, 'a) io \<Rightarrow> ('w station, 'a) io" where
  "hostm = zoom st_world (\<lambda>w s. s\<lparr>st_world := w\<rparr>)"

record gateway =
  gw_host :: string
  gw_workdir :: string
  gw_ssh_key :: string
  gw_pid :: int

definition control_path :: "gateway \<Rightarrow> string" where
  "control_path g = ''/tmp/peripheral-bench-ssh-'' @ str_int (gw_pid g)"

definition ssh_base :: "gateway \<Rightarrow> string list" where
  "ssh_base g = [''ssh'', ''-o'', ''BatchMode=yes'', ''-o'', ''ConnectTimeout=10'',
     ''-o'', ''ControlMaster=auto'', ''-o'', ''ControlPersist=10m'',
     ''-o'', ''ControlPath='' @ control_path g] @
     (if gw_ssh_key g \<noteq> [] then [''-i'', gw_ssh_key g] else [])"

section \<open>Commands\<close>

definition last_chars :: "nat \<Rightarrow> string \<Rightarrow> string" where
  "last_chars n s = drop (length s - n) s"

definition local_command :: "'w host \<Rightarrow> string list \<Rightarrow> string \<Rightarrow> ('w, unit) io" where
  \<open>local_command H cmd logf =
     bindm (run_to_log H logf (''$ '' @ (join '' '' cmd) @ newline) cmd None None) (\<lambda>rc.
     if rc = 0 then retm ()
     else bindm (h_read H logf) (\<lambda>text.
       let detail = py_strip text;
           detail' = (if 2000 < length detail then last_chars 2000 detail else detail)
       in raisem (RuntimeError (''local command failed with exit '' @ (str_int rc) @ '': '' @ (join '' '' cmd) @ newline @
      detail'))))\<close>

definition remote_args :: "gateway \<Rightarrow> string \<Rightarrow> string list" where
  "remote_args g script = ssh_base g @ [gw_host g, ''bash -lc '' @ shlex_quote script]"

definition remote_command :: "'w host \<Rightarrow> gateway \<Rightarrow> string \<Rightarrow> string \<Rightarrow> bool \<Rightarrow> ('w, int) io" where
  \<open>remote_command H g script logf check =
     bindm (run_to_log H logf (''$ remote: '' @ script @ newline) (remote_args g script) None None) (\<lambda>rc.
     if check \<and> rc \<noteq> 0 then raisem (CalledProcessError rc) else retm rc)\<close>

fun start_master_from :: "'w host \<Rightarrow> gateway \<Rightarrow> string \<Rightarrow> rat \<Rightarrow> nat \<Rightarrow> nat \<Rightarrow> nat \<Rightarrow> ('w, unit) io" where
  \<open>start_master_from H g logf retry_delay attempts attempt 0 = retm ()\<close>
| \<open>start_master_from H g logf retry_delay attempts attempt (Suc left) =
     catchm (local_command H (ssh_base g @ [''-MNf'', gw_host g]) logf) is_runtime_error (\<lambda>e.
       seqm (h_unlink H (control_path g))
       (if attempt = attempts then raisem e
        else seqm (h_append H logf
               (''[ssh] master connection attempt '' @ (str_nat attempt) @ ''/'' @ (str_nat attempts) @
      '' failed; retrying in '' @ (fmt_g retry_delay) @ ''s'' @ newline))
             (seqm (h_sleep H retry_delay)
              (start_master_from H g logf retry_delay attempts (attempt + 1) left))))\<close>

definition start_master :: "'w host \<Rightarrow> gateway \<Rightarrow> string \<Rightarrow> nat \<Rightarrow> rat \<Rightarrow> ('w, unit) io" where
  "start_master H g logf attempts retry_delay =
     start_master_from H g logf retry_delay attempts 1 attempts"

definition stop_master :: "'w host \<Rightarrow> gateway \<Rightarrow> ('w, unit) io" where
  "stop_master H g =
     bindm (h_run H StdoutOnly (ssh_base g @ [''-O'', ''exit'', gw_host g]) None None) (\<lambda>_. retm ())"

definition set_wifi_enabled :: "'w host \<Rightarrow> gateway \<Rightarrow> bool \<Rightarrow> string \<Rightarrow> ('w, unit) io" where
  \<open>set_wifi_enabled H g enabled logf =
     (let state = (if enabled then ''on'' else ''off'');
          link_state = (if enabled then ''up'' else ''down'')
      in seqm (remote_command H g
           (''sudo -n nmcli radio wifi '' @ state @ '' >/dev/null 2>&1 || sudo -n ip link set wlan0 '' @
      link_state @ '' >/dev/null 2>&1 || true'') logf False) (retm ()))\<close>

section \<open>Queries\<close>

definition remote_output :: "'w host \<Rightarrow> gateway \<Rightarrow> string \<Rightarrow> ('w, int \<times> string) io" where
  "remote_output H g script = h_run H StdoutOnly (remote_args g script) None None"

definition first_line :: "string \<Rightarrow> string res" where
  "first_line text = (case splitlines (py_strip text) of [] \<Rightarrow> Inl IndexError | l # ls \<Rightarrow> Inr l)"

definition remote_file_contains :: "'w host \<Rightarrow> gateway \<Rightarrow> string \<Rightarrow> string list \<Rightarrow> ('w, string) io" where
  \<open>remote_file_contains H g path patterns =
     (if patterns = [] then retm []
      else let regex = join ''|'' patterns;
               script = (''test -f '' @ (shlex_quote path) @ '' && grep -Eim1 -- '' @ (shlex_quote regex) @ '' '' @
      (shlex_quote path))
           in bindm (remote_output H g script) (\<lambda>(rc, text).
              if rc = 0 then liftm (first_line text) else retm []))\<close>

definition remote_gateway_log :: "gateway \<Rightarrow> string \<Rightarrow> string" where
  "remote_gateway_log g case_id = gw_workdir g @ ''/logs/'' @ case_id @ ''.gateway.log''"

definition remote_benchmark_result :: "'w host \<Rightarrow> gateway \<Rightarrow> string \<Rightarrow> ('w, string) io" where
  \<open>remote_benchmark_result H g case_id =
     (let path = remote_gateway_log g case_id;
          script = (''test -f '' @ (shlex_quote path) @ '' && grep '' @ sq @ ''^'' @ bsl @ ''[BENCH_RESULT'' @
      bsl @ '']'' @ sq @ '' '' @ (shlex_quote path) @ '' | tail -n 1'')
      in bindm (remote_output H g script) (\<lambda>(rc, text).
         retm (if rc = 0 then py_strip text else [])))\<close>

definition BRIDGE_FAILURES :: "string list" where
  "BRIDGE_FAILURES = [''L2CAP send failed'', ''L2CAP receive failed'',
     ''TCP send failed'', ''TCP receive failed'']"

definition remote_bridge_failure :: "'w host \<Rightarrow> gateway \<Rightarrow> string \<Rightarrow> ('w, string) io" where
  \<open>remote_bridge_failure H g case_id =
     (let path = remote_gateway_log g case_id;
          regex = join ''|'' BRIDGE_FAILURES;
          script = (''if test -f '' @ (shlex_quote path) @ '' && failure=$(grep -Eim1 -- '' @
      (shlex_quote regex) @ '' '' @ (shlex_quote path) @ ''); then printf '' @ sq @ ''%s'' @ bsl @
      ''n'' @ sq @ '' "$failure"; else pid=$(cat '' @ (gw_workdir g) @
      ''/bridge.pid 2>/dev/null || true); [ -n "$pid" ] && kill -0 "$pid" 2>/dev/null ||'' @
      '' printf '' @ sq @ ''%s'' @ bsl @ ''n'' @ sq @ '' '' @ sq @ ''bridge process exited'' @ sq @
      ''; fi'')
      in bindm (remote_output H g script) (\<lambda>(rc, text).
         if py_strip text = [] then retm [] else liftm (first_line text)))\<close>

section \<open>Deployment\<close>

definition ssh_transport :: "gateway \<Rightarrow> string" where
  "ssh_transport g = join '' '' (map shlex_quote (ssh_base g))"

definition deploy_file :: "'w host \<Rightarrow> gateway \<Rightarrow> string \<Rightarrow> string \<Rightarrow> string \<Rightarrow> ('w, unit) io" where
  "deploy_file H g source destination logf =
     local_command H [''rsync'', ''-a'', ''-e'', ssh_transport g, source,
       gw_host g @ '':'' @ destination] logf"

definition deploy_sources :: "'w host \<Rightarrow> gateway \<Rightarrow> string \<Rightarrow> string \<Rightarrow> string \<Rightarrow> ('w, unit) io" where
  \<open>deploy_sources H g bridge_source server_source logf =
     (let bin = (\<lambda>name. gw_workdir g @ ''/bin/'' @ name);
          controller = path_join (path_parent bridge_source) ''mqtt_transfer_controller.py'' in
      seqm (remote_command H g (''mkdir -p '' @ (shlex_quote (gw_workdir g)) @ ''/{bin,cases,logs,deps}'') logf True)
      (seqm (deploy_file H g bridge_source (bin ''ble_mqtt_bridge.c'') logf)
      (seqm (deploy_file H g (path_join (path_parent bridge_source) ''server_crypto_metrics.c'')
               (bin ''server_crypto_metrics.c'') logf)
      (bindm (h_exists H controller) (\<lambda>present.
       seqm (whenm present (deploy_file H g controller (bin ''mqtt_transfer_controller.py'') logf))
      (seqm (deploy_file H g server_source (bin ''wolfssl_tls_server.c'') logf)
       (deploy_file H g (path_join (path_parent server_source) ''setup_pi_wolfssl.sh'')
               (bin ''setup_pi_wolfssl.sh'') logf)))))))\<close>

definition deploy_wolfssl :: "'w host \<Rightarrow> gateway \<Rightarrow> string \<Rightarrow> string option \<Rightarrow> ('w, unit) io" where
  "deploy_wolfssl H g logf source_dir = (case source_dir of None \<Rightarrow> retm ()
     | Some d \<Rightarrow> bindm (h_exists H d) (\<lambda>present.
         if \<not> present then retm ()
         else let archive = gw_workdir g @ ''/deps/wolfssl/wolfssl-clean-source.tar.gz'' in
           bindm (h_is_file H d) (\<lambda>file.
           if file then deploy_file H g d archive logf
           else bindm (h_archive H d) (\<lambda>tmp. deploy_file H g tmp archive logf))))"

definition build_scripts :: "gateway \<Rightarrow> string list" where
  \<open>build_scripts g = [
     (''cd '' @ (shlex_quote (gw_workdir g)) @
      '' && gcc -O2 -Wall -Wextra -o bin/ble_mqtt_bridge bin/ble_mqtt_bridge.c $(pkg-config'' @
      '' --cflags --libs bluez) && gcc -O2 -Wall -Wextra -shared -fPIC -o'' @
      '' bin/server_crypto_metrics.so bin/server_crypto_metrics.c -ldl -lcrypto''),
     (''sudo -n /usr/sbin/setcap cap_net_admin,cap_net_raw+eip '' @ (shlex_quote (gw_workdir g)) @
      ''/bin/ble_mqtt_bridge''),
     (''OPENSSL_CONF=/dev/null OPENSSL_MODULES=/usr/local/lib/ossl-modules openssl list'' @
      '' -providers -provider default -provider oqsprovider | grep -q oqsprovider''),
     (''cd '' @ (shlex_quote (gw_workdir g)) @
      '' && chmod +x bin/setup_pi_wolfssl.sh && ./bin/setup_pi_wolfssl.sh deps/wolfssl &&'' @
      '' export PKG_CONFIG_PATH="$PWD/deps/wolfssl/lib/pkgconfig" && pkg-config --exists'' @
      '' wolfssl && gcc -O2 -Wall -Wextra -DWOLFSSL_HAVE_XMSS   -o bin/wolfssl_tls_server'' @
      '' bin/wolfssl_tls_server.c   $(pkg-config --cflags --libs wolfssl)  '' @
      '' -Wl,-rpath,"$PWD/deps/wolfssl/lib" && test -x bin/wolfssl_tls_server'')]\<close>

definition prepare_pi :: "'w host \<Rightarrow> gateway \<Rightarrow> string \<Rightarrow> string \<Rightarrow> string \<Rightarrow> string option \<Rightarrow> ('w, unit) io" where
  "prepare_pi H g bridge_source server_source logf wolfssl_source =
     seqm (deploy_sources H g bridge_source server_source logf)
     (seqm (deploy_wolfssl H g logf wolfssl_source)
      (eachm (\<lambda>script. seqm (remote_command H g script logf True) (retm ())) (build_scripts g)))"

definition deploy_case :: "'w host \<Rightarrow> gateway \<Rightarrow> string \<Rightarrow> string \<Rightarrow> string \<Rightarrow> ('w, string) io" where
  \<open>deploy_case H g case_id directory logf =
     (let remote = gw_workdir g @ ''/cases/'' @ case_id in
      seqm (remote_command H g (''rm -rf '' @ (shlex_quote remote) @ '' && mkdir -p '' @ (shlex_quote remote)) logf True)
      (seqm (local_command H [''rsync'', ''-a'', ''-e'', ssh_transport g, directory @ ''/'',
               gw_host g @ '':'' @ remote @ ''/''] logf)
      (seqm (remote_command H g
         (''sed -i '' @ sq @ ''s|__REMOTE_CASE_DIR__|'' @ remote @ ''|g'' @ sq @ '' '' @ remote @
      ''/mosquitto.conf; for config in '' @ remote @
      ''/mosquitto*.conf; do   [ ! -f "$config" ] ||   sed -i '' @ sq @ ''s|__REMOTE_CASE_DIR__|'' @
      remote @ ''|g'' @ sq @ '' "$config"; done'') logf True)
       (retm remote))))\<close>

section \<open>Sessions\<close>

definition kill_pid_file :: "gateway \<Rightarrow> string \<Rightarrow> string" where
  \<open>kill_pid_file g name =
     (''if [ -f '' @ (gw_workdir g) @ ''/'' @ name @ '' ]; then   pid=$(cat '' @ (gw_workdir g) @
      ''/'' @ name @
      '');   kill -TERM -- "-$pid" "$pid" 2>/dev/null || true;   sleep 0.2;   kill -KILL --'' @
      '' "-$pid" "$pid" 2>/dev/null || true;   rm -f '' @ (gw_workdir g) @ ''/'' @ name @
      ''; fi; '')\<close>

definition kill_matching :: "bool \<Rightarrow> string \<Rightarrow> string" where
  \<open>kill_matching privileged pattern =
     (''pids=$(pgrep -f '' @ (shlex_quote pattern) @
      '' || true);   [ -z "$pids" ] || kill -KILL $pids 2>/dev/null || '' @
      (if privileged then ''    sudo -n kill -KILL $pids 2>/dev/null || '' else []) @ ''true; '')\<close>

definition disconnect_command :: "string \<Rightarrow> string" where
  \<open>disconnect_command addr = (if addr = [] then []
     else (''timeout -k 1 5 bluetoothctl disconnect '' @ (shlex_quote addr) @
      '' >/dev/null 2>&1 || true; sleep 0.5; ''))\<close>

definition btmgmt_step :: "string \<Rightarrow> string" where
  \<open>btmgmt_step step = (''sudo -n timeout -k 1 4 /usr/bin/btmgmt '' @ step @ '' >/dev/null 2>&1 || true; '')\<close>

definition reset_command :: "bool \<Rightarrow> string" where
  \<open>reset_command reset_adapter = (if \<not> reset_adapter then []
     else (''sudo -n /usr/sbin/rfkill block bluetooth >/dev/null 2>&1 || true; sleep 1; sudo -n'' @
      '' /usr/sbin/rfkill unblock bluetooth >/dev/null 2>&1 || true; sleep 2; '') @
          btmgmt_step ''power off'' @ ''sleep 1; '' @ btmgmt_step ''bredr off'' @
          btmgmt_step ''bondable off'' @ btmgmt_step ''sc off'' @ btmgmt_step ''privacy off'' @
          btmgmt_step ''power on'' @ ''sleep 1; '')\<close>

definition stop_script :: "gateway \<Rightarrow> string \<Rightarrow> bool \<Rightarrow> string" where
  \<open>stop_script g addr reset_adapter =
     kill_pid_file g ''bridge.pid'' @ kill_pid_file g ''broker.pid'' @
     kill_pid_file g ''controller.pid'' @
     kill_matching True (''^'' @ (gw_workdir g) @ ''/bin/ble_mqtt_bridge( |$)'') @
     kill_matching False (''^/usr/sbin/mosquitto -c '' @ (gw_workdir g) @ ''/cases/'') @
     kill_matching False (''^'' @ (gw_workdir g) @ ''/bin/wolfssl_tls_server( |$)'') @
     kill_matching False (''^python3 '' @ (gw_workdir g) @ ''/bin/mqtt_transfer_controller.py( |$)'') @
     disconnect_command addr @ reset_command reset_adapter\<close>

definition stop_session :: "'w host \<Rightarrow> gateway \<Rightarrow> string \<Rightarrow> bool \<Rightarrow> ('w station, unit) io" where
  "stop_session H g logf reset_adapter =
     bindm (getm st_ble_addr) (\<lambda>addr.
     seqm (hostm (remote_command H g (stop_script g addr reset_adapter) logf False)) (retm ()))"

text \<open>The named arguments of \<open>start_session\<close>.\<close>

record session_args =
  sa_case_id :: string
  sa_remote_case_dir :: string
  sa_ble_addr :: string
  sa_ble_name :: string
  sa_ble_addr_type :: string
  sa_psm :: string
  sa_mtu :: int
  sa_adapter :: string
  sa_ready_timeout :: rat
  sa_log :: string
  sa_server_backend :: string
  sa_wolfssl_group :: string
  sa_control_telemetry :: bool
  sa_root_signature :: string
  sa_leaf_signature :: string
  sa_signature_scheme :: string
  sa_tls_timeout :: rat
  sa_mtls :: bool
  sa_transfer_plan :: "row option"

definition session_file :: "gateway \<Rightarrow> session_args \<Rightarrow> string \<Rightarrow> string" where
  "session_file g a suffix = gw_workdir g @ ''/logs/'' @ sa_case_id a @ suffix"

text \<open>\<open>int(x)\<close> of a float truncates towards zero.\<close>

definition float_to_int :: "rat \<Rightarrow> int" where
  "float_to_int x = (if x < 0 then - \<lfloor>- x\<rfloor> else \<lfloor>x\<rfloor>)"

definition plan_operation_line :: "pyval \<Rightarrow> string res" where
  \<open>plan_operation_line operation = (case operation of
       PDict d \<Rightarrow> bindr (mapr (\<lambda>k. bindr (dindex d k) cell_text)
           [''order'', ''direction'', ''payload_bytes'', ''payload_seed'']) (\<lambda>cells.
           Inr (join '','' cells @ newline))
     | _ \<Rightarrow> Inl (TypeError ''operation''))\<close>

definition plan_csv :: "row \<Rightarrow> string res" where
  \<open>plan_csv plan = (case dget plan ''operations'' (PList []) of
       PList ops \<Rightarrow> bindr (mapr plan_operation_line ops) (\<lambda>ls.
         Inr ((''order,direction,size,seed'' @ newline) @ concat ls))
     | _ \<Rightarrow> Inl (TypeError ''operations''))\<close>

definition send_plan :: "'w host \<Rightarrow> gateway \<Rightarrow> session_args \<Rightarrow> ('w, unit) io" where
  \<open>send_plan H g a = (case sa_transfer_plan a of None \<Rightarrow> retm ()
     | Some plan \<Rightarrow>
         bindm (liftm (plan_csv plan)) (\<lambda>csv_text.
         bindm (liftm (json_text (PDict plan))) (\<lambda>json.
         seqm (remote_command H g
           (''printf '' @ sq @ ''%s'' @ sq @ '' '' @ (shlex_quote json) @ '' > '' @
      (shlex_quote (session_file g a ''.transfer.json'')) @ ''; printf '' @ sq @ ''%s'' @ sq @
      '' '' @ (shlex_quote csv_text) @ '' > '' @
      (shlex_quote (session_file g a ''.transfer.csv'')))
           (sa_log a) True) (retm ()))))\<close>

definition bridge_command :: "gateway \<Rightarrow> session_args \<Rightarrow> string" where
  \<open>bridge_command g a = (let gateway_log = session_file g a ''.gateway.log'' in
     (''setsid '' @ (shlex_quote (gw_workdir g)) @ ''/bin/ble_mqtt_bridge --adapter '' @
      (shlex_quote (sa_adapter a)) @ '' --name '' @ (shlex_quote (sa_ble_name a)) @ '' '' @
      (if sa_ble_addr a \<noteq> [] then ''--addr '' @ shlex_quote (sa_ble_addr a) else []) @
      '' --addr-type '' @ (shlex_quote (sa_ble_addr_type a)) @ '' --psm '' @
      (shlex_quote (sa_psm a)) @ '' --tcp-host 127.0.0.1 --tcp-port 8883 --mtu '' @
      (str_int (sa_mtu a)) @ '' --scan-timeout 5 --root-signature '' @
      (shlex_quote (sa_root_signature a)) @ '' --leaf-signature '' @
      (shlex_quote (sa_leaf_signature a)) @ '' > '' @ gateway_log @
      '' 2>&1 < /dev/null & echo $! > '' @ (gw_workdir g) @ ''/bridge.pid''))\<close>

definition wolfssl_command :: "gateway \<Rightarrow> session_args \<Rightarrow> string" where
  \<open>wolfssl_command g a = (let broker_log = session_file g a ''.broker.log'';
       transfer_csv = session_file g a ''.transfer.csv'';
       planned = (case sa_transfer_plan a of None \<Rightarrow> False | Some p \<Rightarrow> p \<noteq> []) in
     (''setsid '' @ (shlex_quote (gw_workdir g)) @ ''/bin/wolfssl_tls_server --case-dir '' @
      (sa_remote_case_dir a) @ '' --group '' @ (shlex_quote (sa_wolfssl_group a)) @
      '' --port 8883 --sigalg '' @ (shlex_quote (sa_signature_scheme a)) @ '' --timeout '' @
      (str_int (max 1 (float_to_int (sa_tls_timeout a)))) @ '' '' @
      (if sa_mtls a then ''--mtls '' else []) @
      (if planned then ''--transfer-plan '' @ shlex_quote transfer_csv @ '' '' else []) @ ''> '' @
      broker_log @ '' 2>&1 < /dev/null & echo $! > '' @ (gw_workdir g) @ ''/broker.pid''))\<close>

definition mosquitto_config :: "session_args \<Rightarrow> string" where
  "mosquitto_config a = (if sa_transfer_plan a \<noteq> None
     then (if sa_mtls a then ''mosquitto-transfer-mtls.conf'' else ''mosquitto-transfer.conf'')
     else (if sa_mtls a then ''mosquitto-mtls.conf'' else ''mosquitto.conf''))"

definition mosquitto_command :: "gateway \<Rightarrow> session_args \<Rightarrow> string" where
  \<open>mosquitto_command g a = (let broker_log = session_file g a ''.broker.log'' in
     (''setsid env OPENSSL_CONF='' @ (sa_remote_case_dir a) @ ''/'' @
      (if sa_mtls a then ''openssl-mtls.cnf'' else ''openssl.cnf'') @ '' /usr/sbin/mosquitto -c '' @
      (sa_remote_case_dir a) @ ''/'' @ (mosquitto_config a) @ '' -v > '' @ broker_log @
      '' 2>&1 < /dev/null & echo $! > '' @ (gw_workdir g) @ ''/broker.pid''))\<close>

definition server_command :: "gateway \<Rightarrow> session_args \<Rightarrow> string res" where
  "server_command g a = (if sa_server_backend a = ''wolfssl''
     then (if sa_wolfssl_group a = []
           then Inl (ValueError ''wolfssl_group is required for wolfssl backend'')
           else Inr (wolfssl_command g a))
     else Inr (mosquitto_command g a))"

definition controller_command :: "gateway \<Rightarrow> session_args \<Rightarrow> string" where
  \<open>controller_command g a = (if sa_transfer_plan a \<noteq> None \<and> sa_server_backend a \<noteq> ''wolfssl''
     then (''setsid python3 '' @ (gw_workdir g) @ ''/bin/mqtt_transfer_controller.py --plan '' @
      (shlex_quote (session_file g a ''.transfer.json'')) @ '' --port 18884 --timeout '' @
      (str_int (max 30 (min 90 (float_to_int (sa_tls_timeout a))))) @ '' > '' @
      (session_file g a ''.transfer-server.log'') @ '' 2>&1 < /dev/null & echo $! > '' @
      (gw_workdir g) @ ''/controller.pid; '')
     else [])\<close>

definition start_script :: "gateway \<Rightarrow> session_args \<Rightarrow> string \<Rightarrow> string" where
  \<open>start_script g a server =
     ('': > '' @ (session_file g a ''.broker.log'') @ ''; : > '' @
      (session_file g a ''.gateway.log'') @ ''; : > '' @
      (session_file g a ''.transfer-server.log'') @ ''; LD_PRELOAD='' @ (gw_workdir g) @
      ''/bin/server_crypto_metrics.so '' @ server @ ''; sleep 1; if kill -0 $(cat '' @
      (gw_workdir g) @ ''/broker.pid) 2>/dev/null; then '' @ (controller_command g a) @
      (bridge_command g a) @ ''; else exit 1; fi'')\<close>

definition ready_script :: "gateway \<Rightarrow> session_args \<Rightarrow> string" where
  \<open>ready_script g a = (let gateway_log = session_file g a ''.gateway.log'';
       checks = max 1 (float_to_int (fmul (sa_ready_timeout a) 4)) in
     (''for i in $(seq 1 '' @ (str_int checks) @ ''); do   '' @
      (if sa_control_telemetry a then (''grep -q '' @ sq @ ''^'' @ bsl @ ''[BENCH_READY'' @ bsl @ ''].*transport=l2cap'' @ sq @ '' '' @ gateway_log @ '' && '') else []) @
      ''grep -q '' @ sq @ bsl @ ''[BENCH_GATEWAY'' @ bsl @ ''] gateway_tcp_connect_ms='' @ sq @
      '' '' @ gateway_log @ ''     && exit 0;   pid=$(cat '' @ (gw_workdir g) @
      ''/bridge.pid 2>/dev/null || true);   [ -n "$pid" ] && kill -0 "$pid" 2>/dev/null ||'' @
      '' exit 1;   sleep 0.25; done; exit 1''))\<close>

definition start_session :: "'w host \<Rightarrow> gateway \<Rightarrow> session_args \<Rightarrow> ('w station, unit) io" where
  \<open>start_session H g a =
     seqm (stop_session H g (sa_log a) False)
     (seqm (modifym (\<lambda>s. s\<lparr>st_ble_addr := sa_ble_addr a\<rparr>))
     (seqm (hostm (remote_command H g
        (''printf '' @ sq @ ''3200'' @ bsl @ ''n'' @ sq @ '' | sudo -n /usr/bin/tee '' @
      (shlex_quote (''/sys/kernel/debug/bluetooth/'' @ sa_adapter a @ ''/supervision_timeout'')) @
      '' >/dev/null'')
        (sa_log a) True))
     (seqm (hostm (send_plan H g a))
     (bindm (liftm (server_command g a)) (\<lambda>server.
      seqm (hostm (remote_command H g (start_script g a server) (sa_log a) True))
     (seqm (hostm (remote_command H g (ready_script g a) (sa_log a) True))
      (retm ())))))))\<close>

definition collect_session_logs ::
  "'w host \<Rightarrow> gateway \<Rightarrow> string \<Rightarrow> string \<Rightarrow> string \<Rightarrow> ('w, unit) io" where
  "collect_session_logs H g case_id broker_log gateway_log =
     eachm (\<lambda>(suffix, dest).
       seqm (h_mkdir H (path_parent dest))
       (bindm (h_run H Merged (ssh_base g @ [gw_host g,
           ''cat '' @ shlex_quote (gw_workdir g @ ''/logs/'' @ case_id @ suffix)]) None None) (\<lambda>(rc, text).
        h_append H dest text)))
     [(''.broker.log'', broker_log), (''.transfer-server.log'', broker_log), (''.gateway.log'', gateway_log)]"

section \<open>Properties\<close>

text \<open>
  C33: The Pi runs exactly the script that was composed: the last argument given to ssh,
  which the login shell of the Pi splits into words, is \<open>bash -lc\<close> with the script as one
  word, whatever characters the script holds.
\<close>

theorem remote_script_verbatim:
  "\<exists>pre. remote_args g script = pre @ [gw_host g, last (remote_args g script)] \<and>
     sh_words (last (remote_args g script)) = Some [''bash'', ''-lc'', script]"
proof -
  have "sh_words (''bash -lc '' @ shlex_quote script) = Some [''bash'', ''-lc'', script]"
    using sh_plain_quote [of script "[]"]
    by (simp add: sh_words_def shell_safe_def is_lower_az_def ccode_def)
  then show ?thesis
    by (auto simp: remote_args_def)
qed

end
