(* ===== verification/Result_Wait.thy ===== *)
theory Result_Wait
  imports Pi_Gateway Transfer_Plan Scheduler
begin

text \<open>
  Reading the outcome of one attempt (\<open>run_benchmarks.py\<close>): the parsers of the log files,
  the derived cells, the loops that wait for a result on the serial port or on the Pi, and
  the deadlines of an attempt.  A wait loop polls the clock of the host; its fuel bounds the
  rounds, and \<open>wait_fuel_enough\<close> says how much is needed when the clock advances.
\<close>

section \<open>Log files\<close>

definition read_lines :: "'w host \<Rightarrow> string \<Rightarrow> ('w, string list) io" where
  "read_lines H path = bindm (h_exists H path) (\<lambda>present.
     if \<not> present then retm [] else bindm (h_read H path) (\<lambda>text. retm (splitlines text)))"

definition frames_of :: "string list \<Rightarrow> (string \<times> srow) list" where
  "frames_of ls = List.map_filter parse_bench_line ls"

definition merged_frames :: "string \<Rightarrow> string list \<Rightarrow> srow" where
  "merged_frames kind ls =
     fold (\<lambda>(k, values) d. if k = kind then dupdate d values else d) (frames_of ls) []"

definition parse_gateway_metrics :: "'w host \<Rightarrow> string \<Rightarrow> ('w, srow) io" where
  "parse_gateway_metrics H path =
     bindm (read_lines H path) (\<lambda>ls. retm (merged_frames ''GATEWAY'' ls))"

definition parse_server_metrics :: "'w host \<Rightarrow> string \<Rightarrow> ('w, srow) io" where
  "parse_server_metrics H path =
     bindm (read_lines H path) (\<lambda>ls. retm (merged_frames ''SERVER'' ls))"

definition latest_frame :: "string \<Rightarrow> string list \<Rightarrow> srow option" where
  "latest_frame kind ls =
     fold (\<lambda>(k, values) latest. if k = kind then Some values else latest) (frames_of ls) None"

definition latest_benchmark_observation :: "'w host \<Rightarrow> string \<Rightarrow> string \<Rightarrow> ('w, srow option) io" where
  "latest_benchmark_observation H path kind =
     bindm (read_lines H path) (\<lambda>ls. retm (latest_frame kind ls))"

section \<open>Derived cells\<close>

definition needs_large_rsa_firmware :: "srow \<Rightarrow> bool" where
  "needs_large_rsa_firmware case_row = False"

definition is_rsa_pss_name :: "string \<Rightarrow> bool" where
  "is_rsa_pss_name s \<longleftrightarrow> startswith s ''RSA-PSS-'' \<and> drop 8 s \<noteq> [] \<and> list_all is_digit (drop 8 s)"

definition is_rsa_pss_case :: "srow \<Rightarrow> bool" where
  "is_rsa_pss_case case_row \<longleftrightarrow>
     list_ex (\<lambda>key. is_rsa_pss_name (dget case_row key [])) [''root_sig_alg'', ''cert_sig_alg'']"

definition opt_cell :: "nat \<Rightarrow> rat option \<Rightarrow> string" where
  "opt_cell k v = (case v of None \<Rightarrow> [] | Some x \<Rightarrow> fmt_fixed k x)"

definition microseconds_as_milliseconds :: "srow \<Rightarrow> string \<Rightarrow> string res" where
  "microseconds_as_milliseconds values key = bindr (number values key) (\<lambda>value.
     Inr (opt_cell 3 (map_option (\<lambda>x. fdiv x 1000) value)))"

definition summed_microseconds_as_milliseconds :: "srow \<Rightarrow> string list \<Rightarrow> string res" where
  "summed_microseconds_as_milliseconds values keys =
     bindr (mapr (number values) keys) (\<lambda>parts.
     let present = List.map_filter (\<lambda>x. x) parts in
     Inr (if present = [] then [] else fmt_fixed 3 (fdiv (py_sum present) 1000)))"

definition MLKEM_KEYS :: "string list" where
  "MLKEM_KEYS = [''kem_keygen_us'', ''kem_encapsulation_us'', ''kem_decapsulation_us'']"

definition CLASSICAL_KEYS :: "string list" where
  "CLASSICAL_KEYS = [''classical_kex_keygen_us'', ''classical_kex_shared_secret_us'']"

definition client_kex_metric_keys :: "srow \<Rightarrow> string list res" where
  "client_kex_metric_keys case_row = bindr (dindex case_row ''kex_group'') (\<lambda>group.
     Inr (if startswith group ''MLKEM'' then MLKEM_KEYS
          else if contains group ''MLKEM'' then MLKEM_KEYS @ CLASSICAL_KEYS
          else CLASSICAL_KEYS))"

definition usage_percent :: "srow \<Rightarrow> string \<Rightarrow> string \<Rightarrow> string res" where
  "usage_percent values used_key capacity_key =
     bindr (number values used_key) (\<lambda>used.
     bindr (number values capacity_key) (\<lambda>capacity.
     Inr (case (used, capacity) of
         (Some u, Some c) \<Rightarrow> (if c = 0 then [] else fmt_fixed 2 (fdiv (fmul u 100) c))
       | _ \<Rightarrow> [])))"

section \<open>Waiting on the serial port\<close>

definition fatal_server_result :: "string \<Rightarrow> srow" where
  "fatal_server_result fatal_line = [(''status'', ''fail''), (''stage'', ''server_certificate_trust''),
     (''error'', ''fatal_server_log''), (''fatal'', ''1''), (''fatal_message'', fatal_line)]"

definition board_fatal_result :: srow where
  "board_fatal_result = [(''status'', ''fail''), (''stage'', ''board_fatal''),
     (''error'', ''zephyr_fatal_error''), (''fatal'', ''1'')]"

definition board_reboot_result :: srow where
  "board_reboot_result = [(''status'', ''fail''), (''stage'', ''board_reboot''),
     (''error'', ''reboot_before_result'')]"

definition timeout_result :: "string \<Rightarrow> srow" where
  "timeout_result stage = [(''status'', ''timeout''), (''stage'', stage), (''error'', ''timeout'')]"

definition is_fatal_line :: "string \<Rightarrow> bool" where
  "is_fatal_line line \<longleftrightarrow> contains line ''***** MPU FAULT *****'' \<or>
     contains line ''>>> ZEPHYR FATAL ERROR''"

text \<open>The decision on one line of the board: the frames observed so far, and a result or none.\<close>

definition board_line ::
  "bool \<Rightarrow> (string \<times> srow) list \<Rightarrow> string \<Rightarrow> (string \<times> srow) list \<times> srow option" where
  "board_line recording observations line =
     (if is_fatal_line line then (observations, Some board_fatal_result)
      else let parsed = parse_bench_line line;
               obs = (case parsed of Some p \<Rightarrow> if recording then observations @ [p] else observations
                        | None \<Rightarrow> observations)
           in case parsed of
                Some (kind, values) \<Rightarrow>
                  (if kind = ''RESULT'' then (obs, Some values) else (obs, None))
              | None \<Rightarrow>
                  (if startswith line ''*** Booting'' \<and> recording \<and>
                      list_ex (\<lambda>(kind, _). startswith kind ''TRANSFER_'') obs
                   then (obs, Some board_reboot_result) else (obs, None)))"

text \<open>
  \<open>detector\<close> is the check of the server log, when one is given; it is called at most once a
  second, from \<open>next_check\<close> on.
\<close>

definition check_fatal ::
  "'w host \<Rightarrow> ('w, string) io option \<Rightarrow> rat \<Rightarrow> ('w station, rat \<times> string) io" where
  "check_fatal H detector next_check =
     bindm (hostm (h_monotonic H)) (\<lambda>now. case detector of
       None \<Rightarrow> retm (next_check, [])
     | Some detect \<Rightarrow> (if now < next_check then retm (next_check, [])
         else bindm (hostm detect) (\<lambda>fatal_line. retm (fadd now 1, fatal_line))))"

definition serial_line :: "'w host \<Rightarrow> string \<Rightarrow> ('w, string option) io" where
  "serial_line H board_log =
     bindm (h_readline H) (\<lambda>raw.
     if raw = [] then retm None
     else bindm (liftm (decode_replace raw)) (\<lambda>text. let line = py_strip text in
       if line = [] then retm None
       else seqm (h_append H board_log (line @ newline)) (retm (Some line))))"

definition wait_round ::
  "'w host \<Rightarrow> ('w, string) io option \<Rightarrow> bool \<Rightarrow> string \<Rightarrow> rat \<Rightarrow> rat \<Rightarrow> ('w station, rat + srow) io" where
  "wait_round H detector recording board_log deadline next_check =
     bindm (hostm (h_monotonic H)) (\<lambda>now.
     if \<not> now < deadline then retm (Inr (timeout_result ''serial_wait''))
     else bindm (check_fatal H detector next_check) (\<lambda>(next', fatal_line).
       if fatal_line \<noteq> [] then retm (Inr (fatal_server_result fatal_line))
       else bindm (hostm (serial_line H board_log)) (\<lambda>line. case line of
           None \<Rightarrow> retm (Inl next')
         | Some l \<Rightarrow>
             bindm (getm st_observations) (\<lambda>obs.
             case board_line recording obs l of (obs', outcome) \<Rightarrow>
               seqm (modifym (\<lambda>s. s\<lparr>st_observations := obs'\<rparr>))
                 (retm (case outcome of Some values \<Rightarrow> Inr values | None \<Rightarrow> Inl next'))))))"

definition wait_for_result ::
  "'w host \<Rightarrow> nat \<Rightarrow> string \<Rightarrow> rat \<Rightarrow> ('w, string) io option \<Rightarrow> bool \<Rightarrow> ('w station, srow) io" where
  "wait_for_result H fuel board_log timeout detector recording =
     bindm (hostm (h_monotonic H)) (\<lambda>now.
     bindm (hostm (h_monotonic H)) (\<lambda>next_check.
     seqm (hostm (h_append H board_log []))
     (poll (wait_round H detector recording board_log (fadd now timeout)) fuel next_check)))"

section \<open>Waiting on the Pi\<close>

definition ble_poll ::
  "'w host \<Rightarrow> gateway \<Rightarrow> string \<Rightarrow> string \<Rightarrow> bool \<Rightarrow> ('w station, srow option) io" where
  "ble_poll H g case_id board_log recording =
     bindm (hostm (remote_benchmark_result H g case_id)) (\<lambda>line.
     if line = [] then retm None
     else seqm (hostm (h_append H board_log (line @ newline)))
       (case parse_bench_line line of None \<Rightarrow> retm None
        | Some (kind, values) \<Rightarrow>
            seqm (whenm recording (modifym (\<lambda>s. s\<lparr>st_observations := st_observations s @ [(kind, values)]\<rparr>)))
              (retm (if kind = ''RESULT'' then Some values else None))))"

definition bridge_failure_result :: "string \<Rightarrow> srow" where
  "bridge_failure_result message = [(''status'', ''fail''), (''stage'', ''ble_l2cap_transport''),
     (''error'', ''bridge_failure''), (''fatal_message'', message)]"

definition ble_round ::
  "'w host \<Rightarrow> gateway \<Rightarrow> string \<Rightarrow> ('w, string) io option \<Rightarrow> bool \<Rightarrow> string \<Rightarrow> rat \<Rightarrow> rat \<Rightarrow>
   ('w station, rat + srow) io" where
  "ble_round H g case_id detector recording board_log deadline next_check =
     bindm (hostm (h_monotonic H)) (\<lambda>now.
     if \<not> now < deadline then retm (Inr (timeout_result ''ble_result_wait''))
     else bindm (ble_poll H g case_id board_log recording) (\<lambda>outcome.
       case outcome of Some values \<Rightarrow> retm (Inr values)
       | None \<Rightarrow>
           bindm (hostm (remote_bridge_failure H g case_id)) (\<lambda>failure.
           if failure \<noteq> [] then retm (Inr (bridge_failure_result failure))
           else bindm (check_fatal H detector next_check) (\<lambda>(next', fatal_line).
             if fatal_line \<noteq> [] then retm (Inr (fatal_server_result fatal_line))
             else seqm (hostm (h_sleep H (1 / 4))) (retm (Inl next'))))))"

definition wait_for_ble_result ::
  "'w host \<Rightarrow> nat \<Rightarrow> gateway \<Rightarrow> string \<Rightarrow> string \<Rightarrow> rat \<Rightarrow> ('w, string) io option \<Rightarrow> bool \<Rightarrow>
   ('w station, srow) io" where
  "wait_for_ble_result H fuel g case_id board_log timeout detector recording =
     bindm (hostm (h_monotonic H)) (\<lambda>now.
     bindm (hostm (h_monotonic H)) (\<lambda>next_check.
     poll (ble_round H g case_id detector recording board_log (fadd now timeout)) fuel next_check))"

section \<open>Waiting for the board\<close>

definition ready_round :: "'w host \<Rightarrow> string \<Rightarrow> rat \<Rightarrow> unit \<Rightarrow> ('w, unit + unit) io" where
  "ready_round H board_log deadline u =
     bindm (h_monotonic H) (\<lambda>now.
     if \<not> now < deadline then raisem TimeoutError
     else bindm (serial_line H board_log) (\<lambda>line. case line of
         None \<Rightarrow> retm (Inl ())
       | Some l \<Rightarrow> retm (if startswith l ''[BENCH_READY]'' then Inr () else Inl ())))"

definition wait_for_board_ready :: "'w host \<Rightarrow> nat \<Rightarrow> string \<Rightarrow> rat \<Rightarrow> ('w, unit) io" where
  "wait_for_board_ready H fuel board_log timeout =
     bindm (h_monotonic H) (\<lambda>now.
     seqm (h_append H board_log [])
     (poll (ready_round H board_log (fadd now timeout)) fuel ()))"

section \<open>Deadlines\<close>

definition MAX_HANDSHAKE_TIMEOUT_SEC :: rat where
  "MAX_HANDSHAKE_TIMEOUT_SEC = 60"

definition MAX_TRANSFER_ROUND_TIMEOUT_SEC :: rat where
  "MAX_TRANSFER_ROUND_TIMEOUT_SEC = 600"

definition timeout_for_case :: "rat option \<Rightarrow> rat" where
  "timeout_for_case override = (case override of None \<Rightarrow> MAX_HANDSHAKE_TIMEOUT_SEC
     | Some t \<Rightarrow> min t MAX_HANDSHAKE_TIMEOUT_SEC)"

definition timeout_for_transfer_round :: "transfer_operation list \<Rightarrow> rat option \<Rightarrow> rat" where
  "timeout_for_transfer_round operations override =
     (let requested = fadd (timeout_for_case override)
            (py_sum (map (\<lambda>p. timeout_for_payload (op_payload_bytes p)) operations))
      in min requested MAX_TRANSFER_ROUND_TIMEOUT_SEC)"

section \<open>Failures of the gateway\<close>

definition gateway_failure_stage :: "string \<Rightarrow> srow \<Rightarrow> srow" where
  "gateway_failure_stage text final =
     (if contains text ''Device named'' \<and> contains text ''was not found''
      then dset ''stage'' ''ble_discovery'' final
      else if contains text ''L2CAP Channel failed to open''
      then (if map_of final ''error'' = Some ''CalledProcessError''
            then dset ''stage'' ''ble_l2cap_ready_timeout'' final
            else dset ''stage'' ''ble_l2cap_connect'' final)
      else if contains text ''TCP connect failed''
      then dset ''stage'' ''gateway_tcp_connect'' final
      else final)"

definition classify_gateway_start_failure :: "'w host \<Rightarrow> string \<Rightarrow> srow \<Rightarrow> ('w, srow) io" where
  "classify_gateway_start_failure H gateway_log final =
     (if map_of final ''stage'' \<noteq> Some ''gateway_start'' then retm final
      else catchm (bindm (h_read H gateway_log) (\<lambda>text. retm (gateway_failure_stage text final)))
             is_os_error (\<lambda>_. retm final))"

section \<open>The plan sent to the Pi\<close>

definition plan_operation :: "transfer_operation \<Rightarrow> pyval" where
  "plan_operation p = PDict [(''order'', PInt (op_order p)), (''iteration'', PInt (op_iteration p)),
     (''direction'', PStr (op_direction p)), (''payload_bytes'', PInt (op_payload_bytes p)),
     (''payload_seed'', PInt (op_payload_seed p))]"

definition transfer_plan_for_job :: "transfer_round \<Rightarrow> row" where
  "transfer_plan_for_job j = [(''case_id'', PStr (tr_case_id j)),
     (''round_index'', PInt (tr_round_index j)),
     (''operations'', PList (map plan_operation (tr_operations j)))]"


section \<open>What the loops establish\<close>

lemma hostm_ok: "hostm m s = (r, t) \<longleftrightarrow> (\<exists>w. m (st_world s) = (r, w) \<and> t = s\<lparr>st_world := w\<rparr>)"
  by (auto simp: hostm_def zoom_def split: prod.splits)

lemma board_line_result:
  assumes "board_line True obs l = (obs', Some r)" "map_of r ''status'' = Some ''success''"
  shows "(''RESULT'', r) \<in> set obs'"
  using assms
  by (auto simp: board_line_def board_fatal_result_def board_reboot_result_def Let_def
      split: if_splits option.splits)

lemma wait_round_success:
  assumes "wait_round H detector True board_log deadline a s = (Inr (Inr r), t)"
    and "map_of r ''status'' = Some ''success''"
  shows "(''RESULT'', r) \<in> set (st_observations t)"
  using assms
  apply (auto simp: wait_round_def timeout_result_def fatal_server_result_def
      split: if_splits option.splits prod.splits elim!: bindm_okE seqm_okE)
  apply (erule (1) board_line_result)
  done

lemma hostm_calm:
  assumes "calm clk m" "hostm m s = (r, t)"
  shows "clk (st_world s) \<le> clk (st_world t)" "r \<noteq> Inl out_of_fuel"
  using assms by (auto simp: hostm_ok calm_def dest: spec [of _ "st_world s"])

lemma calm_hostm: "calm clk m \<Longrightarrow> calm (\<lambda>s. clk (st_world s)) (hostm m)"
  using hostm_calm [of clk m] unfolding calm_def by (metis prod.collapse)

lemma hostm_clock:
  assumes "clock_advances H clk \<delta>" "hostm (h_monotonic H) s = (r, t)"
  shows "r = Inr (clk (st_world s))" "clk (st_world s) + \<delta> \<le> clk (st_world t)"
  using assms by (auto simp: hostm_ok clock_advances_def dest: spec [of _ "st_world s"])

lemma decode_replace_fuel: "decode_replace bs \<noteq> Inl out_of_fuel"
  by (simp add: decode_replace_def out_of_fuel_def split: sum.splits)

definition calm_serial :: "'w host \<Rightarrow> ('w \<Rightarrow> rat) \<Rightarrow> bool" where
  "calm_serial H clk \<longleftrightarrow> calm clk (h_readline H) \<and> (\<forall>p t. calm clk (h_append H p t))"

definition calm_detector :: "('w \<Rightarrow> rat) \<Rightarrow> ('w, string) io option \<Rightarrow> bool" where
  "calm_detector clk detector \<longleftrightarrow> (case detector of None \<Rightarrow> True | Some d \<Rightarrow> calm clk d)"

lemma calm_serial_line: "calm_serial H clk \<Longrightarrow> calm clk (serial_line H board_log)"
  unfolding serial_line_def calm_serial_def
  by (auto simp: Let_def decode_replace_fuel intro!: calm_bindm calm_seqm)

lemma calm_getm [simp]: "calm clk (getm f)"
  by (simp add: calm_def getm_def)

lemma calm_observations [simp]: "calm (\<lambda>s. clk (st_world s)) (modifym (\<lambda>s. s\<lparr>st_observations := obs\<rparr>))"
  by (simp add: calm_def modifym_def)

lemma calm_check_fatal:
  assumes "clock_advances H clk \<delta>" "calm_detector clk detector"
  shows "calm (\<lambda>s. clk (st_world s)) (check_fatal H detector next_check)"
  using assms(2) unfolding check_fatal_def
  by (auto simp: calm_detector_def split: option.splits
      intro!: calm_bindm calm_hostm calm_monotonic [OF assms(1)])

text \<open>A round that reads the clock first and is calm afterwards advances.\<close>

lemma clocked_round_advances:
  fixes H :: "'w host"
  assumes H: "clock_advances H clk \<delta>"
    and rest: "\<And>a now. now < deadline \<Longrightarrow> calm (\<lambda>s. clk (st_world s)) (rest a now)"
    and body: "\<And>a. body a = bindm (hostm (h_monotonic H)) (\<lambda>now.
        if \<not> now < deadline then retm (Inr late) else rest a now)"
  shows "round_advances (\<lambda>s. clk (st_world s)) deadline \<delta> body"
  unfolding round_advances_def
proof (intro conjI allI)
  show "0 < \<delta>" using H by (simp add: clock_advances_def)
  fix a and s :: "'w station"
  obtain w where w: "h_monotonic H (st_world s) = (Inr (clk (st_world s)), w)" "clk (st_world s) + \<delta> \<le> clk w"
    using H unfolding clock_advances_def by blast
  then have b: "body a s = (if \<not> clk (st_world s) < deadline then retm (Inr late)
      else rest a (clk (st_world s))) (s\<lparr>st_world := w\<rparr>)"
    by (simp add: body bindm_def hostm_def zoom_def)
  show "case body a s of (Inl e, t) \<Rightarrow> e \<noteq> out_of_fuel
      | (Inr (Inl a'), t) \<Rightarrow> clk (st_world s) < deadline \<and> clk (st_world s) + \<delta> \<le> clk (st_world t)
      | (Inr (Inr r), t) \<Rightarrow> True"
  proof (cases "clk (st_world s) < deadline")
    case False
    then show ?thesis by (simp add: b retm_def)
  next
    case True
    from rest [OF True, of a] show ?thesis
      unfolding b calm_def using True w(2)
      by (auto split: prod.splits sum.splits dest: spec [of _ "s\<lparr>st_world := w\<rparr>"])
  qed
qed

lemma wait_round_advances:
  assumes H: "clock_advances H clk \<delta>" "calm_serial H clk" "calm_detector clk detector"
  shows "round_advances (\<lambda>s. clk (st_world s)) deadline \<delta> (wait_round H detector recording board_log deadline)"
proof (rule clocked_round_advances [OF H(1) _ wait_round_def])
  fix a now
  show "calm (\<lambda>s. clk (st_world s)) (bindm (check_fatal H detector a) (\<lambda>(next', fatal_line).
       if fatal_line \<noteq> [] then retm (Inr (fatal_server_result fatal_line))
       else bindm (hostm (serial_line H board_log)) (\<lambda>line. case line of
           None \<Rightarrow> retm (Inl next')
         | Some l \<Rightarrow>
             bindm (getm st_observations) (\<lambda>obs.
             case board_line recording obs l of (obs', outcome) \<Rightarrow>
               seqm (modifym (\<lambda>s. s\<lparr>st_observations := obs'\<rparr>))
                 (retm (case outcome of Some values \<Rightarrow> Inr values | None \<Rightarrow> Inl next'))))))"
    by (auto intro!: calm_bindm calm_seqm calm_check_fatal [OF H(1,3)] calm_hostm calm_serial_line [OF H(2)]
        split: option.splits prod.splits)
qed

lemma timeout_for_case_le: "timeout_for_case override \<le> 60"
  by (simp add: timeout_for_case_def MAX_HANDSHAKE_TIMEOUT_SEC_def split: option.splits)

section \<open>Properties\<close>


definition demo_station :: "string list \<Rightarrow> (string, string) dict \<Rightarrow> script station" where
  "demo_station ls files = \<lparr>st_world = script_start (map encode_str ls) [] files,
     st_ble_addr = [], st_observations = []\<rparr>"


text \<open>
  C39: The serial wait returns: if every reading moves the clock by \<delta> and the serial port,
  the log and the server check do not turn it back, one round for every \<delta> up to the deadline
  is enough, whatever the board says.
\<close>

theorem wait_for_result_returns:
  assumes "clock_advances H clk \<delta>" "calm_serial H clk" "calm_detector clk detector"
    and "fadd (clk (st_world s)) timeout \<le> clk (st_world s) + of_nat fuel * \<delta>"
  shows "fst (wait_for_result H (Suc fuel) board_log timeout detector recording s) \<noteq> Inl out_of_fuel"
proof -
  define D where "D = fadd (clk (st_world s)) timeout"
  let ?body = "wait_round H detector recording board_log D"
  have loop: "fst (poll ?body (Suc fuel) n u) \<noteq> Inl out_of_fuel"
    if "clk (st_world s) \<le> clk (st_world u)" for n u
    using poll_returns [OF wait_round_advances [OF assms(1-3)], of D u fuel] assms(4) that
    by (simp add: D_def)
  obtain r1 u where u: "hostm (h_monotonic H) s = (r1, u)" by fastforce
  obtain r2 v where v: "hostm (h_monotonic H) u = (r2, v)" by fastforce
  obtain r3 w where w: "hostm (h_append H board_log []) v = (r3, w)" by fastforce
  have "0 < \<delta>" using assms(1) by (simp add: clock_advances_def)
  moreover have "calm clk (h_append H board_log [])"
    using assms(2) by (simp add: calm_serial_def)
  ultimately have clk: "r1 = Inr (clk (st_world s))" "r2 = Inr (clk (st_world u))" "r3 \<noteq> Inl out_of_fuel"
    "clk (st_world s) \<le> clk (st_world w)"
    using hostm_clock [OF assms(1) u] hostm_clock [OF assms(1) v] hostm_calm [OF _ w] by fastforce+
  with u v w loop [OF clk(4)] show ?thesis
    by (cases r3) (simp_all add: wait_for_result_def seqm_def bindm_def D_def del: poll.simps)
qed

lemma wait_for_result_returns_witness:
  "fst (wait_for_result script_host (Suc 60) ''board.log'' 60 None True
     (demo_station [''boot''] [])) \<noteq> Inl out_of_fuel"
proof (rule wait_for_result_returns [OF script_clock])
  show "calm_serial script_host sc_clock"
    by (simp add: calm_serial_def calm_def script_host_def script_readline_def script_add_def
        modifym_def out_of_fuel_def split: list.splits)
  show "calm_detector sc_clock None" by (simp add: calm_detector_def)
  show "fadd (sc_clock (st_world (demo_station [''boot''] []))) 60
      \<le> sc_clock (st_world (demo_station [''boot''] [])) + of_nat 60 * 1"
    by code_simp
qed

end
