(* ===== verification/Transfer_Rows.thy ===== *)
theory Transfer_Rows
  imports Result_Wait
begin

text \<open>
  The rows of one round of transfers (\<open>transfer_rows_for_round\<close> of \<open>run_benchmarks.py\<close>): the
  frames of the board and of the server, indexed by sequence number, give one row for each
  planned operation.
\<close>

section \<open>Frames by sequence\<close>

type_synonym frames = "(int, srow) dict"

definition add_server_frame :: "frames \<Rightarrow> string \<times> srow \<Rightarrow> frames res" where
  "add_server_frame d f = (case f of (kind, values) \<Rightarrow>
     (if kind = ''TRANSFER_SERVER'' then
        (case map_of values ''sequence'' of None \<Rightarrow> Inr d
         | Some t \<Rightarrow> bindr (py_int t) (\<lambda>n. Inr (dset n values d)))
      else Inr d))"

definition parse_transfer_server_metrics :: "'w host \<Rightarrow> string \<Rightarrow> ('w, frames) io" where
  "parse_transfer_server_metrics H path =
     bindm (read_lines H path) (\<lambda>ls. liftm (foldr_res add_server_frame [] (frames_of ls)))"

definition add_device_frame :: "frames \<Rightarrow> string \<times> srow \<Rightarrow> frames" where
  "add_device_frame d f = (case f of (kind, values) \<Rightarrow>
     (if kind = ''TRANSFER_DEVICE'' then
        (case py_int (dget values ''sequence'' []) of Inl e \<Rightarrow> d | Inr n \<Rightarrow> dset n values d)
      else d))"

definition parse_transfer_device_metrics :: "'w host \<Rightarrow> string \<Rightarrow> ('w, frames) io" where
  "parse_transfer_device_metrics H path =
     bindm (read_lines H path) (\<lambda>ls. retm (fold (\<lambda>f d. add_device_frame d f) (frames_of ls) []))"

text \<open>\<open>board.setdefault(sequence, {}).update(values)\<close>\<close>

definition merge_frame :: "int \<Rightarrow> srow \<Rightarrow> frames \<Rightarrow> frames" where
  "merge_frame n values board = dset n (dupdate (dget board n []) values) board"

definition BOARD_KINDS :: "string list" where
  "BOARD_KINDS = [''TRANSFER_RESULT'', ''TRANSFER_RESOURCE'', ''TRANSFER_TRANSPORT'']"

definition add_observation :: "frames \<Rightarrow> string \<times> srow \<Rightarrow> frames" where
  "add_observation board f = (case f of (kind, values) \<Rightarrow>
     (if kind \<in> set BOARD_KINDS then
        (case py_int (dget values ''sequence'' []) of Inl e \<Rightarrow> board
         | Inr n \<Rightarrow> merge_frame n values board)
      else board))"

definition board_frames :: "(string \<times> srow) list \<Rightarrow> frames \<Rightarrow> frames" where
  "board_frames observations device =
     fold (\<lambda>(n, values) board. merge_frame n values board) device
       (fold (\<lambda>f board. add_observation board f) observations [])"

section \<open>One operation\<close>

definition py_index :: "'a list \<Rightarrow> int \<Rightarrow> 'a res" where
  "py_index xs i = (let n = int (length xs) in
     if 0 \<le> i \<and> i < n then Inr (xs ! nat i)
     else if - n \<le> i \<and> i < 0 then Inr (xs ! nat (n + i))
     else Inl IndexError)"

definition power_of :: "srow list option \<Rightarrow> int \<Rightarrow> srow option res" where
  "power_of windows order = (case windows of None \<Rightarrow> Inr None
     | Some ws \<Rightarrow> (if ws \<noteq> [] \<and> order \<le> int (length ws)
         then bindr (py_index ws (order - 1)) (\<lambda>w. Inr (Some w)) else Inr None))"

definition operation_values :: "frames \<Rightarrow> frames \<Rightarrow> string \<Rightarrow> int \<Rightarrow> srow \<times> srow" where
  "operation_values board server round_status order =
     (let values = dget board order []; server_values = dget server order [] in
      (if values = [] \<and> round_status = ''success'' \<and> map_of server_values ''status'' = Some ''success''
       then [(''status'', ''success''),
             (''integrity_match'', dget server_values ''integrity_match'' ''1''),
             (''sha256'', dget server_values ''sha256'' [])]
       else values, server_values))"

definition operation_status :: "srow \<Rightarrow> string \<Rightarrow> string" where
  "operation_status values round_status =
     (let status = (if values \<noteq> [] then dget values ''status'' ''not_run'' else ''not_run'') in
      if status = ''not_run'' \<and> round_status = ''timeout'' then ''timeout'' else status)"

definition publish_header_bytes :: "transfer_operation \<Rightarrow> string \<Rightarrow> int res" where
  "publish_header_bytes p packet_id =
     bindr (if packet_id = [] then Inr 1 else py_int packet_id) (\<lambda>pid.
     bindr (mqtt_publish_header
       (if op_direction p = ''server_to_device'' then ''bench/down'' else ''bench/up'')
       pid (op_payload_bytes p)) (\<lambda>header. Inr (int (length header))))"

text \<open>\<open>f"{float(values[key]) / 100.0:.2f}" if values.get(key) else ""\<close>\<close>

definition basis_points :: "srow \<Rightarrow> string \<Rightarrow> string res" where
  "basis_points values key = (case map_of values key of None \<Rightarrow> Inr []
     | Some t \<Rightarrow> (if t = [] then Inr [] else bindr (py_float t) (\<lambda>x. Inr (fmt_fixed 2 (fdiv x 100)))))"

definition COUNTER_FIELDS :: "string list" where
  "COUNTER_FIELDS = [''l2cap_tx_packets'', ''l2cap_tx_bytes'', ''l2cap_rx_packets'',
     ''l2cap_rx_bytes'', ''l2cap_tx_retries'', ''l2cap_rx_overflows'',
     ''dwt_cyccnt'', ''dwt_cpicnt'', ''dwt_exccnt'', ''dwt_sleepcnt'', ''dwt_lsucnt'', ''dwt_foldcnt'']"

definition copied :: "srow \<Rightarrow> string list \<Rightarrow> row" where
  "copied values names = map (\<lambda>f. (f, PStr (dget values f []))) names"

definition power_cells :: "srow list option \<Rightarrow> srow option \<Rightarrow> row" where
  "power_cells windows pw =
     (''power_status'', PStr (if (case pw of None \<Rightarrow> False | Some p \<Rightarrow> p \<noteq> []) then ''success''
        else if windows \<noteq> None then ''incomplete'' else ''unsupported'')) #
     map (\<lambda>(cell, key). (cell, PStr (case pw of None \<Rightarrow> [] | Some p \<Rightarrow> dget p key [])))
       [(''transfer_duration_ms'', ''duration_ms''), (''transfer_charge_uc'', ''charge_uc''),
        (''transfer_energy_uj'', ''energy_uj''), (''transfer_avg_current_ua'', ''avg_current_ua''),
        (''transfer_peak_current_ua'', ''peak_current_ua'')]"

text \<open>What identifies the row: the round, the attempt and the planned operation.\<close>

definition row_identity :: "transfer_round \<Rightarrow> int \<Rightarrow> transfer_operation \<Rightarrow> string \<Rightarrow> row" where
  "row_identity job attempt_index p status = [
     (''case_id'', PStr (tr_case_id job)), (''round_index'', PInt (tr_round_index job)),
     (''attempt_index'', PInt attempt_index), (''schedule_index'', PInt (tr_sequence job)),
     (''transfer_order'', PInt (op_order p)), (''iteration'', PInt (op_iteration p)),
     (''direction'', PStr (op_direction p)), (''payload_bytes'', PInt (op_payload_bytes p)),
     (''status'', PStr status), (''qos'', PInt 1)]"

definition goodput :: "transfer_operation \<Rightarrow> rat option \<Rightarrow> string \<Rightarrow> string" where
  "goodput p end_ms status = (case end_ms of None \<Rightarrow> []
     | Some e \<Rightarrow> (if e \<noteq> 0 \<and> status = ''success''
         then fmt_fixed 3 (fdiv (float_of_int (op_payload_bytes p)) e) else []))"

definition cpu_milliseconds :: "rat option \<Rightarrow> rat option \<Rightarrow> string" where
  "cpu_milliseconds cycles hz = (case (cycles, hz) of
       (Some c, Some h) \<Rightarrow> (if h = 0 then [] else fmt_fixed 3 (fdiv (fmul c 1000) h))
     | _ \<Rightarrow> [])"

definition operation_row ::
  "transfer_round \<Rightarrow> frames \<Rightarrow> frames \<Rightarrow> int \<Rightarrow> int \<Rightarrow> string \<Rightarrow> srow list option \<Rightarrow>
   transfer_operation \<Rightarrow> row res" where
  "operation_row job board server attempt_index reconnect_count round_status windows p =
     bindr (power_of windows (op_order p)) (\<lambda>pw.
     case operation_values board server round_status (op_order p) of (values, server_values) \<Rightarrow>
     let completed = (values \<noteq> []); status = operation_status values round_status;
         packet_id = dget values ''packet_id'' [] in
     bindr (number values ''transfer_us'') (\<lambda>transfer_us.
     bindr (number values ''end_to_end_us'') (\<lambda>end_us.
     bindr (number server_values ''server_end_to_end_us'') (\<lambda>server_us.
     bindr (number values ''client_cpu_cycles'') (\<lambda>cpu_cycles.
     bindr (number values ''client_cycle_hz'') (\<lambda>cycle_hz.
     bindr (payload_sha256 (op_payload_seed p) (op_payload_bytes p) 1024) (\<lambda>expected_hash.
     bindr (publish_header_bytes p packet_id) (\<lambda>header_bytes.
     bindr (microseconds_as_milliseconds values ''ack_us'') (\<lambda>ack_ms.
     bindr (basis_points values ''client_cpu_usage_bp'') (\<lambda>client_usage.
     bindr (basis_points values ''system_cpu_usage_bp'') (\<lambda>system_usage.
     bindr (microseconds_as_milliseconds values ''l2cap_tx_wait_us'') (\<lambda>tx_wait_ms.
     let end_ms = map_option (\<lambda>x. fdiv x 1000) end_us in
     Inr (row_identity job attempt_index p status @ [
       (''packet_id'', PStr packet_id), (''reconnect_count'', PInt reconnect_count),
       (''expected_sha256'', PStr expected_hash),
       (''received_sha256'', PStr (dget values ''sha256'' (dget server_values ''sha256'' []))),
       (''integrity_match'', PStr (dget values ''integrity_match'' ''0'')),
       (''client_transfer_ms'', PStr (opt_cell 3 (map_option (\<lambda>x. fdiv x 1000) transfer_us))),
       (''server_transfer_ms'', PStr (opt_cell 3 (map_option (\<lambda>x. fdiv x 1000) server_us))),
       (''ack_latency_ms'', PStr ack_ms),
       (''end_to_end_ms'', PStr (opt_cell 3 end_ms)),
       (''goodput_kib_s'', PStr (goodput p end_ms status)),
       (''client_cpu_cycles'', PStr (dget values ''client_cpu_cycles'' [])),
       (''client_cycle_hz'', PStr (dget values ''client_cycle_hz'' [])),
       (''client_cpu_ms'', PStr (cpu_milliseconds cpu_cycles cycle_hz)),
       (''client_cpu_usage_percent'', PStr client_usage),
       (''system_cpu_usage_percent'', PStr system_usage)] @
       copied values [''client_heap_current_bytes'', ''client_heap_peak_bytes'',
         ''thread_stack_used_bytes'', ''thread_stack_capacity_bytes''] @
       copied values COUNTER_FIELDS @ [
       (''l2cap_tx_wait_ms'', PStr tx_wait_ms),
       (''mqtt_wire_bytes'', PInt (op_payload_bytes p + header_bytes)),
       (''mqtt_protocol_overhead_bytes'', PInt header_bytes)] @
       power_cells windows pw @ [
       (''message'', PStr (if completed then dget values ''error'' [] else round_status))])))))))))))))"

section \<open>The rows of a round\<close>

definition transfer_rows_for_round ::
  "'w host \<Rightarrow> transfer_round \<Rightarrow> (string \<times> srow) list \<Rightarrow> string \<Rightarrow> int \<Rightarrow> int \<Rightarrow> string \<Rightarrow> srow list option \<Rightarrow>
   ('w, row list) io" where
  "transfer_rows_for_round H job observations broker_log attempt_index reconnect_count round_status windows =
     bindm (parse_transfer_server_metrics H broker_log) (\<lambda>server.
     bindm (parse_transfer_device_metrics H broker_log) (\<lambda>device.
     liftm (mapr (operation_row job (board_frames observations device) server attempt_index
       reconnect_count round_status windows) (tr_operations job))))"

section \<open>Where the values of a row come from\<close>

definition frame_says :: "string \<times> srow \<Rightarrow> int \<Rightarrow> string \<times> string \<Rightarrow> bool" where
  "frame_says f n kv \<longleftrightarrow> py_int (dget (snd f) ''sequence'' []) = Inr n \<and> kv \<in> set (snd f)"

definition frames_from :: "(string \<times> srow) set \<Rightarrow> frames \<Rightarrow> bool" where
  "frames_from F d \<longleftrightarrow> (\<forall>n kv. kv \<in> set (dget d n []) \<longrightarrow> (\<exists>f\<in>F. frame_says f n kv))"

lemma dset_set: "set (dset k v d) \<subseteq> insert (k, v) (set d)"
  unfolding dset_def by (induction d) auto

lemma dupdate_set: "set (dupdate d e) \<subseteq> set d \<union> set e"
proof -
  have "set (fold (\<lambda>(k, v). dset k v) e d) \<subseteq> set d \<union> set e"
    by (induction e arbitrary: d) (use dset_set in fastforce)+
  then show ?thesis by (simp add: dupdate_def)
qed

lemma frames_from_nil [simp]: "frames_from F []"
  by (simp add: frames_from_def dget_def)

lemma frames_from_set:
  assumes "frames_from F d" "\<And>kv. kv \<in> set values \<Longrightarrow> \<exists>f\<in>F. frame_says f n kv"
  shows "frames_from F (dset n values d)"
  using assms by (auto simp: frames_from_def dget_dset)

lemma frames_from_merge:
  assumes "frames_from F d" "\<And>kv. kv \<in> set values \<Longrightarrow> \<exists>f\<in>F. frame_says f n kv"
  shows "frames_from F (merge_frame n values d)"
  unfolding merge_frame_def
proof (rule frames_from_set [OF assms(1)])
  fix kv assume "kv \<in> set (dupdate (dget d n []) values)"
  then show "\<exists>f\<in>F. frame_says f n kv"
    using dupdate_set [of "dget d n []" "values"] assms unfolding frames_from_def by blast
qed

lemma frames_from_fold:
  assumes "frames_from F d" "\<And>x d. x \<in> set xs \<Longrightarrow> frames_from F d \<Longrightarrow> frames_from F (g x d)"
  shows "frames_from F (fold g xs d)"
  using assms by (induction xs arbitrary: d) auto

lemma frame_saysI:
  "f \<in> F \<Longrightarrow> py_int (dget (snd f) ''sequence'' []) = Inr n \<Longrightarrow> kv \<in> set (snd f) \<Longrightarrow> \<exists>f\<in>F. frame_says f n kv"
  by (auto simp: frame_says_def)

lemma frames_from_observation:
  assumes "f \<in> F" "frames_from F d"
  shows "frames_from F (add_observation d f)"
proof (cases "py_int (dget (snd f) ''sequence'' [])")
  case (Inr n)
  then show ?thesis
    using frames_from_merge [OF assms(2) frame_saysI [OF assms(1) Inr]] assms(2)
    by (auto simp: add_observation_def split: prod.splits)
qed (use assms in \<open>cases f; simp add: add_observation_def\<close>)

lemma frames_from_server:
  assumes "f \<in> F" "frames_from F d" "add_server_frame d f = Inr d'"
  shows "frames_from F d'"
proof (cases "d' = d")
  case False
  then obtain n where n: "py_int (dget (snd f) ''sequence'' []) = Inr n" "d' = dset n (snd f) d"
    using assms(3)
    by (cases f) (auto simp: add_server_frame_def bindr_def dget_def split: sum.splits option.splits if_splits)
  then show ?thesis
    using frames_from_set [OF assms(2) frame_saysI [OF assms(1) n(1)]] by simp
qed (use assms in simp)

lemma frames_from_servers:
  assumes "set fs \<subseteq> F" "frames_from F d" "foldr_res add_server_frame d fs = Inr d'"
  shows "frames_from F d'"
  using assms
proof (induction fs arbitrary: d)
  case (Cons f fs)
  then obtain e where e: "add_server_frame d f = Inr e" "foldr_res add_server_frame e fs = Inr d'"
    by (auto simp: bindr_def split: sum.splits)
  then show ?case
    using Cons.IH [OF _ frames_from_server [OF _ Cons.prems(2) e(1)] e(2)] Cons.prems(1) by simp
qed simp

definition device_entry :: "(string \<times> srow) set \<Rightarrow> int \<times> srow \<Rightarrow> bool" where
  "device_entry F e \<longleftrightarrow> (\<forall>kv\<in>set (snd e). \<exists>f\<in>F. frame_says f (fst e) kv)"

lemma device_entry_add:
  assumes "f \<in> F" "list_all (device_entry F) d"
  shows "list_all (device_entry F) (add_device_frame d f)"
proof (cases "py_int (dget (snd f) ''sequence'' [])")
  case (Inr n)
  have "device_entry F (n, snd f)"
    using frame_saysI [OF assms(1) Inr] by (simp add: device_entry_def)
  then have "list_all (device_entry F) (dset n (snd f) d)"
    using assms(2) dset_set [of n "snd f" d] by (auto simp: list_all_iff)
  then show ?thesis
    using assms(2) Inr by (auto simp: add_device_frame_def split: prod.splits)
qed (use assms in \<open>cases f; simp add: add_device_frame_def\<close>)

lemma device_entries:
  "set fs \<subseteq> F \<Longrightarrow> list_all (device_entry F) d \<Longrightarrow>
   list_all (device_entry F) (fold (\<lambda>f d. add_device_frame d f) fs d)"
  by (induction fs arbitrary: d) (simp_all add: device_entry_add)

lemma board_frames_from:
  assumes "set obs \<subseteq> F" "list_all (device_entry F) device"
  shows "frames_from F (board_frames obs device)"
  unfolding board_frames_def
proof (rule frames_from_fold)
  show "frames_from F (fold (\<lambda>f board. add_observation board f) obs [])"
    using assms(1) by (auto intro!: frames_from_fold frames_from_observation)
next
  fix x and d :: frames
  assume "x \<in> set device" "frames_from F d"
  then show "frames_from F ((case x of (n, values) \<Rightarrow> \<lambda>board. merge_frame n values board) d)"
    using assms(2) frames_from_merge [of F d "snd x" "fst x"]
    by (simp add: device_entry_def list_all_iff split_beta)
qed

text \<open>A row that says \<open>success\<close> has a frame with its sequence number that says so.\<close>

lemma operation_row_shape:
  assumes "operation_row job board server a rc st windows p = Inr r"
  shows "take 10 r = row_identity job a p
    (operation_status (fst (operation_values board server st (op_order p))) st)"
  using assms
  by (auto simp: operation_row_def bindr_def Let_def row_identity_def split_beta split: sum.splits)

lemma operation_success_said:
  assumes "frames_from F board" "frames_from F server"
    and "operation_status (fst (operation_values board server st n)) st = ''success''"
  shows "\<exists>f\<in>F. frame_says f n (''status'', ''success'')"
proof -
  have mem: "(k, v) \<in> set d" if "map_of d k = Some v" for d :: srow and k v
    using that by (rule map_of_SomeD)
  have "(''status'', ''success'') \<in> set (dget board n []) \<or> (''status'', ''success'') \<in> set (dget server n [])"
    using assms(3) mem
    by (auto simp: operation_status_def operation_values_def Let_def dget_def [where k = "''status''"]
        split: if_splits option.splits)
  with assms(1,2) show ?thesis by (auto simp: frames_from_def)
qed

section \<open>Properties\<close>

text \<open>
  C22: A round gives exactly one row for each planned operation, in the planned order, under
  the identity of the operation, the attempt and the round; and a row that says \<open>success\<close>
  rests on a frame with the number of the operation that says so: an observation of the board,
  or a frame of the server log read at the time.
\<close>

theorem transfer_rows_sound:
  assumes "transfer_rows_for_round H job obs broker_log a rc st windows s = (Inr rows, t)"
  shows "\<exists>us ls. list_all2 (\<lambda>u l. fst (read_lines H broker_log u) = Inr l) us ls \<and>
     list_all2 (\<lambda>p r. \<exists>status. take 10 r = row_identity job a p status \<and>
       (status = ''success'' \<longrightarrow> (\<exists>f\<in>set (obs @ frames_of (concat ls)).
          frame_says f (op_order p) (''status'', ''success'')))) (tr_operations job) rows"
proof -
  obtain l1 l2 u server where
    l1: "read_lines H broker_log s = (Inr l1, u)" and
    l2: "fst (read_lines H broker_log u) = Inr l2" and
    server: "foldr_res add_server_frame [] (frames_of l1) = Inr server" and
    rows: "mapr (operation_row job (board_frames obs (fold (\<lambda>f d. add_device_frame d f) (frames_of l2) []))
       server a rc st windows) (tr_operations job) = Inr rows"
    using assms unfolding transfer_rows_for_round_def parse_transfer_server_metrics_def
      parse_transfer_device_metrics_def by (auto elim!: bindm_okE)
  let ?F = "set (obs @ frames_of (concat [l1, l2]))"
  let ?board = "board_frames obs (fold (\<lambda>f d. add_device_frame d f) (frames_of l2) [])"
  have frames: "frames_of (concat [l1, l2]) = frames_of l1 @ frames_of l2"
    by (simp add: frames_of_def map_filter_def)
  have "frames_from ?F server"
    by (rule frames_from_servers [OF _ frames_from_nil server]) (auto simp: frames simp del: concat.simps)
  moreover have "frames_from ?F ?board"
    by (rule board_frames_from, force, rule device_entries) (auto simp: frames simp del: concat.simps)
  ultimately have "\<exists>status. take 10 r = row_identity job a p status \<and>
       (status = ''success'' \<longrightarrow> (\<exists>f\<in>?F. frame_says f (op_order p) (''status'', ''success'')))"
    if "operation_row job ?board server a rc st windows p = Inr r" for p r
    using operation_row_shape [OF that] operation_success_said by blast
  then have "list_all2 (\<lambda>p r. \<exists>status. take 10 r = row_identity job a p status \<and>
       (status = ''success'' \<longrightarrow> (\<exists>f\<in>?F. frame_says f (op_order p) (''status'', ''success''))))
       (tr_operations job) rows"
    using rows unfolding mapr_Inr_iff by (auto elim!: list_all2_mono)
  moreover have "list_all2 (\<lambda>u l. fst (read_lines H broker_log u) = Inr l) [s, u] [l1, l2]"
    using l1 l2 by simp
  ultimately show ?thesis by blast
qed

definition demo_round :: transfer_round where
  "demo_round = \<lparr>tr_sequence = 1, tr_case_id = ''a'', tr_round_index = 1, tr_operations =
     [\<lparr>op_order = 1, op_iteration = 1, op_direction = ''server_to_device'', op_payload_bytes = 0, op_payload_seed = 5\<rparr>]\<rparr>"

definition demo_frames :: "(string \<times> srow) list" where
  "demo_frames = [(''TRANSFER_RESULT'', [(''sequence'', ''1''), (''status'', ''success'')])]"

lemma transfer_rows_sound_witness:
  "\<exists>r t. transfer_rows_for_round script_host demo_round demo_frames ''broker.log'' 1 0 ''success'' None
       (script_start [] [] []) = (Inr [r], t) \<and> map_of r ''status'' = Some (PStr ''success'') \<and>
     (\<exists>us ls. list_all2 (\<lambda>u l. fst (read_lines script_host ''broker.log'' u) = Inr l) us ls \<and>
       list_all2 (\<lambda>p r. \<exists>status. take 10 r = row_identity demo_round 1 p status \<and>
         (status = ''success'' \<longrightarrow> (\<exists>f\<in>set (demo_frames @ frames_of (concat ls)).
            frame_says f (op_order p) (''status'', ''success'')))) (tr_operations demo_round) [r])"
proof -
  let ?p = "hd (tr_operations demo_round)"
  let ?v = "[(''sequence'', ''1''), (''status'', ''success'')]"
  have vals: "operation_values (board_frames demo_frames []) [] ''success'' (op_order ?p) = (?v, [])"
    "operation_status ?v ''success'' = ''success''" by code_simp+
  have cells: "publish_header_bytes ?p [] = Inr 16" "dget ?v ''packet_id'' [] = []"
    "microseconds_as_milliseconds ?v ''ack_us'' = Inr []"
    "basis_points ?v ''client_cpu_usage_bp'' = Inr []" "basis_points ?v ''system_cpu_usage_bp'' = Inr []"
    "microseconds_as_milliseconds ?v ''l2cap_tx_wait_us'' = Inr []"
    by code_simp+
  have hash: "\<exists>h. payload_sha256 (op_payload_seed ?p) (op_payload_bytes ?p) 1024 = Inr h"
    by (simp add: payload_sha256_def demo_round_def)
  obtain r where r: "operation_row demo_round (board_frames demo_frames []) [] 1 0 ''success'' None ?p = Inr r"
    using hash by (auto simp: operation_row_def power_of_def vals cells number_def Let_def bindr_def)
  have reads: "read_lines script_host ''broker.log'' (script_start [] [] []) = (Inr [], script_start [] [] [])"
    by code_simp
  have run: "transfer_rows_for_round script_host demo_round demo_frames ''broker.log'' 1 0 ''success'' None
       (script_start [] [] []) = (Inr [r], script_start [] [] [])"
    using r by (simp add: transfer_rows_for_round_def parse_transfer_server_metrics_def
        parse_transfer_device_metrics_def bindm_def reads liftm_def retm_def frames_of_def
        map_filter_def demo_round_def bindr_def)
  have "map_of r ''status'' = Some (PStr ''success'')"
    using r vals hash by (auto simp: operation_row_def power_of_def cells number_def Let_def bindr_def row_identity_def)
  then show ?thesis
    by (rule_tac x = r in exI, rule_tac x = "script_start [] [] []" in exI)
      (intro conjI run transfer_rows_sound [OF run])
qed

end
