(* ===== verification/Py_Json.thy ===== *)
theory Py_Json
  imports Py_Host
begin

text \<open>
  Reading JSON text, as \<open>json.loads\<close> does: the values of \<open>pyval\<close>, with the escapes of
  strings; a character outside Latin-1 leaves the model.  The readers take the number of
  characters left as their bound.
\<close>

definition json_error :: "'a res" where
  "json_error = Inl (ValueError ''Expecting value'')"

definition skip_ws :: "string \<Rightarrow> string" where
  "skip_ws s = dropWhile (\<lambda>c. c = CHR '' '' \<or> c = CHR 0x0A \<or> c = CHR 0x0D \<or> c = CHR 0x09) s"

definition hex_val :: "char \<Rightarrow> int option" where
  "hex_val c = (let n = ccode c in
     if 48 \<le> n \<and> n \<le> 57 then Some (n - 48)
     else if 97 \<le> n \<and> n \<le> 102 then Some (n - 87)
     else if 65 \<le> n \<and> n \<le> 70 then Some (n - 55) else None)"

definition simple_escape :: "char \<Rightarrow> char option" where
  "simple_escape c = map_of [(CHR 0x22, CHR 0x22), (CHR 0x5C, CHR 0x5C), (CHR ''/'', CHR ''/''),
     (CHR ''n'', CHR 0x0A), (CHR ''r'', CHR 0x0D), (CHR ''t'', CHR 0x09), (CHR ''b'', CHR 0x08),
     (CHR ''f'', CHR 0x0C)] c"

fun json_chars :: "string \<Rightarrow> string \<Rightarrow> (string \<times> string) res" where
  "json_chars acc [] = json_error"
| "json_chars acc (c # s) =
     (if c = CHR 0x22 then Inr (rev acc, s)
      else if c \<noteq> CHR 0x5C then (if ccode c < 32 then json_error else json_chars (c # acc) s)
      else (case s of [] \<Rightarrow> json_error
        | e # r \<Rightarrow> (case simple_escape e of Some d \<Rightarrow> json_chars (d # acc) r
            | None \<Rightarrow> (case r of
                a # b # x # y # r' \<Rightarrow>
                  (if e \<noteq> CHR ''u'' then json_error
                   else (case (hex_val a, hex_val b, hex_val x, hex_val y) of
                       (Some ha, Some hb, Some hx, Some hy) \<Rightarrow>
                         (if ha \<noteq> 0 \<or> hb \<noteq> 0 then Inl (OutsideModel ''text outside Latin-1'')
                          else json_chars (char_of (16 * hx + hy) # acc) r')
                     | _ \<Rightarrow> json_error))
              | _ \<Rightarrow> json_error))))"

definition is_number_char :: "char \<Rightarrow> bool" where
  "is_number_char c \<longleftrightarrow> is_digit c \<or> c \<in> set ''+-.eE''"

definition json_number :: "string \<Rightarrow> (pyval \<times> string) res" where
  "json_number s = (let t = takeWhile is_number_char s; r = dropWhile is_number_char s in
     if t = [] then json_error
     else if list_ex (\<lambda>c. c \<in> set ''.eE'') t then bindr (py_float t) (\<lambda>x. Inr (PFloat x, r))
     else bindr (py_int t) (\<lambda>i. Inr (PInt i, r)))"

fun json_value :: "nat \<Rightarrow> string \<Rightarrow> (pyval \<times> string) res"
  and json_items :: "nat \<Rightarrow> string \<Rightarrow> (pyval list \<times> string) res"
  and json_members :: "nat \<Rightarrow> string \<Rightarrow> ((string, pyval) dict \<times> string) res" where
  "json_value 0 s = json_error"
| "json_value (Suc n) s0 = (let s = skip_ws s0 in
     if startswith s ''null'' then Inr (PNone, drop 4 s)
     else if startswith s ''true'' then Inr (PBool True, drop 4 s)
     else if startswith s ''false'' then Inr (PBool False, drop 5 s)
     else case s of [] \<Rightarrow> json_error
       | c # r \<Rightarrow>
           (if c = CHR 0x22 then bindr (json_chars [] r) (\<lambda>(t, r'). Inr (PStr t, r'))
            else if c = CHR ''['' then
              (case skip_ws r of d # r' \<Rightarrow> if d = CHR '']'' then Inr (PList [], r')
                 else bindr (json_items n r) (\<lambda>(xs, r''). Inr (PList xs, r''))
               | [] \<Rightarrow> json_error)
            else if c = CHR ''{'' then
              (case skip_ws r of d # r' \<Rightarrow> if d = CHR ''}'' then Inr (PDict [], r')
                 else bindr (json_members n r) (\<lambda>(xs, r''). Inr (PDict (dict_of xs), r''))
               | [] \<Rightarrow> json_error)
            else json_number s))"
| "json_items 0 s = json_error"
| "json_items (Suc n) s =
     bindr (json_value n s) (\<lambda>(x, r). case skip_ws r of [] \<Rightarrow> json_error
       | c # r' \<Rightarrow> (if c = CHR '']'' then Inr ([x], r')
           else if c = CHR '','' then bindr (json_items n r') (\<lambda>(xs, r''). Inr (x # xs, r''))
           else json_error))"
| "json_members 0 s = json_error"
| "json_members (Suc n) s =
     (case skip_ws s of [] \<Rightarrow> json_error
      | q # r \<Rightarrow> (if q \<noteq> CHR 0x22 then json_error else
          bindr (json_chars [] r) (\<lambda>(k, r1). case skip_ws r1 of [] \<Rightarrow> json_error
            | c # r2 \<Rightarrow> (if c \<noteq> CHR '':'' then json_error else
                bindr (json_value n r2) (\<lambda>(x, r3). case skip_ws r3 of [] \<Rightarrow> json_error
                  | d # r4 \<Rightarrow> (if d = CHR ''}'' then Inr ([(k, x)], r4)
                      else if d = CHR '','' then bindr (json_members n r4) (\<lambda>(xs, r5). Inr ((k, x) # xs, r5))
                      else json_error))))))"

definition json_loads :: "string \<Rightarrow> pyval res" where
  "json_loads s = bindr (json_value (2 * length s + 2) s) (\<lambda>(x, r).
     if skip_ws r = [] then Inr x else json_error)"

definition json_dict :: "pyval \<Rightarrow> row res" where
  "json_dict v = (case v of PDict d \<Rightarrow> Inr d | _ \<Rightarrow> Inl (TypeError ''dictionary''))"

text \<open>\<open>json.dumps(v, indent=2)\<close>, where \<open>n\<close> is the indentation of the value.\<close>

definition json_lines :: "nat \<Rightarrow> char \<Rightarrow> char \<Rightarrow> string list \<Rightarrow> string" where
  "json_lines n l r items = (if items = [] then [l, r]
     else [l] @ newline @ join ('','' @ newline) (map (\<lambda>t. replicate (n + 2) CHR '' '' @ t) items) @
       newline @ replicate n CHR '' '' @ [r])"

fun json_pretty :: "nat \<Rightarrow> pyval \<Rightarrow> string res" where
  "json_pretty n (PList xs) = bindr (mapr (json_pretty (n + 2)) xs) (\<lambda>ts.
     Inr (json_lines n CHR ''['' CHR '']'' ts))"
| "json_pretty n (PDict d) = bindr (mapr (\<lambda>kv. bindr (json_pretty (n + 2) (snd kv)) (\<lambda>t.
     Inr (json_string (fst kv) @ '': '' @ t))) d) (\<lambda>ts. Inr (json_lines n CHR ''{'' CHR ''}'' ts))"
| "json_pretty n v = json_text v"

section \<open>Reading back what is written\<close>

lemma ccode_eq_iff: "ccode c = ccode d \<longleftrightarrow> c = d"
  by (simp add: ccode_def)

text \<open>Every character of the model, escaped, is read as itself.\<close>

lemma escapes_read:
  "case hex_pad 4 (ccode c) of [a, b, x, y] \<Rightarrow> hex_val a = Some 0 \<and> hex_val b = Some 0 \<and>
     (case (hex_val x, hex_val y) of (Some hx, Some hy) \<Rightarrow> char_of (16 * hx + hy) = c | _ \<Rightarrow> False)
   | _ \<Rightarrow> False"
proof -
  have "list_all (\<lambda>c. case hex_pad 4 (ccode c) of [a, b, x, y] \<Rightarrow> hex_val a = Some 0 \<and> hex_val b = Some 0 \<and>
     (case (hex_val x, hex_val y) of (Some hx, Some hy) \<Rightarrow> char_of (16 * hx + hy) = c | _ \<Rightarrow> False)
     | _ \<Rightarrow> False) Enum.enum"
    by code_simp
  then show ?thesis by (simp only: list_all_iff enum_UNIV UNIV_I ball_UNIV)
qed

lemma json_char_read: "json_chars acc (json_char c @ s) = json_chars (c # acc) s"
proof -
  consider "c = CHR 0x22 \<or> c = CHR 0x5C" | "ccode c \<in> {8, 9, 10, 12, 13}" "c \<noteq> CHR 0x22" "c \<noteq> CHR 0x5C"
    | "ccode c \<notin> {8, 9, 10, 12, 13}" "ccode c < 32 \<or> 126 < ccode c" "c \<noteq> CHR 0x22" "c \<noteq> CHR 0x5C"
    | "\<not> ccode c < 32" "\<not> 126 < ccode c" "c \<noteq> CHR 0x22" "c \<noteq> CHR 0x5C" by blast
  then show ?thesis
  proof cases
    case 2
    then have "c \<in> {CHR 0x08, CHR 0x09, CHR 0x0A, CHR 0x0C, CHR 0x0D}"
      using ccode_eq_iff [of c "CHR 0x08"] ccode_eq_iff [of c "CHR 0x09"] ccode_eq_iff [of c "CHR 0x0A"]
        ccode_eq_iff [of c "CHR 0x0C"] ccode_eq_iff [of c "CHR 0x0D"] by (auto simp: ccode_def)
    then show ?thesis by (auto simp: json_char_def simple_escape_def ccode_def)
  next
    case 3
    then show ?thesis
      using escapes_read [of c]
      by (auto simp: json_char_def simple_escape_def split: list.splits option.splits)
  qed (auto simp: json_char_def simple_escape_def)
qed

lemma json_string_read: "json_chars acc (concat (map json_char s) @ CHR 0x22 # r) = Inr (rev acc @ s, r)"
  by (induction s arbitrary: acc) (simp_all add: json_char_read)

fun storable :: "pyval \<Rightarrow> bool" where
  "storable (PFloat x) = False"
| "storable (PList xs) = list_all storable xs"
| "storable (PDict d) = (distinct (map fst d) \<and> list_all (\<lambda>kv. storable (snd kv)) d)"
| "storable _ = True"

text \<open>The depth of calls that a reader of the value makes.\<close>

fun effort :: "pyval \<Rightarrow> nat" where
  "effort (PList xs) = Suc (sum_list (map (\<lambda>x. Suc (effort x)) xs))"
| "effort (PDict d) = Suc (sum_list (map (\<lambda>kv. Suc (effort (snd kv))) d))"
| "effort _ = 1"

lemma dict_of_distinct_id: "distinct (map fst d) \<Longrightarrow> dict_of d = d"
proof -
  have "distinct (map fst (d @ e)) \<Longrightarrow> dupdate d e = d @ e" for e and d :: "('a \<times> 'b) list"
  proof (induction e arbitrary: d)
    case (Cons kv e)
    obtain k v where kv: "kv = (k, v)" by fastforce
    have "dset k v d = d @ [(k, v)]"
      using Cons.prems kv by (induction d) (auto simp: dset_def)
    then show ?case using Cons.IH [of "d @ [(k, v)]"] Cons.prems kv by (simp add: dupdate_def)
  qed (simp add: dupdate_def)
  then show "distinct (map fst d) \<Longrightarrow> dict_of d = d" by (simp add: dict_of_def)
qed

definition blank :: "char \<Rightarrow> bool" where
  "blank c \<longleftrightarrow> c = CHR '' '' \<or> c = CHR 0x0A \<or> c = CHR 0x0D \<or> c = CHR 0x09"

lemma skip_ws_blank: "list_all blank ws \<Longrightarrow> skip_ws (ws @ s) = skip_ws s"
  by (induction ws) (auto simp: skip_ws_def blank_def)

lemma skip_ws_Cons: "\<not> blank c \<Longrightarrow> skip_ws (c # s) = c # s"
  by (auto simp: skip_ws_def blank_def)

lemma not_blank [simp]: "\<not> blank CHR '']''" "\<not> blank CHR ''}''" "\<not> blank CHR '',''" "\<not> blank CHR '':''" "\<not> blank CHR 0x22"
  by (simp_all add: blank_def)

lemma not_number [simp]: "\<not> is_number_char CHR '']''" "\<not> is_number_char CHR ''}''" "\<not> is_number_char CHR '',''"
  by (simp_all add: is_number_char_def is_digit_def ccode_def)

lemma blank_indent: "list_all blank (newline @ replicate n CHR '' '')" "list_all blank (replicate n CHR '' '')"
  by (auto simp: blank_def list_all_iff)

text \<open>How the text of a value begins.\<close>

definition opens :: "char \<Rightarrow> bool" where
  "opens c \<longleftrightarrow> is_digit c \<or> c \<in> set ''-[{ntf'' \<or> c = CHR 0x22"

lemma opens_not: "opens c \<Longrightarrow> \<not> blank c \<and> c \<noteq> CHR '']'' \<and> c \<noteq> CHR ''}''"
  by (auto simp: opens_def blank_def is_digit_def ccode_def)

lemma str_int_opens:
  obtains c s where "str_int i = c # s" "is_digit c \<or> c = CHR ''-''" "list_all is_digit s"
proof (cases "i < 0")
  case True
  have "list_all is_digit (str_pos (- i))" using True str_pos_all_digits [of "- i"] by (auto simp: list_all_iff)
  then show ?thesis using that True by (simp add: str_int_def)
next
  case False
  then have "list_all is_digit (str_pos i)" using str_pos_all_digits [of i] by (auto simp: list_all_iff)
  then show ?thesis using that False str_pos_ne [of i] by (cases "str_pos i") (simp_all add: str_int_def)
qed

lemma json_text_opens:
  assumes "json_pretty n v = Inr t"
  shows "\<exists>c u. t = c # u \<and> opens c"
proof (cases v)
  case (PInt i)
  then show ?thesis using assms by (auto simp: opens_def intro: str_int_opens [of i])
qed (use assms in \<open>auto simp: opens_def json_string_def json_lines_def bindr_eq_Inr\<close>)

definition ends_number :: "string \<Rightarrow> bool" where
  "ends_number r \<longleftrightarrow> (case r of [] \<Rightarrow> True | c # _ \<Rightarrow> \<not> is_number_char c)"

lemma json_number_read:
  assumes "ends_number r"
  shows "json_number (str_int i @ r) = Inr (PInt i, r)"
proof -
  obtain c s where cs: "str_int i = c # s" "is_digit c \<or> c = CHR ''-''" "list_all is_digit s"
    by (rule str_int_opens)
  have chars: "list_all is_number_char (str_int i)" "\<not> list_ex (\<lambda>c. c \<in> set ''.eE'') (str_int i)"
    using cs by (auto simp: is_number_char_def list_all_iff list_ex_iff is_digit_def ccode_def)
  have "takeWhile is_number_char (str_int i @ r) = str_int i" "dropWhile is_number_char (str_int i @ r) = r"
    using chars(1) assms
    by (auto simp: ends_number_def list_all_iff takeWhile_append2 dropWhile_append2 split: list.splits)
  moreover have "str_int i \<noteq> []" using cs(1) by simp
  ultimately show ?thesis using chars(2) by (simp add: json_number_def Let_def)
qed

lemma json_value_blank: "list_all blank ws \<Longrightarrow> json_value m (ws @ s) = json_value m s"
  by (cases m) (simp_all add: skip_ws_blank Let_def)

lemma startswith_hd: "c \<noteq> d \<Longrightarrow> \<not> startswith (c # s) (d # p)"
  by (simp add: startswith_def)

lemma ends_number_blank: "list_all blank ws \<Longrightarrow> \<not> is_number_char c \<Longrightarrow> ends_number (ws @ c # r)"
  by (cases ws) (auto simp: ends_number_def blank_def is_number_char_def is_digit_def ccode_def)

lemma items_read:
  assumes read: "\<And>x t m r. x \<in> set xs \<Longrightarrow> json_pretty k x = Inr t \<Longrightarrow> effort x \<le> m \<Longrightarrow> ends_number r \<Longrightarrow>
      json_value m (t @ r) = Inr (x, r)"
    and "mapr (json_pretty k) xs = Inr ts" "xs \<noteq> []" "sum_list (map (\<lambda>x. Suc (effort x)) xs) \<le> m"
    and "list_all blank ws" "list_all blank pad" "list_all blank close"
  shows "json_items m (ws @ join ('','' @ newline) (map (\<lambda>t. pad @ t) ts) @ close @ CHR '']'' # r) = Inr (xs, r)"
  using assms
proof (induction xs arbitrary: ws ts m)
  case (Cons x xs)
  obtain t ts' where ts: "ts = t # ts'" "json_pretty k x = Inr t" "mapr (json_pretty k) xs = Inr ts'"
    using Cons.prems(2) by (auto simp: bindr_eq_Inr)
  obtain m' where m: "m = Suc m'" using Cons.prems(4) by (cases m) auto
  have got: "json_value m' (ws @ pad @ t @ r') = Inr (x, r')" if "ends_number r'" for r'
    using Cons.prems(1) [of x t m' r'] Cons.prems(4-6) ts(2) that m
    by (simp add: json_value_blank)
  show ?case
  proof (cases xs)
    case Nil
    have "ends_number (close @ CHR '']'' # r)"
      using Cons.prems(7) by (rule ends_number_blank) simp
    from got [OF this] show ?thesis
      using Nil ts m Cons.prems(7) by (simp add: skip_ws_blank skip_ws_Cons)
  next
    case (Cons y ys)
    let ?rest = "newline @ join ('','' @ newline) (map (\<lambda>t. pad @ t) ts') @ close @ CHR '']'' # r"
    have "ts' \<noteq> []" using ts(3) Cons by (auto simp: bindr_eq_Inr)
    then have split: "ws @ join ('','' @ newline) (map (\<lambda>t. pad @ t) ts) @ close @ CHR '']'' # r =
        ws @ pad @ t @ CHR '','' # ?rest"
      unfolding ts(1) by (cases ts') simp_all
    have more: "json_items m' ?rest = Inr (xs, r)"
      using Cons Cons.prems(1) ts(3) Cons.prems(4,6,7) m
      by (intro Cons.IH) (auto simp: blank_def)
    have "ends_number (CHR '','' # ?rest)" by (simp add: ends_number_def)
    from got [OF this] more show ?thesis
      unfolding split by (simp add: m skip_ws_Cons)
  qed
qed simp

definition member_text :: "nat \<Rightarrow> string \<times> pyval \<Rightarrow> string res" where
  "member_text n kv = bindr (json_pretty n (snd kv)) (\<lambda>t. Inr (json_string (fst kv) @ '': '' @ t))"

lemma member_text_Inr: "member_text n kv = Inr s \<longleftrightarrow>
    (\<exists>t. json_pretty n (snd kv) = Inr t \<and> s = json_string (fst kv) @ '': '' @ t)"
  by (auto simp: member_text_def bindr_eq_Inr)

lemma members_read:
  assumes read: "\<And>kv t m r. kv \<in> set d \<Longrightarrow> json_pretty k (snd kv) = Inr t \<Longrightarrow> effort (snd kv) \<le> m \<Longrightarrow> ends_number r \<Longrightarrow>
      json_value m (t @ r) = Inr (snd kv, r)"
    and "mapr (member_text k) d = Inr ts" "d \<noteq> []" "sum_list (map (\<lambda>kv. Suc (effort (snd kv))) d) \<le> m"
    and "list_all blank ws" "list_all blank pad" "list_all blank close"
  shows "json_members m (ws @ join ('','' @ newline) (map (\<lambda>t. pad @ t) ts) @ close @ CHR ''}'' # r) = Inr (d, r)"
  using assms
proof (induction d arbitrary: ws ts m)
  case (Cons kv d)
  obtain key v where kv: "kv = (key, v)" by fastforce
  obtain t ts' where ts: "ts = (json_string key @ '': '' @ t) # ts'" "json_pretty k v = Inr t"
      "mapr (member_text k) d = Inr ts'"
    using Cons.prems(2) kv by (auto simp: bindr_eq_Inr member_text_Inr)
  obtain m' where m: "m = Suc m'" using Cons.prems(4) by (cases m) auto
  have got: "json_value m' ('' '' @ t @ r') = Inr (v, r')" if "ends_number r'" for r'
    using Cons.prems(1) [of kv t m' r'] Cons.prems(4) ts(2) that m kv json_value_blank [of "'' ''" m' "t @ r'"]
    by (simp add: blank_def)
  have key: "skip_ws (ws @ pad @ json_string key @ q) = CHR 0x22 # concat (map json_char key) @ CHR 0x22 # q" for q
    using Cons.prems(5,6) by (simp add: skip_ws_blank json_string_def skip_ws_Cons)
  show ?case
  proof (cases d)
    case Nil
    have "ends_number (close @ CHR ''}'' # r)"
      using Cons.prems(7) by (rule ends_number_blank) simp
    from got [OF this] show ?thesis
      using Nil ts m Cons.prems(7) key kv by (simp add: skip_ws_blank skip_ws_Cons json_string_read)
  next
    case (Cons y ys)
    let ?rest = "newline @ join ('','' @ newline) (map (\<lambda>t. pad @ t) ts') @ close @ CHR ''}'' # r"
    have "ts' \<noteq> []" using ts(3) Cons by (auto simp: bindr_eq_Inr)
    then have split: "ws @ join ('','' @ newline) (map (\<lambda>t. pad @ t) ts) @ close @ CHR ''}'' # r =
        ws @ pad @ json_string key @ '': '' @ t @ CHR '','' # ?rest"
      unfolding ts(1) by (cases ts') simp_all
    have more: "json_members m' ?rest = Inr (d, r)"
      using Cons Cons.prems(1) ts(3) Cons.prems(4,6,7) m
      by (intro Cons.IH) (auto simp: blank_def)
    have "ends_number (CHR '','' # ?rest)" by (simp add: ends_number_def)
    from got [OF this] more key show ?thesis
      unfolding split by (simp add: m skip_ws_Cons json_string_read kv)
  qed
qed simp

lemma lines_head:
  assumes "\<not> blank c"
  shows "\<exists>z. skip_ws (newline @ join ('','' @ newline) (map (\<lambda>t. replicate k CHR '' '' @ t) ((c # u) # us)) @ e) = c # z"
proof -
  obtain z where z: "join ('','' @ newline) (map (\<lambda>t. replicate k CHR '' '' @ t) ((c # u) # us)) =
      replicate k CHR '' '' @ c # z"
    by (cases us) simp_all
  have "skip_ws ((newline @ replicate k CHR '' '') @ c # z @ e) = c # z @ e"
    by (simp only: skip_ws_blank [OF blank_indent(1)] skip_ws_Cons [OF assms])
  then show ?thesis unfolding z by (intro exI [of _ "z @ e"]) simp
qed

lemma json_value_read:
  assumes "storable v" "json_pretty n v = Inr t" "effort v \<le> m" "ends_number r"
  shows "json_value m (t @ r) = Inr (v, r)"
  using assms
proof (induction v arbitrary: n t m r)
  case (PInt i)
  obtain c s where cs: "str_int i = c # s" "is_digit c \<or> c = CHR ''-''" by (rule str_int_opens)
  then have "\<not> blank c" and other: "c \<notin> set ''ntf[{''" "c \<noteq> CHR 0x22" by (auto simp: blank_def is_digit_def ccode_def)
  then have "skip_ws (str_int i @ r) = c # s @ r" using cs by (simp add: skip_ws_Cons)
  moreover obtain m' where m: "m = Suc m'" using PInt.prems(3) by (cases m) auto
  ultimately have "json_value m (str_int i @ r) = json_number (c # s @ r)"
    using other by (simp add: Let_def startswith_hd)
  also have "\<dots> = Inr (PInt i, r)" using json_number_read [OF PInt.prems(4), of i] cs(1) by simp
  finally show ?case using PInt.prems(2) by simp
next
  case (PStr s)
  then show ?case
    by (cases m) (auto simp: json_string_def skip_ws_Cons startswith_hd json_string_read)
next
  case (PList xs)
  obtain ts where ts: "mapr (json_pretty (n + 2)) xs = Inr ts" and t: "t = json_lines n CHR ''['' CHR '']'' ts"
    using PList.prems(2) by (auto simp: bindr_eq_Inr)
  obtain m' where m: "m = Suc m'" using PList.prems(3) by (cases m) auto
  show ?case
  proof (cases xs)
    case Nil
    then show ?thesis using ts t m by (simp add: json_lines_def skip_ws_Cons blank_def startswith_hd)
  next
    case (Cons x ys)
    let ?close = "newline @ replicate n CHR '' ''"
    let ?r = "newline @ join ('','' @ newline) (map (\<lambda>t. replicate (n + 2) CHR '' '' @ t) ts) @ ?close @ CHR '']'' # r"
    have ne: "ts \<noteq> []" using ts Cons by (auto simp: bindr_eq_Inr)
    have items: "json_items m' ?r = Inr (xs, r)"
      using PList.IH PList.prems(1,3) Cons ts m
      by (intro items_read [where k = "n + 2"]) (auto simp: list_all_iff blank_def)
    obtain u us where u: "ts = u # us" "json_pretty (n + 2) x = Inr u" using ts Cons by (auto simp: bindr_eq_Inr)
    obtain c u' where c: "u = c # u'" "opens c" using json_text_opens [OF u(2)] by blast
    define q where "q = ?r"
    obtain z where "skip_ws q = c # z"
      using lines_head opens_not [OF c(2)] unfolding q_def u(1) c(1) by blast
    moreover have "t @ r = CHR ''['' # q"
      by (simp only: t json_lines_def q_def ne if_False append_assoc append_Cons append_Nil)
    ultimately show ?thesis
      using items [folded q_def] opens_not [OF c(2)] m
      by (simp add: skip_ws_Cons blank_def startswith_hd)
  qed
next
  case (PDict d)
  obtain ts where ts: "mapr (member_text (n + 2)) d = Inr ts" and t: "t = json_lines n CHR ''{'' CHR ''}'' ts"
    using PDict.prems(2) by (auto simp: bindr_eq_Inr member_text_def [abs_def])
  obtain m' where m: "m = Suc m'" using PDict.prems(3) by (cases m) auto
  show ?case
  proof (cases d)
    case Nil
    then show ?thesis using ts t m by (simp add: json_lines_def skip_ws_Cons blank_def startswith_hd dict_of_def dupdate_def)
  next
    case (Cons kv ys)
    let ?close = "newline @ replicate n CHR '' ''"
    let ?r = "newline @ join ('','' @ newline) (map (\<lambda>t. replicate (n + 2) CHR '' '' @ t) ts) @ ?close @ CHR ''}'' # r"
    have ne: "ts \<noteq> []" using ts Cons by (auto simp: bindr_eq_Inr)
    have one: "json_value j (t @ e) = Inr (snd kv, e)"
      if "kv \<in> set d" "json_pretty (n + 2) (snd kv) = Inr t" "effort (snd kv) \<le> j" "ends_number e" for kv t j e
      using PDict.IH [of kv "snd kv" "n + 2" t j e] that PDict.prems(1)
      by (cases kv) (auto simp: list_all_iff)
    have "json_members m' (newline @ join ('','' @ newline) (map (\<lambda>t. replicate (n + 2) CHR '' '' @ t) ts) @
        (newline @ replicate n CHR '' '') @ CHR ''}'' # r) = Inr (d, r)"
      by (rule members_read [OF one ts]) (use PDict.prems(3) Cons m in \<open>simp_all add: blank_def list_all_iff\<close>)
    then have items: "json_members m' ?r = Inr (d, r)" by (simp only: append_assoc)
    obtain u us where u: "ts = (CHR 0x22 # u) # us"
      using ts Cons by (auto simp: bindr_eq_Inr member_text_Inr json_string_def)
    define q where "q = ?r"
    obtain z where "skip_ws q = CHR 0x22 # z" using lines_head not_blank(5) unfolding q_def u by blast
    moreover have "t @ r = CHR ''{'' # q"
      by (simp only: t json_lines_def q_def ne if_False append_assoc append_Cons append_Nil)
    ultimately show ?thesis
      using items [folded q_def] m dict_of_distinct_id [of d] PDict.prems(1)
      by (simp add: skip_ws_Cons blank_def startswith_hd)
  qed
qed (auto simp: startswith_def skip_ws_Cons blank_def elim: Suc_le_D dest!: Suc_le_D)

text \<open>The readers are given enough fuel.\<close>

lemma join_length: "length (concat ts) \<le> length (join sep ts)"
  by (induction sep ts rule: join.induct) auto

lemma json_lines_long: "2 + sum_list (map (\<lambda>t. length t + 1) ts) \<le> length (json_lines n l r ts)"
proof -
  have "sum_list (map (\<lambda>t. length t + 1) ts) \<le> length (concat (map (\<lambda>t. replicate (n + 2) CHR '' '' @ t) ts))"
    by (induction ts) auto
  also have "\<dots> \<le> length (join ('','' @ newline) (map (\<lambda>t. replicate (n + 2) CHR '' '' @ t) ts))"
    by (rule join_length)
  finally show ?thesis by (auto simp: json_lines_def)
qed

lemma mapr_sum:
  assumes "mapr f xs = Inr ts" "\<And>x t. x \<in> set xs \<Longrightarrow> f x = Inr t \<Longrightarrow> g x \<le> 2 * (length t + 1)"
  shows "sum_list (map g xs) \<le> 2 * sum_list (map (\<lambda>t. length t + 1) ts)"
  using assms by (induction xs arbitrary: ts) (fastforce simp: bindr_eq_Inr)+

lemma effort_le: "json_pretty n v = Inr t \<Longrightarrow> effort v \<le> 2 * length t"
proof (induction v arbitrary: n t)
  case (PInt i)
  then show ?case by (auto intro: str_int_opens [of i])
next
  case (PList xs)
  obtain ts where ts: "mapr (json_pretty (n + 2)) xs = Inr ts" "t = json_lines n CHR ''['' CHR '']'' ts"
    using PList.prems by (auto simp: bindr_eq_Inr)
  have "sum_list (map (\<lambda>x. Suc (effort x)) xs) \<le> 2 * sum_list (map (\<lambda>t. length t + 1) ts)"
    by (rule mapr_sum [OF ts(1)]) (use PList.IH in fastforce)
  then show ?case using json_lines_long [of ts n "CHR ''[''" "CHR '']''"]
    unfolding effort.simps ts(2) by linarith
next
  case (PDict d)
  obtain ts where ts: "mapr (member_text (n + 2)) d = Inr ts" "t = json_lines n CHR ''{'' CHR ''}'' ts"
    using PDict.prems by (auto simp: bindr_eq_Inr member_text_def [abs_def])
  have "sum_list (map (\<lambda>kv. Suc (effort (snd kv))) d) \<le> 2 * sum_list (map (\<lambda>t. length t + 1) ts)"
    by (rule mapr_sum [OF ts(1)]) (use PDict.IH in \<open>fastforce simp: member_text_Inr\<close>)
  then show ?case using json_lines_long [of ts n "CHR ''{''" "CHR ''}''"]
    unfolding effort.simps ts(2) by linarith
qed (auto simp: json_string_def)

lemma json_reads_back:
  assumes "storable v" "json_pretty 0 v = Inr t"
  shows "json_loads (t @ newline) = Inr v"
proof -
  have "json_value (2 * length (t @ newline) + 2) (t @ newline) = Inr (v, newline)"
    by (rule json_value_read [OF assms]) (use effort_le [OF assms(2)] in
      \<open>auto simp: ends_number_def is_number_char_def is_digit_def ccode_def\<close>)
  then show ?thesis by (simp add: json_loads_def skip_ws_def)
qed

section \<open>Properties\<close>


definition demo_json :: pyval where
  "demo_json = PDict [(''a'', PList [PInt (- 12), PNone]), (''b'', PDict [])]"


end
