(* ===== verification/Firmware_Build.thy ===== *)
theory Firmware_Build
  imports Py_Json
begin

text \<open>
  Building, flashing and measuring the firmware (\<open>benchmarklib/firmware.py\<close>): the environment
  of the Nordic toolchain, the \<open>west\<close> command lines, and the footprint read from the linker map.
\<close>

section \<open>Commands\<close>

definition PQM4_URL :: string where
  "PQM4_URL = ''https://github.com/mupq/pqm4.git''"

definition PQM4_COMMIT :: string where
  "PQM4_COMMIT = ''cc2c1b992b602d285bd15991a566d5f17b34c1fa''"

type_synonym environ = "(string, string) dict"

definition run_logged ::
  "'w host \<Rightarrow> string list \<Rightarrow> string \<Rightarrow> string option \<Rightarrow> environ option \<Rightarrow> ('w, unit) io" where
  "run_logged H cmd logf cwd env =
     bindm (run_to_log H logf
       ((case cwd of None \<Rightarrow> [] | Some d \<Rightarrow> ''$ cd '' @ d @ newline) @ ''$ '' @ join '' '' cmd @ newline)
       cmd cwd env) (\<lambda>rc.
     if rc \<noteq> 0 then raisem (CalledProcessError rc) else retm ())"

definition ensure_pqm4 :: "'w host \<Rightarrow> string \<Rightarrow> string \<Rightarrow> ('w, unit) io" where
  "ensure_pqm4 H directory logf =
     (let git = (\<lambda>args. run_logged H ([''git''] @ args) logf None None) in
      bindm (h_exists H (path_join directory ''.git'')) (\<lambda>present.
      seqm (whenm (\<not> present) (git [''clone'', ''--recursive'', PQM4_URL, directory]))
      (bindm (h_run H StdoutOnly [''git'', ''-C'', directory, ''rev-parse'', ''HEAD''] None None) (\<lambda>(rc, text).
       if rc \<noteq> 0 then raisem (CalledProcessError rc)
       else seqm (whenm (py_strip text \<noteq> PQM4_COMMIT)
              (seqm (git [''-C'', directory, ''fetch'', ''origin'', PQM4_COMMIT])
                    (git [''-C'', directory, ''checkout'', ''--detach'', PQM4_COMMIT])))
            (git [''-C'', directory, ''submodule'', ''update'', ''--init'', ''--recursive''])))))"

section \<open>The toolchain\<close>

text \<open>\<open>path.parents\<close>: every ancestor, ending in the root or in the current directory.\<close>

function path_parents :: "string \<Rightarrow> string list" where
  "path_parents p = (let d = path_parent p in
     if length p \<le> length d then [d] else if d = ''.'' \<or> d = ''/'' then [d] else d # path_parents d)"
  by pat_completeness auto
termination
  by (relation "measure length") (auto simp: Let_def)
declare path_parents.simps [simp del]

fun first_with_environment :: "'w host \<Rightarrow> string list \<Rightarrow> ('w, string option) io" where
  "first_with_environment H [] = retm None"
| "first_with_environment H (d # ds) =
     bindm (h_exists H (path_join d ''environment.json'')) (\<lambda>present.
     if present then retm (Some d) else first_with_environment H ds)"

definition toolchain_root_from_nrfutil :: "'w host \<Rightarrow> string \<Rightarrow> ('w, string option) io" where
  "toolchain_root_from_nrfutil H nrfutil =
     first_with_environment H (path_parent nrfutil # path_parents nrfutil)"

definition pv_str :: "pyval \<Rightarrow> string res" where
  "pv_str v = (case v of PStr s \<Rightarrow> Inr s | _ \<Rightarrow> Inl (TypeError ''str expected''))"

definition pv_list :: "pyval \<Rightarrow> pyval list res" where
  "pv_list v = (case v of PList xs \<Rightarrow> Inr xs | _ \<Rightarrow> Inl (TypeError ''list expected''))"

definition apply_env_item :: "string \<Rightarrow> environ \<Rightarrow> pyval \<Rightarrow> environ res" where
  "apply_env_item tool_root env v =
     bindr (json_dict v) (\<lambda>item.
     bindr (bindr (dindex item ''key'') pv_str) (\<lambda>key.
     bindr (dindex item ''type'') (\<lambda>kind.
     if kind = PStr ''string'' then
       bindr (bindr (dindex item ''value'') pv_str) (\<lambda>val. Inr (dset key val env))
     else if kind \<noteq> PStr ''relative_paths'' then Inr env
     else
       bindr (bindr (dindex item ''values'') pv_list) (\<lambda>vs.
       bindr (mapr pv_str vs) (\<lambda>parts.
       let paths = map (path_join tool_root) parts;
           treatment = dget item ''existing_value_treatment'' (PStr ''overwrite'') in
       Inr (if treatment = PStr ''prepend_to'' \<and> dget env key [] \<noteq> []
            then dset key (join '':'' (paths @ [dget env key []])) env
            else dset key (join '':'' paths) env))))))"

definition toolchain_environment :: "'w host \<Rightarrow> string \<Rightarrow> ('w, environ) io" where
  "toolchain_environment H nrfutil =
     bindm (h_environ H) (\<lambda>env.
     bindm (toolchain_root_from_nrfutil H nrfutil) (\<lambda>tool_root. case tool_root of
       None \<Rightarrow> retm env
     | Some d \<Rightarrow>
         bindm (h_read H (path_join d ''environment.json'')) (\<lambda>text.
         bindm (liftm (bindr (json_loads text) json_dict)) (\<lambda>vals.
         bindm (liftm (pv_list (dget vals ''env_vars'' (PList [])))) (\<lambda>items.
         liftm (foldr_res (apply_env_item d) env items))))))"

definition has_sdk_manager :: "'w host \<Rightarrow> string \<Rightarrow> ('w, bool) io" where
  "has_sdk_manager H nrfutil =
     catchm
       (bindm (toolchain_environment H nrfutil) (\<lambda>env.
        bindm (h_run H StdoutOnly [nrfutil, ''list''] None (Some env)) (\<lambda>(rc, text).
        retm (rc = 0 \<and> contains text ''sdk-manager''))))
       is_os_error (\<lambda>_. retm False)"

definition west_command ::
  "'w host \<Rightarrow> string \<Rightarrow> string \<Rightarrow> string \<Rightarrow> string list \<Rightarrow>
   ('w, string list \<times> string option \<times> environ option) io" where
  "west_command H nrfutil ncs_version ncs_chdir west_args =
     bindm (has_sdk_manager H nrfutil) (\<lambda>managed.
     if managed then retm
       ([nrfutil, ''sdk-manager'', ''toolchain'', ''launch'', ''--ncs-version'', ncs_version,
         ''--chdir'', ncs_chdir, ''--'', ''west''] @ west_args, None, None)
     else bindm (toolchain_environment H nrfutil) (\<lambda>env.
       retm ([''west''] @ west_args, Some ncs_chdir, Some env)))"

section \<open>Building and flashing\<close>

record build_args =
  ba_firmware_dir :: string
  ba_build_dir :: string
  ba_generated_dir :: string
  ba_log :: string
  ba_nrfutil :: string
  ba_ncs_version :: string
  ba_ncs_chdir :: string
  ba_board :: string
  ba_mlkem_backend :: string
  ba_pqm4_dir :: "string option"
  ba_power_markers :: bool
  ba_ble_telemetry :: bool
  ba_mtls :: bool
  ba_certificate_gen :: bool
  ba_kem_benchmark :: bool
  ba_transfer_mode :: bool

definition on_off :: "bool \<Rightarrow> string" where
  "on_off b = (if b then ''ON'' else ''OFF'')"

definition standalone_benchmark :: "build_args \<Rightarrow> bool" where
  "standalone_benchmark a \<longleftrightarrow> ba_certificate_gen a \<or> ba_kem_benchmark a"

definition cmake_args :: "build_args \<Rightarrow> string list" where
  "cmake_args a =
     [''-DBENCH_MLKEM_BACKEND='' @ ba_mlkem_backend a,
      ''-DBENCH_POWER_MARKERS='' @ on_off (ba_power_markers a),
      ''-DBENCH_BLE_TELEMETRY='' @ on_off (ba_ble_telemetry a),
      ''-DBENCH_MTLS_MODE='' @ on_off (ba_mtls a),
      ''-DBENCH_CERTIFICATE_GEN='' @ on_off (ba_certificate_gen a),
      ''-DBENCH_KEM_OPERATIONS='' @ on_off (ba_kem_benchmark a),
      ''-DBENCH_TRANSFER_MODE='' @ on_off (ba_transfer_mode a)] @
     (if \<not> standalone_benchmark a
      then [''-DBENCH_GENERATED_DIR='' @ ba_generated_dir a] @
           (if ba_power_markers a
            then [''-DEXTRA_CONF_FILE='' @ path_join (ba_firmware_dir a) ''power.conf''] else [])
      else [''-DEXTRA_CONF_FILE='' @ path_join (ba_firmware_dir a)
              (if ba_kem_benchmark a then ''kem_bench.conf'' else ''certgen.conf'')]) @
     (case ba_pqm4_dir a of None \<Rightarrow> [] | Some d \<Rightarrow> [''-DPQM4_ROOT='' @ d])"

definition build_environ :: "build_args \<Rightarrow> environ" where
  "build_environ a =
     (if \<not> standalone_benchmark a then [(''BENCH_GENERATED_DIR'', ba_generated_dir a)] else []) @
     [(''BENCH_MLKEM_BACKEND'', ba_mlkem_backend a), (''BENCH_MTLS_MODE'', on_off (ba_mtls a)),
      (''BENCH_TRANSFER_MODE'', on_off (ba_transfer_mode a))] @
     (case ba_pqm4_dir a of None \<Rightarrow> [] | Some d \<Rightarrow> [(''PQM4_ROOT'', d)])"

definition west_build_args :: "build_args \<Rightarrow> string list" where
  "west_build_args a =
     [''build'', ''-d'', ba_build_dir a, ''-p'', ''always'',
      if startswith (ba_board a) ''nrf5340dk/'' \<and> \<not> standalone_benchmark a then ''--sysbuild''
      else ''--no-sysbuild'',
      ''-b'', ba_board a, ba_firmware_dir a, ''--''] @ cmake_args a"

definition build_firmware :: "'w host \<Rightarrow> build_args \<Rightarrow> ('w, unit) io" where
  "build_firmware H a =
     (if ba_certificate_gen a \<and> ba_kem_benchmark a
      then raisem (ValueError ''certificate_gen and kem_benchmark are mutually exclusive'')
      else bindm (toolchain_environment H (ba_nrfutil a)) (\<lambda>base.
        let build_env = dupdate base (build_environ a) in
        bindm (west_command H (ba_nrfutil a) (ba_ncs_version a) (ba_ncs_chdir a) (west_build_args a))
          (\<lambda>(cmd, cwd, env).
        run_logged H cmd (ba_log a) cwd
          (Some (case env of None \<Rightarrow> build_env | Some e \<Rightarrow> dupdate e build_env)))))"

definition flash_firmware ::
  "'w host \<Rightarrow> string \<Rightarrow> string \<Rightarrow> string \<Rightarrow> string \<Rightarrow> string \<Rightarrow> ('w, unit) io" where
  "flash_firmware H build_dir logf nrfutil ncs_version ncs_chdir =
     bindm (west_command H nrfutil ncs_version ncs_chdir
       [''flash'', ''-d'', build_dir, ''--runner'', ''nrfutil'']) (\<lambda>(cmd, cwd, env).
     run_logged H cmd logf cwd env)"

definition reset_firmware :: "'w host \<Rightarrow> string \<Rightarrow> string \<Rightarrow> ('w, unit) io" where
  "reset_firmware H logf nrfutil =
     bindm (toolchain_environment H nrfutil) (\<lambda>env.
     run_logged H [nrfutil, ''device'', ''reset'', ''--traits'', ''jlink''] logf None (Some env))"

section \<open>The linker map\<close>

definition is_hex :: "char \<Rightarrow> bool" where
  "is_hex c \<longleftrightarrow> hex_val c \<noteq> None"

definition hex_number :: "string \<Rightarrow> int" where
  "hex_number ds = fold (\<lambda>c acc. 16 * acc + (case hex_val c of Some d \<Rightarrow> d | None \<Rightarrow> 0)) ds 0"

text \<open>\<open>0x([0-9a-fA-F]+)\<close> at the beginning of the text: the digits and what follows.\<close>

definition hex_literal :: "string \<Rightarrow> (string \<times> string) option" where
  "hex_literal s = (if startswith s ''0x'' \<and> takeWhile is_hex (drop 2 s) \<noteq> []
     then Some (takeWhile is_hex (drop 2 s), dropWhile is_hex (drop 2 s)) else None)"

text \<open>One blank at least (\<open>\s+\<close>), then the rest.\<close>

definition some_space :: "string \<Rightarrow> string option" where
  "some_space s = (case s of [] \<Rightarrow> None | c # r \<Rightarrow>
     if is_space c then Some (dropWhile is_space r) else None)"

definition used_at :: "string \<Rightarrow> int option" where
  "used_at s = (case hex_literal s of None \<Rightarrow> None
     | Some (ds, r) \<Rightarrow> (case some_space r of None \<Rightarrow> None
         | Some t \<Rightarrow> (if startswith t ''_flash_used'' \<and>
               startswith (dropWhile is_space (drop 11 t)) ''='' then Some (hex_number ds) else None)))"

fun search_used :: "string \<Rightarrow> int option" where
  "search_used [] = None"
| "search_used (c # s) = (case used_at (c # s) of Some n \<Rightarrow> Some n | None \<Rightarrow> search_used s)"

definition region_at :: "string \<Rightarrow> int option" where
  "region_at s = (if \<not> startswith s ''FLASH'' then None else
     case some_space (drop 5 s) of None \<Rightarrow> None | Some t \<Rightarrow>
     (case hex_literal t of None \<Rightarrow> None | Some (_, r) \<Rightarrow>
     (case some_space r of None \<Rightarrow> None | Some t' \<Rightarrow>
     (case hex_literal t' of None \<Rightarrow> None | Some (ds, r') \<Rightarrow>
     (case some_space r' of None \<Rightarrow> None | Some _ \<Rightarrow> Some (hex_number ds))))))"

fun search_region :: "bool \<Rightarrow> string \<Rightarrow> int option" where
  "search_region line_start [] = None"
| "search_region line_start (c # s) =
     (case (if line_start then region_at (c # s) else None) of
        Some n \<Rightarrow> Some n | None \<Rightarrow> search_region (c = CHR 0x0A) s)"

definition parse_flash_usage :: "string \<Rightarrow> string \<Rightarrow> (int \<times> int) res" where
  "parse_flash_usage map_path text = (case (search_used text, search_region True text) of
       (Some used, Some capacity) \<Rightarrow> Inr (used, capacity)
     | _ \<Rightarrow> Inl (ValueError (''cannot parse FLASH usage from '' @ map_path)))"

definition flash_usage :: "'w host \<Rightarrow> string \<Rightarrow> ('w, int \<times> int) io" where
  "flash_usage H build_dir =
     (let first = build_dir @ ''/zephyr/zephyr.map''; other = build_dir @ ''/firmware/zephyr/zephyr.map'' in
      bindm (h_exists H first) (\<lambda>p1.
      bindm (if p1 then retm first else bindm (h_exists H other) (\<lambda>p2.
        retm (if p2 then other else first))) (\<lambda>map_path.
      bindm (h_read H map_path) (\<lambda>text. liftm (parse_flash_usage map_path text)))))"

end
