(* ===== verification/Run_Job.thy ===== *)
theory Run_Job
  imports Transfer_Rows Case_Files Firmware_Build
begin

text \<open>
  One attempt of a campaign (\<open>run_job\<close> of \<open>run_benchmarks.py\<close>): the retries within the
  deadline of the case, each of which starts a session on the Pi, waits for the outcome,
  stops the session and re-arms the board; then the row of the attempt.  The current
  profiler is an optional interface; what it measures is modelled in \<open>Power_Profiler\<close>.
\<close>

section \<open>Jobs and arguments\<close>

datatype job = Session session_job | Round transfer_round

definition job_sequence :: "job \<Rightarrow> int" where
  "job_sequence j = (case j of Session s \<Rightarrow> sj_sequence s | Round r \<Rightarrow> tr_sequence r)"

definition job_session :: "job \<Rightarrow> int" where
  "job_session j = (case j of Session s \<Rightarrow> sj_session s | Round r \<Rightarrow> tr_session r)"

definition job_attempt_in_session :: "job \<Rightarrow> int" where
  "job_attempt_in_session j =
     (case j of Session s \<Rightarrow> sj_attempt_in_session s | Round r \<Rightarrow> tr_attempt_in_session r)"

definition job_warmup :: "job \<Rightarrow> int" where
  "job_warmup j = (case j of Session s \<Rightarrow> sj_warmup s | Round r \<Rightarrow> tr_warmup r)"

definition is_round :: "job \<Rightarrow> bool" where
  "is_round j = (case j of Session s \<Rightarrow> False | Round r \<Rightarrow> True)"

definition job_plan :: "job \<Rightarrow> row option" where
  "job_plan j = (case j of Session s \<Rightarrow> None | Round r \<Rightarrow> Some (transfer_plan_for_job r))"

record run_args =
  ra_reconnect_retries :: int
  ra_reconnect_delay :: rat
  ra_attempt_timeout :: "rat option"
  ra_gateway_ready_timeout :: rat
  ra_board_ready_timeout :: rat
  ra_board_rearm_timeout :: rat
  ra_power_profiler :: bool
  ra_transfer_mode :: bool
  ra_mtls_mode :: bool
  ra_ble_addr :: string
  ra_ble_name :: string
  ra_ble_addr_type :: string
  ra_psm :: string
  ra_mtu :: int
  ra_adapter :: string
  ra_nrfutil :: string

record 'w profiler =
  pp_start :: "('w, unit) io"
  pp_stop :: "string \<Rightarrow> ('w, row) io"
  pp_cycle :: "('w, unit) io"

text \<open>What a job runs with: the gateway, the optional profiler, the serial port, the fuel.\<close>

record 'w rig =
  rig_host :: "'w host"
  rig_gateway :: gateway
  rig_profiler :: "'w profiler option"
  rig_serial :: bool
  rig_fuel :: nat

definition attempt_timeout_of :: "job \<Rightarrow> run_args \<Rightarrow> rat" where
  "attempt_timeout_of j args = (case j of
       Session s \<Rightarrow> timeout_for_case (ra_attempt_timeout args)
     | Round r \<Rightarrow> timeout_for_transfer_round (tr_operations r) (ra_attempt_timeout args))"

section \<open>One try\<close>

definition FATAL_SERVER_LOG_PATTERNS :: "string list" where
  "FATAL_SERVER_LOG_PATTERNS = [''unknown ca'', ''certificate verify failed'']"

definition job_session_args ::
  "run_args \<Rightarrow> job \<Rightarrow> srow \<Rightarrow> string \<Rightarrow> string \<Rightarrow> string \<Rightarrow> rat \<Rightarrow> session_args res" where
  "job_session_args args j cs case_dir remote_case server_backend retry_timeout =
     bindr (dindex cs ''case_id'') (\<lambda>cid.
     bindr (bindr (dindex cs ''kex_group'') (dindex KEMS_BY_NAME)) (\<lambda>kem.
     bindr (get_or cs ''root_sig_alg'' (dindex cs ''cert_sig_alg'')) (\<lambda>root_sig.
     bindr (get_or cs ''leaf_sig_alg'' (dindex cs ''cert_sig_alg'')) (\<lambda>leaf_sig.
     bindr (bindr (dindex cs ''cert_sig_alg'') (dindex SIGNATURES_BY_NAME)) (\<lambda>sg.
     Inr \<lparr>sa_case_id = cid, sa_remote_case_dir = remote_case, sa_ble_addr = ra_ble_addr args,
       sa_ble_name = ra_ble_name args, sa_ble_addr_type = ra_ble_addr_type args,
       sa_psm = ra_psm args, sa_mtu = ra_mtu args, sa_adapter = ra_adapter args,
       sa_ready_timeout = ra_gateway_ready_timeout args,
       sa_log = path_join case_dir ''gateway-control.log'',
       sa_server_backend = server_backend, sa_wolfssl_group = kem_wolfssl_group kem,
       sa_control_telemetry = ra_power_profiler args,
       sa_root_signature = root_sig, sa_leaf_signature = leaf_sig,
       sa_signature_scheme = sig_tls_scheme sg, sa_tls_timeout = retry_timeout,
       sa_mtls = ra_mtls_mode args, sa_transfer_plan = job_plan j\<rparr>)))))"

definition fatal_detector :: "'w rig \<Rightarrow> string \<Rightarrow> ('w, string) io" where
  "fatal_detector R case_id = remote_file_contains (rig_host R) (rig_gateway R)
     (gw_workdir (rig_gateway R) @ ''/logs/'' @ case_id @ ''.broker.log'') FATAL_SERVER_LOG_PATTERNS"

definition run_session ::
  "'w rig \<Rightarrow> run_args \<Rightarrow> job \<Rightarrow> srow \<Rightarrow> string \<Rightarrow> string \<Rightarrow> string \<Rightarrow> rat \<Rightarrow> ('w station, srow) io" where
  "run_session R args j cs case_dir remote_case server_backend retry_timeout =
     (let H = rig_host R; g = rig_gateway R; board_log = path_join case_dir ''board.log'' in
      bindm (liftm (job_session_args args j cs case_dir remote_case server_backend retry_timeout)) (\<lambda>a.
      seqm (start_session H g a)
      (if ra_power_profiler args
       then wait_for_ble_result H (rig_fuel R) g (sa_case_id a) board_log retry_timeout
              (Some (fatal_detector R (sa_case_id a))) True
       else if rig_serial R
       then wait_for_result H (rig_fuel R) board_log retry_timeout
              (Some (fatal_detector R (sa_case_id a))) True
       else raisem (OutsideModel ''no serial port''))))"

definition gateway_start_failure :: "pyexc \<Rightarrow> srow" where
  "gateway_start_failure e =
     [(''status'', ''fail''), (''stage'', ''gateway_start''), (''error'', exc_name e)]"

definition rearm_failure :: srow where
  "rearm_failure = [(''status'', ''fail''), (''stage'', ''board_rearm''),
     (''error'', ''timeout''), (''fatal'', ''1'')]"

definition is_timeout :: "pyexc \<Rightarrow> bool" where
  "is_timeout e \<longleftrightarrow> e = TimeoutError"

definition rearm_board :: "'w rig \<Rightarrow> run_args \<Rightarrow> string \<Rightarrow> srow \<Rightarrow> ('w, srow) io" where
  "rearm_board R args board_log final =
     (if \<not> rig_serial R then retm final
      else catchm (seqm (wait_for_board_ready (rig_host R) (rig_fuel R) board_log
               (ra_board_rearm_timeout args)) (retm final))
             is_timeout (\<lambda>_. retm (if map_of final ''fatal'' \<noteq> Some ''1'' then rearm_failure else final)))"

text \<open>The \<open>finally\<close> block of a try: stop, collect, classify, re-arm.\<close>

definition finish_session ::
  "'w rig \<Rightarrow> run_args \<Rightarrow> srow \<Rightarrow> string \<Rightarrow> srow \<Rightarrow> ('w station, srow) io" where
  "finish_session R args cs case_dir final =
     (let H = rig_host R; g = rig_gateway R; control = path_join case_dir ''gateway-control.log'';
          broker_log = path_join case_dir ''broker.log''; gateway_log = path_join case_dir ''gateway.log'' in
      seqm (stop_session H g control False)
      (bindm (liftm (dindex cs ''case_id'')) (\<lambda>cid.
       seqm (hostm (collect_session_logs H g cid broker_log gateway_log))
       (bindm (hostm (classify_gateway_start_failure H gateway_log final)) (\<lambda>classified.
        hostm (rearm_board R args (path_join case_dir ''board.log'') classified))))))"

definition is_reset_error :: "pyexc \<Rightarrow> bool" where
  "is_reset_error e \<longleftrightarrow> is_os_error e \<or> is_called_process_error e"

definition recover_board :: "'w rig \<Rightarrow> run_args \<Rightarrow> string \<Rightarrow> int \<Rightarrow> srow \<Rightarrow> ('w, unit) io" where
  "recover_board R args case_dir retry final =
     (let H = rig_host R; reset_log = path_join case_dir ''reset.log'' in
      whenm (map_of final ''stage'' = Some ''ble_l2cap_ready_timeout'' \<and> rig_serial R \<and>
             retry < ra_reconnect_retries args)
        (catchm
          (seqm (reset_firmware H reset_log (ra_nrfutil args))
          (seqm (h_reset_input H)
           (wait_for_board_ready H (rig_fuel R) (path_join case_dir ''board.log'')
              (ra_board_ready_timeout args))))
          is_reset_error
          (\<lambda>e. h_append H reset_log (''[recovery] board reset failed: '' @ h_exc_text H e @ newline))))"

definition is_interrupt :: "pyexc \<Rightarrow> bool" where
  "is_interrupt e \<longleftrightarrow> e = KeyboardInterrupt"

definition one_try ::
  "'w rig \<Rightarrow> run_args \<Rightarrow> job \<Rightarrow> srow \<Rightarrow> string \<Rightarrow> string \<Rightarrow> string \<Rightarrow> int \<Rightarrow> rat \<Rightarrow> srow \<Rightarrow> ('w station, srow) io" where
  "one_try R args j cs case_dir remote_case server_backend retry retry_timeout previous =
     seqm (hostm (if rig_serial R then h_reset_input (rig_host R) else retm ()))
     (bindm (catchm (catchm (run_session R args j cs case_dir remote_case server_backend retry_timeout)
        is_exception (\<lambda>e. retm (gateway_start_failure e)))
        is_interrupt (\<lambda>e. seqm (finish_session R args cs case_dir previous) (raisem e))) (\<lambda>outcome.
      bindm (finish_session R args cs case_dir outcome) (\<lambda>final.
      seqm (hostm (recover_board R args case_dir retry final)) (retm final))))"

section \<open>The retries\<close>

text \<open>
  What the loop carries: the last outcome, the number of the last try, the cells of the
  profiler and the rows of all rounds so far.
\<close>

record retry_state =
  rs_final :: srow
  rs_reconnect_count :: int
  rs_power :: row
  rs_transfer_rows :: "row list"

definition pad3 :: "int \<Rightarrow> string" where
  "pad3 n = dec_pad 3 n"

definition retry_trace :: "string \<Rightarrow> int \<Rightarrow> int \<Rightarrow> string" where
  "retry_trace case_dir attempt_index retry =
     case_dir @ ''/power_trace_'' @ pad3 attempt_index @ ''_retry_'' @ str_int (retry + 1) @ ''.csv.gz''"

definition power_windows_of :: "run_args \<Rightarrow> row \<Rightarrow> srow list option res" where
  "power_windows_of args power_values = (if \<not> ra_power_profiler args then Inr None
     else case dget power_values ''transfer_power_windows'' (PList []) of
         PList ws \<Rightarrow> bindr (mapr (\<lambda>w. bindr (json_dict w) (\<lambda>d.
             mapr (\<lambda>kv. bindr (pv_str (snd kv)) (\<lambda>t. Inr (fst kv, t))) d)) ws) (\<lambda>rows. Inr (Some rows))
       | _ \<Rightarrow> Inl (TypeError ''pw windows''))"

definition mark_round :: "int \<Rightarrow> bool \<Rightarrow> row \<Rightarrow> row" where
  "mark_round retry full r =
     dset ''round_complete'' (PInt (if full then 1 else 0)) (dset ''round_try'' (PInt (retry + 1)) r)"

definition round_rows ::
  "'w rig \<Rightarrow> run_args \<Rightarrow> job \<Rightarrow> string \<Rightarrow> int \<Rightarrow> int \<Rightarrow> srow \<Rightarrow> row \<Rightarrow> ('w station, row list) io" where
  "round_rows R args j case_dir attempt_index retry final power_values = (case j of
       Session _ \<Rightarrow> retm []
     | Round job \<Rightarrow>
         bindm (liftm (power_windows_of args power_values)) (\<lambda>windows.
         bindm (getm st_observations) (\<lambda>obs.
         bindm (hostm (transfer_rows_for_round (rig_host R) job obs (path_join case_dir ''broker.log'')
             attempt_index retry (dget final ''status'' ''fail'') windows)) (\<lambda>rows.
         let full = (map_of final ''status'' = Some ''success'' \<and>
               list_all (\<lambda>r. map_of r ''status'' = Some (PStr ''success'')) rows)
         in retm (map (mark_round retry full) rows)))))"

definition profiled_try ::
  "'w rig \<Rightarrow> run_args \<Rightarrow> job \<Rightarrow> srow \<Rightarrow> string \<Rightarrow> string \<Rightarrow> string \<Rightarrow> int \<Rightarrow> int \<Rightarrow> rat \<Rightarrow> srow \<Rightarrow> row \<Rightarrow>
   ('w station, srow \<times> row) io" where
  "profiled_try R args j cs case_dir remote_case server_backend attempt_index retry retry_timeout previous pw =
     (let body = one_try R args j cs case_dir remote_case server_backend retry retry_timeout previous in
      if \<not> ra_power_profiler args then bindm body (\<lambda>final. retm (final, pw))
      else case rig_profiler R of
          None \<Rightarrow> raisem (RuntimeError ''PPK2 source session is not open'')
        | Some p \<Rightarrow>
            (let stop = hostm (pp_stop p (retry_trace case_dir attempt_index retry)) in
             seqm (hostm (pp_start p))
             (bindm (catchm body (\<lambda>_. True) (\<lambda>e. seqm stop (raisem e))) (\<lambda>final.
              bindm stop (\<lambda>measured. retm (final, measured))))))"

definition case_timeout :: srow where
  "case_timeout = timeout_result ''case_deadline''"

definition keep_trace :: "'w rig \<Rightarrow> run_args \<Rightarrow> string \<Rightarrow> int \<Rightarrow> int \<Rightarrow> ('w, unit) io" where
  "keep_trace R args case_dir attempt_index retry = (if \<not> ra_power_profiler args then retm ()
     else let H = rig_host R; trace = retry_trace case_dir attempt_index retry in
       bindm (h_exists H trace) (\<lambda>present.
       whenm present (h_rename H trace (case_dir @ ''/power_trace_'' @ pad3 attempt_index @ ''.csv.gz''))))"

text \<open>
  The end of a try: it is the last one when it succeeded, was fatal, used the last retry or
  met the deadline.  The clock is read again for the verdict, as the source does.
\<close>

definition end_of_try ::
  "'w rig \<Rightarrow> run_args \<Rightarrow> string \<Rightarrow> int \<Rightarrow> int \<Rightarrow> rat \<Rightarrow> srow \<Rightarrow> ('w station, bool \<times> srow) io" where
  "end_of_try R args case_dir attempt_index retry deadline final =
     (let now = hostm (h_monotonic (rig_host R)) in
      bindm (if map_of final ''status'' = Some ''success'' \<or> map_of final ''fatal'' = Some ''1'' \<or>
                ra_reconnect_retries args \<le> retry
             then retm True else bindm now (\<lambda>t. retm (deadline \<le> t))) (\<lambda>last_try.
      if \<not> last_try then retm (False, final)
      else bindm now (\<lambda>t.
        let verdict = (if deadline \<le> t \<and> map_of final ''status'' \<noteq> Some ''success'' then case_timeout else final) in
        seqm (hostm (keep_trace R args case_dir attempt_index retry)) (retm (True, verdict)))))"

definition between_tries :: "'w rig \<Rightarrow> run_args \<Rightarrow> ('w, unit) io" where
  "between_tries R args =
     seqm (if ra_power_profiler args
           then (case rig_profiler R of None \<Rightarrow> raisem (RuntimeError ''PPK2 source session is not open'')
                 | Some p \<Rightarrow> pp_cycle p)
           else retm ())
       (h_sleep (rig_host R) (ra_reconnect_delay args))"

definition retry_round ::
  "'w rig \<Rightarrow> run_args \<Rightarrow> job \<Rightarrow> srow \<Rightarrow> string \<Rightarrow> string \<Rightarrow> string \<Rightarrow> int \<Rightarrow> rat \<Rightarrow> rat \<Rightarrow> int \<Rightarrow> retry_state \<Rightarrow>
   ('w station, bool \<times> retry_state) io" where
  "retry_round R args j cs case_dir remote_case server_backend attempt_index timeout deadline retry rs =
     bindm (hostm (h_monotonic (rig_host R))) (\<lambda>now.
     let remaining = fsub deadline now in
     if remaining \<le> 0 then retm (True, rs\<lparr>rs_final := case_timeout\<rparr>)
     else
       seqm (modifym (\<lambda>s. s\<lparr>st_observations := []\<rparr>))
       (bindm (profiled_try R args j cs case_dir remote_case server_backend attempt_index retry
           (max 1 (min timeout remaining)) (rs_final rs) (rs_power rs)) (\<lambda>(final, pw).
        bindm (round_rows R args j case_dir attempt_index retry final pw) (\<lambda>rows.
        bindm (end_of_try R args case_dir attempt_index retry deadline final) (\<lambda>(ended, verdict).
        seqm (if ended then retm () else hostm (between_tries R args))
          (retm (ended, \<lparr>rs_final = verdict, rs_reconnect_count = retry, rs_power = pw,
             rs_transfer_rows = rs_transfer_rows rs @ rows\<rparr>)))))))"

fun retry_loop ::
  "(int \<Rightarrow> retry_state \<Rightarrow> ('s, bool \<times> retry_state) io) \<Rightarrow> int list \<Rightarrow> retry_state \<Rightarrow> ('s, retry_state) io" where
  "retry_loop body [] rs = retm rs"
| "retry_loop body (retry # rest) rs =
     bindm (body retry rs) (\<lambda>(ended, rs'). if ended then retm rs' else retry_loop body rest rs')"

definition run_retries ::
  "'w rig \<Rightarrow> run_args \<Rightarrow> job \<Rightarrow> srow \<Rightarrow> string \<Rightarrow> string \<Rightarrow> string \<Rightarrow> int \<Rightarrow> ('w station, retry_state) io" where
  "run_retries R args j cs case_dir remote_case server_backend attempt_index =
     (let timeout = attempt_timeout_of j args in
      seqm (modifym (\<lambda>s. s\<lparr>st_observations := []\<rparr>))
      (bindm (hostm (h_monotonic (rig_host R))) (\<lambda>now.
      retry_loop (retry_round R args j cs case_dir remote_case server_backend attempt_index
          timeout (fadd now timeout))
        [0..ra_reconnect_retries args]
        \<lparr>rs_final = [], rs_reconnect_count = 0, rs_power = [], rs_transfer_rows = []\<rparr>)))"

section \<open>The row of an attempt\<close>

definition has_handshake :: "(string \<times> srow) list \<Rightarrow> bool" where
  "has_handshake obs \<longleftrightarrow> list_ex (\<lambda>(kind, _). kind = ''HANDSHAKE'') obs"

definition add_handshake :: "'w rig \<Rightarrow> job \<Rightarrow> string \<Rightarrow> ('w station, unit) io" where
  "add_handshake R j gateway_log =
     bindm (getm st_observations) (\<lambda>obs.
     if \<not> (is_round j \<and> \<not> has_handshake obs) then retm ()
     else bindm (hostm (latest_benchmark_observation (rig_host R) gateway_log ''HANDSHAKE'')) (\<lambda>h. case h of
         None \<Rightarrow> retm ()
       | Some v \<Rightarrow> modifym (\<lambda>s. s\<lparr>st_observations := st_observations s @ [(''HANDSHAKE'', v)]\<rparr>)))"

definition terminal_values :: "run_args \<Rightarrow> (string \<times> srow) list \<Rightarrow> srow \<Rightarrow> srow" where
  "terminal_values args obs terminal =
     (let handshakes = map snd (filter (\<lambda>(kind, _). kind = ''HANDSHAKE'') obs) in
      if ra_transfer_mode args \<and> handshakes \<noteq> [] then
        dupdate (last handshakes)
          [(''status'', dget terminal ''status'' ''fail''),
           (''stage'', dget terminal ''stage'' ''transfer_complete''),
           (''error'', dget terminal ''error'' [])]
      else terminal)"

text \<open>The status of the row, and the outcome with the mismatch of schemes recorded in it.\<close>

definition scheme_verdict :: "string \<Rightarrow> srow \<Rightarrow> string \<times> srow" where
  "scheme_verdict expected final =
     (let status = py_lower (dget final ''status'' ''fail'') in
      if status = ''success'' \<and> dget final ''certificate_verify_alg'' [] \<noteq> expected
      then (''fail'', dset ''error'' ''certificate_verify_mismatch''
              (dset ''stage'' ''certificate_verify_mismatch'' final))
      else (status, final))"

definition generated_size :: "'w rig \<Rightarrow> string \<Rightarrow> string \<Rightarrow> ('w, int option) io" where
  "generated_size R case_dir name =
     (let path = case_dir @ ''/generated/'' @ name in
      bindm (h_exists (rig_host R) path) (\<lambda>present.
      if present then bindm (h_size (rig_host R) path) (\<lambda>n. retm (Some n)) else retm None))"

definition size_cell :: "int option \<Rightarrow> pyval" where
  "size_cell n = (case n of None \<Rightarrow> PStr [] | Some k \<Rightarrow> PInt k)"

definition chain_cell :: "int option \<Rightarrow> int option \<Rightarrow> pyval" where
  "chain_cell leaf intermediate = (case (leaf, intermediate) of
       (Some l, Some i) \<Rightarrow> PInt (l + i) | _ \<Rightarrow> PStr [])"

definition row_head :: "run_args \<Rightarrow> job \<Rightarrow> srow \<Rightarrow> int \<Rightarrow> int \<Rightarrow> string \<Rightarrow> row" where
  "row_head args j cs attempt_index reconnect_count status = [
     (''attempt_index'', PInt attempt_index), (''schedule_index'', PInt (job_sequence j)),
     (''session'', PInt (job_session j)), (''attempt_in_session'', PInt (job_attempt_in_session j)),
     (''warmup'', PInt (job_warmup j)), (''status'', PStr status),
     (''reconnect_count'', PInt reconnect_count),
     (''mtls_mode'', PInt (if ra_mtls_mode args then 1 else 0)),
     (''firmware_profile'', PStr (dget cs ''firmware_profile'' ''universal''))]"

definition size_cells :: "int option \<Rightarrow> int option \<Rightarrow> int option \<Rightarrow> row" where
  "size_cells rt intermediate leaf = [
     (''root_cert_der_bytes'', size_cell rt),
     (''intermediate_cert_der_bytes'', size_cell intermediate),
     (''leaf_cert_der_bytes'', size_cell leaf),
     (''server_chain_bytes'', chain_cell leaf intermediate)]"

definition connect_cells :: "srow \<Rightarrow> srow \<Rightarrow> string \<Rightarrow> row" where
  "connect_cells final gateway_values expected = [
     (''certificate_verify_alg'', PStr (dget final ''certificate_verify_alg'' [])),
     (''certificate_verify_scheme_id'', PStr (dget final ''certificate_verify_scheme_id'' [])),
     (''client_certificate_verify_alg'', PStr (dget final ''client_certificate_verify_alg'' [])),
     (''client_identity_id'', PStr (dget final ''client_identity_id'' [])),
     (''certificate_verify_match'',
        PInt (if dget final ''certificate_verify_alg'' [] = expected then 1 else 0)),
     (''ble_l2cap_connect_ms'', PStr (dget gateway_values ''ble_l2cap_connect_ms'' [])),
     (''gateway_tcp_connect_ms'', PStr (dget gateway_values ''gateway_tcp_connect_ms'' []))] @
     copied final [''tls_setup_ms'', ''raw_handshake_ms'', ''mqtt_connect_ms'', ''full_connect_ms'',
       ''end_to_end_ms'']"

text \<open>A cell in milliseconds of a counter in microseconds.\<close>

definition ms_cells :: "srow \<Rightarrow> (string \<times> string) list \<Rightarrow> row res" where
  "ms_cells vals cells = mapr (\<lambda>(cell, key). bindr (microseconds_as_milliseconds vals key) (\<lambda>t.
     Inr (cell, PStr t))) cells"

definition SIGNATURE_KEYS :: "string list" where
  "SIGNATURE_KEYS = [''certificate_signature_verify_us'', ''tls_certificate_verify_us'',
     ''mtls_signature_generate_us'']"

definition crypto_cells :: "srow \<Rightarrow> srow \<Rightarrow> srow \<Rightarrow> row res" where
  "crypto_cells cs final server_values =
     bindr (ms_cells final [
       (''communication_overhead_ms'', ''communication_overhead_us''),
       (''kem_keygen_ms'', ''kem_keygen_us''),
       (''kem_encapsulation_ms'', ''kem_encapsulation_us''),
       (''kem_decapsulation_ms'', ''kem_decapsulation_us''),
       (''classical_kex_keygen_ms'', ''classical_kex_keygen_us''),
       (''classical_kex_shared_secret_ms'', ''classical_kex_shared_secret_us'')]) (\<lambda>kem_part.
     bindr (bindr (client_kex_metric_keys cs) (summed_microseconds_as_milliseconds final)) (\<lambda>kem_total.
     bindr (ms_cells final [
       (''certificate_signature_verify_ms'', ''certificate_signature_verify_us''),
       (''x509_chain_signature_verify_ms'', ''certificate_signature_verify_us''),
       (''tls_certificate_verify_signature_verify_ms'', ''tls_certificate_verify_us''),
       (''mtls_signature_generate_ms'', ''mtls_signature_generate_us'')]) (\<lambda>sig_part.
     bindr (summed_microseconds_as_milliseconds final SIGNATURE_KEYS) (\<lambda>sig_total.
     bindr (ms_cells server_values [
       (''server_kem_encapsulation_ms'', ''server_kem_encapsulation_us''),
       (''server_certificate_verify_sign_ms'', ''server_certificate_verify_sign_us'')]) (\<lambda>server_part.
     Inr (kem_part @ [(''kem_client_total_ms'', PStr kem_total)] @ sig_part @
          [(''client_signature_total_ms'', PStr sig_total)] @ server_part))))))"

definition percent_cells :: "srow \<Rightarrow> (string \<times> string) list \<Rightarrow> row res" where
  "percent_cells final cells = mapr (\<lambda>(cell, key). bindr (number final key) (\<lambda>bp.
     Inr (cell, PStr (opt_cell 2 (map_option (\<lambda>x. fdiv x 100) bp))))) cells"

definition ratio_cell :: "rat option \<Rightarrow> rat option \<Rightarrow> string" where
  "ratio_cell part requests = (case (part, requests) of
       (Some p, Some r) \<Rightarrow> (if r = 0 then [] else fmt_fixed 4 (fdiv (fmul 100 p) r)) | _ \<Rightarrow> [])"

definition cpu_cells :: "srow \<Rightarrow> row res" where
  "cpu_cells final =
     bindr (microseconds_as_milliseconds final ''l2cap_tx_wait_us'') (\<lambda>tx_wait.
     bindr (number final ''client_cpu_us'') (\<lambda>cpu_us.
     bindr (percent_cells final [
       (''client_cpu_usage_percent'', ''client_cpu_usage_bp''),
       (''system_cpu_usage_percent'', ''system_cpu_usage_bp''),
       (''average_cpu_usage_percent'', ''average_cpu_usage_bp''),
       (''peak_cpu_usage_percent'', ''peak_cpu_usage_bp'')]) (\<lambda>usage.
     bindr (number final ''client_icache_hits'') (\<lambda>hits.
     bindr (number final ''client_icache_misses'') (\<lambda>misses.
     let requests = (case (hits, misses) of (Some h, Some m) \<Rightarrow> Some (fadd h m) | _ \<Rightarrow> None) in
     Inr (copied final [''l2cap_tx_packets'', ''l2cap_tx_bytes'', ''l2cap_rx_packets'',
            ''l2cap_rx_bytes'', ''l2cap_tx_retries''] @
          [(''l2cap_tx_wait_ms'', PStr tx_wait)] @
          copied final [''l2cap_rx_overflows'', ''client_cpu_cycles'', ''client_cycle_hz''] @
          [(''client_cpu_ms'', PStr (opt_cell 3 (map_option (\<lambda>x. fdiv x 1000) cpu_us)))] @ usage @
          copied final [''client_icache_hits'', ''client_icache_misses''] @
          [(''client_icache_requests'', PStr (opt_cell 0 requests)),
           (''client_icache_hit_percent'', PStr (ratio_cell hits requests)),
           (''client_icache_miss_percent'', PStr (ratio_cell misses requests)),
           (''client_memory_access_counters_supported'',
              PStr (dget final ''client_memory_access_counters_supported'' ''0''))] @
          copied final [''dwt_cycle_counter_supported'', ''dwt_event_counters_supported'',
            ''dwt_cyccnt'', ''dwt_cpicnt'', ''dwt_exccnt'', ''dwt_sleepcnt'', ''dwt_lsucnt'',
            ''dwt_foldcnt'', ''dwt_cycle_counter_width_bits'', ''dwt_event_counter_width_bits'',
            ''dwt_counts_are_modulo'']))))))"

definition usage_cell :: "srow \<Rightarrow> string \<Rightarrow> string \<Rightarrow> string \<Rightarrow> row res" where
  "usage_cell final cell used capacity =
     bindr (usage_percent final used capacity) (\<lambda>t. Inr [(cell, PStr t)])"

definition memory_cells :: "srow \<Rightarrow> row res" where
  "memory_cells final =
     bindr (usage_cell final ''client_heap_peak_usage_percent'' ''client_heap_peak_bytes''
       ''client_heap_capacity_bytes'') (\<lambda>heap.
     bindr (usage_cell final ''firmware_flash_usage_percent'' ''firmware_flash_used_bytes''
       ''firmware_flash_capacity_bytes'') (\<lambda>flash.
     bindr (usage_cell final ''firmware_static_ram_usage_percent'' ''firmware_static_ram_used_bytes''
       ''firmware_ram_capacity_bytes'') (\<lambda>ram.
     bindr (percent_cells final [(''thread_stack_peak_percent'', ''thread_stack_peak_percent_bp'')]) (\<lambda>stack.
     bindr (usage_cell final ''l2cap_rx_ring_peak_percent'' ''l2cap_rx_ring_peak_bytes''
       ''l2cap_rx_ring_capacity_bytes'') (\<lambda>ring.
     Inr (copied final [''client_heap_current_bytes'', ''client_heap_peak_bytes'',
            ''client_heap_free_bytes'', ''client_heap_capacity_bytes''] @ heap @
          copied final [''firmware_flash_used_bytes'', ''firmware_flash_capacity_bytes''] @ flash @
          copied final [''firmware_static_ram_used_bytes'', ''firmware_ram_capacity_bytes''] @ ram @
          copied final [''thread_stack_used_bytes'', ''thread_stack_capacity_bytes''] @ stack @
          copied final [''l2cap_rx_ring_peak_bytes'', ''l2cap_rx_ring_capacity_bytes''] @ ring))))))"

definition verdict_cells :: "srow \<Rightarrow> row" where
  "verdict_cells final = [
     (''error_code'', PStr (dget final ''error'' [])),
     (''message'', PStr (dget final ''fatal_message'' (dget final ''stage'' []))),
     (''_fatal'', PStr (dget final ''fatal'' [])),
     (''_fatal_message'', PStr (dget final ''fatal_message'' []))]"

text \<open>
  The row is a dictionary display: a later part of the same name replaces the cell in its
  place, as the cells of the profiler may do.
\<close>

definition attempt_row ::
  "run_args \<Rightarrow> job \<Rightarrow> srow \<Rightarrow> int \<Rightarrow> int \<Rightarrow> srow \<Rightarrow> srow \<Rightarrow> srow \<Rightarrow> int option \<Rightarrow> int option \<Rightarrow> int option \<Rightarrow>
   row \<Rightarrow> row res" where
  "attempt_row args j cs attempt_index reconnect_count final0 gateway_values server_values
     rt_size intermediate_size leaf_size power_values =
     bindr (bindr (dindex cs ''cert_sig_alg'') (\<lambda>csa.
        normalize_signature_scheme (dget cs ''certificate_verify_alg'' []) csa)) (\<lambda>expected.
     case scheme_verdict expected final0 of (status, final) \<Rightarrow>
     bindr (case_metadata cs) (\<lambda>metadata.
     bindr (crypto_cells cs final server_values) (\<lambda>crypto.
     bindr (cpu_cells final) (\<lambda>cpu.
     bindr (memory_cells final) (\<lambda>memory.
     Inr (dict_of (row_head args j cs attempt_index reconnect_count status @
       map (\<lambda>(k, v). (k, PStr v)) metadata @
       size_cells rt_size intermediate_size leaf_size @
       connect_cells final gateway_values expected @ crypto @ cpu @ memory @ power_values @
       verdict_cells final)))))))"

section \<open>The whole attempt\<close>

definition transmissions_cell :: "job \<Rightarrow> row list \<Rightarrow> row" where
  "transmissions_cell j rows = (if is_round j then [(''_transmissions'', PList (map PDict rows))] else [])"

definition run_job ::
  "'w rig \<Rightarrow> run_args \<Rightarrow> job \<Rightarrow> srow \<Rightarrow> string \<Rightarrow> string \<Rightarrow> string \<Rightarrow> int \<Rightarrow> ('w station, row) io" where
  "run_job R args j cs case_dir remote_case server_backend attempt_index =
     (let H = rig_host R; gateway_log = path_join case_dir ''gateway.log'';
          broker_log = path_join case_dir ''broker.log'' in
      bindm (run_retries R args j cs case_dir remote_case server_backend attempt_index) (\<lambda>rs.
      seqm (add_handshake R j gateway_log)
      (bindm (getm st_observations) (\<lambda>obs.
       let final0 = terminal_values args obs (rs_final rs) in
       bindm (hostm (parse_gateway_metrics H gateway_log)) (\<lambda>gateway_values.
       bindm (hostm (parse_server_metrics H broker_log)) (\<lambda>server_values.
       bindm (hostm (generated_size R case_dir ''server_root.der'')) (\<lambda>rt_size.
       bindm (hostm (generated_size R case_dir ''server_intermediate.der'')) (\<lambda>intermediate_size.
       bindm (hostm (generated_size R case_dir ''server.der'')) (\<lambda>leaf_size.
       bindm (liftm (attempt_row args j cs attempt_index (rs_reconnect_count rs) final0
          gateway_values server_values rt_size intermediate_size leaf_size (rs_power rs))) (\<lambda>r.
       retm (dupdate r (transmissions_cell j (rs_transfer_rows rs)))))))))))))"

section \<open>What the retries end with\<close>

definition given_up :: "run_args \<Rightarrow> retry_state \<Rightarrow> bool" where
  "given_up args rs \<longleftrightarrow> rs_final rs = case_timeout \<or>
     map_of (rs_final rs) ''status'' = Some ''success'' \<or> map_of (rs_final rs) ''fatal'' = Some ''1'' \<or>
     ra_reconnect_retries args \<le> rs_reconnect_count rs"

definition tries_marked :: "retry_state \<Rightarrow> bool" where
  "tries_marked rs \<longleftrightarrow> 0 \<le> rs_reconnect_count rs \<and> list_all (\<lambda>r. \<exists>k. map_of r ''round_try'' = Some (PInt k) \<and>
     1 \<le> k \<and> k \<le> rs_reconnect_count rs + 1) (rs_transfer_rows rs)"

lemma hostm_now:
  assumes "clock_advances H clk \<delta>" "hostm (h_monotonic H) s = (Inr x, t)"
  shows "x = clk (st_world s) \<and> clk (st_world s) + \<delta> \<le> clk (st_world t)"
  using hostm_clock [OF assms] by simp

lemma end_of_try_reason:
  assumes H: "clock_advances (rig_host R) clk \<delta>"
    and run: "end_of_try R args case_dir attempt_index retry deadline final s = (Inr (ended, verdict), t)"
  shows "ended \<Longrightarrow> verdict = case_timeout \<or> map_of verdict ''status'' = Some ''success'' \<or>
      map_of verdict ''fatal'' = Some ''1'' \<or> ra_reconnect_retries args \<le> retry"
    and "\<not> ended \<Longrightarrow> retry < ra_reconnect_retries args"
proof -
  have "\<delta> > 0" using H by (simp add: clock_advances_def)
  then show "ended \<Longrightarrow> verdict = case_timeout \<or> map_of verdict ''status'' = Some ''success'' \<or>
      map_of verdict ''fatal'' = Some ''1'' \<or> ra_reconnect_retries args \<le> retry"
    and "\<not> ended \<Longrightarrow> retry < ra_reconnect_retries args"
    using run
    by (auto simp: end_of_try_def Let_def split: if_splits elim!: bindm_okE seqm_okE
        dest!: hostm_now [OF H])
qed

lemma mark_round_try: "map_of (mark_round retry full r) ''round_try'' = Some (PInt (retry + 1))"
  by (simp add: mark_round_def dset_def update_conv')

lemma round_rows_marked:
  assumes "round_rows R args j case_dir attempt_index retry final pw s = (Inr rows, t)"
  shows "list_all (\<lambda>r. map_of r ''round_try'' = Some (PInt (retry + 1))) rows"
  using assms
  by (auto simp: round_rows_def list_all_iff mark_round_try split: job.splits elim!: bindm_okE)

lemma retry_round_step:
  assumes H: "clock_advances (rig_host R) clk \<delta>"
    and rs: "tries_marked rs" "rs_reconnect_count rs \<le> retry"
    and run: "retry_round R args j cs case_dir remote_case server_backend attempt_index timeout deadline
      retry rs s = (Inr (ended, rs'), t)"
  shows "tries_marked rs'" and "ended \<Longrightarrow> given_up args rs'"
    and "rs_reconnect_count rs' \<le> retry"
    and "\<not> ended \<Longrightarrow> retry < ra_reconnect_retries args \<and> rs_reconnect_count rs' = retry"
proof -
  consider (early) "rs' = rs\<lparr>rs_final := case_timeout\<rparr>" "ended" | (later) final pw rows verdict u v w where
      "round_rows R args j case_dir attempt_index retry final pw u = (Inr rows, v)"
      "end_of_try R args case_dir attempt_index retry deadline final v = (Inr (ended, verdict), w)"
      "rs' = \<lparr>rs_final = verdict, rs_reconnect_count = retry, rs_power = pw,
             rs_transfer_rows = rs_transfer_rows rs @ rows\<rparr>"
    using run unfolding retry_round_def
    by (auto simp: Let_def split: if_splits prod.splits elim!: bindm_okE seqm_okE)
  note outcomes = this
  have marked: "tries_marked \<lparr>rs_final = f, rs_reconnect_count = retry, rs_power = p,
      rs_transfer_rows = rs_transfer_rows rs @ rows\<rparr>"
    if "list_all (\<lambda>r. map_of r ''round_try'' = Some (PInt (retry + 1))) rows" for f p rows
    using that rs by (fastforce simp: tries_marked_def list_all_iff)
  show "tries_marked rs'"
    using outcomes
  proof cases
    case later
    then show ?thesis using marked round_rows_marked by blast
  qed (use rs in \<open>simp add: tries_marked_def\<close>)
  show "ended \<Longrightarrow> given_up args rs'"
    using outcomes
    by cases (use end_of_try_reason(1) [OF H] in \<open>fastforce simp: given_up_def\<close>)+
  show "rs_reconnect_count rs' \<le> retry"
    using outcomes by cases (use rs in simp_all)
  show "\<not> ended \<Longrightarrow> retry < ra_reconnect_retries args \<and> rs_reconnect_count rs' = retry"
    using outcomes by cases (use end_of_try_reason(2) [OF H] in auto)
qed

lemma retry_loop_result:
  assumes step: "\<And>retry rs s ended rs' t. tries_marked rs \<Longrightarrow> rs_reconnect_count rs \<le> retry \<Longrightarrow> 0 \<le> retry \<Longrightarrow>
      body retry rs s = (Inr (ended, rs'), t) \<Longrightarrow>
      tries_marked rs' \<and> rs_reconnect_count rs' \<le> retry \<and> (ended \<longrightarrow> given_up args rs') \<and>
      (\<not> ended \<longrightarrow> retry < ra_reconnect_retries args)"
    and run: "retry_loop body [k..ra_reconnect_retries args] rs s = (Inr rs', t)"
    and start: "0 \<le> k" "k \<le> ra_reconnect_retries args" "tries_marked rs" "rs_reconnect_count rs \<le> k"
  shows "tries_marked rs' \<and> given_up args rs' \<and> rs_reconnect_count rs' \<le> ra_reconnect_retries args"
  using run start
proof (induction "nat (ra_reconnect_retries args - k)" arbitrary: k rs s rule: less_induct)
  case less
  have "[k..ra_reconnect_retries args] = k # [k + 1..ra_reconnect_retries args]"
    using less.prems(3) by (rule upto_rec1)
  with less.prems(1) obtain ended r1 u where one: "body k rs s = (Inr (ended, r1), u)"
    and more: "(if ended then retm r1 else retry_loop body [k + 1..ra_reconnect_retries args] r1) u = (Inr rs', t)"
    by (auto elim!: bindm_okE)
  have r1: "tries_marked r1" "rs_reconnect_count r1 \<le> k" "ended \<longrightarrow> given_up args r1"
    "\<not> ended \<longrightarrow> k < ra_reconnect_retries args"
    using step [OF less.prems(4,5,2) one] by auto
  show ?case
  proof (cases ended)
    case True
    then show ?thesis using more r1 less.prems(3) by auto
  next
    case False
    then show ?thesis
      using less.hyps [of "k + 1" r1 u] more r1 less.prems(2) by auto
  qed
qed

section \<open>The cells of the row\<close>

lemma named_cells_keys:
  assumes "mapr (\<lambda>(cell, key). bindr (f key) (\<lambda>t. Inr (cell, g t))) cells = Inr r"
  shows "map fst r = map fst cells"
  using assms by (induction cells arbitrary: r) (auto simp: bindr_eq_Inr)

lemma ms_cells_keys: "ms_cells vals cells = Inr r \<Longrightarrow> map fst r = map fst cells"
  unfolding ms_cells_def by (rule named_cells_keys)

lemma percent_cells_keys: "percent_cells vals cells = Inr r \<Longrightarrow> map fst r = map fst cells"
  unfolding percent_cells_def by (rule named_cells_keys)

lemma copied_keys: "map fst (copied vals names) = names"
  by (simp add: copied_def comp_def)

definition verdict_keys :: "string set" where
  "verdict_keys = {''status'', ''certificate_verify_match''}"

definition job_keys :: "string set" where
  "job_keys = {''attempt_index'', ''schedule_index'', ''session'', ''attempt_in_session'', ''warmup''}"

definition own_keys :: "string set" where
  "own_keys = verdict_keys \<union> job_keys"

lemmas key_sets = verdict_keys_def job_keys_def own_keys_def

text \<open>No cell of the row has a name of the set: later cells of a row leave those names alone.\<close>

definition free_of :: "string set \<Rightarrow> (string \<times> 'v) list \<Rightarrow> bool" where
  "free_of K r \<longleftrightarrow> set (map fst r) \<inter> K = {}"

lemma free_of_append [simp]: "free_of K (xs @ ys) \<longleftrightarrow> free_of K xs \<and> free_of K ys"
  by (auto simp: free_of_def)

lemma free_of_Cons [simp]: "free_of K (x # xs) \<longleftrightarrow> fst x \<notin> K \<and> free_of K xs"
  by (auto simp: free_of_def)

lemma free_of_Nil [simp]: "free_of K []"
  by (simp add: free_of_def)

lemma free_of_own: "free_of own_keys r \<longleftrightarrow> free_of verdict_keys r \<and> free_of job_keys r"
  by (auto simp: free_of_def own_keys_def)

abbreviation apart :: "row \<Rightarrow> bool" where
  "apart \<equiv> free_of verdict_keys"

lemma free_copied [simp]: "free_of K (copied vals names) \<longleftrightarrow> set names \<inter> K = {}"
  by (simp only: free_of_def copied_keys)

lemma free_ms: "ms_cells vals cells = Inr r \<Longrightarrow> free_of K r \<longleftrightarrow> set (map fst cells) \<inter> K = {}"
  by (simp only: free_of_def ms_cells_keys)

lemma free_percent: "percent_cells vals cells = Inr r \<Longrightarrow> free_of K r \<longleftrightarrow> set (map fst cells) \<inter> K = {}"
  by (simp only: free_of_def percent_cells_keys)

lemma free_usage: "usage_cell vals cell u c = Inr r \<Longrightarrow> free_of K r \<longleftrightarrow> cell \<notin> K"
  by (auto simp: usage_cell_def bindr_eq_Inr)

lemma crypto_own: "crypto_cells cs final sv = Inr r \<Longrightarrow> free_of own_keys r"
  unfolding crypto_cells_def bindr_eq_Inr
  by (elim exE conjE) ((drule free_ms [where K = own_keys])+, auto simp: key_sets)

lemma cpu_own: "cpu_cells final = Inr r \<Longrightarrow> free_of own_keys r"
  unfolding cpu_cells_def bindr_eq_Inr Let_def
  by (elim exE conjE) ((drule free_percent [where K = own_keys])+, auto simp: key_sets)

lemma memory_own: "memory_cells final = Inr r \<Longrightarrow> free_of own_keys r"
  unfolding memory_cells_def bindr_eq_Inr
  by (elim exE conjE) ((drule free_percent [where K = own_keys] free_usage [where K = own_keys])+,
      auto simp: key_sets)

lemma map_of_dict_of: "map_of (dict_of kvs) k = map_of (rev kvs) k"
  by (simp add: dict_of_def map_of_dupdate split: option.splits)

lemma free_ofD: "free_of K r \<Longrightarrow> k \<in> K \<Longrightarrow> k \<notin> fst ` set r"
  by (auto simp: free_of_def)

lemma apartD:
  assumes "apart r"
  shows "''status'' \<notin> fst ` set r" "''certificate_verify_match'' \<notin> fst ` set r"
  using assms by (auto simp: free_of_def verdict_keys_def)

lemma map_of_rev_skip: "k \<notin> fst ` set ys \<Longrightarrow> map_of (rev (xs @ ys)) k = map_of (rev xs) k"
  by (simp add: map_add_def map_of_eq_None_iff split: option.splits) (metis map_of_SomeD image_eqI fst_conv set_rev)

lemma required_keys:
  "mapr (\<lambda>k. bindr (dindex cs k) (\<lambda>v. Inr (k, v))) ks = Inr r \<Longrightarrow> map fst r = ks"
  by (induction ks arbitrary: r) (auto simp: bindr_eq_Inr)

lemma metadata_own:
  assumes "case_metadata cs = Inr m"
  shows "free_of own_keys (map (\<lambda>(k, v). (k, PStr v)) m)"
proof -
  obtain required s where req: "mapr (\<lambda>k. bindr (dindex cs k) (\<lambda>v. Inr (k, v))) METADATA_REQUIRED = Inr required"
    and m: "m = dset ''expected_certificate_verify_alg'' s
      (dupdate (dict_of required) (map (\<lambda>k. (k, dget cs k [])) METADATA_OPTIONAL))"
    using assms unfolding case_metadata_def bindr_eq_Inr Let_def by (elim exE conjE) (auto simp: bindr_eq_Inr)
  have keys: "map fst required = METADATA_REQUIRED"
    using req by (rule required_keys)
  have "map_of m k = None" if "k \<in> own_keys" for k
  proof -
    have "k \<notin> set METADATA_REQUIRED" "k \<notin> set METADATA_OPTIONAL" "k \<noteq> ''expected_certificate_verify_alg''"
      using that by (auto simp: key_sets METADATA_REQUIRED_def METADATA_OPTIONAL_def)
    moreover from this have "map_of (rev required) k = None"
      using keys by (metis map_of_eq_None_iff set_map set_rev)
    ultimately show ?thesis
      by (auto simp: m map_of_dupdate map_of_dict_of map_of_eq_None_iff split: option.splits dest!: map_of_SomeD)
  qed
  then show ?thesis
    by (force simp: free_of_def map_of_eq_None_iff)
qed

lemma conjunct_order: "P \<and> Q \<and> S \<Longrightarrow> Q \<and> P \<and> S"
  by blast

section \<open>Properties\<close>


definition demo_args :: run_args where
  "demo_args = \<lparr>ra_reconnect_retries = 1, ra_reconnect_delay = 2, ra_attempt_timeout = Some 1,
     ra_gateway_ready_timeout = 1, ra_board_ready_timeout = 5, ra_board_rearm_timeout = 5,
     ra_power_profiler = False, ra_transfer_mode = False, ra_mtls_mode = False, ra_ble_addr = [],
     ra_ble_name = ''n'', ra_ble_addr_type = ''random'', ra_psm = ''0x80'', ra_mtu = 512,
     ra_adapter = ''hci0'', ra_nrfutil = ''nrfutil''\<rparr>"

definition demo_rig :: "script rig" where
  "demo_rig = \<lparr>rig_host = script_host,
     rig_gateway = \<lparr>gw_host = ''pi'', gw_workdir = ''/w'', gw_ssh_key = [], gw_pid = 1\<rparr>,
     rig_profiler = None, rig_serial = True, rig_fuel = 9\<rparr>"

definition demo_case :: srow where
  "demo_case = [(''case_id'', ''c''), (''kex_group'', ''MLKEM512''), (''cert_sig_alg'', ''ML-DSA-44'')]"

definition demo_job :: job where
  "demo_job = Session \<lparr>sj_sequence = 1, sj_case_id = ''c'', sj_session = 1, sj_attempt_in_session = 1,
     sj_warmup = 0, sj_measured_index = 1\<rparr>"


lemma attempt_row_shape:
  assumes row: "attempt_row args j cs attempt_index reconnects final gw sv a b c power_values = Inr r"
  obtains expected csa status fin metadata crypto cpu memory where
    "dindex cs ''cert_sig_alg'' = Inr csa"
    "normalize_signature_scheme (dget cs ''certificate_verify_alg'' []) csa = Inr expected"
    "scheme_verdict expected final = (status, fin)"
    "free_of own_keys crypto" "free_of own_keys cpu" "free_of own_keys memory"
    "free_of own_keys (map (\<lambda>(k, v). (k, PStr v)) metadata)"
    "r = dict_of (row_head args j cs attempt_index reconnects status @
       map (\<lambda>(k, v). (k, PStr v)) metadata @ size_cells a b c @
       connect_cells fin gw expected @ crypto @ cpu @ memory @ power_values @ verdict_cells fin)"
proof -
  obtain expected csa status fin metadata crypto cpu memory where
    csa: "dindex cs ''cert_sig_alg'' = Inr csa"
      "normalize_signature_scheme (dget cs ''certificate_verify_alg'' []) csa = Inr expected"
    and verdict: "scheme_verdict expected final = (status, fin)"
    and parts: "case_metadata cs = Inr metadata" "crypto_cells cs fin sv = Inr crypto"
      "cpu_cells fin = Inr cpu" "memory_cells fin = Inr memory"
    and r: "r = dict_of (row_head args j cs attempt_index reconnects status @
       map (\<lambda>(k, v). (k, PStr v)) metadata @ size_cells a b c @
       connect_cells fin gw expected @ crypto @ cpu @ memory @ power_values @ verdict_cells fin)"
    using row unfolding attempt_row_def bindr_eq_Inr
    by (elim exE conjE) (simp split: prod.splits, fastforce simp: bindr_eq_Inr)
  show ?thesis
    by (rule that [OF csa verdict crypto_own [OF parts(2)] cpu_own [OF parts(3)] memory_own [OF parts(4)]
      metadata_own [OF parts(1)] r])
qed

lemma attempt_row_parts:
  assumes row: "attempt_row args j cs attempt_index reconnects final gw sv a b c power_values = Inr r"
    and own: "apart power_values"
  obtains expected csa where
    "dindex cs ''cert_sig_alg'' = Inr csa"
    "normalize_signature_scheme (dget cs ''certificate_verify_alg'' []) csa = Inr expected"
    "map_of r ''status'' = Some (PStr (fst (scheme_verdict expected final)))"
    "map_of r ''certificate_verify_match'' =
       Some (PInt (if dget (snd (scheme_verdict expected final)) ''certificate_verify_alg'' [] = expected then 1 else 0))"
proof -
  obtain expected csa status fin metadata crypto cpu memory where
    csa: "dindex cs ''cert_sig_alg'' = Inr csa"
      "normalize_signature_scheme (dget cs ''certificate_verify_alg'' []) csa = Inr expected"
    and verdict: "scheme_verdict expected final = (status, fin)"
    and own': "free_of own_keys crypto" "free_of own_keys cpu" "free_of own_keys memory"
      "free_of own_keys (map (\<lambda>(k, v). (k, PStr v)) metadata)"
    and r: "r = dict_of (row_head args j cs attempt_index reconnects status @
       map (\<lambda>(k, v). (k, PStr v)) metadata @ size_cells a b c @
       connect_cells fin gw expected @ crypto @ cpu @ memory @ power_values @ verdict_cells fin)"
    by (rule attempt_row_shape [OF row])
  have free: "apart crypto" "apart cpu" "apart memory" "apart (map (\<lambda>(k, v). (k, PStr v)) metadata)"
    using own' by (simp_all only: free_of_own)
  note apart = apartD [OF free(1)] apartD [OF free(2)] apartD [OF free(3)] apartD [OF free(4)] apartD [OF own]
  have st: "map_of r ''status'' = Some (PStr status)"
  proof -
    have "map_of r ''status'' = map_of (rev (row_head args j cs attempt_index reconnects status)) ''status''"
      unfolding r map_of_dict_of
      by (rule map_of_rev_skip) (use apart in \<open>simp only: set_append image_Un Un_iff de_Morgan_disj,
        simp add: size_cells_def connect_cells_def verdict_cells_def copied_def\<close>)
    then show ?thesis by (simp add: row_head_def)
  qed
  have match: "map_of r ''certificate_verify_match'' =
      Some (PInt (if dget fin ''certificate_verify_alg'' [] = expected then 1 else 0))"
  proof -
    let ?pre = "row_head args j cs attempt_index reconnects status @
       map (\<lambda>(k, v). (k, PStr v)) metadata @ size_cells a b c @ connect_cells fin gw expected"
    have "map_of r ''certificate_verify_match'' = map_of (rev ?pre) ''certificate_verify_match''"
      unfolding r map_of_dict_of
      using map_of_rev_skip [of "''certificate_verify_match''" "crypto @ cpu @ memory @ power_values @ verdict_cells fin" ?pre]
        apart by (simp add: verdict_cells_def image_Un)
    then show ?thesis by (simp add: connect_cells_def copied_def)
  qed
  show ?thesis
    using that [OF csa] st match verdict by simp
qed

text \<open>The cells that name the job are those of the head.\<close>

definition row_of_job :: "int \<Rightarrow> job \<Rightarrow> row \<Rightarrow> bool" where
  "row_of_job index j r \<longleftrightarrow> map_of r ''attempt_index'' = Some (PInt index) \<and>
     map_of r ''schedule_index'' = Some (PInt (job_sequence j)) \<and>
     map_of r ''session'' = Some (PInt (job_session j)) \<and>
     map_of r ''attempt_in_session'' = Some (PInt (job_attempt_in_session j)) \<and>
     map_of r ''warmup'' = Some (PInt (job_warmup j))"

lemma row_of_job_cong:
  assumes "row_of_job index j r" "\<And>k. k \<in> job_keys \<Longrightarrow> map_of r' k = map_of r k"
  shows "row_of_job index j r'"
  using assms by (simp add: row_of_job_def job_keys_def)

lemma dict_of_head:
  assumes "free_of job_keys rest" "k \<in> job_keys"
  shows "map_of (dict_of (hd_cells @ rest)) k = map_of (rev hd_cells) k"
  unfolding map_of_dict_of by (rule map_of_rev_skip) (rule free_ofD [OF assms])

lemma attempt_row_job:
  assumes row: "attempt_row args j cs attempt_index reconnects final gw sv a b c power_values = Inr r"
    and own: "free_of job_keys power_values"
  shows "row_of_job attempt_index j r"
proof -
  obtain expected csa status fin metadata crypto cpu memory where
    own': "free_of own_keys crypto" "free_of own_keys cpu" "free_of own_keys memory"
      "free_of own_keys (map (\<lambda>(k, v). (k, PStr v)) metadata)"
    and r: "r = dict_of (row_head args j cs attempt_index reconnects status @
       map (\<lambda>(k, v). (k, PStr v)) metadata @ size_cells a b c @
       connect_cells fin gw expected @ crypto @ cpu @ memory @ power_values @ verdict_cells fin)"
    by (rule attempt_row_shape [OF row])
  have "free_of job_keys (map (\<lambda>(k, v). (k, PStr v)) metadata @ size_cells a b c @
       connect_cells fin gw expected @ crypto @ cpu @ memory @ power_values @ verdict_cells fin)"
    using own own' by (simp add: free_of_own size_cells_def connect_cells_def verdict_cells_def job_keys_def)
  note head = dict_of_head [OF this, of _ "row_head args j cs attempt_index reconnects status", folded r]
  show ?thesis
    by (simp add: row_of_job_def head job_keys_def row_head_def)
qed

text \<open>Cells measured by the profiler stay out of the way of the job.\<close>

definition modest :: "'w profiler option \<Rightarrow> bool" where
  "modest p \<longleftrightarrow> (case p of None \<Rightarrow> True
     | Some q \<Rightarrow> \<forall>trace w r w'. pp_stop q trace w = (Inr r, w') \<longrightarrow> free_of job_keys r)"

lemma profiled_try_modest:
  assumes "modest (rig_profiler R)" "free_of job_keys pw"
    and "profiled_try R args j cs case_dir remote_case backend index retry timeout previous pw s = (Inr (final, pw'), t)"
  shows "free_of job_keys pw'"
  using assms
  by (auto simp: profiled_try_def modest_def hostm_ok Let_def split: if_splits option.splits
      elim!: bindm_okE seqm_okE) blast

lemma retry_round_modest:
  assumes "modest (rig_profiler R)" "free_of job_keys (rs_power rs)"
    and run: "retry_round R args j cs case_dir remote_case backend index timeout deadline retry rs s =
      (Inr (ended, rs'), t)"
  shows "free_of job_keys (rs_power rs')"
proof -
  consider "rs' = rs\<lparr>rs_final := case_timeout\<rparr>" | (later) final u v limit where
      "profiled_try R args j cs case_dir remote_case backend index retry limit (rs_final rs) (rs_power rs) u =
        (Inr (final, rs_power rs'), v)"
    using run unfolding retry_round_def
    by (auto simp: Let_def split: if_splits prod.splits elim!: bindm_okE seqm_okE)
  then show ?thesis
    using profiled_try_modest [OF assms(1,2)] assms(2) by cases auto
qed

lemma retry_loop_keeps:
  assumes "\<And>retry rs s ended rs' t. body retry rs s = (Inr (ended, rs'), t) \<Longrightarrow> Q rs \<Longrightarrow> Q rs'"
    and "retry_loop body retries rs s = (Inr rs', t)" "Q rs"
  shows "Q rs'"
  using assms(2,3)
proof (induction retries arbitrary: rs s)
  case (Cons retry rest)
  from Cons.prems(1) obtain ended r1 u where one: "body retry rs s = (Inr (ended, r1), u)"
    and more: "(if ended then retm r1 else retry_loop body rest r1) u = (Inr rs', t)"
    by (auto elim!: bindm_okE)
  have "Q r1" using assms(1) [OF one Cons.prems(2)] .
  then show ?case using more Cons.IH by (auto split: if_splits)
qed simp

lemma run_retries_modest:
  assumes "modest (rig_profiler R)"
    and "run_retries R args j cs case_dir remote_case backend index s = (Inr rs, t)"
  shows "free_of job_keys (rs_power rs)"
proof -
  obtain u deadline where "retry_loop (retry_round R args j cs case_dir remote_case backend
      index (attempt_timeout_of j args) deadline) [0..ra_reconnect_retries args]
      \<lparr>rs_final = [], rs_reconnect_count = 0, rs_power = [], rs_transfer_rows = []\<rparr> u = (Inr rs, t)"
    using assms(2) by (auto simp: run_retries_def Let_def elim!: bindm_okE seqm_okE)
  then show ?thesis
    by (rule retry_loop_keeps [rotated]) (use retry_round_modest [OF assms(1)] in \<open>auto intro: retry_round_modest [OF assms(1)]\<close>)
qed

lemma run_job_row:
  assumes "modest (rig_profiler R)"
    and "run_job R args j cs case_dir remote_case backend index s = (Inr r, t)"
  shows "row_of_job index j r"
proof -
  obtain rs u v final gw sv a b c r0 where
    rs: "run_retries R args j cs case_dir remote_case backend index u = (Inr rs, v)"
    and r0: "attempt_row args j cs index (rs_reconnect_count rs) final gw sv a b c (rs_power rs) = Inr r0"
    and r: "r = dupdate r0 (transmissions_cell j (rs_transfer_rows rs))"
    using assms(2) unfolding run_job_def Let_def by (elim bindm_okE seqm_okE) auto
  have "row_of_job index j r0"
    by (rule attempt_row_job [OF r0 run_retries_modest [OF assms(1) rs]])
  then show ?thesis
    unfolding r by (rule row_of_job_cong) (auto simp: map_of_dupdate transmissions_cell_def job_keys_def)
qed


definition full_demo_case :: srow where
  "full_demo_case = demo_case @ map (\<lambda>k. (k, ''1'')) [''kex_nist_level'', ''kex_public_key_bytes'',
     ''kex_ciphertext_bytes'', ''kex_shared_secret_bytes'', ''sig_nist_level'',
     ''sig_public_key_bytes'', ''sig_private_key_bytes'', ''sig_signature_bytes'']"

definition demo_final :: srow where
  "demo_final = [(''status'', ''success''), (''certificate_verify_alg'', ''mldsa44'')]"

lemma demo_row:
  "\<exists>r. attempt_row demo_args demo_job full_demo_case 1 0 demo_final [] [] None None None [] = Inr r \<and>
     map_of r ''status'' = Some (PStr ''success'')"
proof -
  have norm: "normalize_signature_scheme (dget full_demo_case ''certificate_verify_alg'' []) ''ML-DSA-44'' = Inr ''mldsa44''"
    "dindex full_demo_case ''cert_sig_alg'' = Inr ''ML-DSA-44''"
    "scheme_verdict ''mldsa44'' demo_final = (''success'', demo_final)" by code_simp+
  have "(case case_metadata full_demo_case of Inl e \<Rightarrow> False | Inr x \<Rightarrow> True)"
    "(case crypto_cells full_demo_case demo_final [] of Inl e \<Rightarrow> False | Inr x \<Rightarrow> True)"
    "(case cpu_cells demo_final of Inl e \<Rightarrow> False | Inr x \<Rightarrow> True)"
    "(case memory_cells demo_final of Inl e \<Rightarrow> False | Inr x \<Rightarrow> True)" by code_simp+
  then obtain r where r: "attempt_row demo_args demo_job full_demo_case 1 0 demo_final [] [] None None None [] = Inr r"
    by (auto simp: attempt_row_def norm split: sum.splits)
  then show ?thesis
    using norm by (auto elim!: attempt_row_parts)
qed


end
