(* ===== verification/Summaries.thy ===== *)
theory Summaries
  imports Run_Job
begin

text \<open>
  The summaries of a campaign (\<open>summarize\<close> and \<open>summarize_transfers\<close> of
  \<open>run_benchmarks.py\<close>): the measured attempts of a case, and the transfers of each case,
  direction and size.
\<close>

section \<open>The attempts that count\<close>

definition cell :: "row \<Rightarrow> string \<Rightarrow> pyval res" where
  "cell r k = dindex r k"

definition has_status :: "string \<Rightarrow> row \<Rightarrow> bool res" where
  "has_status st r = bindr (cell r ''status'') (\<lambda>v. Inr (v = PStr st))"

fun filterr :: "('a \<Rightarrow> bool res) \<Rightarrow> 'a list \<Rightarrow> 'a list res" where
  "filterr P [] = Inr []"
| "filterr P (x # xs) = bindr (P x) (\<lambda>b. bindr (filterr P xs) (\<lambda>ys. Inr (if b then x # ys else ys)))"

definition is_measured :: "row \<Rightarrow> bool res" where
  "is_measured r = bindr (bindr (cell r ''warmup'') pv_int) (\<lambda>n. Inr (n = 0))"

definition cell_numbers :: "row list \<Rightarrow> string \<Rightarrow> rat list res" where
  "cell_numbers rows k = bindr (filterr (\<lambda>r. bindr (cell r k) (\<lambda>v. Inr (v \<noteq> PStr []))) rows) (\<lambda>kept.
     mapr (\<lambda>r. bindr (cell r k) pv_float) kept)"

definition cell_ints :: "row list \<Rightarrow> string \<Rightarrow> int list res" where
  "cell_ints rows k = bindr (filterr (\<lambda>r. bindr (cell r k) (\<lambda>v. Inr (v \<noteq> PStr []))) rows) (\<lambda>kept.
     mapr (\<lambda>r. bindr (cell r k) pv_int) kept)"

definition first_successful :: "row list \<Rightarrow> string \<Rightarrow> pyval res" where
  "first_successful success k = (case success of [] \<Rightarrow> Inr (PStr []) | r # rs \<Rightarrow> cell r k)"

definition count_status :: "string \<Rightarrow> row list \<Rightarrow> int res" where
  "count_status st rows = bindr (filterr (has_status st) rows) (\<lambda>xs. Inr (int (length xs)))"

section \<open>The status of a case\<close>

definition any_status :: "string \<Rightarrow> row list \<Rightarrow> bool res" where
  "any_status st rows = bindr (count_status st rows) (\<lambda>n. Inr (0 < n))"

definition case_status :: "row list \<Rightarrow> row list \<Rightarrow> string res" where
  "case_status measured success =
     (if success \<noteq> [] \<and> length success = length measured then Inr ''success''
      else if success \<noteq> [] then Inr ''mixed''
      else bindr (any_status ''unsupported'' measured) (\<lambda>u.
        if u then Inr ''unsupported''
        else bindr (any_status ''timeout'' measured) (\<lambda>t. Inr (if t then ''timeout'' else ''fail''))))"

section \<open>Numbers of the successful attempts\<close>

text \<open>The fields in the order in which the source reads them.\<close>

definition FLOAT_FIELDS :: "string list" where
  "FLOAT_FIELDS = [''raw_handshake_ms'', ''mqtt_connect_ms'', ''full_connect_ms'', ''end_to_end_ms'',
     ''client_cpu_ms'']"

definition DWT_FIELDS :: "string list" where
  "DWT_FIELDS = [''dwt_cyccnt'', ''dwt_cpicnt'', ''dwt_exccnt'', ''dwt_sleepcnt'', ''dwt_lsucnt'',
     ''dwt_foldcnt'']"

definition NUMBER_FIELDS :: "string list" where
  "NUMBER_FIELDS = [''client_cpu_usage_percent'', ''system_cpu_usage_percent'',
     ''average_cpu_usage_percent'', ''peak_cpu_usage_percent'', ''client_icache_hits'',
     ''client_icache_misses'', ''client_icache_requests'', ''client_icache_hit_percent'',
     ''client_icache_miss_percent''] @ DWT_FIELDS @ [
     ''communication_overhead_ms'', ''kem_keygen_ms'', ''kem_encapsulation_ms'',
     ''kem_decapsulation_ms'', ''classical_kex_keygen_ms'', ''classical_kex_shared_secret_ms'',
     ''kem_client_total_ms'', ''certificate_signature_verify_ms'', ''x509_chain_signature_verify_ms'',
     ''tls_certificate_verify_signature_verify_ms'', ''mtls_signature_generate_ms'',
     ''client_signature_total_ms'', ''server_kem_encapsulation_ms'', ''server_certificate_verify_sign_ms'',
     ''l2cap_tx_packets'', ''l2cap_tx_bytes'', ''l2cap_rx_packets'', ''l2cap_rx_bytes'',
     ''l2cap_tx_retries'', ''l2cap_tx_wait_ms'', ''l2cap_rx_overflows'', ''thread_stack_used_bytes'',
     ''thread_stack_peak_percent'', ''client_heap_free_bytes'', ''client_heap_peak_usage_percent'',
     ''l2cap_rx_ring_peak_bytes'', ''l2cap_rx_ring_peak_percent'']"

type_synonym numbers = "(string, rat list) dict"

definition read_numbers :: "row list \<Rightarrow> string list \<Rightarrow> numbers res" where
  "read_numbers success names = mapr (\<lambda>k. bindr (cell_numbers success k) (\<lambda>xs. Inr (k, xs))) names"

definition mean_text :: "nat \<Rightarrow> rat list \<Rightarrow> string" where
  "mean_text k xs = (if xs = [] then [] else fmt_fixed k (sum_over_len xs))"

definition max_text :: "nat \<Rightarrow> rat list \<Rightarrow> string" where
  "max_text k xs = (if xs = [] then [] else fmt_fixed k (max_of xs))"

definition min_text :: "nat \<Rightarrow> rat list \<Rightarrow> string" where
  "min_text k xs = (if xs = [] then [] else fmt_fixed k (min_of xs))"

definition sum_text :: "nat \<Rightarrow> rat list \<Rightarrow> string" where
  "sum_text k xs = (if xs = [] then [] else fmt_fixed k (py_sum xs))"

definition of_field :: "(nat \<Rightarrow> rat list \<Rightarrow> string) \<Rightarrow> nat \<Rightarrow> numbers \<Rightarrow> string \<times> string \<Rightarrow> string \<times> pyval" where
  "of_field f k ns ck = (case ck of (c, key) \<Rightarrow> (c, PStr (f k (dget ns key []))))"

definition mean_cells :: "nat \<Rightarrow> numbers \<Rightarrow> string list \<Rightarrow> row" where
  "mean_cells k ns keys = map (\<lambda>key. of_field mean_text k ns (''mean_'' @ key, key)) keys"

definition first_cells :: "row list \<Rightarrow> string list \<Rightarrow> row res" where
  "first_cells success keys = mapr (\<lambda>k. bindr (first_successful success k) (\<lambda>v. Inr (k, v))) keys"

section \<open>Energy\<close>

definition POWER_WINDOWS :: "string list" where
  "POWER_WINDOWS = [''client_kem'', ''mlkem'', ''classical_kex'', ''client_signature'', ''handshake'',
     ''total_execution'']"

definition power_numbers :: "row list \<Rightarrow> string \<Rightarrow> rat list res" where
  "power_numbers rows k =
     mapr (\<lambda>r. bindr (cell r k) pv_float) (filter (\<lambda>r. dget r k (PStr []) \<noteq> PStr []) rows)"

definition power_window_cells :: "row list \<Rightarrow> string \<Rightarrow> row res" where
  "power_window_cells rows window =
     bindr (mapr (\<lambda>m. let f = window @ ''_'' @ m in
        bindr (power_numbers rows f) (\<lambda>xs. Inr (''mean_'' @ f, PStr (mean_text 6 xs))))
        [''duration_ms'', ''charge_uc'', ''energy_uj'', ''avg_current_ua'']) (\<lambda>means.
     let peak = window @ ''_peak_current_ua'' in
     bindr (power_numbers rows peak) (\<lambda>xs. Inr (means @ [(''max_'' @ peak, PStr (max_text 3 xs))])))"

definition power_summary :: "row list \<Rightarrow> row res" where
  "power_summary success =
     (let powered = filter (\<lambda>r. map_of r ''power_status'' = Some (PStr ''success'')) success in
      bindr (mapr (power_window_cells powered) POWER_WINDOWS) (\<lambda>cs. Inr (concat cs)))"

section \<open>The summary of a case\<close>

definition count_cells :: "string \<Rightarrow> row list \<Rightarrow> row list \<Rightarrow> row res" where
  "count_cells status measured success =
     bindr (count_status ''fail'' measured) (\<lambda>fails.
     bindr (count_status ''timeout'' measured) (\<lambda>timeouts.
     bindr (count_status ''unsupported'' measured) (\<lambda>unsupported.
     Inr [(''status'', PStr status), (''success_count'', PInt (int (length success))),
          (''fail_count'', PInt fails), (''timeout_count'', PInt timeouts),
          (''unsupported_count'', PInt unsupported)])))"

definition per_second :: "rat option \<Rightarrow> string" where
  "per_second mean = (case mean of None \<Rightarrow> []
     | Some m \<Rightarrow> (if m = 0 then [] else fmt_fixed 6 (fdiv 1000 m)))"

definition timing_cells :: "numbers \<Rightarrow> row res" where
  "timing_cells ns =
     (let stats = aggregate (dget ns ''raw_handshake_ms'' []);
          stat = (\<lambda>k. dget stats k []);
          full = dget ns ''full_connect_ms'' [];
          mean_full = (if full = [] then None else Some (sum_over_len full)) in
      bindr (if stat ''mean'' = [] then Inr None else bindr (py_float (stat ''mean'')) (\<lambda>m. Inr (Some m))) (\<lambda>mean_raw.
      Inr (map (\<lambda>k. (k @ ''_raw_handshake_ms'', PStr (stat k)))
             [''mean'', ''median'', ''p95'', ''min'', ''max'', ''stddev''] @
           [(''handshake_throughput_hps'', PStr (per_second mean_raw)),
            of_field mean_text 3 ns (''mean_mqtt_connect_ms'', ''mqtt_connect_ms''),
            (''mean_full_connect_ms'', PStr (case mean_full of None \<Rightarrow> []
               | Some m \<Rightarrow> (if m = 0 then [] else fmt_fixed 3 m))),
            of_field mean_text 3 ns (''mean_end_to_end_ms'', ''end_to_end_ms''),
            (''connections_per_second'', PStr (per_second mean_full)),
            of_field mean_text 3 ns (''mean_client_cpu_ms'', ''client_cpu_ms'')])))"

definition cpu_summary :: "row list \<Rightarrow> numbers \<Rightarrow> row res" where
  "cpu_summary success ns =
     bindr (first_cells success [''client_memory_access_counters_supported'',
        ''dwt_cycle_counter_supported'', ''dwt_event_counters_supported'']) (\<lambda>supported.
     bindr (first_cells success [''dwt_cycle_counter_width_bits'', ''dwt_event_counter_width_bits'',
        ''dwt_counts_are_modulo'']) (\<lambda>widths.
     Inr (mean_cells 3 ns [''client_cpu_usage_percent'', ''system_cpu_usage_percent'',
            ''average_cpu_usage_percent''] @
          [of_field max_text 3 ns (''max_peak_cpu_usage_percent'', ''peak_cpu_usage_percent'')] @
          mean_cells 3 ns [''client_icache_hits'', ''client_icache_misses'', ''client_icache_requests''] @
          mean_cells 4 ns [''client_icache_hit_percent'', ''client_icache_miss_percent''] @
          supported @ mean_cells 3 ns DWT_FIELDS @ widths)))"

definition max_ints_cell :: "int list \<Rightarrow> pyval" where
  "max_ints_cell xs = (if xs = [] then PStr [] else PInt (fold max (tl xs) (hd xs)))"

definition heap_summary :: "row list \<Rightarrow> numbers \<Rightarrow> int list \<Rightarrow> row res" where
  "heap_summary success ns heap =
     bindr (first_cells success [''client_heap_capacity_bytes'']) (\<lambda>capacity.
     Inr ([(''max_client_heap_peak_bytes'', max_ints_cell heap),
           of_field min_text 0 ns (''min_client_heap_free_bytes'', ''client_heap_free_bytes'')] @ capacity @
          [of_field max_text 2 ns (''max_client_heap_peak_usage_percent'', ''client_heap_peak_usage_percent'')]))"

definition crypto_summary :: "numbers \<Rightarrow> row" where
  "crypto_summary ns = mean_cells 3 ns [''communication_overhead_ms'', ''kem_keygen_ms'',
     ''kem_encapsulation_ms'', ''kem_decapsulation_ms'', ''classical_kex_keygen_ms'',
     ''classical_kex_shared_secret_ms'', ''kem_client_total_ms'', ''certificate_signature_verify_ms'',
     ''x509_chain_signature_verify_ms'', ''tls_certificate_verify_signature_verify_ms'',
     ''mtls_signature_generate_ms'', ''client_signature_total_ms'', ''server_kem_encapsulation_ms'',
     ''server_certificate_verify_sign_ms'']"

definition link_summary :: "numbers \<Rightarrow> row" where
  "link_summary ns = mean_cells 3 ns [''l2cap_tx_packets'', ''l2cap_tx_bytes'', ''l2cap_rx_packets'',
       ''l2cap_rx_bytes'', ''l2cap_tx_retries'', ''l2cap_tx_wait_ms''] @
     [of_field sum_text 0 ns (''total_l2cap_rx_overflows'', ''l2cap_rx_overflows'')]"

definition memory_summary :: "row list \<Rightarrow> numbers \<Rightarrow> row res" where
  "memory_summary success ns =
     bindr (first_cells success [''firmware_flash_used_bytes'', ''firmware_flash_capacity_bytes'',
        ''firmware_flash_usage_percent'', ''firmware_static_ram_used_bytes'', ''firmware_ram_capacity_bytes'',
        ''firmware_static_ram_usage_percent'']) (\<lambda>firmware.
     bindr (first_cells success [''thread_stack_capacity_bytes'']) (\<lambda>stack_capacity.
     bindr (first_cells success [''l2cap_rx_ring_capacity_bytes'']) (\<lambda>ring_capacity.
     Inr (firmware @
          [of_field max_text 0 ns (''max_thread_stack_used_bytes'', ''thread_stack_used_bytes'')] @
          stack_capacity @
          [of_field max_text 2 ns (''max_thread_stack_peak_percent'', ''thread_stack_peak_percent''),
           of_field max_text 0 ns (''max_l2cap_rx_ring_peak_bytes'', ''l2cap_rx_ring_peak_bytes'')] @
          ring_capacity @
          [of_field max_text 2 ns (''max_l2cap_rx_ring_peak_percent'', ''l2cap_rx_ring_peak_percent'')]))))"

definition identity_cells :: "srow \<Rightarrow> row list \<Rightarrow> row list \<Rightarrow> row res" where
  "identity_cells cs attempts success =
     bindr (dindex cs ''case_id'') (\<lambda>cid.
     bindr (case_metadata cs) (\<lambda>metadata.
     bindr (first_cells success [''root_cert_der_bytes'', ''intermediate_cert_der_bytes'',
        ''leaf_cert_der_bytes'', ''server_chain_bytes'', ''certificate_verify_alg'',
        ''client_certificate_verify_alg'', ''certificate_verify_match'']) (\<lambda>firsts.
     Inr ([(''case_id'', PStr cid),
           (''mtls_mode'', case attempts of [] \<Rightarrow> PStr [] | r # rs \<Rightarrow> dget r ''mtls_mode'' (PStr []))] @
          map (\<lambda>(k, v). (k, PStr v)) metadata @ firsts))))"

definition measured_attempts :: "row list \<Rightarrow> row list res" where
  "measured_attempts attempts = filterr is_measured attempts"

definition successful_attempts :: "row list \<Rightarrow> row list res" where
  "successful_attempts measured = filterr (has_status ''success'') measured"

definition summarize :: "srow \<Rightarrow> row list \<Rightarrow> row res" where
  "summarize cs attempts =
     bindr (measured_attempts attempts) (\<lambda>measured.
     bindr (successful_attempts measured) (\<lambda>success.
     bindr (read_numbers success FLOAT_FIELDS) (\<lambda>floats.
     bindr (cell_ints success ''client_heap_peak_bytes'') (\<lambda>heap.
     bindr (read_numbers success NUMBER_FIELDS) (\<lambda>more.
     let ns = floats @ more in
     bindr (case_status measured success) (\<lambda>status.
     bindr (timing_cells ns) (\<lambda>timing.
     bindr (power_summary success) (\<lambda>energy.
     bindr (identity_cells cs attempts success) (\<lambda>identity.
     bindr (count_cells status measured success) (\<lambda>counts.
     bindr (cpu_summary success ns) (\<lambda>cpu.
     bindr (heap_summary success ns heap) (\<lambda>heap_part.
     bindr (memory_summary success ns) (\<lambda>memory.
     Inr (dict_of (identity @ counts @ timing @ cpu @ heap_part @ crypto_summary ns @ link_summary ns @
       memory @ energy)))))))))))))))"

section \<open>The summary of the transfers\<close>

definition pv_text :: "pyval \<Rightarrow> string res" where
  "pv_text v = (case v of PStr s \<Rightarrow> Inr s | PInt i \<Rightarrow> Inr (str_int i) | PNone \<Rightarrow> Inr ''None''
     | PBool b \<Rightarrow> Inr (if b then ''True'' else ''False'') | _ \<Rightarrow> Inl (OutsideModel ''str()''))"

definition transfer_key :: "row \<Rightarrow> (string \<times> string \<times> int) res" where
  "transfer_key r =
     bindr (bindr (cell r ''case_id'') pv_text) (\<lambda>cid.
     bindr (bindr (cell r ''direction'') pv_text) (\<lambda>direction.
     bindr (bindr (cell r ''payload_bytes'') pv_int) (\<lambda>n. Inr (cid, direction, n))))"

definition completed_transfer :: "row \<Rightarrow> bool res" where
  "completed_transfer r = bindr (has_status ''success'' r) (\<lambda>ok.
     if \<not> ok then Inr False
     else bindr (pv_int (dget r ''round_complete'' (PInt 0))) (\<lambda>n. Inr (n \<noteq> 0)))"

definition transfer_energies :: "row list \<Rightarrow> rat list res" where
  "transfer_energies success = mapr (\<lambda>r. bindr (cell r ''transfer_energy_uj'') pv_float)
     (filter (\<lambda>r. map_of r ''power_status'' = Some (PStr ''success'') \<and>
        dget r ''transfer_energy_uj'' PNone \<notin> {PNone, PStr []}) success)"

definition STAT_NAMES :: "string list" where
  "STAT_NAMES = [''mean'', ''median'', ''p95'', ''min'', ''max'', ''stddev'', ''ci95'']"

definition transfer_metrics :: "rat list \<Rightarrow> string \<Rightarrow> row res" where
  "transfer_metrics xs suffix =
     (if xs = [] then Inr (map (\<lambda>n. (n @ ''_'' @ suffix, PStr [])) STAT_NAMES)
      else bindr (transfer_percentile_95 xs) (\<lambda>p95.
        let stats = aggregate xs; stat = (\<lambda>k. dget stats k []) in
        Inr (map (\<lambda>(n, t). (n @ ''_'' @ suffix, PStr t))
          [(''mean'', stat ''mean''), (''median'', stat ''median''), (''p95'', fmt_fixed 3 p95),
           (''min'', stat ''min''), (''max'', stat ''max''), (''stddev'', stat ''stddev''),
           (''ci95'', opt_cell 3 (confidence_95_half_width xs))])))"

definition transfer_summary_row :: "(string \<times> string \<times> int) \<times> row list \<Rightarrow> row res" where
  "transfer_summary_row g = (case g of ((cid, direction, n), grp) \<Rightarrow>
     bindr (filterr completed_transfer grp) (\<lambda>success.
     bindr (cell_numbers success ''end_to_end_ms'') (\<lambda>times.
     bindr (cell_numbers success ''goodput_kib_s'') (\<lambda>goodputs.
     bindr (transfer_energies success) (\<lambda>energies.
     bindr (count_status ''fail'' grp) (\<lambda>fails.
     bindr (count_status ''timeout'' grp) (\<lambda>timeouts.
     bindr (count_status ''not_run'' grp) (\<lambda>not_run.
     bindr (transfer_metrics times ''end_to_end_ms'') (\<lambda>time_cells.
     bindr (transfer_metrics goodputs ''goodput_kib_s'') (\<lambda>goodput_cells.
     bindr (transfer_metrics energies ''transfer_energy_uj'') (\<lambda>energy_cells.
     Inr ([(''case_id'', PStr cid), (''direction'', PStr direction), (''payload_bytes'', PInt n),
           (''success_count'', PInt (int (length success))), (''fail_count'', PInt fails),
           (''timeout_count'', PInt timeouts), (''not_run_count'', PInt not_run)] @
          time_cells @ goodput_cells @ energy_cells))))))))))))"

definition group_transfers :: "row list \<Rightarrow> ((string \<times> string \<times> int), row list) dict res" where
  "group_transfers rows = foldr_res (\<lambda>d r. bindr (transfer_key r) (\<lambda>k. Inr (dappend k r d))) [] rows"

definition summarize_transfers :: "row list \<Rightarrow> row list res" where
  "summarize_transfers rows = bindr (group_transfers rows) (\<lambda>grouped.
     mapr transfer_summary_row (sort_key fst grouped))"

section \<open>Counting\<close>

text \<open>A measured attempt of a status: its warmup cell reads zero.\<close>

definition counted :: "string \<Rightarrow> row \<Rightarrow> bool" where
  "counted st r \<longleftrightarrow> bindr (cell r ''warmup'') pv_int = Inr 0 \<and> map_of r ''status'' = Some (PStr st)"

definition measured :: "row \<Rightarrow> bool" where
  "measured r \<longleftrightarrow> bindr (cell r ''warmup'') pv_int = Inr 0"

lemma filterr_filter:
  assumes "filterr P xs = Inr ys" "\<And>x b. x \<in> set xs \<Longrightarrow> P x = Inr b \<Longrightarrow> b = Q x"
  shows "ys = filter Q xs"
  using assms by (induction xs arbitrary: ys) (auto simp: bindr_eq_Inr)

lemma measured_filter: "measured_attempts rows = Inr ms \<Longrightarrow> ms = filter measured rows"
  unfolding measured_attempts_def
  by (erule filterr_filter) (auto simp: is_measured_def measured_def bindr_eq_Inr)

lemma status_filter:
  "filterr (has_status st) rows = Inr ms \<Longrightarrow> ms = filter (\<lambda>r. map_of r ''status'' = Some (PStr st)) rows"
  by (erule filterr_filter) (auto simp: has_status_def cell_def dindex_def bindr_eq_Inr split: option.splits)

lemma count_status_filter:
  "count_status st rows = Inr n \<Longrightarrow> n = int (length (filter (\<lambda>r. map_of r ''status'' = Some (PStr st)) rows))"
  by (auto simp: count_status_def bindr_eq_Inr dest!: status_filter)

lemma counted_filter:
  "filter (\<lambda>r. map_of r ''status'' = Some (PStr st)) (filter measured rows) = filter (counted st) rows"
  by (auto simp: measured_def counted_def intro: filter_cong)

section \<open>Names of the cells\<close>

definition count_keys :: "string set" where
  "count_keys = {''status'', ''success_count'', ''fail_count'', ''timeout_count'', ''unsupported_count''}"

lemma fst_of_field [simp]: "fst (of_field f k ns ck) = fst ck"
  by (simp add: of_field_def split: prod.splits)

lemma free_mean [simp]:
  "free_of K (mean_cells k ns keys) \<longleftrightarrow> (\<forall>key\<in>set keys. ''mean_'' @ key \<notin> K)"
  by (auto simp: free_of_def mean_cells_def)

lemma first_cells_keys: "first_cells success ks = Inr r \<Longrightarrow> map fst r = ks"
  unfolding first_cells_def by (induction ks arbitrary: r) (auto simp: bindr_eq_Inr)

lemma free_first: "first_cells success ks = Inr r \<Longrightarrow> free_of K r \<longleftrightarrow> set ks \<inter> K = {}"
  by (simp only: free_of_def first_cells_keys)

lemma timing_free: "timing_cells ns = Inr r \<Longrightarrow> free_of count_keys r"
  unfolding timing_cells_def Let_def bindr_eq_Inr
  by (elim exE conjE) (auto simp: count_keys_def)

lemma cpu_free: "cpu_summary success ns = Inr r \<Longrightarrow> free_of count_keys r"
  unfolding cpu_summary_def bindr_eq_Inr
  by (elim exE conjE) ((drule free_first [where K = count_keys])+, auto simp: count_keys_def DWT_FIELDS_def)

lemma heap_free: "heap_summary success ns heap = Inr r \<Longrightarrow> free_of count_keys r"
  unfolding heap_summary_def bindr_eq_Inr
  by (elim exE conjE) ((drule free_first [where K = count_keys])+, auto simp: count_keys_def DWT_FIELDS_def)

lemma memory_free: "memory_summary success ns = Inr r \<Longrightarrow> free_of count_keys r"
  unfolding memory_summary_def bindr_eq_Inr
  by (elim exE conjE) ((drule free_first [where K = count_keys])+, auto simp: count_keys_def DWT_FIELDS_def)

lemma energy_free: "power_summary success = Inr r \<Longrightarrow> free_of count_keys r"
proof -
  have "free_of count_keys c" if "power_window_cells rows w = Inr c" for rows w c
    using that unfolding power_window_cells_def Let_def bindr_eq_Inr
    by (elim exE conjE) (auto simp: count_keys_def bindr_eq_Inr)
  then have "mapr (power_window_cells rows) ws = Inr cs \<Longrightarrow> free_of count_keys (concat cs)" for rows ws cs
    by (induction ws arbitrary: cs) (auto simp: bindr_eq_Inr)
  then show "power_summary success = Inr r \<Longrightarrow> free_of count_keys r"
    by (auto simp: power_summary_def Let_def bindr_eq_Inr)
qed

lemma summary_cells:
  assumes "summarize cs attempts = Inr r" "k \<in> count_keys"
  obtains ms success status counts where
    "measured_attempts attempts = Inr ms" "successful_attempts ms = Inr success"
    "case_status ms success = Inr status" "count_cells status ms success = Inr counts"
    "map_of r k = map_of counts k"
proof -
  obtain ms success ns more heap status timing energy identity counts cpu heap_part memory where
    parts: "measured_attempts attempts = Inr ms" "successful_attempts ms = Inr success"
      "case_status ms success = Inr status" "count_cells status ms success = Inr counts"
    and free: "timing_cells ns = Inr timing" "power_summary success = Inr energy"
      "cpu_summary success ns = Inr cpu" "heap_summary success ns heap = Inr heap_part"
      "memory_summary success ns = Inr memory"
    and r: "r = dict_of ((identity @ counts) @ timing @ cpu @ heap_part @ crypto_summary ns @
       link_summary ns @ memory @ energy)"
    using assms(1) unfolding summarize_def Let_def bindr_eq_Inr by (elim exE conjE) auto
  have "free_of count_keys (timing @ cpu @ heap_part @ crypto_summary ns @ link_summary ns @ memory @ energy)"
    using timing_free [OF free(1)] energy_free [OF free(2)] cpu_free [OF free(3)] heap_free [OF free(4)]
      memory_free [OF free(5)]
    by (simp add: crypto_summary_def link_summary_def) (simp add: count_keys_def)
  then have "map_of r k = map_of (rev (identity @ counts)) k"
    unfolding r map_of_dict_of by (intro map_of_rev_skip free_ofD [OF _ assms(2)])
  moreover have "map_of (rev (identity @ counts)) k = map_of counts k"
    using parts(4) assms(2) by (auto simp: count_cells_def count_keys_def bindr_eq_Inr)
  ultimately show ?thesis using that parts by simp
qed

lemma case_status_success:
  "case_status ms success = Inr st \<Longrightarrow> st = ''success'' \<longleftrightarrow> success \<noteq> [] \<and> length success = length ms"
  by (auto simp: case_status_def bindr_eq_Inr split: if_splits)

section \<open>Grouping the transfers\<close>

definition key_of :: "row \<Rightarrow> string \<times> string \<times> int" where
  "key_of r = (case transfer_key r of Inr k \<Rightarrow> k | Inl e \<Rightarrow> ([], [], 0))"

lemma group_transfers_by:
  assumes "group_transfers rows = Inr g"
  shows "g = group_by key_of rows"
proof -
  have "foldr_res (\<lambda>d r. bindr (transfer_key r) (\<lambda>k. Inr (dappend k r d))) d rows = Inr e \<Longrightarrow>
      e = fold (\<lambda>x d. dappend (key_of x) x d) rows d" for d e
    by (induction rows arbitrary: d) (auto simp: bindr_eq_Inr key_of_def)
  then show ?thesis using assms by (simp add: group_transfers_def group_by_def)
qed

definition completed :: "row \<Rightarrow> bool" where
  "completed r \<longleftrightarrow> map_of r ''status'' = Some (PStr ''success'') \<and>
     (case pv_int (dget r ''round_complete'' (PInt 0)) of Inl e \<Rightarrow> False | Inr n \<Rightarrow> n \<noteq> 0)"

definition summary_head :: "row list \<Rightarrow> string \<times> string \<times> int \<Rightarrow> row" where
  "summary_head rows k = (case k of (cid, direction, n) \<Rightarrow>
     [(''case_id'', PStr cid), (''direction'', PStr direction), (''payload_bytes'', PInt n),
      (''success_count'', PInt (int (length (filter (\<lambda>r. key_of r = k \<and> completed r) rows))))])"

lemma transfer_row_head:
  assumes "transfer_summary_row (k, filter (\<lambda>x. key_of x = k) rows) = Inr r"
  shows "take 4 r = summary_head rows k"
proof -
  obtain cid direction n where k: "k = (cid, direction, n)" by (cases k) auto
  have sub: "ys = filter completed xs" if "filterr completed_transfer xs = Inr ys" for xs ys
    using that
    by (rule filterr_filter) (auto simp: completed_def completed_transfer_def has_status_def cell_def
        dindex_def bindr_eq_Inr split: option.splits sum.splits if_splits)
  have "filter completed (filter (\<lambda>x. key_of x = k) rows) = filter (\<lambda>r. key_of r = k \<and> completed r) rows"
    by (simp add: conj_commute)
  then show ?thesis
    using assms unfolding transfer_summary_row_def k prod.case bindr_eq_Inr
    by (elim exE conjE) (drule sub, auto simp: summary_head_def)
qed

section \<open>The counts over the measured attempts\<close>

lemma filter_all: "length (filter P ys) = length ys \<longleftrightarrow> (\<forall>y\<in>set ys. P y)"
  by (induction ys) (auto, metis length_filter_le Suc_n_not_le_n)

lemma all_measured_succeed:
  "length (filter (counted ''success'') attempts) = length (filter measured attempts) \<longleftrightarrow>
     (\<forall>x\<in>set (filter measured attempts). counted ''success'' x)"
  unfolding counted_filter [symmetric] filter_all by (auto simp: counted_def measured_def)

lemma counted_are_measured:
  "filter (counted st) attempts \<noteq> [] \<Longrightarrow> filter measured attempts \<noteq> []"
  by (auto simp: filter_empty_conv counted_def measured_def)

lemma counted_cells:
  assumes "summarize cs attempts = Inr r" "k \<in> count_keys"
  obtains status counts where
    "case_status (filter measured attempts) (filter (counted ''success'') attempts) = Inr status"
    "count_cells status (filter measured attempts) (filter (counted ''success'') attempts) = Inr counts"
    "map_of r k = map_of counts k"
  using assms
proof (rule summary_cells)
  fix ms success status counts
  assume "measured_attempts attempts = Inr ms" "successful_attempts ms = Inr success"
    "case_status ms success = Inr status" "count_cells status ms success = Inr counts"
    "map_of r k = map_of counts k"
  moreover from this have "ms = filter measured attempts" "success = filter (counted ''success'') attempts"
    using measured_filter status_filter counted_filter unfolding successful_attempts_def by metis+
  ultimately show thesis using that by blast
qed

lemma counted_tally:
  assumes "count_cells st (filter measured attempts) success = Inr counts"
  shows "counts = [(''status'', PStr st), (''success_count'', PInt (int (length success))),
      (''fail_count'', PInt (int (length (filter (counted ''fail'') attempts)))),
      (''timeout_count'', PInt (int (length (filter (counted ''timeout'') attempts)))),
      (''unsupported_count'', PInt (int (length (filter (counted ''unsupported'') attempts))))]"
  using assms unfolding count_cells_def bindr_eq_Inr
  by (elim exE conjE) ((drule count_status_filter)+, simp only: counted_filter sum.inject)

lemma case_status_all:
  assumes "case_status (filter measured attempts) (filter (counted ''success'') attempts) = Inr st"
  shows "st = ''success'' \<longleftrightarrow>
    filter measured attempts \<noteq> [] \<and> (\<forall>x\<in>set (filter measured attempts). counted ''success'' x)"
  using case_status_success [OF assms] all_measured_succeed counted_are_measured
  by (metis length_0_conv)

section \<open>Properties\<close>

text \<open>
  C13: The counts of a summary are counts of the measured attempts: for each status the
  number of attempts whose warmup cell is zero and whose status it is; and the case is
  called a success exactly when there is a measured attempt and all of them succeeded.
\<close>

theorem summary_counts:
  assumes "summarize cs attempts = Inr r"
  shows "map_of r ''success_count'' = Some (PInt (int (length (filter (counted ''success'') attempts)))) \<and>
    map_of r ''fail_count'' = Some (PInt (int (length (filter (counted ''fail'') attempts)))) \<and>
    map_of r ''timeout_count'' = Some (PInt (int (length (filter (counted ''timeout'') attempts)))) \<and>
    map_of r ''unsupported_count'' = Some (PInt (int (length (filter (counted ''unsupported'') attempts)))) \<and>
    (map_of r ''status'' = Some (PStr ''success'') \<longleftrightarrow>
      filter measured attempts \<noteq> [] \<and> (\<forall>x\<in>set (filter measured attempts). counted ''success'' x))"
proof -
  have cell: "\<exists>st counts. case_status (filter measured attempts) (filter (counted ''success'') attempts) = Inr st \<and>
      count_cells st (filter measured attempts) (filter (counted ''success'') attempts) = Inr counts \<and>
      map_of r k = map_of counts k" if "k \<in> count_keys" for k
    using counted_cells [OF assms that] by metis
  note tallied = cell [of "''success_count''"] cell [of "''fail_count''"]
    cell [of "''timeout_count''"] cell [of "''unsupported_count''"]
  have "\<exists>st. map_of r ''status'' = Some (PStr st) \<and>
      case_status (filter measured attempts) (filter (counted ''success'') attempts) = Inr st"
    using cell [of "''status''"] by (auto simp: count_keys_def dest!: counted_tally)
  then have "map_of r ''status'' = Some (PStr ''success'') \<longleftrightarrow>
      filter measured attempts \<noteq> [] \<and> (\<forall>x\<in>set (filter measured attempts). counted ''success'' x)"
    using case_status_all by force
  then show ?thesis
    using tallied by (auto simp: count_keys_def dest!: counted_tally)
qed

definition demo_attempts :: "row list" where
  "demo_attempts = map (\<lambda>(w, st). [(''warmup'', PInt w), (''status'', PStr st)])
     [(1, ''success''), (0, ''fail''), (0, ''timeout'')]"

lemma demo_summary: "\<exists>r. summarize full_demo_case demo_attempts = Inr r"
proof -
  let ?ms = "[[(''warmup'', PInt 0), (''status'', PStr ''fail'')], [(''warmup'', PInt 0), (''status'', PStr ''timeout'')]]"
  have "measured_attempts demo_attempts = Inr ?ms" "successful_attempts ?ms = Inr []"
    "case_status ?ms [] = Inr ''timeout''"
    by code_simp+
  moreover define ns :: numbers where "ns = map (\<lambda>k. (k, [])) FLOAT_FIELDS @ map (\<lambda>k. (k, [])) NUMBER_FIELDS"
  have "read_numbers [] ks = Inr (map (\<lambda>k. (k, [])) ks)" for ks
    unfolding read_numbers_def by (rule mapr_map) (simp add: cell_numbers_def)
  moreover have "\<exists>x. timing_cells ns = Inr x"
    by (simp add: timing_cells_def aggregate_def Let_def dget_def ns_def FLOAT_FIELDS_def)
  moreover have "(case power_summary [] of Inl e \<Rightarrow> False | Inr x \<Rightarrow> True)"
    "(case identity_cells full_demo_case demo_attempts [] of Inl e \<Rightarrow> False | Inr x \<Rightarrow> True)"
    "(case count_cells ''timeout'' ?ms [] of Inl e \<Rightarrow> False | Inr x \<Rightarrow> True)"
    by code_simp+
  then obtain energy identity counts where "power_summary [] = Inr energy"
    "identity_cells full_demo_case demo_attempts [] = Inr identity" "count_cells ''timeout'' ?ms [] = Inr counts"
    by (auto split: sum.splits)
  moreover have "cell_ints [] ''client_heap_peak_bytes'' = Inr []"
    by (simp add: cell_ints_def)
  moreover have "\<exists>x. cpu_summary [] ns = Inr x" "\<exists>x. heap_summary [] ns [] = Inr x"
    "\<exists>x. memory_summary [] ns = Inr x"
    by (simp_all add: cpu_summary_def heap_summary_def memory_summary_def first_cells_def first_successful_def)
  ultimately show ?thesis
    by (elim exE) (simp add: summarize_def Let_def ns_def [symmetric])
qed

lemma summary_counts_witness:
  "\<exists>r. summarize full_demo_case demo_attempts = Inr r \<and>
     map_of r ''fail_count'' = Some (PInt 1) \<and> map_of r ''timeout_count'' = Some (PInt 1) \<and>
     map_of r ''success_count'' = Some (PInt 0) \<and> map_of r ''status'' \<noteq> Some (PStr ''success'')"
proof -
  obtain r where r: "summarize full_demo_case demo_attempts = Inr r" using demo_summary ..
  have n: "length (filter (counted ''fail'') demo_attempts) = 1" "length (filter (counted ''timeout'') demo_attempts) = 1"
    "length (filter (counted ''success'') demo_attempts) = 0"
    "\<not> (\<forall>x\<in>set (filter measured demo_attempts). counted ''success'' x)"
    by code_simp+
  show ?thesis
    using summary_counts [OF r] r n by simp
qed

text \<open>
  C32: The transfers are summarised by group: one row for each case, direction and size that
  occurs, in sorted order, and its success count is the number of transfers of the group that
  succeeded in a round that was completed.
\<close>

theorem transfer_groups_summarised:
  assumes "summarize_transfers rows = Inr out"
  shows "\<exists>ks. sorted ks \<and> distinct ks \<and> set ks = key_of ` set rows \<and>
    list_all2 (\<lambda>k r. take 4 r = summary_head rows k) ks out"
proof -
  define g where "g = sort_key fst (group_by key_of rows)"
  have out: "list_all2 (\<lambda>x r. transfer_summary_row x = Inr r) g out"
    using assms by (auto simp: summarize_transfers_def bindr_eq_Inr g_def mapr_Inr_iff dest!: group_transfers_by)
  have keys: "set (map fst g) = key_of ` set rows" "distinct (map fst g)" "sorted (map fst g)"
    using group_by_keys [of key_of rows] group_by_distinct [of key_of rows]
    by (simp_all add: g_def distinct_map)
  have "x = (fst x, filter (\<lambda>r. key_of r = fst x) rows)" if "x \<in> set g" for x
  proof -
    have "map_of (group_by key_of rows) (fst x) = Some (snd x)"
      using that group_by_distinct [of key_of rows] by (simp add: g_def)
    then show ?thesis by (cases x) (auto simp: map_of_group_by Let_def split: if_splits)
  qed
  then have "list_all2 (\<lambda>x r. take 4 r = summary_head rows (fst x)) g out"
    using transfer_row_head by (intro list.rel_mono_strong [OF out]) metis
  then have "list_all2 (\<lambda>k r. take 4 r = summary_head rows k) (map fst g) out"
    by (simp add: list_all2_map1)
  with keys show ?thesis by blast
qed

lemma transfer_groups_summarised_witness:
  "\<exists>out ks. summarize_transfers [[(''case_id'', PStr ''a''), (''direction'', PStr ''d''), (''payload_bytes'', PInt 8),
       (''status'', PStr ''fail'')]] = Inr out \<and> sorted ks \<and> distinct ks \<and>
     list_all2 (\<lambda>k r. take 4 r = summary_head [[(''case_id'', PStr ''a''), (''direction'', PStr ''d''),
       (''payload_bytes'', PInt 8), (''status'', PStr ''fail'')]] k) ks out"
proof -
  let ?rows = "[[(''case_id'', PStr ''a''), (''direction'', PStr ''d''), (''payload_bytes'', PInt 8),
       (''status'', PStr ''fail'')]]"
  have "(case summarize_transfers ?rows of Inl e \<Rightarrow> False | Inr x \<Rightarrow> True)" by code_simp
  then obtain out where out: "summarize_transfers ?rows = Inr out" by (auto split: sum.splits)
  from transfer_groups_summarised [OF out] out show ?thesis by blast
qed

end
