(* ===== verification/Power_Profiler.thy ===== *)
theory Power_Profiler
  imports Run_Job Py_Csv
begin

text \<open>
  The current profiler (\<open>benchmarklib/power_profiler.py\<close>): the session that keeps the PPK2
  open, the capture of one attempt with its polling thread, the windows the digital markers
  cut out of the samples, and the cells of the row.  The library \<open>ppk2_api\<close> is an interface
  \<open>ppk\<close>; what the polling thread reads until it is told to stop is a list of reads.
\<close>

unbundle bit_operations_syntax

section \<open>The device\<close>

record 'w ppk =
  pk_open :: "string \<Rightarrow> ('w, unit) io"
  pk_reset_input :: "('w, unit) io"
  pk_modifiers :: "('w, bool) io"
  pk_source_meter :: "('w, unit) io"
  pk_source_voltage :: "int \<Rightarrow> ('w, unit) io"
  pk_power :: "bool \<Rightarrow> ('w, unit) io"
  pk_start_measuring :: "('w, unit) io"
  pk_stop_measuring :: "('w, unit) io"
  pk_get_data :: "('w, byte list) io"
  pk_get_samples :: "byte list \<Rightarrow> ('w, rat list \<times> int list) io"
  pk_close :: "('w, unit) io"
  pk_gzip :: "string \<Rightarrow> string \<Rightarrow> ('w, unit) io"

text \<open>One pass of the polling thread: nothing to read, samples with their masks, or an exception.\<close>

datatype reading = NoData | Samples "rat list" "int list" | ReadError pyexc

definition NATIVE_SAMPLE_RATE_HZ :: int where
  "NATIVE_SAMPLE_RATE_HZ = 100000"

definition marker :: "int \<Rightarrow> nat \<Rightarrow> bool" where
  "marker msk n \<longleftrightarrow> msk AND push_bit n 1 \<noteq> 0"

definition WINDOW_ACTIVE :: "(string \<times> (int \<Rightarrow> bool)) list" where
  "WINDOW_ACTIVE = [
     (''total_execution'', \<lambda>msk. marker msk 7),
     (''handshake'', \<lambda>msk. marker msk 6),
     (''client_kem'', \<lambda>msk. marker msk 5),
     (''mlkem'', \<lambda>msk. marker msk 5 \<and> \<not> marker msk 4),
     (''classical_kex'', \<lambda>msk. marker msk 5 \<and> marker msk 4),
     (''client_signature'', \<lambda>msk. marker msk 4 \<and> \<not> marker msk 5)]"

definition REQUIRED_WINDOWS :: "string list" where
  "REQUIRED_WINDOWS = [''total_execution'', ''handshake'', ''client_kem'', ''client_signature'']"

record window =
  wn_start :: int
  wn_end :: int
  wn_count :: int
  wn_sum :: rat
  wn_peak :: rat

definition combine_windows :: "window list \<Rightarrow> window res" where
  "combine_windows ws = (if ws = [] then Inl (ValueError ''at least one power window is required'')
     else Inr \<lparr>wn_start = fold min (map wn_start (tl ws)) (wn_start (hd ws)),
       wn_end = fold max (map wn_end (tl ws)) (wn_end (hd ws)),
       wn_count = sum_list (map wn_count ws), wn_sum = py_sum (map wn_sum ws),
       wn_peak = max_of (map wn_peak ws)\<rparr>)"

section \<open>The capture of one attempt\<close>

record active_window =
  aw_start :: int
  aw_count :: int
  aw_sum :: rat
  aw_peak :: rat

record power_capture =
  cp_vdd :: int
  cp_rate :: int
  cp_transfer :: bool
  cp_index :: int
  cp_trace :: "(rat \<times> rat \<times> int) list"
  cp_next :: rat
  cp_active :: "(string, active_window) dict"
  cp_completed :: "(string, window list) dict"
  cp_last_mask :: int
  cp_error :: "pyexc option"

definition new_capture :: "int \<Rightarrow> int \<Rightarrow> bool \<Rightarrow> power_capture res" where
  "new_capture vdd_mv rate transfer_mode =
     (if vdd_mv \<le> 0 then Inl (ValueError ''PPK2 VDD must be positive'')
      else if \<not> (1 \<le> rate \<and> rate \<le> NATIVE_SAMPLE_RATE_HZ)
      then Inl (ValueError ''PPK2 output sample rate must be between 1 and 100000'')
      else Inr \<lparr>cp_vdd = vdd_mv, cp_rate = rate, cp_transfer = transfer_mode, cp_index = 0, cp_trace = [],
        cp_next = 0, cp_active = [], cp_completed = map (\<lambda>(name, _). (name, [])) WINDOW_ACTIVE,
        cp_last_mask = 0, cp_error = None\<rparr>)"

definition process_window ::
  "int \<Rightarrow> rat \<Rightarrow> int \<Rightarrow> string \<times> (int \<Rightarrow> bool) \<Rightarrow> power_capture \<Rightarrow> power_capture" where
  "process_window index current msk entry c = (case entry of (name, is_active) \<Rightarrow>
     (let high = is_active msk; was_high = is_active (cp_last_mask c);
          active = (if high \<and> \<not> was_high
            then dset name \<lparr>aw_start = index, aw_count = 0, aw_sum = 0, aw_peak = current\<rparr> (cp_active c)
            else cp_active c) in
      case map_of active name of
        None \<Rightarrow> c\<lparr>cp_active := active\<rparr>
      | Some w \<Rightarrow>
          (if high then c\<lparr>cp_active := dset name (w\<lparr>aw_count := aw_count w + 1,
               aw_sum := fadd (aw_sum w) current, aw_peak := max (aw_peak w) current\<rparr>) active\<rparr>
           else if was_high then c\<lparr>cp_active := AList.delete name active,
               cp_completed := dappend name \<lparr>wn_start = aw_start w, wn_end = index, wn_count = aw_count w,
                 wn_sum = aw_sum w, wn_peak = aw_peak w\<rparr> (cp_completed c)\<rparr>
           else c\<lparr>cp_active := active\<rparr>)))"

definition process_sample :: "int \<Rightarrow> rat \<Rightarrow> int \<Rightarrow> power_capture \<Rightarrow> power_capture" where
  "process_sample index current msk c =
     (fold (process_window index current msk) WINDOW_ACTIVE c)\<lparr>cp_last_mask := msk\<rparr>"

definition take_sample :: "rat \<times> int \<Rightarrow> power_capture \<Rightarrow> power_capture" where
  "take_sample cm c = (case cm of (current, msk) \<Rightarrow>
     (let index = cp_index c; p = process_sample index current msk c;
          q = (if cp_next p \<le> of_int index
            then p\<lparr>cp_trace := cp_trace p @
                    [(fdiv (of_int index) (of_int NATIVE_SAMPLE_RATE_HZ), current, msk)],
                  cp_next := fadd (cp_next p) (fdiv (of_int NATIVE_SAMPLE_RATE_HZ) (of_int (cp_rate p)))\<rparr>
            else p)
      in q\<lparr>cp_index := index + 1\<rparr>))"

text \<open>The polling thread: an exception ends it and is kept for \<open>stop\<close>.\<close>

fun capture_loop :: "reading list \<Rightarrow> power_capture \<Rightarrow> power_capture" where
  "capture_loop [] c = c"
| "capture_loop (NoData # reads) c = capture_loop reads c"
| "capture_loop (Samples currents masks # reads) c =
     capture_loop reads (fold take_sample (zip currents masks) c)"
| "capture_loop (ReadError e # reads) c = c\<lparr>cp_error := Some e\<rparr>"

section \<open>The cells of the row\<close>

definition completed_of :: "power_capture \<Rightarrow> string \<Rightarrow> window list" where
  "completed_of c name = dget (cp_completed c) name []"

definition empty_result :: "power_capture \<Rightarrow> string \<Rightarrow> string \<Rightarrow> row" where
  "empty_result c status message = [
     (''power_status'', PStr status), (''power_profiler_sample_count'', PInt (cp_index c)),
     (''power_profiler_window_count'', PInt (int (length (completed_of c ''total_execution'')))),
     (''power_profiler_vdd_mv'', PInt (cp_vdd c)),
     (''power_profiler_output_samples_per_second'', PInt (cp_rate c))] @
     (if message = [] then [] else [(''power_error'', PStr message)])"

definition contains_window :: "window \<Rightarrow> window \<Rightarrow> bool" where
  "contains_window outer inner \<longleftrightarrow> wn_start outer \<le> wn_start inner \<and> wn_end inner \<le> wn_end outer"

definition total_window :: "power_capture \<Rightarrow> window list \<Rightarrow> window \<times> window list" where
  "total_window c totals =
     (if cp_transfer c \<and> completed_of c ''handshake'' \<noteq> [] then
        (let handshake = last (completed_of c ''handshake'');
             whole = (case find (\<lambda>w. contains_window w handshake) totals of Some w \<Rightarrow> w | None \<Rightarrow> hd totals)
         in (whole, filter (\<lambda>w. wn_end whole < wn_start w) totals))
      else (last totals, []))"

definition select_window :: "power_capture \<Rightarrow> window \<Rightarrow> string \<Rightarrow> (string \<times> window) list res" where
  "select_window c whole name =
     (let contained = filter (contains_window whole) (completed_of c name) in
      if name = ''total_execution'' \<or> contained = [] then Inr []
      else bindr (combine_windows contained) (\<lambda>w. Inr [(name, w)]))"

definition selected_windows :: "power_capture \<Rightarrow> window \<Rightarrow> (string, window) dict res" where
  "selected_windows c whole =
     bindr (mapr (select_window c whole) (map fst WINDOW_ACTIVE)) (\<lambda>parts.
     Inr ((''total_execution'', whole) # concat parts))"

definition average_current :: "window \<Rightarrow> rat res" where
  "average_current w = (if wn_count w = 0 then Inl ZeroDivisionError
     else Inr (fdiv (wn_sum w) (float_of_int (wn_count w))))"

definition window_charge :: "window \<Rightarrow> rat" where
  "window_charge w = fdiv (wn_sum w) (float_of_int NATIVE_SAMPLE_RATE_HZ)"

definition window_energy :: "power_capture \<Rightarrow> window \<Rightarrow> rat" where
  "window_energy c w = fdiv (fmul (window_charge w) (float_of_int (cp_vdd c))) 1000"

definition window_cells :: "power_capture \<Rightarrow> string \<times> window \<Rightarrow> row res" where
  "window_cells c nw = (case nw of (name, w) \<Rightarrow>
     bindr (average_current w) (\<lambda>avg.
     Inr [(name @ ''_duration_ms'', PStr (fmt_fixed 3
            (fmul (fdiv (of_int (wn_count w)) (of_int NATIVE_SAMPLE_RATE_HZ)) 1000))),
          (name @ ''_charge_uc'', PStr (fmt_fixed 6 (window_charge w))),
          (name @ ''_energy_uj'', PStr (fmt_fixed 6 (window_energy c w))),
          (name @ ''_avg_current_ua'', PStr (fmt_fixed 3 avg)),
          (name @ ''_peak_current_ua'', PStr (fmt_fixed 3 (wn_peak w)))]))"

definition transfer_window :: "power_capture \<Rightarrow> window \<Rightarrow> pyval res" where
  "transfer_window c w =
     bindr (average_current w) (\<lambda>avg.
     Inr (PDict [
       (''duration_ms'', PStr (fmt_fixed 3
          (fdiv (fmul (float_of_int (wn_count w)) 1000) (float_of_int NATIVE_SAMPLE_RATE_HZ)))),
       (''charge_uc'', PStr (fmt_fixed 6 (window_charge w))),
       (''energy_uj'', PStr (fmt_fixed 6 (window_energy c w))),
       (''avg_current_ua'', PStr (fmt_fixed 3 avg)),
       (''peak_current_ua'', PStr (fmt_fixed 3 (wn_peak w)))]))"

definition measurements :: "power_capture \<Rightarrow> row res" where
  "measurements c =
     (let totals = completed_of c ''total_execution'' in
      if totals = [] then Inr (empty_result c ''incomplete'' [])
      else case total_window c totals of (whole, transfer_totals) \<Rightarrow>
        bindr (selected_windows c whole) (\<lambda>selected.
        let status = (if list_all (dhas selected) REQUIRED_WINDOWS then ''success'' else ''incomplete'') in
        bindr (mapr (window_cells c) selected) (\<lambda>cells.
        let result = dupdate (empty_result c status []) (concat cells) in
        if \<not> cp_transfer c then Inr result
        else bindr (mapr (transfer_window c) (filter (\<lambda>w. 0 < wn_count w) transfer_totals)) (\<lambda>ws.
          Inr (dset ''transfer_power_windows'' (PList ws) result)))))"

definition trace_row :: "rat \<times> rat \<times> int \<Rightarrow> string list" where
  "trace_row t = (case t of (timestamp, current, msk) \<Rightarrow>
     [fmt_fixed 6 timestamp, fmt_fixed 6 current, str_int msk])"

definition trace_text :: "power_capture \<Rightarrow> string" where
  "trace_text c = csv_text ([''time_s'', ''current_ua'', ''digital_mask''] # map trace_row (cp_trace c))"

definition write_trace :: "'w host \<Rightarrow> 'w ppk \<Rightarrow> string \<Rightarrow> power_capture \<Rightarrow> ('w, unit) io" where
  "write_trace H D path c = seqm (h_mkdir H (path_parent path)) (pk_gzip D path (trace_text c))"

section \<open>The session\<close>

text \<open>
  The attributes \<open>ppk is not None\<close> and \<open>powered\<close> of the session, next to the world.
\<close>

record 'w bench =
  bn_world :: 'w
  bn_open :: bool
  bn_powered :: bool

definition benchm :: "('w, 'a) io \<Rightarrow> ('w bench, 'a) io" where
  "benchm = zoom bn_world (\<lambda>w s. s\<lparr>bn_world := w\<rparr>)"

definition set_open :: "bool \<Rightarrow> ('w bench, unit) io" where
  "set_open b = modifym (\<lambda>s. s\<lparr>bn_open := b\<rparr>)"

definition set_powered :: "bool \<Rightarrow> ('w bench, unit) io" where
  "set_powered b = modifym (\<lambda>s. s\<lparr>bn_powered := b\<rparr>)"

definition need_open :: "('w bench, unit) io" where
  "need_open = bindm (getm bn_open) (\<lambda>opened.
     if opened then retm () else raisem (RuntimeError ''PPK2 session is not open''))"

definition calibrate_ppk :: "'w host \<Rightarrow> 'w ppk \<Rightarrow> string \<Rightarrow> int \<Rightarrow> ('w, unit) io" where
  "calibrate_ppk H D device vdd_mv =
     seqm (h_sleep H (1 / 10))
     (seqm (pk_reset_input D)
     (bindm (pk_modifiers D) (\<lambda>ok.
      if \<not> ok then raisem (RuntimeError (''could not read PPK2 calibration data from '' @ device))
      else seqm (pk_source_meter D) (pk_source_voltage D vdd_mv))))"

definition release_ppk :: "'w ppk \<Rightarrow> ('w bench, unit) io" where
  "release_ppk D = seqm (benchm (pk_close D)) (set_open False)"

definition open_session :: "'w host \<Rightarrow> 'w ppk \<Rightarrow> string \<Rightarrow> int \<Rightarrow> ('w bench, unit) io" where
  "open_session H D device vdd_mv =
     seqm (benchm (pk_open D device))
     (seqm (set_open True)
     (catchm (benchm (seqm (pk_stop_measuring D) (seqm (pk_power D False) (calibrate_ppk H D device vdd_mv))))
        (\<lambda>_. True)
        (\<lambda>e. seqm (finallym (benchm (pk_power D False)) (release_ppk D)) (raisem e))))"

definition power_on :: "'w host \<Rightarrow> 'w ppk \<Rightarrow> rat \<Rightarrow> ('w bench, unit) io" where
  "power_on H D boot_seconds =
     seqm need_open (seqm (benchm (pk_power D True)) (seqm (set_powered True) (benchm (h_sleep H boot_seconds))))"

definition probe_round ::
  "'w host \<Rightarrow> 'w ppk \<Rightarrow> rat \<Rightarrow> rat list \<Rightarrow> ('w, rat list + rat list) io" where
  "probe_round H D deadline samples =
     bindm (h_monotonic H) (\<lambda>now.
     if deadline \<le> now then retm (Inr samples)
     else bindm (pk_get_data D) (\<lambda>raw.
       if raw = [] then seqm (h_sleep H (2 / 1000)) (retm (Inl samples))
       else bindm (pk_get_samples D raw) (\<lambda>(current, _). retm (Inl (samples @ current)))))"

definition probe_current :: "'w host \<Rightarrow> 'w ppk \<Rightarrow> nat \<Rightarrow> ('w bench, rat \<times> rat) io" where
  "probe_current H D fuel =
     seqm need_open
     (bindm (getm bn_powered) (\<lambda>powered.
      if \<not> powered then raisem (RuntimeError ''PPK2 DUT power is off'')
      else bindm (benchm (seqm (pk_start_measuring D)
        (finallym (bindm (h_monotonic H) (\<lambda>now. poll (probe_round H D (fadd now (1 / 2))) fuel []))
           (pk_stop_measuring D)))) (\<lambda>samples.
      if samples = [] then raisem (RuntimeError ''PPK2 returned no current samples'')
      else retm (stat_fmean (map abs samples), max_of (map abs samples)))))"

definition power_cycle :: "'w host \<Rightarrow> 'w ppk \<Rightarrow> rat \<Rightarrow> rat \<Rightarrow> ('w bench, unit) io" where
  "power_cycle H D off_seconds boot_seconds =
     seqm need_open
     (seqm (benchm (pk_stop_measuring D))
     (seqm (benchm (pk_power D False))
     (seqm (set_powered False)
     (seqm (benchm (h_sleep H off_seconds))
     (seqm (benchm (pk_power D True))
     (seqm (set_powered True) (benchm (h_sleep H boot_seconds))))))))"

definition close_session :: "'w ppk \<Rightarrow> ('w bench, unit) io" where
  "close_session D =
     bindm (getm bn_open) (\<lambda>opened.
     if \<not> opened then retm ()
     else finallym (benchm (pk_stop_measuring D))
       (finallym (seqm (benchm (pk_power D False)) (set_powered False)) (release_ppk D)))"

section \<open>Starting and stopping a capture\<close>

text \<open>
  A capture of a session shares its device; one of its own opens it (\<open>owns\<close>) and closes it.
  \<open>reads\<close> is what the polling thread read between \<open>start\<close> and \<open>stop\<close>.
\<close>

definition start_capture :: "'w host \<Rightarrow> 'w ppk \<Rightarrow> string \<Rightarrow> bool \<Rightarrow> power_capture \<Rightarrow> ('w, unit) io" where
  "start_capture H D device owns c =
     seqm (if \<not> owns then retm ()
       else seqm (pk_open D device) (seqm (pk_stop_measuring D)
         (seqm (calibrate_ppk H D device (cp_vdd c)) (pk_power D True))))
     (pk_start_measuring D)"

definition keep_error :: "pyexc \<Rightarrow> power_capture \<Rightarrow> power_capture" where
  "keep_error e c = (if cp_error c = None then c\<lparr>cp_error := Some e\<rparr> else c)"

definition stop_capture ::
  "'w host \<Rightarrow> 'w ppk \<Rightarrow> bool \<Rightarrow> reading list \<Rightarrow> string \<Rightarrow> power_capture \<Rightarrow> ('w, row) io" where
  "stop_capture H D owns reads trace_path c0 =
     seqm (h_sleep H (5 / 100))
     (let c = capture_loop reads c0 in
      bindm (finallym
        (catchm (seqm (pk_stop_measuring D) (retm c)) is_exception (\<lambda>e. retm (keep_error e c)))
        (if owns then finallym (pk_power D False) (pk_close D) else retm ())) (\<lambda>c'.
      seqm (write_trace H D trace_path c')
      (case cp_error c' of
         Some e \<Rightarrow> retm (empty_result c' ''error'' (h_exc_text H e))
       | None \<Rightarrow> liftm (measurements c'))))"

text \<open>The profiler of a run, as \<open>run_job\<close> uses it; \<open>thread\<close> is what the polling thread reads.\<close>

definition session_profiler ::
  "'w host \<Rightarrow> 'w ppk \<Rightarrow> string \<Rightarrow> int \<Rightarrow> int \<Rightarrow> bool \<Rightarrow> ('w, reading list) io \<Rightarrow> 'w bench profiler" where
  "session_profiler H D device vdd_mv rate transfer_mode thread = \<lparr>
     pp_start = seqm need_open
       (bindm (liftm (new_capture vdd_mv rate transfer_mode)) (\<lambda>c.
        benchm (start_capture H D device False c))),
     pp_stop = (\<lambda>trace.
       bindm (liftm (new_capture vdd_mv rate transfer_mode)) (\<lambda>c.
       benchm (bindm thread (\<lambda>reads. stop_capture H D False reads trace c)))),
     pp_cycle = power_cycle H D (1 / 4) 1\<rparr>"

section \<open>Pulses of a marker\<close>

text \<open>
  The reference for the windows: a pulse is a maximal run of samples with the marker high
  that a low sample ends; its window counts and adds up exactly the samples of the run.
\<close>

definition pulse :: "(int \<Rightarrow> bool) \<Rightarrow> int list \<Rightarrow> nat \<Rightarrow> nat \<Rightarrow> bool" where
  "pulse P ms s e \<longleftrightarrow> list_all (\<lambda>i. P (ms ! i)) [s..<e] \<and> \<not> P (ms ! e) \<and> (s = 0 \<or> \<not> P (ms ! (s - 1)))"

definition pulses :: "(int \<Rightarrow> bool) \<Rightarrow> int list \<Rightarrow> (nat \<times> nat) list" where
  "pulses P ms = concat (map (\<lambda>e. map (\<lambda>s. (s, e)) (filter (\<lambda>s. pulse P ms s e) [0..<e])) [0..<length ms])"

definition window_of :: "(rat \<times> int) list \<Rightarrow> nat \<times> nat \<Rightarrow> window" where
  "window_of xs se = (case se of (s, e) \<Rightarrow> let ys = map fst (drop s (take e xs)) in
     \<lparr>wn_start = int s, wn_end = int e, wn_count = int (e - s), wn_sum = py_sum ys, wn_peak = max_of ys\<rparr>)"

fun samples_of :: "reading list \<Rightarrow> (rat \<times> int) list" where
  "samples_of [] = []"
| "samples_of (NoData # reads) = samples_of reads"
| "samples_of (Samples currents masks # reads) = zip currents masks @ samples_of reads"
| "samples_of (ReadError e # reads) = []"

fun read_error :: "reading list \<Rightarrow> pyexc option" where
  "read_error [] = None"
| "read_error (ReadError e # reads) = Some e"
| "read_error (_ # reads) = read_error reads"

definition run_start :: "(int \<Rightarrow> bool) \<Rightarrow> int list \<Rightarrow> nat" where
  "run_start P ms = length ms - length (takeWhile P (rev ms))"

lemma run_start_le: "run_start P ms \<le> length ms"
  by (simp add: run_start_def)

lemma run_start_last:
  assumes "ms \<noteq> []" "P (last ms)" shows "run_start P ms < length ms"
proof -
  have "takeWhile P (rev ms) \<noteq> []"
    using assms by (simp add: takeWhile_eq_Nil_iff hd_rev)
  then show ?thesis
    using assms(1) by (simp add: run_start_def)
qed

lemma run_start_high:
  assumes "run_start P ms \<le> i" "i < length ms" shows "P (ms ! i)"
proof -
  let ?t = "takeWhile P (rev ms)" and ?j = "length ms - Suc i"
  have j: "?j < length ?t"
    using assms length_takeWhile_le [of P "rev ms"] by (simp add: run_start_def)
  then have "rev ms ! ?j = ?t ! ?j"
    by (simp add: takeWhile_nth)
  moreover have "rev ms ! ?j = ms ! i"
    using assms(2) by (simp add: rev_nth)
  ultimately show ?thesis
    using nth_mem [OF j] set_takeWhileD by metis
qed

lemma run_start_low:
  assumes "0 < run_start P ms" shows "\<not> P (ms ! (run_start P ms - 1))"
proof -
  let ?t = "length (takeWhile P (rev ms))"
  have t: "?t < length ms"
    using assms by (simp add: run_start_def)
  then have "\<not> P (rev ms ! ?t)"
    using nth_length_takeWhile [of P "rev ms"] by simp
  then show ?thesis
    using t by (simp add: run_start_def rev_nth)
qed

lemma run_start_snoc:
  "P m \<Longrightarrow> run_start P (ms @ [m]) = (if ms \<noteq> [] \<and> P (last ms) then run_start P ms else length ms)"
  by (cases ms rule: rev_cases) (auto simp: run_start_def)

lemma filter_upt_single:
  assumes "s < n" "\<And>i. i < n \<Longrightarrow> Q i \<longleftrightarrow> i = s" shows "filter Q [0..<n] = [s]"
proof -
  have "[0..<n] = [0..<s] @ s # [Suc s..<n]"
    using assms(1) by (metis le0 less_imp_le_nat upt_add_eq_append upt_conv_Cons le_add_diff_inverse)
  moreover have "filter Q [0..<s] = []" "filter Q [Suc s..<n] = []" "Q s"
    using assms by (auto simp: filter_empty_conv)
  ultimately show ?thesis by simp
qed

lemma pulse_snoc: "s < e \<Longrightarrow> e < length ms \<Longrightarrow> pulse P (ms @ [m]) s e \<longleftrightarrow> pulse P ms s e"
  by (auto simp: pulse_def list_all_iff nth_append)

lemma pulse_end:
  "filter (\<lambda>s. pulse P (ms @ [m]) s (length ms)) [0..<length ms] =
     (if \<not> P m \<and> ms \<noteq> [] \<and> P (last ms) then [run_start P ms] else [])"
proof (cases "\<not> P m \<and> ms \<noteq> [] \<and> P (last ms)")
  case True
  then have ends: "run_start P ms < length ms" by (simp add: run_start_last)
  have "pulse P (ms @ [m]) i (length ms) \<longleftrightarrow> i = run_start P ms" if i: "i < length ms" for i
  proof
    assume p: "pulse P (ms @ [m]) i (length ms)"
    then have high: "P (ms ! k)" if "i \<le> k" "k < length ms" for k
      using that by (auto simp: pulse_def list_all_iff nth_append)
    have low: "0 < i \<Longrightarrow> \<not> P (ms ! (i - 1))"
      using p i by (cases i) (auto simp: pulse_def nth_append)
    show "i = run_start P ms"
    proof (rule linorder_cases [of i "run_start P ms"])
      assume less: "i < run_start P ms"
      then show ?thesis
        using high [of "run_start P ms - 1"] run_start_low [of P ms] ends by fastforce
    next
      assume "run_start P ms < i"
      then show ?thesis
        using low run_start_high [of P ms "i - 1"] i by fastforce
    qed
  next
    assume "i = run_start P ms"
    then show "pulse P (ms @ [m]) i (length ms)"
      using True run_start_high [of P ms] run_start_low [of P ms] ends
      by (auto simp: pulse_def list_all_iff nth_append)
  qed
  then show ?thesis
    using True filter_upt_single [OF ends] by auto
next
  case False
  have "\<not> pulse P (ms @ [m]) s (length ms)" if "s < length ms" for s
  proof
    assume p: "pulse P (ms @ [m]) s (length ms)"
    have "ms \<noteq> []" using that by auto
    have "P (ms ! (length ms - 1))"
      using p that unfolding pulse_def list_all_iff
      by (auto simp: nth_append dest!: bspec [of _ _ "length ms - 1"])
    then show False
      using False p \<open>ms \<noteq> []\<close> by (auto simp: pulse_def nth_append last_conv_nth)
  qed
  then have "filter (\<lambda>s. pulse P (ms @ [m]) s (length ms)) [0..<length ms] = []"
    by (simp add: filter_empty_conv)
  then show ?thesis using False by presburger
qed

lemma pulses_snoc:
  "pulses P (ms @ [m]) = pulses P ms @
     (if \<not> P m \<and> ms \<noteq> [] \<and> P (last ms) then [(run_start P ms, length ms)] else [])"
proof -
  have "map (\<lambda>e. map (\<lambda>s. (s, e)) (filter (\<lambda>s. pulse P (ms @ [m]) s e) [0..<e])) [0..<length ms] =
      map (\<lambda>e. map (\<lambda>s. (s, e)) (filter (\<lambda>s. pulse P ms s e) [0..<e])) [0..<length ms]"
    by (intro map_cong filter_cong refl) (auto simp: pulse_snoc)
  then have "concat (map (\<lambda>e. map (\<lambda>s. (s, e)) (filter (\<lambda>s. pulse P (ms @ [m]) s e) [0..<e])) [0..<length ms]) =
      pulses P ms"
    unfolding pulses_def by (rule arg_cong)
  then show ?thesis
    by (simp add: pulses_def [of P "ms @ [m]"] pulse_end)
qed

lemma pulses_in: "(s, e) \<in> set (pulses P ms) \<Longrightarrow> s < e \<and> e < length ms"
  by (auto simp: pulses_def)

lemma window_of_snoc: "se \<in> set (pulses P ms) \<Longrightarrow> length ms = length xs \<Longrightarrow>
    window_of (xs @ [x]) se = window_of xs se"
  using pulses_in [of "fst se" "snd se" P ms]
  by (auto simp: window_of_def Let_def split: prod.splits)

section \<open>One marker at a time\<close>

definition window_view :: "string \<Rightarrow> power_capture \<Rightarrow> active_window option \<times> window list" where
  "window_view name c = (map_of (cp_active c) name, completed_of c name)"

definition view_step ::
  "(int \<Rightarrow> bool) \<Rightarrow> int \<Rightarrow> rat \<Rightarrow> int \<Rightarrow> int \<Rightarrow> active_window option \<times> window list \<Rightarrow>
   active_window option \<times> window list" where
  "view_step P index current msk last_mask av = (case av of (a, ws) \<Rightarrow>
     (let fresh = (if P msk \<and> \<not> P last_mask
            then Some \<lparr>aw_start = index, aw_count = 0, aw_sum = 0, aw_peak = current\<rparr> else a) in
      case fresh of None \<Rightarrow> (None, ws)
      | Some w \<Rightarrow> (if P msk then (Some (w\<lparr>aw_count := aw_count w + 1, aw_sum := fadd (aw_sum w) current,
             aw_peak := max (aw_peak w) current\<rparr>), ws)
          else if P last_mask then (None, ws @ [\<lparr>wn_start = aw_start w, wn_end = index,
             wn_count = aw_count w, wn_sum = aw_sum w, wn_peak = aw_peak w\<rparr>])
          else (Some w, ws))))"

lemma process_window_view:
  "window_view name (process_window index current msk (nm, P) c) =
     (if nm = name then view_step P index current msk (cp_last_mask c) (window_view name c)
      else window_view name c)"
  by (auto simp: process_window_def window_view_def view_step_def completed_of_def Let_def dget_def
      dappend_def map_of_dset AList.delete_conv split: option.splits)

lemma process_window_last [simp]:
  "cp_last_mask (process_window index current msk e c) = cp_last_mask c"
  "cp_index (process_window index current msk e c) = cp_index c"
  by (auto simp: process_window_def Let_def split: option.splits prod.splits)

lemma process_windows_last [simp]:
  "cp_last_mask (fold (process_window index current msk) es c) = cp_last_mask c"
  "cp_index (fold (process_window index current msk) es c) = cp_index c"
  by (induction es arbitrary: c) simp_all

lemma process_windows_view:
  "distinct (map fst es) \<Longrightarrow>
   window_view name (fold (process_window index current msk) es c) =
     (case map_of es name of None \<Rightarrow> window_view name c
      | Some P \<Rightarrow> view_step P index current msk (cp_last_mask c) (window_view name c))"
proof (induction es arbitrary: c)
  case (Cons e es)
  obtain nm P where e: "e = (nm, P)" by fastforce
  have "nm = name \<Longrightarrow> map_of es name = None"
    using Cons.prems e by (auto simp: map_of_eq_None_iff)
  then show ?case
    using Cons e by (auto simp: process_window_view split: option.splits)
qed simp

lemma window_names: "distinct (map fst WINDOW_ACTIVE)"
  by (simp add: WINDOW_ACTIVE_def)

lemma take_sample_state:
  assumes "map_of WINDOW_ACTIVE name = Some P"
  shows "cp_index (take_sample (x, m) c) = cp_index c + 1"
    and "cp_last_mask (take_sample (x, m) c) = m"
    and "window_view name (take_sample (x, m) c) =
      view_step P (cp_index c) x m (cp_last_mask c) (window_view name c)"
proof -
  have "window_view name (p\<lparr>cp_last_mask := l\<rparr>) = window_view name p"
    "window_view name (p\<lparr>cp_trace := t, cp_next := n\<rparr>) = window_view name p"
    "window_view name (p\<lparr>cp_index := i\<rparr>) = window_view name p" for p l t n i
    by (simp_all add: window_view_def completed_of_def)
  then show "window_view name (take_sample (x, m) c) =
      view_step P (cp_index c) x m (cp_last_mask c) (window_view name c)"
    using process_windows_view [OF window_names] assms
    by (simp add: take_sample_def process_sample_def Let_def)
qed (simp_all add: take_sample_def process_sample_def Let_def)

definition open_view :: "(int \<Rightarrow> bool) \<Rightarrow> (rat \<times> int) list \<Rightarrow> active_window option" where
  "open_view P xs = (if xs \<noteq> [] \<and> P (snd (last xs))
     then (let s = run_start P (map snd xs); ys = map fst (drop s xs) in
       Some \<lparr>aw_start = int s, aw_count = int (length xs - s), aw_sum = py_sum ys, aw_peak = max_of ys\<rparr>)
     else None)"

lemma py_sum_snoc: "py_sum (ys @ [y]) = fadd (py_sum ys) y"
  by (simp add: py_sum_def)

lemma max_of_snoc: "ys \<noteq> [] \<Longrightarrow> max_of (ys @ [y]) = max (max_of ys) y"
  by (cases ys) (simp_all add: max_of_def max.commute)

lemma view_step_snoc:
  assumes "\<not> P 0"
  shows "view_step P (int (length xs)) x m (if xs = [] then 0 else snd (last xs))
      (open_view P xs, map (window_of xs) (pulses P (map snd xs))) =
    (open_view P (xs @ [(x, m)]),
     map (window_of (xs @ [(x, m)])) (pulses P (map snd (xs @ [(x, m)]))))"
proof -
  let ?ms = "map snd xs" and ?s = "run_start P (map snd xs)"
  have old: "map (window_of (xs @ [(x, m)])) (pulses P ?ms) = map (window_of xs) (pulses P ?ms)"
    by (rule map_cong [OF refl]) (rule window_of_snoc, auto)
  have last: "xs \<noteq> [] \<Longrightarrow> last ?ms = snd (last xs)"
    by (simp add: last_map)
  show ?thesis
  proof (cases "xs \<noteq> [] \<and> P (snd (last xs))")
    case True
    then have s: "?s < length xs"
      using run_start_last [of ?ms P] last by simp
    have new: "window_of (xs @ [(x, m)]) (?s, length xs) = \<lparr>wn_start = int ?s, wn_end = int (length xs),
        wn_count = int (length xs - ?s), wn_sum = py_sum (map fst (drop ?s xs)),
        wn_peak = max_of (map fst (drop ?s xs))\<rparr>"
      by (simp add: window_of_def Let_def)
    show ?thesis
      using True s last old new
      by (cases "P m") (auto simp: view_step_def open_view_def Let_def pulses_snoc run_start_snoc
          py_sum_snoc max_of_snoc)
  next
    case False
    then show ?thesis
      using assms last old
      by (cases "P m") (auto simp: view_step_def open_view_def Let_def pulses_snoc run_start_snoc
          py_sum_def max_of_def)
  qed
qed

lemma window_active_low: "map_of WINDOW_ACTIVE name = Some P \<Longrightarrow> \<not> P 0"
  by (auto simp: WINDOW_ACTIVE_def marker_def split: if_splits)

lemma capture_views:
  assumes "map_of WINDOW_ACTIVE name = Some P" and c: "new_capture vdd rate mode = Inr c"
  shows "cp_index (fold take_sample xs c) = int (length xs) \<and>
    cp_last_mask (fold take_sample xs c) = (if xs = [] then 0 else snd (last xs)) \<and>
    window_view name (fold take_sample xs c) =
      (open_view P xs, map (window_of xs) (pulses P (map snd xs)))"
proof (induction xs rule: rev_induct)
  case Nil
  have "completed_of c name = []"
    using c by (auto simp: new_capture_def completed_of_def dget_def WINDOW_ACTIVE_def split: if_splits)
  then show ?case
    using c by (auto simp: new_capture_def window_view_def open_view_def pulses_def split: if_splits)
next
  case (snoc xm xs)
  obtain x m where xm: "xm = (x, m)" by fastforce
  show ?case
    using snoc view_step_snoc [of P xs x m] window_active_low [OF assms(1)]
      take_sample_state [OF assms(1), of x m "fold take_sample xs c"] xm by simp
qed

lemma capture_loop_samples:
  "capture_loop reads c = (case read_error reads of None \<Rightarrow> fold take_sample (samples_of reads) c
     | Some e \<Rightarrow> (fold take_sample (samples_of reads) c)\<lparr>cp_error := Some e\<rparr>)"
  by (induction reads c rule: capture_loop.induct) (simp_all split: option.splits)

lemma captured_windows:
  assumes "new_capture vdd rate mode = Inr c" and "map_of WINDOW_ACTIVE name = Some P"
  shows "completed_of (capture_loop reads c) name =
      map (window_of (samples_of reads)) (pulses P (map snd (samples_of reads)))"
  using capture_views [OF assms(2,1), of "samples_of reads"]
  by (simp add: capture_loop_samples window_view_def completed_of_def split: option.splits)

section \<open>A successful measurement\<close>

lemma window_cells_keys:
  assumes "window_cells c (name, w) = Inr cells" "(k, v) \<in> set cells" shows "\<exists>x. k = name @ ''_'' @ x"
  using assms by (auto simp: window_cells_def bindr_eq_Inr)

lemma whole_window_in:
  "completed_of c ''total_execution'' \<noteq> [] \<Longrightarrow>
   total_window c (completed_of c ''total_execution'') = (whole, rest) \<Longrightarrow>
   whole \<in> set (completed_of c ''total_execution'')"
  by (auto simp: total_window_def Let_def find_Some_iff split: if_splits option.splits)

lemma selected_window_names:
  assumes "selected_windows c whole = Inr sel" "(name, w) \<in> set sel"
  shows "name \<in> fst ` set WINDOW_ACTIVE \<and>
    (name \<noteq> ''total_execution'' \<longrightarrow> (\<exists>v\<in>set (completed_of c name). contains_window whole v))"
proof (cases "name = ''total_execution''")
  case True
  then show ?thesis by (simp add: WINDOW_ACTIVE_def)
next
  case False
  obtain parts where parts: "mapr (select_window c whole) (map fst WINDOW_ACTIVE) = Inr parts"
    "sel = (''total_execution'', whole) # concat parts"
    using assms(1) by (auto simp: selected_windows_def bindr_eq_Inr)
  then obtain part where "part \<in> set parts" "(name, w) \<in> set part"
    using assms(2) False by auto
  then obtain nm where nm: "nm \<in> fst ` set WINDOW_ACTIVE" "select_window c whole nm = Inr part"
    using parts(1) by (auto simp: mapr_Inr_iff list_all2_conv_all_nth in_set_conv_nth)
      (metis length_map nth_map nth_mem image_eqI)
  moreover have "nm = name" "filter (contains_window whole) (completed_of c nm) \<noteq> []"
    using nm(2) \<open>(name, w) \<in> set part\<close> by (auto simp: select_window_def Let_def bindr_eq_Inr split: if_splits)
  ultimately show ?thesis by (auto simp: filter_empty_conv)
qed

lemma cells_keep_status:
  assumes "selected_windows c whole = Inr sel" "mapr (window_cells c) sel = Inr cells"
  shows "map_of (rev (concat cells)) ''power_status'' = None"
proof -
  have "k \<noteq> ''power_status''" if "(k, v) \<in> set (concat cells)" for k v
  proof -
    from that obtain cs where "cs \<in> set cells" "(k, v) \<in> set cs" by auto
    then obtain nm w where "(nm, w) \<in> set sel" "window_cells c (nm, w) = Inr cs"
      using assms(2) by (auto simp: mapr_Inr_iff list_all2_conv_all_nth in_set_conv_nth) (metis nth_mem surj_pair)
    then have "nm \<in> fst ` set WINDOW_ACTIVE" "\<exists>x. k = nm @ ''_'' @ x"
      using selected_window_names [OF assms(1)] window_cells_keys \<open>(k, v) \<in> set cs\<close> by blast+
    then show ?thesis by (auto simp: WINDOW_ACTIVE_def)
  qed
  then show ?thesis
    by (force simp: map_of_eq_None_iff)
qed

lemma measurements_succeed:
  assumes "completed_of c ''total_execution'' = whole # ws" "\<not> cp_transfer c" "last (whole # ws) = w"
    and "selected_windows c w = Inr sel" "list_all (dhas sel) REQUIRED_WINDOWS"
    and "list_all (\<lambda>(name, v). wn_count v \<noteq> 0) sel"
  shows "\<exists>r. measurements c = Inr r \<and> map_of r ''power_status'' = Some (PStr ''success'')"
proof -
  have "\<exists>cells. mapr (window_cells c) sel = Inr cells"
    using assms(6) by (induction sel) (auto simp: window_cells_def average_current_def)
  then obtain cells where cells: "mapr (window_cells c) sel = Inr cells" by blast
  then show ?thesis
    using assms cells_keep_status [OF assms(4) cells]
    by (auto simp: measurements_def total_window_def map_of_dupdate map_add_def empty_result_def Let_def)
qed

lemma measurements_success:
  assumes "measurements c = Inr r" and "map_of r ''power_status'' = Some (PStr ''success'')"
  shows "\<exists>whole\<in>set (completed_of c ''total_execution''). \<forall>name\<in>set REQUIRED_WINDOWS.
    \<exists>v\<in>set (completed_of c name). contains_window whole v"
proof -
  let ?totals = "completed_of c ''total_execution''"
  have ne: "?totals \<noteq> []"
    using assms by (auto simp: measurements_def empty_result_def)
  obtain whole rest where whole: "total_window c ?totals = (whole, rest)" by fastforce
  obtain sel cells where sel: "selected_windows c whole = Inr sel" "mapr (window_cells c) sel = Inr cells"
    and r: "map_of r ''power_status'' = map_of (dupdate (empty_result c
      (if list_all (dhas sel) REQUIRED_WINDOWS then ''success'' else ''incomplete'') []) (concat cells)) ''power_status''"
    using assms(1) ne whole
    by (cases "cp_transfer c") (auto simp: measurements_def bindr_eq_Inr map_of_dset Let_def split del: if_split)
  have "map_of (rev (concat cells)) ''power_status'' = None"
    using sel by (rule cells_keep_status)
  then have "list_all (dhas sel) REQUIRED_WINDOWS"
    using assms(2) r by (auto simp: map_of_dupdate map_add_def empty_result_def split: if_splits)
  then have "\<exists>v\<in>set (completed_of c name). contains_window whole v" if "name \<in> set REQUIRED_WINDOWS" for name
  proof (cases "name = ''total_execution''")
    case True
    then show ?thesis
      using whole_window_in [OF ne whole] by (auto simp: contains_window_def)
  next
    case False
    have "dhas sel name"
      using \<open>list_all (dhas sel) REQUIRED_WINDOWS\<close> that by (simp add: list_all_iff)
    then obtain w where "(name, w) \<in> set sel"
      by (auto simp: dhas_def dest: map_of_SomeD)
    then show ?thesis using selected_window_names [OF sel(1)] False by blast
  qed
  then show ?thesis using whole_window_in [OF ne whole] by blast
qed

section \<open>Properties\<close>

text \<open>
  C6: The windows of a capture are exactly the pulses of its markers: whatever way the samples
  arrive in reads, the completed windows of a marker are, in order, the maximal runs of samples with
  the marker high that a low sample ended, each with its number of samples, their sum and their peak.
\<close>

theorem capture_windows_exact:
  assumes "new_capture vdd rate mode = Inr c" and "(name, P) \<in> set WINDOW_ACTIVE"
  shows "completed_of (capture_loop reads c) name =
      map (window_of (samples_of reads)) (pulses P (map snd (samples_of reads)))"
  using captured_windows [OF assms(1)] assms(2) window_names by simp

definition demo_reads :: "reading list" where
  "demo_reads = [Samples [1, 2, 3] [0, 128, 240], NoData, Samples [4, 5] [240, 128], Samples [6] [0]]"

theorem capture_windows_exact_witness:
  "\<exists>c. new_capture 3000 1000 False = Inr c \<and> completed_of (capture_loop demo_reads c) ''handshake'' =
     [\<lparr>wn_start = 2, wn_end = 4, wn_count = 2, wn_sum = 7, wn_peak = 4\<rparr>]"
proof -
  obtain c where c: "new_capture 3000 1000 False = Inr c"
    by (simp add: new_capture_def NATIVE_SAMPLE_RATE_HZ_def)
  have p: "(''handshake'', \<lambda>msk. marker msk 6) \<in> set WINDOW_ACTIVE"
    by (simp add: WINDOW_ACTIVE_def)
  have "map (window_of (samples_of demo_reads))
      (pulses (\<lambda>msk. marker msk 6) (map snd (samples_of demo_reads))) =
      [\<lparr>wn_start = 2, wn_end = 4, wn_count = 2, wn_sum = 7, wn_peak = 4\<rparr>]"
    by code_simp
  then show ?thesis
    using c capture_windows_exact [OF c p, of demo_reads] by auto
qed

text \<open>
  C31: A capture reports its energy as a success only when it saw the whole attempt: one pulse of
  the total marker within which each of the required markers rose and fell.
\<close>

theorem power_success_observed:
  assumes "new_capture vdd rate mode = Inr c" and "measurements (capture_loop reads c) = Inr r"
    and "map_of r ''power_status'' = Some (PStr ''success'')"
  shows "\<exists>s e. (s, e) \<in> set (pulses (\<lambda>msk. marker msk 7) (map snd (samples_of reads))) \<and>
    (\<forall>(name, P)\<in>set WINDOW_ACTIVE. name \<in> set REQUIRED_WINDOWS \<longrightarrow>
      (\<exists>s' e'. (s', e') \<in> set (pulses P (map snd (samples_of reads))) \<and> s \<le> s' \<and> e' \<le> e))"
proof -
  let ?xs = "samples_of reads"
  have in_pulses: "\<exists>s e. v = window_of ?xs (s, e) \<and> (s, e) \<in> set (pulses P (map snd ?xs))"
    if "(name, P) \<in> set WINDOW_ACTIVE" "v \<in> set (completed_of (capture_loop reads c) name)" for name P v
    using that captured_windows [OF assms(1)] window_names by auto
  obtain whole where whole: "whole \<in> set (completed_of (capture_loop reads c) ''total_execution'')"
    "\<forall>name\<in>set REQUIRED_WINDOWS. \<exists>v\<in>set (completed_of (capture_loop reads c) name). contains_window whole v"
    using measurements_success [OF assms(2,3)] by blast
  have tot: "(''total_execution'', \<lambda>msk. marker msk 7) \<in> set WINDOW_ACTIVE"
    by (simp add: WINDOW_ACTIVE_def)
  obtain s e where se: "whole = window_of ?xs (s, e)"
    "(s, e) \<in> set (pulses (\<lambda>msk. marker msk 7) (map snd ?xs))"
    using in_pulses [OF tot whole(1)] by blast
  have "\<exists>s' e'. (s', e') \<in> set (pulses P (map snd ?xs)) \<and> s \<le> s' \<and> e' \<le> e"
    if "(name, P) \<in> set WINDOW_ACTIVE" "name \<in> set REQUIRED_WINDOWS" for name P
  proof -
    from whole(2) that(2)
    obtain v where v: "v \<in> set (completed_of (capture_loop reads c) name)" "contains_window whole v" by blast
    then show ?thesis
      using in_pulses [OF that(1) v(1)] se(1) by (auto simp: contains_window_def window_of_def Let_def) blast
  qed
  then show ?thesis using se(2) by blast
qed

definition full_reads :: "reading list" where
  "full_reads = [Samples [1, 2, 3, 4, 5] [0, 128, 224, 208, 128], Samples [6] [0]]"

lemma full_windows:
  assumes "new_capture 3000 1000 False = Inr c"
  shows "completed_of (capture_loop full_reads c) ''total_execution'' = [\<lparr>wn_start = 1, wn_end = 5, wn_count = 4, wn_sum = 14, wn_peak = 5\<rparr>] \<and>
    completed_of (capture_loop full_reads c) ''handshake'' = [\<lparr>wn_start = 2, wn_end = 4, wn_count = 2, wn_sum = 7, wn_peak = 4\<rparr>] \<and>
    completed_of (capture_loop full_reads c) ''client_kem'' = [\<lparr>wn_start = 2, wn_end = 3, wn_count = 1, wn_sum = 3, wn_peak = 3\<rparr>] \<and>
    completed_of (capture_loop full_reads c) ''mlkem'' = [\<lparr>wn_start = 2, wn_end = 3, wn_count = 1, wn_sum = 3, wn_peak = 3\<rparr>] \<and>
    completed_of (capture_loop full_reads c) ''classical_kex'' = [] \<and>
    completed_of (capture_loop full_reads c) ''client_signature'' = [\<lparr>wn_start = 3, wn_end = 4, wn_count = 1, wn_sum = 4, wn_peak = 4\<rparr>]"
proof -
  have "map (\<lambda>(name, P). map (window_of (samples_of full_reads)) (pulses P (map snd (samples_of full_reads)))) WINDOW_ACTIVE =
    [[\<lparr>wn_start = 1, wn_end = 5, wn_count = 4, wn_sum = 14, wn_peak = 5\<rparr>],
     [\<lparr>wn_start = 2, wn_end = 4, wn_count = 2, wn_sum = 7, wn_peak = 4\<rparr>],
     [\<lparr>wn_start = 2, wn_end = 3, wn_count = 1, wn_sum = 3, wn_peak = 3\<rparr>],
     [\<lparr>wn_start = 2, wn_end = 3, wn_count = 1, wn_sum = 3, wn_peak = 3\<rparr>], [],
     [\<lparr>wn_start = 3, wn_end = 4, wn_count = 1, wn_sum = 4, wn_peak = 4\<rparr>]]"
    by code_simp
  then show ?thesis
    using captured_windows [OF assms, of _ _ full_reads] by (simp add: WINDOW_ACTIVE_def)
qed

lemma capture_keeps_mode: "cp_transfer (capture_loop reads c) = cp_transfer c"
proof -
  have w: "cp_transfer (process_window i x m e c) = cp_transfer c" for i x m e c
    by (auto simp: process_window_def Let_def split: option.splits prod.splits)
  have ws: "cp_transfer (fold (process_window i x m) es c) = cp_transfer c" for i x m es c
    by (induction es arbitrary: c) (simp_all add: w)
  have s: "cp_transfer (take_sample xm c) = cp_transfer c" for xm c
    by (auto simp: take_sample_def process_sample_def Let_def ws split: prod.splits)
  have ss: "cp_transfer (fold take_sample xs c) = cp_transfer c" for xs c
    by (induction xs arbitrary: c) (simp_all add: s)
  show ?thesis by (simp add: capture_loop_samples ss split: option.splits)
qed

theorem power_success_observed_witness:
  "\<exists>c r s e. new_capture 3000 1000 False = Inr c \<and> measurements (capture_loop full_reads c) = Inr r \<and>
     (s, e) \<in> set (pulses (\<lambda>msk. marker msk 7) (map snd (samples_of full_reads)))"
proof -
  obtain c where c: "new_capture 3000 1000 False = Inr c" "\<not> cp_transfer c"
    by (simp add: new_capture_def NATIVE_SAMPLE_RATE_HZ_def)
  note full = full_windows [OF c(1)]
  have "\<exists>sel. selected_windows (capture_loop full_reads c) \<lparr>wn_start = 1, wn_end = 5, wn_count = 4, wn_sum = 14, wn_peak = 5\<rparr> = Inr sel \<and>
      list_all (dhas sel) REQUIRED_WINDOWS \<and> list_all (\<lambda>(name, v). wn_count v \<noteq> 0) sel"
    using full by (simp add: selected_windows_def select_window_def WINDOW_ACTIVE_def REQUIRED_WINDOWS_def
        contains_window_def combine_windows_def dhas_def)
  then obtain sel where sel: "selected_windows (capture_loop full_reads c) \<lparr>wn_start = 1, wn_end = 5, wn_count = 4, wn_sum = 14, wn_peak = 5\<rparr> = Inr sel"
    "list_all (dhas sel) REQUIRED_WINDOWS" "list_all (\<lambda>(name, v). wn_count v \<noteq> 0) sel"
    by blast
  have "\<exists>r. measurements (capture_loop full_reads c) = Inr r \<and> map_of r ''power_status'' = Some (PStr ''success'')"
    by (rule measurements_succeed [OF conjunct1 [OF full] _ _ sel]) (simp_all add: capture_keeps_mode c(2))
  then obtain r where "measurements (capture_loop full_reads c) = Inr r"
    "map_of r ''power_status'' = Some (PStr ''success'')" by blast
  with power_success_observed [OF c(1) this] c(1) show ?thesis by blast
qed

end
