(* ===== verification/Certificates.thy ===== *)
theory Certificates
  imports Firmware_Build Result_Wait Case_Files Server_Backends
begin

text \<open>
  The server PKI of a case and the credentials header of the firmware
  (\<open>benchmarklib/certificates.py\<close>): the certificate caches, the scripts run in the OpenSSL image, the
  files of a case, and the C header that embeds the roots.  The file operations the other modules do
  not need are a second interface \<open>disk\<close>; \<open>bench\<close> is the directory of the sources.
\<close>

section \<open>More of the file system\<close>

record 'w disk =
  dk_copy :: "string \<Rightarrow> string \<Rightarrow> ('w, unit) io"
  dk_link :: "string \<Rightarrow> string \<Rightarrow> ('w, unit) io"
  dk_copytree :: "string \<Rightarrow> string \<Rightarrow> ('w, unit) io"
  dk_rmtree :: "string \<Rightarrow> ('w, unit) io"
  dk_iterdir :: "string \<Rightarrow> ('w, string list) io"
  dk_rglob :: "string \<Rightarrow> ('w, string list) io"
  dk_glob :: "string \<Rightarrow> string \<Rightarrow> ('w, string list) io"
  dk_resolve :: "string \<Rightarrow> ('w, string) io"
  dk_user :: "('w, string) io"

section \<open>Commands\<close>

definition IMAGE :: string where
  "IMAGE = ''peripheral-pqc-openssl:3.8''"

definition CERT_CACHE :: "string \<Rightarrow> string" where
  "CERT_CACHE bench = bench @ ''/work/certificate-cache/v5-three-tier''"

definition MIN_CACHE_VALID_SECONDS :: int where
  "MIN_CACHE_VALID_SECONDS = 7 * 24 * 60 * 60"

definition CERT_NOT_BEFORE :: string where
  "CERT_NOT_BEFORE = ''20200101000000Z''"

definition CERT_NOT_AFTER :: string where
  "CERT_NOT_AFTER = ''20360101000000Z''"

definition run_cmd :: "'w host \<Rightarrow> string list \<Rightarrow> string \<Rightarrow> ('w, unit) io" where
  "run_cmd H cmd logf =
     bindm (run_to_log H logf (''$ '' @ join '' '' cmd @ newline) cmd None None) (\<lambda>rc.
     if rc \<noteq> 0 then raisem (CalledProcessError rc) else retm ())"

definition probe_command :: "string list" where
  "probe_command = [''docker'', ''run'', ''--rm'', IMAGE, ''sh'', ''-ec'',
     (''openssl version; openssl list -kem-algorithms | grep -Eq '' @ sq @ ''MLKEM512|ML-KEM-512'' @
      sq @ ''; openssl list -signature-algorithms | grep -q '' @ sq @ ''SLH-DSA-SHAKE-256s'' @ sq @
      ''; openssl list -signature-algorithms | grep -q '' @ sq @ ''SLH-DSA-SHAKE-256f'' @ sq @
      ''; command -v hbs_certgen'')]"

definition probe_image :: "'w host \<Rightarrow> string \<Rightarrow> ('w, int) io" where
  "probe_image H logf =
     seqm (h_append H logf (''$ '' @ join '' '' probe_command @ newline))
     (bindm (h_run H Merged probe_command None None) (\<lambda>(rc, text). seqm (h_append H logf text) (retm rc)))"

definition ensure_image :: "'w host \<Rightarrow> string \<Rightarrow> string \<Rightarrow> ('w, unit) io" where
  "ensure_image H dockerfile logf =
     bindm (h_run H StdoutOnly [''docker'', ''image'', ''inspect'', IMAGE] None None) (\<lambda>(image, _).
     bindm (if image = 0 then bindm (probe_image H logf) (\<lambda>rc. retm (Some rc)) else retm None) (\<lambda>probe.
     seqm (if image \<noteq> 0 \<or> probe \<noteq> Some 0
       then seqm (h_append H logf (''Docker image is missing or stale; rebuilding from '' @ dockerfile @
              ''.'' @ newline))
            (run_cmd H [''docker'', ''build'', ''-t'', IMAGE, ''-f'', dockerfile,
               path_parent (path_parent dockerfile)] logf)
       else retm ())
     (run_cmd H probe_command logf)))"

definition docker_script :: "'w host \<Rightarrow> 'w disk \<Rightarrow> string \<Rightarrow> string \<Rightarrow> string \<Rightarrow> ('w, unit) io" where
  "docker_script H D dest script logf =
     seqm (h_mkdir H dest)
     (bindm (dk_user D) (\<lambda>user. bindm (dk_resolve D dest) (\<lambda>full.
      run_cmd H [''docker'', ''run'', ''--rm'', ''--user'', user, ''-v'', full @ '':/out'',
        IMAGE, ''sh'', ''-ec'', script] logf)))"

definition append_log :: "'w host \<Rightarrow> string \<Rightarrow> string \<Rightarrow> ('w, unit) io" where
  "append_log H logf message =
     seqm (h_mkdir H (path_parent logf))
     (h_append H logf (rev (dropWhile is_space (rev message)) @ newline))"

section \<open>Keys\<close>

definition rsa_bits :: "string \<Rightarrow> int option" where
  "rsa_bits key_type = (if is_rsa_pss_name key_type then Some (digits_val 0 (drop 8 key_type)) else None)"

definition key_args :: "string \<Rightarrow> string" where
  "key_args key_type = (case rsa_bits key_type of
       Some bits \<Rightarrow> if bits \<noteq> 0 then ''-newkey rsa:'' @ str_int bits else ''-newkey '' @ key_type
     | None \<Rightarrow> if startswith key_type ''ec:'' then ''-newkey ec -pkeyopt ec_paramgen_curve:'' @ drop 3 key_type
         else ''-newkey '' @ key_type)"

definition hash_arg :: "string \<Rightarrow> string" where
  "hash_arg key_type = (case rsa_bits key_type of None \<Rightarrow> []
     | Some bits \<Rightarrow> if bits = 0 then [] else if bits \<le> 3072 then ''-sha256''
         else if bits \<le> 7680 then ''-sha384'' else ''-sha512'')"

definition signature_options :: "string \<Rightarrow> string" where
  "signature_options key_type = (case rsa_bits key_type of None \<Rightarrow> []
     | Some bits \<Rightarrow> if bits = 0 then [] else ''-sigopt rsa_padding_mode:pss -sigopt rsa_pss_saltlen:digest'')"

section \<open>Files of a case\<close>

definition endswith :: "string \<Rightarrow> string \<Rightarrow> bool" where
  "endswith s p \<longleftrightarrow> drop (length s - length p) s = p \<and> length p \<le> length s"

definition is_key_file :: "string \<Rightarrow> bool" where
  "is_key_file name \<longleftrightarrow> endswith name ''.key'' \<or> endswith name ''_key.der''"

definition link_or_copy :: "'w disk \<Rightarrow> string \<Rightarrow> string \<Rightarrow> ('w, unit) io" where
  "link_or_copy D src dst = catchm (dk_link D src dst) is_os_error (\<lambda>_. dk_copy D src dst)"

definition copy_files :: "'w host \<Rightarrow> 'w disk \<Rightarrow> string \<Rightarrow> string \<Rightarrow> string list \<Rightarrow> ('w, unit) io" where
  "copy_files H D src dst names =
     seqm (h_mkdir H dst)
     (eachm (\<lambda>name. seqm (h_unlink H (path_join dst name))
        (if is_key_file name then dk_copy D (path_join src name) (path_join dst name)
         else link_or_copy D (path_join src name) (path_join dst name))) names)"

definition cert_is_valid :: "'w host \<Rightarrow> 'w disk \<Rightarrow> string \<Rightarrow> ('w, bool) io" where
  "cert_is_valid H D path =
     bindm (h_exists H path) (\<lambda>present.
     if \<not> present then retm False
     else bindm (dk_resolve D (path_parent path)) (\<lambda>dir.
       bindm (h_run H StdoutOnly [''docker'', ''run'', ''--rm'', ''-v'', dir @ '':/certs:ro'', IMAGE, ''openssl'',
         ''x509'', ''-checkend'', str_int MIN_CACHE_VALID_SECONDS, ''-noout'', ''-in'',
         ''/certs/'' @ path_name path] None None) (\<lambda>(rc, _). retm (rc = 0))))"

fun all_present :: "'w host \<Rightarrow> string \<Rightarrow> string list \<Rightarrow> ('w, bool) io" where
  "all_present H dir [] = retm True"
| "all_present H dir (name # names) =
     bindm (h_exists H (path_join dir name)) (\<lambda>present.
     if present then all_present H dir names else retm False)"

definition CLIENT_FILES :: "string list" where
  "CLIENT_FILES = [''client_ca.crt'', ''client.crt'', ''client.key'', ''client_ca.der'', ''client_cert.der'',
     ''client_key.der'', ''server_root.crt'', ''server_root.key'', ''server_root.der'']"

definition client_script :: string where
  "client_script =
     (newline @ ''printf '' @ sq @ ''basicConstraints=critical,CA:FALSE'' @ bsl @
      ''nkeyUsage=critical,digitalSignature'' @ bsl @ ''nextendedKeyUsage=critical,clientAuth'' @
      bsl @ ''n'' @ sq @ '' > /out/client.ext'' @ newline @
      ''openssl req -x509 -new -newkey ec -pkeyopt ec_paramgen_curve:prime256v1   -keyout'' @
      '' /out/client_ca.key -out /out/client_ca.crt -nodes   -subj'' @
      '' /CN=Peripheral_Benchmark_Client_CA   -not_before '' @ CERT_NOT_BEFORE @ '' -not_after '' @
      CERT_NOT_AFTER @ ''   -addext basicConstraints=critical,CA:TRUE   -addext'' @
      '' keyUsage=critical,keyCertSign,cRLSign'' @ newline @
      ''openssl req -new -newkey ec -pkeyopt ec_paramgen_curve:prime256v1   -keyout'' @
      '' /out/client.key -out /out/client.csr -nodes   -subj /CN=nrf-benchmark'' @ newline @
      ''openssl x509 -req -in /out/client.csr -CA /out/client_ca.crt   -CAkey'' @
      '' /out/client_ca.key -CAcreateserial -out /out/client.crt   -not_before '' @
      CERT_NOT_BEFORE @ '' -not_after '' @ CERT_NOT_AFTER @ ''   -extfile /out/client.ext'' @
      newline @ ''openssl x509 -in /out/client_ca.crt -outform DER -out /out/client_ca.der'' @
      newline @ ''openssl x509 -in /out/client.crt -outform DER -out /out/client_cert.der'' @
      newline @ ''openssl pkey -in /out/client.key -outform DER -out /out/client_key.der'' @
      newline @
      ''openssl req -x509 -new -newkey ec -pkeyopt ec_paramgen_curve:prime256v1   -keyout'' @
      '' /out/server_root.key -out /out/server_root.crt -nodes   -subj'' @
      '' /CN=Peripheral_Benchmark_Server_Root   -not_before '' @ CERT_NOT_BEFORE @
      '' -not_after '' @ CERT_NOT_AFTER @
      ''   -addext basicConstraints=critical,CA:TRUE   -addext'' @
      '' keyUsage=critical,keyCertSign,cRLSign'' @ newline @
      ''openssl x509 -in /out/server_root.crt -outform DER -out /out/server_root.der'' @ newline)"

definition generate_client_identity :: "'w host \<Rightarrow> 'w disk \<Rightarrow> string \<Rightarrow> string \<Rightarrow> ('w, unit) io" where
  "generate_client_identity H D dest logf =
     bindm (all_present H dest CLIENT_FILES) (\<lambda>ready.
     if ready then retm ()
     else seqm (h_mkdir H dest) (docker_script H D dest client_script logf))"

definition PUBLIC_CHAIN_FILES :: "string list" where
  "PUBLIC_CHAIN_FILES = [''server_root.crt'', ''server_root.der'', ''server_intermediate.crt'',
     ''server_intermediate.der'', ''server.crt'', ''server.der'', ''server.key'', ''server_chain.crt'']"

definition IMMUTABLE_FILES :: "string list" where
  "IMMUTABLE_FILES = filter (\<lambda>n. n \<noteq> ''server.key'') PUBLIC_CHAIN_FILES @
     [''client_ca.crt'', ''client_ca.der'', ''client_cert.der'']"

definition materialize_entry :: "'w host \<Rightarrow> 'w disk \<Rightarrow> string \<Rightarrow> string \<Rightarrow> string \<Rightarrow> ('w, unit) io" where
  "materialize_entry H D template dst name =
     (let src = path_join template name; target = path_join dst name in
      bindm (h_is_dir H src) (\<lambda>dir.
      if dir then dk_copytree D src target
      else if name \<in> set IMMUTABLE_FILES then seqm (h_unlink H target) (link_or_copy D src target)
      else dk_copy D src target))"

definition materialize_case :: "'w host \<Rightarrow> 'w disk \<Rightarrow> string \<Rightarrow> string \<Rightarrow> ('w, unit) io" where
  "materialize_case H D template dst =
     seqm (h_mkdir H dst)
     (bindm (dk_iterdir D template) (\<lambda>names. eachm (materialize_entry H D template dst) names))"

section \<open>The chains\<close>

definition case_algorithms :: "srow \<Rightarrow> (signature \<times> signature \<times> signature) res" where
  "case_algorithms cs =
     (let named = (\<lambda>key. get_or cs key (dindex cs ''cert_sig_alg'')) in
      bindr (named ''root_sig_alg'') (\<lambda>root_name.
      bindr (named ''intermediate_sig_alg'') (\<lambda>intermediate_name.
      bindr (named ''leaf_sig_alg'') (\<lambda>leaf_name.
      bindr (dindex SIGNATURES_BY_NAME root_name) (\<lambda>rt.
      bindr (dindex SIGNATURES_BY_NAME intermediate_name) (\<lambda>middle.
      bindr (dindex SIGNATURES_BY_NAME leaf_name) (\<lambda>leaf. Inr (rt, middle, leaf))))))))"

definition ROOT_FILES :: "string list" where
  "ROOT_FILES = [''server_root.crt'', ''server_root.der'', ''server_root.key'']"

definition root_script :: "signature \<Rightarrow> string" where
  "root_script sg =
     (newline @ ''openssl req -x509 -new '' @ (key_args (sig_issuer_key_type sg)) @
      ''   -keyout /out/server_root.key -out /out/server_root.crt -nodes   -subj /CN='' @
      (sig_name sg) @ ''_Root   -not_before '' @ CERT_NOT_BEFORE @ '' -not_after '' @
      CERT_NOT_AFTER @ ''   -addext basicConstraints=critical,CA:TRUE   -addext'' @
      '' keyUsage=critical,keyCertSign,cRLSign   '' @ (hash_arg (sig_issuer_key_type sg)) @ '' '' @
      (signature_options (sig_issuer_key_type sg)) @ newline @
      ''openssl x509 -in /out/server_root.crt -outform DER -out /out/server_root.der'' @ newline)"

definition generate_openssl_root :: "'w host \<Rightarrow> 'w disk \<Rightarrow> signature \<Rightarrow> string \<Rightarrow> string \<Rightarrow> ('w, unit) io" where
  "generate_openssl_root H D sg dest logf =
     bindm (all_present H dest ROOT_FILES) (\<lambda>present.
     bindm (if present then cert_is_valid H D (path_join dest ''server_root.crt'') else retm False) (\<lambda>valid.
     if valid then retm ()
     else seqm (dk_rmtree D dest) (seqm (h_mkdir H dest) (docker_script H D dest (root_script sg) logf))))"

definition tiers_script :: "signature \<Rightarrow> signature \<Rightarrow> signature \<Rightarrow> string" where
  "tiers_script rt middle leaf =
     (newline @ ''printf '' @ sq @ ''basicConstraints=critical,CA:TRUE'' @ bsl @
      ''nkeyUsage=critical,keyCertSign,cRLSign'' @ bsl @ ''nsubjectKeyIdentifier=hash'' @ bsl @
      ''nauthorityKeyIdentifier=keyid,issuer'' @ bsl @ ''n'' @ sq @ '' > /out/intermediate.ext'' @
      newline @ ''printf '' @ sq @ ''basicConstraints=critical,CA:FALSE'' @ bsl @
      ''nkeyUsage=critical,digitalSignature'' @ bsl @ ''nextendedKeyUsage=critical,serverAuth'' @
      bsl @ ''nsubjectAltName=DNS:localhost,IP:127.0.0.1'' @ bsl @ ''nsubjectKeyIdentifier=hash'' @
      bsl @ ''nauthorityKeyIdentifier=keyid,issuer'' @ bsl @ ''n'' @ sq @ '' > /out/server.ext'' @
      newline @ ''openssl req -new '' @ (key_args (sig_issuer_key_type middle)) @
      '' -keyout /out/server_intermediate.key   -out /out/server_intermediate.csr -nodes  '' @
      '' -subj /CN='' @ (sig_name middle) @ ''_Intermediate '' @
      (hash_arg (sig_issuer_key_type middle)) @ newline @
      ''openssl x509 -req -in /out/server_intermediate.csr -CA /out/server_root.crt  '' @
      '' -CAkey /out/server_root.key -CAcreateserial -out /out/server_intermediate.crt  '' @
      '' -not_before '' @ CERT_NOT_BEFORE @ '' -not_after '' @ CERT_NOT_AFTER @
      ''   -extfile /out/intermediate.ext '' @ (hash_arg (sig_issuer_key_type rt)) @ ''   '' @
      (signature_options (sig_issuer_key_type rt)) @ newline @ ''openssl req -new '' @
      (key_args (sig_leaf_key_type leaf)) @
      '' -keyout /out/server.key -out /out/server.csr   -nodes -subj /CN=localhost '' @
      (hash_arg (sig_leaf_key_type leaf)) @ newline @
      ''openssl x509 -req -in /out/server.csr -CA /out/server_intermediate.crt   -CAkey'' @
      '' /out/server_intermediate.key -CAcreateserial -out /out/server.crt   -not_before '' @
      CERT_NOT_BEFORE @ '' -not_after '' @ CERT_NOT_AFTER @ ''   -extfile /out/server.ext '' @
      (hash_arg (sig_issuer_key_type middle)) @ ''   '' @
      (signature_options (sig_issuer_key_type middle)) @ newline @
      ''cat /out/server.crt /out/server_intermediate.crt > /out/server_chain.crt'' @ newline @
      ''openssl x509 -in /out/server_intermediate.crt -outform DER -out'' @
      '' /out/server_intermediate.der'' @ newline @
      ''openssl x509 -in /out/server.crt -outform DER -out /out/server.der'' @ newline @
      ''openssl verify -purpose sslserver -CAfile /out/server_root.crt   -untrusted'' @
      '' /out/server_intermediate.crt /out/server.crt'' @ newline)"

definition generate_openssl_three_tier ::
  "'w host \<Rightarrow> 'w disk \<Rightarrow> signature \<Rightarrow> signature \<Rightarrow> signature \<Rightarrow> string \<Rightarrow> string \<Rightarrow> string \<Rightarrow> ('w, unit) io" where
  "generate_openssl_three_tier H D rt middle leaf dest root_cache logf =
     seqm (generate_openssl_root H D rt root_cache logf)
     (seqm (h_mkdir H dest)
     (seqm (eachm (\<lambda>name. dk_copy D (path_join root_cache name) (path_join dest name)) ROOT_FILES)
     (docker_script H D dest (tiers_script rt middle leaf) logf)))"

definition generate_hash_based_server_case ::
  "'w host \<Rightarrow> 'w disk \<Rightarrow> string \<Rightarrow> string \<Rightarrow> string \<Rightarrow> string \<Rightarrow> string \<Rightarrow> string \<Rightarrow> ('w, unit) io" where
  "generate_hash_based_server_case H D root_signature intermediate_signature leaf_signature dest root_cache logf =
     seqm (h_mkdir H dest)
     (seqm (h_mkdir H root_cache)
     (bindm (dk_user D) (\<lambda>user. bindm (dk_resolve D dest) (\<lambda>full. bindm (dk_resolve D root_cache) (\<lambda>roots.
      run_cmd H [''docker'', ''run'', ''--rm'', ''--user'', user, ''-v'', full @ '':/out'', ''-v'',
        roots @ '':/root-cache'', IMAGE, ''hbs_certgen'', root_signature, intermediate_signature,
        leaf_signature, ''/root-cache'', ''/out''] logf)))))"

section \<open>The configuration of a case\<close>

definition max_send_fragment :: "signature \<Rightarrow> string" where
  "max_send_fragment rt = (if startswith (sig_name rt) ''SLH-DSA-SHAKE-''
     then ''MaxSendFragment = 2048'' @ newline else [])"

definition pki_metadata :: "srow \<Rightarrow> signature \<Rightarrow> signature \<Rightarrow> row res" where
  "pki_metadata cs rt leaf =
     bindr (get_or cs ''intermediate_sig_alg'' (Inr (sig_name leaf))) (\<lambda>middle.
     Inr [(''pki_chain_id'', PStr (dget cs ''pki_chain_id'' (''homogeneous_'' @ slug (sig_name leaf)))),
       (''pki_kind'', PStr (dget cs ''pki_kind'' ''homogeneous'')),
       (''root_sig_alg'', PStr (sig_name rt)), (''intermediate_sig_alg'', PStr middle),
       (''leaf_sig_alg'', PStr (sig_name leaf))])"

definition openssl_cnf :: "kem \<Rightarrow> signature \<Rightarrow> signature \<Rightarrow> string" where
  "openssl_cnf k rt leaf =
     (''openssl_conf = openssl_init'' @ newline @ newline @ ''[openssl_init]'' @ newline @
      ''providers = provider_sect'' @ newline @ ''ssl_conf = ssl_sect'' @ newline @ newline @
      ''[provider_sect]'' @ newline @ ''default = default_sect'' @ newline @
      ''oqsprovider = oqsprovider_sect'' @ newline @ newline @ ''[default_sect]'' @ newline @
      ''activate = 1'' @ newline @ newline @ ''[oqsprovider_sect]'' @ newline @ ''activate = 1'' @
      newline @ ''module = /usr/local/lib/ossl-modules/oqsprovider.so'' @ newline @ newline @
      ''[ssl_sect]'' @ newline @ ''system_default = system_default_sect'' @ newline @ newline @
      ''[system_default_sect]'' @ newline @ ''MinProtocol = TLSv1.3'' @ newline @
      ''Options = -SessionTicket'' @ newline @ ''Groups = '' @ (kem_openssl_group k) @ newline @
      (max_send_fragment rt) @ ''SignatureAlgorithms = '' @ (sig_tls_scheme leaf) @ newline)"

definition mosquitto_conf :: string where
  "mosquitto_conf =
     (''listener 8883'' @ newline @ ''allow_anonymous true'' @ newline @
      ''certfile __REMOTE_CASE_DIR__/server_chain.crt'' @ newline @
      ''keyfile __REMOTE_CASE_DIR__/server.key'' @ newline @ ''require_certificate false'' @
      newline)"

definition mosquitto_transfer_conf :: string where
  "mosquitto_transfer_conf =
     (''per_listener_settings true'' @ newline @ ''listener 8883'' @ newline @
      ''allow_anonymous true'' @ newline @ ''certfile __REMOTE_CASE_DIR__/server_chain.crt'' @
      newline @ ''keyfile __REMOTE_CASE_DIR__/server.key'' @ newline @
      ''require_certificate false'' @ newline @ ''listener 18884 127.0.0.1'' @ newline @
      ''allow_anonymous true'' @ newline)"

definition mosquitto_mtls_conf :: string where
  "mosquitto_mtls_conf =
     (''listener 8883'' @ newline @ ''allow_anonymous true'' @ newline @
      ''cafile __REMOTE_CASE_DIR__/client_ca.crt'' @ newline @
      ''certfile __REMOTE_CASE_DIR__/server_chain.crt'' @ newline @
      ''keyfile __REMOTE_CASE_DIR__/server.key'' @ newline @ ''require_certificate true'' @
      newline @ ''use_identity_as_username true'' @ newline)"

definition mosquitto_transfer_mtls_conf :: string where
  "mosquitto_transfer_mtls_conf =
     (''per_listener_settings true'' @ newline @ ''listener 8883'' @ newline @
      ''allow_anonymous true'' @ newline @ ''cafile __REMOTE_CASE_DIR__/client_ca.crt'' @ newline @
      ''certfile __REMOTE_CASE_DIR__/server_chain.crt'' @ newline @
      ''keyfile __REMOTE_CASE_DIR__/server.key'' @ newline @ ''require_certificate true'' @
      newline @ ''use_identity_as_username true'' @ newline @ ''listener 18884 127.0.0.1'' @
      newline @ ''allow_anonymous true'' @ newline)"

definition mtls_openssl_cnf :: "signature \<Rightarrow> string \<Rightarrow> string" where
  "mtls_openssl_cnf leaf text = replace_all
     (''SignatureAlgorithms = '' @ (sig_tls_scheme leaf) @ newline)
     (''SignatureAlgorithms = '' @ (sig_tls_scheme leaf) @ newline @
      ''ClientSignatureAlgorithms = ecdsa_secp256r1_sha256'' @ newline) text"

definition write_case_configs :: "'w host \<Rightarrow> srow \<Rightarrow> string \<Rightarrow> ('w, unit) io" where
  "write_case_configs H cs dest =
     bindm (liftm (bindr (dindex cs ''kex_group'') (dindex KEMS_BY_NAME))) (\<lambda>k.
     bindm (liftm (case_algorithms cs)) (\<lambda>(rt, _, leaf).
     bindm (liftm (bindr (pki_metadata cs rt leaf) (\<lambda>m. json_pretty 0 (PDict m)))) (\<lambda>metadata.
     seqm (h_write H (path_join dest ''pki_metadata.json'') (metadata @ newline))
     (seqm (h_write H (path_join dest ''openssl.cnf'') (openssl_cnf k rt leaf))
     (seqm (h_write H (path_join dest ''mosquitto.conf'') mosquitto_conf)
     (seqm (h_write H (path_join dest ''mosquitto-transfer.conf'') mosquitto_transfer_conf)
     (bindm (h_exists H (path_join dest ''client_ca.crt'')) (\<lambda>mtls.
      whenm mtls
        (bindm (h_read H (path_join dest ''openssl.cnf'')) (\<lambda>text.
         seqm (h_write H (path_join dest ''openssl-mtls.cnf'') (mtls_openssl_cnf leaf text))
         (seqm (h_write H (path_join dest ''mosquitto-mtls.conf'') mosquitto_mtls_conf)
         (h_write H (path_join dest ''mosquitto-transfer-mtls.conf'') mosquitto_transfer_mtls_conf))))))))))))"

fun all_valid :: "'w host \<Rightarrow> 'w disk \<Rightarrow> string \<Rightarrow> string list \<Rightarrow> ('w, bool) io" where
  "all_valid H D dir [] = retm True"
| "all_valid H D dir (name # names) =
     bindm (cert_is_valid H D (path_join dir name)) (\<lambda>ok. if ok then all_valid H D dir names else retm False)"

definition generate_server_case ::
  "'w host \<Rightarrow> 'w disk \<Rightarrow> string \<Rightarrow> srow \<Rightarrow> string \<Rightarrow> string \<Rightarrow> string option \<Rightarrow> ('w, unit) io" where
  "generate_server_case H D bench cs dest logf client_dir =
     bindm (liftm (case_algorithms cs)) (\<lambda>(rt, middle, leaf).
     bindm (liftm (get_or cs ''pki_chain_id'' (Inr (''homogeneous_'' @ slug (sig_name leaf))))) (\<lambda>cid.
     let cache = CERT_CACHE bench @ ''/chains/'' @ cid; root_cache = CERT_CACHE bench @ ''/roots/'' @ slug (sig_name rt) in
     bindm (all_present H cache PUBLIC_CHAIN_FILES) (\<lambda>present.
     bindm (if present then all_valid H D cache [''server_root.crt'', ''server_intermediate.crt'', ''server.crt'']
            else retm False) (\<lambda>valid.
     seqm (if \<not> valid then
         seqm (dk_rmtree D cache)
         (seqm (append_log H logf (''[cert-cache] Generating three-tier PKI '' @ cid))
         (if sig_name rt \<in> HASH_BASED_SIGNATURES
          then generate_hash_based_server_case H D (sig_name rt) (sig_name middle) (sig_name leaf) cache root_cache logf
          else generate_openssl_three_tier H D rt middle leaf cache root_cache logf))
       else append_log H logf (''[cert-cache] Reusing three-tier PKI '' @ cid))
     (seqm (copy_files H D cache dest PUBLIC_CHAIN_FILES)
     (seqm (case client_dir of None \<Rightarrow> retm ()
        | Some c \<Rightarrow> eachm (\<lambda>name. dk_copy D (path_join c name) (path_join dest name)) [''client_ca.crt'', ''client_ca.der''])
     (write_case_configs H cs dest)))))))"

section \<open>The credentials header\<close>

fun chunks12 :: "'a list \<Rightarrow> 'a list list" where
  "chunks12 xs = (if xs = [] then [] else take 12 xs # chunks12 (drop 12 xs))"
declare chunks12.simps [simp del]

definition c_array :: "string \<Rightarrow> byte list \<Rightarrow> string" where
  "c_array name data =
     (let items = map (\<lambda>b. ''0x'' @ hex_pad 2 (uint b)) data;
          rows = map (\<lambda>vs. ''    '' @ join '', '' vs) (chunks12 items) in
      ''static const unsigned char '' @ name @ ''[] = {'' @ newline @ join ('','' @ newline) rows @
      newline @ ''};'' @ newline)"

record header =
  hd_roots :: "(string \<times> string \<times> byte list) list"
  hd_profiles :: "signature list"
  hd_seen_roots :: "byte list list"
  hd_seen_profiles :: "string list"

definition no_header :: header where
  "no_header = \<lparr>hd_roots = [], hd_profiles = [], hd_seen_roots = [], hd_seen_profiles = []\<rparr>"

definition add_root :: "string list option \<Rightarrow> string \<Rightarrow> byte list \<Rightarrow> header \<Rightarrow> header" where
  "add_root allowed root_id root_data h =
     (if (allowed = None \<or> root_id \<in> set (the allowed)) \<and> root_data \<notin> set (hd_seen_roots h)
      then h\<lparr>hd_roots := hd_roots h @
               [(root_id, ''benchmark_server_root_'' @ str_nat (length (hd_roots h)), root_data)],
             hd_seen_roots := root_data # hd_seen_roots h\<rparr>
      else h)"

definition add_profile :: "signature \<Rightarrow> header \<Rightarrow> header" where
  "add_profile leaf h =
     (if sig_name leaf \<notin> set (hd_seen_profiles h)
      then h\<lparr>hd_profiles := hd_profiles h @ [leaf], hd_seen_profiles := sig_name leaf # hd_seen_profiles h\<rparr>
      else h)"

definition scan_chain :: "'w host \<Rightarrow> string list option \<Rightarrow> header \<Rightarrow> string \<times> string \<Rightarrow> ('w, header) io" where
  "scan_chain H allowed h entry =
     (let dir = snd entry; metadata_path = path_join dir ''pki_metadata.json'';
          root_path = path_join dir ''server_root.der'' in
      bindm (h_exists H metadata_path) (\<lambda>has_metadata.
      bindm (if has_metadata then h_exists H root_path else retm False) (\<lambda>ready.
      if \<not> ready then retm h
      else bindm (h_read H metadata_path) (\<lambda>text.
        bindm (liftm (bindr (json_loads text) json_dict)) (\<lambda>metadata.
        bindm (liftm (bindr (dindex metadata ''root_sig_alg'') pv_str)) (\<lambda>root_id.
        bindm (h_read_bytes H root_path) (\<lambda>root_data.
        bindm (liftm (bindr (bindr (dindex metadata ''leaf_sig_alg'') pv_str) (dindex SIGNATURES_BY_NAME))) (\<lambda>leaf.
        retm (add_profile leaf (add_root allowed root_id root_data h))))))))))"

definition header_roots :: "(string \<times> string \<times> byte list) list \<Rightarrow> string" where
  \<open>header_roots roots =
     (newline @ ''struct benchmark_ca_entry { const char *id; const unsigned char *data; size_t'' @
      '' length; };'' @ newline) @
     (''static const struct benchmark_ca_entry benchmark_ca_bundle[] = {'' @ newline) @
     join ('','' @ newline) (map (\<lambda>(root_id, nm, _).
       (''    { "'' @ root_id @ ''", '' @ nm @ '', sizeof('' @ nm @ '') }'')) roots) @
     (newline @ ''};'' @ newline @ ''#define BENCHMARK_CA_COUNT (sizeof(benchmark_ca_bundle) /'' @
      '' sizeof(benchmark_ca_bundle[0]))'' @ newline)\<close>

definition header_profiles :: "signature list \<Rightarrow> string" where
  \<open>header_profiles profiles =
     (newline @
      ''struct benchmark_signature_profile { const char *id; const char *signature_scheme;'' @
      '' uint16_t signature_scheme_id; };'' @ newline) @
     (''static const struct benchmark_signature_profile benchmark_signature_profiles[] = {'' @
      newline) @
     join ('','' @ newline) (map (\<lambda>item.
       (''    { "'' @ (sig_name item) @ ''", "'' @ (sig_tls_scheme item) @ ''", 0x'' @
      (hex_pad 4 (sig_tls_scheme_id item)) @ '' }'')) profiles) @
     (newline @ ''};'' @ newline @
      ''#define BENCHMARK_SIGNATURE_PROFILE_COUNT (sizeof(benchmark_signature_profiles) /'' @
      '' sizeof(benchmark_signature_profiles[0]))'' @ newline) @ ''#endif'' @ newline\<close>

definition client_arrays :: "'w host \<Rightarrow> string option \<Rightarrow> ('w, string) io" where
  "client_arrays H client_dir = (case client_dir of
       None \<Rightarrow> retm (''#define BENCHMARK_HAS_CLIENT_IDENTITY 0'' @ newline)
     | Some c \<Rightarrow> bindm (h_read_bytes H (path_join c ''client_cert.der'')) (\<lambda>cert.
         bindm (h_read_bytes H (path_join c ''client_key.der'')) (\<lambda>key.
         retm (''#define BENCHMARK_HAS_CLIENT_IDENTITY 1'' @ newline @
           c_array ''benchmark_client_cert'' cert @ c_array ''benchmark_client_key'' key))))"

definition generate_universal_header ::
  "'w host \<Rightarrow> (string \<times> string) list \<Rightarrow> string \<Rightarrow> string list option \<Rightarrow> string option \<Rightarrow> ('w, unit) io" where
  "generate_universal_header H case_dirs dest root_algorithms client_dir =
     bindm (client_arrays H client_dir) (\<lambda>client.
     bindm (foldm (scan_chain H root_algorithms) no_header case_dirs) (\<lambda>h.
     seqm (h_mkdir H (path_parent dest))
     (h_write H dest ((''#ifndef BENCHMARK_CREDENTIALS_H'' @ newline @ ''#define BENCHMARK_CREDENTIALS_H'' @
      newline @ newline) @ (''#include <stddef.h>'' @ newline @ ''#include <stdint.h>'' @ newline @ newline) @ client @
        concat (map (\<lambda>(_, nm, data). c_array nm data) (hd_roots h)) @
        header_roots (hd_roots h) @ header_profiles (hd_profiles h)))))"

section \<open>Links\<close>

text \<open>A disk on which linking a private key is an end of the model: no handler can hide it.\<close>

definition guard_links :: "'w disk \<Rightarrow> 'w disk" where
  "guard_links D = D\<lparr>dk_link := (\<lambda>src dst. if is_key_file dst
     then raisem (OutsideModel ''linked a private key'') else dk_link D src dst)\<rparr>"

lemma guard_links_same [simp]:
  "dk_copy (guard_links D) = dk_copy D" "dk_copytree (guard_links D) = dk_copytree D"
  "dk_rmtree (guard_links D) = dk_rmtree D" "dk_iterdir (guard_links D) = dk_iterdir D"
  "dk_resolve (guard_links D) = dk_resolve D" "dk_user (guard_links D) = dk_user D"
  by (simp_all add: guard_links_def)

lemma endswith_iff: "endswith s p \<longleftrightarrow> (\<exists>u. s = u @ p)"
proof
  assume "endswith s p"
  then have "s = take (length s - length p) s @ p"
    by (metis append_take_drop_id endswith_def)
  then show "\<exists>u. s = u @ p" ..
qed (auto simp: endswith_def)

lemma endswith_path_join:
  assumes "CHR ''/'' \<notin> set p" shows "endswith (path_join dir name) p \<longleftrightarrow> endswith name p"
proof
  assume "endswith (path_join dir name) p"
  then obtain u where u: "dir @ ''/'' @ name = u @ p"
    by (auto simp: endswith_iff path_join_def)
  show "endswith name p"
  proof (cases "length p \<le> length name")
    case True
    then show ?thesis
      using u by (auto simp: endswith_iff append_eq_append_conv2 append_eq_Cons_conv Cons_eq_append_conv)
  next
    case False
    have "length dir + Suc (length name) = length u + length p"
      using arg_cong [OF u, of length] by simp
    with False have "drop (length u) (dir @ ''/'' @ name) = p" "length u \<le> length dir"
      using u by simp_all
    then have "CHR ''/'' \<in> set p" by auto
    with assms show ?thesis by simp
  qed
qed (auto simp: endswith_iff path_join_def)

lemma is_key_file_path: "is_key_file (path_join dir name) \<longleftrightarrow> is_key_file name"
  by (simp add: is_key_file_def endswith_path_join)

lemma immutable_not_key: "list_all (\<lambda>n. \<not> is_key_file n) IMMUTABLE_FILES"
  by code_simp

lemma guarded_link:
  "\<not> is_key_file name \<Longrightarrow> link_or_copy (guard_links D) src (path_join dst name) = link_or_copy D src (path_join dst name)"
  by (simp add: link_or_copy_def) (simp add: guard_links_def is_key_file_path)

lemma guarded_copy_files: "copy_files H (guard_links D) src dst names = copy_files H D src dst names"
proof -
  have "(if is_key_file n then m else link_or_copy (guard_links D) q (path_join dst n)) =
      (if is_key_file n then m else link_or_copy D q (path_join dst n))" for n m q
    by (simp add: guarded_link)
  then show ?thesis by (simp add: copy_files_def cong: if_cong)
qed

lemma guarded_entry: "materialize_entry H (guard_links D) template dst = materialize_entry H D template dst"
  using immutable_not_key by (simp add: fun_eq_iff materialize_entry_def Let_def guarded_link list_all_iff cong: if_cong)

lemma guarded_scripts:
  "docker_script H (guard_links D) = docker_script H D"
  "cert_is_valid H (guard_links D) = cert_is_valid H D"
  by (simp_all add: fun_eq_iff docker_script_def cert_is_valid_def cong: if_cong)

lemma guarded_all_valid: "all_valid H (guard_links D) dir names = all_valid H D dir names"
  by (induction names) (simp_all add: guarded_scripts cong: if_cong)

lemma guarded_generators:
  "generate_openssl_three_tier H (guard_links D) rt middle leaf dest cache logf =
     generate_openssl_three_tier H D rt middle leaf dest cache logf"
  "generate_hash_based_server_case H (guard_links D) a b c dest cache logf =
     generate_hash_based_server_case H D a b c dest cache logf"
  by (simp_all add: generate_openssl_three_tier_def generate_openssl_root_def
      generate_hash_based_server_case_def guarded_scripts cong: if_cong)

section \<open>The header\<close>

definition header_ok :: "string list option \<Rightarrow> header \<Rightarrow> bool" where
  "header_ok allowed h \<longleftrightarrow>
     map (\<lambda>(_, nm, _). nm) (hd_roots h) =
       map (\<lambda>i. ''benchmark_server_root_'' @ str_nat i) [0..<length (hd_roots h)] \<and>
     distinct (map (\<lambda>(_, _, data). data) (hd_roots h)) \<and>
     (allowed = None \<or> (\<forall>(root_id, _, _)\<in>set (hd_roots h). root_id \<in> set (the allowed))) \<and>
     distinct (map sig_name (hd_profiles h))"

definition header_seen :: "header \<Rightarrow> bool" where
  "header_seen h \<longleftrightarrow> set (hd_seen_roots h) = set (map (\<lambda>(_, _, data). data) (hd_roots h)) \<and>
     set (hd_seen_profiles h) = set (map sig_name (hd_profiles h))"

lemma str_nat_int_inj: "str_pos (int i) = str_pos (int j) \<longleftrightarrow> i = j"
  using str_int_inj [of "int i" "int j"] by (simp add: str_int_def)

lemma add_root_ok:
  "header_ok allowed h \<and> header_seen h \<Longrightarrow> header_ok allowed (add_root allowed i d h) \<and> header_seen (add_root allowed i d h)"
  by (auto simp: header_ok_def header_seen_def add_root_def)

lemma add_profile_ok:
  "header_ok allowed h \<and> header_seen h \<Longrightarrow> header_ok allowed (add_profile leaf h) \<and> header_seen (add_profile leaf h)"
  by (auto simp: header_ok_def header_seen_def add_profile_def)

lemma scan_chain_ok:
  assumes "scan_chain H allowed h entry s = (Inr h', t)" "header_ok allowed h \<and> header_seen h"
  shows "header_ok allowed h' \<and> header_seen h'"
proof -
  have "h' = h \<or> (\<exists>leaf i d. h' = add_profile leaf (add_root allowed i d h))"
    using assms(1) by (auto simp: scan_chain_def Let_def elim!: bindm_okE split: if_splits) blast
  then show ?thesis
    using assms(2) add_profile_ok [OF add_root_ok [OF assms(2)]] by blast
qed

lemma foldm_invariant:
  assumes "foldm f b xs s = (Inr r, t)" "P b" "\<And>b x s r t. P b \<Longrightarrow> f b x s = (Inr r, t) \<Longrightarrow> P r"
  shows "P r"
  using assms(1,2) by (induction xs arbitrary: b s) (auto elim!: bindm_okE dest: assms(3))

section \<open>Properties\<close>

text \<open>
  A private key of a case is never shared between directories: preparing a case does the same on
  a disk where making a link that ends in \<open>.key\<close> or \<open>_key.der\<close> would end the run as on the plain one.
\<close>

theorem keys_never_linked:
  "copy_files H (guard_links D) src dst names = copy_files H D src dst names \<and>
   materialize_case H (guard_links D) template dst = materialize_case H D template dst \<and>
   generate_server_case H (guard_links D) bench cs dst logf client = generate_server_case H D bench cs dst logf client"
  by (simp add: guarded_copy_files materialize_case_def guarded_entry generate_server_case_def
      guarded_scripts guarded_generators Let_def cong: if_cong option.case_cong)

text \<open>
  The credentials header declares every array once: the roots it embeds are numbered from zero,
  no certificate occurs twice, every root belongs to the profile, and no signature profile is repeated.
\<close>

theorem header_declares_once:
  assumes "foldm (scan_chain H allowed) no_header case_dirs s = (Inr h, t)"
  shows "distinct (map (\<lambda>(_, nm, _). nm) (hd_roots h)) \<and> header_ok allowed h"
proof -
  have "header_ok allowed no_header \<and> header_seen no_header"
    by (simp add: header_ok_def header_seen_def no_header_def)
  then have ok: "header_ok allowed h \<and> header_seen h"
    by (rule foldm_invariant [OF assms, of "\<lambda>h. header_ok allowed h \<and> header_seen h"]) (rule scan_chain_ok)
  have "distinct (map (\<lambda>i. ''benchmark_server_root_'' @ str_nat i) [0..<n])" for n
    by (simp add: distinct_map inj_on_def str_nat_def str_nat_int_inj)
  with ok show ?thesis by (simp add: header_ok_def)
qed

definition demo_chain_files :: "(string, string) dict" where
  "demo_chain_files = concat (map (\<lambda>(dir, data).
     [(dir @ ''/pki_metadata.json'', ''{'' @ quote ''root_sig_alg'' @ '':'' @ quote ''ECDSA-P-256'' @ '','' @
         quote ''leaf_sig_alg'' @ '':'' @ quote ''ECDSA-P-256'' @ ''}''),
      (dir @ ''/server_root.der'', data)]) [(''a'', ''r''), (''b'', ''r'')])"

theorem header_declares_once_witness:
  "\<exists>h t. foldm (scan_chain script_host (Some [''ECDSA-P-256''])) no_header [(''x'', ''a''), (''y'', ''b'')]
     (script_start [] [] demo_chain_files) = (Inr h, t) \<and> length (hd_roots h) = 1 \<and>
     header_ok (Some [''ECDSA-P-256'']) h"
proof -
  have "case foldm (scan_chain script_host (Some [''ECDSA-P-256''])) no_header [(''x'', ''a''), (''y'', ''b'')]
     (script_start [] [] demo_chain_files) of (Inl e, t) \<Rightarrow> False | (Inr h, t) \<Rightarrow> length (hd_roots h) = 1"
    by code_simp
  then obtain h t where ht: "foldm (scan_chain script_host (Some [''ECDSA-P-256''])) no_header [(''x'', ''a''), (''y'', ''b'')]
     (script_start [] [] demo_chain_files) = (Inr h, t)" "length (hd_roots h) = 1"
    by (auto split: prod.splits sum.splits)
  from header_declares_once [OF ht(1)] ht show ?thesis by blast
qed

end
