(* ===== verification/Campaign_Setup.thy ===== *)
theory Campaign_Setup
  imports Certificates Summaries Firmware_Profiles
begin

text \<open>
  Everything \<open>main\<close> of \<open>run_benchmarks.py\<close> does before the first job: the configuration
  and the arguments, the choice between a new run and a resumed one, the certificates and the
  firmware profiles.  Besides \<open>host\<close> and \<open>disk\<close> it uses a third interface \<open>console\<close> (environment,
  prompt, serial port); \<open>site\<close> bundles the interfaces with the directory of the sources.  What is
  printed is not modelled.
\<close>

section \<open>Columns\<close>

definition POWER_METRICS :: "string list" where
  "POWER_METRICS = [''duration_ms'', ''charge_uc'', ''energy_uj'', ''avg_current_ua'', ''peak_current_ua'']"

definition POWER_ATTEMPT_FIELDS :: "string list" where
  "POWER_ATTEMPT_FIELDS =
     concat (map (\<lambda>window. map (\<lambda>metric. window @ ''_'' @ metric) POWER_METRICS) POWER_WINDOWS)"

definition ATTEMPT_FIELDS :: "string list" where
  "ATTEMPT_FIELDS =
     [''attempt_index'', ''schedule_index'', ''session'', ''attempt_in_session'', ''warmup'',
      ''status'', ''reconnect_count'', ''mtls_mode'', ''mlkem_backend'', ''rsa_profile'',
      ''firmware_profile'', ''pki_chain_id'', ''pki_kind'', ''root_sig_alg'',
      ''intermediate_sig_alg'', ''leaf_sig_alg'', ''root_cert_der_bytes'',
      ''intermediate_cert_der_bytes'', ''leaf_cert_der_bytes'', ''server_chain_bytes'',
      ''kex_group'', ''kex_nist_level'', ''kex_public_key_bytes'', ''kex_ciphertext_bytes'',
      ''kex_shared_secret_bytes'', ''cert_sig_alg'', ''sig_nist_level'',
      ''sig_public_key_bytes'', ''sig_private_key_bytes'', ''sig_signature_bytes'',
      ''certificate_verify_alg'', ''certificate_verify_scheme_id'',
      ''expected_certificate_verify_alg'', ''client_certificate_verify_alg'',
      ''client_identity_id'', ''certificate_verify_match'', ''ble_l2cap_connect_ms'',
      ''gateway_tcp_connect_ms'', ''tls_setup_ms'', ''raw_handshake_ms'', ''mqtt_connect_ms'',
      ''full_connect_ms'', ''end_to_end_ms'', ''communication_overhead_ms'', ''kem_keygen_ms'',
      ''kem_encapsulation_ms'', ''kem_decapsulation_ms'', ''classical_kex_keygen_ms'',
      ''classical_kex_shared_secret_ms'', ''kem_client_total_ms'',
      ''certificate_signature_verify_ms'', ''x509_chain_signature_verify_ms'',
      ''tls_certificate_verify_signature_verify_ms'', ''mtls_signature_generate_ms'',
      ''client_signature_total_ms'', ''server_kem_encapsulation_ms'',
      ''server_certificate_verify_sign_ms'', ''l2cap_tx_packets'', ''l2cap_tx_bytes'',
      ''l2cap_rx_packets'', ''l2cap_rx_bytes'', ''l2cap_tx_retries'', ''l2cap_tx_wait_ms'',
      ''l2cap_rx_overflows'', ''client_cpu_cycles'', ''client_cycle_hz'', ''client_cpu_ms'',
      ''client_cpu_usage_percent'', ''system_cpu_usage_percent'', ''average_cpu_usage_percent'',
      ''peak_cpu_usage_percent'', ''client_icache_hits'', ''client_icache_misses'',
      ''client_icache_requests'', ''client_icache_hit_percent'', ''client_icache_miss_percent'',
      ''client_memory_access_counters_supported'', ''dwt_cycle_counter_supported'',
      ''dwt_event_counters_supported'', ''dwt_cyccnt'', ''dwt_cpicnt'', ''dwt_exccnt'',
      ''dwt_sleepcnt'', ''dwt_lsucnt'', ''dwt_foldcnt'', ''dwt_cycle_counter_width_bits'',
      ''dwt_event_counter_width_bits'', ''dwt_counts_are_modulo'', ''client_heap_current_bytes'',
      ''client_heap_peak_bytes'', ''client_heap_free_bytes'', ''client_heap_capacity_bytes'',
      ''client_heap_peak_usage_percent'', ''firmware_flash_used_bytes'',
      ''firmware_flash_capacity_bytes'', ''firmware_flash_usage_percent'',
      ''firmware_static_ram_used_bytes'', ''firmware_ram_capacity_bytes'',
      ''firmware_static_ram_usage_percent'', ''thread_stack_used_bytes'',
      ''thread_stack_capacity_bytes'', ''thread_stack_peak_percent'',
      ''l2cap_rx_ring_peak_bytes'', ''l2cap_rx_ring_capacity_bytes'',
      ''l2cap_rx_ring_peak_percent''] @
     POWER_ATTEMPT_FIELDS @
     [''power_status'', ''power_profiler_sample_count'', ''power_profiler_window_count'',
      ''power_profiler_vdd_mv'', ''power_profiler_output_samples_per_second'', ''error_code'',
      ''message'']"

definition TRANSFER_FIELDS :: "string list" where
  "TRANSFER_FIELDS =
     [''case_id'', ''round_index'', ''round_try'', ''round_complete'', ''attempt_index'',
      ''schedule_index'', ''transfer_order'', ''iteration'', ''direction'', ''payload_bytes'',
      ''status'', ''qos'', ''packet_id'', ''reconnect_count'', ''expected_sha256'',
      ''received_sha256'', ''integrity_match'', ''client_transfer_ms'', ''server_transfer_ms'',
      ''ack_latency_ms'', ''end_to_end_ms'', ''goodput_kib_s'', ''client_cpu_cycles'',
      ''client_cycle_hz'', ''client_cpu_ms'', ''client_cpu_usage_percent'',
      ''system_cpu_usage_percent'', ''client_heap_current_bytes'', ''client_heap_peak_bytes'',
      ''thread_stack_used_bytes'', ''thread_stack_capacity_bytes'', ''l2cap_tx_packets'',
      ''l2cap_tx_bytes'', ''l2cap_rx_packets'', ''l2cap_rx_bytes'', ''l2cap_tx_retries'',
      ''l2cap_tx_wait_ms'', ''l2cap_rx_overflows'', ''dwt_cyccnt'', ''dwt_cpicnt'',
      ''dwt_exccnt'', ''dwt_sleepcnt'', ''dwt_lsucnt'', ''dwt_foldcnt'', ''mqtt_wire_bytes'',
      ''mqtt_protocol_overhead_bytes'', ''power_status'', ''transfer_duration_ms'',
      ''transfer_charge_uc'', ''transfer_energy_uj'', ''transfer_avg_current_ua'',
      ''transfer_peak_current_ua'', ''message'']"

definition TRANSFER_SUMMARY_FIELDS :: "string list" where
  "TRANSFER_SUMMARY_FIELDS =
     [''case_id'', ''direction'', ''payload_bytes'', ''success_count'', ''fail_count'',
      ''timeout_count'', ''not_run_count'', ''mean_end_to_end_ms'', ''median_end_to_end_ms'',
      ''p95_end_to_end_ms'', ''min_end_to_end_ms'', ''max_end_to_end_ms'',
      ''stddev_end_to_end_ms'', ''ci95_end_to_end_ms'', ''mean_goodput_kib_s'',
      ''median_goodput_kib_s'', ''p95_goodput_kib_s'', ''min_goodput_kib_s'',
      ''max_goodput_kib_s'', ''stddev_goodput_kib_s'', ''ci95_goodput_kib_s'',
      ''mean_transfer_energy_uj'', ''median_transfer_energy_uj'', ''p95_transfer_energy_uj'',
      ''min_transfer_energy_uj'', ''max_transfer_energy_uj'', ''stddev_transfer_energy_uj'',
      ''ci95_transfer_energy_uj'']"

definition SUMMARY_FIELDS :: "string list" where
  "SUMMARY_FIELDS =
     [''case_id'', ''mtls_mode'', ''mlkem_backend'', ''rsa_profile'', ''firmware_profile'',
      ''pki_chain_id'', ''pki_kind'', ''root_sig_alg'', ''intermediate_sig_alg'',
      ''leaf_sig_alg'', ''root_cert_der_bytes'', ''intermediate_cert_der_bytes'',
      ''leaf_cert_der_bytes'', ''server_chain_bytes'', ''kex_group'', ''kex_nist_level'',
      ''kex_public_key_bytes'', ''kex_ciphertext_bytes'', ''kex_shared_secret_bytes'',
      ''cert_sig_alg'', ''sig_nist_level'', ''sig_public_key_bytes'', ''sig_private_key_bytes'',
      ''sig_signature_bytes'', ''certificate_verify_alg'', ''expected_certificate_verify_alg'',
      ''client_certificate_verify_alg'', ''certificate_verify_match'', ''status'',
      ''success_count'', ''fail_count'', ''timeout_count'', ''unsupported_count'',
      ''mean_raw_handshake_ms'', ''median_raw_handshake_ms'', ''p95_raw_handshake_ms'',
      ''min_raw_handshake_ms'', ''max_raw_handshake_ms'', ''stddev_raw_handshake_ms'',
      ''handshake_throughput_hps'', ''mean_mqtt_connect_ms'', ''mean_full_connect_ms'',
      ''mean_end_to_end_ms'', ''connections_per_second'', ''mean_client_cpu_ms'',
      ''mean_client_cpu_usage_percent'', ''mean_system_cpu_usage_percent'',
      ''mean_average_cpu_usage_percent'', ''max_peak_cpu_usage_percent'',
      ''mean_client_icache_hits'', ''mean_client_icache_misses'',
      ''mean_client_icache_requests'', ''mean_client_icache_hit_percent'',
      ''mean_client_icache_miss_percent'', ''client_memory_access_counters_supported'',
      ''dwt_cycle_counter_supported'', ''dwt_event_counters_supported'', ''mean_dwt_cyccnt'',
      ''mean_dwt_cpicnt'', ''mean_dwt_exccnt'', ''mean_dwt_sleepcnt'', ''mean_dwt_lsucnt'',
      ''mean_dwt_foldcnt'', ''dwt_cycle_counter_width_bits'', ''dwt_event_counter_width_bits'',
      ''dwt_counts_are_modulo'', ''max_client_heap_peak_bytes'', ''min_client_heap_free_bytes'',
      ''client_heap_capacity_bytes'', ''max_client_heap_peak_usage_percent'',
      ''mean_communication_overhead_ms'', ''mean_kem_keygen_ms'', ''mean_kem_encapsulation_ms'',
      ''mean_kem_decapsulation_ms'', ''mean_classical_kex_keygen_ms'',
      ''mean_classical_kex_shared_secret_ms'', ''mean_kem_client_total_ms'',
      ''mean_certificate_signature_verify_ms'', ''mean_x509_chain_signature_verify_ms'',
      ''mean_tls_certificate_verify_signature_verify_ms'', ''mean_mtls_signature_generate_ms'',
      ''mean_client_signature_total_ms'', ''mean_server_kem_encapsulation_ms'',
      ''mean_server_certificate_verify_sign_ms'', ''mean_l2cap_tx_packets'',
      ''mean_l2cap_tx_bytes'', ''mean_l2cap_rx_packets'', ''mean_l2cap_rx_bytes'',
      ''mean_l2cap_tx_retries'', ''mean_l2cap_tx_wait_ms'', ''total_l2cap_rx_overflows'',
      ''firmware_flash_used_bytes'', ''firmware_flash_capacity_bytes'',
      ''firmware_flash_usage_percent'', ''firmware_static_ram_used_bytes'',
      ''firmware_ram_capacity_bytes'', ''firmware_static_ram_usage_percent'',
      ''max_thread_stack_used_bytes'', ''thread_stack_capacity_bytes'',
      ''max_thread_stack_peak_percent'', ''max_l2cap_rx_ring_peak_bytes'',
      ''l2cap_rx_ring_capacity_bytes'', ''max_l2cap_rx_ring_peak_percent''] @
     concat (map (\<lambda>window. map (\<lambda>metric. ''mean_'' @ window @ ''_'' @ metric)
       [''duration_ms'', ''charge_uc'', ''energy_uj'', ''avg_current_ua'']) POWER_WINDOWS) @
     map (\<lambda>window. ''max_'' @ window @ ''_peak_current_ua'') POWER_WINDOWS"

section \<open>The site\<close>

record 'w console =
  cn_which :: "string \<Rightarrow> ('w, string option) io"
  cn_home :: "('w, string) io"
  cn_expanduser :: "string \<Rightarrow> ('w, string) io"
  cn_expandvars :: "string \<Rightarrow> ('w, string) io"
  cn_timestamp :: "('w, string) io"
  cn_random :: "int \<Rightarrow> int \<Rightarrow> ('w, int) io"
  cn_input :: "string \<Rightarrow> ('w, unit) io"
  cn_serial_open :: "string \<Rightarrow> int \<Rightarrow> ('w, unit) io"
  cn_serial_close :: "('w, unit) io"

record ('w, 'g) site =
  si_host :: "'w host"
  si_disk :: "'w disk"
  si_console :: "'w console"
  si_rng :: "'g rng"
  si_bench :: string
  si_pid :: int
  si_fuel :: nat

definition RESULTS :: "string \<Rightarrow> string" where
  "RESULTS bench = path_join bench ''results''"

definition WORK :: "string \<Rightarrow> string" where
  "WORK bench = path_join bench ''work''"

definition DEFAULT_NCS_VERSION :: string where
  "DEFAULT_NCS_VERSION = ''v3.3.0''"

section \<open>Configuration\<close>

definition REQUIRED_CONFIG :: "string list" where
  "REQUIRED_CONFIG = [''serial-device'', ''pi-host'', ''ssh-key'', ''ble-addr'']"

definition OPTIONAL_CONFIG :: "string list" where
  "OPTIONAL_CONFIG = [''power-profiler-serial-device'', ''power-profiler-vdd-mv'',
     ''power-profiler-output-samples-per-second'']"

definition is_str :: "pyval \<Rightarrow> bool" where
  "is_str v = (case v of PStr s \<Rightarrow> True | _ \<Rightarrow> False)"

definition is_int :: "pyval \<Rightarrow> bool" where
  "is_int v = (case v of PInt i \<Rightarrow> True | _ \<Rightarrow> False)"

definition need_cell :: "string \<Rightarrow> (pyval \<Rightarrow> bool) \<Rightarrow> string \<Rightarrow> row \<Rightarrow> string \<Rightarrow> unit res" where
  "need_cell path P what values key =
     guardr (case map_of values key of None \<Rightarrow> False | Some v \<Rightarrow> P v)
       (ValueError (path @ '': '' @ py_repr key @ '' must be '' @ what))"

definition check_config :: "string \<Rightarrow> row \<Rightarrow> row res" where
  "check_config path values0 =
     (let unknown = filter (\<lambda>k. k \<notin> set (REQUIRED_CONFIG @ OPTIONAL_CONFIG)) (map fst values0) in
      bindr (guardr (unknown = [])
        (ValueError (path @ '': unknown configuration fields: '' @ join '', '' (sort unknown)))) (\<lambda>_.
      bindr (mapr (need_cell path is_str ''a string'' values0) REQUIRED_CONFIG) (\<lambda>_.
      let values = dsetdefault ''power-profiler-output-samples-per-second'' (PInt 100)
        (dsetdefault ''power-profiler-vdd-mv'' (PInt 3000)
        (dsetdefault ''power-profiler-serial-device'' (PStr ''/dev/ttyACM0'') values0)) in
      bindr (need_cell path is_str ''a string'' values ''power-profiler-serial-device'') (\<lambda>_.
      bindr (mapr (need_cell path is_int ''an integer'' values)
        [''power-profiler-vdd-mv'', ''power-profiler-output-samples-per-second'']) (\<lambda>_. Inr values)))))"

definition load_config :: "'w host \<Rightarrow> string \<Rightarrow> ('w, row) io" where
  "load_config H path =
     bindm (h_exists H path) (\<lambda>present.
     if \<not> present then raisem (FileNotFoundError (''benchmark configuration not found: '' @ path))
     else bindm (h_read H path) (\<lambda>text.
       bindm (liftm (json_loads text)) (\<lambda>v.
       liftm (case v of PDict d \<Rightarrow> check_config path d
         | _ \<Rightarrow> Inl (ValueError (path @ '': top-level JSON value must be an object''))))))"

section \<open>Devices and addresses\<close>

fun first_existing :: "'w host \<Rightarrow> string list \<Rightarrow> string \<Rightarrow> ('w, string) io" where
  "first_existing H [] dflt = retm dflt"
| "first_existing H (p # ps) dflt = bindm (h_exists H p) (\<lambda>present.
     if present then retm p else first_existing H ps dflt)"

definition default_nrfutil :: "'w host \<Rightarrow> 'w console \<Rightarrow> ('w, string) io" where
  "default_nrfutil H C =
     bindm (cn_which C ''nrfutil'') (\<lambda>found.
     case found of Some (c # s) \<Rightarrow> retm (c # s)
     | _ \<Rightarrow> bindm (cn_home C) (\<lambda>home. first_existing H
         [home @ ''/.local/bin/nrfutil'',
          ''/opt/nordic/ncs/toolchains/0c0f19d91c/nrfutil/bin/nrfutil'',
          ''/opt/nordic/ncs/toolchains/0c0f19d91c/nrfutil/home/bin/nrfutil''] ''nrfutil''))"

definition default_ncs_chdir :: "'w host \<Rightarrow> string \<Rightarrow> ('w, string) io" where
  "default_ncs_chdir H ncs_version =
     first_existing H [''/opt/nordic/ncs/'' @ ncs_version @ ''/nrf'']
       (''/home/thiago/Documents/ncs/'' @ ncs_version @ ''/nrf'')"

definition resolve_serial_device :: "'w host \<Rightarrow> 'w disk \<Rightarrow> string \<Rightarrow> ('w, string) io" where
  "resolve_serial_device H D configured =
     bindm (h_exists H configured) (\<lambda>present.
     if present \<or> configured \<noteq> ''/dev/ttyACM0'' then retm configured
     else bindm (dk_glob D ''/dev'' ''tty.usbmodem*'') (\<lambda>candidates.
       retm (case sort candidates of [] \<Rightarrow> configured | c # cs \<Rightarrow> c)))"

definition same_device :: "'w host \<Rightarrow> 'w disk \<Rightarrow> string \<Rightarrow> string \<Rightarrow> ('w, bool) io" where
  "same_device H D a b =
     bindm (h_exists H a) (\<lambda>pa. if \<not> pa then retm False
     else bindm (h_exists H b) (\<lambda>pb. if \<not> pb then retm False
     else bindm (dk_resolve D a) (\<lambda>ra. bindm (dk_resolve D b) (\<lambda>rb. retm (ra = rb)))))"

definition resolve_power_profiler_device :: "'w host \<Rightarrow> 'w disk \<Rightarrow> string \<Rightarrow> string \<Rightarrow> ('w, string) io" where
  "resolve_power_profiler_device H D configured board_device =
     bindm (same_device H D configured board_device) (\<lambda>collision.
     bindm (h_exists H configured) (\<lambda>present.
     if present \<and> \<not> collision then retm configured
     else bindm (dk_glob D ''/dev/serial/by-id'' ''*PPK2*-if01'') (\<lambda>candidates.
       retm (case sort candidates of [] \<Rightarrow> configured | c # cs \<Rightarrow> c))))"

definition normalize_ble_addr :: "string \<Rightarrow> string" where
  "normalize_ble_addr address =
     (let compact = filter is_hex address in
      if compact \<noteq> [] \<and> set compact = {CHR ''0''} then [] else address)"

definition safe_user :: "string \<Rightarrow> bool" where
  "safe_user username \<longleftrightarrow> (case username of [] \<Rightarrow> False
     | c # s \<Rightarrow> (is_lower_az c \<or> c = CHR ''_'') \<and>
         list_all (\<lambda>d. is_lower_az d \<or> is_digit d \<or> d = CHR ''_'' \<or> d = CHR ''-'') s)"

definition before_last_at :: "string \<Rightarrow> string" where
  "before_last_at s = rev (tl (dropWhile (\<lambda>c. c \<noteq> CHR ''@'') (rev s)))"

definition resolve_pi_workdir :: "string \<Rightarrow> string \<Rightarrow> string res" where
  "resolve_pi_workdir pi_host configured =
     (if configured \<noteq> [] then Inr configured
      else if CHR ''@'' \<notin> set pi_host
      then Inl (ValueError ''--pi-workdir is required when --pi-host has no SSH username'')
      else let username = before_last_at pi_host in
        if \<not> safe_user username
        then Inl (ValueError (''cannot derive a safe home directory from SSH user '' @ py_repr username))
        else Inr (''/home/'' @ username @ ''/peripheral-benchmark''))"

section \<open>Arguments\<close>

record campaign_args = run_args +
  ca_cases :: "string option"
  ca_resume :: "string option"
  ca_seed :: "int option"
  ca_run_id :: "string option"
  ca_limit :: "int option"
  ca_only_case :: "string list"
  ca_dry_run :: bool
  ca_skip_build :: bool
  ca_skip_flash :: bool
  ca_sessions_per_case :: int
  ca_serial_device :: string
  ca_serial_baud :: int
  ca_power_device :: string
  ca_vdd_mv :: int
  ca_rate :: int
  ca_pi_host :: string
  ca_pi_workdir :: string
  ca_ssh_key :: string
  ca_disable_wifi :: bool
  ca_ncs_version :: string
  ca_ncs_chdir :: string
  ca_board :: string
  ca_mlkem_backend :: string
  ca_server_backend :: string

text \<open>The values of an argument vector that names none of the options.\<close>

definition default_args :: "row \<Rightarrow> string \<Rightarrow> string \<Rightarrow> campaign_args res" where
  "default_args config nrfutil ncs_chdir =
     bindr (bindr (dindex config ''serial-device'') pv_str) (\<lambda>serial.
     bindr (bindr (dindex config ''power-profiler-serial-device'') pv_str) (\<lambda>power.
     bindr (bindr (dindex config ''power-profiler-vdd-mv'') pv_int) (\<lambda>vdd.
     bindr (bindr (dindex config ''power-profiler-output-samples-per-second'') pv_int) (\<lambda>rate.
     bindr (bindr (dindex config ''pi-host'') pv_str) (\<lambda>host.
     bindr (bindr (dindex config ''ssh-key'') pv_str) (\<lambda>key.
     bindr (bindr (dindex config ''ble-addr'') pv_str) (\<lambda>addr.
     Inr \<lparr>ra_reconnect_retries = 3, ra_reconnect_delay = 5, ra_attempt_timeout = None,
       ra_gateway_ready_timeout = 20, ra_board_ready_timeout = 20, ra_board_rearm_timeout = 30,
       ra_power_profiler = False, ra_transfer_mode = False, ra_mtls_mode = False, ra_ble_addr = addr,
       ra_ble_name = ''PQC52840'', ra_ble_addr_type = ''random'', ra_psm = ''0x0080'', ra_mtu = 672,
       ra_adapter = ''hci0'', ra_nrfutil = nrfutil, ca_cases = None, ca_resume = None, ca_seed = None,
       ca_run_id = None, ca_limit = None, ca_only_case = [], ca_dry_run = False, ca_skip_build = False,
       ca_skip_flash = False, ca_sessions_per_case = 2, ca_serial_device = serial, ca_serial_baud = 115200,
       ca_power_device = power, ca_vdd_mv = vdd, ca_rate = rate, ca_pi_host = host, ca_pi_workdir = [],
       ca_ssh_key = key, ca_disable_wifi = True, ca_ncs_version = DEFAULT_NCS_VERSION,
       ca_ncs_chdir = ncs_chdir, ca_board = ''nrf52840dk/nrf52840'', ca_mlkem_backend = ''pqm4-m4fstack'',
       ca_server_backend = ''auto''\<rparr>)))))))"

definition some_text :: "string option \<Rightarrow> bool" where
  "some_text x = (case x of None \<Rightarrow> False | Some s \<Rightarrow> s \<noteq> [])"

definition finish_args :: "('w, 'g) site \<Rightarrow> campaign_args \<Rightarrow> ('w, campaign_args) io" where
  "finish_args S a =
     (let H = si_host S; D = si_disk S; C = si_console S in
      if (ca_cases a \<noteq> None) = some_text (ca_resume a)
      then raisem (SystemExit ''provide exactly one of --cases or --resume'')
      else bindm (bindm (cn_expanduser C (ca_ssh_key a)) (cn_expandvars C)) (\<lambda>key.
        bindm (resolve_serial_device H D (ca_serial_device a)) (\<lambda>serial.
        bindm (cn_expanduser C (ca_power_device a)) (\<lambda>power0.
        bindm (resolve_power_profiler_device H D power0 serial) (\<lambda>power.
        retm (a\<lparr>ca_ssh_key := key, ca_serial_device := serial, ca_power_device := power,
          ra_ble_addr := normalize_ble_addr (ra_ble_addr a)\<rparr>))))))"

definition check_args :: "campaign_args \<Rightarrow> unit res" where
  "check_args a =
     bindr (guardr (\<not> (ca_sessions_per_case a < 1 \<or> ra_reconnect_retries a < 0))
       (ValueError ''sessions and reconnect retries must be non-negative'')) (\<lambda>_.
     bindr (guardr (case ca_limit a of None \<Rightarrow> True | Some n \<Rightarrow> \<not> n < 1)
       (ValueError ''--limit must be at least 1'')) (\<lambda>_.
     bindr (guardr (800 \<le> ca_vdd_mv a \<and> ca_vdd_mv a \<le> 5000)
       (ValueError ''--power-profiler-vdd-mv must be between 800 and 5000'')) (\<lambda>_.
     guardr (1 \<le> ca_rate a \<and> ca_rate a \<le> 100000)
       (ValueError ''--power-profiler-output-samples-per-second must be between 1 and 100000''))))"

definition check_devices :: "('w, 'g) site \<Rightarrow> campaign_args \<Rightarrow> ('w, unit) io" where
  "check_devices S a =
     (if \<not> ra_power_profiler a then retm ()
      else bindm (same_device (si_host S) (si_disk S) (ca_serial_device a) (ca_power_device a)) (\<lambda>same.
        if same then raisem (ValueError ''board and PPK2 serial devices must be different'') else retm ()))"

section \<open>A run\<close>

record run =
  rn_args :: campaign_args
  rn_id :: string
  rn_dir :: string
  rn_cases :: "srow list"
  rn_seed :: int
  rn_jobs :: "job list"
  rn_last :: int
  rn_resuming :: bool

definition job_case_id :: "job \<Rightarrow> string" where
  "job_case_id j = (case j of Session s \<Rightarrow> sj_case_id s | Round r \<Rightarrow> tr_case_id r)"

definition job_measured_index :: "job \<Rightarrow> int" where
  "job_measured_index j = (case j of Session s \<Rightarrow> sj_measured_index s | Round r \<Rightarrow> tr_measured_index r)"

definition case_id_of :: "srow \<Rightarrow> string res" where
  "case_id_of c = dindex c ''case_id''"

definition save_csv :: "'w host \<Rightarrow> string \<Rightarrow> string list \<Rightarrow> row list \<Rightarrow> ('w, unit) io" where
  "save_csv H path names rows =
     seqm (h_mkdir H (path_parent path)) (bindm (liftm (write_csv names rows)) (h_write H path))"

definition job_session_row :: "(string \<Rightarrow> string) \<Rightarrow> int \<Rightarrow> int \<times> job \<Rightarrow> row" where
  "job_session_row profile seed oj = (case oj of (order, j) \<Rightarrow>
     [(''execution_order'', PInt order), (''source_sequence'', PInt (job_sequence j)),
      (''case_id'', PStr (job_case_id j)), (''session'', PInt (job_session j)),
      (''attempt_in_session'', PInt (job_attempt_in_session j)), (''warmup'', PInt (job_warmup j)),
      (''measured_index'', PInt (job_measured_index j)),
      (''firmware_profile'', PStr (profile (job_case_id j))), (''seed'', PInt seed)])"

definition rounds_of :: "job list \<Rightarrow> transfer_round list" where
  "rounds_of js = concat (map (\<lambda>j. case j of Session s \<Rightarrow> [] | Round r \<Rightarrow> [r]) js)"

definition write_manifests :: "'w host \<Rightarrow> run \<Rightarrow> (string \<Rightarrow> string) \<Rightarrow> job list \<Rightarrow> ('w, unit) io" where
  "write_manifests H rn profile jobs =
     seqm (save_csv H (path_join (rn_dir rn) ''session_manifest.csv'') SESSION_FIELDS
       (map (job_session_row profile (rn_seed rn)) (enumerate_from 1 jobs)))
     (whenm (ra_transfer_mode (rn_args rn))
       (bindm (liftm (round_manifest profile (rn_seed rn) (rounds_of jobs))) (\<lambda>round_text.
        bindm (liftm (transfer_manifest (rounds_of jobs))) (\<lambda>transfer_text.
        seqm (h_write H (path_join (rn_dir rn) ''round_manifest.csv'') round_text)
        (h_write H (path_join (rn_dir rn) ''transfer_manifest.csv'') transfer_text)))))"

section \<open>Resuming\<close>

definition resolve_resume_dir :: "('w, 'g) site \<Rightarrow> string \<Rightarrow> ('w, string) io" where
  "resolve_resume_dir S value =
     bindm (cn_expanduser (si_console S) value) (\<lambda>path.
     bindm (h_is_dir (si_host S) path) (\<lambda>dir.
     if dir then dk_resolve (si_disk S) path
     else let candidate = path_join (RESULTS (si_bench S)) value in
       bindm (h_is_dir (si_host S) candidate) (\<lambda>dir.
       if dir then dk_resolve (si_disk S) candidate
       else raisem (FileNotFoundError (''benchmark run to resume was not found: '' @ value)))))"

definition restore_args :: "row \<Rightarrow> campaign_args \<Rightarrow> campaign_args res" where
  "restore_args saved a =
     (let transfer = (map_of saved ''benchmark_mode'' = Some (PStr ''transfer'')) in
      if ra_transfer_mode a \<and> \<not> transfer
      then Inl (ValueError ''--transfer-mode cannot resume a normal benchmark run'')
      else bindr (bindr (dindex saved ''mlkem_backend'') pv_str) (\<lambda>mlkem.
        bindr (bindr (dindex saved ''server_backend'') pv_str) (\<lambda>server.
        bindr (pv_str (dget saved ''board'' (PStr (ca_board a)))) (\<lambda>board.
        bindr (pv_str (dget saved ''power_profiler_serial_device'' (PStr (ca_power_device a)))) (\<lambda>device.
        bindr (pv_int (dget saved ''power_profiler_vdd_mv'' (PInt (ca_vdd_mv a)))) (\<lambda>vdd.
        bindr (pv_int (dget saved ''power_profiler_output_samples_per_second'' (PInt (ca_rate a)))) (\<lambda>rate.
        Inr (a\<lparr>ra_transfer_mode := transfer, ca_mlkem_backend := mlkem, ca_server_backend := server,
          ra_mtls_mode := pv_true (dget saved ''mtls_mode'' (PBool False)),
          ra_power_profiler := pv_true (dget saved ''power_profiler'' (PBool False)),
          ca_board := board, ca_power_device := device, ca_vdd_mv := vdd, ca_rate := rate\<rparr>))))))))"

definition restore_saved_args :: "'w host \<Rightarrow> string \<Rightarrow> campaign_args \<Rightarrow> ('w, campaign_args) io" where
  "restore_saved_args H run_dir a =
     (let path = path_join run_dir ''run_config.json'' in
      bindm (h_exists H path) (\<lambda>present.
      if \<not> present then retm a
      else bindm (h_read H path) (\<lambda>text.
        liftm (bindr (bindr (json_loads text) json_dict) (\<lambda>saved. restore_args saved a)))))"

definition load_jobs :: "'w host \<Rightarrow> string \<Rightarrow> bool \<Rightarrow> ('w, job list) io" where
  "load_jobs H run_dir transfer_mode =
     (if transfer_mode then
        bindm (h_read H (path_join run_dir ''transfer_manifest.csv'')) (\<lambda>transfer_text.
        bindm (h_read H (path_join run_dir ''round_manifest.csv'')) (\<lambda>round_text.
        liftm (bindr (load_transfer_rounds transfer_text round_text) (\<lambda>rs. Inr (map Round rs)))))
      else bindm (h_read H (path_join run_dir ''session_manifest.csv'')) (\<lambda>text.
        liftm (bindr (load_session_jobs text) (\<lambda>ss. Inr (map Session ss)))))"

definition load_checkpoint :: "'w host \<Rightarrow> string \<Rightarrow> ('w, row) io" where
  "load_checkpoint H run_dir =
     (let path = path_join run_dir ''checkpoint.json'' in
      bindm (h_exists H path) (\<lambda>present.
      if \<not> present then liftm (read_checkpoint run_dir None)
      else bindm (h_read H path) (\<lambda>text.
        liftm (bindr (bindr (json_loads text) json_dict) (\<lambda>d. read_checkpoint run_dir (Some d))))))"

definition last_completed :: "row \<Rightarrow> int res" where
  "last_completed checkpoint = pv_int (dget checkpoint ''last_completed_execution_order'' (PInt 0))"

definition resume_run :: "('w, 'g) site \<Rightarrow> campaign_args \<Rightarrow> string \<Rightarrow> ('w, run) io" where
  "resume_run S a value =
     (let H = si_host S in
      if ca_limit a \<noteq> None \<or> ca_only_case a \<noteq> [] \<or> some_text (ca_run_id a)
      then raisem (ValueError ''--resume cannot be combined with --limit, --only-case, or --run-id'')
      else bindm (resolve_resume_dir S value) (\<lambda>run_dir.
        bindm (bindm (h_read H (path_join run_dir ''run_manifest.csv'')) (\<lambda>t. liftm (load_manifest_cases t))) (\<lambda>cases.
        bindm (bindm (h_read H (path_join run_dir ''seed.txt'')) (\<lambda>t. liftm (py_int (py_strip t)))) (\<lambda>seed.
        bindm (restore_saved_args H run_dir a) (\<lambda>a'.
        bindm (load_jobs H run_dir (ra_transfer_mode a')) (\<lambda>jobs.
        bindm (bindm (load_checkpoint H run_dir) (\<lambda>c. liftm (last_completed c))) (\<lambda>last_order.
        retm \<lparr>rn_args = a', rn_id = path_name run_dir, rn_dir = run_dir, rn_cases = cases, rn_seed = seed,
          rn_jobs = jobs, rn_last = last_order, rn_resuming = True\<rparr>)))))))"

section \<open>A new run\<close>

definition choose_cases :: "'g rng \<Rightarrow> campaign_args \<Rightarrow> int \<Rightarrow> srow list \<Rightarrow> srow list res" where
  "choose_cases R a seed cases =
     (let shuffled = seeded_shuffle R seed cases;
          limited = (case ca_limit a of None \<Rightarrow> shuffled | Some n \<Rightarrow> take (nat n) shuffled) in
      if limited = [] then Inl (ValueError ''no cases selected'')
      else Inr (map (dset ''firmware_profile'' ''universal'') limited))"

definition only_cases :: "campaign_args \<Rightarrow> srow list \<Rightarrow> srow list res" where
  "only_cases a cases = (if ca_only_case a = [] then Inr cases
     else filterr (\<lambda>c. bindr (case_id_of c) (\<lambda>cid. Inr (cid \<in> set (ca_only_case a)))) cases)"

definition profile_config :: "(string, string list) dict \<Rightarrow> srow list \<Rightarrow> row res" where
  "profile_config profile_roots cases =
     bindr (mapr (\<lambda>c. bindr (case_id_of c) (\<lambda>cid. bindr (dindex c ''firmware_profile'') (\<lambda>p.
        Inr (cid, PStr p)))) cases) (\<lambda>case_to_profile.
     Inr [(''roots'', PDict (map (\<lambda>(name, roots). (name, PList (map PStr (sort roots)))) profile_roots)),
          (''case_to_profile'', PDict (dict_of case_to_profile))])"

definition run_config :: "campaign_args \<Rightarrow> srow list \<Rightarrow> row res" where
  "run_config a cases =
     bindr (mapr (\<lambda>c. dindex c ''root_sig_alg'') cases) (\<lambda>roots.
     bindr (profile_config [(''universal'', remdups roots)] cases) (\<lambda>profiles.
     Inr [(''benchmark_mode'', PStr (if ra_transfer_mode a then ''transfer'' else ''handshake'')),
       (''sessions_per_case'', PInt (ca_sessions_per_case a)),
       (''mlkem_backend'', PStr (ca_mlkem_backend a)), (''server_backend'', PStr (ca_server_backend a)),
       (''board'', PStr (ca_board a)), (''mtls_mode'', PBool (ra_mtls_mode a)),
       (''pki_layout'', PStr ''three-tier-v1''), (''power_profiler'', PBool (ra_power_profiler a)),
       (''power_profiler_mode'', PStr (if ra_power_profiler a then ''source'' else ''disabled'')),
       (''power_profiler_serial_device'', PStr (ca_power_device a)),
       (''power_profiler_vdd_mv'', PInt (ca_vdd_mv a)),
       (''power_profiler_output_samples_per_second'', PInt (ca_rate a)),
       (''firmware_profiles'', PDict profiles), (''firmware_profiles_planned'', PBool False)]))"

definition manifest_row :: "int \<Rightarrow> string \<Rightarrow> int \<times> srow \<Rightarrow> row" where
  "manifest_row seed run_id ic = (case ic of (index, c) \<Rightarrow>
     dict_of ((''sequence'', PInt index) # text_row c @ [(''seed'', PInt seed), (''run_id'', PStr run_id)]))"

definition write_json :: "'w host \<Rightarrow> string \<Rightarrow> row \<Rightarrow> ('w, unit) io" where
  "write_json H path d = bindm (liftm (json_pretty 0 (PDict d))) (\<lambda>t. h_write H path (t @ newline))"

definition new_checkpoint :: "string \<Rightarrow> row" where
  "new_checkpoint now = [(''version'', PInt 1), (''status'', PStr ''new''),
     (''last_completed_execution_order'', PInt 0), (''next_execution_order'', PInt 1), (''case_id'', PNone),
     (''session'', PNone), (''attempt_in_session'', PNone), (''firmware_profile'', PNone),
     (''updated_at'', PStr now)]"

definition plan_jobs :: "'g rng \<Rightarrow> campaign_args \<Rightarrow> int \<Rightarrow> srow list \<Rightarrow> job list res" where
  "plan_jobs R a seed cases =
     (if ra_transfer_mode a then bindr (build_transfer_rounds R cases seed) (\<lambda>rs. Inr (map Round rs))
      else bindr (build_jobs R cases seed (ca_sessions_per_case a)) (\<lambda>ss. Inr (map Session ss)))"

definition write_new_run :: "('w, 'g) site \<Rightarrow> string \<Rightarrow> run \<Rightarrow> ('w, unit) io" where
  "write_new_run S cases_path rn =
     (let H = si_host S; file = path_join (rn_dir rn) in
      seqm (h_mkdir H (rn_dir rn))
      (seqm (h_write H (file ''seed.txt'') (str_int (rn_seed rn) @ newline))
      (seqm (h_write H (file ''mlkem_backend.txt'') (ca_mlkem_backend (rn_args rn) @ newline))
      (bindm (liftm (run_config (rn_args rn) (rn_cases rn))) (\<lambda>config.
      seqm (write_json H (file ''run_config.json'') config)
      (seqm (dk_copy (si_disk S) cases_path (file ''input_cases.csv''))
      (save_csv H (file ''run_manifest.csv'') ([''sequence''] @ FIELDS @ [''seed'', ''run_id''])
        (map (manifest_row (rn_seed rn) (rn_id rn)) (enumerate_from 1 (rn_cases rn))))))))))"

definition new_run :: "('w, 'g) site \<Rightarrow> campaign_args \<Rightarrow> string \<Rightarrow> ('w, run) io" where
  "new_run S a cases_path =
     (let H = si_host S; R = si_rng S in
      bindm (bindm (h_read H cases_path) (\<lambda>t. liftm (bindr (read_cases t) (only_cases a)))) (\<lambda>selected.
      bindm (case ca_seed a of Some s \<Rightarrow> retm s
        | None \<Rightarrow> cn_random (si_console S) 1 (2 ^ 31 - 1)) (\<lambda>seed.
      bindm (liftm (choose_cases R a seed selected)) (\<lambda>cases.
      bindm (case ca_run_id a of Some (c # s) \<Rightarrow> retm (c # s)
        | _ \<Rightarrow> bindm (cn_timestamp (si_console S)) (\<lambda>now. retm (now @ ''_'' @ str_int seed))) (\<lambda>run_id.
      let rn0 = \<lparr>rn_args = a, rn_id = run_id, rn_dir = path_join (RESULTS (si_bench S)) run_id,
        rn_cases = cases, rn_seed = seed, rn_jobs = [], rn_last = 0, rn_resuming = False\<rparr> in
      bindm (h_exists H (rn_dir rn0)) (\<lambda>present.
      if present then raisem (FileExistsError (''refusing to overwrite '' @ rn_dir rn0))
      else seqm (write_new_run S cases_path rn0)
        (bindm (liftm (plan_jobs R a seed cases)) (\<lambda>jobs.
         seqm (write_manifests H rn0 (\<lambda>_. ''universal'') jobs)
         (bindm (h_now H) (\<lambda>now.
          seqm (write_json H (path_join (rn_dir rn0) ''checkpoint.json'') (new_checkpoint now))
          (retm (rn0\<lparr>rn_jobs := jobs\<rparr>))))))))))))"

definition open_run :: "('w, 'g) site \<Rightarrow> campaign_args \<Rightarrow> ('w, run) io" where
  "open_run S a = (case ca_resume a of Some value \<Rightarrow> resume_run S a value
     | None \<Rightarrow> (case ca_cases a of Some path \<Rightarrow> new_run S a path
         | None \<Rightarrow> raisem (TypeError ''no case file'')))"

section \<open>The cases of the run\<close>

definition case_by_id :: "srow list \<Rightarrow> (string, srow) dict res" where
  "case_by_id cases = bindr (mapr (\<lambda>c. bindr (case_id_of c) (\<lambda>cid. Inr (cid, c))) cases) (\<lambda>kvs. Inr (dict_of kvs))"

definition case_dirs :: "string \<Rightarrow> srow list \<Rightarrow> (string, string) dict res" where
  "case_dirs run_dir cases =
     bindr (mapr (\<lambda>(i, c). bindr (case_id_of c) (\<lambda>cid.
        Inr (cid, run_dir @ ''/cases/'' @ dec_pad 3 i @ ''_'' @ cid))) (enumerate_from 1 cases)) (\<lambda>kvs.
     Inr (dict_of kvs))"

definition scheduled_jobs :: "int \<Rightarrow> job list \<Rightarrow> (int \<times> job) list" where
  "scheduled_jobs last_order jobs = filter (\<lambda>(order, j). last_order < order) (enumerate_from 1 jobs)"

definition load_case_files ::
  "'w host \<Rightarrow> (string, string) dict \<Rightarrow> string \<Rightarrow> ('w, (string, string option) dict) io" where
  "load_case_files H dirs name = mapm (\<lambda>(cid, dir). let path = path_join dir name in
     bindm (h_exists H path) (\<lambda>present.
     if present then bindm (h_read H path) (\<lambda>t. retm (cid, Some t)) else retm (cid, None))) dirs"

definition stored_rows :: "(string, srow list) dict \<Rightarrow> (string, row list) dict" where
  "stored_rows d = map (\<lambda>(cid, rows). (cid, map text_row rows)) d"

definition dry_run_summary :: "campaign_args \<Rightarrow> srow \<Rightarrow> row res" where
  "dry_run_summary a c =
     bindr (case_id_of c) (\<lambda>cid. bindr (case_metadata c) (\<lambda>metadata.
     Inr (dict_of ([(''case_id'', PStr cid), (''mlkem_backend'', PStr (ca_mlkem_backend a)),
       (''rsa_profile'', PStr ''fast-math''), (''mtls_mode'', PInt (if ra_mtls_mode a then 1 else 0))] @
       text_row metadata @
       [(''status'', PStr ''dry_run''), (''success_count'', PInt 0), (''fail_count'', PInt 0),
        (''timeout_count'', PInt 0), (''unsupported_count'', PInt 0)]))))"

definition dry_run :: "'w host \<Rightarrow> run \<Rightarrow> ('w, int) io" where
  "dry_run H rn =
     (let a = rn_args rn; file = path_join (rn_dir rn) in
      bindm (liftm (mapr (dry_run_summary a) (rn_cases rn))) (\<lambda>summaries.
      seqm (save_csv H (file ''summary.csv'') SUMMARY_FIELDS summaries)
      (seqm (whenm (ra_transfer_mode a)
         (seqm (save_csv H (file ''handshake_summary.csv'') SUMMARY_FIELDS summaries)
               (save_csv H (file ''transfer_summary.csv'') TRANSFER_SUMMARY_FIELDS [])))
      (retm 0))))"

section \<open>Certificates of the run\<close>

definition template_case :: "pki_chain \<Rightarrow> srow" where
  "template_case ch = [(''kex_group'', ''ECDHE-P-256''), (''pki_chain_id'', chain_id ch), (''pki_kind'', chain_kind ch),
     (''root_sig_alg'', chain_root ch), (''intermediate_sig_alg'', chain_intermediate ch),
     (''leaf_sig_alg'', chain_leaf ch), (''cert_sig_alg'', chain_leaf ch)]"

definition prepare_chain ::
  "('w, 'g) site \<Rightarrow> run \<Rightarrow> string \<Rightarrow> string option \<Rightarrow> string \<Rightarrow> ('w, string \<times> string) io" where
  "prepare_chain S rn generated_root client_dir cid =
     (case map_of PKI_CHAINS_BY_ID cid of
        None \<Rightarrow> raisem (ValueError (''unknown PKI chain: '' @ cid))
      | Some ch \<Rightarrow> let template = generated_root @ ''/chains/'' @ cid in
          seqm (generate_server_case (si_host S) (si_disk S) (si_bench S) (template_case ch) template
             (path_join (rn_dir rn) ''build.log'') client_dir)
          (retm (cid, template)))"

record prepared =
  pr_supported :: "srow list"
  pr_unsupported :: "(string, string) dict"
  pr_backends :: "(string, string) dict"

definition prepare_files ::
  "('w, 'g) site \<Rightarrow> (string, string) dict \<Rightarrow> (string, string) dict \<Rightarrow> srow \<Rightarrow> ('w, unit) io" where
  "prepare_files S dirs templates c =
     bindm (liftm (bindr (bindr (case_id_of c) (dindex dirs)) (\<lambda>dir. Inr (path_join dir ''generated'')))) (\<lambda>dest.
     bindm (liftm (bindr (dindex c ''pki_chain_id'') (dindex templates))) (\<lambda>template.
     seqm (materialize_case (si_host S) (si_disk S) template dest) (write_case_configs (si_host S) c dest)))"

definition prepare_case ::
  "('w, 'g) site \<Rightarrow> string \<Rightarrow> (string, string) dict \<Rightarrow> (string, string) dict \<Rightarrow> prepared \<Rightarrow> srow \<Rightarrow> ('w, prepared) io" where
  "prepare_case S requested dirs templates p c =
     bindm (liftm (case_id_of c)) (\<lambda>cid.
     bindm (liftm (server_backend_for_case c requested)) (\<lambda>backend.
     case backend of
       None \<Rightarrow> bindm (liftm (unsupported_backend_reason c requested)) (\<lambda>reason.
         retm (p\<lparr>pr_unsupported := dset cid reason (pr_unsupported p)\<rparr>))
     | Some b \<Rightarrow> let q = p\<lparr>pr_backends := dset cid b (pr_backends p)\<rparr> in
         catchm (seqm (prepare_files S dirs templates c) (retm (q\<lparr>pr_supported := pr_supported q @ [c]\<rparr>)))
           is_exception
           (\<lambda>e. retm (q\<lparr>pr_unsupported := dset cid (h_exc_text (si_host S) e) (pr_unsupported q)\<rparr>))))"

section \<open>Firmware profiles of the run\<close>

definition split_on :: "char \<Rightarrow> string \<Rightarrow> string list" where
  "split_on d s = foldr (\<lambda>c parts. if c = d then [] # parts else (c # hd parts) # tl parts) s [[]]"

definition firmware_cache_key :: "('w, 'g) site \<Rightarrow> string \<Rightarrow> string \<Rightarrow> row \<Rightarrow> ('w, string) io" where
  "firmware_cache_key S firmware_dir credentials_header build_options =
     bindm (liftm (json_text (PDict (sort_key fst build_options)))) (\<lambda>options.
     bindm (dk_rglob (si_disk S) firmware_dir) (\<lambda>items.
     bindm (mapm (\<lambda>item. bindm (h_is_file (si_host S) (path_join firmware_dir item)) (\<lambda>file.
        retm (if file \<and> ''__pycache__'' \<notin> set (split_on CHR ''/'' (path_join firmware_dir item)) then [item] else [])))
        items) (\<lambda>kept.
     bindm (mapm (\<lambda>item. bindm (h_read_bytes (si_host S) (path_join firmware_dir item)) (\<lambda>data.
        retm (encode_str item @ data))) (sort_key (split_on CHR ''/'') (concat kept))) (\<lambda>parts.
     bindm (h_read_bytes (si_host S) credentials_header) (\<lambda>header_bytes.
     retm (take 24 (sha256_hex (encode_str options @ concat parts @ header_bytes))))))))"

record firmware_plan =
  fp_generated_root :: string
  fp_chains :: "(string \<times> string) list"
  fp_client_dir :: "string option"
  fp_pqm4_dir :: "string option"

definition build_options :: "campaign_args \<Rightarrow> string list \<Rightarrow> row" where
  "build_options a roots = [(''board'', PStr (ca_board a)), (''ncs_version'', PStr (ca_ncs_version a)),
     (''mlkem_backend'', PStr (ca_mlkem_backend a)), (''profile_roots'', PList (map PStr (sort roots))),
     (''large_rsa'', PBool False), (''power_markers'', PBool (ra_power_profiler a)),
     (''ble_telemetry'', PBool (ra_power_profiler a)), (''mtls_mode'', PBool (ra_mtls_mode a)),
     (''transfer_mode'', PBool (ra_transfer_mode a))]"

definition profile_build_args :: "string \<Rightarrow> run \<Rightarrow> firmware_plan \<Rightarrow> string \<Rightarrow> string \<Rightarrow> build_args" where
  "profile_build_args bench rn fp directory generated = (let a = rn_args rn in
     \<lparr>ba_firmware_dir = path_join bench ''firmware'', ba_build_dir = directory, ba_generated_dir = generated,
      ba_log = path_join (rn_dir rn) ''build.log'', ba_nrfutil = ra_nrfutil a, ba_ncs_version = ca_ncs_version a,
      ba_ncs_chdir = ca_ncs_chdir a, ba_board = ca_board a, ba_mlkem_backend = ca_mlkem_backend a,
      ba_pqm4_dir = fp_pqm4_dir fp, ba_power_markers = ra_power_profiler a, ba_ble_telemetry = ra_power_profiler a,
      ba_mtls = ra_mtls_mode a, ba_certificate_gen = False, ba_kem_benchmark = False,
      ba_transfer_mode = ra_transfer_mode a\<rparr>)"

fun any_exists :: "'w host \<Rightarrow> string list \<Rightarrow> ('w, bool) io" where
  "any_exists H [] = retm False"
| "any_exists H (p # ps) = bindm (h_exists H p) (\<lambda>present. if present then retm True else any_exists H ps)"

definition build_profile ::
  "('w, 'g) site \<Rightarrow> run \<Rightarrow> firmware_plan \<Rightarrow> string \<Rightarrow> string list \<Rightarrow> ('w, string) io" where
  "build_profile S rn fp profile roots =
     (let H = si_host S; a = rn_args rn; bench = si_bench S;
          header = fp_generated_root fp @ ''/firmware-profiles/'' @ profile @ ''/benchmark_credentials.h'' in
      seqm (generate_universal_header H (fp_chains fp) header (Some roots) (fp_client_dir fp))
      (bindm (firmware_cache_key S (path_join bench ''firmware'') header (build_options a roots)) (\<lambda>key.
       let cache_root = WORK bench @ ''/firmware-cache/'' @ key; generated = path_join cache_root ''generated'';
           directory = path_join cache_root ''build'' in
       seqm (h_mkdir H generated)
       (seqm (dk_copy (si_disk S) header (path_join generated ''benchmark_credentials.h''))
       (bindm (any_exists H (map (path_join directory)
          [''zephyr/zephyr.hex'', ''firmware/zephyr/zephyr.hex'', ''merged.hex''])) (\<lambda>ready.
        if ca_skip_build a \<and> \<not> ready
        then raisem (RuntimeError (''--skip-build requested, but no matching cached firmware exists for profile '' @
          profile @ '' (cache key '' @ key @ '')''))
        else seqm (whenm (\<not> ca_skip_build a \<and> \<not> ready)
            (build_firmware H (profile_build_args bench rn fp directory generated)))
          (retm directory)))))))"

definition build_all ::
  "('w, 'g) site \<Rightarrow> run \<Rightarrow> firmware_plan \<Rightarrow> (string, string list) dict \<Rightarrow> ('w, (string, string) dict) io" where
  "build_all S rn fp profile_roots = mapm (\<lambda>(profile, roots).
     bindm (build_profile S rn fp profile roots) (\<lambda>dir. retm (profile, dir))) profile_roots"

definition try_universal ::
  "('w, 'g) site \<Rightarrow> run \<Rightarrow> firmware_plan \<Rightarrow> string list \<Rightarrow> ('w, string option \<times> int \<times> int) io" where
  "try_universal S rn fp all_roots =
     catchm (bindm (build_profile S rn fp ''universal'' all_roots) (\<lambda>dir.
        bindm (flash_usage (si_host S) dir) (\<lambda>(used, capacity). retm (Some dir, used, capacity))))
       (\<lambda>e. is_called_process_error e \<or> is_value_error e) (\<lambda>e. retm (None, 0, 0))"

definition split_profiles ::
  "('w, 'g) site \<Rightarrow> run \<Rightarrow> firmware_plan \<Rightarrow> (string, int) dict \<Rightarrow> ('w, (string, string list) dict) io" where
  "split_profiles S rn fp root_sizes =
     bindm (liftm (smallest_root root_sizes)) (\<lambda>(probe_root, probe_size).
     bindm (build_profile S rn fp ''profile-probe'' [probe_root]) (\<lambda>probe_dir.
     bindm (flash_usage (si_host S) probe_dir) (\<lambda>(probe_used, capacity).
     bindm (liftm (pack_root_profiles root_sizes (capacity - (probe_used - probe_size) - FLASH_MARGIN))) (\<lambda>packed.
     retm (number_profiles 1 packed)))))"

type_synonym profiles = "(string, string list) dict \<times> (string, string) dict"

definition choose_profiles ::
  "('w, 'g) site \<Rightarrow> run \<Rightarrow> firmware_plan \<Rightarrow> (string, int) dict \<Rightarrow> (string, string list) dict option \<Rightarrow> ('w, profiles) io" where
  "choose_profiles S rn fp root_sizes saved = (case saved of
       Some profile_roots \<Rightarrow> bindm (build_all S rn fp profile_roots) (\<lambda>dirs. retm (profile_roots, dirs))
     | None \<Rightarrow> let all_roots = map fst root_sizes in
         bindm (try_universal S rn fp all_roots) (\<lambda>(universal, used, capacity).
         case (if FLASH_MARGIN \<le> capacity - used then universal else None) of
           Some dir \<Rightarrow> retm ([(''universal'', all_roots)], [(''universal'', dir)])
         | None \<Rightarrow> bindm (split_profiles S rn fp root_sizes) (\<lambda>profile_roots.
             bindm (build_all S rn fp profile_roots) (\<lambda>dirs. retm (profile_roots, dirs)))))"

definition pv_strings :: "pyval \<Rightarrow> string list res" where
  "pv_strings v = bindr (pv_list v) (mapr pv_str)"

definition saved_profiles :: "'w host \<Rightarrow> run \<Rightarrow> ('w, (string, string list) dict option) io" where
  "saved_profiles H rn =
     (let path = path_join (rn_dir rn) ''run_config.json'' in
      bindm (if rn_resuming rn then h_exists H path else retm False) (\<lambda>present.
      if \<not> present then retm None
      else bindm (h_read H path) (\<lambda>text.
        bindm (liftm (bindr (json_loads text) json_dict)) (\<lambda>config.
        if \<not> pv_true (dget config ''firmware_profiles_planned'' (PBool False)) then retm None
        else case map_of config ''firmware_profiles'' of
            Some v \<Rightarrow> if \<not> pv_true v then retm None
              else liftm (bindr (json_dict v) (\<lambda>d. bindr (bindr (dindex d ''roots'') json_dict) (\<lambda>roots.
                bindr (mapr (\<lambda>(name, vs). bindr (pv_strings vs) (\<lambda>rs. Inr (name, rs))) roots) (\<lambda>ps. Inr (Some ps)))))
          | None \<Rightarrow> retm None))))"

definition save_profiles :: "'w host \<Rightarrow> run \<Rightarrow> (string, string list) dict \<Rightarrow> srow list \<Rightarrow> ('w, unit) io" where
  "save_profiles H rn profile_roots cases =
     (let path = path_join (rn_dir rn) ''run_config.json'' in
      bindm (h_read H path) (\<lambda>text.
      bindm (liftm (bindr (json_loads text) json_dict)) (\<lambda>config.
      bindm (liftm (profile_config profile_roots cases)) (\<lambda>profiles.
      write_json H path (dset ''firmware_profiles_planned'' (PBool True)
        (dset ''firmware_profiles'' (PDict profiles) config))))))"

section \<open>A scripted site\<close>

definition demo_console :: "script console" where
  "demo_console = \<lparr>cn_which = (\<lambda>_. retm None), cn_home = retm ''/home/u'', cn_expanduser = retm, cn_expandvars = retm,
     cn_timestamp = retm ''20250101'', cn_random = (\<lambda>lo hi. retm lo), cn_input = (\<lambda>_. retm ()),
     cn_serial_open = (\<lambda>device baud. retm ()), cn_serial_close = retm ()\<rparr>"

definition demo_disk :: "script disk" where
  "demo_disk = \<lparr>dk_copy = (\<lambda>p q. bindm (script_read p) (script_put q)), dk_link = (\<lambda>p q. bindm (script_read p) (script_put q)),
     dk_copytree = (\<lambda>_ _. retm ()), dk_rmtree = (\<lambda>_. retm ()), dk_iterdir = (\<lambda>_. retm []), dk_rglob = (\<lambda>_. retm []),
     dk_glob = (\<lambda>_ _. retm []), dk_resolve = retm, dk_user = retm ''0:0''\<rparr>"

definition demo_site :: "(script, nat) site" where
  "demo_site = \<lparr>si_host = script_host, si_disk = demo_disk, si_console = demo_console, si_rng = demo_rng,
     si_bench = ''/bench'', si_pid = 1, si_fuel = 9\<rparr>"

end
