(* ===== verification/Campaign.thy ===== *)
theory Campaign
  imports Campaign_Setup Power_Profiler
begin

text \<open>
  A campaign from the prepared certificates to the summaries: \<open>main\<close> of
  \<open>run_benchmarks.py\<close>.  The computer keeps the tables of attempts and transmissions while
  the jobs run (\<open>floor\<close>), stores them and a checkpoint after every job, and turns an interrupt
  into partial results.  The files of a run are read back by a later one; that this resumes at
  the next job, and that no row is lost, is proved at the end.
\<close>

section \<open>The meter and the floor\<close>

text \<open>The session with the current profiler, as the campaign uses it.\<close>

record 'w meter =
  mt_open :: "('w, unit) io"
  mt_power_on :: "('w, unit) io"
  mt_probe :: "('w, rat \<times> rat) io"
  mt_close :: "('w, unit) io"
  mt_profiler :: "'w profiler"

definition session_meter ::
  "'w host \<Rightarrow> 'w ppk \<Rightarrow> campaign_args \<Rightarrow> nat \<Rightarrow> ('w, reading list) io \<Rightarrow> 'w bench meter" where
  "session_meter H D a fuel thread = \<lparr>
     mt_open = open_session H D (ca_power_device a) (ca_vdd_mv a),
     mt_power_on = power_on H D (1 / 2),
     mt_probe = probe_current H D fuel,
     mt_close = close_session D,
     mt_profiler = session_profiler H D (ca_power_device a) (ca_vdd_mv a) (ca_rate a) (ra_transfer_mode a) thread\<rparr>"

text \<open>
  What changes while the jobs run; \<open>fl_serial\<close> is the serial port: absent, or whether it is open.
\<close>

record 'w floor =
  fl_station :: "'w station"
  fl_attempts :: "(string, row list) dict"
  fl_transmissions :: "(string, row list) dict"
  fl_profile :: string
  fl_serial :: "bool option"

definition stationm :: "('w station, 'a) io \<Rightarrow> ('w floor, 'a) io" where
  "stationm = zoom fl_station (\<lambda>w s. s\<lparr>fl_station := w\<rparr>)"

definition worldm :: "('w, 'a) io \<Rightarrow> ('w floor, 'a) io" where
  "worldm m = stationm (hostm m)"

text \<open>What stays the same.\<close>

record 'w plant =
  pt_run :: run
  pt_gateway :: gateway
  pt_cases :: "(string, srow) dict"
  pt_dirs :: "(string, string) dict"
  pt_prepared :: prepared
  pt_remote :: "(string, string) dict"
  pt_builds :: "(string, string) dict"
  pt_meter :: "'w meter option"

definition run_file :: "'w plant \<Rightarrow> string \<Rightarrow> string" where
  "run_file P name = path_join (rn_dir (pt_run P)) name"

definition plant_args :: "'w plant \<Rightarrow> campaign_args" where
  "plant_args P = rn_args (pt_run P)"

section \<open>The board\<close>

definition open_serial :: "('w, 'g) site \<Rightarrow> 'w plant \<Rightarrow> ('w floor, unit) io" where
  "open_serial S P = (let a = plant_args P; H = si_host S in
     seqm (worldm (cn_serial_open (si_console S) (ca_serial_device a) (ca_serial_baud a)))
     (seqm (modifym (\<lambda>fl. fl\<lparr>fl_serial := Some True\<rparr>))
     (seqm (worldm (h_reset_input H))
      (worldm (wait_for_board_ready H (si_fuel S) (run_file P ''board.log'') (ra_board_ready_timeout a))))))"

definition close_serial :: "('w, 'g) site \<Rightarrow> ('w floor, unit) io" where
  "close_serial S = bindm (getm fl_serial) (\<lambda>port.
     if port = Some True
     then seqm (worldm (cn_serial_close (si_console S))) (modifym (\<lambda>fl. fl\<lparr>fl_serial := Some False\<rparr>))
     else retm ())"

definition switch_profile :: "('w, 'g) site \<Rightarrow> 'w plant \<Rightarrow> string \<Rightarrow> ('w floor, unit) io" where
  "switch_profile S P required = bindm (getm fl_profile) (\<lambda>active.
     if required = active then retm ()
     else let a = plant_args P; H = si_host S in
       seqm (stationm (stop_session H (pt_gateway P) (run_file P ''gateway.log'') False))
       (seqm (close_serial S)
       (bindm (liftm (dindex (pt_builds P) required)) (\<lambda>build_dir.
        seqm (worldm (flash_firmware H build_dir (run_file P ''flash.log'') (ra_nrfutil a)
          (ca_ncs_version a) (ca_ncs_chdir a)))
        (if ra_power_profiler a then raisem (OutsideModel ''unbound local serial'')
         else seqm (open_serial S P) (modifym (\<lambda>fl. fl\<lparr>fl_profile := required\<rparr>)))))))"

section \<open>One job\<close>

definition unsupported_row ::
  "'w host \<Rightarrow> run_args \<Rightarrow> job \<Rightarrow> srow \<Rightarrow> string \<Rightarrow> string \<Rightarrow> int \<Rightarrow> ('w, row) io" where
  "unsupported_row H args j cs case_dir reason attempt_index =
     bindm (liftm (case_metadata cs)) (\<lambda>metadata.
     let r = dict_of ([(''attempt_index'', PInt attempt_index), (''schedule_index'', PInt (job_sequence j)),
       (''session'', PInt (job_session j)), (''attempt_in_session'', PInt (job_attempt_in_session j)),
       (''warmup'', PInt (job_warmup j)), (''status'', PStr ''unsupported''), (''reconnect_count'', PInt 0),
       (''mtls_mode'', PInt (if ra_mtls_mode args then 1 else 0))] @
       text_row metadata @ [(''message'', PStr reason)]) in
     case j of Session _ \<Rightarrow> retm r
     | Round rd \<Rightarrow> bindm (transfer_rows_for_round H rd [] (path_join case_dir ''broker.log'')
           attempt_index 0 ''unsupported'' None) (\<lambda>rows.
         retm (dupdate r (transmissions_cell j (map (mark_round 0 False) rows)))))"

definition job_rig :: "('w, 'g) site \<Rightarrow> 'w plant \<Rightarrow> bool \<Rightarrow> 'w rig" where
  "job_rig S P port = \<lparr>rig_host = si_host S, rig_gateway = pt_gateway P,
     rig_profiler = map_option mt_profiler (pt_meter P), rig_serial = port, rig_fuel = si_fuel S\<rparr>"

definition next_index :: "string \<Rightarrow> 'w floor \<Rightarrow> int" where
  "next_index cid fl = int (length (dget (fl_attempts fl) cid [])) + 1"

definition produce_row :: "('w, 'g) site \<Rightarrow> 'w plant \<Rightarrow> job \<Rightarrow> srow \<Rightarrow> ('w floor, row) io" where
  "produce_row S P j cs = (let cid = job_case_id j; a = run_args.truncate (plant_args P); prep = pt_prepared P in
     bindm (getm (next_index cid)) (\<lambda>index.
     bindm (liftm (dindex (pt_dirs P) cid)) (\<lambda>dir.
     case map_of (pr_unsupported prep) cid of
       Some reason \<Rightarrow> worldm (unsupported_row (si_host S) a j cs dir reason index)
     | None \<Rightarrow> bindm (liftm (dindex (pt_remote P) cid)) (\<lambda>remote.
         bindm (liftm (dindex (pr_backends prep) cid)) (\<lambda>backend.
         bindm (getm fl_serial) (\<lambda>port.
         stationm (run_job (job_rig S P (port \<noteq> None)) a j cs dir remote backend index)))))))"

definition label_row :: "campaign_args \<Rightarrow> string \<Rightarrow> row \<Rightarrow> row" where
  "label_row a profile r = dset ''firmware_profile'' (PStr profile)
     (dset ''rsa_profile'' (PStr ''fast-math'') (dset ''mlkem_backend'' (PStr (ca_mlkem_backend a)) r))"

definition without_transmissions :: "row \<Rightarrow> row" where
  "without_transmissions r = filter (\<lambda>kv. fst kv \<noteq> ''_transmissions'') r"

definition transmissions_of :: "row \<Rightarrow> row list res" where
  "transmissions_of r = bindr (pv_list (dget r ''_transmissions'' (PList []))) (mapr json_dict)"

definition dextend :: "'k \<Rightarrow> 'v list \<Rightarrow> ('k, 'v list) dict \<Rightarrow> ('k, 'v list) dict" where
  "dextend k vs d = dset k (dget d k [] @ vs) d"

definition store_checkpoint :: "'w host \<Rightarrow> string \<Rightarrow> int \<Rightarrow> int \<Rightarrow> job \<Rightarrow> string \<Rightarrow> ('w, unit) io" where
  "store_checkpoint H run_dir execution_order total_jobs j profile =
     (let path = path_join run_dir ''checkpoint.json''; temporary = path @ ''.tmp'' in
      bindm (h_now H) (\<lambda>now.
      seqm (write_json H temporary (write_checkpoint execution_order total_jobs (job_case_id j)
        (job_session j) (job_attempt_in_session j) profile now))
      (h_rename H temporary path)))"

text \<open>The row joins the tables, the files of the case are written anew, then the checkpoint.\<close>

definition save_attempts :: "('w, 'g) site \<Rightarrow> 'w plant \<Rightarrow> string \<Rightarrow> string \<Rightarrow> ('w floor, unit) io" where
  "save_attempts S P cid name = bindm (liftm (dindex (pt_dirs P) cid)) (\<lambda>dir.
     bindm (getm fl_attempts) (\<lambda>attempts.
     worldm (save_csv (si_host S) (path_join dir name) ATTEMPT_FIELDS (dget attempts cid []))))"

definition save_transmissions :: "('w, 'g) site \<Rightarrow> 'w plant \<Rightarrow> string \<Rightarrow> ('w floor, unit) io" where
  "save_transmissions S P cid = bindm (liftm (dindex (pt_dirs P) cid)) (\<lambda>dir.
     bindm (getm fl_transmissions) (\<lambda>transmissions.
     worldm (save_csv (si_host S) (path_join dir ''transmissions.csv'') TRANSFER_FIELDS
       (dget transmissions cid []))))"

definition record_row ::
  "('w, 'g) site \<Rightarrow> 'w plant \<Rightarrow> int \<Rightarrow> job \<Rightarrow> string \<Rightarrow> row \<Rightarrow> ('w floor, unit) io" where
  "record_row S P order j profile r = (let cid = job_case_id j; a = plant_args P in
     bindm (liftm (transmissions_of r)) (\<lambda>rows.
     seqm (modifym (\<lambda>fl. fl\<lparr>fl_attempts := dappend cid (without_transmissions r) (fl_attempts fl)\<rparr>))
     (seqm (save_attempts S P cid ''attempts.csv'')
     (seqm (if ra_transfer_mode a
        then seqm (modifym (\<lambda>fl. fl\<lparr>fl_transmissions := dextend cid rows (fl_transmissions fl)\<rparr>))
          (seqm (save_attempts S P cid ''handshakes.csv'') (save_transmissions S P cid))
        else retm ())
      (worldm (store_checkpoint (si_host S) (rn_dir (pt_run P)) order
        (int (length (rn_jobs (pt_run P)))) j profile))))))"

definition run_scheduled :: "('w, 'g) site \<Rightarrow> 'w plant \<Rightarrow> int \<times> job \<Rightarrow> ('w floor, unit) io" where
  "run_scheduled S P oj = (case oj of (order, j) \<Rightarrow>
     bindm (liftm (dindex (pt_cases P) (job_case_id j))) (\<lambda>cs.
     bindm (liftm (dindex cs ''firmware_profile'')) (\<lambda>required.
     seqm (switch_profile S P required)
     (bindm (produce_row S P j cs) (\<lambda>r.
      record_row S P order j required (label_row (plant_args P) required r))))))"

section \<open>All jobs\<close>

definition floor_body :: "('w, 'g) site \<Rightarrow> 'w plant \<Rightarrow> (int \<times> job) list \<Rightarrow> ('w floor, unit) io" where
  "floor_body S P scheduled =
     seqm (if ra_power_profiler (plant_args P) then retm () else open_serial S P)
       (finallym (eachm (run_scheduled S P) scheduled) (close_serial S))"

definition cleanup :: "('w, 'g) site \<Rightarrow> 'w plant \<Rightarrow> ('w floor, unit) io" where
  "cleanup S P = (let H = si_host S; g = pt_gateway P; logf = run_file P ''gateway.log'' in
     seqm (stationm (stop_session H g logf False))
     (seqm (whenm (ca_disable_wifi (plant_args P)) (worldm (set_wifi_enabled H g True logf)))
      (case pt_meter P of None \<Rightarrow> retm () | Some m \<Rightarrow> worldm (mt_close m))))"

text \<open>Whether the jobs were interrupted.\<close>

definition run_floor :: "('w, 'g) site \<Rightarrow> 'w plant \<Rightarrow> (int \<times> job) list \<Rightarrow> ('w floor, bool) io" where
  "run_floor S P scheduled =
     finallym (catchm (seqm (floor_body S P scheduled) (retm False)) is_interrupt (\<lambda>_. retm True))
       (cleanup S P)"

definition on_floor ::
  "('w floor, 'a) io \<Rightarrow> string \<Rightarrow> (string, row list) dict \<Rightarrow> (string, row list) dict \<Rightarrow> ('w, 'a \<times> 'w floor) io" where
  "on_floor m profile attempts transmissions w =
     (case m \<lparr>fl_station = \<lparr>st_world = w, st_ble_addr = [], st_observations = []\<rparr>, fl_attempts = attempts,
        fl_transmissions = transmissions, fl_profile = profile, fl_serial = None\<rparr> of
       (Inl e, fl) \<Rightarrow> (Inl e, st_world (fl_station fl))
     | (Inr x, fl) \<Rightarrow> (Inr (x, fl), st_world (fl_station fl)))"

definition case_summary :: "campaign_args \<Rightarrow> (string, row list) dict \<Rightarrow> srow \<Rightarrow> row res" where
  "case_summary a attempts c = bindr (case_id_of c) (\<lambda>cid. bindr (summarize c (dget attempts cid [])) (\<lambda>r.
     Inr (dset ''rsa_profile'' (PStr ''fast-math'') (dset ''mlkem_backend'' (PStr (ca_mlkem_backend a)) r))))"

definition write_summaries ::
  "'w host \<Rightarrow> run \<Rightarrow> (string, row list) dict \<Rightarrow> (string, row list) dict \<Rightarrow> ('w, unit) io" where
  "write_summaries H rn attempts transmissions =
     (let a = rn_args rn; file = path_join (rn_dir rn) in
      bindm (liftm (mapr (case_summary a attempts) (rn_cases rn))) (\<lambda>summaries.
      seqm (save_csv H (file ''summary.csv'') SUMMARY_FIELDS summaries)
      (whenm (ra_transfer_mode a)
        (seqm (save_csv H (file ''handshake_summary.csv'') SUMMARY_FIELDS summaries)
         (bindm (liftm (summarize_transfers (concat (map snd transmissions)))) (\<lambda>rows.
          save_csv H (file ''transfer_summary.csv'') TRANSFER_SUMMARY_FIELDS rows))))))"

section \<open>Before the jobs\<close>

definition first_seen :: "'a list \<Rightarrow> 'a list" where
  "first_seen xs = rev (remdups (rev xs))"

definition prepare_run ::
  "('w, 'g) site \<Rightarrow> run \<Rightarrow> (string, string) dict \<Rightarrow> ('w, prepared \<times> firmware_plan \<times> (string, int) dict) io" where
  "prepare_run S rn dirs =
     (let H = si_host S; D = si_disk S; bench = si_bench S; a = rn_args rn;
          docker_log = path_join (rn_dir rn) ''docker.log'';
          generated_root = WORK bench @ ''/generated/'' @ rn_id rn;
          client_dir = (if ra_mtls_mode a then Some (path_join generated_root ''client-identity'') else None) in
      seqm (ensure_image H (bench @ ''/docker/Dockerfile.pqc'') docker_log)
      (seqm (case client_dir of None \<Rightarrow> retm () | Some d \<Rightarrow> generate_client_identity H D d docker_log)
      (bindm (liftm (mapr (\<lambda>c. dindex c ''pki_chain_id'') (rn_cases rn))) (\<lambda>ids.
       bindm (mapm (prepare_chain S rn generated_root client_dir) (first_seen ids)) (\<lambda>templates.
       bindm (foldm (prepare_case S (ca_server_backend a) dirs templates)
         \<lparr>pr_supported = [], pr_unsupported = [], pr_backends = []\<rparr> (rn_cases rn)) (\<lambda>prep.
       if pr_supported prep = []
       then raisem (RuntimeError ''none of the selected cases passed certificate preparation'')
       else bindm (mapm (\<lambda>(cid, template). bindm (liftm (dindex PKI_CHAINS_BY_ID cid)) (\<lambda>ch.
           bindm (h_size H (path_join template ''server_root.der'')) (\<lambda>sz. retm (chain_root ch, sz)))) templates) (\<lambda>sizes.
         bindm (if startswith (ca_mlkem_backend a) ''pqm4-''
                then seqm (ensure_pqm4 H (path_join (WORK bench) ''pqm4'') (path_join (rn_dir rn) ''build.log''))
                  (retm (Some (path_join (WORK bench) ''pqm4'')))
                else retm None) (\<lambda>pqm4_dir.
         retm (prep, \<lparr>fp_generated_root = generated_root, fp_chains = templates, fp_client_dir = client_dir,
           fp_pqm4_dir = pqm4_dir\<rparr>, dict_of sizes)))))))))"

definition replan :: "('w, 'g) site \<Rightarrow> run \<Rightarrow> (string, string list) dict \<Rightarrow> ('w, run) io" where
  "replan S rn profile_roots =
     (let H = si_host S; fresh = (\<not> rn_resuming rn \<or> rn_last rn = 0) in
      bindm (liftm (mapr (assign_profile profile_roots) (rn_cases rn))) (\<lambda>cases.
      if 1 < length profile_roots \<and> ca_skip_flash (rn_args rn)
      then raisem (ValueError ''--skip-flash is unsafe when the trust bundle needs multiple profiles'')
      else bindm (liftm (case_by_id cases)) (\<lambda>by_id.
        bindm (if fresh then liftm (group_jobs_by_firmware_profile (si_rng S) job_case_id (rn_jobs rn) by_id (rn_seed rn))
               else retm (rn_jobs rn)) (\<lambda>jobs.
        let rn' = rn\<lparr>rn_cases := cases, rn_jobs := jobs\<rparr> in
        seqm (whenm fresh (write_manifests H rn' (\<lambda>cid. dget (dget by_id cid []) ''firmware_profile'' []) jobs))
        (seqm (save_profiles H rn' profile_roots cases) (retm rn'))))))"

definition check_power :: "campaign_args \<Rightarrow> (string, string) dict \<Rightarrow> unit res" where
  "check_power a builds = (if \<not> ra_power_profiler a then Inr ()
     else bindr (guardr (startswith (ca_board a) ''nrf52840dk/'')
       (ValueError ''--power-profiler Source Mode is supported only with nrf52840dk/nrf52840'')) (\<lambda>_.
     guardr (length builds = 1)
       (RuntimeError (''PPK2 Source Mode requires one firmware profile because the DK '' @
         ''target is isolated by SW6 during capture''))))"

definition leakage_message :: "rat \<Rightarrow> rat \<Rightarrow> string" where
  "leakage_message mean peak = ''PPK2 Source Mode sees only leakage current after enabling DUT power '' @
     ''(mean='' @ fmt_fixed 2 mean @ '' uA, peak='' @ fmt_fixed 2 peak @ '' uA). '' @
     ''Connect PPK2 VOUT to P21, set SW10 to VEXT -> nRF, and share GND.''"

definition start_power :: "('w, 'g) site \<Rightarrow> 'w meter \<Rightarrow> ('w, unit) io" where
  "start_power S M =
     seqm (cn_input (si_console S) ''[power] Press Enter when the wiring and switches are ready...'')
     (seqm (mt_open M)
     (seqm (cn_input (si_console S) (''[power] Source Mode is ready and the nRF52840 is still unpowered. '' @
         ''Press Enter to enable DUT power...''))
     (seqm (mt_power_on M)
     (bindm (mt_probe M) (\<lambda>(mean, peak).
      if peak < 100 then raisem (RuntimeError (leakage_message mean peak)) else retm ())))))"

definition wolfssl_archive :: "'w disk \<Rightarrow> string \<Rightarrow> ('w, string option) io" where
  "wolfssl_archive D build_dir =
     bindm (dk_glob D (build_dir @ ''/_deps/wolfssl_upstream-subbuild'')
       ''**/dd6da70d395a0cb26446326f329678fe3bfb212c.tar.gz'') (\<lambda>archives.
     retm (case archives of [] \<Rightarrow> None | x # xs \<Rightarrow> Some x))"

definition deploy_supported :: "'w host \<Rightarrow> gateway \<Rightarrow> (string, string) dict \<Rightarrow> srow list \<Rightarrow> ('w, (string, string) dict) io" where
  "deploy_supported H g dirs supported = bindm (mapm (\<lambda>c.
     bindm (liftm (case_id_of c)) (\<lambda>cid. bindm (liftm (dindex dirs cid)) (\<lambda>dir.
     bindm (deploy_case H g cid (path_join dir ''generated'') (path_join dir ''gateway-control.log'')) (\<lambda>remote.
     retm (cid, remote))))) supported) (\<lambda>kvs. retm (dict_of kvs))"

definition start_gateway ::
  "('w, 'g) site \<Rightarrow> run \<Rightarrow> gateway \<Rightarrow> string \<Rightarrow> (string, string) dict \<Rightarrow> srow list \<Rightarrow> ('w, (string, string) dict) io" where
  "start_gateway S rn g build_dir dirs supported =
     (let H = si_host S; logf = path_join (rn_dir rn) ''gateway.log''; bench = si_bench S in
      seqm (start_master H g logf 6 5)
      (bindm (wolfssl_archive (si_disk S) build_dir) (\<lambda>archive.
       seqm (prepare_pi H g (bench @ ''/gateway/ble_mqtt_bridge.c'') (bench @ ''/gateway/wolfssl_tls_server.c'')
         logf archive)
       (bindm (deploy_supported H g dirs supported) (\<lambda>remote.
        seqm (whenm (ca_disable_wifi (rn_args rn)) (set_wifi_enabled H g False logf)) (retm remote))))))"

text \<open>
  A campaign: \<open>attempts\<close> and \<open>transmissions\<close> are the tables a resumed run has read.  The result
  is the exit status.
\<close>

definition campaign ::
  "('w, 'g) site \<Rightarrow> 'w meter \<Rightarrow> run \<Rightarrow> (string, string) dict \<Rightarrow> (string, row list) dict \<Rightarrow>
   (string, row list) dict \<Rightarrow> ('w, int) io" where
  "campaign S M rn0 dirs attempts transmissions =
     (let H = si_host S; a = rn_args rn0;
          g = \<lparr>gw_host = ca_pi_host a, gw_workdir = ca_pi_workdir a, gw_ssh_key = ca_ssh_key a, gw_pid = si_pid S\<rparr> in
      bindm (prepare_run S rn0 dirs) (\<lambda>(prep, fp, root_sizes).
      bindm (saved_profiles H rn0) (\<lambda>saved.
      bindm (choose_profiles S rn0 fp root_sizes saved) (\<lambda>(profile_roots, builds).
      bindm (replan S rn0 profile_roots) (\<lambda>rn.
      seqm (liftm (check_power a builds))
      (bindm (liftm (case_by_id (rn_cases rn))) (\<lambda>by_id.
       let scheduled = scheduled_jobs (rn_last rn) (rn_jobs rn) in
       bindm (liftm (case scheduled of [] \<Rightarrow> Inl IndexError
         | (_, j) # _ \<Rightarrow> job_profile job_case_id by_id j)) (\<lambda>first_profile.
       bindm (liftm (dindex builds first_profile)) (\<lambda>build_dir.
       seqm (whenm (\<not> ca_skip_flash a) (flash_firmware H build_dir (path_join (rn_dir rn) ''flash.log'')
         (ra_nrfutil a) (ca_ncs_version a) (ca_ncs_chdir a)))
       (seqm (whenm (ra_power_profiler a) (start_power S M))
       (bindm (start_gateway S rn g build_dir dirs (pr_supported prep)) (\<lambda>remote.
        let P = \<lparr>pt_run = rn, pt_gateway = g, pt_cases = by_id, pt_dirs = dirs, pt_prepared = prep,
          pt_remote = remote, pt_builds = builds,
          pt_meter = (if ra_power_profiler a then Some M else None)\<rparr> in
        bindm (on_floor (run_floor S P scheduled) first_profile attempts transmissions) (\<lambda>(interrupted, fl).
        seqm (write_summaries H rn (fl_attempts fl) (fl_transmissions fl))
        (retm (if interrupted then 130 else 0)))))))))))))))"

section \<open>The program\<close>

text \<open>
  The arguments: the file of the option \<open>--config\<close>, and what the other options of the command line
  make of the defaults, are parameters.
\<close>

definition DEFAULT_CONFIG :: "string \<Rightarrow> string" where
  "DEFAULT_CONFIG bench = path_join bench ''config.json''"

definition parse_args ::
  "('w, 'g) site \<Rightarrow> string option \<Rightarrow> (campaign_args \<Rightarrow> campaign_args) \<Rightarrow> ('w, campaign_args) io" where
  "parse_args S config_path options = (let H = si_host S in
     bindm (load_config H (case config_path of None \<Rightarrow> DEFAULT_CONFIG (si_bench S) | Some p \<Rightarrow> p)) (\<lambda>config.
     bindm (default_nrfutil H (si_console S)) (\<lambda>nrfutil.
     bindm (default_ncs_chdir H DEFAULT_NCS_VERSION) (\<lambda>ncs_chdir.
     bindm (liftm (default_args config nrfutil ncs_chdir)) (\<lambda>a. finish_args S (options a))))))"

definition load_tables ::
  "'w host \<Rightarrow> run \<Rightarrow> (string, string) dict \<Rightarrow> ('w, (string, row list) dict \<times> (string, row list) dict) io" where
  "load_tables H rn dirs =
     bindm (if rn_resuming rn
            then bindm (load_case_files H dirs ''attempts.csv'') (\<lambda>fs. liftm (load_attempts fs))
            else retm []) (\<lambda>attempts.
     bindm (if rn_resuming rn \<and> ra_transfer_mode (rn_args rn)
            then bindm (load_case_files H dirs ''transmissions.csv'') (\<lambda>fs. liftm (load_transmissions fs))
            else retm []) (\<lambda>transmissions.
     retm (stored_rows attempts, stored_rows transmissions)))"

definition main ::
  "('w, 'g) site \<Rightarrow> 'w meter \<Rightarrow> string option \<Rightarrow> (campaign_args \<Rightarrow> campaign_args) \<Rightarrow> ('w, int) io" where
  "main S M config_path options = (let H = si_host S in
     bindm (parse_args S config_path options) (\<lambda>a0.
     bindm (liftm (resolve_pi_workdir (ca_pi_host a0) (ca_pi_workdir a0))) (\<lambda>workdir.
     let a = a0\<lparr>ca_pi_workdir := workdir\<rparr> in
     seqm (liftm (check_args a))
     (seqm (check_devices S a)
     (bindm (open_run S a) (\<lambda>rn.
      bindm (liftm (case_dirs (rn_dir rn) (rn_cases rn))) (\<lambda>dirs.
      seqm (eachm (\<lambda>d. h_mkdir H (path_join (snd d) ''generated'')) dirs)
      (bindm (load_tables H rn dirs) (\<lambda>(attempts, transmissions).
       if ca_dry_run (rn_args rn) then dry_run H rn
       else if scheduled_jobs (rn_last rn) (rn_jobs rn) = [] then retm 0
       else campaign S M rn dirs attempts transmissions)))))))))"

text \<open>
  \<open>run_transfer_benchmarks.py\<close>: two options before those of the caller, which can still override the
  second.
\<close>

definition transfer_main ::
  "('w, 'g) site \<Rightarrow> 'w meter \<Rightarrow> string option \<Rightarrow> (campaign_args \<Rightarrow> campaign_args) \<Rightarrow> ('w, int) io" where
  "transfer_main S M config_path options = main S M config_path (\<lambda>a. options (a\<lparr>ra_transfer_mode := True, ra_mtu := 5120\<rparr>))"

section \<open>Rows and jobs\<close>

lemma mapr_Inr_all:
  "mapr f xs = Inr ys \<Longrightarrow> (\<And>x y. x \<in> set xs \<Longrightarrow> f x = Inr y \<Longrightarrow> Q y) \<Longrightarrow> \<forall>y\<in>set ys. Q y"
  by (induction xs arbitrary: ys) (fastforce simp: bindr_eq_Inr)+

lemma window_name_set: "set (map fst WINDOW_ACTIVE) = set POWER_WINDOWS"
  by code_simp

lemma window_cells_modest:
  assumes "window_cells c (name, w) = Inr r" "name \<in> set POWER_WINDOWS"
  shows "free_of job_keys r"
proof -
  have "free_of job_keys (map (\<lambda>metric. (name @ metric, ())) [''_duration_ms'', ''_charge_uc'', ''_energy_uj'',
      ''_avg_current_ua'', ''_peak_current_ua''])"
    using assms(2) by (auto simp: POWER_WINDOWS_def job_keys_def)
  then show ?thesis using assms(1) by (auto simp: window_cells_def bindr_eq_Inr)
qed

lemma selected_names:
  assumes "selected_windows c whole = Inr sel" "nw \<in> set sel"
  shows "fst nw \<in> set POWER_WINDOWS"
proof -
  obtain parts where parts: "mapr (select_window c whole) (map fst WINDOW_ACTIVE) = Inr parts"
    and sel: "sel = (''total_execution'', whole) # concat parts"
    using assms(1) by (auto simp: selected_windows_def bindr_eq_Inr)
  have "\<forall>p\<in>set parts. \<forall>nw\<in>set p. fst nw \<in> set (map fst WINDOW_ACTIVE)"
    by (rule mapr_Inr_all [OF parts]) (force simp: select_window_def bindr_eq_Inr Let_def split: if_splits)
  then have "fst nw \<in> set POWER_WINDOWS \<or> fst nw = ''total_execution''"
    using assms(2) unfolding sel window_name_set by auto
  then show ?thesis by (auto simp: POWER_WINDOWS_def)
qed

lemma free_of_map: "free_of K d \<longleftrightarrow> (\<forall>k\<in>K. map_of d k = None)"
  by (auto simp: free_of_def map_of_eq_None_iff)

lemma free_dupdate: "free_of K d \<Longrightarrow> free_of K e \<Longrightarrow> free_of K (dupdate d e)"
  unfolding free_of_map map_of_dupdate
  by (auto simp: map_of_eq_None_iff split: option.splits dest!: map_of_SomeD)

lemma free_concat: "free_of K (concat rs) \<longleftrightarrow> (\<forall>r\<in>set rs. free_of K r)"
  by (induction rs) simp_all

lemma empty_result_modest: "free_of job_keys (empty_result c status message)"
  by (simp add: empty_result_def job_keys_def)

lemma free_dset: "free_of K d \<Longrightarrow> k \<notin> K \<Longrightarrow> free_of K (dset k v d)"
  using free_dupdate [of K d "[(k, v)]"] by (simp add: dupdate_def)

lemma measurements_modest:
  assumes "measurements c = Inr r"
  shows "free_of job_keys r"
proof (cases "completed_of c ''total_execution'' = []")
  case True
  then show ?thesis using assms by (auto simp: measurements_def empty_result_modest)
next
  case False
  then obtain whole sel cells status where sel: "selected_windows c whole = Inr sel"
    and cells: "mapr (window_cells c) sel = Inr cells"
    and r: "r = dupdate (empty_result c status []) (concat cells) \<or>
      (\<exists>ws. r = dset ''transfer_power_windows'' (PList ws) (dupdate (empty_result c status []) (concat cells)))"
    using assms by (cases "total_window c (completed_of c ''total_execution'')";
      auto simp: measurements_def bindr_eq_Inr Let_def split: if_split_asm; blast)
  have "\<forall>x\<in>set cells. free_of job_keys x"
    by (rule mapr_Inr_all [OF cells]) (metis window_cells_modest selected_names [OF sel] prod.collapse)
  then have "free_of job_keys (dupdate (empty_result c status []) (concat cells))"
    by (intro free_dupdate empty_result_modest) (simp add: free_concat)
  moreover have "''transfer_power_windows'' \<notin> job_keys" by (simp add: job_keys_def)
  ultimately show ?thesis using r by (auto intro: free_dset)
qed

lemma benchm_ok: "benchm m s = (r, t) \<longleftrightarrow> (\<exists>w. m (bn_world s) = (r, w) \<and> t = s\<lparr>bn_world := w\<rparr>)"
  by (auto simp: benchm_def zoom_def split: prod.splits)

lemma session_profiler_modest:
  "modest (Some (session_profiler H D device vdd_mv rate transfer_mode thread))"
  by (auto simp: modest_def session_profiler_def stop_capture_def empty_result_modest benchm_ok Let_def
      dest!: measurements_modest split: option.splits elim!: bindm_okE seqm_okE)

lemma unsupported_row_job:
  assumes "unsupported_row H args j cs case_dir reason index w = (Inr r, w')"
  shows "row_of_job index j r"
proof -
  let ?head = "[(''attempt_index'', PInt index), (''schedule_index'', PInt (job_sequence j)),
       (''session'', PInt (job_session j)), (''attempt_in_session'', PInt (job_attempt_in_session j)),
       (''warmup'', PInt (job_warmup j)), (''status'', PStr ''unsupported''), (''reconnect_count'', PInt 0),
       (''mtls_mode'', PInt (if ra_mtls_mode args then 1 else 0))]"
  obtain metadata where metadata: "case_metadata cs = Inr metadata"
    using assms unfolding unsupported_row_def by (elim bindm_okE) simp
  let ?rest = "text_row metadata @ [(''message'', PStr reason)]"
  obtain rows where r: "r = dict_of (?head @ ?rest) \<or> r = dupdate (dict_of (?head @ ?rest)) (transmissions_cell j rows)"
    using assms by (cases j; auto simp: unsupported_row_def metadata Let_def elim!: bindm_okE; blast)
  have "free_of job_keys ?rest"
    using metadata_own [OF metadata] by (simp add: free_of_own text_row_def job_keys_def)
  note cells = dict_of_head [OF this, of _ ?head]
  have base: "row_of_job index j (dict_of (?head @ ?rest))"
    unfolding row_of_job_def by (intro conjI) (subst cells; simp add: job_keys_def)+
  have cell: "map_of (dupdate d (transmissions_cell j rows)) k = map_of d k" if "k \<in> job_keys" for d k
    using that by (auto simp: map_of_dupdate transmissions_cell_def job_keys_def)
  from r show ?thesis
    by (elim disjE) (use base row_of_job_cong [OF base cell] in blast)+
qed

lemma stationm_ok: "stationm m fl = (r, fl') \<longleftrightarrow> (\<exists>t. m (fl_station fl) = (r, t) \<and> fl' = fl\<lparr>fl_station := t\<rparr>)"
  by (auto simp: stationm_def zoom_def split: prod.splits)

lemma worldm_ok:
  "worldm m fl = (r, fl') \<longleftrightarrow> (\<exists>w. m (st_world (fl_station fl)) = (r, w) \<and>
     fl' = fl\<lparr>fl_station := (fl_station fl)\<lparr>st_world := w\<rparr>\<rparr>)"
  by (auto simp: worldm_def stationm_ok hostm_ok)

text \<open>The computations that leave the tables of attempts alone.\<close>

abbreviation same_attempts :: "(string, row list) dict \<Rightarrow> 'w floor \<Rightarrow> bool" where
  "same_attempts A \<equiv> \<lambda>fl. fl_attempts fl = A"

lemma same_attempts_basic [keeps_intros]:
  "keeps (same_attempts A) (stationm m)" "keeps (same_attempts A) (worldm n)"
  "keeps (same_attempts A) (modifym (\<lambda>fl. fl\<lparr>fl_serial := p\<rparr>))"
  "keeps (same_attempts A) (modifym (\<lambda>fl. fl\<lparr>fl_profile := q\<rparr>))"
  "keeps (same_attempts A) (modifym (\<lambda>fl. fl\<lparr>fl_transmissions := f (fl_transmissions fl)\<rparr>))"
  by (auto simp: keeps_def worldm_def stationm_def zoom_def split: prod.splits)

lemma open_serial_keeps [keeps_intros]: "keeps (same_attempts A) (open_serial S P)"
  unfolding open_serial_def Let_def by (intro keeps_intros)

lemma close_serial_keeps [keeps_intros]: "keeps (same_attempts A) (close_serial S)"
  unfolding close_serial_def by (intro keeps_intros)

lemma switch_profile_keeps [keeps_intros]: "keeps (same_attempts A) (switch_profile S P required)"
  unfolding switch_profile_def Let_def by (intro keeps_intros)

lemma cleanup_keeps [keeps_intros]: "keeps (same_attempts A) (cleanup S P)"
  unfolding cleanup_def Let_def by (cases "pt_meter P") (simp_all, (intro keeps_intros)+)

lemma produce_row_keeps [keeps_intros]: "keeps (same_attempts A) (produce_row S P j cs)"
  unfolding produce_row_def Let_def
  by (cases "map_of (pr_unsupported (pt_prepared P)) (job_case_id j)") (simp_all, (intro keeps_intros)+)

lemma produce_row_job:
  assumes "modest (map_option mt_profiler (pt_meter P))"
    and "produce_row S P j cs fl = (Inr r, fl')"
  shows "row_of_job (next_index (job_case_id j) fl) j r"
proof -
  have "modest (rig_profiler (job_rig S P port))" for port
    using assms(1) by (simp add: job_rig_def)
  note measured = run_job_row [OF this]
  show ?thesis
    using assms(2)
    by (auto simp: produce_row_def Let_def worldm_ok stationm_ok split: option.splits
        elim!: bindm_okE; metis unsupported_row_job measured)
qed

lemma label_row_job: "row_of_job index j r \<Longrightarrow> row_of_job index j (without_transmissions (label_row a p r))"
proof (erule row_of_job_cong)
  fix k assume "k \<in> job_keys"
  then have k: "k \<noteq> ''_transmissions''" "k \<noteq> ''firmware_profile''" "k \<noteq> ''rsa_profile''" "k \<noteq> ''mlkem_backend''"
    by (auto simp: job_keys_def)
  have "map_of (filter (\<lambda>kv. fst kv \<noteq> ''_transmissions'') d) k = map_of d k" for d :: row
    using k(1) by (induction d) auto
  then show "map_of (without_transmissions (label_row a p r)) k = map_of r k"
    using k by (simp add: without_transmissions_def label_row_def dset_def update_conv')
qed

lemma record_row_attempts:
  assumes "record_row S P order j profile r fl = (res, fl')"
  shows "(fl_attempts fl' = fl_attempts fl \<and> res \<noteq> Inr ()) \<or>
    fl_attempts fl' = dappend (job_case_id j) (without_transmissions r) (fl_attempts fl)"
proof (cases "transmissions_of r")
  case (Inl e)
  then show ?thesis using assms by (auto simp: record_row_def)
next
  case (Inr rows)
  let ?fl = "fl\<lparr>fl_attempts := dappend (job_case_id j) (without_transmissions r) (fl_attempts fl)\<rparr>"
  let ?rest = "seqm (save_attempts S P (job_case_id j) ''attempts.csv'')
     (seqm (if ra_transfer_mode (plant_args P)
        then seqm (modifym (\<lambda>fl. fl\<lparr>fl_transmissions := dextend (job_case_id j) rows (fl_transmissions fl)\<rparr>))
          (seqm (save_attempts S P (job_case_id j) ''handshakes.csv'') (save_transmissions S P (job_case_id j)))
        else retm ())
      (worldm (store_checkpoint (si_host S) (rn_dir (pt_run P)) order
        (int (length (rn_jobs (pt_run P)))) j profile)))"
  have "keeps (same_attempts A) ?rest" for A
    unfolding save_attempts_def save_transmissions_def by (intro keeps_intros)
  moreover have "?rest ?fl = (res, fl')"
    using assms by (simp add: record_row_def Let_def Inr seqm_def bindm_def)
  ultimately show ?thesis using keepsD by fastforce
qed

text \<open>The tables after some jobs: the rows of the jobs, in order, after those that were there.\<close>

definition rows_for :: "job list \<Rightarrow> (string, row list) dict \<Rightarrow> (string, row list) dict \<Rightarrow> bool" where
  "rows_for js A A' \<longleftrightarrow> (\<forall>cid. \<exists>rows. dget A' cid [] = dget A cid [] @ rows \<and>
     list_all2 (\<lambda>(i, j) r. row_of_job i j r)
       (enumerate_from (int (length (dget A cid [])) + 1) (filter (\<lambda>j. job_case_id j = cid) js)) rows)"

lemma rows_for_Nil: "rows_for [] A A"
  by (simp add: rows_for_def)

lemma rows_for_Cons:
  assumes "row_of_job (int (length (dget A (job_case_id j) [])) + 1) j r"
    and "rows_for js (dappend (job_case_id j) r A) A'"
  shows "rows_for (j # js) A A'"
  unfolding rows_for_def
proof
  fix cid
  let ?B = "dappend (job_case_id j) r A"
  obtain rows where rows: "dget A' cid [] = dget ?B cid [] @ rows"
    "list_all2 (\<lambda>(i, j) r. row_of_job i j r)
       (enumerate_from (int (length (dget ?B cid [])) + 1) (filter (\<lambda>j. job_case_id j = cid) js)) rows"
    using assms(2) unfolding rows_for_def by blast
  show "\<exists>rows. dget A' cid [] = dget A cid [] @ rows \<and>
     list_all2 (\<lambda>(i, j) r. row_of_job i j r)
       (enumerate_from (int (length (dget A cid [])) + 1) (filter (\<lambda>j. job_case_id j = cid) (j # js))) rows"
  proof (cases "job_case_id j = cid")
    case True
    then have "dget ?B cid [] = dget A cid [] @ [r]" by (simp add: dappend_def dget_dset)
    then show ?thesis using rows assms(1) True by (intro exI [of _ "r # rows"]) (simp add: add_ac)
  next
    case False
    then have "dget ?B cid [] = dget A cid []" by (simp add: dappend_def dget_dset)
    then show ?thesis using rows False by (intro exI [of _ rows]) simp
  qed
qed

lemma run_scheduled_row:
  assumes M: "modest (map_option mt_profiler (pt_meter P))"
    and run: "run_scheduled S P (order, j) fl = (res, fl')"
  shows "(fl_attempts fl' = fl_attempts fl \<and> res \<noteq> Inr ()) \<or>
    (\<exists>r. row_of_job (next_index (job_case_id j) fl) j r \<and>
       fl_attempts fl' = dappend (job_case_id j) r (fl_attempts fl))"
proof (cases "\<exists>cs required. dindex (pt_cases P) (job_case_id j) = Inr cs \<and> dindex cs ''firmware_profile'' = Inr required")
  case False
  then show ?thesis
    using run by (cases "dindex (pt_cases P) (job_case_id j)") (auto simp: run_scheduled_def bindm_def split: sum.splits)
next
  case True
  then obtain cs required where cs: "dindex (pt_cases P) (job_case_id j) = Inr cs"
    and req: "dindex cs ''firmware_profile'' = Inr required" by blast
  obtain q u where sw: "switch_profile S P required fl = (q, u)" by fastforce
  have u: "fl_attempts u = fl_attempts fl" by (rule keepsD [OF switch_profile_keeps refl sw])
  obtain q' v where pr: "produce_row S P j cs u = (q', v)" by fastforce
  have v: "fl_attempts v = fl_attempts u" by (rule keepsD [OF produce_row_keeps refl pr])
  show ?thesis
  proof (cases q; cases q')
    fix x r assume q: "q = Inr x" "q' = Inr r"
    then have rec: "record_row S P order j required (label_row (plant_args P) required r) v = (res, fl')"
      using run cs req sw pr by (simp add: run_scheduled_def seqm_def bindm_def)
    have "row_of_job (next_index (job_case_id j) fl) j r"
      using produce_row_job [OF M pr [unfolded q]] u by (simp add: next_index_def)
    from label_row_job [OF this, of "plant_args P" required] record_row_attempts [OF rec] u v
    show ?thesis by auto
  qed (use run cs req sw pr u v in \<open>auto simp: run_scheduled_def seqm_def bindm_def\<close>)
qed

lemma jobs_rows:
  assumes M: "modest (map_option mt_profiler (pt_meter P))"
    and run: "eachm (run_scheduled S P) scheduled fl = (res, fl')"
  shows "\<exists>n\<le>length scheduled. (res = Inr () \<longrightarrow> n = length scheduled) \<and>
    rows_for (map snd (take n scheduled)) (fl_attempts fl) (fl_attempts fl')"
  using run
proof (induction scheduled arbitrary: fl)
  case Nil
  then show ?case by (simp add: rows_for_Nil)
next
  case (Cons oj rest)
  obtain order j where oj: "oj = (order, j)" by fastforce
  obtain q u where one: "run_scheduled S P (order, j) fl = (q, u)" by fastforce
  show ?case
    using run_scheduled_row [OF M one]
  proof (elim disjE conjE exE)
    assume u: "fl_attempts u = fl_attempts fl" "q \<noteq> Inr ()"
    then have "res \<noteq> Inr ()" "fl' = u"
      using Cons.prems one oj by (auto simp: bindm_def split: sum.splits)
    then show ?thesis using u by (intro exI [of _ 0]) (simp add: rows_for_Nil)
  next
    fix r assume r: "row_of_job (next_index (job_case_id j) fl) j r"
      "fl_attempts u = dappend (job_case_id j) r (fl_attempts fl)"
    have grow: "rows_for (map snd (take (Suc n) (oj # rest))) (fl_attempts fl) A"
      if "rows_for (map snd (take n rest)) (fl_attempts u) A" for n A
      using rows_for_Cons [of "fl_attempts fl" j r] r that by (simp add: oj next_index_def)
    show ?thesis
    proof (cases q)
      case (Inl e)
      then have "res = Inl e" "fl' = u" using Cons.prems one oj by (simp_all add: bindm_def)
      then show ?thesis using grow [of 0] by (intro exI [of _ "Suc 0"]) (simp add: rows_for_Nil)
    next
      case (Inr x)
      then have "eachm (run_scheduled S P) rest u = (res, fl')" using Cons.prems one oj by (simp add: bindm_def)
      then obtain n where "n \<le> length rest" "res = Inr () \<longrightarrow> n = length rest"
        "rows_for (map snd (take n rest)) (fl_attempts u) (fl_attempts fl')"
        using Cons.IH by blast
      then show ?thesis using grow by (intro exI [of _ "Suc n"]) simp
    qed
  qed
qed

lemma keeps_end: "keeps (same_attempts A) m \<Longrightarrow> m fl = (res, fl') \<Longrightarrow> fl_attempts fl = A \<Longrightarrow> fl_attempts fl' = A"
  using keepsD [of "same_attempts A" m fl res fl'] by simp

lemma floor_body_rows:
  assumes M: "modest (map_option mt_profiler (pt_meter P))"
    and run: "floor_body S P scheduled fl = (res, fl')"
  shows "\<exists>n\<le>length scheduled. (res = Inr () \<longrightarrow> n = length scheduled) \<and>
    rows_for (map snd (take n scheduled)) (fl_attempts fl) (fl_attempts fl')"
proof -
  let ?start = "if ra_power_profiler (plant_args P) then retm () else open_serial S P"
  obtain q u where start: "?start fl = (q, u)" by fastforce
  have "keeps (same_attempts (fl_attempts fl)) ?start" by (simp add: keeps_intros)
  then have u: "fl_attempts u = fl_attempts fl" using start by (rule keeps_end) simp
  show ?thesis
  proof (cases q)
    case (Inl e)
    then have "res = Inl e" "fl' = u" using run start by (simp_all add: floor_body_def seqm_def bindm_def)
    then show ?thesis using u by (intro exI [of _ 0]) (simp add: rows_for_Nil)
  next
    case (Inr x)
    obtain r v where jobs: "eachm (run_scheduled S P) scheduled u = (r, v)" by fastforce
    obtain r' w where close: "close_serial S v = (r', w)" by fastforce
    have w: "fl_attempts w = fl_attempts v" by (rule keeps_end [OF close_serial_keeps close]) simp
    have "fl' = w" "res = Inr () \<longrightarrow> r = Inr ()"
      using run start jobs close Inr
      by (auto simp: floor_body_def seqm_def bindm_def finallym_def split: sum.splits)
    then show ?thesis using jobs_rows [OF M jobs] u w by auto
  qed
qed

section \<open>Properties\<close>

text \<open>
  C1: No attempt is lost, repeated or put in the wrong place: however the jobs of a campaign
  end (all done, an interrupt, any exception), the table of every case holds the rows that were
  there, followed by one row for each of the first \<open>n\<close> scheduled jobs of that case, in
  the order of the schedule; the rows carry consecutive attempt numbers and the number, session
  and warm-up flag of their job.  When nothing interrupted the jobs, all of them are there.
\<close>

theorem campaign_rows_complete:
  assumes "modest (map_option mt_profiler (pt_meter P))"
    and "run_floor S P scheduled fl = (res, fl')"
  shows "\<exists>n\<le>length scheduled. (res = Inr False \<longrightarrow> n = length scheduled) \<and>
    rows_for (map snd (take n scheduled)) (fl_attempts fl) (fl_attempts fl')"
proof -
  obtain r u where body: "floor_body S P scheduled fl = (r, u)" by fastforce
  obtain r' v where last: "cleanup S P u = (r', v)" by fastforce
  have v: "fl_attempts v = fl_attempts u" by (rule keeps_end [OF cleanup_keeps last]) simp
  have "fl' = v" "res = Inr False \<longrightarrow> r = Inr ()"
    using assms(2) body last
    by (auto simp: run_floor_def finallym_def catchm_def seqm_def bindm_def split: sum.splits if_splits)
  then show ?thesis using floor_body_rows [OF assms(1) body] v by auto
qed

definition demo_config :: row where
  "demo_config = [(''serial-device'', PStr ''/dev/ttyACM0''), (''pi-host'', PStr ''user@pi''),
     (''ssh-key'', PStr ''key''), (''ble-addr'', PStr ''C0:00:00:00:00:01''),
     (''power-profiler-serial-device'', PStr ''/dev/ttyACM1''), (''power-profiler-vdd-mv'', PInt 3000),
     (''power-profiler-output-samples-per-second'', PInt 100)]"

definition demo_campaign_args :: campaign_args where
  "demo_campaign_args = (case default_args demo_config ''nrfutil'' ''/ncs'' of Inr a \<Rightarrow> a\<lparr>ra_power_profiler := True\<rparr>)"

definition demo_run :: run where
  "demo_run = \<lparr>rn_args = demo_campaign_args, rn_id = ''r'', rn_dir = ''/r'', rn_cases = [full_demo_case], rn_seed = 1,
     rn_jobs = [demo_job], rn_last = 0, rn_resuming = False\<rparr>"

definition demo_plant :: "script plant" where
  "demo_plant = \<lparr>pt_run = demo_run, pt_gateway = rig_gateway demo_rig,
     pt_cases = [(''c'', dset ''firmware_profile'' ''universal'' full_demo_case)], pt_dirs = [(''c'', ''/r/c'')],
     pt_prepared = \<lparr>pr_supported = [], pr_unsupported = [(''c'', ''no backend'')], pr_backends = []\<rparr>,
     pt_remote = [], pt_builds = [(''universal'', ''/b'')], pt_meter = None\<rparr>"

definition demo_floor :: "script floor" where
  "demo_floor = \<lparr>fl_station = \<lparr>st_world = script_start [] [] [], st_ble_addr = [], st_observations = []\<rparr>,
     fl_attempts = [], fl_transmissions = [], fl_profile = ''universal'', fl_serial = None\<rparr>"

lemma campaign_rows_complete_witness:
  "\<exists>res fl'. run_floor demo_site demo_plant [(1, demo_job)] demo_floor = (res, fl') \<and>
     (\<exists>n\<le>1. (res = Inr False \<longrightarrow> n = 1) \<and> rows_for (map snd (take n [(1::int, demo_job)])) [] (fl_attempts fl'))"
proof -
  obtain res fl' where run: "run_floor demo_site demo_plant [(1, demo_job)] demo_floor = (res, fl')" by fastforce
  have "modest (map_option mt_profiler (pt_meter demo_plant))" by (simp add: demo_plant_def modest_def)
  then show ?thesis using campaign_rows_complete [OF _ run] run by (auto simp: demo_floor_def)
qed

section \<open>Resuming at the next job\<close>

lemma eachm_append: "eachm f (xs @ ys) = seqm (eachm f xs) (eachm f ys)"
  by (induction xs) (simp_all only: eachm.simps append.simps seqm_def bindm_assoc bindm_simps)

lemma scheduled_drop_from:
  "filter (\<lambda>(order, j). k < order) (enumerate_from m js) = drop (nat (k - m + 1)) (enumerate_from m js)"
proof (induction js arbitrary: m)
  case (Cons j js)
  show ?case
  proof (cases "k < m")
    case True
    then have "nat (k - m + 1) = 0" "nat (k - (m + 1) + 1) = 0" by simp_all
    then show ?thesis using True Cons.IH [of "m + 1"] by simp
  next
    case False
    then have "nat (k - m + 1) = Suc (nat (k - (m + 1) + 1))" by simp
    then show ?thesis using False Cons.IH [of "m + 1"] by simp
  qed
qed simp

lemma scheduled_drop: "scheduled_jobs k js = drop (nat k) (enumerate_from 1 js)"
  unfolding scheduled_jobs_def by (subst scheduled_drop_from) simp

text \<open>
  What the host promises of its files: a text that was written or renamed is the text of its
  path, a path with a text exists, and reading it gives the text.
\<close>

definition faithful_files :: "'w host \<Rightarrow> ('w \<Rightarrow> string \<Rightarrow> string option) \<Rightarrow> bool" where
  "faithful_files H files \<longleftrightarrow>
     (\<forall>p t w w'. h_write H p t w = (Inr (), w') \<longrightarrow> files w' p = Some t) \<and>
     (\<forall>p q w w'. h_rename H p q w = (Inr (), w') \<longrightarrow> files w' q = files w p) \<and>
     (\<forall>p w. files w p \<noteq> None \<longrightarrow> (\<exists>w'. h_exists H p w = (Inr True, w') \<and> files w' = files w)) \<and>
     (\<forall>p t w. files w p = Some t \<longrightarrow> (\<exists>w'. h_read H p w = (Inr t, w')))"

lemma store_checkpoint_file:
  assumes "faithful_files H files" "store_checkpoint H dir k total_jobs j profile w = (Inr (), w')"
  shows "\<exists>t now. json_pretty 0 (PDict (write_checkpoint k total_jobs (job_case_id j) (job_session j)
    (job_attempt_in_session j) profile now)) = Inr t \<and> files w' (path_join dir ''checkpoint.json'') = Some (t @ newline)"
proof -
  let ?path = "path_join dir ''checkpoint.json''"
  obtain now t u v where t: "json_pretty 0 (PDict (write_checkpoint k total_jobs (job_case_id j) (job_session j)
      (job_attempt_in_session j) profile now)) = Inr t"
    and wr: "h_write H (?path @ ''.tmp'') (t @ newline) u = (Inr (), v)"
    and mv: "h_rename H (?path @ ''.tmp'') ?path v = (Inr (), w')"
    using assms(2) unfolding store_checkpoint_def Let_def write_json_def
    by (elim bindm_okE seqm_okE) (simp del: json_pretty.simps)
  have "files v (?path @ ''.tmp'') = Some (t @ newline)" "files w' ?path = files v (?path @ ''.tmp'')"
    using assms(1) wr mv unfolding faithful_files_def by blast+
  then show ?thesis using t by auto
qed

lemma checkpoint_storable: "storable (PDict (write_checkpoint k total_jobs cid session attempt profile now))"
  by (simp add: write_checkpoint_def)

lemma checkpoint_completed: "last_completed (write_checkpoint k total_jobs cid session attempt profile now) = Inr k"
  by (simp add: write_checkpoint_def last_completed_def dget_def)

text \<open>
  C2: A campaign resumes at the next job: after the checkpoint of job \<open>k\<close> was stored, reading it
  back says that \<open>k\<close> jobs are done, and the jobs before the stop followed by the jobs of the
  resumed run are all jobs of the schedule, each once and in order, whatever a job does.
\<close>

theorem checkpoint_resumes:
  assumes "faithful_files H files"
    and "store_checkpoint H dir k total_jobs j profile w = (Inr (), w')"
  shows "(\<exists>w''. bindm (load_checkpoint H dir) (\<lambda>c. liftm (last_completed c)) w' = (Inr k, w'')) \<and>
    eachm f (scheduled_jobs 0 js) = seqm (eachm f (take (nat k) (scheduled_jobs 0 js))) (eachm f (scheduled_jobs k js))"
proof
  let ?path = "path_join dir ''checkpoint.json''"
  obtain t now where t: "json_pretty 0 (PDict (write_checkpoint k total_jobs (job_case_id j) (job_session j)
      (job_attempt_in_session j) profile now)) = Inr t"
    and stored: "files w' ?path = Some (t @ newline)"
    using store_checkpoint_file [OF assms] by blast
  have "files w' ?path \<noteq> None" using stored by simp
  then obtain u where u: "h_exists H ?path w' = (Inr True, u)" "files u = files w'"
    using assms(1) unfolding faithful_files_def by blast
  moreover have "files u ?path = Some (t @ newline)" using u(2) stored by simp
  then obtain v where "h_read H ?path u = (Inr (t @ newline), v)"
    using assms(1) unfolding faithful_files_def by blast
  ultimately show "\<exists>w''. bindm (load_checkpoint H dir) (\<lambda>c. liftm (last_completed c)) w' = (Inr k, w'')"
    using json_reads_back [OF checkpoint_storable t]
    by (simp add: load_checkpoint_def Let_def bindm_def json_dict_def read_checkpoint_def checkpoint_completed)
  show "eachm f (scheduled_jobs 0 js) = seqm (eachm f (take (nat k) (scheduled_jobs 0 js))) (eachm f (scheduled_jobs k js))"
    using eachm_append [of f "take (nat k) (enumerate_from 1 js)" "drop (nat k) (enumerate_from 1 js)"]
    by (simp add: scheduled_drop)
qed

lemma script_files: "faithful_files script_host (\<lambda>s. map_of (sc_files s))"
  by (auto simp: faithful_files_def script_host_def script_put_def script_read_def dhas_def dset_def
      update_conv' bindm_def split: option.splits)

lemma checkpoint_resumes_witness:
  "\<exists>w'. store_checkpoint script_host ''/r'' 1 2 demo_job ''universal'' (script_start [] [] []) = (Inr (), w') \<and>
     (\<exists>w''. bindm (load_checkpoint script_host ''/r'') (\<lambda>c. liftm (last_completed c)) w' = (Inr 1, w'')) \<and>
     (\<forall>f :: int \<times> job \<Rightarrow> (script, unit) io. eachm f (scheduled_jobs 0 [demo_job, demo_job]) =
       seqm (eachm f (take (nat 1) (scheduled_jobs 0 [demo_job, demo_job]))) (eachm f (scheduled_jobs 1 [demo_job, demo_job])))"
proof -
  have "case store_checkpoint script_host ''/r'' 1 2 demo_job ''universal'' (script_start [] [] []) of
    (Inr x, w) \<Rightarrow> True | (Inl e, w) \<Rightarrow> False" by code_simp
  then obtain w' where st: "store_checkpoint script_host ''/r'' 1 2 demo_job ''universal'' (script_start [] [] []) = (Inr (), w')"
    by (auto split: prod.splits sum.splits)
  note res = checkpoint_resumes [OF script_files st]
  show ?thesis
    by (rule exI [of _ w'], intro conjI allI) (rule st conjunct1 [OF res] conjunct2 [OF res])+
qed

section \<open>The columns of a summary\<close>

lemma keys_dset: "set (map fst (dset k v d)) = insert k (set (map fst d))"
  by (auto simp: dset_def update_keys simp del: set_map)

lemma keys_dupdate: "set (map fst (dupdate d e)) = set (map fst d) \<union> set (map fst e)"
proof (induction e arbitrary: d)
  case (Cons kv e)
  then show ?case using Cons.IH [of "dset (fst kv) (snd kv) d"] keys_dset [of "fst kv" "snd kv" d]
    by (simp add: dupdate_def case_prod_beta del: set_map)
qed (simp add: dupdate_def)

lemma keys_dict_of: "set (map fst (dict_of kvs)) = set (map fst kvs)"
  using keys_dupdate [of "[]" kvs] by (simp add: dict_of_def)

definition METADATA_KEYS :: "string list" where
  "METADATA_KEYS = METADATA_REQUIRED @ METADATA_OPTIONAL @ [''expected_certificate_verify_alg'']"

lemma metadata_keys:
  assumes "case_metadata cs = Inr m"
  shows "set (map fst m) = set METADATA_KEYS"
proof -
  obtain required s where req: "mapr (\<lambda>k. bindr (dindex cs k) (\<lambda>v. Inr (k, v))) METADATA_REQUIRED = Inr required"
    and m: "m = dset ''expected_certificate_verify_alg'' s
      (dupdate (dict_of required) (map (\<lambda>k. (k, dget cs k [])) METADATA_OPTIONAL))"
    using assms unfolding case_metadata_def bindr_eq_Inr Let_def by (elim exE conjE) (auto simp: bindr_eq_Inr)
  have "set (map fst required) = set METADATA_REQUIRED" using required_keys [OF req] by simp
  moreover have "map fst (map (\<lambda>k. (k, dget cs k [])) METADATA_OPTIONAL) = METADATA_OPTIONAL" by (simp add: comp_def)
  ultimately show ?thesis
    unfolding m keys_dset keys_dupdate keys_dict_of METADATA_KEYS_def by auto
qed

lemma mean_keys [simp]: "map fst (mean_cells k ns names) = map ((@) ''mean_'') names"
  by (simp add: mean_cells_def comp_def)

lemmas summary_parts = bindr_eq_Inr Let_def

definition TIMING_COLUMNS :: "string list" where
  "TIMING_COLUMNS = map (\<lambda>k. k @ ''_raw_handshake_ms'') [''mean'', ''median'', ''p95'', ''min'', ''max'', ''stddev''] @
    [''handshake_throughput_hps'', ''mean_mqtt_connect_ms'', ''mean_full_connect_ms'', ''mean_end_to_end_ms'',
     ''connections_per_second'', ''mean_client_cpu_ms'']"

definition CPU_COLUMNS :: "string list" where
  "CPU_COLUMNS = map ((@) ''mean_'') [''client_cpu_usage_percent'', ''system_cpu_usage_percent'',
      ''average_cpu_usage_percent''] @ [''max_peak_cpu_usage_percent''] @
    map ((@) ''mean_'') [''client_icache_hits'', ''client_icache_misses'', ''client_icache_requests'',
      ''client_icache_hit_percent'', ''client_icache_miss_percent''] @
    [''client_memory_access_counters_supported'', ''dwt_cycle_counter_supported'', ''dwt_event_counters_supported''] @
    map ((@) ''mean_'') DWT_FIELDS @
    [''dwt_cycle_counter_width_bits'', ''dwt_event_counter_width_bits'', ''dwt_counts_are_modulo'']"

definition HEAP_COLUMNS :: "string list" where
  "HEAP_COLUMNS = [''max_client_heap_peak_bytes'', ''min_client_heap_free_bytes'', ''client_heap_capacity_bytes'',
    ''max_client_heap_peak_usage_percent'']"

definition FIRMWARE_COLUMNS :: "string list" where
  "FIRMWARE_COLUMNS = [''firmware_flash_used_bytes'', ''firmware_flash_capacity_bytes'', ''firmware_flash_usage_percent'',
     ''firmware_static_ram_used_bytes'', ''firmware_ram_capacity_bytes'', ''firmware_static_ram_usage_percent'']"

definition MEMORY_COLUMNS :: "string list" where
  "MEMORY_COLUMNS = FIRMWARE_COLUMNS @ [''max_thread_stack_used_bytes'', ''thread_stack_capacity_bytes'',
    ''max_thread_stack_peak_percent'', ''max_l2cap_rx_ring_peak_bytes'', ''l2cap_rx_ring_capacity_bytes'',
    ''max_l2cap_rx_ring_peak_percent'']"

lemma timing_keys: "timing_cells ns = Inr r \<Longrightarrow> map fst r = TIMING_COLUMNS"
  unfolding timing_cells_def summary_parts TIMING_COLUMNS_def by (elim exE conjE) auto

lemma cpu_keys: "cpu_summary success ns = Inr r \<Longrightarrow> map fst r = CPU_COLUMNS"
  unfolding cpu_summary_def summary_parts CPU_COLUMNS_def
  by (elim exE conjE) (simp only: sum.inject map_append mean_keys; drule sym; simp add: first_cells_keys)

lemma heap_keys: "heap_summary success ns heap = Inr r \<Longrightarrow> map fst r = HEAP_COLUMNS"
  unfolding heap_summary_def summary_parts HEAP_COLUMNS_def
  by (elim exE conjE) (drule first_cells_keys, auto)

lemma memory_keys:
  assumes "memory_summary success ns = Inr r"
  shows "map fst r = MEMORY_COLUMNS"
proof -
  obtain a b c where "first_cells success FIRMWARE_COLUMNS = Inr a"
    "first_cells success [''thread_stack_capacity_bytes''] = Inr b"
    "first_cells success [''l2cap_rx_ring_capacity_bytes''] = Inr c"
    and r: "map fst r = map fst a @ [''max_thread_stack_used_bytes''] @ map fst b @ [''max_thread_stack_peak_percent'',
      ''max_l2cap_rx_ring_peak_bytes''] @ map fst c @ [''max_l2cap_rx_ring_peak_percent'']"
    using assms unfolding memory_summary_def summary_parts FIRMWARE_COLUMNS_def by (elim exE conjE) auto
  note keys = this(1-3) [THEN first_cells_keys]
  show ?thesis unfolding r keys by (simp add: MEMORY_COLUMNS_def)
qed

definition energy_columns :: "string \<Rightarrow> string list" where
  "energy_columns window = map (\<lambda>m. ''mean_'' @ window @ ''_'' @ m)
     [''duration_ms'', ''charge_uc'', ''energy_uj'', ''avg_current_ua''] @ [''max_'' @ window @ ''_peak_current_ua'']"

lemma energy_keys:
  assumes "power_summary success = Inr r"
  shows "map fst r = concat (map energy_columns POWER_WINDOWS)"
proof -
  have "map fst c = energy_columns w" if "power_window_cells rows w = Inr c" for rows w c
    using that unfolding power_window_cells_def Let_def bindr_eq_Inr
    by (elim exE conjE) (auto simp: energy_columns_def bindr_eq_Inr)
  then have "mapr (power_window_cells rows) ws = Inr cs \<Longrightarrow> map fst (concat cs) = concat (map energy_columns ws)" for rows ws cs
    by (induction ws arbitrary: cs) (auto simp: bindr_eq_Inr)
  then show ?thesis using assms by (auto simp: power_summary_def Let_def bindr_eq_Inr)
qed

definition IDENTITY_COLUMNS :: "string list" where
  "IDENTITY_COLUMNS = [''case_id'', ''mtls_mode''] @ METADATA_KEYS @ [''root_cert_der_bytes'', ''intermediate_cert_der_bytes'', ''leaf_cert_der_bytes'', ''server_chain_bytes'',
     ''certificate_verify_alg'', ''client_certificate_verify_alg'', ''certificate_verify_match'']"

lemma identity_keys:
  assumes "identity_cells cs attempts success = Inr r"
  shows "set (map fst r) = set IDENTITY_COLUMNS"
proof -
  obtain metadata firsts where m: "case_metadata cs = Inr metadata"
    and f: "first_cells success [''root_cert_der_bytes'', ''intermediate_cert_der_bytes'',
        ''leaf_cert_der_bytes'', ''server_chain_bytes'', ''certificate_verify_alg'',
        ''client_certificate_verify_alg'', ''certificate_verify_match''] = Inr firsts"
    and r: "map fst r = [''case_id'', ''mtls_mode''] @ map fst (map (\<lambda>(k, v). (k, PStr v)) metadata) @ map fst firsts"
    using assms unfolding identity_cells_def summary_parts by (elim exE conjE) auto
  have "map fst (map (\<lambda>(k, v). (k, PStr v)) metadata) = map fst metadata" by (induction metadata) auto
  then show ?thesis
    unfolding r set_append IDENTITY_COLUMNS_def first_cells_keys [OF f] by (simp only: metadata_keys [OF m] set_append)
qed

definition COUNT_COLUMNS :: "string list" where
  "COUNT_COLUMNS = [''status'', ''success_count'', ''fail_count'', ''timeout_count'', ''unsupported_count'']"

lemma count_cells_keys: "count_cells status ms success = Inr r \<Longrightarrow> map fst r = COUNT_COLUMNS"
  by (auto simp: count_cells_def bindr_eq_Inr COUNT_COLUMNS_def)

lemma summarize_shape:
  assumes "summarize cs attempts = Inr r"
  obtains ms success ns heap status timing energy identity counts cpu heap_part memory where
    "timing_cells ns = Inr timing" "power_summary success = Inr energy"
    "identity_cells cs attempts success = Inr identity" "count_cells status ms success = Inr counts"
    "cpu_summary success ns = Inr cpu" "heap_summary success ns heap = Inr heap_part"
    "memory_summary success ns = Inr memory"
    "r = dict_of (identity @ counts @ timing @ cpu @ heap_part @ crypto_summary ns @ link_summary ns @ memory @ energy)"
  using assms unfolding summarize_def Let_def bindr_eq_Inr by (elim exE conjE) auto

text \<open>The columns, in their order in the file.\<close>

lemma fields_in_order:
  "SUMMARY_FIELDS = take 33 SUMMARY_FIELDS @ TIMING_COLUMNS @ CPU_COLUMNS @ HEAP_COLUMNS @
     map fst (crypto_summary []) @ map fst (link_summary []) @ MEMORY_COLUMNS @ drop 103 SUMMARY_FIELDS"
  by code_simp

lemma fields_around:
  "insert ''rsa_profile'' (insert ''mlkem_backend'' (set IDENTITY_COLUMNS \<union> set COUNT_COLUMNS)) = set (take 33 SUMMARY_FIELDS)"
  "set (concat (map energy_columns POWER_WINDOWS)) = set (drop 103 SUMMARY_FIELDS)"
  by code_simp+

lemma fixed_keys: "map fst (crypto_summary ns) = map fst (crypto_summary [])" "map fst (link_summary ns) = map fst (link_summary [])"
  by (simp_all add: crypto_summary_def link_summary_def)

text \<open>
  C40: The summary has a column for everything: the cells that a campaign computes for a case are
  exactly the columns of \<open>summary.csv\<close>, so that writing the table, which passes over cells without
  a column and leaves columns without a cell empty, neither loses a value nor leaves a gap.
\<close>

theorem summary_fills_columns:
  assumes "case_summary a attempts c = Inr r"
  shows "set (map fst r) = set SUMMARY_FIELDS"
proof -
  obtain cid r0 where r0: "summarize c (dget attempts cid []) = Inr r0"
    and r: "r = dset ''rsa_profile'' (PStr ''fast-math'') (dset ''mlkem_backend'' (PStr (ca_mlkem_backend a)) r0)"
    using assms by (auto simp: case_summary_def bindr_eq_Inr)
  from r0 show ?thesis
  proof (rule summarize_shape)
    fix ms success ns heap status timing energy identity counts cpu heap_part memory
    assume "timing_cells ns = Inr timing" "power_summary success = Inr energy"
      "identity_cells c (dget attempts cid []) success = Inr identity" "count_cells status ms success = Inr counts"
      "cpu_summary success ns = Inr cpu" "heap_summary success ns heap = Inr heap_part"
      "memory_summary success ns = Inr memory"
    note keys = this(1) [THEN timing_keys] this(2) [THEN energy_keys] this(3) [THEN identity_keys]
      this(4) [THEN count_cells_keys] this(5) [THEN cpu_keys] this(6) [THEN heap_keys] this(7) [THEN memory_keys]
    assume "r0 = dict_of (identity @ counts @ timing @ cpu @ heap_part @ crypto_summary ns @ link_summary ns @
      memory @ energy)"
    then have "set (map fst r) = insert ''rsa_profile'' (insert ''mlkem_backend'' (set IDENTITY_COLUMNS \<union>
        set COUNT_COLUMNS)) \<union> set (TIMING_COLUMNS @ CPU_COLUMNS @ HEAP_COLUMNS @ map fst (crypto_summary []) @
        map fst (link_summary []) @ MEMORY_COLUMNS @ concat (map energy_columns POWER_WINDOWS))"
      unfolding r keys_dset
      by (simp only: keys_dict_of map_append set_append keys fixed_keys [of ns] Un_insert_left Un_assoc)
    also have "\<dots> = set SUMMARY_FIELDS"
      unfolding fields_around(1) set_append fields_around(2)
      by (subst (3) fields_in_order) (simp only: set_append)
    finally show ?thesis .
  qed
qed

lemma summary_fills_columns_witness:
  "\<exists>r. case_summary demo_campaign_args [(''c'', demo_attempts)] full_demo_case = Inr r \<and>
     set (map fst r) = set SUMMARY_FIELDS"
proof -
  obtain r where r: "summarize full_demo_case demo_attempts = Inr r" using demo_summary by blast
  have "case_id_of full_demo_case = Inr ''c''" "dget [(''c'', demo_attempts)] ''c'' [] = demo_attempts" by code_simp+
  then have "\<exists>q. case_summary demo_campaign_args [(''c'', demo_attempts)] full_demo_case = Inr q"
    using r by (simp add: case_summary_def)
  then show ?thesis using summary_fills_columns by blast
qed

section \<open>The directory on the Pi\<close>

lemma not_at_shell_safe: "safe_user u \<Longrightarrow> list_all shell_safe u"
  by (cases u) (auto simp: safe_user_def shell_safe_def list_all_iff)

lemma safe_user_no_slash: "safe_user u \<Longrightarrow> CHR ''/'' \<notin> set u"
  by (cases u) (auto simp: safe_user_def list_all_iff is_lower_az_def is_digit_def ccode_def Let_def)

text \<open>
  The scripts of the gateway write the working directory unquoted in many places; when it is
  derived from the SSH user it needs no quoting: it is one word of the shell, absolute, with the
  user as its second component.  Otherwise the user is rejected.
\<close>

theorem derived_workdir_safe:
  assumes "resolve_pi_workdir pi_host [] = Inr d"
  shows "(\<exists>u. safe_user u \<and> CHR ''/'' \<notin> set u \<and> d = ''/home/'' @ u @ ''/peripheral-benchmark'') \<and>
    sh_words d = Some [d] \<and> shlex_quote d = d"
proof -
  obtain u where u: "safe_user u" "d = ''/home/'' @ u @ ''/peripheral-benchmark''"
    using assms by (auto simp: resolve_pi_workdir_def Let_def split: if_splits)
  have "list_all shell_safe ''/home/''" "list_all shell_safe ''/peripheral-benchmark''" by code_simp+
  then have safe: "list_all shell_safe d" using not_at_shell_safe [OF u(1)] by (simp only: u(2) list_all_append)
  have "d \<noteq> []" using u(2) by simp
  then have "sh_words d = Some [d]" "shlex_quote d = d"
    using sh_plain_safe [OF safe, of None "[]"] safe by (simp_all add: sh_words_def shlex_quote_def)
  then show ?thesis using u safe_user_no_slash by blast
qed

lemma derived_workdir_safe_witness:
  "resolve_pi_workdir ''ben@pi'' [] = Inr ''/home/ben/peripheral-benchmark'' \<and>
   sh_words ''/home/ben/peripheral-benchmark'' = Some [''/home/ben/peripheral-benchmark'']"
proof -
  have "resolve_pi_workdir ''ben@pi'' [] = Inr ''/home/ben/peripheral-benchmark''" by code_simp
  then show ?thesis using derived_workdir_safe by blast
qed

end
