(* ===== verification/Board_Bench.thy ===== *)
theory Board_Bench
  imports Campaign_Setup
begin

text \<open>
  What the two benchmarks on the board share (\<open>run_kem_benchmarks.py\<close> and
  \<open>run_certificate_benchmarks.py\<close>): the options, the parser of a marked line, the loop over the
  iterations of one algorithm, which a timeout cuts short, and the statistics.  The locale
  \<open>iterations\<close> states what the row of an attempt must be for the loop to fill a table
  completely; each benchmark provides its own row.
\<close>

section \<open>Options\<close>

record bench_args =
  bn_cases :: string
  bn_iterations :: int
  bn_seed :: int
  bn_run_id :: "string option"
  bn_limit :: "int option"
  bn_only :: "string list"
  bn_skip_build :: bool
  bn_skip_flash :: bool
  bn_serial_device :: string
  bn_serial_baud :: int
  bn_ready_timeout :: rat
  bn_attempt_timeout :: pyval
  bn_nrfutil :: string
  bn_ncs_version :: string
  bn_ncs_chdir :: string
  bn_board :: string

text \<open>The port of the board beyond reading it: a command is written and flushed.\<close>

record 'w wire =
  wr_write :: "byte list \<Rightarrow> ('w, unit) io"
  wr_flush :: "('w, unit) io"

text \<open>
  The cap is kept as a cell: the default is the integer constant, an option of the command line
  a float.  \<open>min(given, cap)\<close> is the cap only when the cap is smaller.
\<close>

definition capped :: "int \<Rightarrow> pyval \<Rightarrow> pyval res" where
  "capped limit given = bindr (pv_float given) (\<lambda>x. Inr (if of_int limit < x then PInt limit else given))"

definition nrfutil_path :: "'w console \<Rightarrow> ('w, string) io" where
  "nrfutil_path C = bindm (cn_which C ''nrfutil'') (\<lambda>found. case found of
       Some (c # s) \<Rightarrow> retm (c # s)
     | _ \<Rightarrow> bindm (cn_home C) (\<lambda>home. retm (path_join home ''.local/bin/nrfutil'')))"

definition ncs_path :: "'w host \<Rightarrow> 'w console \<Rightarrow> ('w, string) io" where
  "ncs_path H C = bindm (cn_home C) (\<lambda>home.
     let first = path_join home ''Documents/ncs/v3.3.0/nrf'' in
     first_existing H [first, path_join home ''ncs/v3.3.0/nrf''] first)"

text \<open>The entry \<open>serial-device\<close> of the configuration file; a value that is no text leaves the model.\<close>

definition config_device :: "'w host \<Rightarrow> string \<Rightarrow> ('w, string) io" where
  "config_device H path =
     bindm (h_read H path) (\<lambda>text. liftm (bindr (bindr (json_loads text) json_dict) (\<lambda>config.
       case dget config ''serial-device'' (PStr ''/dev/ttyACM0'') of PStr s \<Rightarrow> Inr s
       | _ \<Rightarrow> Inl (OutsideModel ''serial device''))))"

definition default_bench_args :: "int \<Rightarrow> int \<Rightarrow> string \<Rightarrow> string \<Rightarrow> string \<Rightarrow> bench_args" where
  "default_bench_args iterations limit device nrfutil ncs_chdir =
     \<lparr>bn_cases = [], bn_iterations = iterations, bn_seed = 123, bn_run_id = None, bn_limit = None, bn_only = [],
      bn_skip_build = False, bn_skip_flash = False, bn_serial_device = device, bn_serial_baud = 115200,
      bn_ready_timeout = 30, bn_attempt_timeout = PInt limit, bn_nrfutil = nrfutil,
      bn_ncs_version = ''v3.3.0'', bn_ncs_chdir = ncs_chdir, bn_board = ''nrf5340dk/nrf5340/cpuapp''\<rparr>"

definition check_bench_args :: "'z bench_args_scheme \<Rightarrow> unit res" where
  "check_bench_args a =
     (if bn_iterations a < 1 then Inl (ValueError ''--iterations must be at least 1'')
      else if (case bn_limit a of None \<Rightarrow> False | Some n \<Rightarrow> n < 1)
      then Inl (ValueError ''--limit must be at least 1'')
      else bindr (pv_float (bn_attempt_timeout a)) (\<lambda>t.
        if t \<le> 0 then Inl (ValueError ''--attempt-timeout-sec must be positive'') else Inr ()))"

text \<open>The cases that are wanted (\<open>key\<close> names the algorithm of a case), and the first of them.\<close>

definition wanted_cases :: "string \<Rightarrow> string \<Rightarrow> string list \<Rightarrow> srow list \<Rightarrow> srow list res" where
  "wanted_cases what key wanted cases =
     (if wanted = [] then Inr cases
      else bindr (filterr (\<lambda>c. bindr (dindex c key) (\<lambda>v. Inr (v \<in> set wanted))) cases) (\<lambda>kept.
        bindr (mapr (\<lambda>c. dindex c key) kept) (\<lambda>present.
        let missing = filter (\<lambda>n. n \<notin> set present) (remdups wanted) in
        if missing \<noteq> [] then Inl (ValueError (what @ join '', '' (sort missing))) else Inr kept)))"

definition first_cases :: "int option \<Rightarrow> srow list \<Rightarrow> srow list" where
  "first_cases limit cases = (case limit of None \<Rightarrow> cases | Some n \<Rightarrow> take (nat n) cases)"

definition new_run_dir :: "('w, 'g) site \<Rightarrow> string option \<Rightarrow> string \<Rightarrow> string \<Rightarrow> ('w, string \<times> string) io" where
  "new_run_dir S given prefix suffix =
     bindm (case given of Some (c # s) \<Rightarrow> retm (c # s)
       | _ \<Rightarrow> bindm (cn_timestamp (si_console S)) (\<lambda>now. retm (prefix @ now @ suffix))) (\<lambda>run_id.
     let run_dir = path_join (RESULTS (si_bench S)) run_id in
     bindm (h_exists (si_host S) run_dir) (\<lambda>present.
     if present then raisem (FileExistsError (''refusing to overwrite '' @ run_dir))
     else seqm (h_mkdir (si_host S) run_dir) (retm (run_id, run_dir))))"

section \<open>Marked lines\<close>

definition parse_board_values :: "string \<Rightarrow> string \<Rightarrow> srow option" where
  "parse_board_values line marker = (case split_once line marker of None \<Rightarrow> None
     | Some (_, rest) \<Rightarrow> Some (bench_values (py_strip rest)))"

text \<open>A line of the board: nothing when the read timed out, else its text, which is logged.\<close>

definition board_text :: "'w host \<Rightarrow> string \<Rightarrow> ('w, string option) io" where
  "board_text H logf = bindm (h_readline H) (\<lambda>raw.
     if raw = [] then retm None
     else bindm (liftm (decode_replace raw)) (\<lambda>text. let line = py_strip text in
       seqm (h_append H logf (line @ newline)) (retm (Some line))))"

definition marker_round :: "'w host \<Rightarrow> string \<Rightarrow> string \<Rightarrow> rat \<Rightarrow> unit \<Rightarrow> ('w, unit + srow) io" where
  "marker_round H logf marker deadline u =
     bindm (h_monotonic H) (\<lambda>now.
     if \<not> now < deadline then raisem TimeoutError
     else bindm (board_text H logf) (\<lambda>line. case line of None \<Rightarrow> retm (Inl ())
       | Some l \<Rightarrow> retm (case parse_board_values l marker of None \<Rightarrow> Inl () | Some vals \<Rightarrow> Inr vals)))"

definition wait_for_board_marker ::
  "'w host \<Rightarrow> nat \<Rightarrow> string \<Rightarrow> string \<Rightarrow> rat \<Rightarrow> ('w, srow) io" where
  "wait_for_board_marker H fuel logf marker timeout =
     bindm (h_monotonic H) (\<lambda>now.
     seqm (h_mkdir H (path_parent logf))
     (seqm (h_append H logf [])
     (poll (marker_round H logf marker (fadd now timeout)) fuel ())))"

section \<open>Cells of a row\<close>

definition int_or_zero :: "srow \<Rightarrow> string \<Rightarrow> int res" where
  "int_or_zero vals key = (let s = dget vals key ''0'' in if s = [] then Inr 0 else py_int s)"

text \<open>\<open>int(values[key]) / 1000.0\<close> with three decimals, empty when missing or no number.\<close>

definition us_to_ms :: "srow \<Rightarrow> string \<Rightarrow> string res" where
  "us_to_ms vals key = tryr (bindr (bindr (dindex vals key) py_int) (\<lambda>n.
       Inr (fmt_fixed 3 (fdiv (float_of_int n) 1000))))
     (\<lambda>e. is_value_error e \<or> (case e of KeyError k \<Rightarrow> True | _ \<Rightarrow> False)) (\<lambda>_. Inr [])"

text \<open>\<open>f"{part * factor / whole:.3f}" if whole else ""\<close>.\<close>

definition share_cell :: "int \<Rightarrow> rat \<Rightarrow> int \<Rightarrow> string" where
  "share_cell part factor whole = (if whole = 0 then []
     else fmt_fixed 3 (fdiv (fmul (float_of_int part) factor) (float_of_int whole)))"

definition copy_cells :: "srow \<Rightarrow> string list \<Rightarrow> row" where
  "copy_cells vals keys = map (\<lambda>k. (k, PStr (dget vals k []))) keys"

definition DWT_CELLS :: "string list" where
  "DWT_CELLS = [''dwt_cycle_counter_supported'', ''dwt_event_counters_supported''] @ DWT_FIELDS @
     [''dwt_cycle_counter_width_bits'', ''dwt_event_counter_width_bits'', ''dwt_counts_are_modulo'']"

text \<open>The text of a tuple of integers.\<close>

definition tuple_text :: "int list \<Rightarrow> string" where
  "tuple_text ns = ''('' @ join '', '' (map str_int ns) @ '')''"

section \<open>The iterations of an algorithm\<close>

definition timed_out :: "srow \<Rightarrow> bool" where
  "timed_out vals \<longleftrightarrow> map_of vals ''status'' = Some ''timeout''"

definition CANCELLED :: srow where
  "CANCELLED = [(''status'', ''cancelled''), (''stage'', ''cancelled_after_algorithm_timeout''),
     (''error'', ''algorithm_timeout'')]"

definition TIMED_OUT :: srow where
  "TIMED_OUT = [(''status'', ''timeout''), (''stage'', ''board_result''), (''error'', ''timeout'')]"

text \<open>
  One iteration after the other: \<open>observe\<close> asks the board, \<open>row_of\<close> makes the row, \<open>save\<close> writes
  the whole table.  After a timeout the remaining iterations are cancelled rows.
\<close>

fun measure_all ::
  "(int \<Rightarrow> ('w, srow) io) \<Rightarrow> (int \<Rightarrow> srow \<Rightarrow> row res) \<Rightarrow> (row list \<Rightarrow> ('w, unit) io) \<Rightarrow>
   row list \<Rightarrow> int list \<Rightarrow> ('w, row list) io" where
  "measure_all observe row_of save attempts [] = retm attempts"
| "measure_all observe row_of save attempts (i # is) =
     bindm (observe i) (\<lambda>vals.
     bindm (liftm (row_of i vals)) (\<lambda>r.
     bindm (liftm (if timed_out vals then mapr (\<lambda>j. row_of j CANCELLED) is else Inr [])) (\<lambda>cancelled.
     let attempts' = attempts @ [r] @ cancelled in
     seqm (save attempts') (if timed_out vals then retm attempts'
       else measure_all observe row_of save attempts' is))))"

section \<open>Statistics\<close>

definition get_numbers :: "string \<Rightarrow> row list \<Rightarrow> rat list res" where
  "get_numbers key rows = mapr (\<lambda>r. pv_float (dget r key (PStr [])))
     (filter (\<lambda>r. dget r key (PStr []) \<noteq> PStr []) rows)"

definition percentile :: "rat list \<Rightarrow> rat \<Rightarrow> rat res" where
  "percentile vals percent =
     (if vals = [] then Inl IndexError
      else let ordered = sort vals; n = int (length vals);
               position = fmul (float_of_int (n - 1)) percent;
               lower = \<lfloor>position\<rfloor>; upper = min (lower + 1) (n - 1);
               fraction = fsub position (float_of_int lower)
           in Inr (fadd (ordered ! nat lower)
                (fmul (fsub (ordered ! nat upper) (ordered ! nat lower)) fraction)))"

definition percentile_text :: "rat list \<Rightarrow> string res" where
  "percentile_text vals = bindr (percentile vals (round64 (95 / 100))) (\<lambda>p. Inr (fmt_fixed 3 p))"

section \<open>What the loop establishes\<close>

text \<open>
  The rows of one algorithm: the values observed for the first iterations, then cancelled rows;
  only the last observation may be a timeout, and it is one when iterations are cancelled.
\<close>

definition block :: "(int \<Rightarrow> srow \<Rightarrow> row res) \<Rightarrow> int list \<Rightarrow> row list \<Rightarrow> bool" where
  "block row_of is rows \<longleftrightarrow> (\<exists>seen. length seen \<le> length is \<and>
     mapr (\<lambda>(i, vals). row_of i vals) (zip is (seen @ replicate (length is - length seen) CANCELLED)) = Inr rows \<and>
     (\<forall>vals\<in>set (butlast seen). \<not> timed_out vals) \<and>
     (length seen < length is \<longrightarrow> seen \<noteq> [] \<and> timed_out (last seen)))"

lemma mapr_zip_replicate:
  "mapr (\<lambda>(i, vals). f i vals) (zip is (replicate (length is) v)) = mapr (\<lambda>i. f i v) is"
  by (induction "is") auto

lemma block_timeout:
  assumes "row_of i vals = Inr r" "timed_out vals" "mapr (\<lambda>j. row_of j CANCELLED) is = Inr cancelled"
  shows "block row_of (i # is) (r # cancelled)"
  unfolding block_def
  by (rule exI [of _ "[vals]"]) (use assms in \<open>simp add: mapr_zip_replicate\<close>)

lemma block_more:
  assumes "row_of i vals = Inr r" "\<not> timed_out vals" "block row_of is rows" "is \<noteq> []"
  shows "block row_of (i # is) (r # rows)"
proof -
  obtain seen where seen: "length seen \<le> length is"
    "mapr (\<lambda>(i, vals). row_of i vals) (zip is (seen @ replicate (length is - length seen) CANCELLED)) = Inr rows"
    "\<forall>vals\<in>set (butlast seen). \<not> timed_out vals" "length seen < length is \<longrightarrow> seen \<noteq> [] \<and> timed_out (last seen)"
    using assms(3) unfolding block_def by blast
  then have "seen \<noteq> []" using assms(4) by auto
  then show ?thesis
    unfolding block_def by (intro exI [of _ "vals # seen"]) (use seen assms(1,2) in auto)
qed

lemma block_single: "row_of i vals = Inr r \<Longrightarrow> block row_of [i] [r]"
  unfolding block_def by (rule exI [of _ "[vals]"]) simp

lemma measure_block:
  assumes "measure_all observe row_of save attempts is s = (Inr out, t)" "is \<noteq> []"
  shows "\<exists>rows. out = attempts @ rows \<and> block row_of is rows"
  using assms
proof (induction "is" arbitrary: attempts s)
  case (Cons i "is")
  obtain vals u r cancelled v where step: "row_of i vals = Inr r"
    "(if timed_out vals then mapr (\<lambda>j. row_of j CANCELLED) is else Inr []) = Inr cancelled"
    "(if timed_out vals then retm (attempts @ r # cancelled)
       else measure_all observe row_of save (attempts @ r # cancelled) is) v = (Inr out, t)"
    using Cons.prems(1) by (auto simp: Let_def elim!: bindm_okE seqm_okE)
  consider "timed_out vals" | "\<not> timed_out vals" "is = []" | "\<not> timed_out vals" "is \<noteq> []" by blast
  then show ?case
  proof cases
    case 1
    then show ?thesis using step block_timeout [of row_of i vals r] by auto
  next
    case 2
    then show ?thesis using step block_single [of row_of i vals r] by auto
  next
    case 3
    then have "measure_all observe row_of save (attempts @ [r]) is v = (Inr out, t)" using step by simp
    from Cons.IH [OF this 3(2)] show ?thesis
      using block_more [of row_of i vals r] step(1) 3 by auto
  qed
qed simp

text \<open>A fold whose steps add one block each.\<close>

lemma foldm_blocks:
  assumes "\<And>acc c s out t. f acc c s = (Inr out, t) \<Longrightarrow> \<exists>b. out = acc @ b \<and> B c b"
    and "foldm f acc cs s = (Inr out, t)"
  shows "\<exists>blocks. out = acc @ concat blocks \<and> list_all2 B cs blocks"
  using assms(2)
proof (induction cs arbitrary: acc s)
  case Nil
  then show ?case by (auto intro: exI [of _ "[]"])
next
  case (Cons c cs)
  then obtain mid u where mid: "f acc c s = (Inr mid, u)" and rest: "foldm f mid cs u = (Inr out, t)"
    by (auto elim: bindm_okE)
  obtain b where b: "mid = acc @ b" "B c b" using assms(1) [OF mid] by blast
  obtain blocks where "out = mid @ concat blocks" "list_all2 B cs blocks" using Cons.IH [OF rest] by blast
  then show ?case using b by (intro exI [of _ "b # blocks"]) simp
qed

lemma finallym_ok: "finallym m f s = (Inr r, t) \<Longrightarrow> \<exists>u. m s = (Inr r, u)"
  by (auto simp: finallym_def split: prod.splits sum.splits)

text \<open>
  An algorithm of the benchmark and the row of one of its attempts: the row is numbered and names the
  algorithm, and its status is the status observed, except that a success may be turned down.
\<close>

locale iterations =
  fixes row_of :: "'a \<Rightarrow> int \<Rightarrow> srow \<Rightarrow> row res" and name_cell :: string and name_of :: "'a \<Rightarrow> string"
  assumes row_index: "row_of a i vals = Inr r \<Longrightarrow> map_of r ''attempt_index'' = Some (PInt i)"
    and row_name: "row_of a i vals = Inr r \<Longrightarrow> map_of r name_cell = Some (PStr (name_of a))"
    and row_status: "row_of a i vals = Inr r \<Longrightarrow> \<exists>st. map_of r ''status'' = Some (PStr st) \<and>
      (st = py_lower (dget vals ''status'' ''fail'') \<or>
       py_lower (dget vals ''status'' ''fail'') = ''success'' \<and> st = ''fail'')"
begin

lemma rows_numbered:
  assumes "block (row_of a) is rows"
  shows "map (\<lambda>r. map_of r ''attempt_index'') rows = map (\<lambda>i. Some (PInt i)) is"
    and "\<forall>r\<in>set rows. map_of r name_cell = Some (PStr (name_of a))"
proof -
  obtain seen where n: "length seen \<le> length is"
    and m: "mapr (\<lambda>(i, vals). row_of a i vals) (zip is (seen @ replicate (length is - length seen) CANCELLED)) = Inr rows"
    using assms unfolding block_def by blast
  have "map (\<lambda>r. map_of r ''attempt_index'') rows = map (\<lambda>p. Some (PInt (fst p))) ps \<and>
      (\<forall>r\<in>set rows. map_of r name_cell = Some (PStr (name_of a)))"
    if "mapr (\<lambda>(i, vals). row_of a i vals) ps = Inr rows" for ps
    using that by (induction ps arbitrary: rows) (auto simp: bindr_eq_Inr row_index row_name)
  from this [OF m] n show "map (\<lambda>r. map_of r ''attempt_index'') rows = map (\<lambda>i. Some (PInt i)) is"
    "\<forall>r\<in>set rows. map_of r name_cell = Some (PStr (name_of a))"
    by (simp_all add: comp_def flip: map_map [of "\<lambda>i. Some (PInt i)" fst, unfolded comp_def])
qed

lemma cancelled_status: "row_of a i CANCELLED = Inr r \<Longrightarrow> map_of r ''status'' = Some (PStr ''cancelled'')"
proof -
  have "py_lower (dget CANCELLED ''status'' ''fail'') = ''cancelled''" by code_simp
  then show "row_of a i CANCELLED = Inr r \<Longrightarrow> ?thesis" using row_status [of a i CANCELLED r] by auto
qed

lemma timeout_status:
  assumes "row_of a i vals = Inr r" "timed_out vals"
  shows "map_of r ''status'' = Some (PStr ''timeout'')"
proof -
  have "dget vals ''status'' ''fail'' = ''timeout''" using assms(2) by (simp add: dget_def timed_out_def)
  moreover have "py_lower ''timeout'' = ''timeout''" by code_simp
  ultimately show ?thesis using row_status [OF assms(1)] by auto
qed

end

end
