(* ===== verification/Kem_Bench.thy ===== *)
theory Kem_Bench
  imports Board_Bench
begin

text \<open>
  \<open>run_kem_benchmarks.py\<close>: key generation, encapsulation and decapsulation measured on the
  board.  A row is a success only when the board says so, reports the sizes of the table and
  found both shared secrets equal; a timeout resets the board and cancels the remaining
  iterations of the group.
\<close>

section \<open>Tables\<close>

definition KEM_CAP :: int where
  "KEM_CAP = 15 * 60"

definition PRIVATE_KEY_BYTES :: "(string, int) dict" where
  "PRIVATE_KEY_BYTES = [(''ECDHE-P-256'', 32), (''ECDHE-P-384'', 48), (''ECDHE-P-521'', 66),
     (''MLKEM512'', 1632), (''MLKEM768'', 2400), (''MLKEM1024'', 3168),
     (''SecP256r1MLKEM768'', 2432), (''X25519MLKEM768'', 2432), (''SecP384r1MLKEM1024'', 3216)]"

definition KEM_ATTEMPT_FIELDS :: "string list" where
  "KEM_ATTEMPT_FIELDS = [
     ''attempt_index'', ''component'', ''owner'', ''kex_group'', ''kex_family'',
     ''kex_nist_level'', ''kex_public_key_bytes'', ''kex_private_key_bytes'',
     ''kex_ciphertext_bytes'', ''kex_shared_secret_bytes'', ''mlkem_backend'',
     ''operation_model'', ''status'', ''wall_ms'', ''cpu_ms'',
     ''kem_keygen_ms'', ''kem_encapsulation_ms'', ''kem_decapsulation_ms'',
     ''kem_total_ms'', ''secrets_match'', ''client_cpu_cycles'',
     ''client_cycle_hz'', ''client_heap_current_bytes'',
     ''dwt_cycle_counter_supported'', ''dwt_event_counters_supported'',
     ''dwt_cyccnt'', ''dwt_cpicnt'', ''dwt_exccnt'', ''dwt_sleepcnt'',
     ''dwt_lsucnt'', ''dwt_foldcnt'', ''dwt_cycle_counter_width_bits'',
     ''dwt_event_counter_width_bits'', ''dwt_counts_are_modulo'',
     ''client_heap_peak_bytes'', ''client_heap_free_bytes'',
     ''client_heap_capacity_bytes'', ''error_code'', ''message'']"

definition KEM_SUMMARY_FIELDS :: "string list" where
  "KEM_SUMMARY_FIELDS = [
     ''component'', ''owner'', ''kex_group'', ''kex_family'', ''kex_nist_level'',
     ''kex_public_key_bytes'', ''kex_private_key_bytes'',
     ''kex_ciphertext_bytes'', ''kex_shared_secret_bytes'', ''mlkem_backend'',
     ''operation_model'', ''status'', ''success_count'', ''fail_count'',
     ''timeout_count'', ''cancelled_count'',
     ''mean_kem_keygen_ms'', ''median_kem_keygen_ms'', ''p95_kem_keygen_ms'',
     ''stddev_kem_keygen_ms'', ''mean_kem_encapsulation_ms'',
     ''median_kem_encapsulation_ms'', ''p95_kem_encapsulation_ms'',
     ''stddev_kem_encapsulation_ms'', ''mean_kem_decapsulation_ms'',
     ''median_kem_decapsulation_ms'', ''p95_kem_decapsulation_ms'',
     ''stddev_kem_decapsulation_ms'', ''mean_kem_total_ms'',
     ''median_kem_total_ms'', ''p95_kem_total_ms'', ''stddev_kem_total_ms'',
     ''mean_cpu_ms'', ''max_client_heap_peak_bytes'',
     ''mean_dwt_cyccnt'', ''mean_dwt_cpicnt'', ''mean_dwt_exccnt'',
     ''mean_dwt_sleepcnt'', ''mean_dwt_lsucnt'', ''mean_dwt_foldcnt'']"

section \<open>Cases\<close>

definition add_kem_case :: "(string, srow) dict \<Rightarrow> srow \<Rightarrow> (string, srow) dict res" where
  "add_kem_case selected r = bindr (dindex r ''kex_group'') (\<lambda>g.
     if \<not> dhas KEMS_BY_NAME g then Inl (ValueError (''unknown KEM group: '' @ g))
     else Inr (dsetdefault g r selected))"

definition read_kem_cases :: "string \<Rightarrow> srow list res" where
  "read_kem_cases text = bindr (dict_reader text) (\<lambda>(names, rows).
     if ''kex_group'' \<notin> set names then Inl (ValueError ''case CSV is missing kex_group'')
     else bindr (foldr_res add_kem_case [] (filter case_enabled rows)) (\<lambda>selected.
       if selected = [] then Inl (ValueError ''case CSV has no enabled KEM cases'')
       else Inr (map snd selected)))"

section \<open>The row of an attempt\<close>

definition SIZE_FIELDS :: "string list" where
  "SIZE_FIELDS = [''kex_public_key_bytes'', ''kex_private_key_bytes'', ''kex_ciphertext_bytes'',
     ''kex_shared_secret_bytes'']"

definition expected_sizes :: "kem \<Rightarrow> int list res" where
  "expected_sizes k = bindr (dindex PRIVATE_KEY_BYTES (kem_name k)) (\<lambda>private.
     Inr [kem_public_key_bytes k, private, kem_ciphertext_bytes k, kem_shared_secret_bytes k])"

text \<open>The verdict on the values of the board: status, error code and message.\<close>

definition kem_verdict :: "srow \<Rightarrow> int list \<Rightarrow> int list \<Rightarrow> string \<times> string \<times> string" where
  "kem_verdict vals reported expected =
     (let st = py_lower (dget vals ''status'' ''fail'');
          size_mismatch = (st = ''success'' \<and> reported \<noteq> expected);
          secret_mismatch = (st = ''success'' \<and> dget vals ''secrets_match'' ''0'' \<noteq> ''1'')
      in (if size_mismatch \<or> secret_mismatch then ''fail'' else st,
          if size_mismatch then ''metadata_mismatch''
          else if secret_mismatch then ''shared_secret_mismatch'' else dget vals ''error'' [],
          if size_mismatch then ''reported_sizes='' @ tuple_text reported @ '',expected='' @ tuple_text expected
          else if secret_mismatch then ''encapsulated and decapsulated secrets differ''
          else if st = ''success'' then [] else dget vals ''stage'' []))"

text \<open>The cells of a row: computed times, then the verdict.\<close>

definition kem_row ::
  "kem \<Rightarrow> int \<Rightarrow> srow \<Rightarrow> string \<times> string \<times> string \<times> string \<times> string \<Rightarrow> string \<times> string \<times> string \<Rightarrow> row" where
  "kem_row k attempt vals durations verdict =
     (case durations of (total_ms, cpu_ms, keygen, encapsulation, decapsulation) \<Rightarrow> case verdict of (st, error, message) \<Rightarrow>
       [(''attempt_index'', PInt attempt), (''component'', PStr ''on_device_kem''),
        (''owner'', PStr ''client''), (''kex_group'', PStr (kem_name k)),
        (''kex_family'', PStr (kem_family k)), (''kex_nist_level'', PInt (kem_nist_level k))] @
       copy_cells vals (SIZE_FIELDS @ [''mlkem_backend'', ''operation_model'']) @
       [(''status'', PStr st), (''wall_ms'', PStr total_ms), (''cpu_ms'', PStr cpu_ms),
        (''kem_keygen_ms'', PStr keygen), (''kem_encapsulation_ms'', PStr encapsulation),
        (''kem_decapsulation_ms'', PStr decapsulation), (''kem_total_ms'', PStr total_ms)] @
       copy_cells vals ([''secrets_match'', ''client_cpu_cycles'', ''client_cycle_hz''] @ DWT_CELLS @
         [''client_heap_current_bytes'', ''client_heap_peak_bytes'', ''client_heap_free_bytes'',
          ''client_heap_capacity_bytes'']) @
       [(''error_code'', PStr error), (''message'', PStr message)])"

definition kem_attempt_row :: "kem \<Rightarrow> int \<Rightarrow> srow \<Rightarrow> row res" where
  "kem_attempt_row k attempt vals =
     bindr (expected_sizes k) (\<lambda>expected.
     bindr (mapr (int_or_zero vals) SIZE_FIELDS) (\<lambda>reported.
     bindr (int_or_zero vals ''client_cycle_hz'') (\<lambda>cycle_hz.
     bindr (int_or_zero vals ''client_cpu_cycles'') (\<lambda>cycles.
     bindr (us_to_ms vals ''kem_total_us'') (\<lambda>total_ms.
     bindr (us_to_ms vals ''kem_keygen_us'') (\<lambda>keygen.
     bindr (us_to_ms vals ''kem_encapsulation_us'') (\<lambda>encapsulation.
     bindr (us_to_ms vals ''kem_decapsulation_us'') (\<lambda>decapsulation.
     Inr (kem_row k attempt vals
       (total_ms, share_cell cycles 1000 cycle_hz, keygen, encapsulation, decapsulation)
       (kem_verdict vals reported expected))))))))))"

section \<open>Summaries\<close>

definition distribution :: "rat list \<Rightarrow> (string \<times> string \<times> string \<times> string) res" where
  "distribution vals = (if vals = [] then Inr ([], [], [], [])
     else bindr (percentile_text vals) (\<lambda>p95.
       Inr (fmt_fixed 3 (stat_mean vals), fmt_fixed 3 (stat_median vals), p95,
            if 1 < length vals then fmt_fixed 3 (stat_stdev vals) else ''0.000'')))"

definition distribution_cells :: "row list \<Rightarrow> string \<Rightarrow> row res" where
  "distribution_cells success key =
     bindr (bindr (get_numbers key success) distribution) (\<lambda>(mean, median, p95, stddev).
     Inr [(''mean_'' @ key, PStr mean), (''median_'' @ key, PStr median), (''p95_'' @ key, PStr p95),
          (''stddev_'' @ key, PStr stddev)])"

definition stat_mean_text :: "rat list \<Rightarrow> string" where
  "stat_mean_text vals = (if vals = [] then [] else fmt_fixed 3 (stat_mean vals))"

definition kem_groups :: "row list \<Rightarrow> (string, row list) dict res" where
  "kem_groups rows = foldr_res (\<lambda>d r. bindr (bindr (cell r ''kex_group'') pv_text) (\<lambda>g. Inr (dappend g r d))) [] rows"

definition kem_summary_row :: "row list \<Rightarrow> row res" where
  "kem_summary_row items =
     bindr (filterr (has_status ''success'') items) (\<lambda>success.
     bindr (mapr (distribution_cells success)
       [''kem_keygen_ms'', ''kem_encapsulation_ms'', ''kem_decapsulation_ms'', ''kem_total_ms'']) (\<lambda>spreads.
     bindr (get_numbers ''cpu_ms'' success) (\<lambda>cpu.
     bindr (get_numbers ''client_heap_peak_bytes'' success) (\<lambda>heap.
     bindr (mapr (\<lambda>k. bindr (get_numbers k success) (\<lambda>xs. Inr (''mean_'' @ k, PStr (stat_mean_text xs)))) DWT_FIELDS) (\<lambda>dwt.
     bindr (count_status ''fail'' items) (\<lambda>fails.
     bindr (count_status ''timeout'' items) (\<lambda>timeouts.
     bindr (count_status ''cancelled'' items) (\<lambda>cancelled.
     Inr (map (\<lambda>k. (k, dget (hd items) k (PStr [])))
            ([''component'', ''owner'', ''kex_group'', ''kex_family'', ''kex_nist_level''] @ SIZE_FIELDS @
             [''mlkem_backend'', ''operation_model'']) @
          [(''status'', PStr (if length success = length items then ''success'' else ''fail'')),
           (''success_count'', PInt (int (length success))), (''fail_count'', PInt fails),
           (''timeout_count'', PInt timeouts), (''cancelled_count'', PInt cancelled)] @
          concat spreads @
          [(''mean_cpu_ms'', PStr (stat_mean_text cpu)),
           (''max_client_heap_peak_bytes'', PStr (max_text 0 heap))] @ dwt)))))))))"

definition kem_summarize :: "row list \<Rightarrow> row list res" where
  "kem_summarize rows = bindr (kem_groups rows) (\<lambda>groups.
     mapr (\<lambda>(g, items). kem_summary_row items) (sort_key fst groups))"

section \<open>The board\<close>

record kem_args = bench_args +
  km_dry_run :: bool
  km_mlkem_backend :: string

definition kem_command :: "kem \<Rightarrow> int \<Rightarrow> string" where
  "kem_command k attempt = ''KEMBENCH kembench__'' @ slug (kem_name k) @ '' '' @ kem_name k @ '' '' @
     str_int attempt @ newline"

definition await_ready :: "('w, 'g) site \<Rightarrow> 'z bench_args_scheme \<Rightarrow> string \<Rightarrow> ('w, srow) io" where
  "await_ready S a run_dir = wait_for_board_marker (si_host S) (si_fuel S) (path_join run_dir ''board.log'')
     ''[BENCH_READY]'' (bn_ready_timeout a)"

definition reset_bench_board :: "('w, 'g) site \<Rightarrow> 'z bench_args_scheme \<Rightarrow> string \<Rightarrow> ('w, unit) io" where
  "reset_bench_board S a run_dir = reset_firmware (si_host S) (path_join run_dir ''flash.log'') (bn_nrfutil a)"

definition kem_observe :: "('w, 'g) site \<Rightarrow> 'w wire \<Rightarrow> kem_args \<Rightarrow> string \<Rightarrow> kem \<Rightarrow> int \<Rightarrow> ('w, srow) io" where
  "kem_observe S L a run_dir k attempt =
     seqm (wr_write L (encode_str (kem_command k attempt)))
     (seqm (wr_flush L)
     (bindm (liftm (bindr (capped KEM_CAP (bn_attempt_timeout a)) pv_float)) (\<lambda>timeout.
      catchm (wait_for_board_marker (si_host S) (si_fuel S) (path_join run_dir ''board.log'')
          ''[BENCH_KEM_RESULT]'' timeout)
        is_timeout
        (\<lambda>_. seqm (reset_bench_board S a run_dir) (seqm (await_ready S a run_dir) (retm TIMED_OUT))))))"

definition kem_case :: "('w, 'g) site \<Rightarrow> 'w wire \<Rightarrow> kem_args \<Rightarrow> string \<Rightarrow> row list \<Rightarrow> srow \<Rightarrow> ('w, row list) io" where
  "kem_case S L a run_dir attempts c =
     bindm (liftm (bindr (dindex c ''kex_group'') (dindex KEMS_BY_NAME))) (\<lambda>k.
     measure_all (kem_observe S L a run_dir k) (kem_attempt_row k)
       (save_csv (si_host S) (path_join run_dir ''attempts.csv'') KEM_ATTEMPT_FIELDS)
       attempts [1..bn_iterations a])"

definition kem_session ::
  "('w, 'g) site \<Rightarrow> 'w wire \<Rightarrow> kem_args \<Rightarrow> string \<Rightarrow> srow list \<Rightarrow> ('w, row list) io" where
  "kem_session S L a run_dir cases = (let C = si_console S in
     seqm (cn_serial_open C (bn_serial_device a) (bn_serial_baud a))
     (finallym
       (seqm (h_reset_input (si_host S))
       (seqm (whenm (bn_skip_flash a) (reset_bench_board S a run_dir))
       (seqm (await_ready S a run_dir)
        (foldm (kem_case S L a run_dir) [] cases))))
       (cn_serial_close C)))"

section \<open>The program\<close>

definition kem_args_of ::
  "('w, 'g) site \<Rightarrow> string option \<Rightarrow> (kem_args \<Rightarrow> kem_args) \<Rightarrow> ('w, kem_args) io" where
  "kem_args_of S config_path options = (let H = si_host S; C = si_console S in
     bindm (config_device H (case config_path of None \<Rightarrow> path_join (si_bench S) ''config.json'' | Some p \<Rightarrow> p)) (\<lambda>device.
     bindm (nrfutil_path C) (\<lambda>nrfutil.
     bindm (ncs_path H C) (\<lambda>ncs_chdir.
     retm (options (bench_args.extend (default_bench_args 5 KEM_CAP device nrfutil ncs_chdir)
       \<lparr>km_dry_run = False, km_mlkem_backend = ''pqm4-m4fstack''\<rparr>))))))"

definition kem_cases :: "('w, 'g) site \<Rightarrow> kem_args \<Rightarrow> ('w, srow list) io" where
  "kem_cases S a =
     bindm (h_read (si_host S) (bn_cases a)) (\<lambda>text. liftm (
       bindr (read_kem_cases text) (\<lambda>cases.
       bindr (wanted_cases ''unknown or disabled KEMs: '' ''kex_group'' (bn_only a) cases) (\<lambda>kept.
       let chosen = first_cases (bn_limit a) (seeded_shuffle (si_rng S) (bn_seed a) kept) in
       if chosen = [] then Inl (ValueError ''no KEMs selected'') else Inr chosen))))"

definition kem_config :: "kem_args \<Rightarrow> row res" where
  "kem_config a = bindr (capped KEM_CAP (bn_attempt_timeout a)) (\<lambda>timeout.
     Inr [(''mode'', PStr ''on-device-kem-operations''), (''board'', PStr (bn_board a)),
       (''serial_device'', PStr (bn_serial_device a)), (''iterations'', PInt (bn_iterations a)),
       (''seed'', PInt (bn_seed a)), (''mlkem_backend'', PStr (km_mlkem_backend a)),
       (''attempt_timeout_sec'', timeout)])"

definition kem_manifest_row :: "kem_args \<Rightarrow> string \<Rightarrow> int \<times> srow \<Rightarrow> row res" where
  "kem_manifest_row a run_id sc = bindr (dindex (snd sc) ''kex_group'') (\<lambda>g.
     Inr [(''sequence'', PInt (fst sc)), (''case_id'', PStr (''kembench__'' @ slug g)), (''kex_group'', PStr g),
       (''seed'', PInt (bn_seed a)), (''run_id'', PStr run_id)])"

definition kem_manifest :: "('w, 'g) site \<Rightarrow> kem_args \<Rightarrow> string \<Rightarrow> string \<Rightarrow> srow list \<Rightarrow> ('w, unit) io" where
  "kem_manifest S a run_id run_dir cases = (let H = si_host S in
     seqm (dk_copy (si_disk S) (bn_cases a) (path_join run_dir ''input_cases.csv''))
     (seqm (h_write H (path_join run_dir ''seed.txt'') (str_int (bn_seed a) @ newline))
     (bindm (liftm (kem_config a)) (\<lambda>config.
      seqm (write_json H (path_join run_dir ''run_config.json'') config)
      (bindm (liftm (mapr (kem_manifest_row a run_id) (enumerate_from 1 cases))) (\<lambda>rows.
       save_csv H (path_join run_dir ''run_manifest.csv'')
         [''sequence'', ''case_id'', ''kex_group'', ''seed'', ''run_id''] rows))))))"

definition kem_build_args :: "string \<Rightarrow> kem_args \<Rightarrow> string \<Rightarrow> string \<Rightarrow> string option \<Rightarrow> build_args" where
  "kem_build_args bench a run_dir build_dir pqm4_dir =
     \<lparr>ba_firmware_dir = path_join bench ''firmware'', ba_build_dir = build_dir, ba_generated_dir = run_dir,
      ba_log = path_join run_dir ''build.log'', ba_nrfutil = bn_nrfutil a, ba_ncs_version = bn_ncs_version a,
      ba_ncs_chdir = bn_ncs_chdir a, ba_board = bn_board a, ba_mlkem_backend = km_mlkem_backend a,
      ba_pqm4_dir = pqm4_dir, ba_power_markers = False, ba_ble_telemetry = False, ba_mtls = False,
      ba_certificate_gen = False, ba_kem_benchmark = True, ba_transfer_mode = False\<rparr>"

definition install_firmware ::
  "('w, 'g) site \<Rightarrow> 'z bench_args_scheme \<Rightarrow> string \<Rightarrow> string \<Rightarrow> build_args \<Rightarrow> ('w, unit) io" where
  "install_firmware S a run_dir build_dir b = (let H = si_host S; hex = path_join build_dir ''zephyr/zephyr.hex'' in
     bindm (if bn_skip_build a then h_exists H hex else retm True) (\<lambda>ready.
     if \<not> ready then raisem (FileNotFoundError (''--skip-build requested but '' @ hex @ '' does not exist''))
     else seqm (whenm (\<not> bn_skip_build a) (build_firmware H b))
       (whenm (\<not> bn_skip_flash a) (flash_firmware H build_dir (path_join run_dir ''flash.log'')
          (bn_nrfutil a) (bn_ncs_version a) (bn_ncs_chdir a)))))"

definition kem_firmware :: "('w, 'g) site \<Rightarrow> kem_args \<Rightarrow> string \<Rightarrow> ('w, unit) io" where
  "kem_firmware S a run_dir = (let bench = si_bench S; pqm4 = path_join (WORK bench) ''pqm4'';
       build_dir = WORK bench @ ''/firmware-build/kem-operations-nrf5340-'' @ slug (km_mlkem_backend a) in
     bindm (if km_mlkem_backend a = ''pqm4-m4fstack''
       then seqm (ensure_pqm4 (si_host S) pqm4 (path_join run_dir ''build.log'')) (retm (Some pqm4))
       else retm None) (\<lambda>pqm4_dir.
     install_firmware S a run_dir build_dir (kem_build_args bench a run_dir build_dir pqm4_dir)))"

definition kem_main ::
  "('w, 'g) site \<Rightarrow> 'w wire \<Rightarrow> string option \<Rightarrow> (kem_args \<Rightarrow> kem_args) \<Rightarrow> ('w, int) io" where
  "kem_main S L config_path options =
     bindm (kem_args_of S config_path options) (\<lambda>a.
     seqm (liftm (check_bench_args a))
     (bindm (kem_cases S a) (\<lambda>cases.
      bindm (new_run_dir S (bn_run_id a) ''kem_device_'' (''_'' @ str_int (bn_seed a))) (\<lambda>(run_id, run_dir).
      seqm (kem_manifest S a run_id run_dir cases)
      (if km_dry_run a then retm 0
       else seqm (kem_firmware S a run_dir)
         (bindm (kem_session S L a run_dir cases) (\<lambda>attempts.
          bindm (liftm (kem_summarize attempts)) (\<lambda>summaries.
          seqm (save_csv (si_host S) (path_join run_dir ''summary.csv'') KEM_SUMMARY_FIELDS summaries)
          (retm 0)))))))))"


section \<open>The row of an attempt, cell by cell\<close>

lemma map_of_copy_cells:
  "map_of (copy_cells vals keys) k = (if k \<in> set keys then Some (PStr (dget vals k [])) else None)"
  by (induction keys) (auto simp: copy_cells_def)

lemma map_of_append_case: "map_of (xs @ ys) k = (case map_of xs k of None \<Rightarrow> map_of ys k | Some v \<Rightarrow> Some v)"
  by (simp add: map_add_def split: option.splits)

lemmas kem_keys = SIZE_FIELDS_def DWT_CELLS_def DWT_FIELDS_def

lemma kem_row_keys:
  "map_of (kem_row k attempt vals durations verdict) ''attempt_index'' = Some (PInt attempt)"
  "map_of (kem_row k attempt vals durations verdict) ''kex_group'' = Some (PStr (kem_name k))"
  "map_of (kem_row k attempt vals durations verdict) ''status'' = Some (PStr (fst verdict))"
  by (cases durations; cases verdict;
      simp add: kem_row_def map_of_append_case map_of_copy_cells kem_keys del: map_of_append)+

lemma kem_row_cells:
  assumes "kem_attempt_row k attempt vals = Inr r"
  obtains expected reported where "expected_sizes k = Inr expected" "mapr (int_or_zero vals) SIZE_FIELDS = Inr reported"
    "map_of r ''attempt_index'' = Some (PInt attempt)" "map_of r ''kex_group'' = Some (PStr (kem_name k))"
    "map_of r ''status'' = Some (PStr (fst (kem_verdict vals reported expected)))"
  using assms unfolding kem_attempt_row_def bindr_eq_Inr by (auto simp: kem_row_keys)

lemma kem_verdict_status:
  "fst (kem_verdict vals reported expected) =
    (if py_lower (dget vals ''status'' ''fail'') = ''success'' \<and>
        (reported \<noteq> expected \<or> dget vals ''secrets_match'' ''0'' \<noteq> ''1'') then ''fail''
     else py_lower (dget vals ''status'' ''fail''))"
  unfolding kem_verdict_def Let_def by (simp split: if_split)

lemma kem_verdict_success:
  "fst (kem_verdict vals reported expected) = ''success'' \<longleftrightarrow>
    py_lower (dget vals ''status'' ''fail'') = ''success'' \<and> reported = expected \<and> dget vals ''secrets_match'' ''0'' = ''1''"
  unfolding kem_verdict_status by (simp split: if_split) blast

interpretation kem_rows: iterations kem_attempt_row "''kex_group''" kem_name
proof
  fix k i vals r
  assume r: "kem_attempt_row k i vals = Inr r"
  show "map_of r ''attempt_index'' = Some (PInt i)" "map_of r ''kex_group'' = Some (PStr (kem_name k))"
    using kem_row_cells [OF r] by blast+
  show "\<exists>st. map_of r ''status'' = Some (PStr st) \<and> (st = py_lower (dget vals ''status'' ''fail'') \<or>
      py_lower (dget vals ''status'' ''fail'') = ''success'' \<and> st = ''fail'')"
    by (rule kem_row_cells [OF r]) (simp add: kem_verdict_status)
qed

section \<open>The cases\<close>

text \<open>The first row of each group, in order of first appearance.\<close>

definition group_of :: "srow \<Rightarrow> string" where
  "group_of r = dget r ''kex_group'' []"

fun first_of_groups :: "srow list \<Rightarrow> srow list" where
  "first_of_groups [] = []"
| "first_of_groups (r # rs) = r # filter (\<lambda>x. group_of x \<noteq> group_of r) (first_of_groups rs)"

definition known_group :: "srow \<Rightarrow> bool" where
  "known_group r \<longleftrightarrow> group_of r \<in> set (map kem_name KEMS)"

lemma known_kems: "dhas KEMS_BY_NAME g \<longleftrightarrow> g \<in> set (map kem_name KEMS)"
proof -
  have "map fst KEMS_BY_NAME = map kem_name KEMS" by code_simp
  then have "fst ` set KEMS_BY_NAME = set (map kem_name KEMS)" by (metis set_map)
  then show ?thesis unfolding dhas_def by (metis map_of_eq_None_iff)
qed

lemma dset_fresh: "\<not> dhas d k \<Longrightarrow> dset k v d = d @ [(k, v)]"
  by (induction d) (auto simp: dset_def dhas_iff_key)

lemma fold_first_of_groups:
  "map snd (fold (\<lambda>r d. dsetdefault (group_of r) r d) rows d) =
    map snd d @ filter (\<lambda>r. \<not> dhas d (group_of r)) (first_of_groups rows)"
proof (induction rows arbitrary: d)
  case (Cons r rows)
  show ?case
  proof (cases "dhas d (group_of r)")
    case True
    then have "filter (\<lambda>x. \<not> dhas d (group_of x) \<and> group_of x \<noteq> group_of r) xs = filter (\<lambda>x. \<not> dhas d (group_of x)) xs" for xs
      by (induction xs) auto
    with True Cons show ?thesis by (simp add: dsetdefault_def conj_commute)
  next
    case False
    with Cons show ?thesis by (simp add: dsetdefault_def) (simp add: dset_fresh False conj_commute)
  qed
qed simp

lemma add_kem_cases:
  assumes "\<forall>r\<in>set rows. dhas r ''kex_group''"
  shows "foldr_res add_kem_case d rows = (case filter (\<lambda>r. \<not> known_group r) rows of
      [] \<Rightarrow> Inr (fold (\<lambda>r d. dsetdefault (group_of r) r d) rows d)
    | r # _ \<Rightarrow> Inl (ValueError (''unknown KEM group: '' @ group_of r)))"
  using assms
proof (induction rows arbitrary: d)
  case (Cons r rows)
  then have "dindex r ''kex_group'' = Inr (group_of r)"
    by (auto simp: dindex_def dhas_def group_of_def dget_def split: option.splits)
  then show ?case using Cons by (simp add: add_kem_case_def known_kems known_group_def split: list.split)
qed simp

lemma reader_keys:
  assumes "dict_reader text = Inr (names, rows)" "r \<in> set rows" "k \<in> set names"
  shows "dhas r k"
proof -
  obtain ls where "mapr (dict_row names) ls = Inr rows"
    using assms by (auto simp: dict_reader_def bindr_eq_Inr split: list.splits)
  then have "\<exists>l. dict_row names l = Inr r"
    using assms(2) by (induction ls arbitrary: rows) (auto simp: bindr_eq_Inr)
  then obtain l where l: "length l = length names" "r = dict_of (zip names l)"
    by (auto simp: dict_row_def split: if_splits)
  have "k \<in> set (map fst (zip names l))" using assms(3) l(1) by simp
  then show ?thesis
    unfolding dhas_def l(2) map_of_dict_of by (metis map_of_eq_None_iff rev_map set_map set_rev)
qed

section \<open>Waiting for a marked line\<close>

definition calm_board :: "'w host \<Rightarrow> ('w \<Rightarrow> rat) \<Rightarrow> bool" where
  "calm_board H clk \<longleftrightarrow> calm clk (h_readline H) \<and> (\<forall>p t. calm clk (h_append H p t)) \<and> (\<forall>p. calm clk (h_mkdir H p))"

lemma calm_board_text: "calm_board H clk \<Longrightarrow> calm clk (board_text H logf)"
  unfolding board_text_def calm_board_def
  by (auto simp: Let_def decode_replace_fuel intro!: calm_bindm calm_seqm)

lemma marker_round_found:
  assumes "marker_round H logf marker deadline a s = (Inr (Inr r), t)"
  shows "\<exists>line. parse_board_values line marker = Some r"
proof -
  obtain now u where "h_monotonic H s = (Inr now, u)" and rest: "(if \<not> now < deadline then raisem TimeoutError
      else bindm (board_text H logf) (\<lambda>line. case line of None \<Rightarrow> retm (Inl ())
       | Some l \<Rightarrow> retm (case parse_board_values l marker of None \<Rightarrow> Inl () | Some vals \<Rightarrow> Inr vals))) u = (Inr (Inr r), t)"
    using assms unfolding marker_round_def by (rule bindm_okE)
  have "bindm (board_text H logf) (\<lambda>line. case line of None \<Rightarrow> retm (Inl ())
       | Some l \<Rightarrow> retm (case parse_board_values l marker of None \<Rightarrow> Inl () | Some vals \<Rightarrow> Inr vals)) u = (Inr (Inr r), t)"
    using rest by (simp split: if_splits)
  then obtain line v where "(case line of None \<Rightarrow> retm (Inl ())
       | Some l \<Rightarrow> retm (case parse_board_values l marker of None \<Rightarrow> Inl () | Some vals \<Rightarrow> Inr vals)) v = (Inr (Inr r), t)"
    by (rule bindm_okE)
  then show ?thesis by (cases line) (simp_all split: option.splits, blast)
qed

lemma marker_round_advances:
  assumes H: "clock_advances H clk \<delta>" "calm_board H clk"
  shows "round_advances clk deadline \<delta> (marker_round H logf marker deadline)"
  unfolding round_advances_def
proof (intro conjI allI)
  show "0 < \<delta>" using H(1) by (simp add: clock_advances_def)
  fix a s
  obtain w where w: "h_monotonic H s = (Inr (clk s), w)" "clk s + \<delta> \<le> clk w"
    using H(1) unfolding clock_advances_def by blast
  define rest :: "('a, unit + srow) io" where
    "rest = bindm (board_text H logf) (\<lambda>line. case line of None \<Rightarrow> retm (Inl ())
       | Some l \<Rightarrow> retm (case parse_board_values l marker of None \<Rightarrow> Inl () | Some vals \<Rightarrow> Inr vals))"
  have "calm clk rest"
    unfolding rest_def by (auto intro!: calm_bindm calm_board_text [OF H(2)] split: option.splits)
  then have r: "clk w \<le> clk (snd (rest w))" "fst (rest w) \<noteq> Inl out_of_fuel" by (auto simp: calm_def)
  have "marker_round H logf marker deadline a s = (if \<not> clk s < deadline then raisem TimeoutError else rest) w"
    by (simp add: marker_round_def bindm_def w(1) rest_def)
  then show "case marker_round H logf marker deadline a s of (Inl e, t) \<Rightarrow> e \<noteq> out_of_fuel
      | (Inr (Inl a'), t) \<Rightarrow> clk s < deadline \<and> clk s + \<delta> \<le> clk t | (Inr (Inr r), t) \<Rightarrow> True"
    using r w(2) by (auto simp: out_of_fuel_def split: prod.splits sum.splits)
qed

section \<open>The table of a session\<close>

definition kem_block :: "int \<Rightarrow> srow \<Rightarrow> row list \<Rightarrow> bool" where
  "kem_block n c b \<longleftrightarrow> (\<exists>k. dindex c ''kex_group'' = Inr (kem_name k) \<and> block (kem_attempt_row k) [1..n] b \<and>
     map (\<lambda>r. map_of r ''attempt_index'') b = map (\<lambda>i. Some (PInt i)) [1..n] \<and>
     (\<forall>r\<in>set b. map_of r ''kex_group'' = Some (PStr (kem_name k))))"

lemma kem_found:
  assumes "dindex KEMS_BY_NAME g = Inr k"
  shows "kem_name k = g"
proof -
  have "\<forall>(n, k)\<in>set KEMS_BY_NAME. kem_name k = n" by code_simp
  moreover have "(g, k) \<in> set KEMS_BY_NAME"
    using assms by (auto simp: dindex_def dest: map_of_SomeD split: option.splits)
  ultimately show ?thesis by auto
qed

lemma kem_case_block:
  assumes "kem_case S L a run_dir attempts c s = (Inr out, t)" "1 \<le> bn_iterations a"
  shows "\<exists>b. out = attempts @ b \<and> kem_block (bn_iterations a) c b"
proof -
  obtain g k where g: "dindex c ''kex_group'' = Inr g" "dindex KEMS_BY_NAME g = Inr k"
    and m: "measure_all (kem_observe S L a run_dir k) (kem_attempt_row k)
       (save_csv (si_host S) (path_join run_dir ''attempts.csv'') KEM_ATTEMPT_FIELDS)
       attempts [1..bn_iterations a] s = (Inr out, t)"
    using assms(1) by (auto simp: kem_case_def bindr_eq_Inr elim!: bindm_okE)
  have "[1..bn_iterations a] \<noteq> []" using assms(2) by simp
  from measure_block [OF m this] obtain b where b: "out = attempts @ b" "block (kem_attempt_row k) [1..bn_iterations a] b"
    by blast
  then show ?thesis
    using kem_rows.rows_numbered [OF b(2)] g kem_found [OF g(2)] unfolding kem_block_def by blast
qed

section \<open>Properties\<close>

text \<open>
  C21: A row of the KEM benchmark is a success exactly when the board reported a success (in any
  case of letters), the four sizes it reported are those of the table of algorithms, and it
  found the two shared secrets equal.
\<close>

theorem kem_success_verified:
  assumes "kem_attempt_row k attempt vals = Inr r"
  shows "map_of r ''status'' = Some (PStr ''success'') \<longleftrightarrow>
    py_lower (dget vals ''status'' ''fail'') = ''success'' \<and>
    mapr (int_or_zero vals) SIZE_FIELDS = expected_sizes k \<and> map_of vals ''secrets_match'' = Some ''1''"
proof -
  have secret: "map_of vals ''secrets_match'' = Some ''1'' \<longleftrightarrow> dget vals ''secrets_match'' ''0'' = ''1''"
    by (simp add: dget_def split: option.split)
  obtain expected reported where sizes: "expected_sizes k = Inr expected" "mapr (int_or_zero vals) SIZE_FIELDS = Inr reported"
    and st: "map_of r ''status'' = Some (PStr (fst (kem_verdict vals reported expected)))"
    using kem_row_cells [OF assms] by metis
  show ?thesis
    unfolding st sizes secret option.inject pyval.inject kem_verdict_success sum.inject by (rule refl)
qed

definition demo_kem_values :: srow where
  "demo_kem_values = [(''status'', ''SUCCESS''), (''kex_public_key_bytes'', ''800''), (''kex_private_key_bytes'', ''1632''),
     (''kex_ciphertext_bytes'', ''768''), (''kex_shared_secret_bytes'', ''32''), (''secrets_match'', ''1'')]"

definition demo_kem :: kem where
  "demo_kem = mk_kem ''MLKEM512'' 1 800 768 32 ''pqc'' ''WOLFSSL_ML_KEM_512'' ''MLKEM512''"

lemma kem_success_verified_witness:
  "\<exists>r. kem_attempt_row demo_kem 1 demo_kem_values = Inr r \<and> map_of r ''status'' = Some (PStr ''success'')"
proof -
  have "case kem_attempt_row demo_kem 1 demo_kem_values of Inl e \<Rightarrow> False | Inr r \<Rightarrow> True" by code_simp
  then obtain r where r: "kem_attempt_row demo_kem 1 demo_kem_values = Inr r" by (auto split: sum.splits)
  moreover have "py_lower (dget demo_kem_values ''status'' ''fail'') = ''success''"
    "mapr (int_or_zero demo_kem_values) SIZE_FIELDS = expected_sizes demo_kem"
    "map_of demo_kem_values ''secrets_match'' = Some ''1''"
    by code_simp+
  ultimately show ?thesis using kem_success_verified [OF r] by blast
qed


text \<open>
  C28: The case table is read as a whole or turned down for its first defect: a missing column, the
  first enabled row of an unknown group, or no enabled row; otherwise the cases are the
  first enabled row of each group, in order of first appearance.
\<close>

theorem kem_cases_read:
  assumes "dict_reader text = Inr (names, every)"
  defines "rows \<equiv> filter case_enabled every"
  shows "read_kem_cases text =
    (if ''kex_group'' \<notin> set names then Inl (ValueError ''case CSV is missing kex_group'')
     else case filter (\<lambda>r. \<not> known_group r) rows of
         r # _ \<Rightarrow> Inl (ValueError (''unknown KEM group: '' @ group_of r))
       | [] \<Rightarrow> if rows = [] then Inl (ValueError ''case CSV has no enabled KEM cases'') else Inr (first_of_groups rows))"
proof (cases "''kex_group'' \<in> set names")
  case True
  then have "\<forall>r\<in>set rows. dhas r ''kex_group''"
    using reader_keys [OF assms(1)] by (auto simp: rows_def)
  note read = add_kem_cases [OF this, of "[]"]
  define chosen where "chosen = fold (\<lambda>r d. dsetdefault (group_of r) r d) rows []"
  have chosen: "map snd chosen = first_of_groups rows"
    using fold_first_of_groups [of rows "[]"] by (simp add: chosen_def dhas_def)
  then have "chosen = [] \<longleftrightarrow> rows = []" by (cases rows) auto
  then show ?thesis
    using True assms(1) chosen
    by (simp add: read_kem_cases_def read flip: rows_def chosen_def split: list.split)
qed (simp add: read_kem_cases_def assms)

lemma kem_cases_read_witness:
  "\<exists>names every. dict_reader (''kex_group,enabled'' @ newline @ ''MLKEM512,1'' @ newline @ ''nope,yes'' @ newline) = Inr (names, every) \<and>
    read_kem_cases (''kex_group,enabled'' @ newline @ ''MLKEM512,1'' @ newline @ ''nope,yes'' @ newline) =
      Inl (ValueError (''unknown KEM group: '' @ ''nope''))"
proof -
  let ?rows = "[[(''kex_group'', ''MLKEM512''), (''enabled'', ''1'')], [(''kex_group'', ''nope''), (''enabled'', ''yes'')]]"
  have t: "dict_reader (''kex_group,enabled'' @ newline @ ''MLKEM512,1'' @ newline @ ''nope,yes'' @ newline) =
      Inr ([''kex_group'', ''enabled''], ?rows)"
    by code_simp
  have f: "filter case_enabled ?rows = ?rows" by code_simp
  have u: "filter (\<lambda>r. \<not> known_group r) ?rows = [[(''kex_group'', ''nope''), (''enabled'', ''yes'')]]" by code_simp
  have g: "group_of [(''kex_group'', ''nope''), (''enabled'', ''yes'')] = ''nope''" by code_simp
  show ?thesis
    using kem_cases_read [OF t] by (simp only: f u g t list.case) simp
qed

text \<open>
  C23: Waiting for a marked line ends: when the clock advances with every reading and the fuel
  covers the deadline, the wait gives the values of a line that carries the marker, or an
  exception that is not that of running out of fuel, such as the timeout.
\<close>

theorem marker_wait_ends:
  assumes "clock_advances H clk \<delta>" "calm_board H clk" "fadd (clk s) timeout \<le> clk s + of_nat fuel * \<delta>"
  shows "case fst (wait_for_board_marker H (Suc fuel) logf marker timeout s) of
      Inl e \<Rightarrow> e \<noteq> out_of_fuel | Inr vals \<Rightarrow> \<exists>line. parse_board_values line marker = Some vals"
proof -
  define D where "D = fadd (clk s) timeout"
  let ?body = "marker_round H logf marker D"
  have found: "\<exists>line. parse_board_values line marker = Some r" if "?body a u = (Inr (Inr r), v)" for a u r v
    using marker_round_found [OF that] .
  obtain w where w: "h_monotonic H s = (Inr (clk s), w)" "clk s \<le> clk w"
    using assms(1) unfolding clock_advances_def by (metis add_increasing2 less_eq_rat_def order_trans add.commute)
  obtain r2 v where v: "h_mkdir H (path_parent logf) w = (r2, v)" by fastforce
  obtain r3 u where u: "h_append H logf [] v = (r3, u)" by fastforce
  have calm: "clk w \<le> clk v" "r2 \<noteq> Inl out_of_fuel" "clk v \<le> clk u" "r3 \<noteq> Inl out_of_fuel"
    using assms(2) v u unfolding calm_board_def calm_def by (metis fst_conv snd_conv)+
  then have "D \<le> clk u + of_nat fuel * \<delta>" using assms(3) w(2) by (simp add: D_def)
  from poll_returns [OF marker_round_advances [OF assms(1,2)] this]
  have loop: "fst (poll ?body (Suc fuel) () u) \<noteq> Inl out_of_fuel" .
  have "wait_for_board_marker H (Suc fuel) logf marker timeout s =
      (case r2 of Inl e \<Rightarrow> (Inl e, v) | Inr _ \<Rightarrow> case r3 of Inl e \<Rightarrow> (Inl e, u) | Inr _ \<Rightarrow> poll ?body (Suc fuel) () u)"
    using w(1) v u by (simp add: wait_for_board_marker_def seqm_def bindm_def D_def del: poll.simps split: sum.split)
  moreover obtain res z where res: "poll ?body (Suc fuel) () u = (res, z)" by fastforce
  moreover have "\<exists>line. parse_board_values line marker = Some vals" if "res = Inr vals" for vals
    by (rule poll_result [of ?body "\<lambda>r t. \<exists>line. parse_board_values line marker = Some r", OF _ res [unfolded that]])
      (rule found)
  ultimately show ?thesis
    using calm loop by (cases r2; cases r3; cases res; simp del: poll.simps)
qed

lemma marker_wait_ends_witness:
  "case fst (wait_for_board_marker script_host (Suc 30) ''/r/board.log'' ''[BENCH_READY]'' 30 (script_start [] [] [])) of
      Inl e \<Rightarrow> e \<noteq> out_of_fuel | Inr vals \<Rightarrow> \<exists>line. parse_board_values line ''[BENCH_READY]'' = Some vals"
proof (rule marker_wait_ends [OF script_clock])
  show "calm_board script_host sc_clock"
    by (simp add: calm_board_def calm_def script_host_def script_readline_def script_add_def
        modifym_def retm_def out_of_fuel_def split: list.splits)
  show "fadd (sc_clock (script_start [] [] [])) 30 \<le> sc_clock (script_start [] [] []) + of_nat 30 * 1"
    by code_simp
qed

definition demo_wire :: "script wire" where
  "demo_wire = \<lparr>wr_write = (\<lambda>_. retm ()), wr_flush = retm ()\<rparr>"

definition demo_kem_args :: kem_args where
  "demo_kem_args = bench_args.extend (default_bench_args 2 KEM_CAP ''tty'' ''nrfutil'' ''/ncs'')
     \<lparr>km_dry_run = False, km_mlkem_backend = ''wolfssl''\<rparr>"

definition demo_kem_lines :: script where
  "demo_kem_lines = script_start (map encode_str [''[BENCH_READY]'', ''[BENCH_KEM_RESULT] status=timeout'']) [] []"

lemma kem_session_demo:
  "\<exists>rows t. kem_session demo_site demo_wire demo_kem_args ''/r'' [[(''kex_group'', ''MLKEM512'')]] demo_kem_lines = (Inr rows, t)"
proof -
  have "case fst (kem_session demo_site demo_wire demo_kem_args ''/r'' [[(''kex_group'', ''MLKEM512'')]] demo_kem_lines) of
      Inl e \<Rightarrow> False | Inr r \<Rightarrow> True"
    by code_simp
  then show ?thesis by (cases "kem_session demo_site demo_wire demo_kem_args ''/r'' [[(''kex_group'', ''MLKEM512'')]] demo_kem_lines")
    (auto split: sum.splits)
qed


end
