(* ===== verification/Cert_Bench.thy ===== *)
theory Cert_Bench
  imports Kem_Bench
begin

text \<open>
  \<open>run_certificate_benchmarks.py\<close>: making and checking certificates, on the board (one
  algorithm after the other, with progress reports and a long time limit) or on the host (in a
  container that measures the commands).  The loop over the iterations on the board is the one
  of \<open>Board_Bench\<close>; the scripts given to the container are the exact texts.
\<close>

section \<open>Tables\<close>

definition CERT_CAP :: int where
  "CERT_CAP = 60 * 60"

definition CERT_ATTEMPT_FIELDS :: "string list" where
  "CERT_ATTEMPT_FIELDS = [
     ''attempt_index'', ''component'', ''owner'', ''cert_sig_alg'', ''sig_family'',
     ''sig_nist_level'', ''sig_public_key_bytes'', ''sig_private_key_bytes'',
     ''sig_signature_bytes'', ''builder'', ''generation_scope'', ''status'', ''wall_ms'', ''cpu_ms'',
     ''user_cpu_ms'', ''sys_cpu_ms'', ''max_rss_kb'', ''server_root_der_bytes'',
     ''server_root_crt_bytes'', ''server_intermediate_crt_bytes'', ''server_leaf_crt_bytes'',
     ''server_chain_crt_bytes'', ''server_key_bytes'', ''client_ca_crt_bytes'',
     ''client_cert_crt_bytes'', ''client_key_bytes'', ''client_csr_der_bytes'',
     ''client_csr_pem_bytes'', ''output_total_bytes'', ''certificate_keygen_ms'',
     ''certificate_make_body_ms'', ''certificate_sign_ms'', ''certificate_verify_ms'',
     ''certificate_total_ms'', ''certificate_der_bytes'', ''client_cpu_cycles'', ''client_cycle_hz'',
     ''client_active_cycles'', ''client_idle_cycles'', ''client_total_cycles'',
     ''client_cpu_active_percent'', ''client_cpu_idle_percent'', ''dwt_cycle_counter_supported'',
     ''dwt_event_counters_supported'', ''dwt_cyccnt'', ''dwt_cpicnt'', ''dwt_exccnt'',
     ''dwt_sleepcnt'', ''dwt_lsucnt'', ''dwt_foldcnt'', ''dwt_cycle_counter_width_bits'',
     ''dwt_event_counter_width_bits'', ''dwt_counts_are_modulo'', ''client_heap_current_bytes'',
     ''client_heap_peak_bytes'', ''client_heap_free_bytes'', ''client_heap_capacity_bytes'',
     ''client_stack_used_bytes'', ''client_stack_free_bytes'', ''timeout_elapsed_ms'',
     ''timeout_stage_elapsed_ms'', ''progress_reports'', ''error_code'', ''message'']"

definition CERT_SUMMARY_FIELDS :: "string list" where
  "CERT_SUMMARY_FIELDS = [
     ''component'', ''owner'', ''cert_sig_alg'', ''sig_family'', ''sig_nist_level'', ''builder'',
     ''generation_scope'', ''status'', ''success_count'', ''fail_count'', ''mean_wall_ms'',
     ''min_wall_ms'', ''max_wall_ms'', ''mean_cpu_ms'', ''mean_user_cpu_ms'', ''mean_sys_cpu_ms'',
     ''max_rss_kb'', ''mean_output_total_bytes'', ''server_chain_crt_bytes'', ''server_key_bytes'',
     ''client_cert_crt_bytes'', ''client_key_bytes'', ''client_csr_der_bytes'',
     ''client_csr_pem_bytes'', ''mean_certificate_keygen_ms'', ''mean_certificate_make_body_ms'',
     ''mean_certificate_sign_ms'', ''mean_certificate_verify_ms'', ''median_certificate_sign_ms'',
     ''p95_certificate_sign_ms'', ''stddev_certificate_sign_ms'', ''mean_certificate_total_ms'',
     ''mean_certificate_der_bytes'', ''timeout_count'', ''last_timeout_stage'',
     ''max_observed_client_cpu_cycles'', ''max_observed_client_active_cycles'',
     ''max_observed_client_idle_cycles'', ''max_observed_dwt_cyccnt'', ''max_observed_dwt_cpicnt'',
     ''max_observed_dwt_exccnt'', ''max_observed_dwt_sleepcnt'', ''max_observed_dwt_lsucnt'',
     ''max_observed_dwt_foldcnt'', ''max_observed_client_heap_peak_bytes'',
     ''max_observed_client_stack_used_bytes'']"

section \<open>Scripts\<close>

definition WOLFSSL_COMPAT_CFLAGS :: string where
  "WOLFSSL_COMPAT_CFLAGS = (''-DFP_MAX_BITS=32768 -DRSA_MAX_SIZE=16384 -DWC_MAX_RSA_BITS=16384'')"

definition MEASURE_EXEC_C :: string where
  \<open>MEASURE_EXEC_C =
     (newline @ ''#include <errno.h>'' @ newline @ ''#include <stdio.h>'' @ newline @
      ''#include <stdlib.h>'' @ newline @ ''#include <string.h>'' @ newline @
      ''#include <sys/resource.h>'' @ newline @ ''#include <sys/time.h>'' @ newline @
      ''#include <sys/types.h>'' @ newline @ ''#include <sys/wait.h>'' @ newline @
      ''#include <time.h>'' @ newline @ ''#include <unistd.h>'' @ newline @ newline @
      ''static long long timeval_us(struct timeval tv)'' @ newline @ ''{'' @ newline @
      ''    return (long long)tv.tv_sec * 1000000LL + tv.tv_usec;'' @ newline @ ''}'' @ newline @
      newline @ ''static long long elapsed_us(struct timespec start, struct timespec end)'' @
      newline @ ''{'' @ newline @
      ''    return (long long)(end.tv_sec - start.tv_sec) * 1000000LL +'' @ newline @
      ''           (end.tv_nsec - start.tv_nsec) / 1000LL;'' @ newline @ ''}'' @ newline @ newline @
      ''int main(int argc, char** argv)'' @ newline @ ''{'' @ newline @
      ''    struct timespec start;'' @ newline @ ''    struct timespec end;'' @ newline @
      ''    struct rusage usage;'' @ newline @ ''    int status = 0;'' @ newline @
      ''    pid_t pid;'' @ newline @ ''    int exit_code;'' @ newline @ newline @
      ''    if (argc < 2) {'' @ newline @
      ''        fprintf(stderr, "usage: measure_exec COMMAND [ARGS...]'' @ bsl @ ''n");'' @
      newline @ ''        return 2;'' @ newline @ ''    }'' @ newline @
      ''    if (clock_gettime(CLOCK_MONOTONIC, &start) != 0) {'' @ newline @
      ''        perror("clock_gettime");'' @ newline @ ''        return 2;'' @ newline @ ''    }'' @
      newline @ ''    pid = fork();'' @ newline @ ''    if (pid < 0) {'' @ newline @
      ''        perror("fork");'' @ newline @ ''        return 2;'' @ newline @ ''    }'' @
      newline @ ''    if (pid == 0) {'' @ newline @ ''        execvp(argv[1], &argv[1]);'' @
      newline @ ''        fprintf(stderr, "execvp(%s): %s'' @ bsl @
      ''n", argv[1], strerror(errno));'' @ newline @ ''        _exit(127);'' @ newline @ ''    }'' @
      newline @ ''    if (wait4(pid, &status, 0, &usage) < 0) {'' @ newline @
      ''        perror("wait4");'' @ newline @ ''        return 2;'' @ newline @ ''    }'' @
      newline @ ''    if (clock_gettime(CLOCK_MONOTONIC, &end) != 0) {'' @ newline @
      ''        perror("clock_gettime");'' @ newline @ ''        return 2;'' @ newline @ ''    }'' @
      newline @ ''    if (WIFEXITED(status)) {'' @ newline @
      ''        exit_code = WEXITSTATUS(status);'' @ newline @ ''    }'' @ newline @
      ''    else if (WIFSIGNALED(status)) {'' @ newline @
      ''        exit_code = 128 + WTERMSIG(status);'' @ newline @ ''    }'' @ newline @
      ''    else {'' @ newline @ ''        exit_code = 2;'' @ newline @ ''    }'' @ newline @
      ''    printf("[CERT_BENCH] status=%d wall_us=%lld user_cpu_us=%lld "'' @ newline @
      ''           "sys_cpu_us=%lld cpu_us=%lld max_rss_kb=%ld'' @ bsl @ ''n",'' @ newline @
      ''           exit_code, elapsed_us(start, end), timeval_us(usage.ru_utime),'' @ newline @
      ''           timeval_us(usage.ru_stime),'' @ newline @
      ''           timeval_us(usage.ru_utime) + timeval_us(usage.ru_stime),'' @ newline @
      ''           usage.ru_maxrss);'' @ newline @ ''    fflush(stdout);'' @ newline @
      ''    return exit_code;'' @ newline @ ''}'' @ newline)\<close>

definition WOLFSSL_CLIENT_IDENTITY_C :: string where
  \<open>WOLFSSL_CLIENT_IDENTITY_C =
     (newline @ ''#include <stdio.h>'' @ newline @ ''#include <stdlib.h>'' @ newline @
      ''#include <string.h>'' @ newline @ newline @ ''#include <wolfssl/options.h>'' @ newline @
      ''#include <wolfssl/ssl.h>'' @ newline @ ''#include <wolfssl/wolfcrypt/asn.h>'' @ newline @
      ''#include <wolfssl/wolfcrypt/ecc.h>'' @ newline @ ''#include <wolfssl/wolfcrypt/random.h>'' @
      newline @ newline @ ''#define DER_CAP 4096'' @ newline @ ''#define KEY_CAP 2048'' @ newline @
      ''#define CERT_NOT_BEFORE "'' @ bsl @ ''x18'' @ bsl @ ''x0f""20200101000000Z"'' @ newline @
      ''#define CERT_NOT_AFTER  "'' @ bsl @ ''x18'' @ bsl @ ''x0f""20360101000000Z"'' @ newline @
      newline @ ''static int write_file(const char* path, const unsigned char* data, int len)'' @
      newline @ ''{'' @ newline @ ''    FILE* f = fopen(path, "wb");'' @ newline @
      ''    if (f == NULL)'' @ newline @ ''        return -1;'' @ newline @
      ''    if (fwrite(data, 1, (size_t)len, f) != (size_t)len) {'' @ newline @
      ''        fclose(f);'' @ newline @ ''        return -1;'' @ newline @ ''    }'' @ newline @
      ''    fclose(f);'' @ newline @ ''    return 0;'' @ newline @ ''}'' @ newline @ newline @
      ''static int write_pem_csr(const char* path, const unsigned char* der, int derSz)'' @
      newline @ ''{'' @ newline @ ''    unsigned char pem[DER_CAP * 2];'' @ newline @
      ''    int pemSz = wc_DerToPem(der, derSz, pem, sizeof(pem), CERTREQ_TYPE);'' @ newline @
      ''    if (pemSz <= 0)'' @ newline @ ''        return pemSz;'' @ newline @
      ''    return write_file(path, pem, pemSz);'' @ newline @ ''}'' @ newline @ newline @
      ''static int write_pem_key(const char* path, const unsigned char* der, int derSz)'' @
      newline @ ''{'' @ newline @ ''    unsigned char pem[KEY_CAP * 2];'' @ newline @
      ''    int pemSz = wc_DerToPem(der, derSz, pem, sizeof(pem), ECC_PRIVATEKEY_TYPE);'' @
      newline @ ''    if (pemSz <= 0)'' @ newline @ ''        return pemSz;'' @ newline @
      ''    return write_file(path, pem, pemSz);'' @ newline @ ''}'' @ newline @ newline @
      ''static void set_fixed_validity(Cert* cert)'' @ newline @ ''{'' @ newline @
      ''    XMEMCPY(cert->beforeDate, CERT_NOT_BEFORE, sizeof(CERT_NOT_BEFORE) - 1);'' @ newline @
      ''    cert->beforeDateSz = sizeof(CERT_NOT_BEFORE) - 1;'' @ newline @
      ''    XMEMCPY(cert->afterDate, CERT_NOT_AFTER, sizeof(CERT_NOT_AFTER) - 1);'' @ newline @
      ''    cert->afterDateSz = sizeof(CERT_NOT_AFTER) - 1;'' @ newline @ ''}'' @ newline @
      newline @ ''static void set_client_name(Cert* cert)'' @ newline @ ''{'' @ newline @
      ''    XSTRNCPY(cert->subject.country, "US", CTC_NAME_SIZE);'' @ newline @
      ''    XSTRNCPY(cert->subject.state, "OR", CTC_NAME_SIZE);'' @ newline @
      ''    XSTRNCPY(cert->subject.locality, "Portland", CTC_NAME_SIZE);'' @ newline @
      ''    XSTRNCPY(cert->subject.org, "Peripheral Benchmark", CTC_NAME_SIZE);'' @ newline @
      ''    XSTRNCPY(cert->subject.unit, "TLS Client", CTC_NAME_SIZE);'' @ newline @
      ''    XSTRNCPY(cert->subject.commonName, "nrf5340-benchmark", CTC_NAME_SIZE);'' @ newline @
      ''}'' @ newline @ newline @
      ''static int make_client_request(ecc_key* clientKey, WC_RNG* rng,'' @ newline @
      ''    unsigned char* csrDer)'' @ newline @ ''{'' @ newline @ ''    Cert request;'' @ newline @
      ''    int bodySz;'' @ newline @ newline @ ''    if (wc_InitCert(&request) != 0)'' @ newline @
      ''        return -1;'' @ newline @ ''    set_client_name(&request);'' @ newline @
      ''    set_fixed_validity(&request);'' @ newline @
      ''    request.sigType = CTC_SHA256wECDSA;'' @ newline @
      ''    bodySz = wc_MakeCertReq_ex(&request, csrDer, DER_CAP, ECC_TYPE, clientKey);'' @
      newline @ ''    if (bodySz <= 0)'' @ newline @ ''        return -1;'' @ newline @
      ''    return wc_SignCert_ex(bodySz, CTC_SHA256wECDSA, csrDer, DER_CAP,'' @ newline @
      ''        ECC_TYPE, clientKey, rng);'' @ newline @ ''}'' @ newline @ newline @
      ''static int verify_client_request(const unsigned char* csrDer, int csrSz)'' @ newline @
      ''{'' @ newline @ ''    DecodedCert decoded;'' @ newline @ ''    int ret;'' @ newline @
      newline @ ''    wc_InitDecodedCert(&decoded, csrDer, (word32)csrSz, NULL);'' @ newline @
      ''    ret = wc_ParseCert(&decoded, CERTREQ_TYPE, VERIFY, NULL);'' @ newline @
      ''    wc_FreeDecodedCert(&decoded);'' @ newline @ ''    return ret;'' @ newline @ ''}'' @
      newline @ newline @ ''int main(int argc, char** argv)'' @ newline @ ''{'' @ newline @
      ''    char path[1024];'' @ newline @ ''    unsigned char clientCsrDer[DER_CAP];'' @ newline @
      ''    unsigned char clientKeyDer[KEY_CAP];'' @ newline @ ''    int clientCsrSz;'' @ newline @
      ''    int clientKeySz;'' @ newline @ ''    int ret = 1;'' @ newline @
      ''    const char* outdir;'' @ newline @ ''    WC_RNG rng;'' @ newline @
      ''    ecc_key clientKey;'' @ newline @ newline @ ''    if (argc != 2) {'' @ newline @
      ''        fprintf(stderr, "usage: %s OUTDIR'' @ bsl @ ''n", argv[0]);'' @ newline @
      ''        return 2;'' @ newline @ ''    }'' @ newline @ ''    outdir = argv[1];'' @ newline @
      newline @ ''    wolfSSL_Init();'' @ newline @ ''    if (wc_InitRng(&rng) != 0)'' @ newline @
      ''        goto cleanup_ssl;'' @ newline @ ''    if (wc_ecc_init(&clientKey) != 0)'' @
      newline @ ''        goto cleanup_rng;'' @ newline @
      ''    if (wc_ecc_make_key(&rng, 32, &clientKey) != 0)'' @ newline @
      ''        goto cleanup_client;'' @ newline @ newline @
      ''    clientCsrSz = make_client_request(&clientKey, &rng, clientCsrDer);'' @ newline @
      ''    if (clientCsrSz <= 0)'' @ newline @ ''        goto cleanup_client;'' @ newline @
      ''    if (verify_client_request(clientCsrDer, clientCsrSz) != 0)'' @ newline @
      ''        goto cleanup_client;'' @ newline @
      ''    clientKeySz = wc_EccKeyToDer(&clientKey, clientKeyDer, KEY_CAP);'' @ newline @
      ''    if (clientKeySz <= 0)'' @ newline @ ''        goto cleanup_client;'' @ newline @
      newline @ ''    snprintf(path, sizeof(path), "%s/client.csr.der", outdir);'' @ newline @
      ''    if (write_file(path, clientCsrDer, clientCsrSz) != 0)'' @ newline @
      ''        goto cleanup_client;'' @ newline @
      ''    snprintf(path, sizeof(path), "%s/client.csr", outdir);'' @ newline @
      ''    if (write_pem_csr(path, clientCsrDer, clientCsrSz) != 0)'' @ newline @
      ''        goto cleanup_client;'' @ newline @
      ''    snprintf(path, sizeof(path), "%s/client_key.der", outdir);'' @ newline @
      ''    if (write_file(path, clientKeyDer, clientKeySz) != 0)'' @ newline @
      ''        goto cleanup_client;'' @ newline @
      ''    snprintf(path, sizeof(path), "%s/client.key", outdir);'' @ newline @
      ''    if (write_pem_key(path, clientKeyDer, clientKeySz) != 0)'' @ newline @
      ''        goto cleanup_client;'' @ newline @ newline @ ''    ret = 0;'' @ newline @ newline @
      ''cleanup_client:'' @ newline @ ''    wc_ecc_free(&clientKey);'' @ newline @
      ''cleanup_rng:'' @ newline @ ''    wc_FreeRng(&rng);'' @ newline @ ''cleanup_ssl:'' @
      newline @ ''    wolfSSL_Cleanup();'' @ newline @ ''    return ret;'' @ newline @ ''}'' @
      newline)\<close>

definition wolfssl_client_identity_setup_script :: string where
  \<open>wolfssl_client_identity_setup_script =
     (newline @ ''cat > /tmp/wolfssl_client_identity.c <<'' @ sq @ ''CLIENT_IDENTITY_C'' @ sq @
      newline @ WOLFSSL_CLIENT_IDENTITY_C @ newline @ ''CLIENT_IDENTITY_C'' @ newline @
      ''cc -O2 -Wall -Wextra -o /tmp/wolfssl_client_identity '' @ bsl @ newline @
      ''  /tmp/wolfssl_client_identity.c '' @ WOLFSSL_COMPAT_CFLAGS @ '' '' @ bsl @ newline @
      ''  $(pkg-config --cflags --libs wolfssl)'' @ newline)\<close>

definition client_identity_script :: string where
  "client_identity_script =
     (newline @ ''/tmp/wolfssl_client_identity /out'' @ newline)"

definition rsa_digits :: "string \<Rightarrow> string option" where
  "rsa_digits key_type = (if is_rsa_pss_name key_type then Some (drop 8 key_type) else None)"

definition cert_key_args :: "string \<Rightarrow> string" where
  "cert_key_args key_type = (case rsa_digits key_type of
       Some ds \<Rightarrow> ''-newkey rsa:'' @ ds
     | None \<Rightarrow> if startswith key_type ''ec:'' then ''-newkey ec -pkeyopt ec_paramgen_curve:'' @ drop 3 key_type
         else ''-newkey '' @ key_type)"

definition cert_hash_arg :: "string \<Rightarrow> string" where
  "cert_hash_arg key_type = (case rsa_digits key_type of None \<Rightarrow> []
     | Some ds \<Rightarrow> let bits = digits_val 0 ds in
         if bits \<le> 3072 then ''-sha256'' else if bits \<le> 7680 then ''-sha384'' else ''-sha512'')"

definition openssl_server_chain_script :: "signature \<Rightarrow> string" where
  \<open>openssl_server_chain_script sg =
     (newline @ ''cp /client/server_root.crt /client/server_root.key /out/'' @ newline @
      ''printf '' @ sq @ ''basicConstraints=critical,CA:TRUE'' @ bsl @
      ''nkeyUsage=critical,keyCertSign,cRLSign'' @ bsl @ ''nsubjectKeyIdentifier=hash'' @ bsl @
      ''nauthorityKeyIdentifier=keyid,issuer'' @ bsl @ ''n'' @ sq @ '' '' @ bsl @ newline @
      ''  > /out/intermediate.ext'' @ newline @ ''printf '' @ sq @
      ''basicConstraints=critical,CA:FALSE'' @ bsl @
      ''nkeyUsage=critical,digitalSignature,keyEncipherment'' @ bsl @
      ''nextendedKeyUsage=critical,serverAuth'' @ bsl @
      ''nsubjectAltName=DNS:localhost,IP:127.0.0.1'' @ bsl @ ''nsubjectKeyIdentifier=hash'' @ bsl @
      ''nauthorityKeyIdentifier=keyid,issuer'' @ bsl @ ''n'' @ sq @ '' '' @ bsl @ newline @
      ''  > /out/server.ext'' @ newline @ ''openssl req -new '' @
      (cert_key_args (sig_issuer_key_type sg)) @ '' -keyout /out/server_intermediate.key '' @ bsl @
      newline @ ''  -out /out/server_intermediate.csr -nodes -subj /CN='' @ (sig_name sg) @
      ''_Intermediate '' @ bsl @ newline @ ''  '' @ (cert_hash_arg (sig_issuer_key_type sg)) @
      newline @ ''openssl x509 -req -in /out/server_intermediate.csr -CA /out/server_root.crt '' @
      bsl @ newline @
      ''  -CAkey /out/server_root.key -CAcreateserial -out /out/server_intermediate.crt '' @ bsl @
      newline @ ''  -not_before '' @ CERT_NOT_BEFORE @ '' -not_after '' @ CERT_NOT_AFTER @ '' '' @
      bsl @ newline @ ''  -extfile /out/intermediate.ext'' @ newline @ ''openssl req -new '' @
      (cert_key_args (sig_leaf_key_type sg)) @ '' -keyout /out/server.key -out /out/server.csr '' @
      bsl @ newline @ ''  -nodes -subj /CN=localhost '' @ (cert_hash_arg (sig_leaf_key_type sg)) @
      newline @ ''openssl x509 -req -in /out/server.csr -CA /out/server_intermediate.crt '' @ bsl @
      newline @ ''  -CAkey /out/server_intermediate.key -CAcreateserial -out /out/server.crt '' @
      bsl @ newline @ ''  -not_before '' @ CERT_NOT_BEFORE @ '' -not_after '' @ CERT_NOT_AFTER @
      '' '' @ bsl @ newline @ ''  -extfile /out/server.ext '' @
      (cert_hash_arg (sig_issuer_key_type sg)) @ newline @
      ''cat /out/server.crt /out/server_intermediate.crt > /out/server_chain.crt'' @ newline @
      ''openssl verify -purpose sslserver -CAfile /out/server_root.crt '' @ bsl @ newline @
      ''  -untrusted /out/server_intermediate.crt /out/server.crt'' @ newline)\<close>

definition hbs_server_chain_script :: "signature \<Rightarrow> string" where
  "hbs_server_chain_script sg = ''hbs_certgen '' @ shlex_quote (sig_name sg) @ '' /out''"

definition py_rstrip :: "string \<Rightarrow> string" where
  "py_rstrip s = rev (dropWhile is_space (rev s))"

definition wrapper_script :: "string \<Rightarrow> string \<Rightarrow> string" where
  \<open>wrapper_script setup script =
     (newline @ ''set -eu'' @ newline @ ''cat > /tmp/measure_exec.c <<'' @ sq @ ''MEASURE_C'' @ sq @
      newline @ MEASURE_EXEC_C @ newline @ ''MEASURE_C'' @ newline @
      ''cc -O2 -Wall -Wextra -o /tmp/measure_exec /tmp/measure_exec.c'' @ newline @
      (py_rstrip setup) @ newline @ ''cat > /tmp/cert_bench.sh <<'' @ sq @ ''CERT_SCRIPT'' @ sq @
      newline @ (py_rstrip script) @ newline @ ''CERT_SCRIPT'' @ newline @
      ''chmod +x /tmp/cert_bench.sh'' @ newline @ ''/tmp/measure_exec /bin/sh /tmp/cert_bench.sh'' @
      newline)\<close>

section \<open>Cases\<close>

definition read_certificate_cases :: "string \<Rightarrow> srow list res" where
  "read_certificate_cases text = bindr (dict_reader text) (\<lambda>(names, rows).
     let missing = filter (\<lambda>f. f \<notin> set names) FIELDS; kept = filter case_enabled rows in
     if missing \<noteq> [] then Inl (ValueError (''case CSV is missing fields: '' @ join '', '' (sort missing)))
     else if kept = [] then Inl (ValueError ''case CSV has no enabled cases'')
     else bindr (mapr (\<lambda>r. bindr (dindex r ''cert_sig_alg'') (\<lambda>n.
         if dhas SIGNATURES_BY_NAME n then Inr ()
         else bindr (dindex r ''case_id'') (\<lambda>cid. Inl (ValueError (cid @ '': unknown signature '' @ n))))) kept)
       (\<lambda>_. Inr kept))"

definition signature_cases :: "srow list \<Rightarrow> srow list res" where
  "signature_cases cases =
     bindr (foldr_res (\<lambda>d c. bindr (dindex c ''cert_sig_alg'') (\<lambda>n. Inr (dsetdefault n c d))) [] cases) (\<lambda>selected.
     Inr (map snd (sort_key fst selected)))"

section \<open>Measured containers\<close>

definition parse_cert_bench :: "string \<Rightarrow> srow" where
  "parse_cert_bench text =
     (case filter (\<lambda>l. startswith l ''[CERT_BENCH]'') (splitlines text) of [] \<Rightarrow> []
      | l # _ \<Rightarrow> bench_values (py_strip (drop 12 l)))"

text \<open>\<open>float(values[key]) / 1000.0\<close> with three decimals, empty when missing or no number.\<close>

definition ms_cell :: "srow \<Rightarrow> string \<Rightarrow> string res" where
  "ms_cell vals key = tryr (bindr (bindr (dindex vals key) py_float) (\<lambda>x. Inr (fmt_fixed 3 (fdiv x 1000))))
     (\<lambda>e. is_value_error e \<or> (case e of KeyError k \<Rightarrow> True | _ \<Rightarrow> False)) (\<lambda>_. Inr [])"

definition file_size :: "'w host \<Rightarrow> string \<Rightarrow> ('w, int) io" where
  "file_size H path = bindm (h_exists H path) (\<lambda>present. if present then h_size H path else retm 0)"

definition tree_size :: "'w host \<Rightarrow> 'w disk \<Rightarrow> string \<Rightarrow> ('w, int) io" where
  "tree_size H D path = bindm (h_exists H path) (\<lambda>present.
     if \<not> present then retm 0
     else bindm (dk_rglob D path) (\<lambda>items.
       bindm (mapm (\<lambda>item. bindm (h_is_file H (path_join path item)) (\<lambda>file.
          if file then h_size H (path_join path item) else retm 0)) items) (\<lambda>sizes. retm (sum_list sizes))))"

definition mount_args :: "'w disk \<Rightarrow> string \<times> string \<times> bool \<Rightarrow> ('w, string list) io" where
  "mount_args D m = (case m of (src, dst, readonly) \<Rightarrow>
     bindm (dk_resolve D src) (\<lambda>full. retm [''-v'', full @ '':'' @ dst @ (if readonly then '':ro'' else [])]))"

definition container_command ::
  "'w disk \<Rightarrow> string \<Rightarrow> string \<Rightarrow> (string \<times> string \<times> bool) list \<Rightarrow> ('w, string list) io" where
  "container_command D dest wrapper mounts =
     bindm (dk_user D) (\<lambda>user. bindm (dk_resolve D dest) (\<lambda>full.
     bindm (mapm (mount_args D) mounts) (\<lambda>extra.
     retm ([''docker'', ''run'', ''--rm'', ''--user'', user, ''-v'', full @ '':/out''] @ concat extra @
       [IMAGE, ''sh'', ''-ec'', wrapper]))))"

definition run_measured_container ::
  "'w host \<Rightarrow> 'w disk \<Rightarrow> string \<Rightarrow> string \<Rightarrow> string \<Rightarrow> (string \<times> string \<times> bool) list \<Rightarrow> string \<Rightarrow>
   ('w, int \<times> srow \<times> string) io" where
  "run_measured_container H D dest script logf mounts setup =
     seqm (h_mkdir H dest)
     (bindm (container_command D dest (wrapper_script setup script) mounts) (\<lambda>cmd.
      seqm (h_mkdir H (path_parent logf))
      (seqm (h_append H logf (''$ '' @ join '' '' (map shlex_quote cmd) @ newline))
      (bindm (h_run H Merged cmd None None) (\<lambda>(rc, text).
       seqm (h_append H logf text) (retm (rc, parse_cert_bench text, text)))))))"

text \<open>What is the same for all attempts of a benchmark in a container.\<close>

record chain_job =
  cj_component :: string
  cj_owner :: string
  cj_signature :: signature
  cj_builder :: string
  cj_scope :: string
  cj_script :: string
  cj_setup :: string
  cj_mounts :: "(string \<times> string \<times> bool) list"
  cj_directory :: string

definition SIZED_FILES :: "(string \<times> string) list" where
  "SIZED_FILES = [(''server_root_der_bytes'', ''server_root.der''), (''server_root_crt_bytes'', ''server_root.crt''),
     (''server_intermediate_crt_bytes'', ''server_intermediate.crt''), (''server_leaf_crt_bytes'', ''server.crt''),
     (''server_chain_crt_bytes'', ''server_chain.crt''), (''server_key_bytes'', ''server.key''),
     (''client_ca_crt_bytes'', ''client_ca.crt''), (''client_cert_crt_bytes'', ''client.crt''),
     (''client_key_bytes'', ''client.key''), (''client_csr_der_bytes'', ''client.csr.der''),
     (''client_csr_pem_bytes'', ''client.csr'')]"

definition host_attempt_row ::
  "'w host \<Rightarrow> 'w disk \<Rightarrow> chain_job \<Rightarrow> int \<Rightarrow> string \<Rightarrow> string \<Rightarrow> srow \<Rightarrow> string \<Rightarrow> ('w, row) io" where
  "host_attempt_row H D j attempt dest st metrics message =
     bindm (liftm (mapr (\<lambda>(c, k). bindr (ms_cell metrics k) (\<lambda>t. Inr (c, PStr t)))
       [(''wall_ms'', ''wall_us''), (''cpu_ms'', ''cpu_us''), (''user_cpu_ms'', ''user_cpu_us''),
        (''sys_cpu_ms'', ''sys_cpu_us'')])) (\<lambda>durations.
     bindm (mapm (\<lambda>(c, name). bindm (file_size H (path_join dest name)) (\<lambda>n. retm (c, PInt n))) SIZED_FILES) (\<lambda>sizes.
     bindm (tree_size H D dest) (\<lambda>all_bytes.
     retm ([(''attempt_index'', PInt attempt), (''component'', PStr (cj_component j)), (''owner'', PStr (cj_owner j)),
        (''cert_sig_alg'', PStr (sig_name (cj_signature j))), (''sig_family'', PStr (sig_family (cj_signature j))),
        (''sig_nist_level'', PInt (sig_nist_level (cj_signature j))), (''builder'', PStr (cj_builder j)),
        (''generation_scope'', PStr (cj_scope j)), (''status'', PStr st)] @ durations @
       copy_cells metrics [''max_rss_kb''] @ sizes @
       [(''output_total_bytes'', PInt all_bytes), (''error_code'', PStr (dget metrics ''status'' [])),
        (''message'', PStr message)]))))"

definition host_attempt ::
  "'w host \<Rightarrow> 'w disk \<Rightarrow> string \<Rightarrow> string \<Rightarrow> chain_job \<Rightarrow> row list \<Rightarrow> int \<Rightarrow> ('w, row list) io" where
  "host_attempt H D run_dir logf j attempts attempt =
     (let dest = run_dir @ ''/attempts/'' @ cj_directory j @ ''/'' @ dec_pad 3 attempt in
      bindm (run_measured_container H D dest (cj_script j) logf (cj_mounts j) (cj_setup j)) (\<lambda>(rc, metrics, text).
      bindm (host_attempt_row H D j attempt dest (if rc = 0 then ''success'' else ''fail'') metrics
        (if rc = 0 \<or> text = [] then [] else last (splitlines text))) (\<lambda>r.
      seqm (save_csv H (path_join run_dir ''attempts.csv'') CERT_ATTEMPT_FIELDS (attempts @ [r]))
        (retm (attempts @ [r])))))"

definition client_job :: "signature \<Rightarrow> chain_job" where
  "client_job sg = \<lparr>cj_component = ''client_identity'', cj_owner = ''client'', cj_signature = sg,
     cj_builder = ''wolfssl'', cj_scope = ''client_key_and_certificate_request'', cj_script = client_identity_script,
     cj_setup = wolfssl_client_identity_setup_script, cj_mounts = [], cj_directory = ''client_identity''\<rparr>"

definition server_job :: "string \<Rightarrow> signature \<Rightarrow> chain_job" where
  "server_job client_dir sg = (let hash_based = (sig_name sg \<in> HASH_BASED_SIGNATURES) in
     \<lparr>cj_component = ''server_chain'', cj_owner = ''server'', cj_signature = sg,
      cj_builder = (if hash_based then ''wolfssl-hbs'' else ''openssl''),
      cj_scope = (if hash_based then ''hash_based_root_and_leaf'' else ''leaf_and_intermediate_under_existing_root''),
      cj_script = (if hash_based then hbs_server_chain_script sg else openssl_server_chain_script sg),
      cj_setup = [], cj_mounts = (if hash_based then [] else [(client_dir, ''/client'', True)]),
      cj_directory = slug (sig_name sg)\<rparr>)"

section \<open>The row of an attempt on the board\<close>

definition SIGNATURE_SIZES :: "string list" where
  "SIGNATURE_SIZES = [''sig_public_key_bytes'', ''sig_private_key_bytes'', ''sig_signature_bytes'']"

definition signature_sizes :: "signature \<Rightarrow> int list" where
  "signature_sizes sg = [sig_public_key_bytes sg, sig_private_key_bytes sg, sig_signature_bytes sg]"

definition cert_verdict :: "srow \<Rightarrow> int list \<Rightarrow> int list \<Rightarrow> string \<times> string \<times> string" where
  "cert_verdict vals reported expected =
     (let st = py_lower (dget vals ''status'' ''fail''); mismatch = (st = ''success'' \<and> reported \<noteq> expected) in
      (if mismatch then ''fail'' else st,
       if mismatch then ''metadata_mismatch'' else dget vals ''error'' [],
       if mismatch then ''reported_signature_sizes='' @ tuple_text reported @ '',expected='' @ tuple_text expected
       else if st = ''success'' then [] else dget vals ''stage'' []))"

text \<open>The cells of a row: times by column, the CPU cells, the cells of a timeout, the verdict.\<close>

definition cert_row ::
  "signature \<Rightarrow> int \<Rightarrow> srow \<Rightarrow> (string \<Rightarrow> string) \<Rightarrow> string \<times> string \<times> string \<Rightarrow> string \<times> string \<Rightarrow>
   string \<times> string \<times> string \<Rightarrow> row" where
  "cert_row sg attempt vals time cpu elapsed verdict =
     (case cpu of (cpu_ms, active_percent, idle_percent) \<Rightarrow> case elapsed of (total_elapsed, stage_elapsed) \<Rightarrow>
      case verdict of (st, error, message) \<Rightarrow>
       [(''attempt_index'', PInt attempt), (''component'', PStr ''on_device_certificate''), (''owner'', PStr ''client''),
        (''cert_sig_alg'', PStr (sig_name sg)), (''sig_family'', PStr (sig_family sg)),
        (''sig_nist_level'', PInt (sig_nist_level sg))] @
       copy_cells vals SIGNATURE_SIZES @
       [(''builder'', PStr ''wolfssl-nrf5340''), (''generation_scope'', PStr ''keypair_self_signed_x509_sign_and_verify''),
        (''status'', PStr st), (''wall_ms'', PStr (time ''certificate_total_us'')), (''cpu_ms'', PStr cpu_ms),
        (''max_rss_kb'', PStr []), (''output_total_bytes'', PStr (dget vals ''certificate_der_bytes'' [])),
        (''certificate_keygen_ms'', PStr (time ''certificate_keygen_us'')),
        (''certificate_make_body_ms'', PStr (time ''certificate_make_body_us'')),
        (''certificate_sign_ms'', PStr (time ''certificate_sign_us'')),
        (''certificate_verify_ms'', PStr (time ''certificate_verify_us'')),
        (''certificate_total_ms'', PStr (time ''certificate_total_us''))] @
       copy_cells vals [''certificate_der_bytes'', ''client_cpu_cycles'', ''client_cycle_hz'', ''client_active_cycles'',
         ''client_idle_cycles'', ''client_total_cycles''] @
       [(''client_cpu_active_percent'', PStr active_percent), (''client_cpu_idle_percent'', PStr idle_percent)] @
       copy_cells vals (DWT_CELLS @ [''client_heap_current_bytes'', ''client_heap_peak_bytes'',
         ''client_heap_free_bytes'', ''client_heap_capacity_bytes'', ''client_stack_used_bytes'',
         ''client_stack_free_bytes'']) @
       [(''timeout_elapsed_ms'', PStr total_elapsed), (''timeout_stage_elapsed_ms'', PStr stage_elapsed),
        (''progress_reports'', PStr (dget vals ''progress_reports'' (dget vals ''_progress_reports'' []))),
        (''error_code'', PStr error), (''message'', PStr message)])"

definition CERT_TIMES :: "string list" where
  "CERT_TIMES = [''certificate_total_us'', ''certificate_keygen_us'', ''certificate_make_body_us'',
     ''certificate_sign_us'', ''certificate_verify_us'']"

definition on_device_attempt_row :: "signature \<Rightarrow> int \<Rightarrow> srow \<Rightarrow> row res" where
  "on_device_attempt_row sg attempt vals =
     bindr (mapr (int_or_zero vals) SIGNATURE_SIZES) (\<lambda>reported.
     let verdict = cert_verdict vals reported (signature_sizes sg) in
     bindr (mapr (\<lambda>k. bindr (us_to_ms vals k) (\<lambda>t. Inr (k, t))) CERT_TIMES) (\<lambda>durations.
     bindr (int_or_zero vals ''client_cycle_hz'') (\<lambda>cycle_hz.
     bindr (int_or_zero vals ''client_cpu_cycles'') (\<lambda>cycles.
     bindr (int_or_zero vals ''client_active_cycles'') (\<lambda>active_cycles.
     bindr (int_or_zero vals ''client_idle_cycles'') (\<lambda>idle_cycles.
     bindr (int_or_zero vals ''client_total_cycles'') (\<lambda>total_cycles.
     bindr (if fst verdict = ''timeout'' then us_to_ms vals ''elapsed_us'' else Inr []) (\<lambda>total_elapsed.
     bindr (if fst verdict = ''timeout'' then us_to_ms vals ''stage_elapsed_us'' else Inr []) (\<lambda>stage_elapsed.
     Inr (cert_row sg attempt vals (\<lambda>k. dget durations k [])
       (share_cell cycles 1000 cycle_hz, share_cell active_cycles 100 total_cycles,
        share_cell idle_cycles 100 total_cycles)
       (total_elapsed, stage_elapsed) verdict))))))))))"

section \<open>Summaries\<close>

definition max_observed :: "(string \<times> string) list" where
  "max_observed = [(''max_observed_client_cpu_cycles'', ''client_cpu_cycles''),
     (''max_observed_client_active_cycles'', ''client_active_cycles''),
     (''max_observed_client_idle_cycles'', ''client_idle_cycles'')] @
     map (\<lambda>k. (''max_observed_'' @ k, k)) DWT_FIELDS @
     [(''max_observed_client_heap_peak_bytes'', ''client_heap_peak_bytes''),
      (''max_observed_client_stack_used_bytes'', ''client_stack_used_bytes'')]"

definition stat_cell :: "row list \<Rightarrow> (rat list \<Rightarrow> string) \<times> string \<times> string \<Rightarrow> (string \<times> pyval) res" where
  "stat_cell items fck = (case fck of (f, c, key) \<Rightarrow> bindr (get_numbers key items) (\<lambda>xs. Inr (c, PStr (f xs))))"

definition sign_cells :: "row list \<Rightarrow> row res" where
  "sign_cells success = bindr (get_numbers ''certificate_sign_ms'' success) (\<lambda>xs.
     bindr (if xs = [] then Inr [] else percentile_text xs) (\<lambda>p95.
     Inr [(''median_certificate_sign_ms'', PStr (if xs = [] then [] else fmt_fixed 3 (stat_median xs))),
          (''p95_certificate_sign_ms'', PStr p95),
          (''stddev_certificate_sign_ms'', PStr (if 1 < length xs then fmt_fixed 3 (stat_stdev xs)
             else if xs = [] then [] else ''0.000''))]))"

definition cert_status :: "row list \<Rightarrow> row list \<Rightarrow> row list \<Rightarrow> string" where
  "cert_status items success timeouts =
     (if length success = length items then ''success''
      else if timeouts \<noteq> [] \<and> success = [] then ''timeout'' else ''fail'')"

definition first_or_empty :: "row list \<Rightarrow> string \<Rightarrow> string \<times> pyval" where
  "first_or_empty success k = (k, case success of [] \<Rightarrow> PStr [] | r # _ \<Rightarrow> dget r k (PStr []))"

definition cert_summary_row :: "row list \<Rightarrow> row res" where
  "cert_summary_row items =
     bindr (filterr (has_status ''success'') items) (\<lambda>success.
     bindr (filterr (has_status ''timeout'') items) (\<lambda>timeouts.
     bindr (mapr (\<lambda>k. bindr (cell (hd items) k) (\<lambda>v. Inr (k, v))) [''component'', ''owner'', ''cert_sig_alg'',
        ''sig_family'', ''sig_nist_level'', ''builder'', ''generation_scope'']) (\<lambda>identity.
     bindr (mapr (stat_cell success)
       [(mean_text 3, ''mean_wall_ms'', ''wall_ms''), (min_text 3, ''min_wall_ms'', ''wall_ms''),
        (max_text 3, ''max_wall_ms'', ''wall_ms''), (mean_text 3, ''mean_cpu_ms'', ''cpu_ms''),
        (mean_text 3, ''mean_user_cpu_ms'', ''user_cpu_ms''), (mean_text 3, ''mean_sys_cpu_ms'', ''sys_cpu_ms''),
        (max_text 0, ''max_rss_kb'', ''max_rss_kb''), (mean_text 0, ''mean_output_total_bytes'', ''output_total_bytes'')])
       (\<lambda>overall.
     bindr (mapr (stat_cell success)
       [(mean_text 3, ''mean_certificate_keygen_ms'', ''certificate_keygen_ms''),
        (mean_text 3, ''mean_certificate_make_body_ms'', ''certificate_make_body_ms''),
        (mean_text 3, ''mean_certificate_sign_ms'', ''certificate_sign_ms'')]) (\<lambda>making.
     bindr (sign_cells success) (\<lambda>signing.
     bindr (mapr (stat_cell success)
       [(mean_text 3, ''mean_certificate_verify_ms'', ''certificate_verify_ms''),
        (mean_text 3, ''mean_certificate_total_ms'', ''certificate_total_ms''),
        (mean_text 0, ''mean_certificate_der_bytes'', ''certificate_der_bytes'')]) (\<lambda>checking.
     bindr (mapr (\<lambda>(c, k). stat_cell items (max_text 0, c, k)) max_observed) (\<lambda>observed.
     Inr (identity @
       [(''status'', PStr (cert_status items success timeouts)), (''success_count'', PInt (int (length success))),
        (''fail_count'', PInt (int (length items) - int (length success)))] @ overall @
       map (first_or_empty success) [''server_chain_crt_bytes'', ''server_key_bytes'', ''client_cert_crt_bytes'',
         ''client_key_bytes'', ''client_csr_der_bytes'', ''client_csr_pem_bytes''] @
       making @ signing @ checking @
       [(''timeout_count'', PInt (int (length timeouts))),
        (''last_timeout_stage'', if timeouts = [] then PStr [] else dget (last timeouts) ''message'' (PStr []))] @
       observed)))))))))"

definition cert_groups :: "row list \<Rightarrow> (string \<times> string, row list) dict res" where
  "cert_groups rows = foldr_res (\<lambda>d r.
     bindr (bindr (cell r ''component'') pv_text) (\<lambda>c.
     bindr (bindr (cell r ''cert_sig_alg'') pv_text) (\<lambda>n. Inr (dappend (c, n) r d)))) [] rows"

definition cert_summarize :: "row list \<Rightarrow> row list res" where
  "cert_summarize rows = bindr (cert_groups rows) (\<lambda>groups.
     mapr (\<lambda>(g, items). cert_summary_row items) (sort_key fst groups))"

section \<open>Waiting with progress reports\<close>

text \<open>
  The dictionary of the latest progress report is changed while waiting and read after a timeout:
  it is part of the state.
\<close>

record 'w watch =
  wt_world :: 'w
  wt_progress :: srow

definition watchm :: "('w, 'a) io \<Rightarrow> ('w watch, 'a) io" where
  "watchm m = zoom wt_world (\<lambda>w s. s\<lparr>wt_world := w\<rparr>) m"

definition note_progress :: "srow \<Rightarrow> string \<Rightarrow> srow res" where
  "note_progress progress line = (case parse_board_values line ''[BENCH_CERT_PROGRESS]'' of None \<Rightarrow> Inr progress
     | Some vals \<Rightarrow> bindr (py_int (dget progress ''_progress_reports'' ''0'')) (\<lambda>n.
         Inr (dset ''_progress_reports'' (str_int (n + 1)) vals)))"

definition watch_round :: "'w host \<Rightarrow> string \<Rightarrow> string \<Rightarrow> rat \<Rightarrow> unit \<Rightarrow> ('w watch, unit + srow) io" where
  "watch_round H logf marker deadline u =
     bindm (watchm (h_monotonic H)) (\<lambda>now.
     if \<not> now < deadline then raisem TimeoutError
     else bindm (watchm (board_text H logf)) (\<lambda>line. case line of None \<Rightarrow> retm (Inl ())
       | Some l \<Rightarrow>
           bindm (getm wt_progress) (\<lambda>progress.
           bindm (liftm (note_progress progress l)) (\<lambda>progress'.
           seqm (modifym (\<lambda>s. s\<lparr>wt_progress := progress'\<rparr>))
             (retm (case parse_board_values l marker of None \<Rightarrow> Inl () | Some vals \<Rightarrow> Inr vals))))))"

definition watch_board_marker ::
  "'w host \<Rightarrow> nat \<Rightarrow> string \<Rightarrow> string \<Rightarrow> rat \<Rightarrow> ('w watch, srow) io" where
  "watch_board_marker H fuel logf marker timeout =
     bindm (watchm (h_monotonic H)) (\<lambda>now.
     seqm (watchm (h_mkdir H (path_parent logf)))
     (seqm (watchm (h_append H logf []))
     (poll (watch_round H logf marker (fadd now timeout)) fuel ())))"

text \<open>Run with an empty progress report; the outcome and the last report.\<close>

definition watched :: "('w watch, srow) io \<Rightarrow> ('w, srow res \<times> srow) io" where
  "watched m w = (case m \<lparr>wt_world = w, wt_progress = []\<rparr> of (r, s) \<Rightarrow> (Inr (r, wt_progress s), wt_world s))"

definition timed_out_values :: "srow \<Rightarrow> srow" where
  "timed_out_values progress =
     (let vals = dupdate progress (TIMED_OUT @ [(''progress_reports'', dget progress ''_progress_reports'' ''0'')]) in
      if dget progress ''stage'' [] \<noteq> [] then dset ''stage'' (dget progress ''stage'' []) vals else vals)"

section \<open>The board\<close>

record cert_args = bench_args +
  ct_host_only :: bool
  ct_no_client_identity :: bool

definition certificate_timeout :: "string \<Rightarrow> pyval \<Rightarrow> rat res" where
  "certificate_timeout signature_name given = bindr (capped CERT_CAP given) pv_float"

definition cert_command :: "signature \<Rightarrow> int \<Rightarrow> string" where
  "cert_command sg attempt = ''CERTGEN certgen__'' @ slug (sig_name sg) @ '' '' @ sig_name sg @ '' '' @
     str_int attempt @ newline"

definition cert_observe :: "('w, 'g) site \<Rightarrow> 'w wire \<Rightarrow> cert_args \<Rightarrow> string \<Rightarrow> signature \<Rightarrow> int \<Rightarrow> ('w, srow) io" where
  "cert_observe S L a run_dir sg attempt =
     seqm (wr_write L (encode_str (cert_command sg attempt)))
     (seqm (wr_flush L)
     (bindm (liftm (certificate_timeout (sig_name sg) (bn_attempt_timeout a))) (\<lambda>timeout.
      bindm (watched (watch_board_marker (si_host S) (si_fuel S) (path_join run_dir ''board.log'')
         ''[BENCH_CERT_RESULT]'' timeout)) (\<lambda>(outcome, progress).
      case outcome of
        Inr vals \<Rightarrow> retm (dset ''progress_reports'' (dget progress ''_progress_reports'' ''0'') vals)
      | Inl e \<Rightarrow> if \<not> is_timeout e then raisem e
          else seqm (reset_bench_board S a run_dir) (seqm (await_ready S a run_dir)
            (retm (timed_out_values progress)))))))"

definition cert_case ::
  "('w, 'g) site \<Rightarrow> 'w wire \<Rightarrow> cert_args \<Rightarrow> string \<Rightarrow> row list \<Rightarrow> srow \<Rightarrow> ('w, row list) io" where
  "cert_case S L a run_dir attempts c =
     bindm (liftm (bindr (dindex c ''cert_sig_alg'') (dindex SIGNATURES_BY_NAME))) (\<lambda>sg.
     measure_all (cert_observe S L a run_dir sg) (on_device_attempt_row sg)
       (save_csv (si_host S) (path_join run_dir ''attempts.csv'') CERT_ATTEMPT_FIELDS)
       attempts [1..bn_iterations a])"

definition cert_session ::
  "('w, 'g) site \<Rightarrow> 'w wire \<Rightarrow> cert_args \<Rightarrow> string \<Rightarrow> srow list \<Rightarrow> ('w, row list) io" where
  "cert_session S L a run_dir cases = (let C = si_console S in
     seqm (cn_serial_open C (bn_serial_device a) (bn_serial_baud a))
     (finallym
       (seqm (h_reset_input (si_host S))
       (seqm (whenm (bn_skip_flash a) (reset_bench_board S a run_dir))
       (seqm (await_ready S a run_dir)
        (foldm (cert_case S L a run_dir) [] cases))))
       (cn_serial_close C)))"

section \<open>The program\<close>

definition cert_cases :: "('w, 'g) site \<Rightarrow> cert_args \<Rightarrow> (srow list \<Rightarrow> srow list) \<Rightarrow> ('w, srow list) io" where
  "cert_cases S a order =
     bindm (h_read (si_host S) (bn_cases a)) (\<lambda>text. liftm (
       bindr (bindr (read_certificate_cases text) signature_cases) (\<lambda>cases.
       bindr (wanted_cases ''unknown or disabled signatures: '' ''cert_sig_alg'' (bn_only a) cases) (\<lambda>kept.
       let chosen = first_cases (bn_limit a) (order kept) in
       if chosen = [] then Inl (ValueError ''no signatures selected'') else Inr chosen))))"

definition cert_config :: "cert_args \<Rightarrow> row res" where
  "cert_config a = bindr (capped CERT_CAP (bn_attempt_timeout a)) (\<lambda>timeout.
     Inr [(''mode'', PStr ''on-device-certificate-generation''), (''board'', PStr (bn_board a)),
       (''serial_device'', PStr (bn_serial_device a)), (''iterations'', PInt (bn_iterations a)),
       (''seed'', PInt (bn_seed a)), (''attempt_timeout_sec'', timeout)])"

definition cert_manifest :: "('w, 'g) site \<Rightarrow> cert_args \<Rightarrow> string \<Rightarrow> string \<Rightarrow> srow list \<Rightarrow> ('w, unit) io" where
  "cert_manifest S a run_id run_dir cases = (let H = si_host S in
     seqm (dk_copy (si_disk S) (bn_cases a) (path_join run_dir ''input_cases.csv''))
     (seqm (h_write H (path_join run_dir ''seed.txt'') (str_int (bn_seed a) @ newline))
     (bindm (liftm (cert_config a)) (\<lambda>config.
      seqm (write_json H (path_join run_dir ''run_config.json'') config)
      (save_csv H (path_join run_dir ''run_manifest.csv'') ([''sequence''] @ FIELDS @ [''seed'', ''run_id''])
         (map (manifest_row (bn_seed a) run_id) (enumerate_from 1 cases)))))))"

definition cert_build_args :: "string \<Rightarrow> cert_args \<Rightarrow> string \<Rightarrow> string \<Rightarrow> build_args" where
  "cert_build_args bench a run_dir build_dir =
     \<lparr>ba_firmware_dir = path_join bench ''firmware'', ba_build_dir = build_dir, ba_generated_dir = run_dir,
      ba_log = path_join run_dir ''build.log'', ba_nrfutil = bn_nrfutil a, ba_ncs_version = bn_ncs_version a,
      ba_ncs_chdir = bn_ncs_chdir a, ba_board = bn_board a, ba_mlkem_backend = ''wolfssl'',
      ba_pqm4_dir = None, ba_power_markers = False, ba_ble_telemetry = False, ba_mtls = False,
      ba_certificate_gen = True, ba_kem_benchmark = False, ba_transfer_mode = False\<rparr>"

definition cert_firmware :: "('w, 'g) site \<Rightarrow> cert_args \<Rightarrow> string \<Rightarrow> ('w, unit) io" where
  "cert_firmware S a run_dir = (let build_dir = WORK (si_bench S) @ ''/firmware-build/certificate-gen-nrf5340'' in
     install_firmware S a run_dir build_dir (cert_build_args (si_bench S) a run_dir build_dir))"

definition write_cert_summary :: "'w host \<Rightarrow> string \<Rightarrow> row list \<Rightarrow> ('w, unit) io" where
  "write_cert_summary H run_dir attempts = bindm (liftm (cert_summarize attempts)) (\<lambda>summaries.
     save_csv H (path_join run_dir ''summary.csv'') CERT_SUMMARY_FIELDS summaries)"

definition run_on_device :: "('w, 'g) site \<Rightarrow> 'w wire \<Rightarrow> cert_args \<Rightarrow> ('w, int) io" where
  "run_on_device S L a =
     bindm (cert_cases S a (seeded_shuffle (si_rng S) (bn_seed a))) (\<lambda>cases.
     bindm (new_run_dir S (bn_run_id a) ''cert_device_'' (''_'' @ str_int (bn_seed a))) (\<lambda>(run_id, run_dir).
     seqm (cert_manifest S a run_id run_dir cases)
     (seqm (cert_firmware S a run_dir)
     (bindm (cert_session S L a run_dir cases) (\<lambda>attempts.
      seqm (write_cert_summary (si_host S) run_dir attempts) (retm 0))))))"

definition host_case ::
  "('w, 'g) site \<Rightarrow> cert_args \<Rightarrow> string \<Rightarrow> string \<Rightarrow> row list \<Rightarrow> srow \<Rightarrow> ('w, row list) io" where
  "host_case S a run_dir logf attempts c =
     bindm (liftm (bindr (dindex c ''cert_sig_alg'') (dindex SIGNATURES_BY_NAME))) (\<lambda>sg.
     foldm (host_attempt (si_host S) (si_disk S) run_dir logf (server_job (path_join run_dir ''trust-anchors'') sg))
       attempts [1..bn_iterations a])"

definition host_client :: "('w, 'g) site \<Rightarrow> cert_args \<Rightarrow> string \<Rightarrow> string \<Rightarrow> ('w, row list) io" where
  "host_client S a run_dir logf = (if ct_no_client_identity a then retm []
     else bindm (liftm (dindex SIGNATURES_BY_NAME ''ECDSA-P-256'')) (\<lambda>sg.
       foldm (host_attempt (si_host S) (si_disk S) run_dir logf (client_job sg)) [] [1..bn_iterations a]))"

definition run_on_host :: "('w, 'g) site \<Rightarrow> cert_args \<Rightarrow> ('w, int) io" where
  "run_on_host S a = (let H = si_host S; D = si_disk S in
     bindm (new_run_dir S (bn_run_id a) ''cert_chains_'' []) (\<lambda>(run_id, run_dir).
     let logf = path_join run_dir ''certificate-benchmark.log'' in
     seqm (ensure_image H (si_bench S @ ''/docker/Dockerfile.pqc'') logf)
     (seqm (generate_client_identity H D (path_join run_dir ''trust-anchors'') logf)
     (bindm (cert_cases S a (\<lambda>cases. cases)) (\<lambda>cases.
      bindm (host_client S a run_dir logf) (\<lambda>client_attempts.
      bindm (foldm (host_case S a run_dir logf) client_attempts cases) (\<lambda>attempts.
      seqm (write_cert_summary H run_dir attempts)
      (seqm (dk_copy D (bn_cases a) (path_join run_dir ''input_cases.csv'')) (retm 0)))))))))"

definition cert_args_of ::
  "('w, 'g) site \<Rightarrow> string option \<Rightarrow> (cert_args \<Rightarrow> cert_args) \<Rightarrow> ('w, cert_args) io" where
  "cert_args_of S config_path options = (let H = si_host S; C = si_console S in
     bindm (config_device H (case config_path of None \<Rightarrow> path_join (si_bench S) ''config.json'' | Some p \<Rightarrow> p)) (\<lambda>device.
     bindm (nrfutil_path C) (\<lambda>nrfutil.
     bindm (ncs_path H C) (\<lambda>ncs_chdir.
     retm (options (bench_args.extend (default_bench_args 1 CERT_CAP device nrfutil ncs_chdir)
       \<lparr>ct_host_only = False, ct_no_client_identity = False\<rparr>))))))"

definition cert_main ::
  "('w, 'g) site \<Rightarrow> 'w wire \<Rightarrow> string option \<Rightarrow> (cert_args \<Rightarrow> cert_args) \<Rightarrow> ('w, int) io" where
  "cert_main S L config_path options =
     bindm (cert_args_of S config_path options) (\<lambda>a.
     seqm (liftm (check_bench_args a))
     (if ct_host_only a then run_on_host S a else run_on_device S L a))"

section \<open>The row of an attempt, cell by cell\<close>

lemma cert_row_keys:
  "map_of (cert_row sg attempt vals time cpu elapsed verdict) ''attempt_index'' = Some (PInt attempt)"
  "map_of (cert_row sg attempt vals time cpu elapsed verdict) ''cert_sig_alg'' = Some (PStr (sig_name sg))"
  "map_of (cert_row sg attempt vals time cpu elapsed verdict) ''status'' = Some (PStr (fst verdict))"
  by (cases cpu; cases elapsed; cases verdict;
      simp add: cert_row_def map_of_append_case map_of_copy_cells SIGNATURE_SIZES_def DWT_CELLS_def DWT_FIELDS_def
        del: map_of_append)+

lemma cert_row_end:
  "map_of (cert_row sg attempt vals time cpu elapsed verdict) ''progress_reports'' =
     Some (PStr (dget vals ''progress_reports'' (dget vals ''_progress_reports'' [])))"
  "map_of (cert_row sg attempt vals time cpu elapsed verdict) ''message'' = Some (PStr (snd (snd verdict)))"
  by (cases cpu; cases elapsed; cases verdict;
      simp add: cert_row_def map_of_append_case map_of_copy_cells SIGNATURE_SIZES_def DWT_CELLS_def DWT_FIELDS_def
        del: map_of_append)+

lemma cert_row_cells:
  assumes "on_device_attempt_row sg attempt vals = Inr r"
  obtains reported time cpu elapsed where "mapr (int_or_zero vals) SIGNATURE_SIZES = Inr reported"
    "r = cert_row sg attempt vals time cpu elapsed (cert_verdict vals reported (signature_sizes sg))"
  using assms unfolding on_device_attempt_row_def bindr_eq_Inr Let_def by blast

lemma cert_verdict_status:
  "fst (cert_verdict vals reported expected) =
    (if py_lower (dget vals ''status'' ''fail'') = ''success'' \<and> reported \<noteq> expected then ''fail''
     else py_lower (dget vals ''status'' ''fail''))"
  unfolding cert_verdict_def Let_def by (simp split: if_split)

lemma cert_verdict_success:
  "fst (cert_verdict vals reported expected) = ''success'' \<longleftrightarrow>
    py_lower (dget vals ''status'' ''fail'') = ''success'' \<and> reported = expected"
  unfolding cert_verdict_status by (simp split: if_split) blast

interpretation cert_rows: iterations on_device_attempt_row "''cert_sig_alg''" sig_name
proof
  fix sg i vals r
  assume r: "on_device_attempt_row sg i vals = Inr r"
  show "map_of r ''attempt_index'' = Some (PInt i)" "map_of r ''cert_sig_alg'' = Some (PStr (sig_name sg))"
    by (rule cert_row_cells [OF r], simp add: cert_row_keys)+
  show "\<exists>st. map_of r ''status'' = Some (PStr st) \<and> (st = py_lower (dget vals ''status'' ''fail'') \<or>
      py_lower (dget vals ''status'' ''fail'') = ''success'' \<and> st = ''fail'')"
    by (rule cert_row_cells [OF r]) (simp add: cert_row_keys cert_verdict_status)
qed

section \<open>The table of a session\<close>

definition cert_block :: "int \<Rightarrow> srow \<Rightarrow> row list \<Rightarrow> bool" where
  "cert_block n c b \<longleftrightarrow> (\<exists>sg. dindex c ''cert_sig_alg'' = Inr (sig_name sg) \<and>
     block (on_device_attempt_row sg) [1..n] b \<and>
     map (\<lambda>r. map_of r ''attempt_index'') b = map (\<lambda>i. Some (PInt i)) [1..n] \<and>
     (\<forall>r\<in>set b. map_of r ''cert_sig_alg'' = Some (PStr (sig_name sg))))"

lemma signature_found:
  assumes "dindex SIGNATURES_BY_NAME n = Inr sg"
  shows "sig_name sg = n"
proof -
  have "map_of SIGNATURES_BY_NAME n = Some sg" using assms by (auto simp: dindex_def split: option.splits)
  then have "(n, sg) \<in> (\<lambda>s. (sig_name s, s)) ` set SIGNATURES"
    unfolding SIGNATURES_BY_NAME_def map_of_dict_of by (auto dest: map_of_SomeD)
  then show ?thesis by auto
qed

lemma cert_case_block:
  assumes "cert_case S L a run_dir attempts c s = (Inr out, t)" "1 \<le> bn_iterations a"
  shows "\<exists>b. out = attempts @ b \<and> cert_block (bn_iterations a) c b"
proof -
  obtain n sg where n: "dindex c ''cert_sig_alg'' = Inr n" "dindex SIGNATURES_BY_NAME n = Inr sg"
    and m: "measure_all (cert_observe S L a run_dir sg) (on_device_attempt_row sg)
       (save_csv (si_host S) (path_join run_dir ''attempts.csv'') CERT_ATTEMPT_FIELDS)
       attempts [1..bn_iterations a] s = (Inr out, t)"
    using assms(1) by (auto simp: cert_case_def bindr_eq_Inr elim!: bindm_okE)
  have "[1..bn_iterations a] \<noteq> []" using assms(2) by simp
  from measure_block [OF m this] obtain b where b: "out = attempts @ b"
    "block (on_device_attempt_row sg) [1..bn_iterations a] b"
    by blast
  then show ?thesis
    using cert_rows.rows_numbered [OF b(2)] n signature_found [OF n(2)] unfolding cert_block_def by blast
qed

section \<open>Progress reports\<close>

definition reports :: "string list \<Rightarrow> srow list" where
  "reports lines = List.map_filter (\<lambda>l. parse_board_values l ''[BENCH_CERT_PROGRESS]'') lines"

definition noted :: "srow list \<Rightarrow> srow" where
  "noted rs = (if rs = [] then [] else dset ''_progress_reports'' (str_int (int (length rs))) (last rs))"

lemma zero_text: "str_int 0 = ''0''"
  by code_simp

lemma note_progress_noted:
  "note_progress (noted rs) line = Inr (noted (case parse_board_values line ''[BENCH_CERT_PROGRESS]'' of
     None \<Rightarrow> rs | Some vals \<Rightarrow> rs @ [vals]))"
proof -
  have "py_int (dget (noted rs) ''_progress_reports'' ''0'') = Inr (int (length rs))"
    by (cases "rs = []") (simp_all add: noted_def dget_def flip: zero_text)
  then show ?thesis
    by (cases "parse_board_values line ''[BENCH_CERT_PROGRESS]''") (simp_all add: note_progress_def, simp add: noted_def add.commute)
qed

lemma progress_of_lines: "foldr_res note_progress (noted rs) lines = Inr (noted (rs @ reports lines))"
proof (induction lines arbitrary: rs)
  case (Cons l ls)
  show ?case
    by (simp add: note_progress_noted reports_def List.map_filter_simps Cons [unfolded reports_def] split: option.split)
qed (simp add: reports_def List.map_filter_simps)

lemma timed_out_cells:
  "dget (timed_out_values p) ''status'' d = ''timeout''"
  "dget (timed_out_values p) ''progress_reports'' d = dget p ''_progress_reports'' ''0''"
  "dget (timed_out_values p) ''stage'' d = str_or (dget p ''stage'' []) ''board_result''"
  by (simp_all add: timed_out_values_def TIMED_OUT_def dget_def map_of_dupdate str_or_def Let_def)

section \<open>Properties\<close>

text \<open>
  A row of the certificate benchmark on the board is a success exactly when the board
  reported a success and the sizes of keys and signature are those of the table of algorithms.
\<close>

theorem certificate_success_verified:
  assumes "on_device_attempt_row sg attempt vals = Inr r"
  shows "map_of r ''status'' = Some (PStr ''success'') \<longleftrightarrow>
    py_lower (dget vals ''status'' ''fail'') = ''success'' \<and>
    mapr (int_or_zero vals) SIGNATURE_SIZES = Inr (signature_sizes sg)"
proof -
  obtain reported time cpu elapsed where r: "mapr (int_or_zero vals) SIGNATURE_SIZES = Inr reported"
    "r = cert_row sg attempt vals time cpu elapsed (cert_verdict vals reported (signature_sizes sg))"
    using cert_row_cells [OF assms] by metis
  show ?thesis
    unfolding r cert_row_keys option.inject pyval.inject cert_verdict_success sum.inject by (rule refl)
qed

definition demo_certificate_values :: srow where
  "demo_certificate_values = [(''status'', ''success''), (''sig_public_key_bytes'', ''65''),
     (''sig_private_key_bytes'', ''32''), (''sig_signature_bytes'', ''64'')]"

lemma certificate_success_verified_witness:
  "\<exists>r. on_device_attempt_row (hd SIGNATURES) 1 demo_certificate_values = Inr r \<and>
    map_of r ''status'' = Some (PStr ''success'')"
proof -
  have "case on_device_attempt_row (hd SIGNATURES) 1 demo_certificate_values of Inl e \<Rightarrow> False | Inr r \<Rightarrow> True"
    by code_simp
  then obtain r where r: "on_device_attempt_row (hd SIGNATURES) 1 demo_certificate_values = Inr r"
    by (auto split: sum.splits)
  moreover have "py_lower (dget demo_certificate_values ''status'' ''fail'') = ''success''"
    "mapr (int_or_zero demo_certificate_values) SIGNATURE_SIZES = Inr (signature_sizes (hd SIGNATURES))"
    by code_simp+
  ultimately show ?thesis using certificate_success_verified [OF r] by blast
qed

text \<open>
  When the session on the board ends normally, its table is one block for each signature
  algorithm, in order: one row for each iteration, numbered from one and naming the algorithm;
  only the last observation may be a timeout, and the rows after it are cancelled ones.
\<close>

theorem certificate_table_complete:
  assumes "cert_session S L a run_dir cases s = (Inr rows, t)" "1 \<le> bn_iterations a"
  shows "\<exists>blocks. rows = concat blocks \<and> list_all2 (cert_block (bn_iterations a)) cases blocks"
proof -
  obtain u v where "foldm (cert_case S L a run_dir) [] cases u = (Inr rows, v)"
    using assms(1) by (auto simp: cert_session_def Let_def dest!: finallym_ok elim!: seqm_okE)
  from foldm_blocks [OF cert_case_block [OF _ assms(2)] this] show ?thesis by simp
qed

definition demo_cert_args :: cert_args where
  "demo_cert_args = bench_args.extend (default_bench_args 1 CERT_CAP ''tty'' ''nrfutil'' ''/ncs'')
     \<lparr>ct_host_only = False, ct_no_client_identity = False\<rparr>"

definition demo_cert_lines :: script where
  "demo_cert_lines = script_start (map encode_str [''[BENCH_READY]'', ''[BENCH_CERT_PROGRESS] stage=keygen'',
     ''[BENCH_CERT_RESULT] status=timeout'']) [] []"

lemma cert_session_demo:
  "\<exists>rows t. cert_session demo_site demo_wire demo_cert_args ''/r'' [[(''cert_sig_alg'', ''ECDSA-P-256'')]] demo_cert_lines = (Inr rows, t)"
proof -
  let ?c = "[(''cert_sig_alg'', ''ECDSA-P-256'')]" and ?sg = "hd SIGNATURES" and ?H = "si_host demo_site"
  let ?one = "measure_all (cert_observe demo_site demo_wire demo_cert_args ''/r'' ?sg) (on_device_attempt_row ?sg)
      (save_csv ?H (path_join ''/r'' ''attempts.csv'') CERT_ATTEMPT_FIELDS) [] [1..bn_iterations demo_cert_args]"
  have "sig_name ?sg = ''ECDSA-P-256''" "?sg \<in> set SIGNATURES" by (simp_all add: SIGNATURES_def mk_sig_def)
  then have "dindex SIGNATURES_BY_NAME ''ECDSA-P-256'' = Inr ?sg" using signature_lookup by metis
  then have c: "cert_case demo_site demo_wire demo_cert_args ''/r'' [] ?c = ?one"
    by (simp add: cert_case_def dindex_def)
  have "case fst (seqm (cn_serial_open (si_console demo_site) (bn_serial_device demo_cert_args) (bn_serial_baud demo_cert_args))
     (finallym
       (seqm (h_reset_input ?H)
       (seqm (whenm (bn_skip_flash demo_cert_args) (reset_bench_board demo_site demo_cert_args ''/r''))
       (seqm (await_ready demo_site demo_cert_args ''/r'')
        (bindm ?one retm))))
       (cn_serial_close (si_console demo_site))) demo_cert_lines) of
      Inl e \<Rightarrow> False | Inr r \<Rightarrow> True"
    by code_simp
  then have "case fst (cert_session demo_site demo_wire demo_cert_args ''/r'' [?c] demo_cert_lines) of
      Inl e \<Rightarrow> False | Inr r \<Rightarrow> True"
    by (simp only: cert_session_def foldm.simps c Let_def)
  then show ?thesis by (cases "cert_session demo_site demo_wire demo_cert_args ''/r'' [?c] demo_cert_lines")
    (auto split: sum.splits)
qed

lemma certificate_table_complete_witness:
  "\<exists>rows t. cert_session demo_site demo_wire demo_cert_args ''/r'' [[(''cert_sig_alg'', ''ECDSA-P-256'')]] demo_cert_lines = (Inr rows, t) \<and>
     cert_block 1 [(''cert_sig_alg'', ''ECDSA-P-256'')] rows"
proof -
  obtain rows t where run: "cert_session demo_site demo_wire demo_cert_args ''/r'' [[(''cert_sig_alg'', ''ECDSA-P-256'')]] demo_cert_lines
      = (Inr rows, t)"
    using cert_session_demo by blast
  have n: "bn_iterations demo_cert_args = 1"
    by (simp add: demo_cert_args_def default_bench_args_def bench_args.defs)
  have "1 \<le> bn_iterations demo_cert_args" by (simp add: n)
  from certificate_table_complete [OF run this] run show ?thesis
    by (auto simp: n list_all2_Cons1)
qed

text \<open>
  What the board reported before a timeout is kept: after any lines, the row of the timed-out
  attempt says how many progress reports were among them and names the stage of the last one, or
  the result of the board when there is none.
\<close>

theorem certificate_timeout_reported:
  assumes "foldr_res note_progress [] lines = Inr progress"
    and "on_device_attempt_row sg attempt (timed_out_values progress) = Inr r"
  shows "map_of r ''status'' = Some (PStr ''timeout'') \<and>
    map_of r ''progress_reports'' = Some (PStr (str_int (int (length (reports lines))))) \<and>
    map_of r ''message'' = Some (PStr (str_or
      (if reports lines = [] then [] else dget (last (reports lines)) ''stage'' []) ''board_result''))"
proof -
  have p: "progress = noted (reports lines)"
    using assms(1) progress_of_lines [of "[]" lines] by (simp add: noted_def)
  have st: "py_lower ''timeout'' = ''timeout''" by code_simp
  obtain reported time cpu elapsed where r:
    "r = cert_row sg attempt (timed_out_values progress) time cpu elapsed
       (cert_verdict (timed_out_values progress) reported (signature_sizes sg))"
    using cert_row_cells [OF assms(2)] by metis
  have "dget progress ''_progress_reports'' ''0'' = str_int (int (length (reports lines)))"
    unfolding p noted_def by (simp add: dget_def zero_text)
  moreover have "dget progress ''stage'' [] = (if reports lines = [] then [] else dget (last (reports lines)) ''stage'' [])"
    unfolding p noted_def by (simp add: dget_def)
  ultimately show ?thesis
    unfolding r by (simp add: cert_row_keys cert_row_end cert_verdict_def timed_out_cells st Let_def)
qed

lemma certificate_timeout_reported_witness:
  "\<exists>r. on_device_attempt_row (hd SIGNATURES) 1 (timed_out_values
      [(''stage'', ''sign''), (''_progress_reports'', ''1'')]) = Inr r \<and>
    map_of r ''message'' = Some (PStr ''sign'')"
proof -
  let ?p = "[(''stage'', ''sign''), (''_progress_reports'', ''1'')]"
  have l: "foldr_res note_progress [] [''[BENCH_CERT_PROGRESS] stage=sign''] = Inr ?p" by code_simp
  have "case on_device_attempt_row (hd SIGNATURES) 1 (timed_out_values ?p) of Inl e \<Rightarrow> False | Inr r \<Rightarrow> True"
    by code_simp
  then obtain r where r: "on_device_attempt_row (hd SIGNATURES) 1 (timed_out_values ?p) = Inr r"
    by (auto split: sum.splits)
  have "str_or (if reports [''[BENCH_CERT_PROGRESS] stage=sign''] = [] then []
      else dget (last (reports [''[BENCH_CERT_PROGRESS] stage=sign''])) ''stage'' []) ''board_result'' = ''sign''"
    by code_simp
  then show ?thesis using certificate_timeout_reported [OF l r] r by simp
qed

end
