(* ===== verification/Result_Tools.thy ===== *)
theory Result_Tools
  imports Campaign_Setup
begin

text \<open>
  The two small tools beside the runners: \<open>check_results.py\<close> says for every case of a run whether
  all its recorded executions succeeded, \<open>clean_work.py\<close> reports or removes old build trees.
  What they print is their result, a list of lines.
\<close>

section \<open>Checking a run\<close>

definition find_run_dir :: "('w, 'g) site \<Rightarrow> string \<Rightarrow> ('w, string) io" where
  "find_run_dir S val =
     bindm (cn_expanduser (si_console S) val) (\<lambda>path.
     bindm (h_is_dir (si_host S) path) (\<lambda>dir.
     if dir then dk_resolve (si_disk S) path
     else let candidate = path_join (RESULTS (si_bench S)) val in
       bindm (h_is_dir (si_host S) candidate) (\<lambda>dir.
       if dir then dk_resolve (si_disk S) candidate
       else raisem (FileNotFoundError (''benchmark results directory not found: '' @ val)))))"

definition named_cases :: "srow list \<Rightarrow> string list" where
  "named_cases rows = filter (\<lambda>c. c \<noteq> []) (map (\<lambda>r. dget r ''case_id'' []) rows)"

definition expected_case_ids :: "'w host \<Rightarrow> string \<Rightarrow> ('w, string list) io" where
  "expected_case_ids H run_dir = (let manifest = path_join run_dir ''run_manifest.csv'' in
     bindm (h_exists H manifest) (\<lambda>present.
     if \<not> present then retm []
     else bindm (h_read H manifest) (\<lambda>text. liftm (bindr (dict_reader text) (\<lambda>(names, rows). Inr (named_cases rows))))))"

text \<open>The directory of a case is named \<open>003_case\<close>; the first row may name the case.\<close>

definition after_first :: "char \<Rightarrow> string \<Rightarrow> string" where
  "after_first c s = (if c \<in> set s then tl (dropWhile (\<lambda>x. x \<noteq> c) s) else s)"

definition case_of_table :: "string \<Rightarrow> srow list \<Rightarrow> string" where
  "case_of_table path rows =
     str_or (case rows of [] \<Rightarrow> [] | r # _ \<Rightarrow> dget r ''case_id'' [])
       (after_first CHR ''_'' (path_name (path_parent path)))"

definition read_table :: "'w host \<Rightarrow> string \<Rightarrow> ('w, srow list) io" where
  "read_table H path = bindm (h_read H path) (\<lambda>text. liftm (bindr (dict_reader text) (\<lambda>(names, rows). Inr rows)))"

definition attempts_by_case :: "'w host \<Rightarrow> 'w disk \<Rightarrow> string \<Rightarrow> ('w, (string, srow list) dict) io" where
  "attempts_by_case H D run_dir =
     bindm (dk_glob D (path_join run_dir ''cases'') ''*/attempts.csv'') (\<lambda>paths.
     foldm (\<lambda>d path. bindm (read_table H path) (\<lambda>rows. retm (dset (case_of_table path rows) rows d)))
       [] (sort_key (split_on CHR ''/'') paths))"

definition successes :: "srow list \<Rightarrow> nat" where
  "successes rows = length (filter (\<lambda>r. map_of r ''status'' = Some ''success'') rows)"

definition status_of :: "srow \<Rightarrow> string" where
  "status_of r = str_or (dget r ''status'' []) ''missing_status''"

definition status_counts :: "srow list \<Rightarrow> (string, int) dict" where
  "status_counts rows = fold (\<lambda>r d. dset (status_of r) (dget d (status_of r) 0 + 1) d) rows []"

definition all_succeeded :: "srow list \<Rightarrow> bool" where
  "all_succeeded rows \<longleftrightarrow> rows \<noteq> [] \<and> successes rows = length rows"

definition verdict_line :: "string \<Rightarrow> srow list \<Rightarrow> string" where
  "verdict_line cid rows = (let tally = str_nat (successes rows) @ ''/'' @ str_nat (length rows) in
     if all_succeeded rows then ''PASS '' @ cid @ '' ('' @ tally @ '')''
     else ''FAIL '' @ cid @ '' ('' @ tally @ ''; '' @
       str_or (join '','' (map (\<lambda>(st, n). st @ ''='' @ str_int n) (sort_key fst (status_counts rows)))) ''no_attempts'' @ '')'')"

text \<open>The cases that are reported, and the exit code with the lines.\<close>

definition reported :: "bool \<Rightarrow> (string, srow list) dict \<Rightarrow> string list \<Rightarrow> string list" where
  "reported ongoing attempts cids = filter (\<lambda>c. \<not> (ongoing \<and> dget attempts c [] = [])) cids"

definition check_report :: "bool \<Rightarrow> (string, srow list) dict \<Rightarrow> string list \<Rightarrow> int \<times> string list" where
  "check_report ongoing attempts expected =
     (let cids = reported ongoing attempts (if expected = [] then sort (map fst attempts) else expected) in
      (if list_all (\<lambda>c. all_succeeded (dget attempts c [])) cids then 0 else 1,
       map (\<lambda>c. verdict_line c (dget attempts c [])) cids))"

definition check_main :: "('w, 'g) site \<Rightarrow> string \<Rightarrow> bool \<Rightarrow> ('w, int \<times> string list) io" where
  "check_main S val ongoing =
     bindm (find_run_dir S val) (\<lambda>run_dir.
     bindm (attempts_by_case (si_host S) (si_disk S) run_dir) (\<lambda>attempts.
     bindm (expected_case_ids (si_host S) run_dir) (\<lambda>expected.
     retm (check_report ongoing attempts expected))))"

section \<open>Cleaning the work directory\<close>

definition TARGETS :: "string \<Rightarrow> string list" where
  "TARGETS bench = [WORK bench @ ''/firmware-build'', WORK bench @ ''/generated'']"

definition directory_size :: "'w host \<Rightarrow> 'w disk \<Rightarrow> string \<Rightarrow> ('w, int) io" where
  "directory_size H D path = bindm (dk_rglob D path) (\<lambda>items.
     bindm (mapm (\<lambda>item. bindm (h_is_file H (path_join path item)) (\<lambda>file.
        if file then h_size H (path_join path item) else retm 0)) items) (\<lambda>sizes. retm (sum_list sizes)))"

fun human_units :: "rat \<Rightarrow> string list \<Rightarrow> string res" where
  "human_units x [] = Inl (OutsideModel ''unreachable'')"
| "human_units x (unit # others) = (if x < 1024 \<or> unit = ''TiB'' then Inr (fmt_fixed 1 (round64 x) @ '' '' @ unit)
     else human_units (fdiv x 1024) others)"

definition human_size :: "int \<Rightarrow> string res" where
  "human_size n = human_units (of_int n) [''B'', ''KiB'', ''MiB'', ''GiB'', ''TiB'']"

definition pad_left :: "nat \<Rightarrow> string \<Rightarrow> string" where
  "pad_left n s = replicate (n - length s) CHR '' '' @ s"

definition clean_target ::
  "'w host \<Rightarrow> 'w disk \<Rightarrow> bool \<Rightarrow> int \<times> string list \<Rightarrow> string \<Rightarrow> ('w, int \<times> string list) io" where
  "clean_target H D apply_it st target = (case st of (so_far, lines) \<Rightarrow>
     bindm (h_exists H target) (\<lambda>present.
     bindm (if present then directory_size H D target else retm 0) (\<lambda>size.
     bindm (liftm (human_size size)) (\<lambda>text.
     bindm (h_exists H target) (\<lambda>still.
     seqm (if apply_it \<and> still then dk_rmtree D target else retm ())
       (retm (so_far + size, lines @ [pad_left 10 text @ ''  '' @ target])))))))"

definition clean_main :: "('w, 'g) site \<Rightarrow> bool \<Rightarrow> ('w, int \<times> string list) io" where
  "clean_main S apply_it =
     bindm (foldm (clean_target (si_host S) (si_disk S) apply_it) (0, []) (TARGETS (si_bench S))) (\<lambda>(so_far, lines).
     bindm (liftm (human_size so_far)) (\<lambda>text.
     retm (0, lines @ [(if apply_it then ''removed'' else ''reclaimable'') @ '': '' @ text,
       ''results preserved: '' @ RESULTS (si_bench S)])))"

section \<open>Properties\<close>

lemma successes_all: "successes rows = length rows \<longleftrightarrow> (\<forall>r\<in>set rows. map_of r ''status'' = Some ''success'')"
  by (induction rows) (auto simp: successes_def, metis length_filter_le Suc_n_not_le_n)

text \<open>
  The checker ends with code zero exactly when every case it reports has executions and all
  of them succeeded; a case of the manifest without any is reported as failed unless the run
  is still going on.
\<close>

theorem check_passes:
  assumes "expected \<noteq> []"
  shows "fst (check_report ongoing attempts expected) = 0 \<longleftrightarrow>
    (\<forall>c\<in>set expected. (dget attempts c [] \<noteq> [] \<or> \<not> ongoing) \<longrightarrow>
       dget attempts c [] \<noteq> [] \<and> (\<forall>r\<in>set (dget attempts c []). map_of r ''status'' = Some ''success''))"
  using assms by (auto simp: check_report_def Let_def reported_def list_all_iff all_succeeded_def successes_all)

lemma check_passes_witness:
  "fst (check_report True [(''c'', [[(''status'', ''success'')]])] [''c'', ''d'']) = 0 \<and>
   fst (check_report False [(''c'', [[(''status'', ''success'')]])] [''c'', ''d'']) \<noteq> 0"
proof -
  have e: "[''c'', ''d''] \<noteq> []" by simp
  show ?thesis
    using check_passes [OF e, of True "[(''c'', [[(''status'', ''success'')]])]"]
      check_passes [OF e, of False "[(''c'', [[(''status'', ''success'')]])]"]
    by (simp add: dget_def)
qed

definition looking_keeps :: "('w \<Rightarrow> bool) \<Rightarrow> 'w host \<Rightarrow> 'w disk \<Rightarrow> bool" where
  "looking_keeps P H D \<longleftrightarrow> (\<forall>p. keeps P (h_exists H p) \<and> keeps P (h_is_file H p) \<and> keeps P (h_size H p) \<and>
     keeps P (dk_rglob D p))"

text \<open>
  Without the option to apply, the cleaner removes nothing: whatever holds of the world and is
  not changed by looking at files still holds after it.
\<close>

theorem clean_reports_only:
  assumes "looking_keeps P (si_host S) (si_disk S)"
  shows "keeps P (clean_main S False)"
proof -
  have size: "keeps P (directory_size (si_host S) (si_disk S) p)" for p
    using assms unfolding directory_size_def looking_keeps_def
    by (auto intro!: keeps_intros)
  have "keeps P (clean_target (si_host S) (si_disk S) False st p)" for st p
    using assms unfolding clean_target_def looking_keeps_def
    by (cases st) (auto intro!: keeps_intros size)
  then show ?thesis
    unfolding clean_main_def by (auto intro!: keeps_intros split: prod.split)
qed

lemma clean_reports_only_witness:
  "keeps (\<lambda>s. sc_files s = [(''/bench/work/generated'', ''x'')]) (clean_main demo_site False)"
proof (rule clean_reports_only)
  show "looking_keeps (\<lambda>s. sc_files s = [(''/bench/work/generated'', ''x'')]) (si_host demo_site) (si_disk demo_site)"
    by (auto simp: looking_keeps_def demo_site_def script_host_def demo_disk_def keeps_def getm_def retm_def
        bindm_def script_read_def split: option.splits sum.splits)
qed

end
