(* ===== verification/Chart_Rows.thy ===== *)
theory Chart_Rows
  imports Result_Tools Summaries
begin

text \<open>
  The rows behind the figures of \<open>graphic/plot_tls_handshake_bars.py\<close>: how a run is found, how its
  summary or, for older runs, its attempt tables become rows, how rows are classified and
  labelled, and how a handshake is split into components.  A figure program reads text and
  numbers only through \<open>float_or_none\<close> and \<open>int_or_none\<close>, which turn a defect into \<open>None\<close>.
\<close>

section \<open>Constants\<close>

definition PURE_PQC_KEM_PREFIXES :: "string list" where
  "PURE_PQC_KEM_PREFIXES = [''MLKEM'']"

definition HYBRID_KEM_PREFIXES :: "string list" where
  "HYBRID_KEM_PREFIXES = [''SecP'', ''X25519MLKEM'']"

definition PQC_SIG_PREFIXES :: "string list" where
  "PQC_SIG_PREFIXES = [''ML-DSA'', ''SLH-DSA'', ''LMS'', ''XMSS'']"

definition SECURITY_LEVELS :: "int list" where
  "SECURITY_LEVELS = [1, 3, 5]"

text \<open>The critical values in thousandths.\<close>

definition T_CRITICAL_95 :: "rat list" where
  "T_CRITICAL_95 = map (\<lambda>n. round64 (of_int n / 1000))
     [0, 12706, 4303, 3182, 2776, 2571, 2447, 2365, 2306, 2262, 2228, 2201, 2179, 2160, 2145, 2131,
      2120, 2110, 2101, 2093, 2086, 2080, 2074, 2069, 2064, 2060, 2056, 2052, 2048, 2045, 2042]"

section \<open>Finding a run\<close>

definition DEFAULT_RESULTS_ROOT :: "string \<Rightarrow> string" where
  "DEFAULT_RESULTS_ROOT project = path_join project ''benchmarking/results''"

definition resolve_run_dir :: "('w, 'g) site \<Rightarrow> string \<Rightarrow> string \<Rightarrow> ('w, string) io" where
  "resolve_run_dir S project val =
     bindm (cn_expanduser (si_console S) val) (\<lambda>path.
     bindm (h_exists (si_host S) path) (\<lambda>present.
     if present then dk_resolve (si_disk S) path
     else let candidate = path_join (DEFAULT_RESULTS_ROOT project) val in
       bindm (h_exists (si_host S) candidate) (\<lambda>present.
       if present then dk_resolve (si_disk S) candidate
       else raisem (FileNotFoundError (''Benchmark result directory not found: '' @ val @ ''. Tried '' @
         path @ '' and '' @ candidate @ ''.'')))))"

section \<open>Numbers in cells\<close>

definition float_or_none :: "string option \<Rightarrow> rat option res" where
  "float_or_none v = (case v of None \<Rightarrow> Inr None
     | Some s \<Rightarrow> if s = [] then Inr None
         else tryr (bindr (py_float s) (\<lambda>x. Inr (Some x))) is_value_error (\<lambda>_. Inr None))"

definition int_or_none :: "string option \<Rightarrow> int option" where
  "int_or_none v = (case v of None \<Rightarrow> None
     | Some s \<Rightarrow> if s = [] then None else (case py_int s of Inl _ \<Rightarrow> None | Inr n \<Rightarrow> Some n))"

text \<open>\<open>row.get(a) or row.get(b)\<close>.\<close>

definition first_cell :: "srow \<Rightarrow> string \<Rightarrow> string \<Rightarrow> string option" where
  "first_cell r a b = (case map_of r a of Some (c # s) \<Rightarrow> Some (c # s) | _ \<Rightarrow> map_of r b)"

definition or_zero :: "rat option \<Rightarrow> rat" where
  "or_zero v = (case v of None \<Rightarrow> 0 | Some x \<Rightarrow> x)"

definition somes :: "'a option list \<Rightarrow> 'a list" where
  "somes xs = concat (map (\<lambda>x. case x of None \<Rightarrow> [] | Some y \<Rightarrow> [y]) xs)"

section \<open>Classes of rows\<close>

definition starts_with_any :: "string \<Rightarrow> string list \<Rightarrow> bool" where
  "starts_with_any s ps = list_ex (startswith s) ps"

definition is_pure_pqc_kem :: "string \<Rightarrow> bool" where
  "is_pure_pqc_kem kex = starts_with_any kex PURE_PQC_KEM_PREFIXES"

definition is_hybrid_kem :: "string \<Rightarrow> bool" where
  "is_hybrid_kem kex = starts_with_any kex HYBRID_KEM_PREFIXES"

definition is_pqc_or_hybrid_kem :: "string \<Rightarrow> bool" where
  "is_pqc_or_hybrid_kem kex = (is_pure_pqc_kem kex \<or> is_hybrid_kem kex)"

definition is_pqc_signature :: "string \<Rightarrow> bool" where
  "is_pqc_signature s = starts_with_any s PQC_SIG_PREFIXES"

definition case_category :: "srow \<Rightarrow> string" where
  "case_category r = (let kex = dget r ''kex_group'' [];
       signature_is_pqc = is_pqc_signature (dget r ''cert_sig_alg'' []) in
     if is_hybrid_kem kex then ''mixed''
     else if is_pure_pqc_kem kex \<and> signature_is_pqc then ''pqc_only''
     else if \<not> is_pqc_or_hybrid_kem kex \<and> \<not> signature_is_pqc then ''classic_only''
     else ''mixed'')"

definition pki_category :: "srow \<Rightarrow> string" where
  "pki_category r = (let kind = py_lower (py_strip (dget r ''pki_kind'' []));
       chain_id = py_lower (py_strip (dget r ''pki_chain_id'' []));
       algorithms = filter (\<lambda>s. s \<noteq> []) (map (\<lambda>f. py_strip (dget r f []))
         [''root_sig_alg'', ''intermediate_sig_alg'', ''leaf_sig_alg'']) in
     if startswith kind ''homogeneous'' \<or> startswith chain_id ''homogeneous_'' then ''homogeneous''
     else if kind \<in> {''heavy_root'', ''heterogeneous'', ''heterogeneous_x509''} then ''heterogeneous''
     else if algorithms \<noteq> [] \<and> 1 < length (remdups algorithms) then ''heterogeneous''
     else ''homogeneous'')"

definition pki_signature_label :: "srow \<Rightarrow> string" where
  "pki_signature_label r = (let leaf = str_or (dget r ''leaf_sig_alg'' []) (dget r ''cert_sig_alg'' []) in
     if pki_category r = ''homogeneous'' then leaf
     else let outer_alg = dget r ''root_sig_alg'' [] in
       if outer_alg \<noteq> [] \<and> leaf \<noteq> [] then outer_alg @ '' -> '' @ leaf else dget r ''pki_chain_id'' leaf)"

definition scatter_certificate_algorithm :: "srow \<Rightarrow> string" where
  "scatter_certificate_algorithm r =
     str_or (dget r ''root_sig_alg'' []) (str_or (dget r ''leaf_sig_alg'' []) (dget r ''cert_sig_alg'' ''unknown''))"

definition normalize_security_level :: "int option \<Rightarrow> int option" where
  "normalize_security_level level = (case level of None \<Rightarrow> None
     | Some n \<Rightarrow> Some (if n \<le> 2 then 1 else if n \<le> 3 then 3 else 5))"

definition kem_security_level :: "srow \<Rightarrow> int option" where
  "kem_security_level r = normalize_security_level (int_or_none (map_of r ''kex_nist_level''))"

definition signature_security_level :: "srow \<Rightarrow> int option" where
  "signature_security_level r = normalize_security_level (int_or_none (map_of r ''sig_nist_level''))"

definition algorithm_label :: "string \<Rightarrow> int option \<Rightarrow> string" where
  "algorithm_label name level =
     ''['' @ (case level of None \<Rightarrow> ''unknown'' | Some n \<Rightarrow> str_int n) @ ''] - '' @ name"

definition short_label :: "srow \<Rightarrow> string" where
  "short_label r = algorithm_label (dget r ''kex_group'' []) (kem_security_level r) @ [CHR 0x0A] @
     algorithm_label (pki_signature_label r) (signature_security_level r)"

section \<open>The components of a handshake\<close>

definition handshake_value :: "srow \<Rightarrow> rat option res" where
  "handshake_value r = float_or_none (first_cell r ''mean_raw_handshake_ms'' ''mean_handshake_ms'')"

text \<open>The first readable metric, not below zero.\<close>

fun mean_metric :: "srow \<Rightarrow> string list \<Rightarrow> rat res" where
  "mean_metric r [] = Inr 0"
| "mean_metric r (name # names) = bindr (float_or_none (map_of r name)) (\<lambda>v.
     case v of None \<Rightarrow> mean_metric r names | Some x \<Rightarrow> Inr (max 0 x))"

definition summed_metrics :: "srow \<Rightarrow> string list \<Rightarrow> rat res" where
  "summed_metrics r names = bindr (mapr (\<lambda>k. mean_metric r [k]) names) (\<lambda>xs. Inr (py_sum xs))"

definition kem_time :: "srow \<Rightarrow> rat res" where
  "kem_time r = bindr (mean_metric r [''mean_kem_client_total_ms'']) (\<lambda>kem.
     if kem = 0 then summed_metrics r [''mean_kem_keygen_ms'', ''mean_kem_decapsulation_ms'',
       ''mean_classical_kex_keygen_ms'', ''mean_classical_kex_shared_secret_ms'']
     else Inr kem)"

definition signature_time :: "srow \<Rightarrow> rat res" where
  "signature_time r = bindr (mean_metric r [''mean_client_signature_total_ms'']) (\<lambda>s1.
     bindr (if s1 = 0 then summed_metrics r [''mean_x509_chain_signature_verify_ms'',
         ''mean_tls_certificate_verify_signature_verify_ms'', ''mean_mtls_signature_generate_ms'']
       else Inr s1) (\<lambda>s2.
     if s2 = 0 then mean_metric r [''mean_certificate_signature_verify_ms''] else Inr s2))"

text \<open>Overlapping intervals are scaled so that they fill the raw time.\<close>

definition split_time :: "rat \<Rightarrow> rat \<Rightarrow> rat \<Rightarrow> rat \<Rightarrow> rat \<times> rat \<times> rat \<times> rat" where
  "split_time raw kem signature communication =
     (let measured_total = fadd (fadd kem signature) communication;
          scale = fdiv raw measured_total;
          overlap = (raw < measured_total \<and> 0 < measured_total);
          k = (if overlap then fmul kem scale else kem);
          s = (if overlap then fmul signature scale else signature);
          c = (if overlap then fmul communication scale else communication) in
      (k, s, max 0 (fsub (fsub (fsub raw k) s) c), c))"

definition handshake_components :: "srow \<Rightarrow> (rat \<times> rat \<times> rat \<times> rat) res" where
  "handshake_components r =
     bindr (handshake_value r) (\<lambda>raw.
     bindr (kem_time r) (\<lambda>kem.
     bindr (signature_time r) (\<lambda>signature.
     bindr (mean_metric r [''mean_communication_overhead_ms'']) (\<lambda>communication.
     Inr (split_time (or_zero raw) kem signature communication)))))"

definition ci95_half_width :: "srow \<Rightarrow> rat option res" where
  "ci95_half_width r =
     bindr (float_or_none (first_cell r ''stddev_raw_handshake_ms'' ''stddev_handshake_ms'')) (\<lambda>stddev.
     Inr (case (stddev, int_or_none (map_of r ''success_count'')) of
         (Some sd, Some n) \<Rightarrow>
           (if n < 2 then None
            else let critical = (if n - 1 < int (length T_CRITICAL_95) then T_CRITICAL_95 ! nat (n - 1)
                   else round64 (196 / 100)) in
              Some (fdiv (fmul critical sd) (fsqrt (of_int n))))
       | _ \<Rightarrow> None))"

definition residual_components :: "srow \<Rightarrow> rat list res" where
  "residual_components r =
     bindr (handshake_value r) (\<lambda>raw.
     bindr (mapr (\<lambda>k. mean_metric r [k]) [''mean_kem_client_total_ms'',
       ''mean_x509_chain_signature_verify_ms'', ''mean_tls_certificate_verify_signature_verify_ms'',
       ''mean_mtls_signature_generate_ms'', ''mean_communication_overhead_ms'']) (\<lambda>components.
     Inr (components @ [fsub (or_zero raw) (py_sum components)])))"

section \<open>Rows of a run\<close>

definition summary_row_with_mean :: "srow \<Rightarrow> srow option res" where
  "summary_row_with_mean r = bindr (handshake_value r) (\<lambda>v.
     Inr (map_option (\<lambda>x. dset ''mean_handshake_ms'' (fmt_fixed 3 x) r) v))"

definition load_from_summary :: "'w host \<Rightarrow> string \<Rightarrow> ('w, srow list) io" where
  "load_from_summary H path = bindm (h_exists H path) (\<lambda>present.
     if \<not> present then retm []
     else bindm (read_table H path) (\<lambda>rows.
       liftm (bindr (mapr summary_row_with_mean rows) (\<lambda>xs. Inr (somes xs)))))"

definition case_tables :: "'w disk \<Rightarrow> string \<Rightarrow> string \<Rightarrow> ('w, string list) io" where
  "case_tables D run_dir name = bindm (dk_glob D (path_join run_dir ''cases'') (''*/'' @ name)) (\<lambda>paths.
     retm (sort_key (split_on CHR ''/'') paths))"

definition case_of_path :: "string \<Rightarrow> string" where
  "case_of_path path = after_first CHR ''_'' (path_name (path_parent path))"

text \<open>A measured success, with the time it took.\<close>

definition measured_success :: "srow \<Rightarrow> bool" where
  "measured_success r \<longleftrightarrow> map_of r ''status'' = Some ''success'' \<and> map_of r ''warmup'' \<noteq> Some ''1''"

definition has_time :: "srow \<Rightarrow> bool res" where
  "has_time r = (if \<not> measured_success r then Inr False
     else bindr (float_or_none (first_cell r ''raw_handshake_ms'' ''tls_handshake_ms'')) (\<lambda>v. Inr (v \<noteq> None)))"

definition attempt_time :: "srow \<Rightarrow> rat res" where
  "attempt_time r = (case first_cell r ''raw_handshake_ms'' ''tls_handshake_ms'' of
     None \<Rightarrow> Inl (KeyError ''tls_handshake_ms'') | Some s \<Rightarrow> py_float s)"

definition field_values :: "srow list \<Rightarrow> string \<Rightarrow> rat list res" where
  "field_values rows k = bindr (mapr (\<lambda>r. float_or_none (map_of r k)) rows) (\<lambda>xs. Inr (somes xs))"

definition attempt_mean :: "srow list \<Rightarrow> string \<Rightarrow> string res" where
  "attempt_mean rows k = bindr (field_values rows k) (\<lambda>xs.
     Inr (if xs = [] then [] else fmt_fixed 3 (stat_mean xs)))"

definition ATTEMPT_MEANS :: "string list" where
  "ATTEMPT_MEANS = [''kem_client_total_ms'', ''client_signature_total_ms'', ''communication_overhead_ms'',
     ''client_cpu_ms'', ''average_cpu_usage_percent'', ''l2cap_tx_bytes'', ''l2cap_rx_bytes'',
     ''l2cap_tx_wait_ms'', ''x509_chain_signature_verify_ms'',
     ''tls_certificate_verify_signature_verify_ms'', ''mtls_signature_generate_ms'',
     ''client_icache_hit_percent'', ''client_icache_miss_percent'', ''handshake_energy_uj'',
     ''client_kem_energy_uj'', ''client_signature_energy_uj'']"

definition FIRST_FIELDS :: "string list" where
  "FIRST_FIELDS = [''pki_chain_id'', ''pki_kind'', ''root_sig_alg'', ''intermediate_sig_alg'', ''leaf_sig_alg'',
     ''kex_group'', ''kex_nist_level'', ''cert_sig_alg'', ''sig_nist_level'']"

definition LAST_FIELDS :: "string list" where
  "LAST_FIELDS = [''firmware_static_ram_used_bytes'', ''firmware_ram_capacity_bytes'',
     ''firmware_static_ram_usage_percent'', ''server_chain_bytes'']"

definition row_of_successes :: "string \<Rightarrow> srow list \<Rightarrow> srow res" where
  "row_of_successes case_id kept =
     bindr (mapr attempt_time kept) (\<lambda>times.
     bindr (mapr (\<lambda>k. bindr (attempt_mean kept k) (\<lambda>t. Inr (''mean_'' @ k, t))) ATTEMPT_MEANS) (\<lambda>means.
     let first = hd kept; stddev = (if 1 < length times then stat_stdev times else 0) in
     Inr ([(''case_id'', case_id)] @ map (\<lambda>k. (k, dget first k [])) FIRST_FIELDS @
       [(''mean_handshake_ms'', fmt_fixed 3 (stat_mean times)),
        (''stddev_raw_handshake_ms'', fmt_fixed 3 stddev),
        (''success_count'', str_nat (length kept))] @ means @
       map (\<lambda>k. (k, dget first k [])) LAST_FIELDS)))"

definition load_from_attempts :: "'w host \<Rightarrow> 'w disk \<Rightarrow> string \<Rightarrow> ('w, srow list) io" where
  "load_from_attempts H D run_dir =
     bindm (case_tables D run_dir ''attempts.csv'') (\<lambda>paths.
     foldm (\<lambda>rows path. bindm (read_table H path) (\<lambda>attempts.
       bindm (liftm (filterr has_time attempts)) (\<lambda>kept.
       if kept = [] then retm rows
       else bindm (liftm (row_of_successes (case_of_path path) kept)) (\<lambda>r. retm (rows @ [r])))))
       [] paths)"

section \<open>Resources from the attempt tables\<close>

definition measured_values :: "srow list \<Rightarrow> string \<Rightarrow> rat list res" where
  "measured_values attempts k = field_values (filter measured_success attempts) k"

definition resource_cells :: "srow list \<Rightarrow> srow \<Rightarrow> srow res" where
  "resource_cells attempts target =
     bindr (measured_values attempts ''system_cpu_usage_percent'') (\<lambda>cpu.
     bindr (measured_values attempts ''client_icache_hit_percent'') (\<lambda>cache.
     bindr (measured_values attempts ''client_heap_peak_bytes'') (\<lambda>heap.
     bindr (measured_values attempts ''thread_stack_used_bytes'') (\<lambda>stack.
     let t1 = (if cpu = [] then target
       else dset ''mean_system_cpu_usage_percent'' (fmt_fixed 3 (stat_mean cpu)) target) in
     bindr (if cache = [] then Inr (Some 1)
       else float_or_none (map_of t1 ''mean_client_icache_hit_percent'')) (\<lambda>known.
     let t2 = (if cache \<noteq> [] \<and> (known = None \<or> known = Some 0)
           then dset ''mean_client_icache_hit_percent'' (fmt_fixed 3 (stat_mean cache)) t1 else t1);
         t3 = (if heap = [] then t2 else dset ''max_client_heap_peak_bytes'' (fmt_fixed 3 (max_of heap)) t2);
         t4 = (if stack = [] then t3 else dset ''max_thread_stack_used_bytes'' (fmt_fixed 3 (max_of stack)) t3) in
     Inr t4)))))"

text \<open>Later rows of a case hide earlier ones; a row is updated in place.\<close>

definition rows_by_case :: "srow list \<Rightarrow> (string, nat) dict" where
  "rows_by_case rows = dict_of (zip (map (\<lambda>r. dget r ''case_id'' []) rows) [0..<length rows])"

definition add_attempt_resource_metrics ::
  "'w host \<Rightarrow> 'w disk \<Rightarrow> srow list \<Rightarrow> string \<Rightarrow> ('w, srow list) io" where
  "add_attempt_resource_metrics H D rows0 run_dir =
     (let index = rows_by_case rows0 in
      bindm (case_tables D run_dir ''attempts.csv'') (\<lambda>paths.
      foldm (\<lambda>rows path. case map_of index (case_of_path path) of None \<Rightarrow> retm rows
        | Some i \<Rightarrow> bindm (read_table H path) (\<lambda>attempts.
            bindm (liftm (resource_cells attempts (rows ! i))) (\<lambda>r. retm (rows[i := r])))) rows0 paths))"

definition memory_used :: "rat \<Rightarrow> rat \<Rightarrow> rat \<Rightarrow> rat \<Rightarrow> rat \<Rightarrow> rat" where
  "memory_used static_used heap_capacity heap_peak stack_capacity stack_used =
     fadd (fadd (fsub (fsub static_used heap_capacity) stack_capacity) heap_peak) stack_used"

definition total_memory_row :: "srow \<Rightarrow> srow res" where
  "total_memory_row r =
     bindr (float_or_none (map_of r ''firmware_static_ram_used_bytes'')) (\<lambda>static_used.
     bindr (float_or_none (map_of r ''firmware_ram_capacity_bytes'')) (\<lambda>capacity.
     bindr (float_or_none (map_of r ''client_heap_capacity_bytes'')) (\<lambda>heap_capacity.
     bindr (float_or_none (map_of r ''max_client_heap_peak_bytes'')) (\<lambda>heap_peak.
     bindr (float_or_none (map_of r ''thread_stack_capacity_bytes'')) (\<lambda>stack_capacity.
     bindr (float_or_none (map_of r ''max_thread_stack_used_bytes'')) (\<lambda>stack_used.
     Inr (case (static_used, capacity, heap_capacity, heap_peak, stack_capacity, stack_used) of
         (Some s, Some c, Some hc, Some hp, Some sc, Some su) \<Rightarrow>
           (if c = 0 then r
            else let used = memory_used s hc hp sc su in
              dset ''total_memory_usage_percent'' (fmt_fixed 3 (fdiv (fmul 100 used) c))
                (dset ''total_memory_used_bytes'' (fmt_fixed 3 used) r))
       | _ \<Rightarrow> r)))))))"

definition add_total_memory_metrics :: "srow list \<Rightarrow> srow list res" where
  "add_total_memory_metrics rows = mapr total_memory_row rows"

definition load_rows :: "'w host \<Rightarrow> 'w disk \<Rightarrow> string \<Rightarrow> ('w, srow list) io" where
  "load_rows H D run_dir =
     bindm (load_from_summary H (path_join run_dir ''summary.csv'')) (\<lambda>rows0.
     bindm (if rows0 \<noteq> [] then retm rows0 else load_from_attempts H D run_dir) (\<lambda>rows.
     bindm (add_attempt_resource_metrics H D rows run_dir) (\<lambda>rows.
     liftm (add_total_memory_metrics rows))))"

section \<open>Reconnects of a run\<close>

definition named_rows :: "srow list \<Rightarrow> (string, srow) dict" where
  "named_rows rows = dict_of (map (\<lambda>r. (dget r ''case_id'' [], r)) (filter (\<lambda>r. dget r ''case_id'' [] \<noteq> []) rows))"

definition merge_summary_row :: "(string, srow) dict \<Rightarrow> srow \<Rightarrow> (string, srow) dict" where
  "merge_summary_row by_case r = (let case_id = dget r ''case_id'' [] in
     if case_id = [] then by_case
     else let target = dget by_case case_id [] in
       dset case_id (dupdate target (filter (\<lambda>(k, v). v \<noteq> [] \<or> \<not> dhas target k) r)) by_case)"

definition reconnects_of :: "srow list \<Rightarrow> int" where
  "reconnects_of attempts = sum_list (map (\<lambda>r. case int_or_none (map_of r ''reconnect_count'') of
     None \<Rightarrow> 0 | Some n \<Rightarrow> n) attempts)"

definition fill_from_attempt :: "srow \<Rightarrow> srow \<Rightarrow> srow" where
  "fill_from_attempt first target =
     fold (\<lambda>k t. if dget t k [] = [] then dset k (dget first k []) t else t)
       [''kex_group'', ''kex_nist_level'', ''cert_sig_alg'', ''sig_nist_level''] target"

definition merge_attempts :: "(string, srow) dict \<Rightarrow> string \<Rightarrow> srow list \<Rightarrow> (string, srow) dict" where
  "merge_attempts by_case case_id attempts =
     (let target = dget by_case case_id [(''case_id'', case_id)];
          filled = (case attempts of [] \<Rightarrow> target | first # _ \<Rightarrow> fill_from_attempt first target) in
      dset case_id (dset ''reconnect_count_total'' (str_int (reconnects_of attempts)) filled) by_case)"

definition reconnect_row :: "srow \<Rightarrow> srow option" where
  "reconnect_row r = (if dget r ''kex_group'' [] \<noteq> [] \<and> dget r ''cert_sig_alg'' [] \<noteq> []
     then Some (if int_or_none (map_of r ''reconnect_count_total'') = None
       then dset ''reconnect_count_total'' ''0'' r else r) else None)"

definition load_reconnect_count_rows :: "'w host \<Rightarrow> 'w disk \<Rightarrow> string \<Rightarrow> ('w, srow list) io" where
  "load_reconnect_count_rows H D run_dir =
     (let input_cases = path_join run_dir ''input_cases.csv''; summary = path_join run_dir ''summary.csv'' in
      bindm (h_exists H input_cases) (\<lambda>present.
      bindm (if present then bindm (read_table H input_cases) (\<lambda>rows. retm (named_rows rows)) else retm []) (\<lambda>d1.
      bindm (h_exists H summary) (\<lambda>present.
      bindm (if present then bindm (read_table H summary) (\<lambda>rows. retm (fold (\<lambda>r d. merge_summary_row d r) rows d1))
        else retm d1) (\<lambda>d2.
      bindm (case_tables D run_dir ''attempts.csv'') (\<lambda>paths.
      bindm (foldm (\<lambda>d path. bindm (read_table H path) (\<lambda>attempts.
        retm (merge_attempts d (case_of_path path) attempts))) d2 paths) (\<lambda>d3.
      retm (somes (map (\<lambda>(k, r). reconnect_row r) d3)))))))))"

end
