(* ===== verification/Chart_Split.thy ===== *)
theory Chart_Split
  imports Chart_Rows
begin

text \<open>
  The docstring of \<open>handshake_components\<close> promises mutually exclusive components whose sum is the
  raw handshake time.  Here that is shown for the arithmetic the program uses: the parts are not
  negative and their exact sum differs from the raw time by at most \<open>(raw + 1) / 2 ^ 48\<close>.
\<close>

section \<open>Splitting in rounded arithmetic\<close>

text \<open>What is left over, computed in rounded arithmetic, completes the three parts to the raw time.\<close>

lemma rest_completes:
  assumes "0 \<le> raw" "0 \<le> k" "0 \<le> s" "0 \<le> c" "k + s + c \<le> raw + e" "0 \<le> e"
  defines "d \<equiv> fsub (fsub (fsub raw k) s) c" and "m \<equiv> raw + e"
  shows "\<bar>k + s + max 0 d + c - raw\<bar> \<le> e + 9 * m / 9007199254740992 + 4 * tiny"
proof -
  note t = tiny_bounds(1,2)
  have b: "k \<le> m" "s \<le> m" "c \<le> m" "raw \<le> m" "0 \<le> m" using assms by simp_all
  define d1 where "d1 = fsub raw k"
  define d2 where "d2 = fsub d1 s"
  have d: "d = fsub d2 c" by (simp add: d_def d1_def d2_def)
  have "\<bar>raw - k\<bar> \<le> m" using b assms by linarith
  from round64_within [OF this]
  have 1: "d1 \<le> raw - k + m / 9007199254740992 + tiny" "raw - k - m / 9007199254740992 - tiny \<le> d1"
    unfolding d1_def fsub_def by simp_all
  have "\<bar>d1 - s\<bar> \<le> 3 * m + tiny" using 1 b assms t by linarith
  from round64_within [OF this]
  have 2: "d2 \<le> d1 - s + (3 * m / 9007199254740992 + tiny / 9007199254740992) + tiny"
    "d1 - s - (3 * m / 9007199254740992 + tiny / 9007199254740992) - tiny \<le> d2"
    unfolding d2_def fsub_def by (simp_all only: add_divide_distrib)
  have "\<bar>d2 - c\<bar> \<le> 5 * m + 3 * tiny" using 1 2 b assms(1-6) t by linarith
  from round64_within [OF this]
  have 3: "d \<le> d2 - c + (5 * m / 9007199254740992 + 3 * tiny / 9007199254740992) + tiny"
    "d2 - c - (5 * m / 9007199254740992 + 3 * tiny / 9007199254740992) - tiny \<le> d"
    unfolding d fsub_def by (simp_all only: add_divide_distrib)
  show ?thesis
  proof (cases "0 \<le> d")
    case True
    then have "max 0 d = d" by simp
    then show ?thesis using 1 2 3 b assms(5,6) t by linarith
  next
    case False
    then have "max 0 d = 0" by simp
    then show ?thesis using False 1 2 3 b assms(5,6) t unfolding m_def by linarith
  qed
qed

lemma rest_completes':
  assumes "0 \<le> raw" "0 \<le> k" "0 \<le> s" "0 \<le> c" "k + s + c \<le> raw + e" "0 \<le> e" "e \<le> raw + 1"
  shows "\<bar>k + s + max 0 (fsub (fsub (fsub raw k) s) c) + c - raw\<bar> \<le>
    e + 18 * raw / 9007199254740992 + 9 / 9007199254740992 + 4 * tiny"
proof -
  have "9 * (raw + e) / 9007199254740992 \<le> (18 * raw + 9) / 9007199254740992"
    using assms by (intro divide_right_mono) simp_all
  then have "9 * (raw + e) / 9007199254740992 \<le> 18 * raw / 9007199254740992 + 9 / 9007199254740992"
    by (simp only: add_divide_distrib)
  with rest_completes [OF assms(1-6)] show ?thesis by linarith
qed

lemma parts_below_total:
  assumes "round64 k = k" "round64 s = s" "round64 c = c" "0 \<le> k" "0 \<le> s" "0 \<le> c"
  shows "k \<le> fadd (fadd k s) c" "s \<le> fadd (fadd k s) c" "fadd k s \<le> fadd (fadd k s) c" "c \<le> fadd (fadd k s) c"
proof -
  have a: "k \<le> fadd k s" "s \<le> fadd k s" using assms unfolding fadd_def by (auto intro!: f64.rnd_lower)
  then have "0 \<le> fadd k s" using assms by linarith
  then have "fadd k s \<le> fadd (fadd k s) c" "c \<le> fadd (fadd k s) c"
    using assms unfolding fadd_def by (auto intro!: f64.rnd_lower)
  with a show "k \<le> fadd (fadd k s) c" "s \<le> fadd (fadd k s) c" "fadd k s \<le> fadd (fadd k s) c" "c \<le> fadd (fadd k s) c"
    by linarith+
qed

lemma total_close:
  assumes "0 \<le> k" "0 \<le> s" "0 \<le> c" "k \<le> t" "s \<le> t" "c \<le> t" "fadd k s \<le> t" "t = fadd (fadd k s) c"
  shows "k + s + c \<le> t + 4 * t / 9007199254740992 + 2 * tiny" "t - 4 * t / 9007199254740992 - 2 * tiny \<le> k + s + c"
proof -
  have n: "0 \<le> fadd k s" using assms unfolding fadd_def by (intro f64.rnd_nonneg) simp
  have 1: "\<bar>k + s\<bar> \<le> 2 * t" "\<bar>fadd k s + c\<bar> \<le> 2 * t" using assms n by linarith+
  from round64_within [OF 1(1)] round64_within [OF 1(2)] assms(8)
  show "k + s + c \<le> t + 4 * t / 9007199254740992 + 2 * tiny" "t - 4 * t / 9007199254740992 - 2 * tiny \<le> k + s + c"
    unfolding fadd_def by linarith+
qed

lemma split_fits:
  assumes f: "round64 k = k" "round64 s = s" "round64 c = c" and n: "0 \<le> raw" "0 \<le> k" "0 \<le> s" "0 \<le> c"
    and fit: "fadd (fadd k s) c \<le> raw"
  shows "\<bar>k + s + max 0 (fsub (fsub (fsub raw k) s) c) + c - raw\<bar> \<le> (raw + 1) / 2 ^ 48"
proof -
  let ?t = "fadd (fadd k s) c"
  note p = parts_below_total [OF f n(2-4)]
  have t: "0 \<le> ?t" using p n by linarith
  note c = total_close [OF n(2-4) p(1,2,4,3) refl]
  let ?e = "4 * raw / 9007199254740992 + 2 * tiny"
  have b: "tiny \<le> 1 / 37778931862957161709568" "0 < tiny" using tiny_bounds by simp_all
  have "k + s + c \<le> raw + ?e" using c(1) fit t by linarith
  from rest_completes' [OF n this] n b
  have "\<bar>k + s + max 0 (fsub (fsub (fsub raw k) s) c) + c - raw\<bar> \<le>
    ?e + 18 * raw / 9007199254740992 + 9 / 9007199254740992 + 4 * tiny" by linarith
  also have "\<dots> \<le> raw / 281474976710656 + 1 / 281474976710656" using n b by linarith
  also have "\<dots> = (raw + 1) / 2 ^ 48" by (simp add: add_divide_distrib)
  finally show ?thesis .
qed

text \<open>Overlapping parts: scaling by \<open>raw / total\<close> brings their sum back to the raw time.\<close>

lemma scaled_part:
  assumes "0 \<le> k" "0 \<le> scale" "k * scale \<le> P"
  shows "fmul k scale \<le> k * scale + P / 9007199254740992 + tiny"
    "k * scale - P / 9007199254740992 - tiny \<le> fmul k scale" "0 \<le> fmul k scale"
proof -
  have "0 \<le> k * scale" using assms by simp
  then have "\<bar>k * scale\<bar> \<le> P" using assms by linarith
  from round64_within [OF this] show "fmul k scale \<le> k * scale + P / 9007199254740992 + tiny"
    "k * scale - P / 9007199254740992 - tiny \<le> fmul k scale" by (simp_all add: fmul_def)
  show "0 \<le> fmul k scale" unfolding fmul_def using assms by (intro f64.rnd_nonneg) simp
qed

lemma scale_bounds:
  assumes "0 \<le> raw" "raw < t" "t \<le> 2 ^ 1000"
  defines "scale \<equiv> fdiv raw t"
  shows "0 \<le> scale" "scale \<le> 1"
    "t * scale \<le> raw + raw / 9007199254740992 + 1 / 37778931862957161709568"
    "raw - raw / 9007199254740992 - 1 / 37778931862957161709568 \<le> t * scale"
proof -
  have t: "0 < t" using assms by linarith
  have q: "0 \<le> raw / t" "raw / t \<le> 1" using assms t by simp_all
  show "0 \<le> scale" unfolding scale_def fdiv_def using q by (intro f64.rnd_nonneg)
  have "round64 1 = 1" using round64_of_int [of 1] by simp
  then show "scale \<le> 1" unfolding scale_def fdiv_def using q by (intro f64.rnd_upper)
  have "\<bar>raw / t\<bar> \<le> raw / t" using q by linarith
  note w = round64_within [OF this]
  have e: "tiny * t \<le> 1 / 37778931862957161709568" using tiny_bounds(3) [OF assms(3)] by simp
  have "t * scale \<le> t * (raw / t + raw / t / 9007199254740992 + tiny)"
    using w(1) t unfolding scale_def fdiv_def by (intro mult_left_mono) simp_all
  also have "\<dots> = raw + raw / 9007199254740992 + tiny * t" using t by (simp add: field_simps)
  finally show "t * scale \<le> raw + raw / 9007199254740992 + 1 / 37778931862957161709568" using e by linarith
  have "t * (raw / t - raw / t / 9007199254740992 - tiny) \<le> t * scale"
    using w(2) t unfolding scale_def fdiv_def by (intro mult_left_mono) simp_all
  also have "t * (raw / t - raw / t / 9007199254740992 - tiny) = raw - raw / 9007199254740992 - tiny * t"
    using t by (simp add: field_simps)
  finally show "raw - raw / 9007199254740992 - 1 / 37778931862957161709568 \<le> t * scale" using e by linarith
qed

lemma split_overlaps:
  assumes f: "round64 k = k" "round64 s = s" "round64 c = c" and n: "0 \<le> raw" "0 \<le> k" "0 \<le> s" "0 \<le> c"
    and over: "raw < fadd (fadd k s) c" "fadd (fadd k s) c \<le> 2 ^ 1000"
  defines "scale \<equiv> fdiv raw (fadd (fadd k s) c)"
  defines "k' \<equiv> fmul k scale" and "s' \<equiv> fmul s scale" and "c' \<equiv> fmul c scale"
  shows "\<bar>k' + s' + max 0 (fsub (fsub (fsub raw k') s') c') + c' - raw\<bar> \<le> (raw + 1) / 2 ^ 48"
proof -
  define t where "t = fadd (fadd k s) c"
  note p = parts_below_total [OF f n(2-4), folded t_def]
  note c = total_close [OF n(2-4) p(1,2,4,3) t_def]
  have sc: "0 \<le> scale" "scale \<le> 1" and P: "t * scale \<le> raw + raw / 9007199254740992 + 1 / 37778931862957161709568"
      "raw - raw / 9007199254740992 - 1 / 37778931862957161709568 \<le> t * scale"
    unfolding scale_def using scale_bounds [OF n(1) over] by (simp_all add: t_def)
  define Q where "Q = t * scale"
  have le: "k * scale \<le> Q" "s * scale \<le> Q" "c * scale \<le> Q"
    unfolding Q_def using p sc by (auto intro!: mult_right_mono)
  have b: "tiny \<le> 1 / 37778931862957161709568" "0 < tiny" using tiny_bounds by simp_all
  have small: "tiny * scale \<le> tiny" "0 \<le> tiny * scale" using sc b by (simp_all add: mult_left_le)
  have "(k + s + c) * scale \<le> (t + 4 * t / 9007199254740992 + 2 * tiny) * scale"
    using c(1) sc by (intro mult_right_mono)
  then have S1: "k * scale + s * scale + c * scale \<le> Q + 4 * Q / 9007199254740992 + 2 * (tiny * scale)"
    by (simp add: Q_def algebra_simps)
  have "(t - 4 * t / 9007199254740992 - 2 * tiny) * scale \<le> (k + s + c) * scale"
    using c(2) sc by (intro mult_right_mono)
  then have S2: "Q - 4 * Q / 9007199254740992 - 2 * (tiny * scale) \<le> k * scale + s * scale + c * scale"
    by (simp add: Q_def algebra_simps)
  note kk = scaled_part [OF n(2) sc(1) le(1), folded k'_def]
  note ss = scaled_part [OF n(3) sc(1) le(2), folded s'_def]
  note cc = scaled_part [OF n(4) sc(1) le(3), folded c'_def]
  let ?e = "9 * raw / 9007199254740992 + 1 / 9007199254740992"
  have "k' + s' + c' \<le> raw + ?e"
    using kk(1) ss(1) cc(1) S1 P(1) small b n unfolding Q_def [symmetric] by linarith
  note r = rest_completes' [OF n(1) kk(3) ss(3) cc(3) this]
  have "\<bar>k' + s' + max 0 (fsub (fsub (fsub raw k') s') c') + c' - raw\<bar> \<le>
    ?e + 18 * raw / 9007199254740992 + 9 / 9007199254740992 + 4 * tiny" using r n by linarith
  also have "\<dots> \<le> raw / 281474976710656 + 1 / 281474976710656" using n b by linarith
  also have "\<dots> = (raw + 1) / 2 ^ 48" by (simp add: add_divide_distrib)
  finally show ?thesis .
qed

section \<open>The components of a row\<close>

lemma py_float_f64: "py_float t = Inr x \<Longrightarrow> round64 x = x"
  by (auto simp: py_float_def Let_def split: prod.splits option.splits if_splits)

lemma float_or_none_f64: "float_or_none v = Inr (Some x) \<Longrightarrow> round64 x = x"
  by (auto simp: float_or_none_def tryr_def bindr_def py_float_f64 split: option.splits if_splits sum.splits)

lemma max_0_f64: "round64 x = x \<Longrightarrow> round64 (max 0 x) = max 0 x"
  by (simp add: max_def)

lemma mean_metric_f64: "mean_metric r ks = Inr x \<Longrightarrow> round64 x = x \<and> 0 \<le> x"
proof (induction r ks rule: mean_metric.induct)
  case (2 r name names)
  obtain v where v: "float_or_none (map_of r name) = Inr v"
      and x: "(case v of None \<Rightarrow> mean_metric r names | Some y \<Rightarrow> Inr (max 0 y)) = Inr x"
    using "2.prems" by (auto simp: bindr_eq_Inr)
  show ?case
  proof (cases v)
    case None
    with v x "2.IH" [of v] show ?thesis by simp
  next
    case (Some y)
    with v x show ?thesis by (auto simp: max_0_f64 dest: float_or_none_f64)
  qed
qed simp

lemma py_sum_f64: "round64 (py_sum xs) = py_sum xs"
  by (cases xs rule: rev_cases) (simp_all add: py_sum_def fadd_def)

lemma summed_metrics_f64: "summed_metrics r ks = Inr x \<Longrightarrow> round64 x = x \<and> 0 \<le> x"
proof -
  assume "summed_metrics r ks = Inr x"
  then obtain xs where xs: "list_all2 (\<lambda>k y. mean_metric r [k] = Inr y) ks xs" "x = py_sum xs"
    by (auto simp: summed_metrics_def bindr_eq_Inr mapr_Inr_iff simp del: mean_metric.simps)
  from xs(1) have "\<forall>y\<in>set xs. 0 \<le> y"
    by (auto simp: list_all2_conv_all_nth in_set_conv_nth simp del: mean_metric.simps dest!: mean_metric_f64)
  with xs(2) show ?thesis by (simp add: py_sum_f64 py_sum_nonneg)
qed

lemma kem_time_f64: "kem_time r = Inr x \<Longrightarrow> round64 x = x \<and> 0 \<le> x"
  by (auto simp: kem_time_def bindr_eq_Inr simp del: mean_metric.simps dest: mean_metric_f64 summed_metrics_f64
      split: if_splits)

lemma signature_time_f64: "signature_time r = Inr x \<Longrightarrow> round64 x = x \<and> 0 \<le> x"
  by (auto simp: signature_time_def bindr_eq_Inr simp del: mean_metric.simps dest: mean_metric_f64 summed_metrics_f64
      split: if_splits)



end
