(* ===== verification/Tls_Figures.thy ===== *)
theory Tls_Figures
  imports Chart_Rows
begin

text \<open>
  The figures of \<open>graphic/plot_tls_handshake_bars.py\<close>.  Drawing is done by matplotlib, so a figure
  is the data it is drawn from (\<open>figure\<close>: titles, labels, numbers and the text in the cells) and
  drawing one to a file is a parameter; sizes, colours and fonts are left out.  The functions of
  numpy that compute something are parameters too (\<open>numpy\<close>).
\<close>

section \<open>Figures and the library that draws them\<close>

datatype figure =
    Bars string "(string \<times> rat \<times> string) list"
  | Stacks string "string list" "(string \<times> rat list \<times> rat) list"
  | Regions string "(string \<times> (rat \<times> rat) \<times> rat \<times> rat) list" "rat option"
  | Heatmap string "string list" "string list" "rat option list list" "string list list"
  | Correlations string "string list" "rat option list list"
  | Points string "(string \<times> (rat \<times> rat) list) list"
  | Panels string "string list" "(string \<times> rat list) list" "string list"

record numpy =
  np_argsort :: "rat list \<Rightarrow> nat list"
  np_std :: "rat list \<Rightarrow> rat"
  np_corrcoef :: "rat list \<Rightarrow> rat list \<Rightarrow> rat"

type_synonym 'w drawing = "figure \<Rightarrow> string \<Rightarrow> ('w, unit) io"

definition save_figure :: "'w host \<Rightarrow> 'w drawing \<Rightarrow> figure \<Rightarrow> string \<Rightarrow> ('w, unit) io" where
  "save_figure H draw fig path = bindm (h_mkdir H (path_parent path)) (\<lambda>_. draw fig path)"

definition with_suffix :: "string \<Rightarrow> string \<Rightarrow> string" where
  "with_suffix name extension = name @ ''.'' @ extension"

text \<open>\<open>pki.capitalize()\<close> of one of the two kinds.\<close>

definition pki_title :: "string \<Rightarrow> string" where
  "pki_title pki = (if pki = ''homogeneous'' then ''Homogeneous'' else ''Heterogeneous'') @ '' PKI''"

definition sorted_desc :: "('a \<Rightarrow> rat res) \<Rightarrow> 'a list \<Rightarrow> 'a list res" where
  "sorted_desc f xs = bindr (mapr f xs) (\<lambda>ks. Inr (map snd (sort_key (\<lambda>kx. - fst kx) (zip ks xs))))"

section \<open>Bars of algorithms\<close>

definition algorithm_of :: "string \<Rightarrow> srow \<Rightarrow> string" where
  "algorithm_of fld r = (if fld = ''pki_signature_label'' then pki_signature_label r else dget r fld [])"

definition metric_or_component :: "string \<Rightarrow> srow \<Rightarrow> rat option res" where
  "metric_or_component metric r =
     bindr (float_or_none (map_of r metric)) (\<lambda>v. case v of Some x \<Rightarrow> Inr (Some x)
       | None \<Rightarrow> bindr (handshake_components r) (\<lambda>(kem, signature, other, communication).
           Inr (if metric = ''mean_kem_client_total_ms'' then Some kem
             else if metric = ''mean_client_signature_total_ms'' then Some signature else None)))"

definition add_algorithm ::
  "string \<Rightarrow> string \<Rightarrow> string \<Rightarrow> (string, rat list) dict \<times> (string, int option) dict \<Rightarrow> srow \<Rightarrow>
    ((string, rat list) dict \<times> (string, int option) dict) res" where
  "add_algorithm algorithm_field level_field metric st r = (case st of (vals, levels) \<Rightarrow>
     bindr (metric_or_component metric r) (\<lambda>v.
     let algorithm = algorithm_of algorithm_field r in
     Inr (case v of None \<Rightarrow> (vals, levels) | Some x \<Rightarrow>
       (if algorithm = [] then (vals, levels)
        else (dappend algorithm x vals,
          dset algorithm (normalize_security_level (int_or_none (map_of r level_field))) levels)))))"

definition algorithm_bars :: "string \<Rightarrow> string \<Rightarrow> string \<Rightarrow> srow list \<Rightarrow> (string \<times> rat \<times> string) list res" where
  "algorithm_bars algorithm_field level_field metric rows =
     bindr (foldr_res (add_algorithm algorithm_field level_field metric) ([], []) rows) (\<lambda>(vals, levels).
     let mean = (\<lambda>name. stat_mean (dget vals name [])) in
     Inr (map (\<lambda>name. (algorithm_label name (dget levels name None), mean name, fmt_fixed 2 (mean name)))
       (sort_key (\<lambda>name. (- mean name, py_lower name)) (map fst vals))))"

definition plot_algorithm_metric ::
  "'w host \<Rightarrow> 'w drawing \<Rightarrow> string \<Rightarrow> string \<Rightarrow> string \<Rightarrow> string \<Rightarrow> srow list \<Rightarrow> string \<Rightarrow> ('w, nat) io" where
  "plot_algorithm_metric H draw algorithm_field level_field metric title rows path =
     bindm (liftm (algorithm_bars algorithm_field level_field metric rows)) (\<lambda>bars.
     if bars = [] then retm 0
     else seqm (save_figure H draw (Bars title bars) path) (retm (length bars)))"

section \<open>Stacked bars of handshakes\<close>

definition COMPONENT_LABELS :: "string list" where
  "COMPONENT_LABELS = [''Client KEM'', ''Client Signature'', ''Active CPU'', ''Communication Overhead'']"

definition row_mean :: "srow \<Rightarrow> rat res" where
  "row_mean r = bindr (dindex r ''mean_handshake_ms'') py_float"

definition stack_of_row :: "srow \<Rightarrow> (string \<times> rat list \<times> rat) res" where
  "stack_of_row r =
     bindr (ci95_half_width r) (\<lambda>ci.
     bindr (handshake_components r) (\<lambda>(kem, signature, other, communication).
     Inr (short_label r, [kem, signature, other, communication], or_zero ci)))"

definition handshake_stacks :: "srow list \<Rightarrow> (string \<times> rat list \<times> rat) list res" where
  "handshake_stacks rows = bindr (sorted_desc row_mean rows) (\<lambda>sorted_rows. mapr stack_of_row sorted_rows)"

definition plot_group :: "'w host \<Rightarrow> 'w drawing \<Rightarrow> srow list \<Rightarrow> string \<Rightarrow> string \<Rightarrow> ('w, unit) io" where
  "plot_group H draw rows title path =
     bindm (h_mkdir H (path_parent path)) (\<lambda>_.
     bindm (liftm (handshake_stacks rows)) (\<lambda>stacks.
     draw (Stacks title COMPONENT_LABELS stacks) path))"

definition level_rows :: "int \<Rightarrow> srow list \<Rightarrow> srow list" where
  "level_rows level rows = filter (\<lambda>r. kem_security_level r = Some level) rows"

definition plot_security_levels ::
  "'w host \<Rightarrow> 'w drawing \<Rightarrow> srow list \<Rightarrow> string \<Rightarrow> string \<Rightarrow> string \<Rightarrow> string \<Rightarrow> string \<Rightarrow> ('w, (int \<times> nat) list) io" where
  "plot_security_levels H draw rows title_prefix filename_prefix out_dir run_id extension =
     mapm (\<lambda>level. let some = level_rows level rows in
       seqm (if some = [] then retm () else plot_group H draw some
           (title_prefix @ '' - '' @ str_int level @ '' - '' @ run_id)
           (path_join out_dir (with_suffix (filename_prefix @ ''_nist_level_'' @ str_int level) extension)))
         (retm (level, length some))) SECURITY_LEVELS"

section \<open>Regions of certificate algorithms\<close>

definition region :: "string \<Rightarrow> (rat \<times> rat) list \<Rightarrow> string \<times> (rat \<times> rat) \<times> rat \<times> rat" where
  "region name points = (let xs = map fst points; ys = map snd points in
     (name, (fdiv (fadd (min_of xs) (max_of xs)) 2, fdiv (fadd (min_of ys) (max_of ys)) 2),
      fsub (max_of xs) (min_of xs), fsub (max_of ys) (min_of ys)))"

definition algorithms_of_rows :: "srow list \<Rightarrow> string list" where
  "algorithms_of_rows rows = sort (remdups (map scatter_certificate_algorithm rows))"

definition cpu_point :: "srow \<Rightarrow> (rat \<times> rat) option res" where
  "cpu_point r = bindr (mean_metric r [''mean_client_cpu_ms'']) (\<lambda>x. bindr (handshake_value r) (\<lambda>v.
     Inr (case v of None \<Rightarrow> None | Some y \<Rightarrow> if 0 < x then Some (x, y) else None)))"

definition heap_point :: "srow \<Rightarrow> (rat \<times> rat) option res" where
  "heap_point r = bindr (float_or_none (map_of r ''max_client_heap_peak_bytes'')) (\<lambda>heap.
     bindr (handshake_value r) (\<lambda>v.
     Inr (case (heap, v) of (Some x, Some y) \<Rightarrow> Some (fdiv x 1024, y) | _ \<Rightarrow> None)))"

definition points_by_algorithm ::
  "(srow \<Rightarrow> (rat \<times> rat) option res) \<Rightarrow> srow list \<Rightarrow> (string \<times> (rat \<times> rat) list) list res" where
  "points_by_algorithm point rows =
     bindr (mapr (\<lambda>name.
       bindr (mapr point (filter (\<lambda>r. scatter_certificate_algorithm r = name) rows)) (\<lambda>ps.
       Inr (name, somes ps))) (algorithms_of_rows rows)) (\<lambda>groups.
     Inr (filter (\<lambda>g. snd g \<noteq> []) groups))"

definition cpu_limit :: "(string \<times> (rat \<times> rat) list) list \<Rightarrow> rat" where
  "cpu_limit groups = fmul (max_of (0 # concat (map (\<lambda>(name, ps). map fst ps @ map snd ps) groups)))
     (round64 (103 / 100))"

definition plot_cpu_vs_handshake ::
  "'w host \<Rightarrow> 'w drawing \<Rightarrow> srow list \<Rightarrow> string \<Rightarrow> string \<Rightarrow> string \<Rightarrow> ('w, nat) io" where
  "plot_cpu_vs_handshake H draw rows path run_id pki =
     bindm (liftm (points_by_algorithm cpu_point rows)) (\<lambda>groups.
     seqm (save_figure H draw (Regions
         (''Active client CPU time vs TLS handshake time ('' @ pki_title pki @ '') - '' @ run_id)
         (map (\<lambda>(name, ps). region name ps) groups) (Some (cpu_limit groups))) path)
       (retm (length groups)))"

definition plot_heap_vs_handshake ::
  "'w host \<Rightarrow> 'w drawing \<Rightarrow> srow list \<Rightarrow> string \<Rightarrow> string \<Rightarrow> string \<Rightarrow> ('w, nat) io" where
  "plot_heap_vs_handshake H draw rows path run_id pki =
     bindm (liftm (points_by_algorithm heap_point rows)) (\<lambda>groups.
     seqm (save_figure H draw (Regions
         (''Peak wolfSSL heap vs TLS handshake time ('' @ pki_title pki @ '') - '' @ run_id)
         (map (\<lambda>(name, ps). region name ps) groups) None) path)
       (retm (length groups)))"

section \<open>Residuals\<close>

definition RESIDUAL_NAMES :: "string list" where
  "RESIDUAL_NAMES = [''Client KEM'', ''X.509 chain verify'', ''CertificateVerify verify'', ''mTLS sign'',
     ''Communication'', ''Residual'']"

definition residual_stacks :: "srow list \<Rightarrow> (string \<times> rat list \<times> rat) list res" where
  "residual_stacks rows =
     bindr (sorted_desc (\<lambda>r. bindr (handshake_value r) (\<lambda>v. Inr (or_zero v))) rows) (\<lambda>sorted_rows.
     mapr (\<lambda>r. bindr (residual_components r) (\<lambda>parts.
       Inr (dget r ''kex_group'' [] @ [CHR 0x0A] @ pki_signature_label r, parts, 0))) sorted_rows)"

definition plot_nist_residual_bars ::
  "'w host \<Rightarrow> 'w drawing \<Rightarrow> srow list \<Rightarrow> string \<Rightarrow> string \<Rightarrow> string \<Rightarrow> int \<Rightarrow> ('w, nat) io" where
  "plot_nist_residual_bars H draw rows path run_id pki level =
     bindm (liftm (residual_stacks rows)) (\<lambda>stacks.
     if stacks = [] then retm 0
     else seqm (save_figure H draw (Stacks
         (''TLS handshake decomposition - KEM NIST level '' @ str_int level @ '' - '' @ pki_title pki @ '' - '' @ run_id)
         RESIDUAL_NAMES stacks) path) (retm (length rows)))"

section \<open>Rank correlation\<close>

definition CORRELATION_FIELDS :: "(string \<times> string) list" where
  "CORRELATION_FIELDS = [
     (''raw_handshake_ms'', ''Raw handshake''), (''handshake_energy_uj'', ''Handshake energy''),
     (''client_kem_energy_uj'', ''Client KEM energy''),
     (''client_signature_energy_uj'', ''Client signature energy''), (''client_cpu_ms'', ''Client CPU''),
     (''client_heap_peak_bytes'', ''Heap peak''), (''server_chain_bytes'', ''Server chain''),
     (''l2cap_tx_bytes'', ''L2CAP TX''), (''l2cap_rx_bytes'', ''L2CAP RX''),
     (''l2cap_tx_wait_ms'', ''L2CAP TX wait''), (''communication_overhead_ms'', ''Communication''),
     (''x509_chain_signature_verify_ms'', ''X.509 verify''),
     (''tls_certificate_verify_signature_verify_ms'', ''CertificateVerify''),
     (''client_icache_miss_percent'', ''I-cache miss'')]"

text \<open>All but two fields are found under \<open>mean_\<close>.\<close>

definition correlation_column :: "string \<Rightarrow> string" where
  "correlation_column fld = (if fld = ''client_heap_peak_bytes'' then ''max_'' @ fld
     else if fld = ''server_chain_bytes'' \<or> fld \<notin> fst ` set CORRELATION_FIELDS then fld else ''mean_'' @ fld)"

definition correlation_value :: "srow \<Rightarrow> string \<Rightarrow> rat option res" where
  "correlation_value r fld = (if fld = ''raw_handshake_ms'' then handshake_value r
     else float_or_none (map_of r (correlation_column fld)))"

text \<open>The end of the run of values equal to the one at \<open>start\<close> in the sorted order.\<close>

function tie_end :: "rat list \<Rightarrow> nat list \<Rightarrow> nat \<Rightarrow> nat \<Rightarrow> nat" where
  "tie_end vals order start stop =
     (if stop < length vals \<and> vals ! (order ! stop) = vals ! (order ! start)
      then tie_end vals order start (Suc stop) else stop)"
  by pat_completeness auto
termination
  by (relation "measure (\<lambda>(vals, order, start, stop). length vals - stop)") auto

declare tie_end.simps [simp del]

lemma tie_end_ge: "stop \<le> tie_end vals order start stop"
  by (induction vals order start stop rule: tie_end.induct) (subst tie_end.simps, auto)

definition tie_rank :: "nat \<Rightarrow> nat \<Rightarrow> rat" where
  "tie_rank start stop = fadd (fdiv (of_nat (start + stop - 1)) 2) 1"

function rank_from :: "rat list \<Rightarrow> nat list \<Rightarrow> nat \<Rightarrow> rat list \<Rightarrow> rat list" where
  "rank_from vals order start ranks =
     (if start < length vals
      then let stop = tie_end vals order start (Suc start) in
        rank_from vals order stop
          (fold (\<lambda>i rs. rs[order ! i := tie_rank start stop]) [start..<stop] ranks)
      else ranks)"
  by pat_completeness auto
termination
proof (relation "measure (\<lambda>(vals, order, start, ranks). length vals - start)", simp)
  fix vals :: "rat list" and order start ranks stop
  assume "start < length vals" "stop = tie_end vals order start (Suc start)"
  then show "((vals, order, stop, fold (\<lambda>i rs. rs[order ! i := tie_rank start stop]) [start..<stop] ranks),
      vals, order, start, ranks) \<in> measure (\<lambda>(vals, order, start, ranks). length vals - start)"
    using tie_end_ge [of "Suc start" vals order start] by simp
qed

declare rank_from.simps [simp del]

definition rank_values :: "(rat list \<Rightarrow> nat list) \<Rightarrow> rat list \<Rightarrow> rat list" where
  "rank_values argsort vals = rank_from vals (argsort vals) 0 (replicate (length vals) 0)"

definition complete_pairs :: "srow list \<Rightarrow> string \<Rightarrow> string \<Rightarrow> (rat \<times> rat) list res" where
  "complete_pairs rows fld_a fld_b =
     bindr (mapr (\<lambda>r. bindr (correlation_value r fld_a) (\<lambda>a. case a of None \<Rightarrow> Inr None
       | Some x \<Rightarrow> bindr (correlation_value r fld_b) (\<lambda>b. Inr (map_option (\<lambda>y. (x, y)) b)))) rows) (\<lambda>ps.
     Inr (somes ps))"

definition rank_correlation :: "numpy \<Rightarrow> (rat \<times> rat) list \<Rightarrow> rat option" where
  "rank_correlation NP ps = (if length ps < 3 then None
     else let a = rank_values (np_argsort NP) (map fst ps); b = rank_values (np_argsort NP) (map snd ps) in
       if 0 < np_std NP a \<and> 0 < np_std NP b then Some (np_corrcoef NP a b) else None)"

definition correlation_matrix :: "numpy \<Rightarrow> srow list \<Rightarrow> rat option list list res" where
  "correlation_matrix NP rows =
     mapr (\<lambda>(a, la). mapr (\<lambda>(b, lb). bindr (complete_pairs rows a b) (\<lambda>ps.
       Inr (rank_correlation NP ps))) CORRELATION_FIELDS) CORRELATION_FIELDS"

definition correlation_text :: "rat option list list \<Rightarrow> string" where
  "correlation_text matrix = csv_text ((''metric'' # map fst CORRELATION_FIELDS) #
     map (\<lambda>((fld, label), cells). fld # map (\<lambda>c. case c of None \<Rightarrow> [] | Some x \<Rightarrow> fmt_fixed 6 x) cells)
       (zip CORRELATION_FIELDS matrix))"

definition plot_spearman_matrix ::
  "'w host \<Rightarrow> 'w drawing \<Rightarrow> numpy \<Rightarrow> srow list \<Rightarrow> string \<Rightarrow> string \<Rightarrow> string \<Rightarrow> ('w, nat) io" where
  "plot_spearman_matrix H draw NP rows path csv_path run_id =
     bindm (liftm (correlation_matrix NP rows)) (\<lambda>matrix.
     seqm (save_figure H draw (Correlations (''Spearman correlation matrix - '' @ run_id)
       (map snd CORRELATION_FIELDS) matrix) path)
     (seqm (h_write H csv_path (correlation_text matrix)) (retm (length rows))))"

section \<open>Heat maps\<close>

type_synonym pairs = "(string \<times> string, rat list) dict"

definition values_by :: "('k \<Rightarrow> string) \<Rightarrow> ('k, rat list) dict \<Rightarrow> (string, rat list) dict" where
  "values_by f d = fold (\<lambda>(k, xs) acc. dset (f k) (dget acc (f k) [] @ xs) acc) d []"

definition heatmap_axes_by_descending_mean :: "pairs \<Rightarrow> string list \<times> string list" where
  "heatmap_axes_by_descending_mean by_pair =
     (let by_kem = values_by fst by_pair; by_signature = values_by snd by_pair in
      (sort_key (\<lambda>k. (stat_mean (dget by_kem k []), py_lower k)) (map fst by_kem),
       sort_key (\<lambda>s. (- stat_mean (dget by_signature s []), py_lower s)) (map fst by_signature)))"

definition add_pair :: "(srow \<Rightarrow> rat option res) \<Rightarrow> (srow \<Rightarrow> rat option res) \<Rightarrow> pairs \<times> pairs \<Rightarrow> srow \<Rightarrow> (pairs \<times> pairs) res" where
  "add_pair f g st r = (case st of (vals, widths) \<Rightarrow>
     (let kex = dget r ''kex_group'' []; sig = pki_signature_label r in
      bindr (f r) (\<lambda>v. case v of None \<Rightarrow> Inr (vals, widths)
        | Some x \<Rightarrow> if kex = [] \<or> sig = [] then Inr (vals, widths)
            else bindr (g r) (\<lambda>ci. Inr (dappend (kex, sig) x vals,
              case ci of None \<Rightarrow> widths | Some y \<Rightarrow> dappend (kex, sig) y widths)))))"

definition collect_pairs :: "(srow \<Rightarrow> rat option res) \<Rightarrow> (srow \<Rightarrow> rat option res) \<Rightarrow> srow list \<Rightarrow> (pairs \<times> pairs) res" where
  "collect_pairs f g rows = foldr_res (add_pair f g) ([], []) rows"

definition pair_mean :: "pairs \<Rightarrow> string \<Rightarrow> string \<Rightarrow> rat option" where
  "pair_mean d kem sig = (let xs = dget d (kem, sig) [] in if xs = [] then None else Some (stat_mean xs))"

definition mean_matrix :: "pairs \<Rightarrow> string list \<Rightarrow> string list \<Rightarrow> rat option list list" where
  "mean_matrix d kems sigs = map (\<lambda>sig. map (\<lambda>kem. pair_mean d kem sig) kems) sigs"

definition cell_note :: "nat \<Rightarrow> string \<Rightarrow> rat option \<Rightarrow> rat option \<Rightarrow> string" where
  "cell_note decimals suffix v ci = (case v of None \<Rightarrow> [] | Some x \<Rightarrow> fmt_fixed decimals x @ suffix @
     (case ci of None \<Rightarrow> [] | Some y \<Rightarrow> CHR 0x0A # CHR 0xB1 # fmt_fixed decimals y))"

definition heat_figure :: "string \<Rightarrow> nat \<Rightarrow> string \<Rightarrow> srow list \<Rightarrow> pairs \<Rightarrow> pairs \<Rightarrow> figure" where
  "heat_figure title decimals suffix rows vals widths =
     (let (kems, sigs) = heatmap_axes_by_descending_mean vals;
          kem_levels = dict_of (map (\<lambda>r. (dget r ''kex_group'' [], kem_security_level r)) rows);
          sig_levels = dict_of (map (\<lambda>r. (pki_signature_label r, signature_security_level r)) rows) in
      Heatmap title (map (\<lambda>k. algorithm_label k (dget kem_levels k None)) kems)
        (map (\<lambda>s. algorithm_label s (dget sig_levels s None)) sigs)
        (mean_matrix vals kems sigs)
        (map (\<lambda>s. map (\<lambda>k. cell_note decimals suffix (pair_mean vals k s) (pair_mean widths k s)) kems) sigs))"

definition plot_heatmap :: "'w host \<Rightarrow> 'w drawing \<Rightarrow> srow list \<Rightarrow> string \<Rightarrow> string \<Rightarrow> ('w, unit) io" where
  "plot_heatmap H draw rows path run_id =
     bindm (h_mkdir H (path_parent path)) (\<lambda>_.
     bindm (liftm (collect_pairs handshake_value ci95_half_width rows)) (\<lambda>(vals, widths).
     if vals = [] then raisem (SystemExit ''No KEM/signature handshake values found for heatmap'')
     else draw (heat_figure (''TLS handshake mean w/ 95% confidence - '' @ run_id) 0 [] rows vals widths) path))"

definition plot_percent_heatmap ::
  "'w host \<Rightarrow> 'w drawing \<Rightarrow> nat \<Rightarrow> string \<Rightarrow> srow list \<Rightarrow> string \<Rightarrow> string \<Rightarrow> string \<Rightarrow> ('w, nat) io" where
  "plot_percent_heatmap H draw decimals suffix rows metric title path =
     bindm (h_mkdir H (path_parent path)) (\<lambda>_.
     bindm (liftm (collect_pairs (\<lambda>r. float_or_none (map_of r metric)) (\<lambda>_. Inr None) rows)) (\<lambda>(vals, widths).
     if vals = [] then retm 0
     else seqm (draw (heat_figure title decimals suffix rows vals []) path) (retm (length vals))))"

definition plot_reconnect_count_heatmap ::
  "'w host \<Rightarrow> 'w drawing \<Rightarrow> srow list \<Rightarrow> string \<Rightarrow> string \<Rightarrow> ('w, nat) io" where
  "plot_reconnect_count_heatmap H draw rows path run_id =
     plot_percent_heatmap H draw 0 [] rows ''reconnect_count_total'' (''Reconnects per case - '' @ run_id) path"

section \<open>The program\<close>

record chart_args =
  ch_run :: string
  ch_out_dir :: "string option"
  ch_sec_levels :: bool
  ch_heatmap :: bool
  ch_skip_rsa_pss :: bool
  ch_png :: bool

definition PKI_KINDS :: "string list" where
  "PKI_KINDS = [''homogeneous'', ''heterogeneous'']"

definition CATEGORIES :: "string list" where
  "CATEGORIES = [''pqc_only'', ''classic_only'', ''mixed'']"

definition chart_config :: "string \<Rightarrow> string \<times> string" where
  "chart_config category =
     (if category = ''pqc_only'' then (''PQC-only TLS handshakes'', ''tls_handshake_pqc_only'')
      else if category = ''classic_only'' then (''Classic-only TLS handshakes'', ''tls_handshake_classic_only'')
      else (''Mixed / hybrid TLS handshakes'', ''tls_handshake_mixed''))"

definition of_pki :: "string \<Rightarrow> srow list \<Rightarrow> srow list" where
  "of_pki pki rows = filter (\<lambda>r. pki_category r = pki) rows"

definition of_category :: "string \<Rightarrow> srow list \<Rightarrow> srow list" where
  "of_category category rows = filter (\<lambda>r. case_category r = category) rows"

definition without_rsa_pss :: "bool \<Rightarrow> srow list \<Rightarrow> srow list" where
  "without_rsa_pss skip rows =
     (if skip then filter (\<lambda>r. map_of r ''cert_sig_alg'' \<noteq> Some ''RSA-PSS-15360'') rows else rows)"

text \<open>Where a figure goes, and what the run is called.\<close>

record target =
  ta_dir :: string
  ta_run :: string
  ta_ext :: string

definition figure_path :: "target \<Rightarrow> string \<Rightarrow> string" where
  "figure_path T name = path_join (ta_dir T) (with_suffix name (ta_ext T))"

definition level_line :: "string \<Rightarrow> string \<Rightarrow> int \<times> nat \<Rightarrow> string" where
  "level_line pki category lc = (case lc of (level, n) \<Rightarrow>
     pki @ ''_'' @ category @ ''_nist_level_'' @ str_int level @ ''='' @ str_nat n)"

definition plot_category ::
  "'w host \<Rightarrow> 'w drawing \<Rightarrow> bool \<Rightarrow> target \<Rightarrow> string \<Rightarrow> srow list \<Rightarrow> string \<Rightarrow> ('w, string list) io" where
  "plot_category H draw sec_levels T pki pki_rows category =
     (let rows = of_category category pki_rows; (title, stem) = chart_config category;
          filename = stem @ ''_'' @ pki; full_title = title @ '' - '' @ pki_title pki in
      if rows = [] then retm []
      else seqm (plot_group H draw rows (full_title @ '' - '' @ ta_run T) (figure_path T filename))
        (if \<not> sec_levels then retm []
         else bindm (plot_security_levels H draw rows full_title filename (ta_dir T) (ta_run T) (ta_ext T)) (\<lambda>counts.
           retm (map (level_line pki category) counts))))"

definition plot_bars :: "'w host \<Rightarrow> 'w drawing \<Rightarrow> bool \<Rightarrow> target \<Rightarrow> string \<times> srow list \<Rightarrow> ('w, string list \<times> nat \<times> nat) io" where
  "plot_bars H draw sec_levels T g = (case g of (pki, rows) \<Rightarrow>
     if rows = [] then retm ([], 0, 0)
     else bindm (mapm (plot_category H draw sec_levels T pki rows) CATEGORIES) (\<lambda>lines.
       bindm (plot_algorithm_metric H draw ''kex_group'' ''kex_nist_level'' ''mean_kem_client_total_ms''
         (''Client KEM execution time - '' @ pki_title pki @ '' - '' @ ta_run T) rows
         (figure_path T (''kem_execution_time_'' @ pki))) (\<lambda>kems.
       bindm (plot_algorithm_metric H draw ''pki_signature_label'' ''sig_nist_level'' ''mean_client_signature_total_ms''
         (''Client digital-signature execution time - '' @ pki_title pki @ '' - '' @ ta_run T) rows
         (figure_path T (''signature_execution_time_'' @ pki))) (\<lambda>sigs.
       retm (concat lines, kems, sigs)))))"

definition plot_scatters :: "'w host \<Rightarrow> 'w drawing \<Rightarrow> target \<Rightarrow> string \<times> srow list \<Rightarrow> ('w, nat \<times> nat) io" where
  "plot_scatters H draw T g = (case g of (pki, rows) \<Rightarrow>
     if rows = [] then retm (0, 0)
     else bindm (plot_cpu_vs_handshake H draw rows (figure_path T (''scatter_client_cpu_vs_handshake_'' @ pki)) (ta_run T) pki) (\<lambda>n.
       bindm (plot_heap_vs_handshake H draw rows (figure_path T (''scatter_heap_peak_vs_handshake_'' @ pki)) (ta_run T) pki) (\<lambda>m.
       retm (n, m))))"

definition plot_residuals :: "'w host \<Rightarrow> 'w drawing \<Rightarrow> target \<Rightarrow> string \<times> srow list \<Rightarrow> ('w, nat) io" where
  "plot_residuals H draw T g = (case g of (pki, rows) \<Rightarrow>
     bindm (mapm (\<lambda>level. plot_nist_residual_bars H draw (level_rows level rows)
         (figure_path T (''tls_handshake_residual_nist_level_'' @ str_int level @ ''_'' @ pki)) (ta_run T) pki level)
       SECURITY_LEVELS) (\<lambda>ns. retm (sum_list ns)))"

text \<open>Metric, decimals, suffix, title and file name of the heat maps of numbers.\<close>

definition METRIC_HEATMAPS :: "(string \<times> nat \<times> string \<times> string \<times> string) list" where
  "METRIC_HEATMAPS = [
     (''mean_average_cpu_usage_percent'', 1, ''%'',
      ''Average client processing CPU usage (communication excluded)'', ''heatmap_cpu_processing_usage_percent''),
     (''mean_system_cpu_usage_percent'', 1, ''%'', ''Average system CPU usage'', ''heatmap_cpu_average_usage_percent''),
     (''max_client_heap_peak_usage_percent'', 1, ''%'', ''Peak wolfSSL heap usage'', ''heatmap_heap_peak_usage_percent''),
     (''firmware_static_ram_usage_percent'', 1, ''%'', ''Total firmware static RAM usage'', ''heatmap_static_ram_usage_percent''),
     (''total_memory_usage_percent'', 1, ''%'', ''Total occupied RAM including peak heap and stack'',
      ''heatmap_total_memory_usage_percent''),
     (''max_thread_stack_peak_percent'', 1, ''%'', ''Peak thread stack usage'', ''heatmap_thread_stack_peak_percent''),
     (''firmware_static_ram_used_bytes'', 0, [], ''Total firmware static RAM usage in bytes'', ''heatmap_static_ram_used_bytes''),
     (''total_memory_used_bytes'', 0, [], ''Total occupied RAM including peak heap and stack in bytes'',
      ''heatmap_total_memory_used_bytes''),
     (''mean_client_icache_hit_percent'', 1, ''%'', ''Client instruction-cache hit rate'', ''heatmap_client_icache_hit_percent''),
     (''max_client_heap_peak_bytes'', 0, [], ''Peak wolfSSL heap allocation in bytes'', ''heatmap_client_heap_peak_bytes''),
     (''server_chain_bytes'', 0, [], ''Server certificate chain size'', ''heatmap_server_chain_bytes'')]"

definition cells_line :: "string \<Rightarrow> string \<Rightarrow> nat \<Rightarrow> string" where
  "cells_line pki metric n = pki @ ''_'' @ metric @ ''_heatmap_cells='' @ str_nat n"

definition plot_metric_heatmap ::
  "'w host \<Rightarrow> 'w drawing \<Rightarrow> target \<Rightarrow> string \<Rightarrow> srow list \<Rightarrow> string \<times> nat \<times> string \<times> string \<times> string \<Rightarrow> ('w, nat \<times> string) io" where
  "plot_metric_heatmap H draw T pki rows spec = (case spec of (metric, decimals, suffix, title, stem) \<Rightarrow>
     bindm (plot_percent_heatmap H draw decimals suffix rows metric
         (title @ '' - '' @ ta_run T @ '' - '' @ pki_title pki) (figure_path T (stem @ ''_'' @ pki))) (\<lambda>n.
       retm (if 0 < n then 1 else 0, cells_line pki metric n)))"

definition plot_heatmaps ::
  "'w host \<Rightarrow> 'w drawing \<Rightarrow> target \<Rightarrow> srow list \<Rightarrow> string \<times> srow list \<Rightarrow> ('w, nat \<times> string list) io" where
  "plot_heatmaps H draw T reconnect_rows g = (case g of (pki, rows) \<Rightarrow>
     if rows = [] then retm (0, [])
     else let run_id = ta_run T @ '' - '' @ pki_title pki in
       seqm (plot_heatmap H draw rows (figure_path T (''tls_handshake_heatmap_'' @ pki)) run_id)
       (bindm (mapm (plot_metric_heatmap H draw T pki rows) METRIC_HEATMAPS) (\<lambda>plots.
        bindm (plot_reconnect_count_heatmap H draw (of_pki pki reconnect_rows)
          (figure_path T (''heatmap_reconnects_'' @ pki)) run_id) (\<lambda>n.
        retm (1 + sum_list (map fst plots) + (if 0 < n then 1 else 0),
          map snd plots @ [cells_line pki ''reconnect_count'' n])))))"

definition count_line :: "string \<Rightarrow> nat \<Rightarrow> string" where
  "count_line name n = name @ ''='' @ str_nat n"

definition draw_figures ::
  "'w host \<Rightarrow> 'w disk \<Rightarrow> 'w drawing \<Rightarrow> numpy \<Rightarrow> chart_args \<Rightarrow> string \<Rightarrow> target \<Rightarrow> srow list \<Rightarrow> ('w, string list) io" where
  "draw_figures H D draw NP A run_dir T rows =
     (let plot_rows = without_rsa_pss (ch_skip_rsa_pss A) rows;
          groups = map (\<lambda>pki. (pki, of_pki pki plot_rows)) PKI_KINDS in
      bindm (mapm (plot_bars H draw (ch_sec_levels A) T) groups) (\<lambda>bars.
      bindm (mapm (plot_scatters H draw T) groups) (\<lambda>scatters.
      bindm (mapm (plot_residuals H draw T) groups) (\<lambda>residuals.
      bindm (plot_spearman_matrix H draw NP rows (figure_path T ''spearman_correlation_matrix'')
        (path_join (ta_dir T) ''spearman_correlation_matrix.csv'') (ta_run T)) (\<lambda>correlations.
      bindm (if \<not> ch_heatmap A then retm []
        else bindm (load_reconnect_count_rows H D run_dir) (\<lambda>reconnect_rows.
          bindm (mapm (plot_heatmaps H draw T reconnect_rows) (map (\<lambda>pki. (pki, of_pki pki rows)) PKI_KINDS)) (\<lambda>maps.
          retm (concat (map snd maps) @ [count_line ''heatmaps'' (sum_list (map fst maps))])))) (\<lambda>map_lines.
      retm (concat (map fst bars) @ map_lines @
        [count_line ''rows'' (length rows), count_line ''bar_chart_rows'' (length plot_rows),
         count_line ''kem_algorithm_bars'' (sum_list (map (\<lambda>(l, k, s). k) bars)),
         count_line ''signature_algorithm_bars'' (sum_list (map (\<lambda>(l, k, s). s) bars)),
         count_line ''cpu_handshake_scatter_points'' (sum_list (map fst scatters)),
         count_line ''heap_handshake_scatter_points'' (sum_list (map snd scatters)),
         count_line ''nist_residual_bar_rows'' (sum_list residuals),
         count_line ''spearman_correlation_rows'' correlations, ''format='' @ ta_ext T] @
        concat (map (\<lambda>(pki, pki_rows). if pki_rows = [] then []
          else map (\<lambda>category. count_line (pki @ ''_'' @ category) (length (of_category category pki_rows)))
            CATEGORIES) groups) @
        [''out_dir='' @ ta_dir T])))))))"

definition tls_figures_main ::
  "('w, 'g) site \<Rightarrow> string \<Rightarrow> 'w drawing \<Rightarrow> numpy \<Rightarrow> chart_args \<Rightarrow> ('w, int \<times> string list) io" where
  "tls_figures_main S project draw NP A =
     bindm (resolve_run_dir S project (ch_run A)) (\<lambda>run_dir.
     bindm (load_rows (si_host S) (si_disk S) run_dir) (\<lambda>rows.
     if rows = [] then raisem (SystemExit (''No successful TLS handshake rows found in '' @ run_dir))
     else let run_id = path_name run_dir;
              T = \<lparr>ta_dir = (case ch_out_dir A of Some d \<Rightarrow> d
                     | None \<Rightarrow> path_join (path_join project ''graphic/out'') run_id),
                   ta_run = run_id, ta_ext = (if ch_png A then ''png'' else ''pdf'')\<rparr> in
       bindm (draw_figures (si_host S) (si_disk S) draw NP A run_dir T rows) (\<lambda>lines. retm (0, lines))))"

end
