(* ===== verification/Figure_Facts.thy ===== *)
theory Figure_Facts
  imports Tls_Figures
begin

text \<open>
  Properties of the figures: the ranks behind the rank correlation are the average ranks of the
  textbook, every pair of a key exchange and a signature with a value is a cell of its heat map,
  and the groups of bars share out the rows of a run.
\<close>

section \<open>Average ranks\<close>

text \<open>The reference: the mean of the places a value takes among the sorted values.\<close>

definition average_rank :: "rat list \<Rightarrow> rat \<Rightarrow> rat" where
  "average_rank vals v = of_nat (length (filter (\<lambda>x. x < v) vals)) +
     (of_nat (length (filter (\<lambda>x. x = v) vals)) + 1) / 2"

text \<open>What \<open>argsort\<close> promises: the indices of the list in an order that sorts its values.\<close>

definition sorts_indices :: "(rat list \<Rightarrow> nat list) \<Rightarrow> bool" where
  "sorts_indices argsort \<longleftrightarrow>
     (\<forall>xs. mset (argsort xs) = mset [0..<length xs] \<and> sorted (map ((!) xs) (argsort xs)))"

lemma average_rank_mset: "mset xs = mset ys \<Longrightarrow> average_rank xs v = average_rank ys v"
  unfolding average_rank_def by (metis mset_filter size_mset)

lemma tie_end_spec:
  assumes "start < stop" "stop \<le> length vals" "\<forall>k. start \<le> k \<and> k < stop \<longrightarrow> vals ! (order ! k) = vals ! (order ! start)"
  shows "tie_end vals order start stop \<le> length vals \<and>
    (\<forall>k. start \<le> k \<and> k < tie_end vals order start stop \<longrightarrow> vals ! (order ! k) = vals ! (order ! start)) \<and>
    (tie_end vals order start stop < length vals \<longrightarrow>
      vals ! (order ! tie_end vals order start stop) \<noteq> vals ! (order ! start))"
  using assms
proof (induction vals order start stop rule: tie_end.induct)
  case (1 vals order start stop)
  show ?case
  proof (cases "stop < length vals \<and> vals ! (order ! stop) = vals ! (order ! start)")
    case True
    have after: "\<forall>k. start \<le> k \<and> k < Suc stop \<longrightarrow> vals ! (order ! k) = vals ! (order ! start)"
      using "1.prems"(3) True by (auto simp: less_Suc_eq)
    have next_stop: "tie_end vals order start stop = tie_end vals order start (Suc stop)"
      using True by (subst tie_end.simps) simp
    from True have "start < Suc stop" "Suc stop \<le> length vals" using "1.prems"(1) by simp_all
    from "1.IH" [OF True this] show ?thesis unfolding next_stop using after by blast
  next
    case False
    then have "tie_end vals order start stop = stop" by (subst tie_end.simps) (rule if_not_P)
    with "1.prems" False show ?thesis by (simp only: de_Morgan_conj) blast
  qed
qed

lemma fold_update_at:
  assumes "distinct order" "\<forall>i\<in>set order. i < length ranks" "k < length order" "b \<le> length order"
  shows "fold (\<lambda>i rs. rs[order ! i := v]) [a..<b] ranks ! (order ! k) =
    (if a \<le> k \<and> k < b then v else ranks ! (order ! k))"
  using assms(4)
proof (induction b)
  case (Suc b)
  have len: "length (fold (\<lambda>i rs. rs[order ! i := v]) [a..<b] ranks) = length ranks"
    by (induction b) auto
  have "order ! k = order ! b \<longleftrightarrow> k = b"
    using assms Suc.prems by (simp add: nth_eq_iff_index_eq)
  with Suc len assms show ?case by (auto simp: nth_list_update)
qed simp

lemma fold_update_length: "length (fold (\<lambda>i rs. rs[order ! i := v]) xs ranks) = length ranks"
  by (induction xs arbitrary: ranks) auto

lemma half_f64: "m \<le> 2 ^ 53 \<Longrightarrow> is_f64 (of_nat m / 2)"
  unfolding is_f64_def by (intro exI [of _ "int m"] exI [of _ "- 1"]) (simp add: power_int_def)

lemma tie_rank_exact:
  assumes "start < stop" "stop \<le> 2 ^ 52"
  shows "tie_rank start stop = (of_nat start + of_nat stop + 1) / 2"
proof -
  define m where "m = start + stop - 1"
  have m: "m \<le> 2 ^ 53" "m + 2 \<le> 2 ^ 53" "start + stop + 1 = m + 2" using assms by (simp_all add: m_def)
  have "tie_rank start stop = round64 (round64 (of_nat m / 2) + 1)"
    by (simp add: tie_rank_def fdiv_def fadd_def m_def)
  also have "round64 (of_nat m / 2) = of_nat m / 2" by (rule round64_f64 [OF half_f64 [OF m(1)]])
  also have "of_nat m / 2 + 1 = (of_nat (m + 2) / 2 :: rat)" by simp
  also have "round64 (of_nat (m + 2) / 2) = of_nat (m + 2) / 2" by (rule round64_f64 [OF half_f64 [OF m(2)]])
  also have "of_nat (m + 2) = (of_nat start + of_nat stop + 1 :: rat)" by (metis m(3) of_nat_add of_nat_1)
  finally show ?thesis .
qed

text \<open>In a sorted list the values between two changes of value take the places between them.\<close>

lemma filter_block:
  assumes "sorted ws" "start < stop" "stop \<le> length ws"
    and eq: "\<forall>k. start \<le> k \<and> k < stop \<longrightarrow> ws ! k = v"
    and lo: "\<forall>k < start. ws ! k < v" and hi: "\<forall>k. stop \<le> k \<and> k < length ws \<longrightarrow> v < ws ! k"
  shows "average_rank ws v = (of_nat start + of_nat stop + 1) / 2"
proof -
  have split: "ws = take start ws @ take (stop - start) (drop start ws) @ drop stop ws"
    using assms(2) by (metis append_take_drop_id drop_drop le_add_diff_inverse2 less_imp_le)
  have a: "\<forall>x\<in>set (take start ws). x < v" using lo assms(2,3) by (auto simp: in_set_conv_nth)
  have b: "\<forall>x\<in>set (take (stop - start) (drop start ws)). x = v"
    using eq assms(2,3) by (auto simp: in_set_conv_nth)
  have c: "\<forall>x\<in>set (drop stop ws). v < x" using hi by (auto simp: in_set_conv_nth)
  let ?B = "take (stop - start) (drop start ws)"
  have fl: "filter (\<lambda>x. x < v) (take start ws) = take start ws" "filter (\<lambda>x. x < v) ?B = []"
    "filter (\<lambda>x. x < v) (drop stop ws) = []" "filter (\<lambda>x. x = v) (take start ws) = []"
    "filter (\<lambda>x. x = v) ?B = ?B" "filter (\<lambda>x. x = v) (drop stop ws) = []"
    using a b c by (auto simp: filter_id_conv filter_empty_conv)
  have "filter (\<lambda>x. x < v) ws = take start ws"
    by (subst split) (simp only: filter_append fl append_Nil2)
  moreover have "filter (\<lambda>x. x = v) ws = ?B"
    by (subst split) (simp only: filter_append fl append_Nil2 append_Nil)
  moreover have "of_nat start + (of_nat (stop - start) + 1) / 2 = ((of_nat start + of_nat stop + 1) / 2 :: rat)"
    using assms(2) by (simp add: of_nat_diff field_simps)
  ultimately show ?thesis using assms(2,3) by (simp add: average_rank_def)
qed

lemma rank_from_spec:
  assumes "mset order = mset [0..<length vals]" "sorted (map ((!) vals) order)" "length vals \<le> 2 ^ 52"
    and "length ranks = length vals" "start \<le> length vals"
    and "\<forall>k < start. ranks ! (order ! k) = average_rank vals (vals ! (order ! k))"
    and "\<forall>k j. k < start \<and> start \<le> j \<and> j < length vals \<longrightarrow> vals ! (order ! k) < vals ! (order ! j)"
  shows "\<forall>k<length vals. rank_from vals order start ranks ! (order ! k) = average_rank vals (vals ! (order ! k))"
  using assms
proof (induction vals order start ranks rule: rank_from.induct)
  case (1 vals order start ranks)
  let ?n = "length vals" and ?ws = "map ((!) vals) order"
  have len: "length order = ?n" using "1.prems"(1) by (metis length_upt minus_nat.diff_0 size_mset)
  have dist: "distinct order" using "1.prems"(1) by (metis distinct_upt mset_eq_imp_distinct_iff)
  have range: "\<forall>i\<in>set order. i < ?n" using "1.prems"(1) by (metis atLeastLessThan_iff set_mset_mset set_upt)
  have perm: "mset ?ws = mset vals" using "1.prems"(1) by (metis map_nth mset_map)
  show ?case
  proof (cases "start < ?n")
    case False
    then show ?thesis using "1.prems"(5,6) by (simp add: rank_from.simps)
  next
    case True
    define stop where "stop = tie_end vals order start (Suc start)"
    have "\<forall>k. start \<le> k \<and> k < Suc start \<longrightarrow> vals ! (order ! k) = vals ! (order ! start)"
      by (auto simp: less_Suc_eq le_less)
    note spec = tie_end_spec [OF lessI Suc_leI [OF True] this, folded stop_def]
    have stop: "stop \<le> ?n" "\<forall>k. start \<le> k \<and> k < stop \<longrightarrow> vals ! (order ! k) = vals ! (order ! start)"
      "stop < ?n \<longrightarrow> vals ! (order ! stop) \<noteq> vals ! (order ! start)" using spec by blast+
    have more: "start < stop" using tie_end_ge [of "Suc start" vals order start] by (simp add: stop_def)
    let ?v = "vals ! (order ! start)"
    have le: "vals ! (order ! i) \<le> vals ! (order ! j)" if "i \<le> j" "j < ?n" for i j
      using sorted_nth_mono [OF "1.prems"(2), of i j] that len by simp
    have hi: "?v < vals ! (order ! j)" if "stop \<le> j" "j < ?n" for j
    proof -
      have "?v \<le> vals ! (order ! stop)" using le [of start stop] more that by simp
      then show ?thesis using stop(3) le [OF that] that by simp
    qed
    have rank: "average_rank vals ?v = tie_rank start stop"
    proof -
      have "average_rank ?ws ?v = (of_nat start + of_nat stop + 1) / 2"
      proof (rule filter_block [OF "1.prems"(2) more])
        show "stop \<le> length ?ws" using stop(1) len by simp
        show "\<forall>k. start \<le> k \<and> k < stop \<longrightarrow> ?ws ! k = ?v"
        proof (intro allI impI)
          fix k assume k: "start \<le> k \<and> k < stop"
          with stop(1) len have "?ws ! k = vals ! (order ! k)" by simp
          also have "\<dots> = ?v" using stop(2) k by blast
          finally show "?ws ! k = ?v" .
        qed
        show "\<forall>k < start. ?ws ! k < ?v" using "1.prems"(7) True len by simp
        show "\<forall>k. stop \<le> k \<and> k < length ?ws \<longrightarrow> ?v < ?ws ! k" using hi len by simp
      qed
      then show ?thesis
        using tie_rank_exact [OF more] stop(1) "1.prems"(3) average_rank_mset [OF perm] by simp
    qed
    let ?r = "fold (\<lambda>i rs. rs[order ! i := tie_rank start stop]) [start..<stop] ranks"
    have upd: "?r ! (order ! k) = (if start \<le> k \<and> k < stop then tie_rank start stop else ranks ! (order ! k))" if "k < ?n" for k
      using fold_update_at [OF dist, of ranks k stop "tie_rank start stop" start] range that stop(1) len "1.prems"(4)
      by simp
    have ranked: "\<forall>k < stop. ?r ! (order ! k) = average_rank vals (vals ! (order ! k))"
    proof (intro allI impI)
      fix k assume k: "k < stop"
      with stop(1) have kn: "k < ?n" by simp
      show "?r ! (order ! k) = average_rank vals (vals ! (order ! k))"
      proof (cases "start \<le> k")
        case True
        with k stop(2) have "vals ! (order ! k) = ?v" by blast
        with True k rank upd [OF kn] show ?thesis by simp
      next
        case False
        with upd [OF kn] "1.prems"(6) show ?thesis by simp
      qed
    qed
    have sep: "\<forall>k j. k < stop \<and> stop \<le> j \<and> j < ?n \<longrightarrow> vals ! (order ! k) < vals ! (order ! j)"
    proof (intro allI impI)
      fix k j assume kj: "k < stop \<and> stop \<le> j \<and> j < ?n"
      show "vals ! (order ! k) < vals ! (order ! j)"
      proof (cases "start \<le> k")
        case True
        with kj stop(2) have "vals ! (order ! k) = ?v" by blast
        with hi kj show ?thesis by simp
      next
        case False
        with kj more "1.prems"(7) show ?thesis by simp
      qed
    qed
    have "length ?r = ?n" using "1.prems"(4) by (simp add: fold_update_length)
    from "1.IH" [OF True stop_def "1.prems"(1-3) this stop(1) ranked sep]
    show ?thesis using True by (simp add: rank_from.simps [of vals order start ranks] stop_def Let_def)
  qed
qed

text \<open>
  C20: With any index sort, the rank computed for a value is its average rank: the number of
  smaller values plus half of one more than the number of equal values.
\<close>

theorem rank_values_average:
  assumes "sorts_indices argsort" "length vals \<le> 2 ^ 52" "i < length vals"
  shows "rank_values argsort vals ! i = average_rank vals (vals ! i)"
proof -
  have srt: "mset (argsort vals) = mset [0..<length vals]" "sorted (map ((!) vals) (argsort vals))"
    using assms(1) by (simp_all add: sorts_indices_def)
  have "i \<in> set (argsort vals)" using srt(1) assms(3) by (metis atLeastLessThan_iff le0 set_mset_mset set_upt)
  moreover have "length (argsort vals) = length vals" using srt(1) by (metis length_upt minus_nat.diff_0 size_mset)
  ultimately obtain k where k: "k < length vals" "argsort vals ! k = i" by (metis in_set_conv_nth)
  from rank_from_spec [OF srt assms(2), of "replicate (length vals) 0" 0] k show ?thesis
    by (auto simp: rank_values_def)
qed

lemma sort_key_argsort: "sorts_indices (\<lambda>xs. sort_key ((!) xs) [0..<length xs])"
  by (simp add: sorts_indices_def)

lemma rank_values_average_witness:
  "rank_values (\<lambda>xs. sort_key ((!) xs) [0..<length xs]) [30, 10, 30, 20] ! 2 = average_rank [30, 10, 30, 20] 30 \<and>
   average_rank [30, 10, 30, 20] 30 = 7 / 2"
  using rank_values_average [OF sort_key_argsort, of "[30, 10, 30, 20]" 2]
  by (simp add: average_rank_def)

section \<open>Cells of a heat map\<close>

text \<open>The reference: the values of the rows of a pair, in the order of the rows.\<close>

definition pair_values :: "(srow \<Rightarrow> rat option res) \<Rightarrow> srow list \<Rightarrow> string \<Rightarrow> string \<Rightarrow> rat list" where
  "pair_values f rows kem sig = somes (map (\<lambda>r. case f r of Inl _ \<Rightarrow> None | Inr v \<Rightarrow> v)
     (filter (\<lambda>r. dget r ''kex_group'' [] = kem \<and> pki_signature_label r = sig) rows))"

lemma somes_append: "somes (xs @ ys) = somes xs @ somes ys"
  by (simp add: somes_def)

lemma collect_pairs_spec:
  assumes "collect_pairs f g rows = Inr (vals, widths)" "kem \<noteq> []" "sig \<noteq> []"
  shows "dget vals (kem, sig) [] = pair_values f rows kem sig"
  using assms(1)
proof (induction rows arbitrary: vals widths rule: rev_induct)
  case Nil
  then show ?case by (simp add: collect_pairs_def pair_values_def somes_def dget_def)
next
  case (snoc r rows)
  obtain vs ws where prev: "collect_pairs f g rows = Inr (vs, ws)" and step: "add_pair f g (vs, ws) r = Inr (vals, widths)"
    using snoc.prems by (auto simp: collect_pairs_def foldr_res_append bindr_eq_Inr)
  note IH = snoc.IH [OF prev]
  let ?k = "dget r ''kex_group'' []" and ?s = "pki_signature_label r"
  obtain v where v: "f r = Inr v" using step by (auto simp: add_pair_def Let_def bindr_eq_Inr)
  have split: "pair_values f (rows @ [r]) kem sig =
      pair_values f rows kem sig @ (if ?k = kem \<and> ?s = sig then case v of None \<Rightarrow> [] | Some x \<Rightarrow> [x] else [])"
    by (simp add: pair_values_def somes_append v somes_def)
  have "dget vals (kem, sig) [] = dget vs (kem, sig) [] @
      (if ?k = kem \<and> ?s = sig then case v of None \<Rightarrow> [] | Some x \<Rightarrow> [x] else [])"
  proof (cases v)
    case None
    with step v show ?thesis by (simp add: add_pair_def Let_def)
  next
    case (Some x)
    with step v assms(2,3) show ?thesis
      by (auto simp: add_pair_def Let_def bindr_eq_Inr dappend_def split: if_splits)
  qed
  then show ?case by (simp only: split IH)
qed

lemma values_by_keys: "set (map fst (values_by f d)) = f ` set (map fst d) \<and> distinct (map fst (values_by f d))"
proof (induction d rule: rev_induct)
  case (snoc kx d)
  obtain k xs where kx: "kx = (k, xs)" by (cases kx)
  have "values_by f (d @ [kx]) = dset (f k) (dget (values_by f d) (f k) [] @ xs) (values_by f d)"
    by (simp add: values_by_def kx)
  then show ?case using snoc by (simp only: set_dset_keys distinct_dset) (auto simp: kx)
qed (simp add: values_by_def)

lemma sorted_by_first: "sorted (map (\<lambda>x. (f x, g x)) xs) \<Longrightarrow> sorted (map (f :: 'a \<Rightarrow> rat) xs)"
  by (auto simp: sorted_wrt_map elim!: sorted_wrt_mono_rel [rotated] intro: less_imp_le)

definition kem_mean :: "pairs \<Rightarrow> string \<Rightarrow> rat" where
  "kem_mean vals k = stat_mean (dget (values_by fst vals) k [])"

definition signature_mean :: "pairs \<Rightarrow> string \<Rightarrow> rat" where
  "signature_mean vals s = stat_mean (dget (values_by snd vals) s [])"

lemma axes_spec:
  assumes "heatmap_axes_by_descending_mean vals = (kems, sigs)"
  shows "set kems = fst ` set (map fst vals)" "distinct kems" "sorted (map (kem_mean vals) kems)"
    "set sigs = snd ` set (map fst vals)" "distinct sigs" "sorted (map (\<lambda>s. - signature_mean vals s) sigs)"
proof -
  have a: "kems = sort_key (\<lambda>k. (kem_mean vals k, py_lower k)) (map fst (values_by fst vals))"
    "sigs = sort_key (\<lambda>s. (- signature_mean vals s, py_lower s)) (map fst (values_by snd vals))"
    using assms by (simp_all add: heatmap_axes_by_descending_mean_def Let_def kem_mean_def signature_mean_def)
  show "set kems = fst ` set (map fst vals)" "distinct kems" "set sigs = snd ` set (map fst vals)" "distinct sigs"
    unfolding a using values_by_keys [of fst vals] values_by_keys [of snd vals] by simp_all
  show "sorted (map (kem_mean vals) kems)" "sorted (map (\<lambda>s. - signature_mean vals s) sigs)"
    unfolding a by (rule sorted_by_first [OF sorted_sort_key])+
qed

text \<open>
  C19: Every row with a value, a key exchange and a signature label is counted in the cell of its
  pair: the axes list both once, key exchanges by ascending and signatures by descending mean,
  and the cell holds the mean of the values of all rows of the pair.
\<close>

theorem heat_map_complete:
  assumes "collect_pairs f g rows = Inr (vals, widths)" "heatmap_axes_by_descending_mean vals = (kems, sigs)"
    and "r \<in> set rows" "f r = Inr (Some x)" "dget r ''kex_group'' [] = kem" "kem \<noteq> []" "pki_signature_label r = sig" "sig \<noteq> []"
  shows "distinct kems \<and> distinct sigs \<and> sorted (map (kem_mean vals) kems) \<and>
    sorted (map (\<lambda>s. - signature_mean vals s) sigs) \<and> x \<in> set (pair_values f rows kem sig) \<and>
    (\<exists>i<length sigs. \<exists>j<length kems. sigs ! i = sig \<and> kems ! j = kem \<and>
      mean_matrix vals kems sigs ! i ! j = Some (stat_mean (pair_values f rows kem sig)))"
proof -
  note ax = axes_spec [OF assms(2)]
  have x: "x \<in> set (pair_values f rows kem sig)"
    using assms(3-8) by (force simp: pair_values_def somes_def)
  have d: "dget vals (kem, sig) [] = pair_values f rows kem sig"
    by (rule collect_pairs_spec [OF assms(1,6,8)])
  then have ne: "dget vals (kem, sig) [] \<noteq> []" using x by auto
  then have "(kem, sig) \<in> set (map fst vals)"
    by (auto simp: dget_def split: option.splits dest!: map_of_SomeD intro!: image_eqI)
  then have "kem \<in> set kems" "sig \<in> set sigs" unfolding ax(1,4) by force+
  then obtain i j where ij: "i < length sigs" "sigs ! i = sig" "j < length kems" "kems ! j = kem"
    by (metis in_set_conv_nth)
  have "mean_matrix vals kems sigs ! i ! j = Some (stat_mean (pair_values f rows kem sig))"
    using ij ne d by (simp add: mean_matrix_def pair_mean_def Let_def)
  with ij ax x show ?thesis by blast
qed

lemma heat_map_complete_witness:
  "\<exists>i<1. \<exists>j<1. [''ECDSA''] ! i = ''ECDSA'' \<and> [''MLKEM''] ! j = ''MLKEM'' \<and>
    mean_matrix [((''MLKEM'', ''ECDSA''), [1, 3])] [''MLKEM''] [''ECDSA''] ! i ! j = Some (stat_mean [1, 3])"
proof -
  let ?row = "\<lambda>t. [(''kex_group'', ''MLKEM''), (''cert_sig_alg'', ''ECDSA''), (''m'', t)]"
  let ?f = "\<lambda>r. float_or_none (map_of r ''m'')" and ?rows = "[?row ''1'', ?row ''3'']"
  have c: "collect_pairs ?f (\<lambda>_. Inr None) ?rows = Inr ([((''MLKEM'', ''ECDSA''), [1, 3])], [])"
    and a: "heatmap_axes_by_descending_mean [((''MLKEM'', ''ECDSA''), [1, 3])] = ([''MLKEM''], [''ECDSA''])"
    and f: "?f (?row ''3'') = Inr (Some 3)" and l: "pki_signature_label (?row ''3'') = ''ECDSA''"
    and p: "pair_values ?f ?rows ''MLKEM'' ''ECDSA'' = [1, 3]" by code_simp+
  show ?thesis
    using heat_map_complete [OF c a _ f _ _ l, of "''MLKEM''"] by (simp add: p dget_def)
qed

section \<open>Groups of bars\<close>

lemma categories_known:
  "pki_category r \<in> set PKI_KINDS" "case_category r \<in> set CATEGORIES"
  by (simp_all add: pki_category_def case_category_def PKI_KINDS_def CATEGORIES_def Let_def)

lemma sorted_desc_mset: "sorted_desc f xs = Inr ys \<Longrightarrow> mset ys = mset xs"
proof -
  assume "sorted_desc f xs = Inr ys"
  then obtain ks where ks: "mapr f xs = Inr ks" "ys = map snd (sort_key (\<lambda>kx. - fst kx) (zip ks xs))"
    by (auto simp: sorted_desc_def bindr_eq_Inr)
  have "mset ys = mset (map snd (zip ks xs))" by (simp add: ks(2))
  also have "map snd (zip ks xs) = xs" using mapr_length [OF ks(1)] by simp
  finally show ?thesis .
qed

lemma sorted_desc_sorted:
  assumes "sorted_desc f xs = Inr ys"
  shows "\<exists>ks. mapr f ys = Inr ks \<and> sorted (rev ks)"
proof -
  obtain ks where ks: "mapr f xs = Inr ks" "ys = map snd (sort_key (\<lambda>kx. - fst kx) (zip ks xs))"
    using assms by (auto simp: sorted_desc_def bindr_eq_Inr)
  let ?z = "sort_key (\<lambda>kx. - fst kx) (zip ks xs)"
  have "\<forall>kx\<in>set ?z. f (snd kx) = Inr (fst kx)"
    using ks(1) by (auto simp: mapr_Inr_iff list_all2_conv_all_nth in_set_zip)
  then have "mapr f (map snd ?z) = Inr (map fst ?z)"
    by (simp add: mapr_Inr_iff list_all2_map1 list_all2_map2 list_all2_same)
  moreover have "sorted (map (\<lambda>kx. - fst kx) ?z)" by (rule sorted_sort_key)
  then have "sorted (rev (map fst ?z))"
    by (simp add: sorted_wrt_rev sorted_wrt_map)
  ultimately show ?thesis unfolding ks(2) by blast
qed

text \<open>
  C25: Of the rows that are plotted each is drawn in exactly one group of bars, and a group shows
  all its rows, one stack each, with the slowest handshake first.
\<close>

theorem bar_groups_share_rows:
  assumes "handshake_stacks (of_category category (of_pki pki rows)) = Inr stacks"
  shows "mset (concat (map (\<lambda>(p, c). of_category c (of_pki p rows)) (List.product PKI_KINDS CATEGORIES))) = mset rows \<and>
    (\<exists>shown times. mset shown = mset (of_category category (of_pki pki rows)) \<and> mapr row_mean shown = Inr times \<and>
       sorted (rev times) \<and> map (\<lambda>(label, parts, ci). label) stacks = map short_label shown \<and>
       map (\<lambda>(label, parts, ci). Inr parts) stacks =
         map (\<lambda>r. bindr (handshake_components r) (\<lambda>(k, s, rest, c). Inr [k, s, rest, c])) shown)"
proof (intro conjI)
  have "(\<lambda>r. (pki_category r, case_category r)) ` set rows \<subseteq> set (List.product PKI_KINDS CATEGORIES)"
    using categories_known by auto
  moreover have "distinct (List.product PKI_KINDS CATEGORIES)"
    by (rule distinct_product) (simp_all add: PKI_KINDS_def CATEGORIES_def)
  ultimately have "mset (concat (map (\<lambda>k. filter (\<lambda>r. (pki_category r, case_category r) = k) rows)
      (List.product PKI_KINDS CATEGORIES))) = mset rows"
    by (intro mset_concat_partition)
  moreover have "(\<lambda>k. filter (\<lambda>r. (pki_category r, case_category r) = k) rows) =
      (\<lambda>(p, c). of_category c (of_pki p rows))"
    by (auto simp: fun_eq_iff of_category_def of_pki_def intro!: filter_cong)
  ultimately show "mset (concat (map (\<lambda>(p, c). of_category c (of_pki p rows))
      (List.product PKI_KINDS CATEGORIES))) = mset rows" by simp
next
  let ?rows = "of_category category (of_pki pki rows)"
  obtain shown where s: "sorted_desc row_mean ?rows = Inr shown" "mapr stack_of_row shown = Inr stacks"
    using assms by (auto simp: handshake_stacks_def bindr_eq_Inr)
  obtain times where t: "mapr row_mean shown = Inr times" "sorted (rev times)"
    using sorted_desc_sorted [OF s(1)] by blast
  have st: "list_all2 (\<lambda>r st. stack_of_row r = Inr st) shown stacks" using s(2) by (simp add: mapr_Inr_iff)
  then have "map (\<lambda>(label, parts, ci). label) stacks = map short_label shown"
    by (induction rule: list_all2_induct) (auto simp: stack_of_row_def bindr_eq_Inr)
  moreover from st have "map (\<lambda>(label, parts, ci). Inr parts) stacks =
      map (\<lambda>r. bindr (handshake_components r) (\<lambda>(k, s, rest, c). Inr [k, s, rest, c])) shown"
    by (induction rule: list_all2_induct) (auto simp: stack_of_row_def bindr_eq_Inr)
  moreover note sorted_desc_mset [OF s(1)] t
  ultimately show "\<exists>shown times. mset shown = mset ?rows \<and> mapr row_mean shown = Inr times \<and>
       sorted (rev times) \<and> map (\<lambda>(label, parts, ci). label) stacks = map short_label shown \<and>
       map (\<lambda>(label, parts, ci). Inr parts) stacks =
         map (\<lambda>r. bindr (handshake_components r) (\<lambda>(k, s, rest, c). Inr [k, s, rest, c])) shown"
    by blast
qed

lemma bar_groups_share_rows_witness:
  "\<exists>shown times. mset shown = {#[(''mean_handshake_ms'', ''7'')], [(''mean_handshake_ms'', ''9'')]#} \<and>
     mapr row_mean shown = Inr times \<and> sorted (rev times)"
proof -
  let ?rows = "[[(''mean_handshake_ms'', ''7'')], [(''mean_handshake_ms'', ''9'')]]"
  have rows: "of_category ''classic_only'' (of_pki ''homogeneous'' ?rows) = ?rows" by code_simp
  have "case handshake_stacks ?rows of Inl _ \<Rightarrow> False | Inr _ \<Rightarrow> True" by code_simp
  then obtain stacks where "handshake_stacks ?rows = Inr stacks" by (cases "handshake_stacks ?rows") auto
  then have h: "handshake_stacks (of_category ''classic_only'' (of_pki ''homogeneous'' ?rows)) = Inr stacks"
    by (simp only: rows)
  show ?thesis using bar_groups_share_rows [OF h] unfolding rows by auto
qed

end
