(* ===== verification/Transfer_Tables.thy ===== *)
theory Transfer_Tables
  imports Tls_Figures
begin

text \<open>
  \<open>graphic/generate_transfer_energy_table.py\<close> and \<open>graphic/generate_transfer_scaling_table.py\<close>:
  the LaTeX tables of the energy and the cost of transfers, and the heat maps and scatter plots
  of the first program.  A backslash is \<open>bs\<close>; drawing is the parameter of \<open>Tls_Figures\<close>.
\<close>

section \<open>Text\<close>

definition bs :: string where
  "bs = [CHR 0x5C]"

definition latex_char :: "char \<Rightarrow> string" where
  "latex_char c =
     (if c = CHR 0x5C then bs @ ''textbackslash{}''
      else if c \<in> {CHR ''&'', CHR ''%'', CHR ''$'', CHR ''#'', CHR ''{'', CHR ''}''} then bs @ [c]
      else if c = CHR ''_'' then bs @ ''_'' @ bs @ ''allowbreak{}''
      else if c = CHR ''~'' then bs @ ''textasciitilde{}''
      else if c = CHR ''^'' then bs @ ''textasciicircum{}''
      else [c])"

definition latex_escape :: "string \<Rightarrow> string" where
  "latex_escape s = concat (map latex_char s)"

definition table_float :: "string \<Rightarrow> rat option res" where
  "table_float s = tryr (bindr (py_float s) (\<lambda>x. Inr (Some x))) is_value_error (\<lambda>_. Inr None)"

definition payload_label :: "int \<Rightarrow> string" where
  "payload_label n_bytes =
     (if n_bytes < 1024 then str_int n_bytes @ '' B''
      else fmt_g (fdiv (float_of_int n_bytes) 1024) @ '' KiB'')"

definition energy_cell :: "srow option \<Rightarrow> string res" where
  "energy_cell r = (case r of None \<Rightarrow> Inr ''--''
     | Some cells \<Rightarrow>
         bindr (table_float (dget cells ''mean_transfer_energy_uj'' [])) (\<lambda>mean_uj.
         bindr (table_float (dget cells ''ci95_transfer_energy_uj'' [])) (\<lambda>ci_uj.
         Inr (case mean_uj of None \<Rightarrow> ''--''
           | Some m \<Rightarrow> fmt_fixed 3 (fdiv m 1000) @
               (case ci_uj of None \<Rightarrow> [] | Some c \<Rightarrow> '' $'' @ bs @ ''pm$ '' @ fmt_fixed 3 (fdiv c 1000))))))"

section \<open>Rows\<close>

definition table_run_dir :: "('w, 'g) site \<Rightarrow> string \<Rightarrow> string \<Rightarrow> ('w, string) io" where
  "table_run_dir S project val =
     bindm (cn_expanduser (si_console S) val) (\<lambda>path.
     bindm (h_is_dir (si_host S) path) (\<lambda>dir.
     if dir then dk_resolve (si_disk S) path
     else let candidate = path_join (DEFAULT_RESULTS_ROOT project) val in
       bindm (h_is_dir (si_host S) candidate) (\<lambda>dir.
       if dir then dk_resolve (si_disk S) candidate
       else raisem (FileNotFoundError (''Benchmark result directory not found: '' @ val)))))"

fun load_case_metadata :: "'w host \<Rightarrow> string \<Rightarrow> string list \<Rightarrow> ('w, (string, srow) dict) io" where
  "load_case_metadata H run_dir [] = raisem (FileNotFoundError (''Case metadata not found in '' @ run_dir))"
| "load_case_metadata H run_dir (filename # filenames) = (let path = path_join run_dir filename in
     bindm (h_exists H path) (\<lambda>present.
     if present then bindm (read_table H path) (\<lambda>rows. retm (named_rows rows))
     else load_case_metadata H run_dir filenames))"

definition METADATA_FILES :: "string list" where
  "METADATA_FILES = [''handshake_summary.csv'', ''input_cases.csv'']"

definition with_metadata :: "(string, srow) dict \<Rightarrow> srow \<Rightarrow> srow" where
  "with_metadata metadata r = fold (\<lambda>(k, v) d. dsetdefault k v d) (dget metadata (dget r ''case_id'' []) []) r"

definition transfer_summary_path :: "'w host \<Rightarrow> string \<Rightarrow> ('w, string) io" where
  "transfer_summary_path H run_dir = (let path = path_join run_dir ''transfer_summary.csv'' in
     bindm (h_exists H path) (\<lambda>present. if present then retm path
       else raisem (FileNotFoundError (''Transfer summary not found: '' @ path))))"

definition load_transfer_summary :: "'w host \<Rightarrow> string \<Rightarrow> ('w, srow list) io" where
  "load_transfer_summary H run_dir =
     bindm (transfer_summary_path H run_dir) (\<lambda>path.
     bindm (load_case_metadata H run_dir METADATA_FILES) (\<lambda>metadata.
     bindm (read_table H path) (\<lambda>rows. retm (map (with_metadata metadata) rows))))"

definition load_transfer_attempts :: "'w host \<Rightarrow> 'w disk \<Rightarrow> string \<Rightarrow> ('w, srow list) io" where
  "load_transfer_attempts H D run_dir =
     bindm (load_case_metadata H run_dir METADATA_FILES) (\<lambda>metadata.
     bindm (case_tables D run_dir ''transmissions.csv'') (\<lambda>paths.
     foldm (\<lambda>rows path. bindm (read_table H path) (\<lambda>attempts.
       retm (rows @ map (with_metadata metadata)
         (filter (\<lambda>r. map_of r ''status'' = Some ''success'') attempts)))) [] paths))"

section \<open>The energy table\<close>

definition TABLE_DIRECTIONS :: "string list" where
  "TABLE_DIRECTIONS = [''server_to_device'', ''device_to_server'']"

definition direction_label :: "string \<Rightarrow> string" where
  "direction_label direction = (if direction = ''server_to_device''
     then ''Server $'' @ bs @ ''rightarrow$ device'' else ''Device $'' @ bs @ ''rightarrow$ server'')"

type_synonym energy_index = "(string \<times> string \<times> int, srow) dict"

definition row_payload :: "srow \<Rightarrow> int res" where
  "row_payload r = bindr (dindex r ''payload_bytes'') py_int"

definition index_key :: "srow \<Rightarrow> ((string \<times> string \<times> int) \<times> srow) res" where
  "index_key r = bindr (dindex r ''case_id'') (\<lambda>c. bindr (dindex r ''direction'') (\<lambda>d.
     bindr (row_payload r) (\<lambda>n. Inr ((c, d, n), r))))"

definition sorted_set :: "('a :: linorder) list \<Rightarrow> 'a list" where
  "sorted_set xs = sort (remdups xs)"

definition columns_line :: "int list \<Rightarrow> string" where
  "columns_line payloads = ''Configuration & Direction & '' @
     join '' & '' (map (\<lambda>n. latex_escape (payload_label n)) payloads) @ '' '' @ bs @ bs"

definition table_head :: "int list \<Rightarrow> string list" where
  "table_head payloads =
     [''{'' @ bs @ ''scriptsize'', bs @ ''setlength{'' @ bs @ ''tabcolsep}{3pt}'',
      bs @ ''begin{longtable}{@'' @ ''{}p{0.48'' @ bs @ ''textwidth}l'' @ replicate (length payloads) CHR ''r'' @ ''@'' @ ''{}}'',
      bs @ ''hline'', columns_line payloads, bs @ ''hline'', bs @ ''endfirsthead'',
      bs @ ''hline'', columns_line payloads, bs @ ''hline'', bs @ ''endhead'', bs @ ''hline'',
      bs @ ''multicolumn{'' @ str_nat (2 + length payloads) @ ''}{r}{Continued on next page} '' @ bs @ bs,
      bs @ ''endfoot'', bs @ ''hline'', bs @ ''endlastfoot'']"

definition row_cells :: "energy_index \<Rightarrow> int list \<Rightarrow> string \<Rightarrow> string \<Rightarrow> string list res" where
  "row_cells index payloads case_id direction =
     mapr (\<lambda>n. energy_cell (map_of index (case_id, direction, n))) payloads"

definition body_line :: "nat \<times> string \<Rightarrow> string \<Rightarrow> string list \<Rightarrow> string" where
  "body_line d case_id cells = (case d of (k, direction) \<Rightarrow>
     (if k = 0 then latex_escape case_id else []) @ '' & '' @ direction_label direction @ '' & '' @
       join '' & '' cells @ '' '' @ bs @ bs)"

definition missing_cells :: "string list \<Rightarrow> nat" where
  "missing_cells cells = length (filter (\<lambda>c. c = ''--'') cells)"

definition table_body :: "energy_index \<Rightarrow> int list \<Rightarrow> string list \<Rightarrow> (string \<times> nat) list res" where
  "table_body index payloads cids =
     mapr (\<lambda>(cid, d). bindr (row_cells index payloads cid (snd d)) (\<lambda>cells.
       Inr (body_line d cid cells, missing_cells cells))) (List.product cids (enumerate 0 TABLE_DIRECTIONS))"

definition energy_table :: "srow list \<Rightarrow> (string list \<times> nat \<times> nat) res" where
  "energy_table rows =
     bindr (mapr row_payload rows) (\<lambda>sizes.
     bindr (mapr (\<lambda>r. dindex r ''case_id'') rows) (\<lambda>ids.
     bindr (mapr index_key rows) (\<lambda>keys.
     let payloads = sorted_set sizes; cids = sorted_set ids in
     bindr (table_body (dict_of keys) payloads cids) (\<lambda>body.
     Inr (table_head payloads @ map fst body @ [bs @ ''end{longtable}'', ''}''],
          length cids, sum_list (map snd body))))))"

text \<open>\<open>write_text(..., encoding="ascii")\<close> has truncated the file when it finds another character.\<close>

definition write_ascii :: "'w host \<Rightarrow> string \<Rightarrow> string \<Rightarrow> ('w, unit) io" where
  "write_ascii H path text =
     (if list_all (\<lambda>c. ccode c < 128) text then h_write H path text
      else seqm (h_write H path []) (raisem (ValueError ''ascii codec can't encode character'')))"

definition text_of_lines :: "string list \<Rightarrow> string" where
  "text_of_lines ls = join [CHR 0x0A] ls @ [CHR 0x0A]"

definition generate_table :: "'w host \<Rightarrow> string \<Rightarrow> string \<Rightarrow> ('w, nat \<times> nat) io" where
  "generate_table H run_dir path =
     bindm (transfer_summary_path H run_dir) (\<lambda>summary.
     bindm (read_table H summary) (\<lambda>rows.
     bindm (liftm (energy_table rows)) (\<lambda>(ls, n, missing).
     bindm (h_mkdir H (path_parent path)) (\<lambda>_.
     seqm (write_ascii H path (text_of_lines ls)) (retm (n, missing))))))"

section \<open>Figures of transfers\<close>

definition plain_direction :: "string \<Rightarrow> string" where
  "plain_direction direction =
     (if direction = ''server_to_device'' then ''Server to device'' else ''Device to server'')"

definition select_transfers :: "string \<Rightarrow> string \<Rightarrow> int \<Rightarrow> srow list \<Rightarrow> srow list res" where
  "select_transfers pki direction payload rows =
     filterr (\<lambda>r. if pki_category r = pki \<and> map_of r ''direction'' = Some direction
       then bindr (py_int (dget r ''payload_bytes'' ''0'')) (\<lambda>n. Inr (n = payload)) else Inr False) rows"

definition scaled_metric :: "string \<Rightarrow> rat \<Rightarrow> srow \<Rightarrow> rat option res" where
  "scaled_metric metric divisor r =
     bindr (table_float (dget r metric [])) (\<lambda>v. Inr (map_option (\<lambda>x. fdiv x divisor) v))"

definition plot_transfer_metric_heatmap ::
  "'w host \<Rightarrow> 'w drawing \<Rightarrow> srow list \<Rightarrow> string \<times> string \<times> rat \<times> nat \<times> string \<Rightarrow> string \<Rightarrow> string \<Rightarrow> string \<Rightarrow> string \<Rightarrow> int \<Rightarrow>
    ('w, nat) io" where
  "plot_transfer_metric_heatmap H draw rows spec path run_id pki direction payload =
     (case spec of (metric, ci_metric, divisor, decimals, title) \<Rightarrow>
      bindm (liftm (select_transfers pki direction payload rows)) (\<lambda>selected.
      bindm (liftm (collect_pairs (scaled_metric metric divisor) (scaled_metric ci_metric divisor) selected)) (\<lambda>(vals, widths).
      if vals = [] then retm 0
      else seqm (save_figure H draw (heat_figure (title @ '' - '' @ payload_label payload @ '' - '' @
          plain_direction direction @ '' - '' @ pki_title pki @ '' - '' @ run_id) decimals [] selected vals widths) path)
        (retm (length vals)))))"

definition transfer_point :: "srow \<Rightarrow> (rat \<times> rat \<times> int \<times> string) option res" where
  "transfer_point r =
     bindr (table_float (dget r ''mean_end_to_end_ms'' [])) (\<lambda>time_ms.
     bindr (table_float (dget r ''mean_transfer_energy_uj'' [])) (\<lambda>energy_uj.
     bindr (py_int (dget r ''payload_bytes'' ''0'')) (\<lambda>payload.
     Inr (case (time_ms, energy_uj) of
         (Some t, Some e) \<Rightarrow> (if 0 < t \<and> 0 < e \<and> 0 < payload
           then Some (t, fdiv e 1000, payload, dget r ''direction'' []) else None)
       | _ \<Rightarrow> None))))"

definition point_groups :: "(rat \<times> rat \<times> int \<times> string) list \<Rightarrow> (string \<times> (rat \<times> rat) list) list" where
  "point_groups points =
     (let payloads = sorted_set (map (\<lambda>(t, e, n, d). n) points) in
      filter (\<lambda>g. snd g \<noteq> []) (map (\<lambda>(payload, direction).
        (payload_label payload @ '' - '' @ plain_direction direction,
         map (\<lambda>(t, e, n, d). (t, e)) (filter (\<lambda>(t, e, n, d). n = payload \<and> d = direction) points)))
        (List.product payloads TABLE_DIRECTIONS)))"

definition plot_transfer_time_energy_scatter ::
  "'w host \<Rightarrow> 'w drawing \<Rightarrow> srow list \<Rightarrow> string \<Rightarrow> string \<Rightarrow> ('w, nat) io" where
  "plot_transfer_time_energy_scatter H draw rows path run_id =
     bindm (liftm (mapr transfer_point rows)) (\<lambda>ps.
     let points = somes ps in
     if points = [] then retm 0
     else seqm (save_figure H draw (Points (''Transfer energy vs end-to-end time - '' @ run_id) (point_groups points)) path)
       (retm (length points)))"

definition extra_bytes :: "int \<Rightarrow> srow \<Rightarrow> rat option res" where
  "extra_bytes payload r =
     bindr (table_float (dget r ''l2cap_tx_bytes'' [])) (\<lambda>tx.
     bindr (table_float (dget r ''l2cap_rx_bytes'' [])) (\<lambda>rx.
     Inr (case (tx, rx) of (Some t, Some x) \<Rightarrow> Some (max 0 (fsub (fadd t x) (float_of_int payload))) | _ \<Rightarrow> None)))"

type_synonym chain_index = "(string \<times> string \<times> int, rat list) dict"

definition add_extra :: "string \<Rightarrow> chain_index \<Rightarrow> srow \<Rightarrow> chain_index res" where
  "add_extra pki d r =
     (if pki_category r \<noteq> pki then Inr d
      else bindr (py_int (dget r ''payload_bytes'' ''0'')) (\<lambda>payload.
        bindr (extra_bytes payload r) (\<lambda>extra.
        case extra of None \<Rightarrow> Inr d
        | Some x \<Rightarrow> if payload \<le> 0 then Inr d
            else bindr (dindex r ''direction'') (\<lambda>direction.
              Inr (dappend (str_or (dget r ''pki_chain_id'' []) (dget r ''case_id'' ''unknown''), direction, payload) x d)))))"

definition chain_matrix :: "chain_index \<Rightarrow> string list \<Rightarrow> (string \<times> int) list \<Rightarrow> rat option list list" where
  "chain_matrix d rows_shown columns = map (\<lambda>chain. map (\<lambda>(direction, payload).
     (let xs = dget d (chain, direction, payload) [] in if xs = [] then None else Some (stat_mean xs))) columns) rows_shown"

text \<open>\<open>nanmean\<close> is numpy's mean of the present cells of a row.\<close>

definition extra_figure :: "(rat option list \<Rightarrow> rat) \<Rightarrow> string \<Rightarrow> chain_index \<Rightarrow> figure" where
  "extra_figure nanmean title d =
     (let chains0 = sorted_set (map (\<lambda>(k, xs). fst k) d);
          payloads = sorted_set (map (\<lambda>((c, t, n), xs). n) d);
          columns = List.product TABLE_DIRECTIONS payloads;
          rows_shown = rev (sort_key (\<lambda>c. (nanmean (hd (chain_matrix d [c] columns)), c)) chains0);
          matrix = chain_matrix d rows_shown columns in
      Heatmap title (map (\<lambda>(direction, payload).
          (if direction = ''server_to_device'' then ''S -> D'' else ''D -> S'') @ [CHR 0x0A] @ payload_label payload) columns)
        rows_shown matrix (map (map (\<lambda>c. cell_note 1 [] c None)) matrix))"

definition plot_extra_bytes_heatmap ::
  "'w host \<Rightarrow> 'w drawing \<Rightarrow> (rat option list \<Rightarrow> rat) \<Rightarrow> srow list \<Rightarrow> string \<Rightarrow> string \<Rightarrow> string \<Rightarrow> ('w, nat) io" where
  "plot_extra_bytes_heatmap H draw nanmean attempts path run_id pki =
     bindm (liftm (foldr_res (add_extra pki) [] attempts)) (\<lambda>d.
     if d = [] then retm 0
     else seqm (save_figure H draw (extra_figure nanmean
         (''L2CAP bytes transferred beyond MQTT payload - '' @ pki_title pki @ '' - '' @ run_id) d) path)
       (retm (length (sorted_set (map (\<lambda>(k, xs). fst k) d)))))"

definition plot_kem_extra_bytes_heatmap ::
  "'w host \<Rightarrow> 'w drawing \<Rightarrow> srow list \<Rightarrow> string \<Rightarrow> string \<Rightarrow> string \<Rightarrow> string \<Rightarrow> int \<Rightarrow> ('w, nat) io" where
  "plot_kem_extra_bytes_heatmap H draw attempts path run_id pki direction payload =
     bindm (liftm (select_transfers pki direction payload attempts)) (\<lambda>selected.
     bindm (liftm (collect_pairs (extra_bytes payload) (\<lambda>_. Inr None) selected)) (\<lambda>(vals, widths).
     if vals = [] then retm 0
     else seqm (save_figure H draw (heat_figure (''Extra L2CAP bytes by KEM and certificate - '' @ payload_label payload @
         '' - '' @ plain_direction direction @ '' - '' @ pki_title pki @ '' - '' @ run_id) 1 [] selected vals []) path)
       (retm (length vals))))"

definition TRANSFER_HEATMAPS :: "(string \<times> string \<times> string \<times> rat \<times> nat \<times> string) list" where
  "TRANSFER_HEATMAPS = [
     (''heatmap_transfer_time_'', ''mean_end_to_end_ms'', ''ci95_end_to_end_ms'', 1, 1, ''Mean end-to-end transfer time (ms)''),
     (''heatmap_transfer_energy_'', ''mean_transfer_energy_uj'', ''ci95_transfer_energy_uj'', 1000, 3,
      ''Mean transfer energy (mJ)'')]"

definition drawn :: "nat \<Rightarrow> nat" where
  "drawn n = (if 0 < n then 1 else 0)"

definition transfer_suffix :: "string \<Rightarrow> string \<Rightarrow> int \<Rightarrow> string" where
  "transfer_suffix pki direction payload = pki @ ''_'' @ direction @ ''_'' @ str_int payload @ ''_bytes''"

definition generate_heatmaps ::
  "'w host \<Rightarrow> 'w disk \<Rightarrow> 'w drawing \<Rightarrow> (rat option list \<Rightarrow> rat) \<Rightarrow> string \<Rightarrow> target \<Rightarrow> ('w, nat \<times> nat \<times> nat) io" where
  "generate_heatmaps H D draw nanmean run_dir T =
     bindm (load_transfer_summary H run_dir) (\<lambda>rows.
     bindm (liftm (mapr row_payload rows)) (\<lambda>sizes.
     let payloads = sorted_set sizes in
     bindm (mapm (\<lambda>(pki, direction, payload, stem, spec).
         plot_transfer_metric_heatmap H draw rows spec (figure_path T (stem @ transfer_suffix pki direction payload))
           (ta_run T) pki direction payload)
       (List.product PKI_KINDS (List.product TABLE_DIRECTIONS (List.product payloads TRANSFER_HEATMAPS)))) (\<lambda>metrics.
     bindm (load_transfer_attempts H D run_dir) (\<lambda>attempts.
     bindm (mapm (\<lambda>pki.
       bindm (plot_extra_bytes_heatmap H draw nanmean attempts
         (figure_path T (''heatmap_transfer_extra_bytes_'' @ pki)) (ta_run T) pki) (\<lambda>n.
       bindm (mapm (\<lambda>(direction, payload).
           plot_kem_extra_bytes_heatmap H draw attempts
             (figure_path T (''heatmap_transfer_extra_bytes_kem_'' @ transfer_suffix pki direction payload))
             (ta_run T) pki direction payload) (List.product TABLE_DIRECTIONS payloads)) (\<lambda>kems.
       retm (drawn n, sum_list (map drawn kems))))) PKI_KINDS) (\<lambda>extras.
     retm (sum_list (map drawn metrics), sum_list (map fst extras), sum_list (map snd extras)))))))"

record table_args =
  tb_run :: string
  tb_output :: "string option"
  tb_heatmap :: bool
  tb_scatter :: bool
  tb_png :: bool

definition transfer_table_main ::
  "('w, 'g) site \<Rightarrow> string \<Rightarrow> 'w drawing \<Rightarrow> (rat option list \<Rightarrow> rat) \<Rightarrow> table_args \<Rightarrow> ('w, int \<times> string list) io" where
  "transfer_table_main S project draw nanmean A =
     (let H = si_host S; D = si_disk S; extension = (if tb_png A then ''png'' else ''pdf'') in
      bindm (table_run_dir S project (tb_run A)) (\<lambda>run_dir.
      bindm (dk_resolve D (case tb_output A of Some p \<Rightarrow> p
        | None \<Rightarrow> path_join (path_join (path_join project ''graphic/out'') (path_name run_dir)) ''transfer_energy_table.tex'')) (\<lambda>path.
      let T = \<lparr>ta_dir = path_parent path, ta_run = path_name run_dir, ta_ext = extension\<rparr>;
          scatter = figure_path T ''scatter_transfer_time_energy'' in
      bindm (generate_table H run_dir path) (\<lambda>(n, missing).
      bindm (if \<not> tb_heatmap A then retm []
        else bindm (generate_heatmaps H D draw nanmean run_dir T) (\<lambda>(metrics, overheads, kems).
          retm [count_line ''transfer_metric_heatmaps'' metrics, count_line ''transfer_overhead_heatmaps'' overheads,
            count_line ''transfer_kem_overhead_heatmaps'' kems, ''heatmap_format='' @ extension])) (\<lambda>map_lines.
      bindm (if \<not> tb_scatter A then retm []
        else bindm (load_transfer_summary H run_dir) (\<lambda>rows.
          bindm (plot_transfer_time_energy_scatter H draw rows scatter (path_name run_dir)) (\<lambda>points.
          retm [count_line ''transfer_scatter_points'' points, ''transfer_scatter='' @ scatter]))) (\<lambda>scatter_lines.
      retm (0, [count_line ''cases'' n, count_line ''missing_energy_cells'' missing, ''output='' @ path] @
        map_lines @ scatter_lines)))))))"

section \<open>The scaling tables\<close>

definition PAYLOADS :: "int list" where
  "PAYLOADS = [128, 1024, 8 * 1024, 16 * 1024, 32 * 1024, 64 * 1024]"

definition PAYLOAD_GROUPS :: "int list \<times> int list" where
  "PAYLOAD_GROUPS = (take 3 PAYLOADS, drop 3 PAYLOADS)"

definition METRICS :: "(string \<times> string \<times> string \<times> rat \<times> nat) list" where
  "METRICS = [
     (''end_to_end_ms'', ''End-to-end time'', ''ms'', 1, 2),
     (''transfer_avg_current_ua'', ''Average current'', ''$'' @ bs @ ''mu$A'', 1, 2),
     (''transfer_energy_uj'', ''Energy'', ''mJ'', 1000, 3),
     (''client_cpu_ms'', ''Active CPU time'', ''ms'', 1, 2),
     (''client_cpu_usage_percent'', ''Average CPU usage'', bs @ ''%'', 1, 2)]"

text \<open>\<open>number\<close> of this program is \<open>float_or_none\<close> of the figures.\<close>

definition fmt_signed :: "nat \<Rightarrow> rat \<Rightarrow> string" where
  "fmt_signed k x = (if x < 0 then [] else ''+'') @ fmt_fixed k x"

definition variation :: "rat option \<Rightarrow> rat option \<Rightarrow> string" where
  "variation previous current = (case (previous, current) of
       (Some p, Some c) \<Rightarrow> (if p = 0 then ''--'' else fmt_signed 1 (fmul (fsub (fdiv c p) 1) 100) @ bs @ ''%'')
     | _ \<Rightarrow> ''--'')"

type_synonym scaling_key = "string \<times> string \<times> int \<times> string"

definition add_metric :: "string \<times> string \<times> int \<Rightarrow> srow \<Rightarrow> (scaling_key, rat list) dict \<Rightarrow> string \<Rightarrow> (scaling_key, rat list) dict res" where
  "add_metric k r d metric = (case k of (pki, direction, payload) \<Rightarrow>
     bindr (float_or_none (map_of r metric)) (\<lambda>v.
     Inr (case v of None \<Rightarrow> d | Some x \<Rightarrow> dappend (pki, direction, payload, metric) x d)))"

definition add_transfer :: "(scaling_key, rat list) dict \<Rightarrow> srow \<Rightarrow> (scaling_key, rat list) dict res" where
  "add_transfer d r =
     (let pki = pki_category r; direction = dget r ''direction'' [] in
      bindr (py_int (dget r ''payload_bytes'' ''0'')) (\<lambda>payload.
      if pki \<notin> set PKI_KINDS \<or> direction \<notin> set TABLE_DIRECTIONS \<or> payload \<notin> set PAYLOADS then Inr d
      else foldr_res (add_metric (pki, direction, payload) r) d (map fst METRICS)))"

definition scaling_means :: "srow list \<Rightarrow> (scaling_key, rat) dict res" where
  "scaling_means rows = bindr (foldr_res add_transfer [] rows) (\<lambda>d. Inr (map (\<lambda>(k, xs). (k, stat_mean xs)) d))"

fun header_cells :: "int option \<Rightarrow> int list \<Rightarrow> string list" where
  "header_cells previous [] = []"
| "header_cells previous (n # ns) =
     [payload_label n, case previous of None \<Rightarrow> []
        | Some p \<Rightarrow> ''$'' @ bs @ ''Delta$ '' @ payload_label p @ ''--'' @ payload_label n] @ header_cells (Some n) ns"

fun metric_cells :: "(int \<Rightarrow> rat option) \<Rightarrow> rat \<Rightarrow> nat \<Rightarrow> rat option \<Rightarrow> int list \<Rightarrow> string list" where
  "metric_cells mean divisor decimals previous [] = []"
| "metric_cells mean divisor decimals previous (n # ns) =
     [case mean n of None \<Rightarrow> ''--'' | Some raw \<Rightarrow> fmt_fixed decimals (fdiv raw divisor),
      case previous of None \<Rightarrow> [] | Some p \<Rightarrow> variation previous (mean n)] @
     metric_cells mean divisor decimals (mean n) ns"

definition table_block ::
  "(scaling_key, rat) dict \<Rightarrow> string \<Rightarrow> string \<Rightarrow> int list \<Rightarrow> int option \<Rightarrow> string list" where
  "table_block means pki direction payloads previous =
     [bs @ ''resizebox{'' @ bs @ ''textwidth}{!}{%'', bs @ ''begin{tabular}{llrrrrrr}'', bs @ ''toprule'',
      join '' & '' ([''Metric'', ''Unit''] @ header_cells previous payloads) @ '' '' @ bs @ bs, bs @ ''midrule''] @
     map (\<lambda>(metric, label, unit_text, divisor, decimals).
       let mean = (\<lambda>n. map_of means (pki, direction, n, metric)) in
       join '' & '' ([label, unit_text] @ metric_cells mean divisor decimals
         (case previous of None \<Rightarrow> None | Some p \<Rightarrow> mean p) payloads) @ '' '' @ bs @ bs) METRICS @
     [bs @ ''bottomrule'', bs @ ''end{tabular}%'', ''}'']"

definition scaling_lines :: "(scaling_key, rat) dict \<Rightarrow> string \<Rightarrow> string \<Rightarrow> string list" where
  "scaling_lines means pki direction =
     [''% Requires '' @ bs @ ''usepackage{booktabs,graphicx}'',
      ''% Values are means across successful powered transfer attempts.'', [],
      bs @ ''paragraph{'' @ pki_title pki @ '', '' @ direction_label direction @ ''.}''] @
     table_block means pki direction (fst PAYLOAD_GROUPS) None @
     [[], bs @ ''par'' @ bs @ ''medskip'', []] @
     table_block means pki direction (snd PAYLOAD_GROUPS) (Some (PAYLOADS ! 2))"

definition generate_scaling :: "'w host \<Rightarrow> 'w disk \<Rightarrow> string \<Rightarrow> string \<Rightarrow> ('w, string list) io" where
  "generate_scaling H D run_dir out_dir =
     bindm (load_transfer_attempts H D run_dir) (\<lambda>attempts.
     bindm (liftm (scaling_means attempts)) (\<lambda>means.
     bindm (h_mkdir H out_dir) (\<lambda>_.
     mapm (\<lambda>(pki, direction).
       let path = path_join out_dir (''transfer_scaling_'' @ pki @ ''_'' @ direction @ ''.tex'') in
       seqm (write_ascii H path (text_of_lines (scaling_lines means pki direction))) (retm path))
       (List.product PKI_KINDS TABLE_DIRECTIONS))))"

definition scaling_main :: "('w, 'g) site \<Rightarrow> string \<Rightarrow> string \<Rightarrow> string option \<Rightarrow> ('w, int \<times> string list) io" where
  "scaling_main S project val out_arg =
     bindm (table_run_dir S project val) (\<lambda>run_dir.
     bindm (dk_resolve (si_disk S) (case out_arg of Some d \<Rightarrow> d
       | None \<Rightarrow> path_join (path_join project ''graphic/out'') (path_name run_dir))) (\<lambda>out_dir.
     bindm (generate_scaling (si_host S) (si_disk S) run_dir out_dir) (\<lambda>paths.
     retm (0, count_line ''tables'' (length paths) # map (\<lambda>p. ''output='' @ p) paths))))"

end
