(* ===== verification/Table_Facts.thy ===== *)
theory Table_Facts
  imports Transfer_Tables
begin

text \<open>
  Properties of the LaTeX tables: the labels of cases stay apart, and the energy table has a cell
  for every case, direction and payload size, filled from the last row of the summary for it.
\<close>

section \<open>Escaping\<close>

lemma payload_label_examples:
  "payload_label 128 = ''128 B''" "payload_label 65536 = ''64 KiB''" "payload_label 1536 = ''1.5 KiB''"
  "payload_label 1025 = ''1.00098 KiB''" "payload_label 1073741824 = ''1.04858e+06 KiB''"
  by code_simp+

text \<open>The images of characters form a prefix code.\<close>

lemma latex_char_ne: "latex_char c \<noteq> []"
  by (simp add: latex_char_def bs_def)

lemma latex_char_plain: "latex_char c = [c] \<and> c \<noteq> CHR 0x5C \<or> (\<exists>t. latex_char c = CHR 0x5C # t \<and> t \<noteq> [])"
  by (auto simp: latex_char_def bs_def)

lemma latex_char_prefix:
  assumes "latex_char c @ s = latex_char d @ t"
  shows "c = d \<and> s = t"
proof -
  have sp: "c \<in> {CHR 0x5C, CHR ''&'', CHR ''%'', CHR ''$'', CHR ''#'', CHR ''{'', CHR ''}'', CHR ''_'', CHR ''~'', CHR ''^''}
      \<or> latex_char c = [c] \<and> c \<noteq> CHR 0x5C" for c
    by (auto simp: latex_char_def)
  show ?thesis
    using assms sp [of c] sp [of d] by (elim disjE insertE emptyE) (simp_all add: latex_char_def bs_def, auto)
qed

text \<open>
  Escaping for LaTeX keeps labels apart: two names with the same escaped text are the same name.
\<close>

theorem latex_escape_injective: "latex_escape s = latex_escape t \<longleftrightarrow> s = t"
proof
  assume "latex_escape s = latex_escape t"
  then show "s = t"
  proof (induction s arbitrary: t)
    case Nil
    then show ?case using latex_char_ne by (cases t) (auto simp: latex_escape_def)
  next
    case (Cons c s)
    show ?case
    proof (cases t)
      case Nil
      with Cons.prems show ?thesis using latex_char_ne by (auto simp: latex_escape_def)
    next
      case (Cons d u)
      with Cons.prems have "latex_char c @ latex_escape s = latex_char d @ latex_escape u"
        by (simp add: latex_escape_def)
      with latex_char_prefix have "c = d" "latex_escape s = latex_escape u" by blast+
      with Cons.IH Cons show ?thesis by simp
    qed
  qed
qed simp

section \<open>The energy table\<close>

text \<open>The reference: the last row of the summary for a case, a direction and a payload size.\<close>

definition row_for :: "srow list \<Rightarrow> string \<Rightarrow> string \<Rightarrow> int \<Rightarrow> srow option" where
  "row_for rows case_id direction n = find (\<lambda>r. index_key r = Inr ((case_id, direction, n), r)) (rev rows)"

lemma index_key_row: "index_key r = Inr (k, q) \<Longrightarrow> q = r"
  by (auto simp: index_key_def bindr_eq_Inr)

lemma map_of_index:
  assumes "mapr index_key rows = Inr keys"
  shows "map_of (dict_of keys) (c, d, n) = row_for rows c d n"
proof -
  have "map_of (rev keys) (c, d, n) = find (\<lambda>r. index_key r = Inr ((c, d, n), r)) (rev rows)"
  proof -
    have "list_all2 (\<lambda>r k. index_key r = Inr k) (rev rows) (rev keys)"
      using assms by (simp add: mapr_Inr_iff)
    then show ?thesis
    proof (induction rule: list_all2_induct)
      case (Cons r rs k ks)
      obtain key q where k: "k = (key, q)" by (cases k)
      have "q = r" using Cons.hyps(1) index_key_row by (simp add: k)
      with Cons k show ?case by auto
    qed simp
  qed
  then show ?thesis by (simp add: dict_of_def map_of_dupdate row_for_def split: option.splits)
qed

lemma product_filter_count:
  "length (filter P (List.product xs ys)) = sum_list (map (\<lambda>x. length (filter (\<lambda>y. P (x, y)) ys)) xs)"
  by (induction xs) (simp_all add: filter_map o_def)

lemma sum_list_product:
  "sum_list (map f (List.product xs ys)) = sum_list (map (\<lambda>x. sum_list (map (\<lambda>y. f (x, y)) ys)) xs)"
  by (induction xs) (simp_all add: o_def)

lemma missing_of_cells:
  "mapr f ns = Inr cells \<Longrightarrow> missing_cells cells = length (filter (\<lambda>n. f n = Inr ''--'') ns)"
  by (induction ns arbitrary: cells) (auto simp: bindr_eq_Inr missing_cells_def)

lemma image_of_mapr:
  fixes ys :: "('a :: linorder) list"
  assumes "mapr f rows = Inr ys"
  shows "Inr ` set (sorted_set ys) = f ` set rows" "sorted (sorted_set ys)" "distinct (sorted_set ys)"
proof -
  have "map f rows = map Inr ys"
    using assms by (auto simp: mapr_Inr_iff list_all2_conv_all_nth intro: nth_equalityI)
  then show "Inr ` set (sorted_set ys) = f ` set rows" by (simp add: sorted_set_def) (metis set_map)
qed (simp_all add: sorted_set_def)

lemma list_all2_elem:
  assumes "list_all2 P xs ys" "x \<in> set xs"
  shows "\<exists>y\<in>set ys. P x y"
  using assms by (induction rule: list_all2_induct) auto

text \<open>The lines of the body, one for each case and direction, with the number of their missing cells.\<close>

lemma table_body_lines:
  assumes "table_body index payloads cids = Inr body"
    and "\<And>c d n. map_of index (c, d, n) = row_for rows c d n"
  shows "list_all2 (\<lambda>(c, d) st. \<exists>cells. mapr (\<lambda>m. energy_cell (row_for rows c (snd d) m)) payloads = Inr cells \<and>
      st = (body_line d c cells, missing_cells cells))
    (List.product cids [(0, ''server_to_device''), (1, ''device_to_server'')]) body"
proof -
  have D: "enumerate 0 TABLE_DIRECTIONS = [(0, ''server_to_device''), (1, ''device_to_server'')]"
    by (simp add: TABLE_DIRECTIONS_def)
  have cells: "row_cells index payloads c d = mapr (\<lambda>m. energy_cell (row_for rows c d m)) payloads" for c d
    by (simp add: row_cells_def assms(2))
  show ?thesis
    using assms(1) unfolding table_body_def mapr_Inr_iff D
    by (rule list_all2_mono) (auto simp: bindr_eq_Inr cells mapr_Inr_iff)
qed

lemma table_lines_missing:
  "list_all2 (\<lambda>(c, d) st. \<exists>cells. mapr (\<lambda>m. energy_cell (row_for rows c (snd d) m)) payloads = Inr cells \<and>
      st = (body_line d c cells, missing_cells cells)) jobs body \<Longrightarrow>
    map snd body = map (\<lambda>(c, d). length (filter (\<lambda>m. energy_cell (row_for rows c (snd d) m) = Inr ''--'') payloads)) jobs"
  by (induction rule: list_all2_induct) (auto simp: missing_of_cells)

lemma table_jobs_missing:
  "sum_list (map (\<lambda>(c, d). length (filter (\<lambda>m. energy_cell (row_for rows c (snd d) m) = Inr ''--'') payloads))
      (List.product cids [(0, ''server_to_device''), (1, ''device_to_server'')])) =
    length (filter (\<lambda>(c, d, m). energy_cell (row_for rows c d m) = Inr ''--'')
      (List.product cids (List.product TABLE_DIRECTIONS payloads)))"
  by (simp add: TABLE_DIRECTIONS_def product_filter_count split_beta sum_list_product o_def)

text \<open>
  C24: The energy table has one line for each case and direction, with one cell for each payload
  size, which is the cell of the last summary row for them, or \<open>--\<close> without such a row; the number
  of missing cells that is reported is the number of such cells without an energy.
\<close>

theorem energy_table_complete:
  assumes "energy_table rows = Inr (ls, n, missing)"
  shows "\<exists>payloads cids body. ls = table_head payloads @ body @ [bs @ ''end{longtable}'', ''}''] \<and>
    sorted payloads \<and> distinct payloads \<and> Inr ` set payloads = row_payload ` set rows \<and>
    sorted cids \<and> distinct cids \<and> Inr ` set cids = (\<lambda>r. dindex r ''case_id'') ` set rows \<and> n = length cids \<and>
    length body = 2 * n \<and>
    (\<forall>c\<in>set cids. \<forall>d\<in>{(0, ''server_to_device''), (1, ''device_to_server'')}. \<exists>cells. body_line d c cells \<in> set body \<and>
       list_all2 (\<lambda>m cell. energy_cell (row_for rows c (snd d) m) = Inr cell) payloads cells) \<and>
    missing = length (filter (\<lambda>(c, d, m). energy_cell (row_for rows c d m) = Inr ''--'')
      (List.product cids (List.product TABLE_DIRECTIONS payloads)))"
proof -
  obtain sizes ids keys body where r: "mapr row_payload rows = Inr sizes" "mapr (\<lambda>r. dindex r ''case_id'') rows = Inr ids"
      "mapr index_key rows = Inr keys" "table_body (dict_of keys) (sorted_set sizes) (sorted_set ids) = Inr body"
    and ls: "ls = table_head (sorted_set sizes) @ map fst body @ [bs @ ''end{longtable}'', ''}'']"
      "n = length (sorted_set ids)" "missing = sum_list (map snd body)"
    using assms unfolding energy_table_def Let_def by (auto simp: bindr_eq_Inr)
  note two = table_body_lines [OF r(4) map_of_index [OF r(3)]]
  have len: "length (map fst body) = 2 * n"
    using list_all2_lengthD [OF two] by (simp add: ls(2))
  have each: "\<exists>cells. body_line d c cells \<in> set (map fst body) \<and>
      list_all2 (\<lambda>m cell. energy_cell (row_for rows c (snd d) m) = Inr cell) (sorted_set sizes) cells"
    if "c \<in> set (sorted_set ids)" "d \<in> {(0, ''server_to_device''), (1, ''device_to_server'')}" for c d
    using list_all2_elem [OF two, of "(c, d)"] that unfolding mapr_Inr_iff by force
  show ?thesis
    by (rule exI [of _ "sorted_set sizes"], rule exI [of _ "sorted_set ids"], rule exI [of _ "map fst body"], intro conjI ballI)
      (simp_all only: ls len each image_of_mapr [OF r(1)] image_of_mapr [OF r(2)] table_lines_missing [OF two] table_jobs_missing)
qed

lemma energy_table_complete_witness:
  "\<exists>ls. energy_table [[(''case_id'', ''c''), (''direction'', ''server_to_device''), (''payload_bytes'', ''128''),
      (''mean_transfer_energy_uj'', ''1500'')]] = Inr (ls, 1, 1) \<and>
    (\<exists>payloads cids body. ls = table_head payloads @ body @ [bs @ ''end{longtable}'', ''}''] \<and> length body = 2 * 1)"
proof -
  let ?rows = "[[(''case_id'', ''c''), (''direction'', ''server_to_device''), (''payload_bytes'', ''128''),
      (''mean_transfer_energy_uj'', ''1500'')]]"
  have "case energy_table ?rows of Inl _ \<Rightarrow> False | Inr (ls, n, missing) \<Rightarrow> n = 1 \<and> missing = 1" by code_simp
  then obtain ls where e: "energy_table ?rows = Inr (ls, 1, 1)"
    by (cases "energy_table ?rows") (auto split: prod.splits)
  obtain payloads cids body where "ls = table_head payloads @ body @ [bs @ ''end{longtable}'', ''}'']" "length body = 2 * 1"
    using energy_table_complete [OF e] by (elim exE conjE) (rule that)
  with e show ?thesis by blast
qed

end
