(* ===== verification/Run_Figures.thy ===== *)
theory Run_Figures
  imports Transfer_Tables
begin

text \<open>
  Two smaller figure programs: \<open>graphic/plot_benchmark_comparison_heatmaps.py\<close> shows the
  differences of two runs, \<open>graphic/plot_battery_lifetime.py\<close> estimates the lifetime of a battery
  from the energy of a handshake and of transfers.
\<close>

section \<open>Comparing two runs\<close>

definition COMPARED_METRICS :: "(string \<times> string \<times> string \<times> nat) list" where
  "COMPARED_METRICS = [
     (''mean_handshake_ms'', ''TLS handshake time difference'', ''tls_handshake_difference'', 0),
     (''max_client_heap_peak_bytes'', ''Peak wolfSSL heap allocation difference'', ''heap_peak_allocation_difference'', 0),
     (''mean_system_cpu_usage_percent'', ''Average system CPU usage difference'', ''cpu_average_usage_difference'', 1),
     (''mean_communication_overhead_ms'', ''Communication overhead difference'', ''communication_overhead_difference'', 0),
     (''mean_client_signature_total_ms'', ''Client signature time difference'', ''client_signature_time_difference'', 0)]"

definition rows_by_pair :: "srow list \<Rightarrow> (string \<times> string, srow) dict" where
  "rows_by_pair rows = dict_of (map (\<lambda>r. ((dget r ''kex_group'' [], pki_signature_label r), r))
     (filter (\<lambda>r. dget r ''kex_group'' [] \<noteq> [] \<and> dget r ''cert_sig_alg'' [] \<noteq> []) rows))"

definition metric_difference :: "string \<Rightarrow> srow \<Rightarrow> srow \<Rightarrow> rat option res" where
  "metric_difference metric first second =
     bindr (float_or_none (map_of first metric)) (\<lambda>a.
     bindr (float_or_none (map_of second metric)) (\<lambda>b.
     Inr (case (a, b) of (Some x, Some y) \<Rightarrow> Some (fsub x y) | _ \<Rightarrow> None)))"

definition shared_pairs :: "(string \<times> string, srow) dict \<Rightarrow> (string \<times> string, srow) dict \<Rightarrow> (string \<times> string) list" where
  "shared_pairs first second = sort (filter (\<lambda>k. dhas second k) (map fst first))"

text \<open>The differences and the row of the first run of every pair with one.\<close>

definition metric_differences ::
  "srow list \<Rightarrow> srow list \<Rightarrow> string \<Rightarrow> ((string \<times> string) \<times> rat \<times> srow) list res" where
  "metric_differences first_rows second_rows metric =
     (let first = rows_by_pair first_rows; second = rows_by_pair second_rows in
      bindr (mapr (\<lambda>k. bindr (metric_difference metric (dget first k []) (dget second k [])) (\<lambda>d.
        Inr (map_option (\<lambda>x. (k, x, dget first k [])) d))) (shared_pairs first second)) (\<lambda>ds.
      Inr (somes ds)))"

definition difference_figure :: "string \<Rightarrow> nat \<Rightarrow> ((string \<times> string) \<times> rat \<times> srow) list \<Rightarrow> figure" where
  "difference_figure title decimals ds =
     (let vals = map (\<lambda>(k, x, r). (k, [x])) ds;
          (kems, sigs) = heatmap_axes_by_descending_mean vals;
          kem_levels = dict_of (map (\<lambda>(k, x, r). (fst k, kem_security_level r)) ds);
          sig_levels = dict_of (map (\<lambda>(k, x, r). (pki_signature_label r, signature_security_level r)) ds);
          cell = (\<lambda>s k. case map_of vals (k, s) of Some (x # xs) \<Rightarrow> Some x | _ \<Rightarrow> None) in
      Heatmap title (map (\<lambda>k. algorithm_label k (dget kem_levels k None)) kems)
        (map (\<lambda>s. algorithm_label s (dget sig_levels s None)) sigs)
        (map (\<lambda>s. map (cell s) kems) sigs)
        (map (\<lambda>s. map (\<lambda>k. case cell s k of None \<Rightarrow> [] | Some x \<Rightarrow> fmt_signed decimals x) kems) sigs))"

definition plot_difference_heatmap ::
  "'w host \<Rightarrow> 'w drawing \<Rightarrow> srow list \<Rightarrow> srow list \<Rightarrow> string \<Rightarrow> string \<Rightarrow> nat \<Rightarrow> string \<Rightarrow> ('w, nat) io" where
  "plot_difference_heatmap H draw first_rows second_rows metric title decimals path =
     bindm (liftm (metric_differences first_rows second_rows metric)) (\<lambda>ds.
     if ds = [] then retm 0
     else seqm (save_figure H draw (difference_figure title decimals ds) path) (retm (length ds)))"

definition no_rows :: "string \<Rightarrow> pyexc" where
  "no_rows run_dir = SystemExit (''No successful benchmark rows found in '' @ run_dir)"

definition compare_kind ::
  "'w host \<Rightarrow> 'w drawing \<Rightarrow> target \<Rightarrow> string \<Rightarrow> srow list \<Rightarrow> srow list \<Rightarrow> string \<Rightarrow> ('w, string list) io" where
  "compare_kind H draw T names first_rows second_rows pki =
     (let a = of_pki pki first_rows; b = of_pki pki second_rows in
      if a = [] \<or> b = [] then retm [''warning: no shared '' @ pki @ '' PKI rows to compare'']
      else mapm (\<lambda>(metric, title, stem, decimals).
        bindm (plot_difference_heatmap H draw a b metric
          (title @ '' - '' @ pki_title pki @ [CHR 0x0A] @ names) decimals (figure_path T (stem @ ''_'' @ pki))) (\<lambda>n.
        retm (pki @ ''_'' @ metric @ ''_shared_cells='' @ str_nat n))) COMPARED_METRICS)"

definition comparison_main ::
  "('w, 'g) site \<Rightarrow> string \<Rightarrow> 'w drawing \<Rightarrow> string \<Rightarrow> string \<Rightarrow> string option \<Rightarrow> bool \<Rightarrow> ('w, int \<times> string list) io" where
  "comparison_main S project draw input_1 input_2 out_arg png =
     (let H = si_host S; D = si_disk S in
      bindm (resolve_run_dir S project input_1) (\<lambda>first_dir.
      bindm (resolve_run_dir S project input_2) (\<lambda>second_dir.
      bindm (load_rows H D first_dir) (\<lambda>first_rows.
      bindm (load_rows H D second_dir) (\<lambda>second_rows.
      if first_rows = [] then raisem (no_rows first_dir)
      else if second_rows = [] then raisem (no_rows second_dir)
      else let extension = (if png then ''png'' else ''pdf'');
               out_dir = (case out_arg of Some d \<Rightarrow> d | None \<Rightarrow> path_join (path_join project ''graphic/out'')
                 (''comparison_'' @ path_name first_dir @ ''_vs_'' @ path_name second_dir));
               T = \<lparr>ta_dir = out_dir, ta_run = [], ta_ext = extension\<rparr>;
               names = path_name first_dir @ '' minus '' @ path_name second_dir in
        bindm (mapm (compare_kind H draw T names first_rows second_rows) PKI_KINDS) (\<lambda>ls.
        retm (0, concat ls @ [''input_1='' @ first_dir, ''input_2='' @ second_dir, ''output='' @ out_dir,
          ''format='' @ extension])))))))"

section \<open>Battery lifetime\<close>

definition BATTERY_VOLTAGE_V :: rat where
  "BATTERY_VOLTAGE_V = round64 (36 / 10)"

definition BATTERY_CAPACITY_AH :: rat where
  "BATTERY_CAPACITY_AH = round64 (12 / 10)"

definition BATTERY_USABLE_FRACTION :: rat where
  "BATTERY_USABLE_FRACTION = round64 (70 / 100)"

definition SLEEP_CURRENT_UA :: rat where
  "SLEEP_CURRENT_UA = 25 / 10"

definition TRANSFERS_PER_COMMUNICATION :: rat where
  "TRANSFERS_PER_COMMUNICATION = 100"

definition SECONDS_PER_DAY :: rat where
  "SECONDS_PER_DAY = 86400"

definition DAYS_PER_YEAR :: rat where
  "DAYS_PER_YEAR = 36525 / 100"

text \<open>Case identifier and label of the selected cases.\<close>

definition CASES :: "(string \<times> string) list" where
  "CASES = [
     (''mlkem1024__homogeneous_lms_hss_l2_h10_w4'', ''Fastest NIST L5 PQC: LMS-HSS / MLKEM1024''),
     (''mlkem512__homogeneous_slh_dsa_shake_128s'', ''Fastest hash-based PQC transition: SLH-DSA-SHAKE-128s / MLKEM512''),
     (''mlkem512__root_slh_dsa_shake_128s__leaf_ml_dsa_44'',
      ''Fastest heterogeneous hash-based transition: SLH-DSA-SHAKE-128s -> ML-DSA-44 / MLKEM512''),
     (''secp384r1mlkem1024__homogeneous_slh_dsa_shake_256f'', ''Board stress: SLH-DSA-SHAKE-256f / SecP384r1MLKEM1024''),
     (''mlkem1024__homogeneous_ml_dsa_87'', ''High-security lattice PQC: ML-DSA-87 / MLKEM1024''),
     (''ecdhe_p_256__homogeneous_ecdsa_p_256'', ''Fastest overall: ECDSA-P-256 / ECDHE-P-256'')]"

definition battery_rows :: "'w host \<Rightarrow> string \<Rightarrow> ('w, srow list) io" where
  "battery_rows H path = bindm (h_exists H path) (\<lambda>present.
     if \<not> present then raisem (FileNotFoundError path) else read_table H path)"

type_synonym by_direction = "(string \<times> int, (string, rat) dict) dict"

definition add_energy :: "by_direction \<Rightarrow> srow \<Rightarrow> by_direction res" where
  "add_energy d r = (let v = dget r ''mean_transfer_energy_uj'' [] in
     if v = [] then Inr d
     else bindr (dindex r ''case_id'') (\<lambda>cid.
       bindr (bindr (dindex r ''payload_bytes'') py_int) (\<lambda>n.
       bindr (py_float v) (\<lambda>x.
       bindr (dindex r ''direction'') (\<lambda>direction.
       Inr (dset (cid, n) (dset direction x (dget d (cid, n) [])) d))))))"

definition energy_of_directions :: "string \<Rightarrow> (string, rat) dict \<Rightarrow> rat option" where
  "energy_of_directions direction by_dir =
     (if direction = ''balanced''
      then case (map_of by_dir ''server_to_device'', map_of by_dir ''device_to_server'') of
          (Some a, Some b) \<Rightarrow> Some (fdiv (py_sum [a, b]) 2) | _ \<Rightarrow> None
      else map_of by_dir direction)"

definition transfer_energy_by_case :: "srow list \<Rightarrow> string \<Rightarrow> (string \<times> int, rat) dict res" where
  "transfer_energy_by_case rows direction =
     bindr (foldr_res add_energy [] rows) (\<lambda>grouped.
     Inr (somes (map (\<lambda>(k, by_dir). map_option (\<lambda>x. (k, x)) (energy_of_directions direction by_dir)) grouped)))"

definition battery_energy_j :: rat where
  "battery_energy_j = fmul (fmul (fmul BATTERY_VOLTAGE_V BATTERY_CAPACITY_AH) 3600) BATTERY_USABLE_FRACTION"

definition sleep_energy_per_day_j :: rat where
  "sleep_energy_per_day_j = fmul (fdiv (fmul BATTERY_VOLTAGE_V SLEEP_CURRENT_UA) 1000000) SECONDS_PER_DAY"

definition battery_lifetime_years :: "rat \<Rightarrow> rat \<Rightarrow> rat" where
  "battery_lifetime_years communications_per_day event_energy_uj =
     (let event_energy_j = fdiv event_energy_uj 1000000;
          daily_energy_j = fadd sleep_energy_per_day_j (fmul communications_per_day event_energy_j) in
      fdiv (fdiv battery_energy_j daily_energy_j) DAYS_PER_YEAR)"

definition event_energy :: "rat \<Rightarrow> rat \<Rightarrow> rat" where
  "event_energy handshake transfer = fadd handshake (fmul TRANSFERS_PER_COMMUNICATION transfer)"

definition lifetime_curve ::
  "(string, rat) dict \<Rightarrow> (string \<times> int, rat) dict \<Rightarrow> rat list \<Rightarrow> int \<Rightarrow> string \<times> string \<Rightarrow> (string \<times> (rat \<times> rat) list) option" where
  "lifetime_curve handshakes transfers communications payload selected = (case selected of (cid, label) \<Rightarrow>
     (case (map_of handshakes cid, map_of transfers (cid, payload)) of
        (Some h, Some t) \<Rightarrow> Some (label, map (\<lambda>c. (c, battery_lifetime_years c (event_energy h t))) communications)
      | _ \<Rightarrow> None))"

definition payload_text :: "int \<Rightarrow> string" where
  "payload_text n = (if n < 1024 then str_int n @ '' B'' else str_int (n div 1024) @ '' KiB'')"

text \<open>The micro sign of the legend is left out with the legend.\<close>

definition plot_payload ::
  "'w drawing \<Rightarrow> (string, rat) dict \<Rightarrow> (string \<times> int, rat) dict \<Rightarrow> rat list \<Rightarrow> string \<Rightarrow> int \<Rightarrow> string \<Rightarrow> ('w, nat) io" where
  "plot_payload draw handshakes transfers communications source_label payload path =
     (let curves = somes (map (lifetime_curve handshakes transfers communications payload) CASES) in
      if curves = [] then retm 0
      else seqm (draw (Points (''Idealized 1/2 AA Li-SOCl2 battery lifetime - '' @ payload_text payload @ [CHR 0x0A] @
          ''70% usable capacity; '' @ source_label) curves) path) (retm (length curves)))"

definition handshake_energies :: "srow list \<Rightarrow> (string, rat) dict res" where
  "handshake_energies rows =
     bindr (mapr (\<lambda>r. bindr (py_float (dget r ''mean_handshake_energy_uj'' [])) (\<lambda>x. Inr (dget r ''case_id'' [], x)))
       (filter (\<lambda>r. dget r ''case_id'' [] \<noteq> [] \<and> dget r ''mean_handshake_energy_uj'' [] \<noteq> []) rows)) (\<lambda>xs.
     Inr (dict_of xs))"

record battery_args =
  ba_handshake_run :: string
  ba_transfer_run :: string
  ba_out_dir :: "string option"
  ba_direction :: string
  ba_min :: rat
  ba_max :: rat
  ba_png :: bool

text \<open>\<open>geomspace\<close> is the function of numpy; a usage error of argparse exits with code 2.\<close>

definition battery_main ::
  "('w, 'g) site \<Rightarrow> string \<Rightarrow> 'w drawing \<Rightarrow> (rat \<Rightarrow> rat \<Rightarrow> nat \<Rightarrow> rat list) \<Rightarrow> battery_args \<Rightarrow> ('w, int \<times> string list) io" where
  "battery_main S project draw geomspace A =
     (let H = si_host S in
      if ba_min A \<le> 0 \<or> ba_max A \<le> ba_min A
      then raisem (SystemExit ''communication range must satisfy 0 < min-per-day < max-per-day'')
      else bindm (table_run_dir S project (ba_handshake_run A)) (\<lambda>handshake_run.
      bindm (table_run_dir S project (ba_transfer_run A)) (\<lambda>transfer_run.
      bindm (h_exists H (path_join handshake_run ''handshake_summary.csv'')) (\<lambda>present.
      bindm (battery_rows H (path_join handshake_run (if present then ''handshake_summary.csv'' else ''summary.csv''))) (\<lambda>rows1.
      bindm (liftm (handshake_energies rows1)) (\<lambda>handshakes.
      bindm (battery_rows H (path_join transfer_run ''transfer_summary.csv'')) (\<lambda>rows2.
      bindm (liftm (transfer_energy_by_case rows2 (ba_direction A))) (\<lambda>transfers.
      bindm (dk_resolve (si_disk S) (case ba_out_dir A of Some d \<Rightarrow> d | None \<Rightarrow>
        path_join (path_join project ''graphic/out'')
          (''battery_lifetime_'' @ path_name handshake_run @ ''_'' @ path_name transfer_run))) (\<lambda>out_dir.
      bindm (h_mkdir H out_dir) (\<lambda>_.
      let T = \<lparr>ta_dir = out_dir, ta_run = [], ta_ext = (if ba_png A then ''png'' else ''pdf'')\<rparr> in
      bindm (mapm (\<lambda>payload.
        let path = figure_path T (''battery_lifetime_'' @ str_int payload @ ''_bytes'') in
        bindm (plot_payload draw handshakes transfers (geomspace (ba_min A) (ba_max A) 600)
          (''handshake='' @ path_name handshake_run @ '', transfer='' @ path_name transfer_run) payload path) (\<lambda>n.
        retm (drawn n, ''output='' @ path))) PAYLOADS) (\<lambda>plots.
      retm (0, map snd plots @ [count_line ''plots'' (sum_list (map fst plots))]))))))))))))"

end
