(* ===== verification/Energy_Figures.thy ===== *)
theory Energy_Figures
  imports Transfer_Tables
begin

text \<open>
  \<open>graphic/plot_energy_bars.py\<close>: the energy of a handshake by case.  It shares the labels, the
  classes and the heat-map axes of \<open>plot_tls_handshake_bars.py\<close>, but has its own loader, which
  also derives confidence intervals and energy-delay products from the attempt tables, and its
  own \<open>algorithm_label\<close>, which hides the one it imports.  The plot of a single power trace shows
  the part of the trace in which the pin of the whole execution is set.
\<close>

section \<open>Rows\<close>

definition energy_number :: "srow \<Rightarrow> string \<Rightarrow> rat option res" where
  "energy_number r fld = float_or_none (Some (dget r fld []))"

definition nist_level :: "srow \<Rightarrow> string \<Rightarrow> string" where
  "nist_level r fld = (case py_int (dget r fld []) of Inl _ \<Rightarrow> ''?''
     | Inr n \<Rightarrow> if n \<le> 2 then ''1'' else if n \<le> 3 then ''3'' else ''5'')"

definition bracket_label :: "string \<Rightarrow> string \<Rightarrow> string" where
  "bracket_label name level = ''['' @ level @ ''] - '' @ name"

definition confidence_half_width :: "rat list \<Rightarrow> rat option" where
  "confidence_half_width xs = (let n = length xs in
     if n < 2 then None
     else let critical = (if n - 1 < length T_CRITICAL_95 then T_CRITICAL_95 ! (n - 1) else round64 (196 / 100)) in
       Some (fdiv (fmul critical (stat_stdev xs)) (fsqrt (of_nat n))))"

definition ENERGY_FIELDS :: "string list" where
  "ENERGY_FIELDS = [''handshake_energy_uj'', ''client_kem_energy_uj'', ''client_signature_energy_uj'']"

definition energy_values :: "srow list \<Rightarrow> string \<Rightarrow> rat list res" where
  "energy_values rows fld = bindr (mapr (\<lambda>r. energy_number r fld) (filter measured_success rows)) (\<lambda>xs. Inr (somes xs))"

definition set_interval :: "nat \<Rightarrow> string \<Rightarrow> rat list \<Rightarrow> srow \<Rightarrow> srow" where
  "set_interval decimals column xs target = (case confidence_half_width xs of None \<Rightarrow> target
     | Some ci \<Rightarrow> dset column (fmt_fixed decimals ci) target)"

definition edp_value :: "srow \<Rightarrow> rat option res" where
  "edp_value r =
     bindr (energy_number r ''handshake_energy_uj'') (\<lambda>energy.
     bindr (energy_number r ''handshake_duration_ms'') (\<lambda>duration.
     Inr (case (energy, duration) of
         (Some e, Some d) \<Rightarrow> (if 0 < e \<and> 0 < d then Some (fmul (fdiv e 1000) (fdiv d 1000)) else None)
       | _ \<Rightarrow> None)))"

definition interval_cells :: "srow list \<Rightarrow> srow \<Rightarrow> srow res" where
  "interval_cells attempts target =
     bindr (foldr_res (\<lambda>t fld. bindr (energy_values attempts fld) (\<lambda>xs. Inr (set_interval 6 (''ci_'' @ fld) xs t)))
       target ENERGY_FIELDS) (\<lambda>t1.
     bindr (mapr edp_value (filter measured_success attempts)) (\<lambda>vs.
     let edps = somes vs in
     Inr (if edps = [] then t1
       else set_interval 9 ''ci_handshake_edp_mj_s'' edps
         (dset ''mean_handshake_edp_mj_s'' (fmt_fixed 9 (stat_mean edps)) t1))))"

definition add_energy_confidence_intervals ::
  "'w host \<Rightarrow> 'w disk \<Rightarrow> srow list \<Rightarrow> string \<Rightarrow> ('w, srow list) io" where
  "add_energy_confidence_intervals H D rows0 run_dir =
     (let index = rows_by_case rows0 in
      bindm (case_tables D run_dir ''attempts.csv'') (\<lambda>paths.
      foldm (\<lambda>rows path. case map_of index (case_of_path path) of None \<Rightarrow> retm rows
        | Some i \<Rightarrow> bindm (read_table H path) (\<lambda>attempts.
            bindm (liftm (interval_cells attempts (rows ! i))) (\<lambda>r. retm (rows[i := r])))) rows0 paths))"

definition powered_row :: "srow \<Rightarrow> bool res" where
  "powered_row r = (if dget r ''success_count'' ''0'' \<in> {[], ''0''} then Inr False
     else bindr (energy_number r ''mean_handshake_energy_uj'') (\<lambda>v. Inr (v \<noteq> None)))"

definition ENERGY_MEANS :: "(string \<times> string) list" where
  "ENERGY_MEANS = [(''mean_handshake_energy_uj'', ''handshake_energy_uj''),
     (''mean_handshake_duration_ms'', ''handshake_duration_ms''),
     (''mean_client_kem_energy_uj'', ''client_kem_energy_uj''),
     (''mean_client_signature_energy_uj'', ''client_signature_energy_uj'')]"

definition energy_row :: "string \<Rightarrow> srow list \<Rightarrow> srow res" where
  "energy_row case_id attempts =
     bindr (foldr_res (\<lambda>r (column, fld).
         bindr (mapr (\<lambda>a. energy_number a fld) attempts) (\<lambda>xs.
         let vals = somes xs in
         Inr (dset column (if vals = [] then [] else fmt_fixed 6 (stat_mean vals)) r)))
       (dset ''case_id'' case_id (hd attempts)) ENERGY_MEANS) (\<lambda>r.
     Inr (dset ''success_count'' (str_nat (length attempts)) r))"

definition load_energy_attempts :: "'w host \<Rightarrow> 'w disk \<Rightarrow> string \<Rightarrow> ('w, srow list) io" where
  "load_energy_attempts H D run_dir =
     bindm (case_tables D run_dir ''attempts.csv'') (\<lambda>paths.
     foldm (\<lambda>rows path. bindm (read_table H path) (\<lambda>table.
       let attempts = filter measured_success table in
       if attempts = [] then retm rows
       else bindm (liftm (energy_row (case_of_path path) attempts)) (\<lambda>r.
         bindm (add_energy_confidence_intervals H D [r] run_dir) (\<lambda>rs. retm (rows @ rs))))) [] paths)"

definition load_energy_rows :: "'w host \<Rightarrow> 'w disk \<Rightarrow> string \<Rightarrow> ('w, srow list) io" where
  "load_energy_rows H D run_dir = (let summary = path_join run_dir ''summary.csv'' in
     bindm (h_exists H summary) (\<lambda>present.
     if present then bindm (read_table H summary) (\<lambda>rows.
       bindm (liftm (filterr powered_row rows)) (\<lambda>kept.
       add_energy_confidence_intervals H D kept run_dir))
     else load_energy_attempts H D run_dir))"

section \<open>Bars\<close>

definition split_energy :: "rat \<Rightarrow> rat \<Rightarrow> rat \<Rightarrow> rat \<times> rat \<times> rat" where
  "split_energy whole kem signature =
     (let measured = fadd kem signature;
          overlap = (whole < measured \<and> 0 < measured);
          scale = fdiv whole measured;
          k = (if overlap then fmul kem scale else kem);
          s = (if overlap then fmul signature scale else signature) in
      (fdiv k 1000, fdiv s 1000, fdiv (max 0 (fsub (fsub whole k) s)) 1000))"

definition handshake_energy_components :: "srow \<Rightarrow> (rat \<times> rat \<times> rat) res" where
  "handshake_energy_components r =
     bindr (energy_number r ''mean_handshake_energy_uj'') (\<lambda>whole.
     bindr (energy_number r ''mean_client_kem_energy_uj'') (\<lambda>kem.
     bindr (energy_number r ''mean_client_signature_energy_uj'') (\<lambda>signature.
     Inr (split_energy (or_zero whole) (or_zero kem) (or_zero signature)))))"

definition energy_label :: "srow \<Rightarrow> string" where
  "energy_label r = bracket_label (dget r ''kex_group'' []) (nist_level r ''kex_nist_level'') @ [CHR 0x0A] @
     bracket_label (pki_signature_label r) (nist_level r ''sig_nist_level'')"

definition energy_stack :: "srow \<Rightarrow> (string \<times> rat list \<times> rat) res" where
  "energy_stack r =
     bindr (handshake_energy_components r) (\<lambda>(kem, signature, remaining).
     bindr (energy_number r ''ci_handshake_energy_uj'') (\<lambda>ci.
     Inr (energy_label r, [kem, signature, remaining], fdiv (or_zero ci) 1000)))"

definition sorted_energies :: "srow list \<Rightarrow> srow list res" where
  "sorted_energies rows =
     bindr (mapr (\<lambda>r. bindr (dindex r ''mean_handshake_energy_uj'') py_float) rows) (\<lambda>ks.
     Inr (map snd (sort_key (\<lambda>(x, r). (- x, py_lower (dget r ''case_id'' []))) (zip ks rows))))"

definition category_title :: "string \<Rightarrow> string" where
  "category_title category = (if category = ''pqc_only'' then ''PQC-only''
     else if category = ''classic_only'' then ''Classic-only'' else ''Mixed / hybrid'')"

definition plot_energy_group ::
  "'w host \<Rightarrow> 'w drawing \<Rightarrow> srow list \<Rightarrow> string \<Rightarrow> string \<Rightarrow> string \<Rightarrow> string \<Rightarrow> ('w, nat) io" where
  "plot_energy_group H draw rows path run_id category pki =
     bindm (liftm (sorted_energies rows)) (\<lambda>sorted_rows.
     if sorted_rows = [] then raisem (SystemExit (''No successful energy measurements found in '' @ run_id))
     else bindm (liftm (mapr energy_stack sorted_rows)) (\<lambda>stacks.
       seqm (save_figure H draw (Stacks (''Energy consumption by TLS case ('' @ category_title category @ '', '' @
           pki_title pki @ '') - '' @ run_id)
         [''Client KEM'', ''Client digital signature'', ''Remaining TLS handshake''] stacks) path)
       (retm (length sorted_rows))))"

section \<open>Heat maps and scatter plots\<close>

text \<open>The interval of a pair is that of its last row that has one.\<close>

definition drop_mean :: "string \<Rightarrow> string" where
  "drop_mean metric = (if startswith metric ''mean_'' then drop 5 metric else metric)"

definition add_energy_pair ::
  "string \<Rightarrow> rat \<Rightarrow> pairs \<times> (string \<times> string, rat) dict \<Rightarrow> srow \<Rightarrow> (pairs \<times> (string \<times> string, rat) dict) res" where
  "add_energy_pair metric divisor st r = (case st of (vals, widths) \<Rightarrow>
     (let kem = dget r ''kex_group'' []; sig = pki_signature_label r in
      bindr (energy_number r metric) (\<lambda>v. case v of None \<Rightarrow> Inr (vals, widths)
        | Some x \<Rightarrow> if kem = [] \<or> sig = [] then Inr (vals, widths)
            else bindr (energy_number r (''ci_'' @ drop_mean metric)) (\<lambda>ci.
              Inr (dappend (kem, sig) (fdiv x divisor) vals,
                case ci of None \<Rightarrow> widths | Some y \<Rightarrow> dset (kem, sig) (fdiv y divisor) widths)))))"

definition level_text :: "int option \<Rightarrow> string" where
  "level_text level = (case level of None \<Rightarrow> ''None'' | Some n \<Rightarrow> str_int n)"

definition energy_heat_figure :: "string \<Rightarrow> srow list \<Rightarrow> pairs \<Rightarrow> (string \<times> string, rat) dict \<Rightarrow> figure" where
  "energy_heat_figure title rows vals widths =
     (let (kems, sigs) = heatmap_axes_by_descending_mean vals;
          kem_levels = dict_of (map (\<lambda>r. (dget r ''kex_group'' [], kem_security_level r)) rows);
          sig_levels = dict_of (map (\<lambda>r. (pki_signature_label r, signature_security_level r)) rows) in
      Heatmap title (map (\<lambda>k. bracket_label k (level_text (dget kem_levels k None))) kems)
        (map (\<lambda>s. bracket_label s (level_text (dget sig_levels s None))) sigs)
        (mean_matrix vals kems sigs)
        (map (\<lambda>s. map (\<lambda>k. cell_note 2 [] (pair_mean vals k s) (map_of widths (k, s))) kems) sigs))"

definition plot_energy_heatmap ::
  "'w drawing \<Rightarrow> srow list \<Rightarrow> string \<Rightarrow> string \<Rightarrow> string \<Rightarrow> string \<Rightarrow> rat \<Rightarrow> ('w, nat) io" where
  "plot_energy_heatmap draw rows metric path run_id title divisor =
     bindm (liftm (foldr_res (add_energy_pair metric divisor) ([], []) rows)) (\<lambda>(vals, widths).
     if vals = [] then retm 0
     else seqm (draw (energy_heat_figure (title @ '' - '' @ run_id) rows vals widths) path) (retm (length vals)))"

definition energy_point :: "bool \<Rightarrow> srow \<Rightarrow> (string \<times> rat \<times> rat) option res" where
  "energy_point by_power r =
     bindr (energy_number r ''mean_handshake_duration_ms'') (\<lambda>duration.
     bindr (energy_number r ''mean_handshake_energy_uj'') (\<lambda>energy.
     Inr (case (duration, energy) of
         (Some d, Some e) \<Rightarrow> (if d = 0 \<or> e \<le> 0 then None
           else Some (scatter_certificate_algorithm r, d, if by_power then fdiv e d else fdiv e 1000))
       | _ \<Rightarrow> None)))"

definition plot_energy_scatter ::
  "'w host \<Rightarrow> 'w drawing \<Rightarrow> srow list \<Rightarrow> string \<Rightarrow> string \<Rightarrow> string \<Rightarrow> bool \<Rightarrow> ('w, nat) io" where
  "plot_energy_scatter H draw rows path run_id pki by_power =
     bindm (liftm (mapr (energy_point by_power) rows)) (\<lambda>ps.
     let points = somes ps; names = sorted_set (map fst points) in
     if points = [] then retm 0
     else seqm (save_figure H draw (Regions
         ((if by_power then ''Mean handshake power vs duration ('' else ''Handshake energy vs duration ('') @
           pki_title pki @ '') - '' @ run_id)
         (map (\<lambda>n. region n (map snd (filter (\<lambda>p. fst p = n) points))) names) None) path)
       (retm (length names)))"

section \<open>A power trace\<close>

definition trace_case_matches :: "string \<Rightarrow> string \<Rightarrow> bool" where
  "trace_case_matches selector name \<longleftrightarrow> name = selector \<or> after_first CHR ''_'' name = selector \<or>
     contains (py_lower name) (py_lower selector)"

definition resolve_trace_case :: "'w host \<Rightarrow> 'w disk \<Rightarrow> string \<Rightarrow> string \<Rightarrow> ('w, string) io" where
  "resolve_trace_case H D run_dir selector = (let cases_dir = path_join run_dir ''cases'' in
     bindm (dk_iterdir D cases_dir) (\<lambda>names.
     bindm (mapm (\<lambda>name. bindm (h_is_dir H (path_join cases_dir name)) (\<lambda>dir. retm (name, dir))) (sort names)) (\<lambda>entries.
     let candidates = map fst (filter (\<lambda>(name, dir). dir \<and> trace_case_matches selector name) entries) in
     case candidates of [name] \<Rightarrow> retm (path_join cases_dir name)
     | _ \<Rightarrow> raisem (ValueError (''Power-trace case selector must match exactly one case; matched: '' @
         str_or (join '', '' candidates) ''none'')))))"

type_synonym sample = "rat \<times> rat \<times> int"

definition trace_sample :: "srow \<Rightarrow> sample res" where
  "trace_sample r =
     bindr (bindr (dindex r ''time_s'') py_float) (\<lambda>t.
     bindr (bindr (dindex r ''current_ua'') py_float) (\<lambda>c.
     bindr (bindr (dindex r ''digital_mask'') py_int) (\<lambda>m. Inr (t, fdiv c 1000, m))))"

definition pin_set :: "nat \<Rightarrow> sample \<Rightarrow> bool" where
  "pin_set bit_index p = (case p of (t, c, m) \<Rightarrow> bit m bit_index)"

text \<open>\<open>int(x)\<close> truncates; the pad is the twentieth part of the active samples, at least two.\<close>

definition trace_window :: "sample list \<Rightarrow> sample list" where
  "trace_window samples =
     (let active = filter (\<lambda>i. pin_set 7 (samples ! i)) [0..<length samples] in
      if active = [] then samples
      else let count = last active - hd active + 1;
               pad = max 2 (nat \<lfloor>fmul (of_nat count) (round64 (5 / 100))\<rfloor>);
               start = hd active - pad;
               stop = min (length samples) (last active + pad + 1) in
        take (stop - start) (drop start samples))"

definition trace_curves :: "sample list \<Rightarrow> (string \<times> (rat \<times> rat) list) list" where
  "trace_curves samples =
     (let window = trace_window samples; origin = fst (hd window);
          at_ms = (\<lambda>p. fmul (fsub (fst p) origin) 1000) in
      (''Current (mA)'', map (\<lambda>p. (at_ms p, fst (snd p))) window) #
      map (\<lambda>(bit_index, label). (label, map (\<lambda>p. (at_ms p, if pin_set bit_index p then 1 else 0)) window))
        [(7, ''D7 / P0.03  Total execution''), (6, ''D6 / P0.04  TLS handshake''),
         (5, ''D5 / P0.28  KEX marker''), (4, ''D4 / P0.29  Signature / classical-KEX'')])"

text \<open>\<open>gunzip\<close> reads a compressed text.\<close>

definition plot_power_trace ::
  "'w host \<Rightarrow> 'w disk \<Rightarrow> 'w drawing \<Rightarrow> (string \<Rightarrow> ('w, string) io) \<Rightarrow> string \<Rightarrow> string \<Rightarrow> int \<Rightarrow> string \<Rightarrow> ('w, string) io" where
  "plot_power_trace H D draw gunzip run_dir selector attempt path =
     bindm (resolve_trace_case H D run_dir selector) (\<lambda>case_dir.
     let trace = path_join case_dir (''power_trace_'' @ dec_pad 3 attempt @ ''.csv.gz'') in
     bindm (h_exists H trace) (\<lambda>present.
     if \<not> present then raisem (FileNotFoundError (''Power trace not found: '' @ trace))
     else bindm (gunzip trace) (\<lambda>text.
       bindm (liftm (bindr (dict_reader text) (\<lambda>(names, rows). mapr trace_sample rows))) (\<lambda>samples.
       if samples = [] then raisem (ValueError (''Power trace is empty: '' @ trace))
       else seqm (save_figure H draw (Points (''PPK2 power trace - '' @ after_first CHR ''_'' (path_name case_dir) @
           '' - attempt '' @ str_int attempt) (trace_curves samples)) path) (retm trace)))))"

section \<open>The program\<close>

record energy_args =
  ea_run :: string
  ea_out_dir :: "string option"
  ea_png :: bool
  ea_heatmap :: bool
  ea_trace_case :: "string option"
  ea_trace_attempt :: int

definition ENERGY_HEATMAPS :: "(string \<times> string \<times> string \<times> rat) list" where
  "ENERGY_HEATMAPS = [
     (''mean_handshake_energy_uj'', ''Total TLS handshake energy'', ''handshake'', 1000),
     (''mean_client_kem_energy_uj'', ''Client KEM energy'', ''client_kem'', 1000),
     (''mean_client_signature_energy_uj'', ''Client digital-signature energy'', ''client_signature'', 1000),
     (''mean_handshake_edp_mj_s'', ''TLS handshake energy-delay product'', ''handshake_edp'', 1)]"

definition energy_bars :: "'w host \<Rightarrow> 'w drawing \<Rightarrow> target \<Rightarrow> string \<times> srow list \<Rightarrow> ('w, (nat \<times> string) list) io" where
  "energy_bars H draw T g = (case g of (pki, rows) \<Rightarrow>
     bindm (mapm (\<lambda>category. let some = of_category category rows in
       if some = [] then retm []
       else bindm (plot_energy_group H draw some
           (figure_path T (''energy_handshake_kem_signature_'' @ category @ ''_'' @ pki)) (ta_run T) category pki) (\<lambda>n.
         retm [(n, category @ ''_'' @ pki @ ''_cases='' @ str_nat n)])) CATEGORIES) (\<lambda>ls. retm (concat ls)))"

definition energy_maps :: "'w drawing \<Rightarrow> target \<Rightarrow> string \<times> srow list \<Rightarrow> ('w, string list) io" where
  "energy_maps draw T g = (case g of (pki, rows) \<Rightarrow>
     if rows = [] then retm []
     else mapm (\<lambda>(metric, title, suffix, divisor).
       bindm (plot_energy_heatmap draw rows metric (figure_path T (''energy_heatmap_'' @ suffix @ ''_'' @ pki))
         (ta_run T) (title @ '' ('' @ pki_title pki @ '')'') divisor) (\<lambda>n.
       retm (suffix @ ''_'' @ pki @ ''_energy_heatmap_cells='' @ str_nat n))) ENERGY_HEATMAPS)"

definition energy_scatters :: "'w host \<Rightarrow> 'w drawing \<Rightarrow> target \<Rightarrow> string \<times> srow list \<Rightarrow> ('w, string list) io" where
  "energy_scatters H draw T g = (case g of (pki, rows) \<Rightarrow>
     if rows = [] then retm []
     else mapm (\<lambda>(by_power, stem).
       bindm (plot_energy_scatter H draw rows (figure_path T (stem @ ''_'' @ pki)) (ta_run T) pki by_power) (\<lambda>n.
       retm (stem @ ''_'' @ pki @ ''_ellipses='' @ str_nat n)))
       [(False, ''handshake_energy_vs_duration''), (True, ''handshake_mean_power_vs_duration'')])"

definition energy_main ::
  "('w, 'g) site \<Rightarrow> string \<Rightarrow> 'w drawing \<Rightarrow> (string \<Rightarrow> ('w, string) io) \<Rightarrow> energy_args \<Rightarrow> ('w, int \<times> string list) io" where
  "energy_main S project draw gunzip A =
     (let H = si_host S; D = si_disk S; extension = (if ea_png A then ''png'' else ''pdf'') in
      bindm (table_run_dir S project (ea_run A)) (\<lambda>run_dir.
      bindm (load_energy_rows H D run_dir) (\<lambda>rows.
      let out_dir = (case ea_out_dir A of Some d \<Rightarrow> d
            | None \<Rightarrow> path_join (path_join project ''graphic/out'') (path_name run_dir));
          T = \<lparr>ta_dir = out_dir, ta_run = path_name run_dir, ta_ext = extension\<rparr>;
          groups = map (\<lambda>pki. (pki, of_pki pki rows)) PKI_KINDS in
      bindm (mapm (energy_bars H draw T) groups) (\<lambda>bars.
      bindm (if ea_heatmap A then mapm (energy_maps draw T) groups else retm []) (\<lambda>maps.
      bindm (mapm (energy_scatters H draw T) groups) (\<lambda>scatters.
      bindm (case ea_trace_case A of None \<Rightarrow> retm [] | Some selector \<Rightarrow>
        if selector = [] then retm []
        else let path = figure_path T (''power_trace_'' @ selector @ ''_attempt_'' @ dec_pad 3 (ea_trace_attempt A)) in
          bindm (plot_power_trace H D draw gunzip run_dir selector (ea_trace_attempt A) path) (\<lambda>trace.
          retm [''power_trace_source='' @ trace, ''power_trace_plot='' @ path])) (\<lambda>trace_lines.
      retm (0, map snd (concat bars) @ concat maps @ concat scatters @ trace_lines @
        [''format='' @ extension, count_line ''cases'' (sum_list (map fst (concat bars))), ''out_dir='' @ out_dir]))))))))"

end
