(* ===== verification/Device_Charts.thy ===== *)
theory Device_Charts
  imports Transfer_Tables
begin

text \<open>
  The figures and tables of the two board benchmarks: \<open>graphic/plot_device_crypto_benchmarks.py\<close>
  aggregates the attempts of a certificate or KEM run by algorithm into a figure and a LaTeX
  table, \<open>graphic/plot_certificate_summary.py\<close> plots the summary of a certificate run.
\<close>

section \<open>Aggregating attempts\<close>

definition CERTIFICATE_OPERATIONS :: "(string \<times> string) list" where
  "CERTIFICATE_OPERATIONS = [(''keygen_seconds'', ''KeyGen (s)''), (''make_body_seconds'', ''Make body (s)''),
     (''sign_seconds'', ''Sign (s)''), (''verify_seconds'', ''Verify (s)'')]"

definition KEM_OPERATIONS :: "(string \<times> string) list" where
  "KEM_OPERATIONS = [(''keygen_seconds'', ''KeyGen (s)''), (''encapsulation_seconds'', ''Encaps (s)''),
     (''decapsulation_seconds'', ''Decaps (s)'')]"

definition device_run_dir :: "('w, 'g) site \<Rightarrow> string \<Rightarrow> string \<Rightarrow> ('w, string) io" where
  "device_run_dir S project val =
     bindm (cn_expanduser (si_console S) val) (\<lambda>path.
     bindm (h_is_dir (si_host S) path) (\<lambda>dir.
     if dir then dk_resolve (si_disk S) path
     else let candidate = (if startswith path ''/'' then path else path_join (DEFAULT_RESULTS_ROOT project) path) in
       bindm (h_is_dir (si_host S) candidate) (\<lambda>dir.
       if dir then dk_resolve (si_disk S) candidate
       else raisem (FileNotFoundError (''Benchmark result directory not found: '' @ val)))))"

datatype benchmark_type = Certificate_Run | Kem_Run

definition type_name :: "benchmark_type \<Rightarrow> string" where
  "type_name t = (case t of Certificate_Run \<Rightarrow> ''certificate'' | Kem_Run \<Rightarrow> ''kem'')"

definition detect_benchmark_type :: "string \<Rightarrow> benchmark_type res" where
  "detect_benchmark_type name =
     (if startswith name ''cert_device'' then Inr Certificate_Run
      else if startswith name ''kem_device'' then Inr Kem_Run
      else Inl (ValueError (name @ '': expected a cert_device* or kem_device* result folder'')))"

definition operations_of :: "benchmark_type \<Rightarrow> (string \<times> string) list" where
  "operations_of t = (case t of Certificate_Run \<Rightarrow> CERTIFICATE_OPERATIONS | Kem_Run \<Rightarrow> KEM_OPERATIONS)"

definition mean_field :: "srow list \<Rightarrow> string \<Rightarrow> rat option res" where
  "mean_field rows fld = bindr (field_values rows fld) (\<lambda>xs. Inr (if xs = [] then None else Some (stat_mean xs)))"

definition max_field :: "srow list \<Rightarrow> string \<Rightarrow> rat option res" where
  "max_field rows fld = bindr (field_values rows fld) (\<lambda>xs. Inr (if xs = [] then None else Some (max_of xs)))"

fun first_field :: "srow list \<Rightarrow> string \<Rightarrow> string" where
  "first_field [] fld = []"
| "first_field (r # rows) fld = (if dget r fld [] \<noteq> [] then dget r fld [] else first_field rows fld)"

definition read_attempts :: "'w host \<Rightarrow> string \<Rightarrow> ('w, srow list) io" where
  "read_attempts H run_dir = (let path = path_join run_dir ''attempts.csv'' in
     bindm (h_exists H path) (\<lambda>present.
     if \<not> present then raisem (FileNotFoundError (''attempts.csv not found in '' @ run_dir))
     else bindm (read_table H path) (\<lambda>rows.
       if rows = [] then raisem (ValueError (path @ '' is empty'')) else retm rows)))"

definition generated_kem_bytes :: "srow \<Rightarrow> rat option res" where
  "generated_kem_bytes r =
     bindr (mapr (\<lambda>fld. float_or_none (map_of r fld))
       [''kex_public_key_bytes'', ''kex_ciphertext_bytes'', ''kex_shared_secret_bytes'']) (\<lambda>xs.
     Inr (if None \<in> set xs then None else Some (py_sum (somes xs))))"

definition divide_by :: "rat \<Rightarrow> rat option \<Rightarrow> rat option" where
  "divide_by divisor v = map_option (\<lambda>x. fdiv x divisor) v"

record summary_of_algorithm =
  al_name :: string
  al_family :: string
  al_level :: string
  al_status :: string
  al_success :: nat
  al_attempts :: nat
  al_time :: "rat option"
  al_memory :: "rat option"
  al_bytes :: "rat option"
  al_operations :: "(string \<times> rat option) list"

definition seconds_of :: "srow list \<Rightarrow> string \<times> string \<Rightarrow> (string \<times> rat option) res" where
  "seconds_of rows op = (case op of (column, fld) \<Rightarrow>
     bindr (mean_field rows fld) (\<lambda>v. Inr (column, divide_by 1000 v)))"

definition CERTIFICATE_COLUMNS :: "(string \<times> string) list" where
  "CERTIFICATE_COLUMNS = [(''keygen_seconds'', ''certificate_keygen_ms''), (''make_body_seconds'', ''certificate_make_body_ms''),
     (''sign_seconds'', ''certificate_sign_ms''), (''verify_seconds'', ''certificate_verify_ms'')]"

definition KEM_COLUMNS :: "(string \<times> string) list" where
  "KEM_COLUMNS = [(''keygen_seconds'', ''kem_keygen_ms''), (''encapsulation_seconds'', ''kem_encapsulation_ms''),
     (''decapsulation_seconds'', ''kem_decapsulation_ms'')]"

definition succeeded :: "srow \<Rightarrow> bool" where
  "succeeded r \<longleftrightarrow> map_of r ''status'' = Some ''success''"

definition run_status :: "bool \<Rightarrow> srow list \<Rightarrow> string" where
  "run_status with_timeout rows = (let good = filter succeeded rows in
     if length good = length rows then ''success'' else if good \<noteq> [] then ''mixed''
     else if with_timeout \<and> list_ex (\<lambda>r. map_of r ''status'' = Some ''timeout'') rows then ''timeout'' else ''no_success'')"

definition certificate_aggregate :: "string \<times> srow list \<Rightarrow> summary_of_algorithm res" where
  "certificate_aggregate g = (case g of (algorithm, rows) \<Rightarrow> (let good = filter succeeded rows in
     bindr (mean_field good ''certificate_total_ms'') (\<lambda>time_ms.
     bindr (max_field good ''client_heap_peak_bytes'') (\<lambda>heap.
     bindr (mean_field good ''certificate_der_bytes'') (\<lambda>n_bytes.
     bindr (mapr (seconds_of good) CERTIFICATE_COLUMNS) (\<lambda>ops.
     Inr \<lparr>al_name = algorithm, al_family = first_field rows ''sig_family'', al_level = first_field rows ''sig_nist_level'',
       al_status = run_status True rows, al_success = length good, al_attempts = length rows,
       al_time = divide_by 1000 time_ms, al_memory = divide_by 1024 heap, al_bytes = n_bytes, al_operations = ops\<rparr>))))))"

definition kem_family :: "srow list \<Rightarrow> string" where
  "kem_family rows = (if first_field rows ''operation_model'' = ''hybrid_kem'' then ''hybrid'' else first_field rows ''kex_family'')"

definition kem_aggregate :: "string \<times> srow list \<Rightarrow> summary_of_algorithm res" where
  "kem_aggregate g = (case g of (algorithm, rows) \<Rightarrow> (let good = filter succeeded rows in
     bindr (mapr generated_kem_bytes good) (\<lambda>gs.
     bindr (mean_field good ''kem_total_ms'') (\<lambda>time_ms.
     bindr (max_field good ''client_heap_peak_bytes'') (\<lambda>heap.
     bindr (mapr (seconds_of good) KEM_COLUMNS) (\<lambda>ops.
     let generated = somes gs in
     Inr \<lparr>al_name = algorithm, al_family = kem_family rows, al_level = first_field rows ''kex_nist_level'',
       al_status = run_status False rows, al_success = length good, al_attempts = length rows,
       al_time = divide_by 1000 time_ms, al_memory = divide_by 1024 heap,
       al_bytes = (if generated = [] then None else Some (stat_mean generated)), al_operations = ops\<rparr>))))))"

text \<open>A missing mean, and one of zero, sort as infinity.\<close>

definition aggregate_order :: "summary_of_algorithm \<Rightarrow> bool \<times> bool \<times> rat \<times> string" where
  "aggregate_order a = (al_time a = None, or_zero (al_time a) = 0, or_zero (al_time a), py_lower (al_name a))"

definition aggregates :: "benchmark_type \<Rightarrow> srow list \<Rightarrow> summary_of_algorithm list res" where
  "aggregates t attempts =
     (let key = (case t of Certificate_Run \<Rightarrow> ''cert_sig_alg'' | Kem_Run \<Rightarrow> ''kex_group'') in
      bindr (mapr (case t of Certificate_Run \<Rightarrow> certificate_aggregate | Kem_Run \<Rightarrow> kem_aggregate)
        (group_by (\<lambda>r. dget r key ''unknown'') attempts)) (\<lambda>xs.
      Inr (sort_key aggregate_order xs)))"

section \<open>The figure\<close>

definition column_for_plot :: "(summary_of_algorithm \<Rightarrow> rat option) \<Rightarrow> summary_of_algorithm list \<Rightarrow> rat list" where
  "column_for_plot f rows = map (\<lambda>a. or_zero (f a)) rows"

definition operation_time :: "string \<Rightarrow> summary_of_algorithm \<Rightarrow> rat option" where
  "operation_time column a = dget (al_operations a) column None"

definition drop_unit :: "string \<Rightarrow> string" where
  "drop_unit label = (if drop (length label - 4) label = '' (s)'' then take (length label - 4) label else label)"

definition operation_series :: "benchmark_type \<Rightarrow> summary_of_algorithm list \<Rightarrow> (string \<times> rat list) list" where
  "operation_series t rows =
     (let series = map (\<lambda>(column, label). (drop_unit label, column_for_plot (operation_time column) rows)) (operations_of t);
          totals = column_for_plot al_time rows;
          measured_sums = map (\<lambda>i. py_sum (map (\<lambda>s. snd s ! i) series)) [0..<length rows];
          residual = map (\<lambda>(whole, measured). max (fsub whole measured) 0) (zip totals measured_sums) in
      if list_ex (\<lambda>x. round64 (1 / 10 ^ 9) < x) residual then series @ [(''Other'', residual)] else series)"

definition device_figure :: "benchmark_type \<Rightarrow> string \<Rightarrow> summary_of_algorithm list \<Rightarrow> figure" where
  "device_figure t run_id rows =
     Panels (''On-device '' @ (case t of Certificate_Run \<Rightarrow> ''Certificate'' | Kem_Run \<Rightarrow> ''KEM'') @ '' benchmark - '' @ run_id)
       (map al_name rows)
       (operation_series t rows @ [(''Total'', column_for_plot al_time rows),
         (''Peak memory (KB)'', column_for_plot al_memory rows), (''Generated output (bytes)'', column_for_plot al_bytes rows)])
       ([''Classic'', ''PQC''] @ (case t of Certificate_Run \<Rightarrow> [] | Kem_Run \<Rightarrow> [''Hybrid'']))"

definition plot_device_summary ::
  "'w host \<Rightarrow> 'w drawing \<Rightarrow> benchmark_type \<Rightarrow> string \<Rightarrow> summary_of_algorithm list \<Rightarrow> string \<Rightarrow> ('w, unit) io" where
  "plot_device_summary H draw t run_id rows path =
     (let plotted = filter (\<lambda>a. al_time a \<noteq> None) rows in
      if plotted = [] then raisem (ValueError ''no successful attempts are available for plotting'')
      else save_figure H draw (device_figure t run_id plotted) path)"

section \<open>The table\<close>

text \<open>The replacements are made one after the other.\<close>

definition LATEX_REPLACEMENTS :: "(string \<times> string) list" where
  "LATEX_REPLACEMENTS = (bs, bs @ ''textbackslash{}'') #
     map (\<lambda>c. ([c], bs @ [c])) [CHR ''&'', CHR ''%'', CHR ''$'', CHR ''#'', CHR ''_'', CHR ''{'', CHR ''}'']"

definition device_latex_escape :: "string \<Rightarrow> string" where
  "device_latex_escape s = fold (\<lambda>(old, new) text. replace_all old new text) LATEX_REPLACEMENTS s"

definition latex_number :: "nat \<Rightarrow> rat option \<Rightarrow> string" where
  "latex_number decimals v = (case v of None \<Rightarrow> ''--'' | Some x \<Rightarrow> fmt_fixed decimals x)"

definition label_char :: "char \<Rightarrow> bool" where
  "label_char c \<longleftrightarrow> is_lower_az c \<or> is_upper_az c \<or> is_digit c \<or> c \<in> {CHR '':'', CHR ''.'', CHR ''-''}"

fun dash_runs :: "bool \<Rightarrow> string \<Rightarrow> string" where
  "dash_runs inside [] = []"
| "dash_runs inside (c # s) = (if label_char c then c # dash_runs False s
     else if inside then dash_runs True s else CHR ''-'' # dash_runs True s)"

definition latex_label :: "string \<Rightarrow> string" where
  "latex_label s = py_strip_of CHR ''-'' (dash_runs False s)"

definition device_headers :: "benchmark_type \<Rightarrow> string list" where
  "device_headers t = [''Algorithm'', ''NIST''] @ map snd (operations_of t) @
     [''Total (s)'', ''Peak memory (KB)'', ''Output (B)'', ''Success'', ''Status'']"

definition device_row :: "benchmark_type \<Rightarrow> summary_of_algorithm \<Rightarrow> string list" where
  "device_row t a = [device_latex_escape (al_name a), device_latex_escape (str_or (al_level a) ''--'')] @
     map (\<lambda>(column, label). latex_number 3 (operation_time column a)) (operations_of t) @
     [latex_number 3 (al_time a), latex_number 3 (al_memory a), latex_number 3 (al_bytes a),
      str_nat (al_success a) @ ''/'' @ str_nat (al_attempts a), device_latex_escape (al_status a)]"

definition table_line :: "string list \<Rightarrow> string" where
  "table_line cells = join '' & '' cells @ '' '' @ bs @ bs"

definition device_table :: "benchmark_type \<Rightarrow> string \<Rightarrow> summary_of_algorithm list \<Rightarrow> string list" where
  "device_table t run_id rows =
     [''% Requires '' @ bs @ ''usepackage{booktabs} and '' @ bs @ ''usepackage{graphicx}'',
      bs @ ''begin{table}[htbp]'', bs @ ''centering'', bs @ ''small'', bs @ ''setlength{'' @ bs @ ''tabcolsep}{4pt}'',
      bs @ ''caption{On-device '' @ type_name t @ '' benchmark}'', bs @ ''label{tab:'' @ latex_label run_id @ ''}'',
      bs @ ''resizebox{'' @ bs @ ''textwidth}{!}{%'',
      bs @ ''begin{tabular}{l'' @ replicate (length (device_headers t) - 2) CHR ''r'' @ ''l}'', bs @ ''toprule'',
      table_line (device_headers t), bs @ ''midrule''] @
     map (\<lambda>a. table_line (device_row t a)) rows @
     [bs @ ''bottomrule'', bs @ ''end{tabular}'', ''}'', bs @ ''end{table}'', []]"

definition write_latex_table ::
  "'w host \<Rightarrow> benchmark_type \<Rightarrow> string \<Rightarrow> summary_of_algorithm list \<Rightarrow> string \<Rightarrow> ('w, unit) io" where
  "write_latex_table H t run_id rows path = bindm (h_mkdir H (path_parent path)) (\<lambda>_.
     h_write H path (join [CHR 0x0A] (device_table t run_id rows)))"

definition device_charts_main ::
  "('w, 'g) site \<Rightarrow> string \<Rightarrow> 'w drawing \<Rightarrow> string \<Rightarrow> string option \<Rightarrow> string \<Rightarrow> ('w, int \<times> string list) io" where
  "device_charts_main S project draw val out_arg extension =
     (let H = si_host S in
      bindm (device_run_dir S project val) (\<lambda>run_dir.
      let run_id = path_name run_dir in
      bindm (liftm (detect_benchmark_type run_id)) (\<lambda>t.
      bindm (read_attempts H run_dir) (\<lambda>attempts.
      bindm (liftm (aggregates t attempts)) (\<lambda>rows.
      bindm (dk_resolve (si_disk S) (case out_arg of Some d \<Rightarrow> d
        | None \<Rightarrow> path_join (path_join project ''graphic/out'') run_id)) (\<lambda>out_dir.
      let graph = path_join out_dir (with_suffix (type_name t @ ''_device_summary'') extension);
          table = path_join out_dir (type_name t @ ''_device_operations.tex'') in
      seqm (plot_device_summary H draw t run_id rows graph)
      (seqm (write_latex_table H t run_id rows table)
        (retm (0, [''type='' @ type_name t, count_line ''algorithms'' (length rows),
          count_line ''measured_algorithms'' (length (filter (\<lambda>a. 0 < al_success a) rows)),
          ''graph='' @ graph, ''table='' @ table])))))))))"

section \<open>The summary of a certificate run\<close>

definition certificate_run_dir :: "('w, 'g) site \<Rightarrow> string \<Rightarrow> string \<Rightarrow> ('w, string) io" where
  "certificate_run_dir S project val =
     bindm (cn_expanduser (si_console S) val) (\<lambda>path.
     bindm (h_exists (si_host S) path) (\<lambda>present.
     if present then dk_resolve (si_disk S) path
     else let candidate = path_join (DEFAULT_RESULTS_ROOT project) val in
       bindm (h_exists (si_host S) candidate) (\<lambda>present.
       if present then dk_resolve (si_disk S) candidate
       else raisem (FileNotFoundError (''Certificate benchmark result directory not found: '' @ val @ ''. Tried '' @
         path @ '' and '' @ candidate @ ''.'')))))"

definition load_timeout_algorithms :: "'w host \<Rightarrow> string \<Rightarrow> ('w, string list) io" where
  "load_timeout_algorithms H run_dir = (let path = path_join run_dir ''attempts.csv'' in
     bindm (h_exists H path) (\<lambda>present.
     if \<not> present then retm []
     else bindm (read_table H path) (\<lambda>rows.
       retm (map (\<lambda>r. dget r ''cert_sig_alg'' []) (filter (\<lambda>r. map_of r ''status'' = Some ''timeout'') rows)))))"

definition plot_status_row :: "string list \<Rightarrow> bool \<Rightarrow> srow \<Rightarrow> srow option res" where
  "plot_status_row timeouts include_failed r =
     (let timed = (map_of r ''status'' = Some ''timeout'' \<or> dget r ''cert_sig_alg'' [] \<in> set timeouts);
          marked = dset ''_plot_status'' (if timed then ''timeout'' else dget r ''status'' []) r in
      if \<not> include_failed \<and> map_of r ''status'' \<noteq> Some ''success'' \<and> \<not> timed then Inr None
      else bindr (float_or_none (map_of r ''mean_wall_ms'')) (\<lambda>v.
        Inr (if v = None \<and> \<not> timed then None else Some marked)))"

definition load_certificate_summary :: "'w host \<Rightarrow> string \<Rightarrow> bool \<Rightarrow> ('w, srow list) io" where
  "load_certificate_summary H run_dir include_failed = (let path = path_join run_dir ''summary.csv'' in
     bindm (h_exists H path) (\<lambda>present.
     if \<not> present then raisem (FileNotFoundError (''summary.csv not found in '' @ run_dir))
     else bindm (read_table H path) (\<lambda>rows.
       bindm (load_timeout_algorithms H run_dir) (\<lambda>timeouts.
       bindm (liftm (mapr (plot_status_row timeouts include_failed) rows)) (\<lambda>xs.
       if somes xs = [] then raisem (ValueError (''no plottable rows found in '' @ path)) else retm (somes xs))))))"

definition row_label :: "srow \<Rightarrow> string" where
  "row_label r = (if dget r ''component'' [] = ''client_identity'' then ''Client key + CSR'' else dget r ''cert_sig_alg'' [])"

definition numeric :: "srow list \<Rightarrow> string \<Rightarrow> rat list res" where
  "numeric rows fld = mapr (\<lambda>r. bindr (float_or_none (map_of r fld)) (\<lambda>v. Inr (or_zero v))) rows"

definition plot_timed_out :: "srow \<Rightarrow> bool" where
  "plot_timed_out r \<longleftrightarrow> map_of r ''_plot_status'' = Some ''timeout''"

definition sort_certificate_rows :: "srow list \<Rightarrow> srow list res" where
  "sort_certificate_rows rows = bindr (numeric rows ''mean_wall_ms'') (\<lambda>xs.
     Inr (map snd (sort_key (\<lambda>(x, r). (plot_timed_out r, map_of r ''component'' \<noteq> Some ''client_identity'', x,
       py_lower (row_label r))) (zip xs rows))))"

definition certificate_legend :: "srow list \<Rightarrow> rat list \<Rightarrow> string list" where
  "certificate_legend rows cpu =
     (let client = (\<lambda>r. map_of r ''component'' = Some ''client_identity''); pqc = (\<lambda>r. map_of r ''sig_family'' = Some ''pqc'');
          hbs = (\<lambda>r. map_of r ''builder'' = Some ''wolfssl-hbs'') in
      (if list_ex client rows then [''Client/wolfSSL''] else []) @
      (if list_ex (\<lambda>r. \<not> client r \<and> \<not> pqc r \<and> \<not> plot_timed_out r) rows then [''Classic/OpenSSL''] else []) @
      (if list_ex (\<lambda>r. pqc r \<and> \<not> hbs r \<and> \<not> plot_timed_out r) rows then [''PQC/OpenSSL''] else []) @
      (if list_ex (\<lambda>r. hbs r \<and> \<not> plot_timed_out r) rows then [''HBS/wolfSSL''] else []) @
      (if list_ex plot_timed_out rows then [''Timeout''] else []) @
      (if list_ex (\<lambda>x. 0 < x) cpu then [''CPU time overlay''] else []))"

definition plot_certificate_rows :: "'w host \<Rightarrow> 'w drawing \<Rightarrow> srow list \<Rightarrow> string \<Rightarrow> string \<Rightarrow> ('w, unit) io" where
  "plot_certificate_rows H draw rows0 path run_id =
     bindm (liftm (sort_certificate_rows rows0)) (\<lambda>rows.
     bindm (liftm (numeric rows ''mean_wall_ms'')) (\<lambda>wall.
     bindm (liftm (numeric rows ''mean_cpu_ms'')) (\<lambda>cpu.
     bindm (liftm (numeric rows ''max_rss_kb'')) (\<lambda>rss.
     bindm (liftm (numeric rows ''mean_output_total_bytes'')) (\<lambda>n_bytes.
     save_figure H draw (Panels (''Certificate benchmark summary - '' @ run_id) (map row_label rows)
       [(''Mean time (ms)'', wall), (''CPU time overlay'', cpu), (''Peak RSS (KB)'', rss), (''Generated output (bytes)'', n_bytes)]
       (certificate_legend rows cpu)) path)))))"

definition certificate_chart_main ::
  "('w, 'g) site \<Rightarrow> string \<Rightarrow> 'w drawing \<Rightarrow> string \<Rightarrow> string option \<Rightarrow> string \<Rightarrow> bool \<Rightarrow> ('w, int \<times> string list) io" where
  "certificate_chart_main S project draw val out_arg extension include_failed =
     bindm (certificate_run_dir S project val) (\<lambda>run_dir.
     bindm (load_certificate_summary (si_host S) run_dir include_failed) (\<lambda>rows.
     let run_id = path_name run_dir;
         path = path_join (case out_arg of Some d \<Rightarrow> d | None \<Rightarrow> path_join (path_join project ''graphic/out'') run_id)
           (with_suffix ''certificate_summary'' extension) in
     seqm (plot_certificate_rows (si_host S) draw rows path run_id)
       (retm (0, [count_line ''rows'' (length rows), ''format='' @ extension, ''output='' @ path]))))"

end
