(* ===== verification/Chart_Columns.thy ===== *)
theory Chart_Columns
  imports Energy_Figures Device_Charts Cert_Bench Kem_Bench
begin

text \<open>
  Writers and readers of the tables agree: the columns that the figure programs look up are
  columns of the tables that the benchmarks write.  A column that is missing from a table would be
  read as an empty cell without any error.
\<close>

lemma attempt_columns:
  "set (ATTEMPT_MEANS @ FIRST_FIELDS @ LAST_FIELDS @ ENERGY_FIELDS @ map snd ENERGY_MEANS) \<subseteq> set ATTEMPT_FIELDS"
  by code_simp

lemma summary_columns:
  "set (map (correlation_column \<circ> fst) (tl CORRELATION_FIELDS)) \<subseteq> set SUMMARY_FIELDS"
  "set (map fst METRIC_HEATMAPS) \<subseteq> set (''total_memory_usage_percent'' # ''total_memory_used_bytes'' # SUMMARY_FIELDS)"
  "set (map fst ENERGY_MEANS) \<subseteq> set SUMMARY_FIELDS"
  by code_simp+

lemma transfer_columns:
  "set (map fst METRICS) \<subseteq> set TRANSFER_FIELDS"
  "set (concat (map (\<lambda>(stem, metric, ci, rest). [metric, ci]) TRANSFER_HEATMAPS)) \<subseteq> set TRANSFER_SUMMARY_FIELDS"
  by code_simp+

lemma board_columns:
  "set (map snd CERTIFICATE_COLUMNS) \<subseteq> set CERT_ATTEMPT_FIELDS"
  "set (map snd KEM_COLUMNS) \<subseteq> set KEM_ATTEMPT_FIELDS"
  by code_simp+

text \<open>
  The columns that the figures read from the tables of attempts, summaries, transfers and board
  benchmarks are columns that the benchmarks write, apart from the two that the figures derive.
\<close>

theorem columns_written:
  "set (ATTEMPT_MEANS @ FIRST_FIELDS @ LAST_FIELDS @ ENERGY_FIELDS @ map snd ENERGY_MEANS) \<subseteq> set ATTEMPT_FIELDS \<and>
   set (map (correlation_column \<circ> fst) (tl CORRELATION_FIELDS)) \<subseteq> set SUMMARY_FIELDS \<and>
   set (map fst METRIC_HEATMAPS) \<subseteq> set (''total_memory_usage_percent'' # ''total_memory_used_bytes'' # SUMMARY_FIELDS) \<and>
   set (map fst ENERGY_MEANS) \<subseteq> set SUMMARY_FIELDS \<and>
   set (map fst METRICS) \<subseteq> set TRANSFER_FIELDS \<and>
   set (concat (map (\<lambda>(stem, metric, ci, rest). [metric, ci]) TRANSFER_HEATMAPS)) \<subseteq> set TRANSFER_SUMMARY_FIELDS \<and>
   set (map snd CERTIFICATE_COLUMNS) \<subseteq> set CERT_ATTEMPT_FIELDS \<and> set (map snd KEM_COLUMNS) \<subseteq> set KEM_ATTEMPT_FIELDS"
  by (intro conjI attempt_columns summary_columns transfer_columns board_columns)

end
