(* ===== verification/Np_Float.thy ===== *)
theory Np_Float
  imports Py_Float
begin

text \<open>
  The numbers of numpy and pandas: binary64 with its infinities and not-a-number, which mark a
  missing value.  \<open>Num x\<close> is a finite number (the sign of a zero is not kept); the operations
  follow IEEE 754.
\<close>

section \<open>Values and comparisons\<close>

datatype npf = Num rat | PInf | NInf | NaN

fun npf_le :: "npf \<Rightarrow> npf \<Rightarrow> bool" where
  "npf_le (Num x) (Num y) \<longleftrightarrow> x \<le> y"
| "npf_le NInf b \<longleftrightarrow> b \<noteq> NaN"
| "npf_le a PInf \<longleftrightarrow> a \<noteq> NaN"
| "npf_le _ _ \<longleftrightarrow> False"

definition npf_lt :: "npf \<Rightarrow> npf \<Rightarrow> bool" where
  "npf_lt a b \<longleftrightarrow> npf_le a b \<and> a \<noteq> b"

definition is_num :: "npf \<Rightarrow> bool" where
  "is_num a \<longleftrightarrow> a \<noteq> NaN"

fun npf_finite :: "npf \<Rightarrow> bool" where
  "npf_finite (Num _) \<longleftrightarrow> True"
| "npf_finite _ \<longleftrightarrow> False"

lemma npf_le_refl: "npf_le a a \<longleftrightarrow> is_num a"
  by (cases a) (simp_all add: is_num_def)

lemma npf_le_trans: "npf_le a b \<Longrightarrow> npf_le b c \<Longrightarrow> npf_le a c"
  by (cases a; cases b; cases c) auto

lemma npf_le_antisym: "npf_le a b \<Longrightarrow> npf_le b a \<Longrightarrow> a = b"
  by (cases a; cases b) auto

lemma npf_lt_le_trans: "npf_lt a b \<Longrightarrow> npf_le b c \<Longrightarrow> npf_lt a c"
  unfolding npf_lt_def using npf_le_trans npf_le_antisym by blast

section \<open>Arithmetic\<close>

definition np_round :: "rat \<Rightarrow> npf" where
  "np_round x = (let y = round64 x in
     if max_f64 < y then PInf else if y < - max_f64 then NInf else Num y)"

fun npf_sign :: "npf \<Rightarrow> int" where
  "npf_sign (Num x) = (if 0 < x then 1 else if x < 0 then - 1 else 0)"
| "npf_sign PInf = 1"
| "npf_sign NInf = - 1"
| "npf_sign NaN = 0"

definition inf_of_sign :: "int \<Rightarrow> npf" where
  "inf_of_sign s = (if 0 < s then PInf else if s < 0 then NInf else NaN)"

fun npf_neg :: "npf \<Rightarrow> npf" where
  "npf_neg (Num x) = Num (- x)"
| "npf_neg PInf = NInf"
| "npf_neg NInf = PInf"
| "npf_neg NaN = NaN"

fun npf_abs :: "npf \<Rightarrow> npf" where
  "npf_abs (Num x) = Num \<bar>x\<bar>"
| "npf_abs PInf = PInf"
| "npf_abs NInf = PInf"
| "npf_abs NaN = NaN"

fun npf_add :: "npf \<Rightarrow> npf \<Rightarrow> npf" where
  "npf_add (Num x) (Num y) = np_round (x + y)"
| "npf_add (Num x) b = b"
| "npf_add a (Num y) = a"
| "npf_add a b = (if a = b then a else NaN)"

definition npf_sub :: "npf \<Rightarrow> npf \<Rightarrow> npf" where
  "npf_sub a b = npf_add a (npf_neg b)"

fun npf_mul :: "npf \<Rightarrow> npf \<Rightarrow> npf" where
  "npf_mul (Num x) (Num y) = np_round (x * y)"
| "npf_mul a b = inf_of_sign (npf_sign a * npf_sign b)"

fun npf_div :: "npf \<Rightarrow> npf \<Rightarrow> npf" where
  "npf_div (Num x) (Num y) = (if y = 0 then inf_of_sign (npf_sign (Num x)) else np_round (x / y))"
| "npf_div (Num x) NaN = NaN"
| "npf_div (Num x) b = Num 0"
| "npf_div a (Num y) = inf_of_sign (npf_sign a * (if y < 0 then - 1 else 1))"
| "npf_div a b = NaN"

fun npf_sqrt :: "npf \<Rightarrow> npf" where
  "npf_sqrt (Num x) = (if x < 0 then NaN else Num (fsqrt x))"
| "npf_sqrt PInf = PInf"
| "npf_sqrt _ = NaN"

text \<open>Adding from left to right, starting at zero, as numpy does for a few numbers.\<close>

definition npf_sum :: "npf list \<Rightarrow> npf" where
  "npf_sum xs = foldl npf_add (Num 0) xs"

text \<open>The least and the greatest of a row of numbers; not-a-number wins, as in \<open>min\<close> of numpy.\<close>

definition npf_min :: "npf \<Rightarrow> npf \<Rightarrow> npf" where
  "npf_min a b = (if a = NaN then a else if b = NaN then b else if npf_le a b then a else b)"

definition npf_max :: "npf \<Rightarrow> npf \<Rightarrow> npf" where
  "npf_max a b = (if a = NaN then a else if b = NaN then b else if npf_le a b then b else a)"

text \<open>Sort keys: missing values come last.\<close>

fun npf_key :: "npf \<Rightarrow> nat \<times> rat" where
  "npf_key NInf = (0, 0)"
| "npf_key (Num x) = (1, x)"
| "npf_key PInf = (2, 0)"
| "npf_key NaN = (3, 0)"

lemma npf_key_le: "a \<noteq> NaN \<Longrightarrow> b \<noteq> NaN \<Longrightarrow> npf_key a \<le> npf_key b \<longleftrightarrow> npf_le a b"
  by (cases a; cases b) (auto simp: less_eq_prod_def)

end
