(* ===== verification/Attempt_Data.thy ===== *)
theory Attempt_Data
  imports Chart_Rows Np_Float
begin

text \<open>
  \<open>load_attempt_data\<close> of \<open>graphic/analyze_time_energy.py\<close>: the attempts of several runs are read
  into one table, those that cannot be analysed are rejected with a reason that is counted, and
  the rest get numeric columns, derived times, sessions, categories and power figures.

  The program uses pandas.  A frame is the list of its rows; a cell that is missing in a row of a
  frame (not-a-number in pandas) has no entry in the row, and the columns of a frame are listed
  beside it, since the code asks whether a column exists at all.  Masks, \<open>where\<close>, \<open>fillna\<close> and
  group sizes are written out row by row.  How pandas reads a CSV file and the text of a number
  are parameters.
\<close>

record 'w pandas =
  pd_read_csv :: "string \<Rightarrow> ('w, string list \<times> srow list) io"
  pd_number :: "string \<Rightarrow> npf"

section \<open>Columns\<close>

definition BASE_REQUIRED :: "string list" where
  "BASE_REQUIRED = [''raw_handshake_ms'', ''handshake_duration_ms'', ''handshake_energy_uj'']"

definition NUMERIC_COLUMNS :: "string list" where
  "NUMERIC_COLUMNS = [''session'', ''attempt_index'', ''schedule_index'', ''reconnect_count'', ''raw_handshake_ms'',
     ''end_to_end_ms'', ''communication_overhead_ms'', ''kem_client_total_ms'', ''kem_keygen_ms'', ''kem_decapsulation_ms'',
     ''classical_kex_keygen_ms'', ''classical_kex_shared_secret_ms'', ''client_signature_total_ms'',
     ''x509_chain_signature_verify_ms'', ''tls_certificate_verify_signature_verify_ms'', ''mtls_signature_generate_ms'',
     ''kex_nist_level'', ''sig_nist_level'', ''kex_public_key_bytes'', ''kex_ciphertext_bytes'', ''sig_signature_bytes'',
     ''l2cap_tx_bytes'', ''l2cap_rx_bytes'', ''client_cpu_ms'', ''client_heap_peak_bytes'', ''server_chain_bytes'',
     ''client_kem_duration_ms'', ''client_kem_energy_uj'', ''client_kem_avg_current_ua'',
     ''client_signature_duration_ms'', ''client_signature_energy_uj'', ''client_signature_avg_current_ua'',
     ''handshake_duration_ms'', ''handshake_energy_uj'', ''handshake_avg_current_ua'',
     ''total_execution_duration_ms'', ''total_execution_energy_uj'', ''total_execution_avg_current_ua'',
     ''power_profiler_vdd_mv'']"

definition strip_number :: "string \<Rightarrow> string" where
  "strip_number name = (let rest = dropWhile is_digit name in
     if rest \<noteq> name \<and> startswith rest ''_'' then drop 1 rest else name)"

definition case_id_from_directory :: "string \<Rightarrow> string" where
  "case_id_from_directory path = strip_number (path_name (path_parent path))"

definition table_number :: "'w pandas \<Rightarrow> srow \<Rightarrow> string \<Rightarrow> npf" where
  "table_number P r fld = (case map_of r fld of None \<Rightarrow> NaN | Some t \<Rightarrow> pd_number P t)"

definition upper_text :: "string \<Rightarrow> string" where
  "upper_text s = concat (map (\<lambda>c. let n = ccode c in
     if 97 \<le> n \<and> n \<le> 122 \<or> 224 \<le> n \<and> n \<le> 254 \<and> n \<noteq> 247 then [char_of (n - 32)]
     else if n = 223 then ''SS'' else [c]) s)"

definition algorithm_category :: "string \<Rightarrow> string \<Rightarrow> string" where
  "algorithm_category kex_group signature =
     (let kex = filter (\<lambda>c. c \<noteq> CHR ''-'') (upper_text kex_group);
          sig = filter (\<lambda>c. c \<noteq> CHR ''-'') (upper_text signature);
          has_pqc = (contains kex ''MLKEM'' \<or> list_ex (contains sig) [''MLDSA'', ''SLHDSA'', ''XMSS'', ''LMS'']);
          has_classic = (list_ex (contains kex) [''ECDHE'', ''SECP'', ''X25519''] \<or>
            list_ex (contains sig) [''ECDSA'', ''RSAPSS'']) in
      if has_pqc \<and> has_classic then ''mixed'' else if has_pqc then ''pqc_only'' else ''classic_only'')"

section \<open>Reading the runs\<close>

type_synonym counts = "(string \<times> string \<times> string, nat) dict"

definition count_add :: "string \<times> string \<times> string \<Rightarrow> nat \<Rightarrow> counts \<Rightarrow> counts" where
  "count_add k n d = dset k (dget d k 0 + n) d"

definition read_attempt_frame :: "'w pandas \<Rightarrow> 'w disk \<Rightarrow> string \<Rightarrow> string \<Rightarrow> ('w, string list \<times> srow list) io" where
  "read_attempt_frame P D path run_id =
     bindm (pd_read_csv P path) (\<lambda>(columns, rows).
     bindm (dk_resolve D path) (\<lambda>full.
     retm (columns @ [''run_id'', ''case_id'', ''source_file''],
       map (\<lambda>r. dset ''source_file'' full (dset ''case_id'' (case_id_from_directory path) (dset ''run_id'' run_id r))) rows)))"

text \<open>\<open>value_counts\<close> leaves missing cells out; without the column every row counts as empty.\<close>

definition status_cells :: "string list \<Rightarrow> srow list \<Rightarrow> string list" where
  "status_cells columns rows = (if ''status'' \<in> set columns then somes (map (\<lambda>r. map_of r ''status'') rows)
     else map (\<lambda>_. []) rows)"

definition count_statuses :: "string \<Rightarrow> string \<Rightarrow> string list \<Rightarrow> counts \<Rightarrow> counts" where
  "count_statuses run_id case_id cells d =
     fold (\<lambda>c. count_add (run_id, case_id, ''status_'' @ str_or c ''missing'') 1) cells d"

record loaded =
  ld_columns :: "string list"
  ld_rows :: "srow list"
  ld_frames :: nat
  ld_statuses :: counts
  ld_rejections :: counts

definition add_frame :: "string \<Rightarrow> string \<Rightarrow> string list \<times> srow list \<Rightarrow> loaded \<Rightarrow> loaded" where
  "add_frame run_id case_id frame st = (case frame of (columns, rows) \<Rightarrow>
     st\<lparr>ld_columns := ld_columns st @ columns, ld_rows := ld_rows st @ rows, ld_frames := Suc (ld_frames st),
        ld_statuses := count_statuses run_id case_id (status_cells columns rows) (ld_statuses st)\<rparr>)"

definition load_run :: "'w pandas \<Rightarrow> 'w disk \<Rightarrow> loaded \<Rightarrow> string \<Rightarrow> ('w, loaded) io" where
  "load_run P D st run_dir =
     bindm (case_tables D run_dir ''attempts.csv'') (\<lambda>paths.
     if paths = [] then
       retm (st\<lparr>ld_rejections := count_add (path_name run_dir, [], ''missing_attempts_csv'') 1 (ld_rejections st)\<rparr>)
     else foldm (\<lambda>st path. bindm (read_attempt_frame P D path (path_name run_dir)) (\<lambda>frame.
       retm (add_frame (path_name run_dir) (case_id_from_directory path) frame st))) st paths)"

section \<open>Rejecting attempts\<close>

definition row_case :: "srow \<Rightarrow> string \<times> string" where
  "row_case r = (dget r ''run_id'' [], dget r ''case_id'' [])"

definition reject :: "(srow \<Rightarrow> bool) \<Rightarrow> string \<Rightarrow> srow list \<times> counts \<Rightarrow> srow list \<times> counts" where
  "reject mask_of reason st = (case st of (kept, rejections) \<Rightarrow>
     (filter (\<lambda>r. \<not> mask_of r) kept,
      fold (\<lambda>r. count_add (fst (row_case r), snd (row_case r), reason) 1) (filter mask_of kept) rejections))"

text \<open>
  Without the column, \<open>data.get\<close> returns its default, a string, and the next method call fails: the
  comparison of two strings is a plain truth value without \<open>fillna\<close>, and a string has no \<open>astype\<close>.
\<close>

definition need_column :: "string list \<Rightarrow> string \<Rightarrow> string \<Rightarrow> unit res" where
  "need_column columns fld message = guardr (fld \<in> set columns) (AttributeError message)"

definition reject_base :: "'w pandas \<Rightarrow> string list \<Rightarrow> string \<Rightarrow> srow list \<times> counts \<Rightarrow> srow list \<times> counts" where
  "reject_base P columns fld st =
     (if fld \<notin> set columns then reject (\<lambda>_. True) (''missing_'' @ fld) st
      else reject (\<lambda>r. npf_le (table_number P r fld) (Num 0)) (''nonpositive_'' @ fld)
        (reject (\<lambda>r. table_number P r fld = NaN) (''missing_'' @ fld) st))"

definition reconnects :: "'w pandas \<Rightarrow> srow \<Rightarrow> npf" where
  "reconnects P r = (let v = table_number P r ''reconnect_count'' in if v = NaN then Num 0 else v)"

definition screen_attempts :: "'w pandas \<Rightarrow> string list \<Rightarrow> bool \<Rightarrow> srow list \<Rightarrow> counts \<Rightarrow> (srow list \<times> counts) res" where
  "screen_attempts P columns include_reconnects rows rejections =
     bindr (need_column columns ''status'' (sq @ ''bool'' @ sq @ '' object has no attribute '' @ sq @ ''fillna'' @ sq)) (\<lambda>_.
     let st1 = reject (\<lambda>r. map_of r ''status'' \<noteq> Some ''success'') ''not_success'' (rows, rejections) in
     bindr (need_column columns ''warmup'' (sq @ ''str'' @ sq @ '' object has no attribute '' @ sq @ ''astype'' @ sq)) (\<lambda>_.
     let st2 = reject (\<lambda>r. map_of r ''warmup'' = Some ''1'') ''warmup'' st1 in
     bindr (need_column columns ''power_status'' (sq @ ''bool'' @ sq @ '' object has no attribute '' @ sq @ ''fillna'' @ sq)) (\<lambda>_.
     let st3 = reject (\<lambda>r. map_of r ''power_status'' \<noteq> Some ''success'') ''power_incomplete'' st2;
         st4 = (if include_reconnects then st3
           else reject (\<lambda>r. npf_lt (Num 0) (reconnects P r)) ''reconnected'' st3) in
     Inr (fold (reject_base P columns) BASE_REQUIRED st4))))"

section \<open>Derived columns\<close>

record analysed =
  an_text :: srow
  an_num :: "(string, npf) dict"

definition num :: "analysed \<Rightarrow> string \<Rightarrow> npf" where
  "num a fld = dget (an_num a) fld NaN"

definition text_cell :: "string \<Rightarrow> analysed \<Rightarrow> string" where
  "text_cell fld a = dget (an_text a) fld []"

text \<open>\<open>nunique\<close> counts different values.\<close>

definition n_unique :: "'a list \<Rightarrow> nat" where
  "n_unique xs = length (remdups xs)"

definition set_num :: "string \<Rightarrow> npf \<Rightarrow> analysed \<Rightarrow> analysed" where
  "set_num fld v a = a\<lparr>an_num := dset fld v (an_num a)\<rparr>"

definition row_sum :: "analysed \<Rightarrow> string list \<Rightarrow> npf" where
  "row_sum a flds = (let available = filter (dhas (an_num a)) flds; vals = map (num a) available in
     if list_ex is_num vals then npf_sum (map (\<lambda>v. if v = NaN then Num 0 else v) vals) else NaN)"

definition or_sum :: "string \<Rightarrow> string list \<Rightarrow> analysed \<Rightarrow> npf" where
  "or_sum whole parts a = (if num a whole \<noteq> NaN then num a whole else row_sum a parts)"

definition derive_times :: "analysed \<Rightarrow> analysed" where
  "derive_times a0 =
     (let a1 = set_num ''kem_time_ms'' (or_sum ''kem_client_total_ms''
            [''kem_keygen_ms'', ''kem_decapsulation_ms'', ''classical_kex_keygen_ms'', ''classical_kex_shared_secret_ms''] a0) a0;
          a2 = set_num ''signature_time_ms'' (or_sum ''client_signature_total_ms''
            [''x509_chain_signature_verify_ms'', ''tls_certificate_verify_signature_verify_ms'', ''mtls_signature_generate_ms''] a1) a1;
          a3 = set_num ''transmitted_bytes'' (num a2 ''l2cap_tx_bytes'') a2 in
      set_num ''total_l2cap_bytes'' (npf_add (num a3 ''l2cap_tx_bytes'') (num a3 ''l2cap_rx_bytes'')) a3)"

definition py_trunc :: "rat \<Rightarrow> int" where
  "py_trunc x = (if 0 \<le> x then \<lfloor>x\<rfloor> else \<lceil>x\<rceil>)"

definition session_text :: "npf \<Rightarrow> string res" where
  "session_text v = (case v of NaN \<Rightarrow> Inr (str_int (- 1)) | Num x \<Rightarrow> Inr (str_int (py_trunc x))
     | _ \<Rightarrow> Inl (ValueError ''Cannot convert non-finite values (NA or inf) to integer''))"

definition CATEGORICAL_DEFAULTS :: "(string \<times> string) list" where
  "CATEGORICAL_DEFAULTS = [(''kex_group'', ''unknown_kem''), (''pki_chain_id'', []), (''pki_kind'', ''legacy_homogeneous''),
     (''root_sig_alg'', []), (''leaf_sig_alg'', []), (''cert_sig_alg'', ''unknown_signature'')]"

definition default_text :: "srow \<Rightarrow> string \<times> string \<Rightarrow> srow" where
  "default_text r d = (case d of (fld, default_value) \<Rightarrow>
     dset fld (let t = dget r fld [] in if py_strip t = [] then default_value else t) r)"

definition or_certificate :: "string \<Rightarrow> srow \<Rightarrow> srow" where
  "or_certificate fld r = dset fld (str_or (dget r fld []) (dget r ''cert_sig_alg'' [])) r"

definition derive_texts :: "string \<Rightarrow> srow \<Rightarrow> srow" where
  "derive_texts session r0 =
     (let cluster = dget r0 ''run_id'' [] @ ''::'' @ dget r0 ''case_id'' [];
          r1 = dset ''session_id'' (cluster @ ''::'' @ session) (dset ''case_cluster_id'' cluster r0);
          r2 = fold (\<lambda>d r. default_text r d) CATEGORICAL_DEFAULTS r1;
          r3 = fold or_certificate [''pki_chain_id'', ''root_sig_alg'', ''leaf_sig_alg''] r2 in
      dset ''algorithm_category'' (algorithm_category (dget r3 ''kex_group'' []) (dget r3 ''cert_sig_alg'' [])) r3)"

definition EDP_WINDOWS :: "(string \<times> string) list" where
  "EDP_WINDOWS = [(''handshake'', ''raw_handshake_ms''), (''client_kem'', ''kem_time_ms''),
     (''client_signature'', ''signature_time_ms''), (''total_execution'', ''end_to_end_ms'')]"

definition add_window_metrics :: "string \<times> string \<Rightarrow> analysed \<Rightarrow> analysed" where
  "add_window_metrics w a = (case w of (window, performance_time) \<Rightarrow>
     (let energy = num a (window @ ''_energy_uj'');
          power_mw = npf_div energy (num a (window @ ''_duration_ms''));
          current_mw = npf_div (npf_mul (num a ''power_profiler_vdd_mv'') (num a (window @ ''_avg_current_ua''))) (Num 1000000);
          relative = npf_div (npf_abs (npf_sub power_mw current_mw)) (if power_mw = Num 0 then NaN else power_mw);
          edp = npf_mul (npf_div energy (Num 1000)) (npf_div (num a performance_time) (Num 1000)) in
      set_num (window @ ''_edp_mj_s'') edp (set_num (window @ ''_power_relative_error'') relative
        (set_num (window @ ''_current_power_mw'') current_mw (set_num (window @ ''_power_mw'') power_mw a)))))"

definition add_power_and_edp_metrics :: "analysed \<Rightarrow> analysed" where
  "add_power_and_edp_metrics a = fold add_window_metrics EDP_WINDOWS a"

definition analysed_row :: "'w pandas \<Rightarrow> srow \<Rightarrow> analysed res" where
  "analysed_row P r =
     (let a = derive_times \<lparr>an_text = r, an_num = map (\<lambda>fld. (fld, table_number P r fld)) NUMERIC_COLUMNS\<rparr> in
      bindr (session_text (num a ''session'')) (\<lambda>session.
      Inr (add_power_and_edp_metrics (a\<lparr>an_text := derive_texts session r\<rparr>))))"

section \<open>The quality table\<close>

record quality_row =
  qu_run :: string
  qu_case :: string
  qu_reason :: string
  qu_count :: nat

definition quality_of :: "(string \<times> string \<times> string) \<times> nat \<Rightarrow> quality_row" where
  "quality_of c = (case c of ((run_id, case_id, reason), n) \<Rightarrow>
     \<lparr>qu_run = run_id, qu_case = case_id, qu_reason = reason, qu_count = n\<rparr>)"

definition accepted_rows :: "analysed list \<Rightarrow> quality_row list" where
  "accepted_rows data = map (\<lambda>((run_id, case_id), as). quality_of ((run_id, case_id, ''accepted_attempts''), length as))
     (sort_key fst (group_by (\<lambda>a. row_case (an_text a)) data))"

definition quality_table :: "counts \<Rightarrow> counts \<Rightarrow> analysed list \<Rightarrow> quality_row list" where
  "quality_table statuses rejections data =
     map quality_of (sort_key id (dupdate statuses rejections)) @ accepted_rows data @
     [quality_of ((''ALL'', ''ALL'', ''accepted_attempts''), length data)]"

definition analyse_rows :: "'w pandas \<Rightarrow> bool \<Rightarrow> loaded \<Rightarrow> (analysed list \<times> quality_row list) res" where
  "analyse_rows P include_reconnects st =
     (if ld_frames st = 0 then Inr ([], map quality_of (ld_rejections st))
      else bindr (screen_attempts P (ld_columns st) include_reconnects (ld_rows st) (ld_rejections st)) (\<lambda>(kept, rejections).
        bindr (mapr (analysed_row P) kept) (\<lambda>data.
        Inr (data, quality_table (ld_statuses st) rejections data))))"

definition load_attempt_data ::
  "'w pandas \<Rightarrow> 'w disk \<Rightarrow> string list \<Rightarrow> bool \<Rightarrow> ('w, analysed list \<times> quality_row list) io" where
  "load_attempt_data P D run_dirs include_reconnects =
     bindm (foldm (load_run P D)
       \<lparr>ld_columns = [], ld_rows = [], ld_frames = 0, ld_statuses = [], ld_rejections = []\<rparr> run_dirs) (\<lambda>st.
     liftm (analyse_rows P include_reconnects st))"

section \<open>Every attempt is accepted or counted once\<close>

text \<open>
  The reference: the checks in their order, each with its reason.  An attempt is rejected for the
  first check it fails.
\<close>

definition base_checks :: "'w pandas \<Rightarrow> string list \<Rightarrow> string \<Rightarrow> (string \<times> (srow \<Rightarrow> bool)) list" where
  "base_checks P columns fld = (if fld \<notin> set columns then [(''missing_'' @ fld, \<lambda>_. True)]
     else [(''missing_'' @ fld, \<lambda>r. table_number P r fld = NaN),
           (''nonpositive_'' @ fld, \<lambda>r. npf_le (table_number P r fld) (Num 0))])"

definition checks :: "'w pandas \<Rightarrow> string list \<Rightarrow> bool \<Rightarrow> (string \<times> (srow \<Rightarrow> bool)) list" where
  "checks P columns include_reconnects =
     [(''not_success'', \<lambda>r. map_of r ''status'' \<noteq> Some ''success''), (''warmup'', \<lambda>r. map_of r ''warmup'' = Some ''1''),
      (''power_incomplete'', \<lambda>r. map_of r ''power_status'' \<noteq> Some ''success'')] @
     (if include_reconnects then [] else [(''reconnected'', \<lambda>r. npf_lt (Num 0) (reconnects P r))]) @
     concat (map (base_checks P columns) BASE_REQUIRED)"

definition first_failure :: "(string \<times> (srow \<Rightarrow> bool)) list \<Rightarrow> srow \<Rightarrow> string option" where
  "first_failure cs r = map_option fst (find (\<lambda>(reason, bad). bad r) cs)"

definition reject_all :: "(string \<times> (srow \<Rightarrow> bool)) list \<Rightarrow> srow list \<times> counts \<Rightarrow> srow list \<times> counts" where
  "reject_all cs st = fold (\<lambda>(reason, bad). reject bad reason) cs st"

lemma screen_as_checks:
  "screen_attempts P columns include_reconnects rows rejections = Inr st \<Longrightarrow>
     st = reject_all (checks P columns include_reconnects) (rows, rejections)"
proof -
  have base: "reject_base P columns fld st = reject_all (base_checks P columns fld) st" for fld st
    by (simp add: reject_base_def reject_all_def base_checks_def)
  assume "screen_attempts P columns include_reconnects rows rejections = Inr st"
  then show ?thesis
    by (auto simp: screen_attempts_def bindr_eq_Inr Let_def checks_def BASE_REQUIRED_def base reject_all_def)
qed

lemma dget_count_add: "dget (count_add k n d) k' 0 = dget d k' 0 + (if k' = k then n else 0)"
  by (simp add: count_add_def dget_dset)

lemma dget_fold_count_add:
  "dget (fold (\<lambda>r. count_add (key r) 1) rs d) k 0 = dget d k 0 + length (filter (\<lambda>r. key r = k) rs)"
  by (induction rs arbitrary: d) (simp_all add: dget_count_add)

text \<open>Rejecting by a list of checks keeps the rows without a failure and counts the others by their first.\<close>

lemma reject_all_spec:
  assumes "reject_all cs (rows, d) = (kept, d')"
  shows "kept = filter (\<lambda>r. first_failure cs r = None) rows \<and>
    dget d' (run_id, case_id, reason) 0 = dget d (run_id, case_id, reason) 0 +
      length (filter (\<lambda>r. row_case r = (run_id, case_id) \<and> first_failure cs r = Some reason) rows)"
  using assms
proof (induction cs arbitrary: rows d)
  case Nil
  then show ?case by (simp add: reject_all_def first_failure_def)
next
  case (Cons c cs)
  obtain name bad where c: "c = (name, bad)" by (cases c)
  let ?rows = "filter (\<lambda>r. \<not> bad r) rows"
  let ?d = "fold (\<lambda>r. count_add (fst (row_case r), snd (row_case r), name) 1) (filter bad rows) d"
  have step: "reject_all cs (?rows, ?d) = (kept, d')"
    using Cons.prems by (simp add: reject_all_def c reject_def)
  have failure: "first_failure (c # cs) r = (if bad r then Some name else first_failure cs r)" for r
    by (simp add: first_failure_def c)
  have split: "length (filter (\<lambda>r. row_case r = (run_id, case_id) \<and> first_failure (c # cs) r = Some reason) rows) =
      length (filter (\<lambda>r. (fst (row_case r), snd (row_case r), name) = (run_id, case_id, reason)) (filter bad rows)) +
      length (filter (\<lambda>r. row_case r = (run_id, case_id) \<and> first_failure cs r = Some reason) ?rows)"
    by (induction rows) (auto simp: failure)
  have counted: "dget ?d (run_id, case_id, reason) 0 = dget d (run_id, case_id, reason) 0 +
      length (filter (\<lambda>r. (fst (row_case r), snd (row_case r), name) = (run_id, case_id, reason)) (filter bad rows))"
    by (rule dget_fold_count_add)
  have kept: "filter (\<lambda>r. first_failure cs r = None) ?rows = filter (\<lambda>r. first_failure (c # cs) r = None) rows"
    unfolding filter_filter by (rule filter_cong) (simp_all add: failure)
  from Cons.IH [OF step] show ?case by (simp only: split counted kept add.assoc)
qed

text \<open>
  C14: No attempt is lost or counted twice.  The attempts that are analysed are, in their order,
  those that fail no check; every other attempt is counted for its run and case under the reason
  of the first check it fails, and under no other.
\<close>

theorem attempts_accounted:
  assumes "screen_attempts P columns include_reconnects rows [] = Inr (kept, rejections)"
  shows "kept = filter (\<lambda>r. first_failure (checks P columns include_reconnects) r = None) rows \<and>
    (\<forall>run_id case_id reason. dget rejections (run_id, case_id, reason) 0 =
      length (filter (\<lambda>r. row_case r = (run_id, case_id) \<and>
        first_failure (checks P columns include_reconnects) r = Some reason) rows))"
  using reject_all_spec [OF screen_as_checks [OF assms, symmetric]] by (auto simp: dget_def)

text \<open>A table of three attempts: one is accepted, one is a warm-up, one has no energy.\<close>

definition demo_pandas :: "unit pandas" where
  "demo_pandas = \<lparr>pd_read_csv = (\<lambda>_. retm ([], [])), pd_number = (\<lambda>t. case py_float t of Inr x \<Rightarrow> Num x | Inl _ \<Rightarrow> NaN)\<rparr>"

definition demo_attempt :: "string \<Rightarrow> string \<Rightarrow> srow" where
  "demo_attempt warmup energy = [(''run_id'', ''R''), (''case_id'', ''c''), (''status'', ''success''), (''warmup'', warmup),
     (''power_status'', ''success''), (''raw_handshake_ms'', ''12''), (''handshake_duration_ms'', ''11''),
     (''handshake_energy_uj'', energy)]"

lemma attempts_accounted_witness:
  "\<exists>kept rejections. screen_attempts demo_pandas (map fst (demo_attempt [] [])) False
      [demo_attempt ''0'' ''7'', demo_attempt ''1'' ''7'', demo_attempt ''0'' []] [] = Inr (kept, rejections) \<and>
    kept = [demo_attempt ''0'' ''7''] \<and> dget rejections (''R'', ''c'', ''missing_handshake_energy_uj'') 0 = 1"
proof -
  let ?rows = "[demo_attempt ''0'' ''7'', demo_attempt ''1'' ''7'', demo_attempt ''0'' []]"
  let ?columns = "map fst (demo_attempt [] [])"
  have "\<not> isl (screen_attempts demo_pandas ?columns False ?rows [])" by code_simp
  then obtain kept rejections where ok: "screen_attempts demo_pandas ?columns False ?rows [] = Inr (kept, rejections)"
    by (cases "screen_attempts demo_pandas ?columns False ?rows []") auto
  have "filter (\<lambda>r. first_failure (checks demo_pandas ?columns False) r = None) ?rows = [demo_attempt ''0'' ''7'']"
    "length (filter (\<lambda>r. row_case r = (''R'', ''c'') \<and>
      first_failure (checks demo_pandas ?columns False) r = Some ''missing_handshake_energy_uj'') ?rows) = 1"
    by code_simp+
  with attempts_accounted [OF ok] ok show ?thesis by auto
qed

end
