(* ===== verification/Analysis_Stats.thy ===== *)
theory Analysis_Stats
  imports Attempt_Data
begin

text \<open>
  The correlations of \<open>graphic/analyze_time_energy.py\<close>.  What scipy, statsmodels and numpy compute
  (coefficients, ranks, sums, products, percentiles, random numbers) is the record \<open>statlib\<close>; the
  code decides which rows and which groups they are given, in which order the random numbers are
  drawn, and what is reported when there is too little data.
\<close>

record 'g statlib =
  sl_rng :: "int \<Rightarrow> 'g"
  sl_multinomial :: "nat \<Rightarrow> nat \<Rightarrow> 'g \<Rightarrow> npf list list \<times> 'g"
  sl_pearson :: "npf list \<Rightarrow> npf list \<Rightarrow> npf \<times> npf"
  sl_spearman :: "npf list \<Rightarrow> npf list \<Rightarrow> npf \<times> npf"
  sl_ranks :: "npf list \<Rightarrow> npf list"
  sl_percent_ranks :: "npf list \<Rightarrow> npf list"
  sl_group_mean :: "npf list \<Rightarrow> npf"
  sl_mean :: "npf list \<Rightarrow> npf"
  sl_sum :: "npf list \<Rightarrow> npf"
  sl_dot :: "npf list \<Rightarrow> npf list \<Rightarrow> npf"
  sl_times :: "npf list list \<Rightarrow> npf list list \<Rightarrow> npf list list"
  sl_weighted :: "npf list list \<Rightarrow> npf list list list \<Rightarrow> npf list list list"
  sl_pinv :: "npf list list list \<Rightarrow> npf list list list option"
  sl_percentile :: "npf list \<Rightarrow> rat \<Rightarrow> npf"
  sl_residuals :: "npf list \<Rightarrow> npf list list \<Rightarrow> npf list option"

section \<open>Coefficients\<close>

definition safe_correlation ::
  "'g statlib \<Rightarrow> npf list \<Rightarrow> npf list \<Rightarrow> string \<Rightarrow> npf \<times> npf \<times> nat \<times> string" where
  "safe_correlation S xs ys method =
     (let pair = filter (\<lambda>(x, y). is_num x \<and> is_num y) (zip xs ys); n = length pair in
      if n < 3 then (NaN, NaN, n, ''insufficient_data'')
      else if n_unique (map fst pair) < 2 \<or> n_unique (map snd pair) < 2 then (NaN, NaN, n, ''constant_variable'')
      else case (if method = ''pearson'' then sl_pearson S else sl_spearman S) (map fst pair) (map snd pair) of
        (statistic, pvalue) \<Rightarrow> (statistic, pvalue, n, ''ok''))"

definition bootstrap_interval :: "'g statlib \<Rightarrow> nat \<Rightarrow> npf list \<Rightarrow> npf \<times> npf \<times> nat" where
  "bootstrap_interval S iterations vals =
     (let clean = filter npf_finite vals in
      if length clean < max 20 (iterations div 10) then (NaN, NaN, length clean)
      else (sl_percentile S clean (25 / 10), sl_percentile S clean (975 / 10), length clean))"

section \<open>Cluster bootstrap\<close>

type_synonym pair_sample = "string \<times> npf \<times> npf"

definition xs_of :: "pair_sample list \<Rightarrow> npf list" where
  "xs_of rows = map (\<lambda>(c, x, y). x) rows"

definition ys_of :: "pair_sample list \<Rightarrow> npf list" where
  "ys_of rows = map (\<lambda>(c, x, y). y) rows"

definition complete_samples :: "pair_sample list \<Rightarrow> pair_sample list" where
  "complete_samples rows = filter (\<lambda>(c, x, y). is_num x \<and> is_num y) rows"

definition mean_statistics :: "'g statlib \<Rightarrow> string \<Rightarrow> pair_sample list \<Rightarrow> npf list list" where
  "mean_statistics S method rows =
     (let groups = map snd (group_by fst rows);
          xs0 = map (\<lambda>g. sl_group_mean S (xs_of g)) groups; ys0 = map (\<lambda>g. sl_group_mean S (ys_of g)) groups;
          xs = (if method = ''spearman'' then sl_ranks S xs0 else xs0);
          ys = (if method = ''spearman'' then sl_ranks S ys0 else ys0) in
      map (\<lambda>(x, y). [Num 1, x, y, npf_mul x x, npf_mul y y, npf_mul x y]) (zip xs ys))"

definition center :: "'g statlib \<Rightarrow> npf list \<Rightarrow> npf list" where
  "center S xs = (let m = sl_mean S xs in map (\<lambda>x. npf_sub x m) xs)"

definition group_columns :: "'g statlib \<Rightarrow> string \<Rightarrow> string \<Rightarrow> pair_sample list \<Rightarrow> npf list \<times> npf list" where
  "group_columns S method level g =
     (let ranked = (\<lambda>xs. if method = ''spearman'' then sl_ranks S xs else xs) in
      if level = ''within_case'' then (center S (ranked (xs_of g)), center S (ranked (ys_of g))) else (xs_of g, ys_of g))"

definition group_statistics :: "'g statlib \<Rightarrow> string \<Rightarrow> string \<Rightarrow> pair_sample list \<Rightarrow> npf list list" where
  "group_statistics S method level rows =
     (let pooled = (method = ''spearman'' \<and> level = ''pooled'');
          xs = (if pooled then sl_ranks S (xs_of rows) else xs_of rows);
          ys = (if pooled then sl_ranks S (ys_of rows) else ys_of rows) in
      map (\<lambda>(c, g). case group_columns S method level g of (gx, gy) \<Rightarrow>
          [Num (of_nat (length gx)), sl_sum S gx, sl_sum S gy, sl_dot S gx gx, sl_dot S gy gy, sl_dot S gx gy])
        (group_by fst (zip (map fst rows) (zip xs ys))))"

definition coefficient_of_totals :: "npf list \<Rightarrow> npf" where
  "coefficient_of_totals t =
     (let n = t ! 0; sx = t ! 1; sy = t ! 2;
          covariance = npf_sub (t ! 5) (npf_div (npf_mul sx sy) n);
          variance_x = npf_sub (t ! 3) (npf_div (npf_mul sx sx) n);
          variance_y = npf_sub (t ! 4) (npf_div (npf_mul sy sy) n) in
      npf_div covariance (npf_sqrt (npf_mul variance_x variance_y)))"

definition fast_cluster_correlation_ci ::
  "'g statlib \<Rightarrow> nat \<Rightarrow> string \<Rightarrow> string \<Rightarrow> pair_sample list \<Rightarrow> 'g \<Rightarrow> (npf \<times> npf \<times> nat) \<times> 'g" where
  "fast_cluster_correlation_ci S iterations method level rows g =
     (let subset = complete_samples rows in
      if iterations = 0 \<or> rows = [] \<or> length (group_by fst subset) < 2 then ((NaN, NaN, 0), g)
      else let statistics = (if level = ''between_case'' then mean_statistics S method subset
                 else group_statistics S method level subset);
               (counts, g') = sl_multinomial S (length statistics) iterations g in
        (bootstrap_interval S iterations (map coefficient_of_totals (sl_times S counts statistics)), g'))"

text \<open>
  The general bootstrap over whole clusters, which the tests use: a statistic of a frame is computed
  on frames that repeat the rows of the drawn clusters, each draw under a label of its own.  The draw
  of \<open>size\<close> numbers below it with replacement is \<open>choice\<close>; rows without the column are in no cluster.
\<close>

definition resampled :: "(string \<times> analysed list) list \<Rightarrow> nat list \<Rightarrow> (nat \<times> analysed) list" where
  "resampled clusters drawn =
     concat (map (\<lambda>(label, i). map (Pair label) (snd (clusters ! i))) (zip [0..<length drawn] drawn))"

fun bootstrap_values ::
  "(nat \<Rightarrow> 'g \<Rightarrow> nat list \<times> 'g) \<Rightarrow> ((nat \<times> analysed) list \<Rightarrow> npf) \<Rightarrow> (string \<times> analysed list) list \<Rightarrow> nat \<Rightarrow> 'g \<Rightarrow> npf list \<times> 'g" where
  "bootstrap_values choice statistic clusters 0 g = ([], g)"
| "bootstrap_values choice statistic clusters (Suc n) g =
     (let (drawn, g') = choice (length clusters) g; v = statistic (resampled clusters drawn);
          (vs, g'') = bootstrap_values choice statistic clusters n g' in
      (if npf_finite v then v # vs else vs, g''))"

definition clusters_of :: "string \<Rightarrow> analysed list \<Rightarrow> (string \<times> analysed list) list" where
  "clusters_of fld frame = group_by (text_cell fld) (filter (\<lambda>a. dhas (an_text a) fld) frame)"

definition cluster_bootstrap_ci ::
  "(nat \<Rightarrow> 'g \<Rightarrow> nat list \<times> 'g) \<Rightarrow> 'g statlib \<Rightarrow> ((nat \<times> analysed) list \<Rightarrow> npf) \<Rightarrow> nat \<Rightarrow> string \<Rightarrow> analysed list \<Rightarrow> 'g \<Rightarrow>
     (npf \<times> npf \<times> nat) \<times> 'g" where
  "cluster_bootstrap_ci choice S statistic iterations fld frame g =
     (let clusters = clusters_of fld frame in
      if iterations = 0 \<or> frame = [] \<or> length clusters < 2 then ((NaN, NaN, 0), g)
      else let (vals, g') = bootstrap_values choice statistic clusters iterations g in
        (if length vals < max 20 (iterations div 10) then (NaN, NaN, length vals)
         else (sl_percentile S vals (25 / 10), sl_percentile S vals (975 / 10), length vals), g'))"

text \<open>
  A resampled frame keeps clusters whole: under the label of a draw it has exactly the rows of the
  drawn cluster, which are all the rows of the frame with the same text in the column.
\<close>

lemma filter_index_zip:
  "j < length xs \<Longrightarrow> filter (\<lambda>(i, x). i = j) (zip [0..<length xs] xs) = [(j, xs ! j)]"
proof (induction xs rule: rev_induct)
  case (snoc x xs)
  have none: "filter (\<lambda>(i, x). i = length xs) (zip [0..<length xs] xs) = []"
    by (auto simp: filter_empty_conv dest: set_zip_leftD)
  show ?case
  proof (cases "j < length xs")
    case True
    with snoc.IH show ?thesis by (simp add: nth_append)
  next
    case False
    with snoc.prems have "j = length xs" by simp
    with none show ?thesis by simp
  qed
qed simp

lemma resampled_label:
  assumes "j < length drawn" "drawn ! j < length (clusters_of fld frame)"
  shows "map snd (filter (\<lambda>(label, a). label = j) (resampled (clusters_of fld frame) drawn)) =
    filter (\<lambda>a. map_of (an_text a) fld = Some (fst (clusters_of fld frame ! (drawn ! j)))) frame"
proof -
  let ?cs = "clusters_of fld frame"
  have pick: "map snd (filter (\<lambda>(label, a). label = j) (concat (map (\<lambda>(label, i). map (Pair label) (snd (?cs ! i))) ps))) =
      concat (map (\<lambda>(label, i). snd (?cs ! i)) (filter (\<lambda>(label, i). label = j) ps))" for ps :: "(nat \<times> nat) list"
    by (induction ps) (auto simp: filter_map o_def)
  have only: "filter (\<lambda>(label, i). label = j) (zip [0..<length drawn] drawn) = [(j, drawn ! j)]"
    using assms(1) by (rule filter_index_zip)
  obtain k g where kg: "?cs ! (drawn ! j) = (k, g)" by (cases "?cs ! (drawn ! j)")
  then have "(k, g) \<in> set ?cs" using assms(2) by (metis nth_mem)
  then have "g = filter (\<lambda>a. text_cell fld a = k) (filter (\<lambda>a. dhas (an_text a) fld) frame)"
    by (simp add: clusters_of_def group_by_items)
  also have "\<dots> = filter (\<lambda>a. map_of (an_text a) fld = Some k) frame"
    by (auto simp: text_cell_def dget_def dhas_def intro!: filter_cong split: option.splits)
  finally show ?thesis by (simp add: resampled_def pick only kg)
qed

section \<open>Tables of correlations\<close>

definition CORRELATION_SPECS :: "(string \<times> string \<times> string) list" where
  "CORRELATION_SPECS = [(''handshake_time_energy'', ''raw_handshake_ms'', ''handshake_energy_uj''),
     (''kem_time_energy'', ''kem_time_ms'', ''client_kem_energy_uj''),
     (''signature_time_energy'', ''signature_time_ms'', ''client_signature_energy_uj''),
     (''total_time_energy'', ''end_to_end_ms'', ''total_execution_energy_uj''),
     (''signature_size_communication'', ''sig_signature_bytes'', ''communication_overhead_ms'')]"

record correlation_row =
  co_analysis :: string
  co_level :: string
  co_method :: string
  co_x :: string
  co_y :: string
  co_controls :: "string list"
  co_n :: nat
  co_cases :: nat
  co_coefficient :: npf
  co_p_value :: npf
  co_interval :: "npf \<times> npf \<times> nat"
  co_status :: string

definition METHODS :: "string list" where
  "METHODS = [''pearson'', ''spearman'']"

definition dropna :: "string list \<Rightarrow> analysed list \<Rightarrow> analysed list" where
  "dropna flds data = filter (\<lambda>a. list_all (\<lambda>fld. is_num (num a fld)) flds) data"

definition samples :: "string \<Rightarrow> string \<Rightarrow> string \<Rightarrow> analysed list \<Rightarrow> pair_sample list" where
  "samples cluster x y data = map (\<lambda>a. (text_cell cluster a, num a x, num a y)) data"

definition column :: "string \<Rightarrow> analysed list \<Rightarrow> npf list" where
  "column fld data = map (\<lambda>a. num a fld) data"

text \<open>Every row of a table draws from the generator the row before it left.\<close>

fun thread :: "('a \<Rightarrow> 'g \<Rightarrow> 'b \<times> 'g) \<Rightarrow> 'a list \<Rightarrow> 'g \<Rightarrow> 'b list \<times> 'g" where
  "thread f [] g = ([], g)"
| "thread f (x # xs) g = (case f x g of (y, g1) \<Rightarrow> case thread f xs g1 of (ys, g2) \<Rightarrow> (y # ys, g2))"

definition correlation_of ::
  "'g statlib \<Rightarrow> nat \<Rightarrow> analysed list \<Rightarrow> (string \<times> string \<times> string) \<times> string \<Rightarrow> 'g \<Rightarrow> correlation_row \<times> 'g" where
  "correlation_of S iterations data spec g = (case spec of ((analysis, x, y), method) \<Rightarrow>
     (let subset = dropna [x, y] data in
      case safe_correlation S (column x subset) (column y subset) method of (coefficient, p_value, n, status) \<Rightarrow>
      case fast_cluster_correlation_ci S iterations method ''pooled'' (samples ''session_id'' x y subset) g of (ci, g') \<Rightarrow>
      (\<lparr>co_analysis = analysis, co_level = [], co_method = method, co_x = x, co_y = y, co_controls = [], co_n = n, co_cases = 0,
        co_coefficient = coefficient, co_p_value = p_value, co_interval = ci, co_status = status\<rparr>, g')))"

definition correlation_table :: "'g statlib \<Rightarrow> nat \<Rightarrow> int \<Rightarrow> analysed list \<Rightarrow> correlation_row list" where
  "correlation_table S iterations seed data =
     fst (thread (correlation_of S iterations data) (List.product CORRELATION_SPECS METHODS) (sl_rng S seed))"

text \<open>A function of the values of a group, at the places of its rows.\<close>

definition transform_groups :: "(npf list \<Rightarrow> npf list) \<Rightarrow> string list \<Rightarrow> npf list \<Rightarrow> npf list" where
  "transform_groups f keys xs = map (\<lambda>i. let ps = filter (\<lambda>j. keys ! j = keys ! i) [0..<length xs] in
     f (map ((!) xs) ps) ! length (filter (\<lambda>j. j < i) ps)) [0..<length xs]"

definition center_groups :: "'g statlib \<Rightarrow> string \<Rightarrow> string list \<Rightarrow> npf list \<Rightarrow> npf list" where
  "center_groups S method keys xs0 =
     (let xs = (if method = ''spearman'' then transform_groups (sl_percent_ranks S) keys xs0 else xs0) in
      map2 npf_sub xs (transform_groups (\<lambda>vs. replicate (length vs) (sl_group_mean S vs)) keys xs))"

text \<open>The column of the clusters is always there, so the answer for its absence is left out.\<close>

definition correlation_at_level ::
  "'g statlib \<Rightarrow> analysed list \<Rightarrow> string \<Rightarrow> string \<Rightarrow> string \<Rightarrow> string \<Rightarrow> (npf \<times> npf \<times> nat \<times> string) res" where
  "correlation_at_level S data x y method level =
     (let subset = dropna [x, y] data; keys = map (text_cell ''case_cluster_id'') subset;
          groups = map snd (sort_key fst (group_by (text_cell ''case_cluster_id'') subset)) in
      if level = ''pooled'' then Inr (safe_correlation S (column x subset) (column y subset) method)
      else if level = ''between_case'' then
        Inr (safe_correlation S (map (\<lambda>g. sl_group_mean S (column x g)) groups) (map (\<lambda>g. sl_group_mean S (column y g)) groups) method)
      else if level \<noteq> ''within_case'' then Inl (ValueError (''Unknown correlation level: '' @ level))
      else Inr (safe_correlation S (center_groups S method keys (column x subset))
        (center_groups S method keys (column y subset)) ''pearson''))"

definition LEVELS :: "string list" where
  "LEVELS = [''pooled'', ''between_case'', ''within_case'']"

definition level_correlation_of ::
  "'g statlib \<Rightarrow> nat \<Rightarrow> analysed list \<Rightarrow> (string \<times> string \<times> string) \<times> string \<times> string \<Rightarrow> 'g \<Rightarrow> correlation_row res \<times> 'g" where
  "level_correlation_of S iterations data spec g = (case spec of ((analysis, x, y), method, level) \<Rightarrow>
     (let subset = dropna [x, y] data in
      case fast_cluster_correlation_ci S iterations method level (samples ''case_cluster_id'' x y subset) g of (ci, g') \<Rightarrow>
      (bindr (correlation_at_level S subset x y method level) (\<lambda>(coefficient, p_value, n, status).
        Inr \<lparr>co_analysis = analysis, co_level = level, co_method = method, co_x = x, co_y = y, co_controls = [], co_n = n,
          co_cases = n_unique (map (text_cell ''case_cluster_id'') subset), co_coefficient = coefficient,
          co_p_value = p_value, co_interval = ci, co_status = status\<rparr>), g')))"

definition between_within_correlation_table ::
  "'g statlib \<Rightarrow> nat \<Rightarrow> int \<Rightarrow> analysed list \<Rightarrow> correlation_row list res" where
  "between_within_correlation_table S iterations seed data =
     mapr id (fst (thread (level_correlation_of S iterations data)
       (List.product CORRELATION_SPECS (List.product METHODS LEVELS)) (sl_rng S (seed + 10))))"

section \<open>Partial correlations\<close>

definition run_dummies :: "string list \<Rightarrow> npf list list" where
  "run_dummies runs = (if n_unique runs > 1
     then map (\<lambda>run. map (\<lambda>r. if r = run then Num 1 else Num 0) runs) (tl (sort (remdups runs))) else [])"

text \<open>The residuals of a column after the controls, a constant and the runs.\<close>

definition residualize :: "'g statlib \<Rightarrow> string list \<Rightarrow> npf list \<Rightarrow> npf list list \<Rightarrow> npf list option" where
  "residualize S runs target controls =
     sl_residuals S target (map (\<lambda>_. Num 1) target # controls @ run_dummies runs)"

definition run_ids :: "analysed list \<Rightarrow> string list" where
  "run_ids data = map (text_cell ''run_id'') data"

definition partial_coefficient ::
  "'g statlib \<Rightarrow> analysed list \<Rightarrow> string \<Rightarrow> string \<Rightarrow> string list \<Rightarrow> string \<Rightarrow> (npf \<times> npf \<times> nat \<times> string) res" where
  "partial_coefficient S data x y controls method =
     (let subset = dropna (x # y # controls) data; n = length subset in
      if n \<le> length controls + 2 then Inr (NaN, NaN, n, ''insufficient_data'')
      else if method \<notin> set METHODS then Inl (ValueError (''Unknown partial-correlation method: '' @ method))
      else let col = (\<lambda>fld. if method = ''spearman'' then sl_ranks S (column fld subset) else column fld subset) in
        Inr (case (residualize S (run_ids subset) (col x) (map col controls),
                   residualize S (run_ids subset) (col y) (map col controls)) of
            (Some xs, Some ys) \<Rightarrow> safe_correlation S xs ys ''pearson''
          | _ \<Rightarrow> (NaN, NaN, n, ''singular_controls'')))"

definition rows_of :: "npf list list \<Rightarrow> npf list list" where
  "rows_of columns = transpose columns"

definition centered_products :: "npf \<Rightarrow> npf list \<Rightarrow> npf list list \<Rightarrow> npf list list" where
  "centered_products n totals cross =
     map2 (\<lambda>a row. map2 (\<lambda>b v. npf_sub v (npf_div (npf_mul a b) n)) totals row) totals cross"

definition partial_of_precision :: "npf list list \<Rightarrow> npf" where
  "partial_of_precision p = npf_div (npf_neg (p ! 0 ! 1)) (npf_sqrt (npf_mul (p ! 0 ! 0) (p ! 1 ! 1)))"

definition fast_cluster_partial_ci ::
  "'g statlib \<Rightarrow> nat \<Rightarrow> string \<Rightarrow> string \<Rightarrow> string list \<Rightarrow> string \<Rightarrow> analysed list \<Rightarrow> 'g \<Rightarrow> (npf \<times> npf \<times> nat) \<times> 'g" where
  "fast_cluster_partial_ci S iterations x y controls method data g =
     (let subset = dropna (x # y # controls) data;
          col = (\<lambda>fld. if method = ''spearman'' then sl_ranks S (column fld subset) else column fld subset);
          vals = rows_of (map col (x # y # controls) @ run_dummies (run_ids subset));
          chunks = map (map snd \<circ> snd) (group_by fst (zip (map (text_cell ''case_cluster_id'') subset) vals)) in
      if iterations = 0 \<or> data = [] \<or> length chunks < 2 then ((NaN, NaN, 0), g)
      else let (weights, g') = sl_multinomial S (length chunks) iterations g;
               counts = map (\<lambda>c. [Num (of_nat (length c))]) chunks;
               col_sums = map (\<lambda>c. map (sl_sum S) (transpose c)) chunks;
               total_n = map hd (sl_times S weights counts);
               total_sum = sl_times S weights col_sums;
               total_cross = sl_weighted S weights (map (\<lambda>c. sl_times S (transpose c) c) chunks);
               centered = map (\<lambda>(n, s, c). centered_products n s c) (zip total_n (zip total_sum total_cross)) in
        (case sl_pinv S centered of None \<Rightarrow> (NaN, NaN, 0)
         | Some precision \<Rightarrow> bootstrap_interval S iterations (map partial_of_precision precision), g'))"

definition PARTIAL_SPECS :: "(string \<times> string \<times> string \<times> string list) list" where
  "PARTIAL_SPECS = [
     (''signature_total_energy'', ''signature_time_ms'', ''handshake_energy_uj'', [''kem_time_ms'', ''communication_overhead_ms'']),
     (''signature_window_energy'', ''signature_time_ms'', ''client_signature_energy_uj'', [''kem_time_ms'', ''communication_overhead_ms'']),
     (''kem_total_energy'', ''kem_time_ms'', ''handshake_energy_uj'', [''signature_time_ms'', ''communication_overhead_ms'']),
     (''kem_window_energy'', ''kem_time_ms'', ''client_kem_energy_uj'', [''signature_time_ms'', ''communication_overhead_ms'']),
     (''signature_handshake_time'', ''signature_time_ms'', ''raw_handshake_ms'', [''kem_time_ms'', ''communication_overhead_ms'']),
     (''kem_handshake_time'', ''kem_time_ms'', ''raw_handshake_ms'', [''signature_time_ms'', ''communication_overhead_ms'']),
     (''communication_handshake_time'', ''communication_overhead_ms'', ''raw_handshake_ms'', [''kem_time_ms'', ''signature_time_ms''])]"

definition partial_row_of ::
  "'g statlib \<Rightarrow> nat \<Rightarrow> analysed list \<Rightarrow> (string \<times> string \<times> string \<times> string list) \<times> string \<Rightarrow> 'g \<Rightarrow> correlation_row res \<times> 'g" where
  "partial_row_of S iterations data spec g = (case spec of ((name, x, y, controls), method) \<Rightarrow>
     (let subset = dropna (x # y # controls) data in
      case fast_cluster_partial_ci S iterations x y controls method subset g of (ci, g') \<Rightarrow>
      (bindr (partial_coefficient S subset x y controls method) (\<lambda>(coefficient, p_value, n, status).
        Inr \<lparr>co_analysis = name, co_level = [], co_method = method, co_x = x, co_y = y, co_controls = controls, co_n = n,
          co_cases = n_unique (map (text_cell ''case_cluster_id'') subset), co_coefficient = coefficient,
          co_p_value = p_value, co_interval = ci, co_status = status\<rparr>), g')))"

text \<open>The residuals of the analyses whose Pearson coefficient was computed.\<close>

definition partial_residuals ::
  "'g statlib \<Rightarrow> analysed list \<Rightarrow> (string \<times> string \<times> string \<times> string list) \<times> correlation_row \<Rightarrow> (string \<times> npf list \<times> npf list) option" where
  "partial_residuals S data p = (case p of ((name, x, y, controls), r) \<Rightarrow>
     (let subset = dropna (x # y # controls) data; cs = map (\<lambda>fld. column fld subset) controls in
      if co_method r = ''pearson'' \<and> co_status r = ''ok''
      then (case (residualize S (run_ids subset) (column x subset) cs, residualize S (run_ids subset) (column y subset) cs) of
          (Some xs, Some ys) \<Rightarrow> Some (name, xs, ys) | _ \<Rightarrow> None)
      else None))"

definition partial_correlation_table ::
  "'g statlib \<Rightarrow> nat \<Rightarrow> int \<Rightarrow> analysed list \<Rightarrow> (correlation_row list \<times> (string \<times> npf list \<times> npf list) list) res" where
  "partial_correlation_table S iterations seed data =
     (let specs = List.product PARTIAL_SPECS METHODS in
      bindr (mapr id (fst (thread (partial_row_of S iterations data) specs (sl_rng S (seed + 1))))) (\<lambda>rows.
      Inr (rows, somes (map (partial_residuals S data) (zip (map fst specs) rows)))))"

end
