(* ===== verification/Analysis_Models.thy ===== *)
theory Analysis_Models
  imports Analysis_Stats
begin

text \<open>
  The models of \<open>graphic/analyze_time_energy.py\<close>: mixed and factorial models of time and energy,
  the comparison of NIST levels and the effect of signature sizes.  Fitting is a parameter
  (\<open>modellib\<close>: statsmodels, with an exception as its text); the code decides whether there is
  enough data, which formula is fitted to which rows, which optimizers are tried, and what is
  reported when fitting fails.
\<close>

record fit_term =
  ft_name :: string
  ft_value :: npf
  ft_error :: npf
  ft_p_value :: npf
  ft_low :: npf
  ft_high :: npf

record fitted =
  fi_converged :: bool
  fi_terms :: "fit_term list"
  fi_values :: "npf list"
  fi_residuals :: "npf list"
  fi_summary :: string

record anova_term =
  av_term :: string
  av_sum_sq :: npf
  av_df :: npf
  av_f :: npf
  av_p_value :: npf

text \<open>
  A mixed model is built from a formula, the rows, the group of each row and whether sessions are a
  variance component; building can fail.  Fitting with an optimizer fails or gives the warnings that
  were raised and a result.
\<close>

type_synonym mixed_model = "string \<Rightarrow> string + string list \<times> fitted"

record modellib =
  ml_std :: "npf list \<Rightarrow> npf"
  ml_sample_std :: "npf list \<Rightarrow> npf"
  ml_np_sample_std :: "npf list \<Rightarrow> npf"
  ml_mean :: "npf list \<Rightarrow> npf"
  ml_group_mean :: "npf list \<Rightarrow> npf"
  ml_median :: "npf list \<Rightarrow> npf"
  ml_log :: "npf \<Rightarrow> npf"
  ml_t_quantile :: "nat \<Rightarrow> npf"
  ml_mixedlm :: "string \<Rightarrow> analysed list \<Rightarrow> string list \<Rightarrow> bool \<Rightarrow> string + mixed_model"
  ml_factorial :: "string \<Rightarrow> analysed list \<Rightarrow> string list \<Rightarrow> string + anova_term list \<times> fitted"
  ml_fdr_bh :: "npf list \<Rightarrow> npf list"
  ml_influence :: "npf list \<Rightarrow> npf list list \<Rightarrow> (npf \<times> npf) list"

section \<open>Mixed models\<close>

record model_fit =
  mf_name :: string
  mf_status :: string
  mf_result :: "fitted option"
  mf_formula :: string
  mf_message :: string

record coefficient_row =
  cf_model :: string
  cf_status :: string
  cf_response :: string
  cf_term :: fit_term
  cf_n :: nat
  cf_cases :: nat
  cf_sessions :: nat
  cf_chains :: nat
  cf_formula :: string

definition no_fit :: "string \<Rightarrow> string \<Rightarrow> string \<Rightarrow> string \<Rightarrow> model_fit" where
  "no_fit name status formula message =
     \<lparr>mf_name = name, mf_status = status, mf_result = None, mf_formula = formula, mf_message = message\<rparr>"

definition zscore :: "modellib \<Rightarrow> npf list \<Rightarrow> npf list" where
  "zscore M xs = (let s = ml_std M xs in
     if \<not> npf_finite s \<or> s = Num 0 then map (\<lambda>_. NaN) xs
     else let m = ml_mean M xs in map (\<lambda>x. npf_div (npf_sub x m) s) xs)"

definition set_column :: "string \<Rightarrow> npf list \<Rightarrow> analysed list \<Rightarrow> analysed list" where
  "set_column fld vals data = map2 (set_num fld) vals data"

definition standardize :: "modellib \<Rightarrow> string \<Rightarrow> analysed list \<Rightarrow> analysed list" where
  "standardize M fld data = set_column (''z_'' @ fld) (zscore M (column fld data)) data"

definition count_of :: "string \<Rightarrow> analysed list \<Rightarrow> nat" where
  "count_of fld data = n_unique (map (text_cell fld) data)"

definition formula_of :: "string \<Rightarrow> string list \<Rightarrow> analysed list \<Rightarrow> string" where
  "formula_of response terms data = response @ '' ~ '' @
     join '' + '' (terms @ (if count_of ''run_id'' data > 1 then [''C(run_id)''] else []))"

text \<open>
  The optimizers are tried in order until one converges; a result that did not converge is kept
  until a later optimizer gives another.
\<close>

fun try_optimizers :: "mixed_model \<Rightarrow> string list \<Rightarrow> fitted option \<Rightarrow> string list \<Rightarrow> fitted option \<times> string list" where
  "try_optimizers model [] best messages = (best, messages)"
| "try_optimizers model (m # ms) best messages = (case model m of
     Inl e \<Rightarrow> try_optimizers model ms best (messages @ [m @ '': '' @ e])
   | Inr (warned, candidate) \<Rightarrow> if fi_converged candidate then (Some candidate, messages @ warned)
       else try_optimizers model ms (Some candidate) (messages @ warned))"

definition OPTIMIZERS :: "string list" where
  "OPTIMIZERS = [''lbfgs'', ''powell'']"

definition converged_status :: "fitted \<Rightarrow> string" where
  "converged_status f = (if fi_converged f then ''ok'' else ''not_converged'')"

text \<open>The end of both mixed models: the fit and a row for each term.\<close>

definition fit_built_model ::
  "string \<Rightarrow> string \<Rightarrow> string + mixed_model \<Rightarrow> (string \<Rightarrow> fit_term \<Rightarrow> coefficient_row) \<Rightarrow> model_fit \<times> coefficient_row list" where
  "fit_built_model name formula built row_for_term = (case built of
     Inl e \<Rightarrow> (no_fit name ''model_error'' formula e, [])
   | Inr model \<Rightarrow> (case try_optimizers model OPTIMIZERS None [] of
       (None, messages) \<Rightarrow> (no_fit name ''model_error'' formula (join '' | '' messages), [])
     | (Some f, messages) \<Rightarrow> (\<lparr>mf_name = name, mf_status = converged_status f, mf_result = Some f, mf_formula = formula,
           mf_message = join '' | '' messages\<rparr>, map (row_for_term (converged_status f)) (fi_terms f))))"

definition coefficient_row_of ::
  "string \<Rightarrow> string \<Rightarrow> nat \<Rightarrow> string \<Rightarrow> analysed list \<Rightarrow> string \<Rightarrow> fit_term \<Rightarrow> coefficient_row" where
  "coefficient_row_of name response n_chains formula data status t =
     \<lparr>cf_model = name, cf_status = status, cf_response = response, cf_term = t, cf_n = length data,
      cf_cases = count_of ''case_cluster_id'' data, cf_sessions = count_of ''session_id'' data, cf_chains = n_chains,
      cf_formula = formula\<rparr>"

definition fit_mixed_model ::
  "modellib \<Rightarrow> analysed list \<Rightarrow> string \<Rightarrow> string \<Rightarrow> string list \<Rightarrow> bool \<Rightarrow> model_fit \<times> coefficient_row list" where
  "fit_mixed_model M data name response predictors standardized =
     (let rows0 = dropna (response # predictors) data in
      if length rows0 < max 12 (length predictors + 6) then (no_fit name ''insufficient_data'' [] ''too few rows'', [])
      else if count_of ''case_cluster_id'' rows0 < 2 \<or> count_of ''session_id'' rows0 < 2
      then (no_fit name ''insufficient_data'' [] ''too few cases or sessions'', [])
      else let z = (\<lambda>fld. if standardized then ''z_'' @ fld else fld);
               rows = (if standardized then fold (standardize M) (response # predictors) rows0 else rows0) in
        if standardized \<and> dropna (map z (response # predictors)) rows \<noteq> rows
        then (no_fit name ''constant_variable'' [] ''cannot standardize'', [])
        else let formula = formula_of (z response) (map z predictors) rows in
          fit_built_model name formula (ml_mixedlm M formula rows (map (text_cell ''case_cluster_id'') rows) True)
            (coefficient_row_of name [] 0 [] rows))"

section \<open>Factorial models\<close>

definition SESSION_TEXTS :: "string list" where
  "SESSION_TEXTS = [''run_id'', ''case_cluster_id'', ''case_id'', ''session_id'', ''kex_group'', ''pki_chain_id'', ''pki_kind'',
     ''root_sig_alg'', ''leaf_sig_alg'']"

text \<open>One row for each session, with the mean of its positive responses.\<close>

definition session_level_frame :: "modellib \<Rightarrow> analysed list \<Rightarrow> string \<Rightarrow> analysed list" where
  "session_level_frame M data response =
     (let rows = filter (\<lambda>a. npf_lt (Num 0) (num a response)) (dropna [response] data) in
      map (\<lambda>(key, g). \<lparr>an_text = zip SESSION_TEXTS key, an_num = [(response, ml_group_mean M (column response g))]\<rparr>)
        (sort_key fst (group_by (\<lambda>a. map (\<lambda>fld. text_cell fld a) SESSION_TEXTS) rows)))"

definition add_log :: "modellib \<Rightarrow> string \<Rightarrow> string \<Rightarrow> analysed list \<Rightarrow> analysed list" where
  "add_log M target source data = map (\<lambda>a. set_num target (ml_log M (num a source)) a) data"

record anova_row =
  ar_model :: string
  ar_response :: string
  ar_term :: anova_term
  ar_eta :: npf
  ar_partial_eta :: npf
  ar_n :: nat
  ar_cases :: nat
  ar_sessions :: nat
  ar_formula :: string

definition anova_rows :: "string \<Rightarrow> string \<Rightarrow> string \<Rightarrow> analysed list \<Rightarrow> anova_term list \<Rightarrow> anova_row list" where
  "anova_rows name response formula data terms =
     (let residual = (case find (\<lambda>t. av_term t = ''Residual'') terms of None \<Rightarrow> NaN | Some t \<Rightarrow> av_sum_sq t);
          whole = npf_sum (filter is_num (map av_sum_sq terms)) in
      map (\<lambda>t. \<lparr>ar_model = name, ar_response = response, ar_term = t, ar_eta = npf_div (av_sum_sq t) whole,
        ar_partial_eta = (if av_term t = ''Residual'' then NaN
          else npf_div (av_sum_sq t) (npf_add (av_sum_sq t) residual)),
        ar_n = length data, ar_cases = count_of ''case_cluster_id'' data, ar_sessions = count_of ''session_id'' data,
        ar_formula = formula\<rparr>) terms)"

definition too_few_levels :: "nat \<Rightarrow> analysed list \<Rightarrow> bool" where
  "too_few_levels n data \<longleftrightarrow> length data < n \<or> count_of ''kex_group'' data < 2 \<or> count_of ''pki_chain_id'' data < 2"

definition fit_factorial_model ::
  "modellib \<Rightarrow> analysed list \<Rightarrow> string \<Rightarrow> string \<Rightarrow> model_fit \<times> anova_row list \<times> coefficient_row list" where
  "fit_factorial_model M data name response =
     (let sessions = session_level_frame M data response in
      if too_few_levels 12 sessions then (no_fit name ''insufficient_data'' [] ''too few factor levels'', [], [])
      else let rows = add_log M ''log_response'' response sessions;
               formula = formula_of ''log_response'' [''C(kex_group) * C(pki_chain_id)''] rows in
        (case ml_factorial M formula rows (map (text_cell ''case_cluster_id'') rows) of
           Inl e \<Rightarrow> (no_fit name ''model_error'' formula e, [], [])
         | Inr (terms, f) \<Rightarrow> (\<lparr>mf_name = name, mf_status = ''ok'', mf_result = Some f, mf_formula = formula, mf_message = []\<rparr>,
             anova_rows name response formula rows terms,
             map (coefficient_row_of name response 0 formula rows ''ok'') (fi_terms f))))"

definition fit_factorial_mixed_model ::
  "modellib \<Rightarrow> analysed list \<Rightarrow> string \<Rightarrow> string \<Rightarrow> model_fit \<times> coefficient_row list" where
  "fit_factorial_mixed_model M data name response =
     (let sessions = session_level_frame M data response in
      if too_few_levels 20 sessions then (no_fit name ''insufficient_data'' [] ''too few factor levels'', [])
      else let rows = add_log M ''log_response'' response sessions;
               formula = formula_of ''log_response'' [''C(kex_group) * C(pki_kind)''] rows in
        fit_built_model name formula (ml_mixedlm M formula rows (map (text_cell ''pki_chain_id'') rows) False)
          (coefficient_row_of name response (count_of ''pki_chain_id'' rows) formula rows))"

section \<open>Outliers\<close>

definition OUTLIER_FIELDS :: "string list" where
  "OUTLIER_FIELDS = [''handshake_energy_uj'', ''signature_time_ms'', ''kem_time_ms'', ''communication_overhead_ms'', ''l2cap_tx_bytes'']"

text \<open>Standardized residual above three and Cook's distance above four over n, by row.\<close>

definition outlier_flags :: "modellib \<Rightarrow> analysed list \<Rightarrow> (bool \<times> bool) list" where
  "outlier_flags M data =
     (let rows = dropna OUTLIER_FIELDS data; n = length rows in
      if n \<le> length OUTLIER_FIELDS + 2 then map (\<lambda>_. (False, False)) data
      else let influence = ml_influence M (map (\<lambda>a. ml_log M (num a ''handshake_energy_uj'')) rows)
                 (map (\<lambda>_. Num 1) rows # map (\<lambda>fld. column fld rows) (tl OUTLIER_FIELDS));
               flags = map (\<lambda>(r, c). (npf_lt (Num 3) (npf_abs r), npf_lt (np_round (4 / of_nat n)) c)) influence;
               complete_row = (\<lambda>a. list_all (\<lambda>fld. is_num (num a fld)) OUTLIER_FIELDS) in
        map (\<lambda>i. if complete_row (data ! i) then flags ! length (filter complete_row (take i data)) else (False, False))
          [0..<length data])"

section \<open>NIST levels\<close>

record nist_row =
  ni_analysis :: string
  ni_domain :: string
  ni_metric :: string
  ni_level :: string
  ni_n :: nat
  ni_figures :: "npf list"
  ni_p_value :: npf
  ni_status :: string
  ni_formula :: string
  ni_message :: string

definition NIST_SPECS :: "(string \<times> string \<times> string list) list" where
  "NIST_SPECS = [(''kem'', ''kex_nist_level'', [''kem_time_ms'', ''client_kem_energy_uj'', ''client_kem_edp_mj_s'']),
     (''signature'', ''sig_nist_level'', [''signature_time_ms'', ''client_signature_energy_uj'', ''client_signature_edp_mj_s''])]"

definition t_half_width :: "modellib \<Rightarrow> npf list \<Rightarrow> npf" where
  "t_half_width M xs = (let clean = filter npf_finite xs; n = length clean in
     if n < 2 then NaN
     else npf_div (npf_mul (ml_t_quantile M (n - 1)) (ml_np_sample_std M clean)) (npf_sqrt (Num (of_nat n))))"

definition model_row :: "string \<Rightarrow> string \<Rightarrow> string \<Rightarrow> string \<Rightarrow> string \<Rightarrow> nist_row" where
  "model_row domain metric status formula message =
     \<lparr>ni_analysis = ''categorical_mixed_model'', ni_domain = domain, ni_metric = metric, ni_level = [], ni_n = 0,
      ni_figures = [], ni_p_value = NaN, ni_status = status, ni_formula = formula, ni_message = message\<rparr>"

text \<open>The optimizers are tried as above, without their messages.\<close>

definition categorical_nist_model :: "modellib \<Rightarrow> analysed list \<Rightarrow> string \<Rightarrow> string \<Rightarrow> string \<Rightarrow> nist_row list" where
  "categorical_nist_model M data domain level_field metric =
     (let rows0 = dropna [level_field, metric] data in
      if length rows0 < 12 \<or> n_unique (column level_field rows0) < 2 \<or> count_of ''case_id'' rows0 < 2
      then [model_row domain metric ''insufficient_data'' [] []]
      else let rows = add_log M ''log_metric'' metric rows0;
               level_term = ''C('' @ level_field @ '')'';
               formula = formula_of ''log_metric'' [level_term, ''C(algorithm_category)''] rows in
        (case ml_mixedlm M formula rows (map (text_cell ''case_id'') rows) True of
           Inl e \<Rightarrow> [model_row domain metric ''model_error'' [] e]
         | Inr model \<Rightarrow> (case fst (try_optimizers model OPTIMIZERS None []) of
             None \<Rightarrow> [model_row domain metric ''model_error'' [] ''all mixed-model optimizers failed'']
           | Some f \<Rightarrow> (case filter (\<lambda>t. startswith (ft_name t) level_term) (fi_terms f) of
               [] \<Rightarrow> [model_row domain metric ''no_level_contrast'' formula []]
             | ts \<Rightarrow> map (\<lambda>t. (model_row domain metric (converged_status f) formula [])
                 \<lparr>ni_level := ft_name t, ni_n := length rows, ni_p_value := ft_p_value t,
                  ni_figures := [ft_value t, ft_error t, ft_low t, ft_high t]\<rparr>) ts))))"

definition int_of_level :: "npf \<Rightarrow> int res" where
  "int_of_level v = (case v of Num x \<Rightarrow> Inr (py_trunc x) | NaN \<Rightarrow> Inl (ValueError ''cannot convert float NaN to integer'')
     | _ \<Rightarrow> Inl OverflowError)"

definition described_level :: "modellib \<Rightarrow> string \<Rightarrow> string \<Rightarrow> npf \<times> npf list \<Rightarrow> nist_row res" where
  "described_level M domain metric g = (case g of (level, vals) \<Rightarrow>
     bindr (int_of_level level) (\<lambda>i. Inr
     \<lparr>ni_analysis = ''descriptive'', ni_domain = domain, ni_metric = metric, ni_level = str_int i, ni_n = length vals,
      ni_figures = [ml_mean M vals, ml_median M vals, ml_sample_std M vals, t_half_width M vals], ni_p_value = NaN,
      ni_status = ''ok'', ni_formula = [], ni_message = []\<rparr>))"

definition nist_metric_rows ::
  "'g statlib \<Rightarrow> modellib \<Rightarrow> analysed list \<Rightarrow> string \<times> string \<times> string \<Rightarrow> nist_row list res" where
  "nist_metric_rows S M data spec = (case spec of (domain, level_field, metric) \<Rightarrow>
     (let rows = dropna [level_field, metric] data in
      case safe_correlation S (column level_field rows) (column metric rows) ''spearman'' of (coefficient, p_value, n, status) \<Rightarrow>
      bindr (mapr (described_level M domain metric)
        (sort_key (npf_key \<circ> fst) (map (\<lambda>(level, g). (level, map snd g))
          (group_by fst (map (\<lambda>a. (num a level_field, num a metric)) rows))))) (\<lambda>described.
      Inr (\<lparr>ni_analysis = ''ordinal_spearman'', ni_domain = domain, ni_metric = metric, ni_level = [], ni_n = n,
       ni_figures = [coefficient], ni_p_value = p_value, ni_status = status, ni_formula = [], ni_message = []\<rparr> #
        described @ categorical_nist_model M data domain level_field metric))))"

text \<open>The p-values that exist are adjusted together; the others stay missing.\<close>

fun spread_over :: "npf list \<Rightarrow> bool list \<Rightarrow> npf list" where
  "spread_over xs [] = []"
| "spread_over xs (True # bs) = (case xs of [] \<Rightarrow> NaN # spread_over [] bs | y # ys \<Rightarrow> y # spread_over ys bs)"
| "spread_over xs (False # bs) = NaN # spread_over xs bs"

definition nist_comparisons :: "'g statlib \<Rightarrow> modellib \<Rightarrow> analysed list \<Rightarrow> (nist_row \<times> npf) list res" where
  "nist_comparisons S M data =
     bindr (mapr (nist_metric_rows S M data)
       (concat (map (\<lambda>(domain, level_field, metrics). map (\<lambda>m. (domain, level_field, m)) metrics) NIST_SPECS))) (\<lambda>parts.
     let rows = concat parts; present = map (\<lambda>r. is_num (ni_p_value r)) rows; ps = filter is_num (map ni_p_value rows) in
     Inr (zip rows (if ps = [] then map (\<lambda>_. NaN) rows else spread_over (ml_fdr_bh M ps) present)))"

section \<open>Signature sizes\<close>

definition SIZE_PREDICTORS :: "string list" where
  "SIZE_PREDICTORS = [''sig_signature_bytes'', ''kex_public_key_bytes'', ''kex_ciphertext_bytes'', ''total_l2cap_bytes'']"

text \<open>The correlations, and the coefficients of the model or the status it failed with.\<close>

definition signature_size_analysis ::
  "'g statlib \<Rightarrow> modellib \<Rightarrow> nat \<Rightarrow> int \<Rightarrow> analysed list \<Rightarrow> correlation_row list \<times> (string \<times> coefficient_row list)" where
  "signature_size_analysis S M iterations seed data =
     (let base = filter (\<lambda>r. co_analysis r = ''signature_size_communication'') (correlation_table S iterations (seed + 2) data);
          (fit, coefficients) = fit_mixed_model M data ''signature_size_overhead_mixed'' ''communication_overhead_ms''
            SIZE_PREDICTORS False in
      (base, mf_status fit, coefficients))"

end
