(* ===== verification/Pareto_Ranks.thy ===== *)
theory Pareto_Ranks
  imports Np_Float
begin

text \<open>
  \<open>pareto_ranks\<close> of \<open>graphic/analyze_time_energy.py\<close>: the fronts of a set of points are peeled off
  one after the other.  An array of booleans over the points is the list of its true indices.
\<close>

section \<open>The code\<close>

definition np_dominates :: "npf list \<Rightarrow> npf list \<Rightarrow> bool" where
  "np_dominates p q \<longleftrightarrow> list_all2 npf_le p q \<and> list_ex (\<lambda>(a, b). npf_lt a b) (zip p q)"

definition dominated_by_counts :: "npf list list \<Rightarrow> nat list" where
  "dominated_by_counts vals = map (\<lambda>point. length (filter (\<lambda>p. np_dominates p point) vals)) vals"

definition assign_rank :: "nat \<Rightarrow> nat list \<Rightarrow> nat list \<Rightarrow> nat list" where
  "assign_rank r indexes ranks = fold (\<lambda>i rs. rs[i := r]) indexes ranks"

definition pareto_front :: "npf list list \<Rightarrow> nat list \<Rightarrow> nat list" where
  "pareto_front vals indexes =
     filter (\<lambda>i. length (filter (\<lambda>j. np_dominates (vals ! j) (vals ! i)) indexes) = 0) indexes"

lemma front_shrinks: "pareto_front vals xs \<noteq> [] \<Longrightarrow> length (filter (\<lambda>i. i \<notin> set (pareto_front vals xs)) xs) < length xs"
  by (rule length_filter_less [of "hd (pareto_front vals xs)"]) (auto simp: pareto_front_def dest: hd_in_set)

function peel_fronts :: "npf list list \<Rightarrow> nat \<Rightarrow> nat list \<Rightarrow> nat list \<Rightarrow> nat list" where
  "peel_fronts vals r remaining ranks =
     (if remaining = [] then ranks
      else let front = pareto_front vals remaining in
        if front = [] then assign_rank r remaining ranks
        else peel_fronts vals (Suc r) (filter (\<lambda>i. i \<notin> set front) remaining) (assign_rank r front ranks))"
  by pat_completeness auto

termination
  by (relation "measure (\<lambda>(vals, r, remaining, ranks). length remaining)") (simp_all add: front_shrinks)

declare peel_fronts.simps [simp del]

definition pareto_ranks :: "npf list list \<Rightarrow> nat list \<times> nat list" where
  "pareto_ranks vals =
     (peel_fronts vals 1 [0..<length vals] (replicate (length vals) 0), dominated_by_counts vals)"

section \<open>Dominance is a strict order\<close>

lemma np_dominates_nth:
  "np_dominates p q \<longleftrightarrow> length p = length q \<and> (\<forall>k<length p. npf_le (p ! k) (q ! k)) \<and>
     (\<exists>k<length p. npf_lt (p ! k) (q ! k))"
proof -
  have "list_ex (\<lambda>(a, b). npf_lt a b) (zip p q) \<longleftrightarrow> (\<exists>k<length p. npf_lt (p ! k) (q ! k))" if "length p = length q"
    using that by (auto simp: list_ex_length)
  then show ?thesis by (auto simp: np_dominates_def list_all2_conv_all_nth)
qed

lemma np_dominates_irrefl: "\<not> np_dominates p p"
  by (simp add: np_dominates_nth npf_lt_def)

lemma np_dominates_trans: "np_dominates p q \<Longrightarrow> np_dominates q s \<Longrightarrow> np_dominates p s"
  unfolding np_dominates_nth by (metis npf_le_trans npf_lt_le_trans)

lemma front_iff: "i \<in> set (pareto_front vals xs) \<longleftrightarrow> i \<in> set xs \<and> (\<forall>j\<in>set xs. \<not> np_dominates (vals ! j) (vals ! i))"
  by (auto simp: pareto_front_def filter_empty_conv)

text \<open>
  Of the points that dominate a point, one with the fewest dominating points has none: theirs are
  fewer still.  So a point outside the front is dominated by a point of the front.
\<close>

lemma front_dominates:
  assumes "i \<in> set xs" "i \<notin> set (pareto_front vals xs)"
  shows "\<exists>j\<in>set (pareto_front vals xs). np_dominates (vals ! j) (vals ! i)"
proof -
  define D where "D k = {j \<in> set xs. np_dominates (vals ! j) (vals ! k)}" for k
  obtain k where "k \<in> D i" using assms by (auto simp: D_def front_iff)
  then obtain j where j: "j \<in> D i" "\<And>k. k \<in> D i \<Longrightarrow> card (D j) \<le> card (D k)"
    using ex_has_least_nat [of "\<lambda>k. k \<in> D i" k "\<lambda>k. card (D k)"] by blast
  have "D j = {}"
  proof (rule ccontr)
    assume "D j \<noteq> {}"
    then obtain k where k: "k \<in> D j" by blast
    then have "D k \<subset> D j" "k \<in> D i"
      using j(1) np_dominates_trans np_dominates_irrefl unfolding D_def by blast+
    then have "card (D k) < card (D j)" by (intro psubset_card_mono) (simp_all add: D_def)
    with j(2) [OF \<open>k \<in> D i\<close>] show False by simp
  qed
  with j(1) show ?thesis by (auto simp: front_iff D_def)
qed

lemma front_nonempty: "xs \<noteq> [] \<Longrightarrow> pareto_front vals xs \<noteq> []"
  using front_dominates [of "hd xs" xs vals] by fastforce

lemma nth_assign_rank:
  "i < length ranks \<Longrightarrow> assign_rank r xs ranks ! i = (if i \<in> set xs then r else ranks ! i)"
  by (induction xs arbitrary: ranks) (auto simp: assign_rank_def nth_list_update)

lemma length_assign_rank [simp]: "length (assign_rank r xs ranks) = length ranks"
  by (induction xs arbitrary: ranks) (auto simp: assign_rank_def)

section \<open>Ranks\<close>

text \<open>The reference: one more than the greatest rank of a dominating point.\<close>

definition dominators :: "npf list list \<Rightarrow> nat \<Rightarrow> nat set" where
  "dominators vals i = {j. j < length vals \<and> np_dominates (vals ! j) (vals ! i)}"

definition well_ranked :: "npf list list \<Rightarrow> nat list \<Rightarrow> nat \<Rightarrow> bool" where
  "well_ranked vals ranks i \<longleftrightarrow> ranks ! i = Suc (Max (insert 0 ((!) ranks ` dominators vals i)))"

text \<open>After \<open>r\<close> fronts: the points that are gone have their final ranks, up to \<open>r\<close>, and each point that
  remains is dominated by one of rank \<open>r\<close>.\<close>

definition peeled :: "npf list list \<Rightarrow> nat \<Rightarrow> nat list \<Rightarrow> nat list \<Rightarrow> bool" where
  "peeled vals r remaining ranks \<longleftrightarrow> length ranks = length vals \<and> set remaining \<subseteq> {..<length vals} \<and>
     (\<forall>i<length vals. i \<notin> set remaining \<longrightarrow> well_ranked vals ranks i \<and> ranks ! i \<le> r \<and>
        dominators vals i \<inter> set remaining = {}) \<and>
     (0 < r \<longrightarrow> (\<forall>i\<in>set remaining. \<exists>j\<in>dominators vals i. j \<notin> set remaining \<and> ranks ! j = r))"

lemma finite_dominators [simp]: "finite (dominators vals i)"
  by (simp add: dominators_def)

lemma well_ranked_cong:
  assumes "well_ranked vals ranks i" "ranks' ! i = ranks ! i" "\<And>j. j \<in> dominators vals i \<Longrightarrow> ranks' ! j = ranks ! j"
  shows "well_ranked vals ranks' i"
  using assms(1,2) image_cong [OF refl assms(3), of "dominators vals i"] by (simp add: well_ranked_def)

lemma peeled_step:
  fixes remaining :: "nat list"
  assumes "peeled vals r remaining ranks"
  defines "front \<equiv> pareto_front vals remaining"
  shows "peeled vals (Suc r) (filter (\<lambda>i. i \<notin> set front) remaining) (assign_rank (Suc r) front ranks)"
proof -
  let ?R = "set remaining" and ?ranks = "assign_rank (Suc r) front ranks"
  have len: "length ranks = length vals" and sub: "?R \<subseteq> {..<length vals}"
    and gone: "\<And>i. i < length vals \<Longrightarrow> i \<notin> ?R \<Longrightarrow> well_ranked vals ranks i \<and> ranks ! i \<le> r \<and> dominators vals i \<inter> ?R = {}"
    and left: "\<And>i. 0 < r \<Longrightarrow> i \<in> ?R \<Longrightarrow> \<exists>j\<in>dominators vals i. j \<notin> ?R \<and> ranks ! j = r"
    using assms(1) by (auto simp: peeled_def)
  have fr: "i \<in> set front \<longleftrightarrow> i \<in> ?R \<and> dominators vals i \<inter> ?R = {}" for i
    using sub by (auto simp: front_def front_iff dominators_def)
  have new: "?ranks ! i = (if i \<in> set front then Suc r else ranks ! i)" if "i < length vals" for i
    using that by (simp add: nth_assign_rank len)
  have dom: "j < length vals" if "j \<in> dominators vals i" for i j using that by (simp add: dominators_def)
  have old: "?ranks ! j = ranks ! j" if "j \<in> dominators vals i" "dominators vals i \<inter> ?R = {}" for i j
    using that new [OF dom [OF that(1)]] fr by auto
  have done_front: "well_ranked vals ?ranks i" if "i \<in> set front" for i
  proof -
    have none: "dominators vals i \<inter> ?R = {}" and i: "i \<in> ?R" "i < length vals" using that fr sub by auto
    have img: "(!) ?ranks ` dominators vals i = (!) ranks ` dominators vals i"
      using old none by (intro image_cong refl) blast
    have le: "ranks ! j \<le> r" if "j \<in> dominators vals i" for j
      using that none gone [OF dom [OF that]] by blast
    have "Max (insert 0 ((!) ranks ` dominators vals i)) = r"
    proof (rule Max_eqI)
      show "r \<in> insert 0 ((!) ranks ` dominators vals i)"
        using left [OF _ i(1)] by (cases "r = 0") auto
    qed (use le in auto)
    then show ?thesis using new [OF i(2)] that by (simp add: well_ranked_def img)
  qed
  have "well_ranked vals ?ranks i \<and> ?ranks ! i \<le> Suc r \<and> dominators vals i \<inter> (?R - set front) = {}"
    if "i < length vals" "i \<notin> ?R - set front" for i
  proof (cases "i \<in> set front")
    case True
    then show ?thesis using done_front fr new [OF that(1)] by auto
  next
    case False
    with that have "i \<notin> ?R" by blast
    note g = gone [OF that(1) this]
    have "well_ranked vals ?ranks i"
    proof (rule well_ranked_cong)
      show "well_ranked vals ranks i" using g by (rule conjunct1)
      show "?ranks ! i = ranks ! i" using new [OF that(1)] False by simp
      show "?ranks ! j = ranks ! j" if "j \<in> dominators vals i" for j
        using old [OF that] g by blast
    qed
    moreover have "?ranks ! i \<le> Suc r" using g new [OF that(1)] False by simp
    moreover have "dominators vals i \<inter> (?R - set front) = {}" using g by blast
    ultimately show ?thesis by blast
  qed
  moreover have "\<exists>j\<in>dominators vals i. j \<notin> ?R - set front \<and> ?ranks ! j = Suc r"
    if i: "i \<in> ?R" "i \<notin> set front" for i
  proof -
    obtain j where j: "j \<in> set front" "np_dominates (vals ! j) (vals ! i)"
      using front_dominates [of i remaining vals] i by (auto simp: front_def)
    then have "j < length vals" using fr sub by auto
    with j new [of j] show ?thesis by (intro bexI [of _ j]) (auto simp: dominators_def)
  qed
  ultimately show ?thesis
    using sub by (auto simp: peeled_def len)
qed

lemma peel_fronts_peeled:
  "peeled vals r remaining ranks \<Longrightarrow> \<exists>r'. peeled vals r' [] (peel_fronts vals (Suc r) remaining ranks)"
proof (induction vals "Suc r" remaining ranks arbitrary: r rule: peel_fronts.induct)
  case (1 vals remaining ranks)
  show ?case
  proof (cases "remaining = []")
    case True
    with 1(2) show ?thesis by (subst peel_fronts.simps) auto
  next
    case False
    have "pareto_front vals remaining \<noteq> []" using False by (rule front_nonempty)
    with 1(1) [OF False refl this peeled_step [OF 1(2)]] False show ?thesis
      by (subst peel_fronts.simps) (simp add: Let_def)
  qed
qed

lemma pareto_ranks_peeled:
  obtains r where "peeled vals r [] (fst (pareto_ranks vals))"
proof -
  have "peeled vals 0 [0..<length vals] (replicate (length vals) 0)" by (auto simp: peeled_def)
  from peel_fronts_peeled [OF this] that show ?thesis by (auto simp: pareto_ranks_def)
qed

lemma pareto_ranks_correct_aux:
  assumes eq: "pareto_ranks vals = (ranks, counts)"
  shows "length ranks = length vals \<and> length counts = length vals \<and>
     (\<forall>i<length vals. ranks ! i = Suc (Max (insert 0 ((!) ranks ` dominators vals i))) \<and>
        counts ! i = card (dominators vals i) \<and> (ranks ! i = 1 \<longleftrightarrow> counts ! i = 0))"
proof -
  obtain r where "peeled vals r [] ranks" using pareto_ranks_peeled [of vals] eq by auto
  then have p: "length ranks = length vals" "\<And>i. i < length vals \<Longrightarrow> well_ranked vals ranks i"
    by (auto simp: peeled_def)
  have c: "counts ! i = card (dominators vals i)" if "i < length vals" for i
    using eq that by (auto simp: pareto_ranks_def dominated_by_counts_def length_filter_conv_card dominators_def)
  have one: "ranks ! i = 1 \<longleftrightarrow> dominators vals i = {}" if "i < length vals" for i
  proof
    assume "ranks ! i = 1"
    then have "Max (insert 0 ((!) ranks ` dominators vals i)) = 0" using p(2) [OF that] by (simp add: well_ranked_def)
    then have "ranks ! j \<le> 0" if "j \<in> dominators vals i" for j
      using that Max_ge [of "insert 0 ((!) ranks ` dominators vals i)" "ranks ! j"] by simp
    moreover have "ranks ! j \<noteq> 0" if "j \<in> dominators vals i" for j
      using p(2) [of j] that by (simp add: well_ranked_def dominators_def)
    ultimately show "dominators vals i = {}" by blast
  qed (use p(2) [OF that] in \<open>simp add: well_ranked_def\<close>)
  show "length ranks = length vals \<and> length counts = length vals \<and>
     (\<forall>i<length vals. ranks ! i = Suc (Max (insert 0 ((!) ranks ` dominators vals i))) \<and>
        counts ! i = card (dominators vals i) \<and> (ranks ! i = 1 \<longleftrightarrow> counts ! i = 0))"
    using eq p c one by (auto simp: pareto_ranks_def dominated_by_counts_def well_ranked_def card_eq_0_iff)
qed

text \<open>
  C15: The ranks of the points are those of the dominance order: every point gets one more than the
  greatest rank of a point that dominates it (one if none does), whatever infinities and missing
  values the points hold; a point is on the first front exactly when its number of dominating
  points, which is counted separately, is zero.
\<close>

theorem pareto_ranks_correct:
  assumes eq: "pareto_ranks vals = (ranks, counts)"
  shows "length ranks = length vals \<and> length counts = length vals \<and>
     (\<forall>i<length vals. ranks ! i = Suc (Max (insert 0 ((!) ranks ` dominators vals i))) \<and>
        counts ! i = card (dominators vals i) \<and> (ranks ! i = 1 \<longleftrightarrow> counts ! i = 0))"
  using assms by (rule pareto_ranks_correct_aux)

theorem pareto_ranks_correct_witness:
  "pareto_ranks [[Num 1, Num 5], [Num 2, Num 2], [Num 3, Num 3], [Num 4, NaN]] = ([1, 1, 2, 1], [0, 0, 1, 0]) \<and>
   Suc (Max (insert 0 ((!) [1, 1, 2, 1] ` dominators
     [[Num 1, Num 5], [Num 2, Num 2], [Num 3, Num 3], [Num 4, NaN]] 2))) = 2"
proof -
  have eq: "pareto_ranks [[Num 1, Num 5], [Num 2, Num 2], [Num 3, Num 3], [Num 4, NaN]] = ([1, 1, 2, 1], [0, 0, 1, 0])"
    by code_simp
  from pareto_ranks_correct [OF eq] show ?thesis
    using eq by (auto simp: numeral_eq_Suc All_less_Suc)
qed

end
