(* ===== verification/Pareto_Frontier.thy ===== *)
theory Pareto_Frontier
  imports Attempt_Data Pareto_Ranks
begin

text \<open>
  \<open>pareto_frontier\<close> of \<open>graphic/analyze_time_energy.py\<close>: the analysed attempts of each case become
  one row with five objectives, the rows with all of them are ranked, and the table is sorted by
  rank and distance to the ideal point.  The mean of a group is a parameter (pandas sums with a
  compensation).
\<close>

section \<open>Cases\<close>

record pareto_case =
  cr_case :: string
  cr_text :: srow
  cr_time :: npf
  cr_energy :: npf
  cr_heap :: npf
  cr_chain :: npf
  cr_sessions :: nat
  cr_recorded :: npf
  cr_success :: npf
  cr_failures :: npf
  cr_failure_rate :: npf

text \<open>\<open>max\<close> of a group leaves missing values out.\<close>

definition group_max :: "npf list \<Rightarrow> npf" where
  "group_max xs = (case filter is_num xs of [] \<Rightarrow> NaN | y # ys \<Rightarrow> foldl npf_max y ys)"

definition PARETO_TEXTS :: "string list" where
  "PARETO_TEXTS = [''kex_group'', ''pki_chain_id'', ''pki_kind'', ''root_sig_alg'', ''leaf_sig_alg'']"

text \<open>Recorded attempts and successes of a case, from the status rows of the quality table.\<close>

definition status_rows :: "quality_row list \<Rightarrow> string \<Rightarrow> quality_row list" where
  "status_rows quality case_id = filter (\<lambda>q. startswith (qu_reason q) ''status_'' \<and> qu_case q = case_id) quality"

definition recorded_of :: "quality_row list \<Rightarrow> nat" where
  "recorded_of rows = sum_list (map qu_count rows)"

definition successes_of :: "quality_row list \<Rightarrow> nat" where
  "successes_of rows = sum_list (map qu_count (filter (\<lambda>q. qu_reason q = ''status_success'') rows))"

definition npf_of_nat :: "nat \<Rightarrow> npf" where
  "npf_of_nat n = np_round (of_nat n)"

definition fill :: "npf \<Rightarrow> npf \<Rightarrow> npf" where
  "fill d v = (if v = NaN then d else v)"

text \<open>Recorded, successes, failures and failure rate; without status rows their defaults.\<close>

definition status_figures :: "nat \<Rightarrow> quality_row list \<Rightarrow> npf \<times> npf \<times> npf \<times> npf" where
  "status_figures n_data rows =
     (if rows = [] then (npf_of_nat n_data, npf_of_nat n_data, Num 0, Num 0)
      else let recorded = npf_of_nat (recorded_of rows); good = npf_of_nat (successes_of rows);
               failures = npf_sub recorded good in
        (recorded, good, failures, fill (Num 0) (npf_div failures (if recorded = Num 0 then NaN else recorded))))"

definition pareto_case_of :: "(npf list \<Rightarrow> npf) \<Rightarrow> nat \<Rightarrow> quality_row list \<Rightarrow> string \<times> analysed list \<Rightarrow> pareto_case" where
  "pareto_case_of mean_of n_data quality g = (case g of (case_id, as) \<Rightarrow>
     (case status_figures n_data (status_rows quality case_id) of (recorded, good, failures, rate) \<Rightarrow>
      \<lparr>cr_case = case_id, cr_text = map (\<lambda>fld. (fld, text_cell fld (hd as))) PARETO_TEXTS,
       cr_time = mean_of (map (\<lambda>a. num a ''raw_handshake_ms'') as),
       cr_energy = mean_of (map (\<lambda>a. num a ''handshake_energy_uj'') as),
       cr_heap = group_max (map (\<lambda>a. num a ''client_heap_peak_bytes'') as),
       cr_chain = mean_of (map (\<lambda>a. num a ''server_chain_bytes'') as),
       cr_sessions = n_unique (map (text_cell ''session_id'') as),
       cr_recorded = recorded, cr_success = good, cr_failures = failures, cr_failure_rate = rate\<rparr>))"

definition pareto_cases :: "(npf list \<Rightarrow> npf) \<Rightarrow> quality_row list \<Rightarrow> analysed list \<Rightarrow> pareto_case list" where
  "pareto_cases mean_of quality data =
     map (pareto_case_of mean_of (length data) quality) (sort_key fst (group_by (text_cell ''case_id'') data))"

definition objectives :: "pareto_case \<Rightarrow> npf list" where
  "objectives c = [cr_time c, cr_energy c, cr_heap c, cr_chain c, cr_failure_rate c]"

definition has_objectives :: "pareto_case \<Rightarrow> bool" where
  "has_objectives c \<longleftrightarrow> list_all is_num (objectives c)"

section \<open>Ranking\<close>

record pareto_row =
  pa_case :: pareto_case
  pa_status :: string
  pa_rank :: "nat option"
  pa_dominated_by :: "nat option"
  pa_distance :: npf
  pa_optimal :: bool

definition column_fold :: "(npf \<Rightarrow> npf \<Rightarrow> npf) \<Rightarrow> npf list list \<Rightarrow> npf list" where
  "column_fold f vals = (case vals of [] \<Rightarrow> [] | v # vs \<Rightarrow> foldl (\<lambda>m w. map2 f m w) v vs)"

definition distances_to_ideal :: "npf list list \<Rightarrow> npf list" where
  "distances_to_ideal vals =
     (let minimum = column_fold npf_min vals;
          spread = map2 npf_sub (column_fold npf_max vals) minimum;
          spread1 = map (\<lambda>s. if s = Num 0 then Num 1 else s) spread;
          normalized = map (\<lambda>v. map2 npf_div (map2 npf_sub v minimum) spread1) vals in
      map (\<lambda>v. npf_sqrt (npf_sum (map (\<lambda>x. npf_mul x x) v))) normalized)"

definition ranked_row :: "pareto_case \<times> nat \<times> nat \<times> npf \<Rightarrow> pareto_row" where
  "ranked_row x = (case x of (c, r, n, d) \<Rightarrow>
     \<lparr>pa_case = c, pa_status = ''complete'', pa_rank = Some r, pa_dominated_by = Some n, pa_distance = d, pa_optimal = (r = 1)\<rparr>)"

definition unranked_row :: "pareto_case \<Rightarrow> pareto_row" where
  "unranked_row c = \<lparr>pa_case = c, pa_status = ''incomplete_objectives'', pa_rank = None, pa_dominated_by = None,
     pa_distance = NaN, pa_optimal = False\<rparr>"

text \<open>Missing ranks and distances sort last.\<close>

definition pareto_key :: "pareto_row \<Rightarrow> (bool \<times> nat) \<times> (nat \<times> rat) \<times> string" where
  "pareto_key p = ((pa_rank p = None, case pa_rank p of None \<Rightarrow> 0 | Some r \<Rightarrow> r), npf_key (pa_distance p), cr_case (pa_case p))"

definition pareto_table :: "pareto_case list \<Rightarrow> pareto_row list" where
  "pareto_table cases =
     (let ranked = filter has_objectives cases; vals = map objectives ranked;
          (ranks, counts) = pareto_ranks vals in
      sort_key pareto_key (map ranked_row (zip ranked (zip ranks (zip counts (distances_to_ideal vals)))) @
        map unranked_row (filter (\<lambda>c. \<not> has_objectives c) cases)))"

definition pareto_frontier :: "(npf list \<Rightarrow> npf) \<Rightarrow> analysed list \<Rightarrow> quality_row list \<Rightarrow> pareto_row list" where
  "pareto_frontier mean_of data quality = pareto_table (pareto_cases mean_of quality data)"

section \<open>What the table shows\<close>

lemma length_distances [simp]: "length (distances_to_ideal vals) = length vals"
  by (simp add: distances_to_ideal_def Let_def)

lemma pareto_cases_cases: "map cr_case (pareto_cases mean_of quality data) = sort (remdups (map (text_cell ''case_id'') data))"
proof (rule sorted_distinct_set_unique)
  have names: "map cr_case (pareto_cases mean_of quality data) = map fst (sort_key fst (group_by (text_cell ''case_id'') data))"
    by (auto simp: pareto_cases_def pareto_case_of_def split: prod.splits)
  show "sorted (map cr_case (pareto_cases mean_of quality data))" by (simp only: names sorted_sort_key)
  have "mset (map fst (sort_key fst (group_by (text_cell ''case_id'') data))) = mset (map fst (group_by (text_cell ''case_id'') data))"
    by (simp only: mset_map mset_sort)
  then show "distinct (map cr_case (pareto_cases mean_of quality data))"
    unfolding names using group_by_distinct mset_eq_imp_distinct_iff by blast
  show "set (map cr_case (pareto_cases mean_of quality data)) = set (sort (remdups (map (text_cell ''case_id'') data)))"
    unfolding names using group_by_keys [of "text_cell ''case_id''" data] by simp
qed simp_all

text \<open>The rows with all objectives, by their position among them.\<close>

definition ranked_cases :: "pareto_case list \<Rightarrow> pareto_case list" where
  "ranked_cases cases = filter has_objectives cases"

definition ranked_at :: "pareto_case list \<Rightarrow> nat \<Rightarrow> pareto_row" where
  "ranked_at cs i = ranked_row (cs ! i, fst (pareto_ranks (map objectives cs)) ! i,
     snd (pareto_ranks (map objectives cs)) ! i, distances_to_ideal (map objectives cs) ! i)"

lemma ranked_at_simps [simp]:
  "pa_case (ranked_at cs i) = cs ! i"
  "pa_rank (ranked_at cs i) = Some (fst (pareto_ranks (map objectives cs)) ! i)"
  "pa_optimal (ranked_at cs i) \<longleftrightarrow> fst (pareto_ranks (map objectives cs)) ! i = 1"
  by (simp_all add: ranked_at_def ranked_row_def)

lemma unranked_row_simps [simp]:
  "pa_case (unranked_row c) = c" "pa_rank (unranked_row c) = None" "\<not> pa_optimal (unranked_row c)"
  by (simp_all add: unranked_row_def)

lemma pareto_table_eq:
  "pareto_table cases = sort_key pareto_key (map (ranked_at (ranked_cases cases)) [0..<length (ranked_cases cases)] @
     map unranked_row (filter (\<lambda>c. \<not> has_objectives c) cases))"
proof -
  let ?cs = "ranked_cases cases"
  obtain ranks counts where rk: "pareto_ranks (map objectives ?cs) = (ranks, counts)" by fastforce
  from pareto_ranks_correct_aux [OF rk] have len: "length ranks = length ?cs" "length counts = length ?cs" by simp_all
  have "map ranked_row (zip ?cs (zip ranks (zip counts (distances_to_ideal (map objectives ?cs))))) =
      map (ranked_at ?cs) [0..<length ?cs]"
    using len by (intro nth_equalityI) (simp_all add: ranked_at_def rk)
  then show ?thesis using rk by (simp add: pareto_table_def Let_def ranked_cases_def)
qed

lemma set_pareto_table:
  "set (pareto_table cases) = ranked_at (ranked_cases cases) ` {..<length (ranked_cases cases)} \<union>
     unranked_row ` {c \<in> set cases. \<not> has_objectives c}"
  by (auto simp: pareto_table_eq)

lemma cases_of_table: "mset (map pa_case (pareto_table cases)) = mset cases"
proof -
  have "map pa_case (map (ranked_at cs) [0..<length cs]) = cs" for cs
    by (simp add: o_def map_nth)
  moreover have "map pa_case (map unranked_row xs) = xs" for xs by (simp add: o_def)
  ultimately show ?thesis
    unfolding pareto_table_eq mset_map mset_sort mset_append image_mset_union
    by (simp only: mset_map [symmetric] ranked_cases_def) (simp add: multiset_partition [symmetric])
qed

lemma ranked_case: "i < length (ranked_cases cases) \<Longrightarrow> has_objectives (ranked_cases cases ! i)"
  using nth_mem [of i "ranked_cases cases"] by (simp add: ranked_cases_def)

text \<open>Ranks in the order of dominance.\<close>

lemma rank_spec:
  assumes "i < length cs"
  shows "fst (pareto_ranks (map objectives cs)) ! i = 1 \<longleftrightarrow>
      (\<forall>j<length cs. \<not> np_dominates (objectives (cs ! j)) (objectives (cs ! i)))"
    and "j < length cs \<Longrightarrow> np_dominates (objectives (cs ! j)) (objectives (cs ! i)) \<Longrightarrow>
      fst (pareto_ranks (map objectives cs)) ! j < fst (pareto_ranks (map objectives cs)) ! i"
proof -
  obtain ranks counts where rk: "pareto_ranks (map objectives cs) = (ranks, counts)" by fastforce
  have D: "dominators (map objectives cs) i = {j. j < length cs \<and> np_dominates (objectives (cs ! j)) (objectives (cs ! i))}"
    using assms by (auto simp: dominators_def)
  note spec = pareto_ranks_correct_aux [OF rk, unfolded length_map]
  with assms have "counts ! i = card (dominators (map objectives cs) i)" "ranks ! i = 1 \<longleftrightarrow> counts ! i = 0" by blast+
  then have "ranks ! i = 1 \<longleftrightarrow> dominators (map objectives cs) i = {}" by simp
  then show "fst (pareto_ranks (map objectives cs)) ! i = 1 \<longleftrightarrow>
      (\<forall>j<length cs. \<not> np_dominates (objectives (cs ! j)) (objectives (cs ! i)))"
    by (simp only: rk fst_conv) (auto simp: D)
  from spec assms have r: "ranks ! i = Suc (Max (insert 0 ((!) ranks ` dominators (map objectives cs) i)))" by blast
  assume "j < length cs" "np_dominates (objectives (cs ! j)) (objectives (cs ! i))"
  then have "ranks ! j \<le> Max (insert 0 ((!) ranks ` dominators (map objectives cs) i))"
    by (intro Max_ge) (auto simp: D)
  then show "fst (pareto_ranks (map objectives cs)) ! j < fst (pareto_ranks (map objectives cs)) ! i"
    by (simp add: rk r)
qed

text \<open>
  C16: The table of the frontier has one row for each case with an analysed attempt.  A case is
  marked optimal exactly when it has all objectives and no case with all objectives dominates it; a
  dominating case has the smaller rank, and the table is sorted by rank, distance and case, with the
  cases that lack an objective at its end.
\<close>

theorem pareto_frontier_correct:
  defines "better p q \<equiv> has_objectives (pa_case p) \<and> np_dominates (objectives (pa_case p)) (objectives (pa_case q))"
  assumes "table = pareto_frontier mean_of data quality"
  shows "mset (map (\<lambda>p. cr_case (pa_case p)) table) = mset_set (text_cell ''case_id'' ` set data) \<and>
    sorted (map pareto_key table) \<and>
    (\<forall>p\<in>set table. (pa_optimal p \<longleftrightarrow> has_objectives (pa_case p) \<and> (\<forall>q\<in>set table. \<not> better q p)) \<and>
      (pa_rank p = None \<longleftrightarrow> \<not> has_objectives (pa_case p)) \<and>
      (\<forall>q\<in>set table. better q p \<and> has_objectives (pa_case p) \<longrightarrow> the (pa_rank q) < the (pa_rank p)))"
proof -
  let ?cases = "pareto_cases mean_of quality data"
  let ?cs = "ranked_cases ?cases"
  have t: "table = pareto_table ?cases" by (simp add: assms(2) pareto_frontier_def)
  have rows: "mset (map (\<lambda>p. cr_case (pa_case p)) table) = mset_set (text_cell ''case_id'' ` set data)"
  proof -
    have "mset (map (\<lambda>p. cr_case (pa_case p)) table) = mset (map cr_case ?cases)"
      using arg_cong [OF cases_of_table [of ?cases], of "image_mset cr_case"] by (simp add: t o_def multiset.map_comp)
    also have "\<dots> = mset_set (text_cell ''case_id'' ` set data)"
      unfolding pareto_cases_cases by (simp add: mset_set_set [symmetric])
    finally show ?thesis .
  qed
  have ranked: "i < length ?cs \<Longrightarrow> better q (ranked_at ?cs i) \<and> q \<in> set table \<longleftrightarrow>
      (\<exists>j<length ?cs. q = ranked_at ?cs j \<and> np_dominates (objectives (?cs ! j)) (objectives (?cs ! i)))" for i q
    using ranked_case [of _ ?cases] by (auto simp: better_def t set_pareto_table)
  have each: "(pa_optimal p \<longleftrightarrow> has_objectives (pa_case p) \<and> (\<forall>q\<in>set table. \<not> better q p)) \<and>
      (pa_rank p = None \<longleftrightarrow> \<not> has_objectives (pa_case p)) \<and>
      (\<forall>q\<in>set table. better q p \<and> has_objectives (pa_case p) \<longrightarrow> the (pa_rank q) < the (pa_rank p))"
    if "p \<in> set table" for p
  proof (cases "has_objectives (pa_case p)")
    case True
    with that obtain i where i: "i < length ?cs" "p = ranked_at ?cs i" by (auto simp: t set_pareto_table)
    have "pa_optimal p \<longleftrightarrow> (\<forall>q\<in>set table. \<not> better q p)"
      using ranked [OF i(1)] rank_spec(1) [OF i(1)] unfolding i(2) by auto
    moreover have "the (pa_rank q) < the (pa_rank p)" if "q \<in> set table" "better q p" for q
      using ranked [OF i(1), of q] rank_spec(2) [OF i(1)] that unfolding i(2) by auto
    ultimately show ?thesis using True by (simp add: i(2))
  next
    case False
    with that ranked_case [of _ ?cases] obtain c where "p = unranked_row c" by (auto simp: t set_pareto_table)
    with False show ?thesis by simp
  qed
  have "sorted (map pareto_key table)" by (simp add: t pareto_table_eq)
  with rows each show ?thesis by blast
qed

text \<open>Two cases, of which one dominates the other.\<close>

definition demo_analysed :: "string \<Rightarrow> npf list \<Rightarrow> analysed" where
  "demo_analysed case_id vals = \<lparr>an_text = [(''case_id'', case_id)],
     an_num = zip [''raw_handshake_ms'', ''handshake_energy_uj'', ''client_heap_peak_bytes'', ''server_chain_bytes''] vals\<rparr>"

definition demo_frontier :: "analysed list" where
  "demo_frontier = [demo_analysed ''a'' [Num 4, Num 5, Num 6, Num 7], demo_analysed ''b'' [Num 4, Num 4, Num 6, Num 7]]"

lemma demo_cases:
  "map (\<lambda>c. (cr_case c, objectives c)) (pareto_cases hd [] demo_frontier) =
     [(''a'', [Num 4, Num 5, Num 6, Num 7, Num 0]), (''b'', [Num 4, Num 4, Num 6, Num 7, Num 0])]"
  by code_simp

lemma pareto_frontier_correct_witness:
  "\<exists>p q. p \<in> set (pareto_frontier hd demo_frontier []) \<and> q \<in> set (pareto_frontier hd demo_frontier []) \<and>
     cr_case (pa_case p) = ''a'' \<and> cr_case (pa_case q) = ''b'' \<and> \<not> pa_optimal p \<and> the (pa_rank q) < the (pa_rank p)"
proof -
  let ?table = "pareto_frontier hd demo_frontier []"
  from demo_cases obtain c d where cd: "pareto_cases hd [] demo_frontier = [c, d]" and names: "cr_case c = ''a''" "cr_case d = ''b''"
    and vals: "objectives c = [Num 4, Num 5, Num 6, Num 7, Num 0]" "objectives d = [Num 4, Num 4, Num 6, Num 7, Num 0]"
    by (auto simp: map_eq_Cons_conv)
  have "mset (map pa_case ?table) = mset [c, d]"
    using cases_of_table [of "[c, d]"] by (simp add: pareto_frontier_def cd)
  then have "pa_case ` set ?table = {c, d}" by (metis mset_eq_setD list.simps(15) empty_set set_map)
  then have "c \<in> pa_case ` set ?table" "d \<in> pa_case ` set ?table" by blast+
  then obtain p q where pq: "p \<in> set ?table" "pa_case p = c" "q \<in> set ?table" "pa_case q = d" by blast
  have "has_objectives c" "has_objectives d" "np_dominates (objectives d) (objectives c)"
    by (simp_all add: has_objectives_def vals is_num_def np_dominates_def npf_lt_def)
  with pareto_frontier_correct [OF refl, of hd demo_frontier "[]"] pq names show ?thesis by blast
qed

end
