(* ===== verification/Analysis_Main.thy ===== *)
theory Analysis_Main
  imports Analysis_Models Pareto_Frontier Device_Charts
begin

text \<open>
  The program \<open>graphic/analyze_time_energy.py\<close> itself: what its figures show, the diagnostics, and
  \<open>main\<close>, which computes every table, saves them, writes a manifest and draws.  A figure is the list
  of its panels with the marks that the code hands to matplotlib and seaborn.
\<close>

section \<open>Figures\<close>

text \<open>A mark has a label, a place and perhaps an interval; a panel may have a regression line.\<close>

type_synonym mark = "string \<times> npf \<times> npf \<times> (npf \<times> npf) option"

datatype panel = Panel string "mark list" bool | Unavailable string

definition mark_of :: "string \<Rightarrow> string \<Rightarrow> string \<Rightarrow> analysed \<Rightarrow> mark" where
  "mark_of label_field x y a = (text_cell label_field a, num a x, num a y, None)"

text \<open>\<open>subset[[x, y, ...]].dropna()\<close> and the regression line over it.\<close>

definition scatter_panel :: "string \<Rightarrow> string \<Rightarrow> string \<Rightarrow> analysed list \<Rightarrow> panel" where
  "scatter_panel title x y data = (let rows = dropna [x, y] data in
     Panel title (map (mark_of ''algorithm_category'' x y) rows) (3 \<le> length rows \<and> 1 < n_unique (column x rows)))"

definition plot_correlations :: "analysed list \<Rightarrow> panel list" where
  "plot_correlations data = map (\<lambda>(analysis, x, y). scatter_panel (x @ '' vs '' @ y) x y data) CORRELATION_SPECS"

definition plot_signature_size :: "analysed list \<Rightarrow> panel list" where
  "plot_signature_size data = [scatter_panel [] ''sig_signature_bytes'' ''communication_overhead_ms'' data]"

definition spaced :: "string \<Rightarrow> string" where
  "spaced s = map (\<lambda>c. if c = CHR ''_'' then CHR '' '' else c) s"

text \<open>The coefficient of an analysis at a level, if it is finite, with its interval if that is finite.\<close>

definition coefficient_mark :: "correlation_row list \<Rightarrow> string \<Rightarrow> string list \<Rightarrow> nat \<Rightarrow> mark option" where
  "coefficient_mark rows level analyses i =
     (case find (\<lambda>r. co_level r = level \<and> co_analysis r = analyses ! i) rows of None \<Rightarrow> None
      | Some r \<Rightarrow> if npf_finite (co_coefficient r)
          then (case co_interval r of (low, high, n) \<Rightarrow> Some (spaced level, Num (of_nat i), co_coefficient r,
            if npf_finite low \<and> npf_finite high then Some (low, high) else None))
          else None)"

definition plot_between_within_correlations :: "correlation_row list \<Rightarrow> panel list" where
  "plot_between_within_correlations correlations =
     (let analyses = map fst (dict_of (map (\<lambda>r. (co_analysis r, ())) correlations)) in
      map (\<lambda>method. let rows = filter (\<lambda>r. co_method r = method) correlations in
        Panel method (concat (map (\<lambda>level. somes (map (coefficient_mark rows level analyses) [0..<length analyses])) LEVELS)) False)
        METHODS)"

definition plot_partial_residuals :: "(string \<times> npf list \<times> npf list) list \<Rightarrow> panel list" where
  "plot_partial_residuals residuals =
     map (\<lambda>(name, xs, ys). Panel (spaced name) (map (\<lambda>(x, y). ([], x, y, None)) (zip xs ys)) True) residuals"

text \<open>A forest plot of the standardized terms; rows with equal coefficients keep their order.\<close>

definition standardized_rows :: "coefficient_row list \<Rightarrow> coefficient_row list" where
  "standardized_rows rows = filter (\<lambda>r. startswith (ft_name (cf_term r)) ''z_'') rows"

definition forest_panel :: "string \<Rightarrow> coefficient_row list \<Rightarrow> panel" where
  "forest_panel title rows =
     (let ordered = sort_key (\<lambda>r. npf_key (ft_value (cf_term r))) rows in
      Panel title (map (\<lambda>i. let t = cf_term (ordered ! i) in
        (drop 2 (ft_name t), ft_value t, Num (of_nat i), Some (ft_low t, ft_high t))) [0..<length ordered]) False)"

definition plot_standardized_coefficients :: "coefficient_row list \<Rightarrow> panel list" where
  "plot_standardized_coefficients rows = (let zs = standardized_rows rows in
     if zs = [] then [Unavailable ''Mixed model unavailable''] else [forest_panel [] zs])"

definition plot_mechanistic_coefficients :: "coefficient_row list \<Rightarrow> panel list" where
  "plot_mechanistic_coefficients rows =
     (let zs = standardized_rows rows; models = map fst (dict_of (map (\<lambda>r. (cf_model r, ())) zs)) in
      if models = [] then [Unavailable ''Mechanistic models unavailable'']
      else map (\<lambda>m. forest_panel (spaced m) (filter (\<lambda>r. cf_model r = m) zs)) models)"

definition factor_label :: "string \<Rightarrow> string" where
  "factor_label term = (if term = ''C(kex_group)'' then ''KEM'' else if term = ''C(pki_chain_id)'' then ''PKI chain''
     else if term = ''C(kex_group):C(pki_chain_id)'' then ''KEM x PKI'' else term)"

definition response_label :: "string \<Rightarrow> string" where
  "response_label response = (if response = ''raw_handshake_ms'' then ''Handshake time''
     else if response = ''handshake_energy_uj'' then ''Handshake energy'' else response)"

definition plot_factorial_effects :: "anova_row list \<Rightarrow> panel list" where
  "plot_factorial_effects rows =
     (let shown = filter (\<lambda>r. av_term (ar_term r) \<noteq> ''Residual'' \<and> is_num (ar_partial_eta r)) rows in
      if shown = [] then [Unavailable ''Factorial model unavailable'']
      else [Panel [] (map (\<lambda>r. (factor_label (av_term (ar_term r)) @ '' / '' @ response_label (ar_response r), NaN,
        ar_partial_eta r, None)) shown) False])"

definition PROJECTIONS :: "((pareto_case \<Rightarrow> npf) \<times> (pareto_case \<Rightarrow> npf)) list" where
  "PROJECTIONS = [(cr_time, cr_energy), (cr_chain, cr_heap)]"

text \<open>Every complete case by its kind of PKI, then the optimal ones again.\<close>

definition plot_pareto_frontier :: "pareto_row list \<Rightarrow> panel list" where
  "plot_pareto_frontier frontier =
     (let shown = filter (\<lambda>p. pa_status p = ''complete'') frontier in
      map (\<lambda>(x, y). if shown = [] then Unavailable ''Pareto objectives unavailable''
        else Panel [] (map (\<lambda>p. (dget (cr_text (pa_case p)) ''pki_kind'' [], x (pa_case p), y (pa_case p), None)) shown @
          map (\<lambda>p. (''Pareto front'', x (pa_case p), y (pa_case p), None)) (filter pa_optimal shown)) False) PROJECTIONS)"

definition plot_nist :: "analysed list \<Rightarrow> panel list" where
  "plot_nist data = concat (map (\<lambda>(domain, level, metrics). map (\<lambda>metric.
     Panel [] (map (\<lambda>a. ([], num a level, num a metric, None)) (dropna [level, metric] data)) False) metrics) NIST_SPECS)"

definition plot_power_edp :: "analysed list \<Rightarrow> panel list" where
  "plot_power_edp data = map (\<lambda>(metric, label).
     Panel label (map (\<lambda>a. (text_cell ''algorithm_category'' a, NaN, num a metric, None)) data) False)
     [(''handshake_power_mw'', ''Handshake mean power (mW)''), (''handshake_edp_mj_s'', ''Handshake EDP (mJ s)'')]"

definition plot_model_diagnostics :: "model_fit \<Rightarrow> panel list" where
  "plot_model_diagnostics fit = (case mf_result fit of
     None \<Rightarrow> let gone = Unavailable (''Model unavailable: '' @ mf_status fit) in [gone, gone]
   | Some f \<Rightarrow> [Panel [] (map (\<lambda>(x, y). ([], x, y, None)) (zip (fi_values f) (fi_residuals f))) False,
       Panel [] (map (\<lambda>y. ([], NaN, y, None)) (fi_residuals f)) False])"

section \<open>Tables and diagnostics\<close>

datatype table =
    Attempts_Table "(analysed \<times> bool \<times> bool) list"
  | Quality_Table "quality_row list"
  | Correlations_Table "correlation_row list"
  | Coefficients_Table "coefficient_row list"
  | Anova_Table "anova_row list"
  | Pareto_Table "pareto_row list"
  | Nist_Table "(nist_row \<times> npf) list"
  | Sizes_Table "correlation_row list" string "coefficient_row list"

text \<open>\<open>to_csv\<close>, \<open>savefig\<close>, the texts of pandas and statsmodels, and the time of day.\<close>

record 'w outlib =
  ou_to_csv :: "table \<Rightarrow> string \<Rightarrow> ('w, unit) io"
  ou_draw :: "panel list \<Rightarrow> string \<Rightarrow> ('w, unit) io"
  ou_corr_text :: "npf list list \<Rightarrow> string"
  ou_r_squared :: "npf list \<Rightarrow> npf list list \<Rightarrow> npf"
  ou_now :: "('w, string) io"

definition save_frame :: "'w host \<Rightarrow> 'w outlib \<Rightarrow> table \<Rightarrow> string \<Rightarrow> ('w, unit) io" where
  "save_frame H U t path = bindm (h_mkdir H (path_parent path)) (\<lambda>_. ou_to_csv U t path)"

definition np_fixed :: "nat \<Rightarrow> npf \<Rightarrow> string" where
  "np_fixed decimals v = (case v of Num x \<Rightarrow> fmt_fixed decimals x | PInf \<Rightarrow> ''inf'' | NInf \<Rightarrow> ''-inf'' | NaN \<Rightarrow> ''nan'')"

definition PREDICTORS :: "string list" where
  "PREDICTORS = [''signature_time_ms'', ''kem_time_ms'', ''communication_overhead_ms'', ''l2cap_tx_bytes'']"

definition vif_line :: "'w outlib \<Rightarrow> analysed list \<Rightarrow> string \<Rightarrow> string" where
  "vif_line U rows fld =
     (let others = map (\<lambda>_. Num 1) rows # map (\<lambda>f. column f rows) (filter (\<lambda>f. f \<noteq> fld) PREDICTORS);
          r_squared = ou_r_squared U (column fld rows) others;
          vif = (if npf_le (Num 1) r_squared then PInf else npf_div (Num 1) (npf_sub (Num 1) r_squared)) in
      ''VIF '' @ fld @ ''='' @ np_fixed 6 vif)"

definition fit_lines :: "model_fit \<Rightarrow> string list" where
  "fit_lines fit = [[], ''model='' @ mf_name fit, ''status='' @ mf_status fit, ''formula='' @ mf_formula fit,
     ''message='' @ mf_message fit, case mf_result fit of None \<Rightarrow> [] | Some f \<Rightarrow> fi_summary f]"

definition diagnostics_lines :: "modellib \<Rightarrow> 'w outlib \<Rightarrow> model_fit list \<Rightarrow> analysed list \<Rightarrow> string list" where
  "diagnostics_lines M U fits data =
     (let rows = dropna PREDICTORS data; errors = column ''handshake_power_relative_error'' data in
      [''accepted_rows='' @ str_nat (length data), ''cases='' @ str_nat (count_of ''case_id'' data),
       ''sessions='' @ str_nat (count_of ''session_id'' data),
       ''handshake_power_relative_error_mean='' @ np_fixed 6 (ml_mean M errors),
       ''handshake_power_relative_error_max='' @ np_fixed 6 (group_max errors), [], ''predictor_correlations:'',
       ou_corr_text U (map (\<lambda>f. column f rows) PREDICTORS), []] @
      (if length rows > 5 then map (vif_line U rows) PREDICTORS else []) @ concat (map fit_lines fits))"

definition write_diagnostics :: "'w host \<Rightarrow> modellib \<Rightarrow> 'w outlib \<Rightarrow> string \<Rightarrow> model_fit list \<Rightarrow> analysed list \<Rightarrow> ('w, unit) io" where
  "write_diagnostics H M U path fits data = h_write H path (join newline (diagnostics_lines M U fits data) @ newline)"

section \<open>The program\<close>

record analysis_args =
  aa_run_dirs :: "string list"
  aa_out_dir :: "string option"
  aa_seed :: int
  aa_iterations :: int
  aa_reconnects :: bool
  aa_png :: bool

definition check_analysis_args :: "analysis_args \<Rightarrow> unit res" where
  "check_analysis_args A = guardr (0 \<le> aa_iterations A) (SystemExit ''--bootstrap-iterations must be non-negative'')"

definition default_output_directory :: "string \<Rightarrow> string list \<Rightarrow> string" where
  "default_output_directory project run_dirs =
     path_join (path_join project ''graphic/out/statistics'') (case run_dirs of
       [d] \<Rightarrow> path_name d
     | _ \<Rightarrow> path_name (hd run_dirs) @ ''__'' @ path_name (last run_dirs) @ ''__n'' @ str_nat (length run_dirs))"

text \<open>The four mixed models, on the rows with the logarithms of energy and time.\<close>

definition MIXED_MODELS :: "(string \<times> string \<times> bool) list" where
  "MIXED_MODELS = [(''handshake_energy'', ''log_handshake_energy_uj'', False),
     (''handshake_energy_standardized'', ''log_handshake_energy_uj'', True),
     (''handshake_time_mechanistic'', ''log_raw_handshake_ms'', False),
     (''handshake_time_mechanistic_standardized'', ''log_raw_handshake_ms'', True)]"

definition mixed_fits :: "modellib \<Rightarrow> analysed list \<Rightarrow> (model_fit \<times> coefficient_row list) list" where
  "mixed_fits M data = map (\<lambda>(name, response, standardized). fit_mixed_model M data name response PREDICTORS standardized) MIXED_MODELS"

definition RESPONSES :: "(string \<times> string) list" where
  "RESPONSES = [(''raw_handshake_ms'', ''handshake_time''), (''handshake_energy_uj'', ''handshake_energy'')]"

definition factorial_fits :: "modellib \<Rightarrow> analysed list \<Rightarrow> (model_fit \<times> anova_row list \<times> coefficient_row list) list" where
  "factorial_fits M data = map (\<lambda>(response, label). fit_factorial_model M data (label @ ''_kem_x_pki'') response) RESPONSES"

definition factorial_mixed_fits :: "modellib \<Rightarrow> analysed list \<Rightarrow> (model_fit \<times> coefficient_row list) list" where
  "factorial_mixed_fits M data = map (\<lambda>(response, label). fit_factorial_mixed_model M data (label @ ''_factorial_mixed'') response) RESPONSES"

definition statuses :: "model_fit list \<Rightarrow> pyval" where
  "statuses fits = PDict (dict_of (map (\<lambda>f. (mf_name f, PStr (mf_status f))) fits))"

definition pareto_front_count :: "pareto_row list \<Rightarrow> nat" where
  "pareto_front_count frontier = length (filter pa_optimal frontier)"

definition analysis_manifest ::
  "analysis_args \<Rightarrow> string \<Rightarrow> string list \<Rightarrow> analysed list \<Rightarrow> model_fit list \<Rightarrow> model_fit list \<Rightarrow> model_fit list \<Rightarrow> pareto_row list \<Rightarrow> (string \<times> pyval) list" where
  "analysis_manifest A now run_dirs data mixed factorial factorial_mixed frontier =
     [(''created_at'', PStr now), (''run_dirs'', PList (map PStr run_dirs)), (''seed'', PInt (aa_seed A)),
      (''bootstrap_iterations'', PInt (aa_iterations A)), (''include_reconnects'', PBool (aa_reconnects A)),
      (''accepted_attempts'', PInt (int (length data))), (''case_count'', PInt (int (count_of ''case_id'' data))),
      (''session_count'', PInt (int (count_of ''session_id'' data))),
      (''primary_model_status'', PStr (mf_status (mixed ! 0))), (''standardized_model_status'', PStr (mf_status (mixed ! 1))),
      (''mechanistic_time_model_status'', PStr (mf_status (mixed ! 2))),
      (''mechanistic_time_standardized_model_status'', PStr (mf_status (mixed ! 3))),
      (''factorial_model_statuses'', statuses factorial), (''factorial_mixed_model_statuses'', statuses factorial_mixed),
      (''pareto_front_count'', PInt (int (pareto_front_count frontier)))]"

record analysis =
  as_data :: "analysed list"
  as_flags :: "(bool \<times> bool) list"
  as_quality :: "quality_row list"
  as_correlations :: "correlation_row list"
  as_between :: "correlation_row list"
  as_partial :: "correlation_row list"
  as_residuals :: "(string \<times> npf list \<times> npf list) list"
  as_mixed :: "(model_fit \<times> coefficient_row list) list"
  as_factorial :: "(model_fit \<times> anova_row list \<times> coefficient_row list) list"
  as_factorial_mixed :: "(model_fit \<times> coefficient_row list) list"
  as_pareto :: "pareto_row list"
  as_nist :: "(nist_row \<times> npf) list"
  as_sizes :: "correlation_row list \<times> string \<times> coefficient_row list"

text \<open>Everything \<open>main\<close> computes between loading and saving.\<close>

definition analyse_attempts ::
  "'g statlib \<Rightarrow> modellib \<Rightarrow> (npf list \<Rightarrow> npf) \<Rightarrow> analysis_args \<Rightarrow> analysed list \<Rightarrow> quality_row list \<Rightarrow> analysis res" where
  "analyse_attempts S M mean_of A data0 quality =
     (let n = nat (aa_iterations A); seed = aa_seed A;
          data = add_log M ''log_raw_handshake_ms'' ''raw_handshake_ms''
            (add_log M ''log_handshake_energy_uj'' ''handshake_energy_uj'' data0) in
      bindr (between_within_correlation_table S n seed data0) (\<lambda>between.
      bindr (partial_correlation_table S n seed data0) (\<lambda>(partial, residuals).
      bindr (nist_comparisons S M data) (\<lambda>nist.
      Inr \<lparr>as_data = data, as_flags = outlier_flags M data0, as_quality = quality,
        as_correlations = correlation_table S n seed data0, as_between = between, as_partial = partial,
        as_residuals = residuals, as_mixed = mixed_fits M data, as_factorial = factorial_fits M data,
        as_factorial_mixed = factorial_mixed_fits M data, as_pareto = pareto_frontier mean_of data quality,
        as_nist = nist, as_sizes = signature_size_analysis S M n seed data\<rparr>))))"

definition analysis_tables :: "analysis \<Rightarrow> (string \<times> table) list" where
  "analysis_tables R =
     [(''analysis_dataset.csv'', Attempts_Table (zip (as_data R) (as_flags R))), (''data_quality.csv'', Quality_Table (as_quality R)),
      (''correlations.csv'', Correlations_Table (as_correlations R)),
      (''between_within_correlations.csv'', Correlations_Table (as_between R)),
      (''partial_correlations.csv'', Correlations_Table (as_partial R)),
      (''mixed_model_coefficients.csv'', Coefficients_Table (snd (as_mixed R ! 0))),
      (''standardized_coefficients.csv'', Coefficients_Table (snd (as_mixed R ! 1))),
      (''mechanistic_mixed_model_coefficients.csv'', Coefficients_Table (concat (map snd (as_mixed R)))),
      (''factorial_anova.csv'', Anova_Table (concat (map (fst \<circ> snd) (as_factorial R)))),
      (''factorial_model_coefficients.csv'', Coefficients_Table (concat (map (snd \<circ> snd) (as_factorial R)))),
      (''factorial_mixed_model_coefficients.csv'', Coefficients_Table (concat (map snd (as_factorial_mixed R)))),
      (''pareto_frontier.csv'', Pareto_Table (as_pareto R)), (''nist_comparisons.csv'', Nist_Table (as_nist R)),
      (''signature_size_overhead.csv'', case as_sizes R of (base, status, rows) \<Rightarrow> Sizes_Table base status rows)]"

definition analysis_plots :: "analysis \<Rightarrow> (string \<times> panel list) list" where
  "analysis_plots R =
     [(''time_energy_correlations'', plot_correlations (as_data R)),
      (''between_within_correlations'', plot_between_within_correlations (as_between R)),
      (''partial_correlation_residuals'', plot_partial_residuals (as_residuals R)),
      (''standardized_coefficients'', plot_standardized_coefficients (snd (as_mixed R ! 1))),
      (''mechanistic_standardized_coefficients'', plot_mechanistic_coefficients (snd (as_mixed R ! 1) @ snd (as_mixed R ! 3))),
      (''factorial_effect_sizes'', plot_factorial_effects (concat (map (fst \<circ> snd) (as_factorial R)))),
      (''pareto_frontier'', plot_pareto_frontier (as_pareto R)), (''nist_time_energy'', plot_nist (as_data R)),
      (''signature_size_overhead'', plot_signature_size (as_data R)), (''power_and_edp'', plot_power_edp (as_data R)),
      (''mixed_model_diagnostics'', plot_model_diagnostics (fst (as_mixed R ! 0)))]"

definition status_list :: "model_fit list \<Rightarrow> string" where
  "status_list fits = join '','' (map (\<lambda>f. mf_name f @ '':'' @ mf_status f) fits)"

definition analysis_report :: "analysis \<Rightarrow> string \<Rightarrow> string list" where
  "analysis_report R out_dir =
     [count_line ''attempts'' (length (as_data R)), count_line ''cases'' (count_of ''case_id'' (as_data R)),
      count_line ''sessions'' (count_of ''session_id'' (as_data R)),
      ''primary_model_status='' @ mf_status (fst (as_mixed R ! 0)), ''standardized_model_status='' @ mf_status (fst (as_mixed R ! 1)),
      ''mechanistic_time_model_status='' @ mf_status (fst (as_mixed R ! 2)),
      ''factorial_model_statuses='' @ status_list (map fst (as_factorial R)),
      ''factorial_mixed_model_statuses='' @ status_list (map fst (as_factorial_mixed R)),
      count_line ''pareto_front_count'' (pareto_front_count (as_pareto R)), ''output='' @ out_dir]"

definition save_analysis ::
  "'w host \<Rightarrow> modellib \<Rightarrow> 'w outlib \<Rightarrow> analysis_args \<Rightarrow> string list \<Rightarrow> string \<Rightarrow> analysis \<Rightarrow> ('w, unit) io" where
  "save_analysis H M U A run_dirs out_dir R =
     (let mixed = map fst (as_mixed R); factorial = map fst (as_factorial R); factorial_mixed = map fst (as_factorial_mixed R);
          extension = (if aa_png A then ''png'' else ''pdf'') in
      seqm (eachm (\<lambda>(name, t). save_frame H U t (path_join out_dir name)) (analysis_tables R))
      (bindm (ou_now U) (\<lambda>now.
      seqm (write_json H (path_join out_dir ''analysis_manifest.json'')
        (analysis_manifest A now run_dirs (as_data R) mixed factorial factorial_mixed (as_pareto R)))
      (seqm (write_diagnostics H M U (path_join out_dir ''model_diagnostics.txt'') (mixed @ factorial @ factorial_mixed) (as_data R))
      (eachm (\<lambda>(name, p). ou_draw U p (path_join out_dir (with_suffix name extension))) (analysis_plots R))))))"

definition analysis_main ::
  "('w, 'h) site \<Rightarrow> string \<Rightarrow> 'w pandas \<Rightarrow> 'g statlib \<Rightarrow> modellib \<Rightarrow> (npf list \<Rightarrow> npf) \<Rightarrow> 'w outlib \<Rightarrow> analysis_args \<Rightarrow>
     ('w, int \<times> string list) io" where
  "analysis_main site project P S M mean_of U A =
     (let H = si_host site; D = si_disk site in
      seqm (liftm (check_analysis_args A))
      (bindm (mapm (device_run_dir site project) (aa_run_dirs A)) (\<lambda>run_dirs.
      bindm (dk_resolve D (case aa_out_dir A of Some d \<Rightarrow> d | None \<Rightarrow> default_output_directory project run_dirs)) (\<lambda>out_dir.
      seqm (h_mkdir H out_dir)
      (bindm (load_attempt_data P D run_dirs (aa_reconnects A)) (\<lambda>(data, quality).
      if data = [] then seqm (save_frame H U (Quality_Table quality) (path_join out_dir ''data_quality.csv''))
        (raisem (SystemExit ''No valid powered benchmark attempts were found''))
      else bindm (liftm (analyse_attempts S M mean_of A data quality)) (\<lambda>R.
        seqm (save_analysis H M U A run_dirs out_dir R) (retm (0, analysis_report R out_dir)))))))))"

end
