(* ===== verification/Presentation.thy ===== *)
theory Presentation
  imports Chart_Rows
begin

text \<open>
  \<open>graphic/generate_presentation_graphics.py\<close>: the figures of a talk about the final runs.  Before it
  draws, the program recounts the raw tables and rejects summaries that do not agree with them
  (\<open>recount_case\<close>, \<open>check_transfers\<close>); a failed \<open>assert\<close> is an \<open>AssertionError\<close>.  A figure is the data
  it shows (\<open>slide\<close>); drawing it, whether it fits on its page, the rank correlation of scipy and the
  text of JSON with floats are parameters (\<open>presenter\<close>).
\<close>

section \<open>The cases of the talk\<close>

definition KEX :: "string list" where
  "KEX = [''ECDHE-P-256'', ''ECDHE-P-384'', ''ECDHE-P-521'', ''MLKEM512'', ''MLKEM768'', ''MLKEM1024'',
     ''SecP256r1MLKEM768'', ''X25519MLKEM768'', ''SecP384r1MLKEM1024'']"

definition KEX_LABELS :: "string list" where
  "KEX_LABELS = map (\<lambda>(a, b). a @ newline @ b)
     [(''ECDHE'', ''P-256''), (''ECDHE'', ''P-384''), (''ECDHE'', ''P-521''), (''ML-KEM'', ''512''), (''ML-KEM'', ''768''),
      (''ML-KEM'', ''1024''), (''P256 +'', ''ML768''), (''X25519 +'', ''ML768''), (''P384 +'', ''ML1024'')]"

definition HOM :: "(string \<times> string) list" where
  "HOM = [(''homogeneous_ecdsa_p_256'', ''ECDSA-P-256''), (''homogeneous_ecdsa_p_521'', ''ECDSA-P-521''),
     (''homogeneous_ml_dsa_44'', ''ML-DSA-44''), (''homogeneous_ml_dsa_87'', ''ML-DSA-87''),
     (''homogeneous_slh_dsa_shake_128s'', ''SLH-SHAKE-128s''), (''homogeneous_slh_dsa_shake_256s'', ''SLH-SHAKE-256s''),
     (''homogeneous_slh_dsa_shake_256f'', ''SLH-SHAKE-256f''), (''homogeneous_lms_hss_l2_h10_w4'', ''LMS-HSS''),
     (''homogeneous_xmss_sha2_20_256'', ''XMSS'')]"

definition HET :: "(string \<times> string) list" where
  "HET = [(''root_rsa_pss_3072__leaf_ml_dsa_44'', ''RSA-3072 / ML-DSA-44''),
     (''root_rsa_pss_15360__leaf_ml_dsa_87'', ''RSA-15360 / ML-DSA-87''),
     (''root_slh_dsa_shake_128s__leaf_ecdsa_p_256'', ''SLH-128s / ECDSA-256''),
     (''root_slh_dsa_shake_128s__leaf_ml_dsa_44'', ''SLH-128s / ML-DSA-44''),
     (''root_slh_dsa_shake_256f__leaf_ecdsa_p_521'', ''SLH-256f / ECDSA-521''),
     (''root_slh_dsa_shake_256f__leaf_ml_dsa_87'', ''SLH-256f / ML-DSA-87''),
     (''root_lms_hss_l2_h10_w4__leaf_ml_dsa_87'', ''LMS-HSS / ML-DSA-87''),
     (''root_xmss_sha2_20_256__leaf_ml_dsa_87'', ''XMSS / ML-DSA-87'')]"

definition CANDIDATES :: "(string \<times> string \<times> string) list" where
  "CANDIDATES = [(''A'', ''ecdhe_p_256__homogeneous_ecdsa_p_256'', ''Classical baseline''),
     (''B'', ''mlkem512__homogeneous_ml_dsa_44'', ''Lattice baseline''),
     (''C'', ''mlkem1024__homogeneous_lms_hss_l2_h10_w4'', ''Stateful X.509''),
     (''D'', ''mlkem512__homogeneous_slh_dsa_shake_128s'', ''Stateless X.509''),
     (''E'', ''mlkem512__root_slh_dsa_shake_128s__leaf_ml_dsa_44'', ''Heavy-root transition''),
     (''F'', ''secp384r1mlkem1024__homogeneous_slh_dsa_shake_256f'', ''Stress case''),
     (''G'', ''mlkem1024__homogeneous_ml_dsa_87'', ''Higher lattice parameters'')]"

section \<open>Checking the summaries against the raw tables\<close>

definition row_value :: "srow \<Rightarrow> string \<Rightarrow> rat res" where
  "row_value r k = bindr (dindex r k) py_float"

definition assertr :: "bool \<Rightarrow> string \<Rightarrow> unit res" where
  "assertr b message = guardr b (AssertionError message)"

text \<open>\<open>all\<close> over a generator stops at the first failure.\<close>

fun allr :: "('a \<Rightarrow> bool res) \<Rightarrow> 'a list \<Rightarrow> bool res" where
  "allr P [] = Inr True"
| "allr P (x # xs) = bindr (P x) (\<lambda>b. if b then allr P xs else Inr False)"

definition has_cell :: "string \<Rightarrow> string \<Rightarrow> srow \<Rightarrow> bool res" where
  "has_cell k text r = bindr (dindex r k) (\<lambda>t. Inr (t = text))"

text \<open>\<open>and\<close> of two comparisons.\<close>

definition both_cells :: "string \<Rightarrow> string \<Rightarrow> string \<Rightarrow> string \<Rightarrow> srow \<Rightarrow> bool res" where
  "both_cells k1 t1 k2 t2 r = bindr (has_cell k1 t1 r) (\<lambda>b. if b then has_cell k2 t2 r else Inr False)"

definition stat_mean_of :: "rat list \<Rightarrow> rat res" where
  "stat_mean_of xs = (if xs = [] then Inl (ValueError ''mean requires at least one data point'') else Inr (stat_mean xs))"

definition MEAN_TOLERANCE :: rat where
  "MEAN_TOLERANCE = round64 (1 / 1000)"

definition close_means :: "rat \<Rightarrow> rat \<Rightarrow> bool" where
  "close_means actual expected = (abs (fsub actual expected) < MEAN_TOLERANCE)"

text \<open>The mean of the rows of one cell of the summary against the one reported there.\<close>

definition check_mean :: "string \<Rightarrow> srow \<Rightarrow> srow list \<Rightarrow> string \<Rightarrow> unit res" where
  "check_mean message summary rows metric =
     bindr (mapr (\<lambda>r. row_value r metric) rows) (\<lambda>xs.
     bindr (stat_mean_of xs) (\<lambda>actual.
     bindr (row_value summary (''mean_'' @ metric)) (\<lambda>expected.
     assertr (close_means actual expected) message)))"

definition count_cell :: "string \<Rightarrow> (string, nat) dict \<Rightarrow> (string, nat) dict" where
  "count_cell s d = dset s (dget d s 0 + 1) d"

definition numbered_case :: "string \<Rightarrow> string res" where
  "numbered_case path = (case split_once (path_name (path_parent path)) ''_'' of None \<Rightarrow> Inl IndexError
     | Some parts \<Rightarrow> Inr (snd parts))"

definition HANDSHAKE_METRICS :: "string list" where
  "HANDSHAKE_METRICS = [''raw_handshake_ms'', ''handshake_energy_uj'', ''client_cpu_ms'']"

text \<open>One table of attempts; the state is the statuses seen and the number of valid attempts.\<close>

definition recount_case ::
  "(string, srow) dict \<Rightarrow> string \<Rightarrow> srow list \<Rightarrow> (string, nat) dict \<times> nat \<Rightarrow> ((string, nat) dict \<times> nat) res" where
  "recount_case by_id case_id attempts st =
     bindr (assertr (length attempts = 50) case_id) (\<lambda>_.
     bindr (mapr (\<lambda>r. dindex r ''status'') attempts) (\<lambda>cells.
     bindr (filterr (both_cells ''status'' ''success'' ''warmup'' ''0'') attempts) (\<lambda>valid.
     bindr (dindex by_id case_id) (\<lambda>summary.
     bindr (bindr (dindex summary ''success_count'') py_int) (\<lambda>n.
     bindr (assertr (int (length valid) = n) case_id) (\<lambda>_.
     bindr (allr (has_cell ''power_status'' ''success'') valid) (\<lambda>powered.
     bindr (assertr powered case_id) (\<lambda>_.
     bindr (mapr (\<lambda>metric. check_mean (case_id @ '', '' @ metric) summary valid metric) HANDSHAKE_METRICS) (\<lambda>_.
     Inr (fold count_cell cells (fst st), snd st + length valid))))))))))"

type_synonym sent_cells = "(string \<times> string \<times> string, srow list) dict"

definition cell_of_case :: "string \<Rightarrow> srow \<Rightarrow> (string \<times> string \<times> string) res" where
  "cell_of_case case_id r = bindr (dindex r ''direction'') (\<lambda>direction.
     bindr (dindex r ''payload_bytes'') (\<lambda>payload. Inr (case_id, direction, payload)))"

definition transfer_cell :: "srow \<Rightarrow> (string \<times> string \<times> string) res" where
  "transfer_cell r = bindr (dindex r ''case_id'') (\<lambda>case_id. cell_of_case case_id r)"

definition counted_transmission :: "srow \<Rightarrow> bool res" where
  "counted_transmission r = both_cells ''status'' ''success'' ''round_complete'' ''1'' r"

definition sound_transmission :: "srow \<Rightarrow> bool res" where
  "sound_transmission r = both_cells ''power_status'' ''success'' ''integrity_match'' ''1'' r"

text \<open>A raw row comes with the case of its table, which the name of the directory gives.\<close>

definition note_transmission ::
  "(string, nat) dict \<times> sent_cells \<Rightarrow> string \<times> srow \<Rightarrow> ((string, nat) dict \<times> sent_cells) res" where
  "note_transmission st item = (case item of (case_id, r) \<Rightarrow>
     bindr (dindex r ''status'') (\<lambda>s.
     let seen = count_cell s (fst st) in
     bindr (counted_transmission r) (\<lambda>counted.
     if \<not> counted then Inr (seen, snd st)
     else bindr (sound_transmission r) (\<lambda>sound.
       bindr (assertr sound []) (\<lambda>_.
       bindr (cell_of_case case_id r) (\<lambda>k. Inr (seen, dappend k r (snd st))))))))"

definition TRANSFER_METRICS :: "string list" where
  "TRANSFER_METRICS = [''end_to_end_ms'', ''transfer_energy_uj'']"

definition check_transfer :: "sent_cells \<Rightarrow> srow \<Rightarrow> unit list res" where
  "check_transfer sent r =
     bindr (transfer_cell r) (\<lambda>k.
     bindr (bindr (dindex r ''success_count'') py_int) (\<lambda>n.
     bindr (assertr (int (length (dget sent k [])) = n \<and> n = 10) []) (\<lambda>_.
     mapr (check_mean [] r (dget sent k [])) TRANSFER_METRICS)))"

text \<open>The number of cells is written into the program, \<open>TRANSFER_CELLS\<close>.\<close>

definition check_transfers :: "nat \<Rightarrow> sent_cells \<Rightarrow> srow list \<Rightarrow> unit list list res" where
  "check_transfers cells sent transfers =
     bindr (assertr (length sent = length transfers \<and> length transfers = cells) []) (\<lambda>_.
     mapr (check_transfer sent) transfers)"

definition TRANSFER_CELLS :: nat where
  "TRANSFER_CELLS = 4212"

definition numbered_table :: "'w host \<Rightarrow> string \<Rightarrow> ('w, string \<times> srow list) io" where
  "numbered_table H path = bindm (liftm (numbered_case path)) (\<lambda>case_id.
     bindm (read_table H path) (\<lambda>rows. retm (case_id, rows)))"

definition counts_value :: "(string, nat) dict \<Rightarrow> pyval" where
  "counts_value d = PDict (map (\<lambda>(k, n). (k, PInt (int n))) d)"

definition validate_raw ::
  "'w host \<Rightarrow> 'w disk \<Rightarrow> string \<Rightarrow> string \<Rightarrow> (string, srow) dict \<Rightarrow> srow list \<Rightarrow> ('w, pyval) io" where
  "validate_raw H D handshake_dir transfer_dir by_id transfers =
     bindm (case_tables D handshake_dir ''attempts.csv'') (\<lambda>paths.
     bindm (foldm (\<lambda>st path. bindm (numbered_table H path) (\<lambda>(case_id, attempts).
       liftm (recount_case by_id case_id attempts st))) ([], 0) paths) (\<lambda>(seen, valid).
     bindm (case_tables D transfer_dir ''transmissions.csv'') (\<lambda>paths.
     bindm (foldm (\<lambda>st path. bindm (numbered_table H path) (\<lambda>(case_id, rows).
       liftm (foldr_res note_transmission st (map (Pair case_id) rows)))) ([], []) paths) (\<lambda>(transmissions, sent).
     bindm (liftm (check_transfers TRANSFER_CELLS sent transfers)) (\<lambda>_.
     retm (PDict [(''handshake_statuses'', counts_value seen), (''valid_handshakes'', PInt (int valid)),
       (''transfer_statuses'', counts_value transmissions), (''transfers_per_cell'', PInt 10)]))))))"

section \<open>The figures\<close>

datatype slide =
    Cells string "string list" "string list" "rat list list" "string list list"
  | Bar_Panels "(string \<times> (string \<times> rat \<times> rat option \<times> string) list) list"
  | Scatter string "(string \<times> (rat \<times> rat) list) list" "(string \<times> rat \<times> rat) list"
  | Share_Panels "(string \<times> (string \<times> rat \<times> rat \<times> string) list) list"

record 'w presenter =
  pr_spearman :: "rat list \<Rightarrow> rat list \<Rightarrow> pyval"
  pr_on_page :: "slide \<Rightarrow> string \<Rightarrow> bool"
  pr_draw :: "slide \<Rightarrow> string \<Rightarrow> string \<Rightarrow> ('w, unit) io"
  pr_json :: "pyval \<Rightarrow> string"

text \<open>A figure whose texts leave the page is refused; the others are written twice.\<close>

definition save_slide :: "'w presenter \<Rightarrow> string \<Rightarrow> slide \<Rightarrow> string \<Rightarrow> string \<Rightarrow> ('w, unit) io" where
  "save_slide P out slide name note =
     (if pr_on_page P slide note
      then seqm (pr_draw P slide note (path_join out (name @ ''.pdf''))) (pr_draw P slide note (path_join out (name @ ''.png'')))
      else raisem (AssertionError name))"

definition scaled :: "rat \<Rightarrow> string \<Rightarrow> srow \<Rightarrow> rat res" where
  "scaled scale k r = bindr (row_value r k) (\<lambda>v. Inr (fdiv v scale))"

definition by_chain_and_group :: "srow list \<Rightarrow> (string \<times> string, srow) dict res" where
  "by_chain_and_group rows = bindr (mapr (\<lambda>r. bindr (dindex r ''pki_chain_id'') (\<lambda>p.
     bindr (dindex r ''kex_group'') (\<lambda>k. Inr ((p, k), r)))) rows) (\<lambda>kvs. Inr (dict_of kvs))"

definition heatmap_values :: "srow list \<Rightarrow> (string \<times> string) list \<Rightarrow> string \<Rightarrow> rat \<Rightarrow> rat list list res" where
  "heatmap_values rows profiles metric scale =
     bindr (by_chain_and_group rows) (\<lambda>lookup.
     mapr (\<lambda>(p, label). mapr (\<lambda>k. case map_of lookup (p, k) of None \<Rightarrow> Inl (KeyError (p @ '', '' @ k))
       | Some r \<Rightarrow> scaled scale metric r) KEX) profiles)"

definition heatmap_slide ::
  "srow list \<Rightarrow> (string \<times> string) list \<Rightarrow> string \<Rightarrow> rat \<Rightarrow> rat \<Rightarrow> string \<Rightarrow> slide res" where
  "heatmap_slide rows profiles metric scale vmax title =
     bindr (heatmap_values rows profiles metric scale) (\<lambda>data.
     bindr (assertr (list_all (\<lambda>v. 0 \<le> v \<and> v \<le> vmax) (concat data)) []) (\<lambda>_.
     Inr (Cells title KEX_LABELS (map snd profiles) data (map (map (fmt_fixed 1)) data))))"

definition heatmap ::
  "'w presenter \<Rightarrow> string \<Rightarrow> srow list \<Rightarrow> (string \<times> string) list \<Rightarrow> string \<Rightarrow> rat \<Rightarrow> rat \<Rightarrow> string \<Rightarrow> string \<Rightarrow> ('w, unit) io" where
  "heatmap P out rows profiles metric scale vmax title filename =
     bindm (liftm (heatmap_slide rows profiles metric scale vmax title)) (\<lambda>slide.
     save_slide P out slide filename
       ''Selected PKIs; all 9 KEX groups. Means of successful attempts; shared scales across PKI layouts.'')"

definition COMPARED :: "(string \<times> string) list" where
  "COMPARED = [(fst (snd (CANDIDATES ! 0)), ''ECDHE-P-256 / ECDSA-P-256''), (fst (snd (CANDIDATES ! 1)), ''MLKEM512 / ML-DSA-44''),
     (''secp256r1mlkem768__homogeneous_ml_dsa_44'', ''P256+MLKEM768 / ML-DSA-44''),
     (''ecdhe_p_521__homogeneous_ecdsa_p_521'', ''ECDHE-P-521 / ECDSA-P-521''),
     (fst (snd (CANDIDATES ! 6)), ''MLKEM1024 / ML-DSA-87'')]"

definition case_scaled :: "(string, srow) dict \<Rightarrow> rat \<Rightarrow> string \<Rightarrow> string \<Rightarrow> rat res" where
  "case_scaled by_id scale k case_id = bindr (dindex by_id case_id) (scaled scale k)"

text \<open>The bars of one panel; only the panel of the time has whiskers.\<close>

definition bars_of :: "nat \<Rightarrow> string list \<Rightarrow> rat list \<Rightarrow> rat option list \<Rightarrow> (string \<times> rat \<times> rat option \<times> string) list" where
  "bars_of decimals labels vals whiskers =
     map (\<lambda>(label, v, whisker). (label, v, whisker, fmt_fixed decimals v)) (zip labels (zip vals whiskers))"

definition comparison_panel :: "(string, srow) dict \<Rightarrow> string \<times> string \<Rightarrow> (string \<times> (string \<times> rat \<times> rat option \<times> string) list) res" where
  "comparison_panel by_id panel = (case panel of (metric, title) \<Rightarrow>
     bindr (mapr (case_scaled by_id 1000 metric) (map fst COMPARED)) (\<lambda>vals.
     bindr (if metric = ''mean_raw_handshake_ms''
       then bindr (mapr (case_scaled by_id 1000 ''stddev_raw_handshake_ms'') (map fst COMPARED)) (\<lambda>xs. Inr (map Some xs))
       else Inr (map (\<lambda>_. None) COMPARED)) (\<lambda>whiskers.
     Inr (title, bars_of 2 (map snd COMPARED) vals whiskers))))"

definition comparisons :: "'w presenter \<Rightarrow> string \<Rightarrow> (string, srow) dict \<Rightarrow> ('w, unit) io" where
  "comparisons P out by_id =
     bindm (liftm (mapr (comparison_panel by_id) [(''mean_raw_handshake_ms'', ''Handshake time (s)''),
       (''mean_handshake_energy_uj'', ''Handshake energy (mJ)'')])) (\<lambda>panels.
     save_slide P out (Bar_Panels panels) ''switching_cost''
       ''Homogeneous X.509; case means. Time whiskers: 1 SD, not CI. Parameter sets are not identical security categories.'')"

definition resource_panel :: "srow list \<Rightarrow> string \<times> rat \<times> string \<Rightarrow> (string \<times> (string \<times> rat \<times> rat option \<times> string) list) res" where
  "resource_panel rows panel = (case panel of (metric, scale, title) \<Rightarrow>
     bindr (mapr (scaled scale metric) rows) (\<lambda>vals.
     Inr (title, bars_of 1 (map (\<lambda>(letter, _, label). letter @ ''  '' @ label) CANDIDATES) vals (map (\<lambda>_. None) vals))))"

definition resources :: "'w presenter \<Rightarrow> string \<Rightarrow> (string, srow) dict \<Rightarrow> ('w, unit) io" where
  "resources P out by_id =
     bindm (liftm (mapr (\<lambda>(_, case_id, _). dindex by_id case_id) CANDIDATES)) (\<lambda>rows.
     bindm (liftm (mapr (resource_panel rows) [(''max_client_heap_peak_bytes'', 1024, ''wolfSSL heap peak (KiB)''),
       (''max_thread_stack_peak_percent'', 1, ''Worst thread stack peak (%)'')])) (\<lambda>panels.
     save_slide P out (Bar_Panels panels) ''selected_resources''
       ''Maxima over successful attempts. Stack = highest individual thread percentage, not total stack occupancy. IDs: slides.''))"

text \<open>\<open>layout.capitalize()\<close> of one of the two layouts.\<close>

definition capitalized :: "string \<Rightarrow> string" where
  "capitalized layout = (if layout = ''homogeneous'' then ''Homogeneous'' else ''Heterogeneous'')"

definition FAMILIES :: "(string \<times> (string \<Rightarrow> bool)) list" where
  "FAMILIES = [(''ECDHE'', \<lambda>k. startswith k ''ECDHE''), (''ML-KEM'', \<lambda>k. startswith k ''MLKEM''),
     (''Hybrid'', \<lambda>k. \<not> startswith k ''ECDHE'' \<and> \<not> startswith k ''MLKEM'')]"

definition time_and_cpu :: "srow \<Rightarrow> (rat \<times> rat) res" where
  "time_and_cpu r = bindr (scaled 1000 ''mean_raw_handshake_ms'' r) (\<lambda>x.
     bindr (scaled 1000 ''mean_client_cpu_ms'' r) (\<lambda>y. Inr (x, y)))"

definition family_points :: "srow list \<Rightarrow> string \<times> (string \<Rightarrow> bool) \<Rightarrow> (string \<times> (rat \<times> rat) list) res" where
  "family_points rows family = (case family of (label, belongs) \<Rightarrow>
     bindr (filterr (\<lambda>r. bindr (dindex r ''kex_group'') (\<lambda>k. Inr (belongs k))) rows) (\<lambda>members.
     bindr (mapr (scaled 1000 ''mean_raw_handshake_ms'') members) (\<lambda>xs.
     bindr (mapr (scaled 1000 ''mean_client_cpu_ms'') members) (\<lambda>ys.
     Inr (label, zip xs ys)))))"

text \<open>\<open>next\<close> over a generator: the first row of a case, if there is one.\<close>

fun first_of_case :: "string \<Rightarrow> srow list \<Rightarrow> srow option res" where
  "first_of_case case_id [] = Inr None"
| "first_of_case case_id (r # rs) =
     bindr (has_cell ''case_id'' case_id r) (\<lambda>b. if b then Inr (Some r) else first_of_case case_id rs)"

definition LETTERED :: "string list" where
  "LETTERED = [''A'', ''D'', ''E'', ''F'', ''G'']"

definition letter_mark :: "srow list \<Rightarrow> string \<times> string \<times> string \<Rightarrow> (string \<times> rat \<times> rat) option res" where
  "letter_mark rows candidate = (case candidate of (letter, case_id, _) \<Rightarrow>
     bindr (first_of_case case_id rows) (\<lambda>found. case found of None \<Rightarrow> Inr None
       | Some r \<Rightarrow> if r = [] \<or> letter \<notin> set LETTERED then Inr None
           else bindr (time_and_cpu r) (\<lambda>(x, y). Inr (Some (letter, x, y)))))"

definition cpu_slide :: "srow list \<Rightarrow> string \<Rightarrow> slide res" where
  "cpu_slide rows layout =
     bindr (mapr (family_points rows) FAMILIES) (\<lambda>families.
     bindr (mapr (letter_mark rows) CANDIDATES) (\<lambda>marks.
     Inr (Scatter (capitalized layout @ '' PKI: one point per case'') families (somes marks))))"

definition cpu_scatter :: "'w presenter \<Rightarrow> string \<Rightarrow> srow list \<Rightarrow> string \<Rightarrow> ('w, unit) io" where
  "cpu_scatter P out rows layout = bindm (liftm (cpu_slide rows layout)) (\<lambda>slide.
     save_slide P out slide (''cpu_'' @ layout)
       ''All cases in this layout; successful-attempt means. Distance from the identity line is not a radio-airtime measurement.'')"

section \<open>A workload of a hundred transfers\<close>

definition DIRECTIONS_SHOWN :: "string list" where
  "DIRECTIONS_SHOWN = [''device_to_server'', ''server_to_device'']"

definition transfer_index :: "srow list \<Rightarrow> (string \<times> int \<times> string, srow) dict res" where
  "transfer_index transfers =
     bindr (mapr (\<lambda>r. bindr (dindex r ''case_id'') (\<lambda>case_id. bindr (bindr (dindex r ''payload_bytes'') py_int) (\<lambda>n.
       bindr (dindex r ''direction'') (\<lambda>direction. Inr ((case_id, n, direction), r))))) transfers) (\<lambda>kvs. Inr (dict_of kvs))"

definition transfer_energy :: "(string \<times> int \<times> string, srow) dict \<Rightarrow> int \<Rightarrow> string \<Rightarrow> rat res" where
  "transfer_energy index bytes case_id =
     bindr (mapr (\<lambda>direction. case map_of index (case_id, bytes, direction) of
         None \<Rightarrow> Inl (KeyError (case_id @ '', '' @ str_int bytes @ '', '' @ direction))
       | Some r \<Rightarrow> row_value r ''mean_transfer_energy_uj'') DIRECTIONS_SHOWN) (\<lambda>xs.
     Inr (fdiv (fmul 50 (py_sum xs)) 1000))"

text \<open>The quotient of two zeros is not-a-number in numpy.\<close>

definition handshake_share :: "rat \<Rightarrow> rat \<Rightarrow> rat res" where
  "handshake_share h t = (if fadd h t = 0 then Inl (OutsideModel ''division by zero'')
     else Inr (fdiv (fmul 100 h) (fadd h t)))"

definition share_panel ::
  "(string, srow) dict \<Rightarrow> (string \<times> int \<times> string, srow) dict \<Rightarrow> int \<Rightarrow>
     ((string \<times> (string \<times> rat \<times> rat \<times> string) list) \<times> (string \<times> rat) list) res" where
  "share_panel by_id index bytes =
     bindr (mapr (\<lambda>(_, case_id, _). case_scaled by_id 1000 ''mean_handshake_energy_uj'' case_id) CANDIDATES) (\<lambda>hs.
     bindr (mapr (\<lambda>(_, case_id, _). transfer_energy index bytes case_id) CANDIDATES) (\<lambda>ts.
     bindr (mapr (\<lambda>(h, t). handshake_share h t) (zip hs ts)) (\<lambda>shares.
     Inr ((if bytes = 128 then ''128 B per transfer'' else ''64 KiB per transfer'',
         map (\<lambda>(candidate, h, t, share). (fst candidate, h, t, fmt_fixed 1 share @ ''%''))
           (zip CANDIDATES (zip hs (zip ts shares)))),
       map (\<lambda>(candidate, share). (fst candidate @ ''_'' @ str_int bytes, share)) (zip CANDIDATES shares)))))"

definition workload :: "'w presenter \<Rightarrow> string \<Rightarrow> (string, srow) dict \<Rightarrow> srow list \<Rightarrow> ('w, (string \<times> rat) list) io" where
  "workload P out by_id transfers =
     bindm (liftm (transfer_index transfers)) (\<lambda>index.
     bindm (liftm (mapr (share_panel by_id index) [128, 65536])) (\<lambda>panels.
     seqm (save_slide P out (Share_Panels (map fst panels)) ''handshake_amortization''
       ''Labels = handshake share. Case-paired final datasets; 100 transfers is a workload assumption, not the repetition count.'')
     (retm (concat (map snd panels)))))"

section \<open>The program\<close>

definition AUDIT_METRICS :: "string list" where
  "AUDIT_METRICS = [''mean_raw_handshake_ms'', ''mean_handshake_energy_uj'', ''max_client_heap_peak_usage_percent'']"

definition range_of_metric :: "srow list \<Rightarrow> string \<Rightarrow> (string \<times> pyval) res" where
  "range_of_metric rows metric = bindr (mapr (\<lambda>r. row_value r metric) rows) (\<lambda>xs.
     if xs = [] then Inl (ValueError ''min() arg is an empty sequence'')
     else Inr (metric, PList [PFloat (min_of xs), PFloat (max_of xs)]))"

definition layout_audit :: "'w presenter \<Rightarrow> srow list \<Rightarrow> (string \<times> string) list \<Rightarrow> pyval res" where
  "layout_audit P rows profiles =
     bindr (mapr (range_of_metric rows) AUDIT_METRICS) (\<lambda>ranges.
     bindr (mapr (\<lambda>r. row_value r (AUDIT_METRICS ! 0)) rows) (\<lambda>xs.
     bindr (mapr (\<lambda>r. row_value r (AUDIT_METRICS ! 1)) rows) (\<lambda>ys.
     Inr (PDict [(''cases'', PInt (int (length rows))), (''plotted_profiles'', PList (map (PStr \<circ> fst) profiles)),
       (''ranges'', PDict ranges), (''spearman_case_mean_time_energy'', pr_spearman P xs ys)]))))"

definition present_layout ::
  "'w presenter \<Rightarrow> string \<Rightarrow> srow list \<Rightarrow> string \<times> (string \<times> string) list \<Rightarrow> ('w, string \<times> pyval) io" where
  "present_layout P out rows item = (case item of (layout, profiles) \<Rightarrow>
     (let members = filter (\<lambda>r. pki_category r = layout) rows in
      bindm (liftm (layout_audit P members profiles)) (\<lambda>entry.
      seqm (heatmap P out members profiles (AUDIT_METRICS ! 0) 1000 24
        (capitalized layout @ '' X.509: handshake time (s)'') (''time_'' @ layout))
      (seqm (heatmap P out members profiles (AUDIT_METRICS ! 1) 1000 185
        (capitalized layout @ '' X.509: handshake energy (mJ)'') (''energy_'' @ layout))
      (seqm (cpu_scatter P out members layout) (retm (layout, entry)))))))"

text \<open>The rows of one direction with the largest payload, named like the case of their handshake.\<close>

definition joined_transfer :: "(string, srow) dict \<Rightarrow> string \<Rightarrow> srow \<Rightarrow> srow option res" where
  "joined_transfer by_id direction r =
     bindr (both_cells ''direction'' direction ''payload_bytes'' ''65536'' r) (\<lambda>shown.
     if \<not> shown then Inr None
     else bindr (bindr (dindex r ''case_id'') (dindex by_id)) (\<lambda>h.
       bindr (dindex h ''pki_chain_id'') (\<lambda>p. bindr (dindex h ''kex_group'') (\<lambda>k.
       Inr (Some (dset ''kex_group'' k (dset ''pki_chain_id'' p r)))))))"

definition underscores_spaced :: "string \<Rightarrow> string" where
  "underscores_spaced s = map (\<lambda>c. if c = CHR ''_'' then CHR '' '' else c) s"

definition present_direction ::
  "'w presenter \<Rightarrow> string \<Rightarrow> (string, srow) dict \<Rightarrow> srow list \<Rightarrow> string \<Rightarrow> ('w, unit) io" where
  "present_direction P out by_id transfers direction =
     bindm (liftm (mapr (joined_transfer by_id direction) transfers)) (\<lambda>rows.
     heatmap P out (somes rows) HOM ''mean_end_to_end_ms'' 1000 7
       (''64 KiB: '' @ underscores_spaced direction @ '' time (s)'') (''transfer_65536_'' @ direction))"

text \<open>\<open>selected_cases.csv\<close> keeps what was written before a row with an unknown column.\<close>

definition write_selected :: "'w host \<Rightarrow> string \<Rightarrow> (string, srow) dict \<Rightarrow> ('w, unit) io" where
  "write_selected H path by_id =
     bindm (liftm (mapr (\<lambda>(letter, case_id, label). bindr (dindex by_id case_id) (\<lambda>r.
       Inr (dset ''role'' label (dset ''slide_id'' letter r)))) CANDIDATES)) (\<lambda>selected.
     let names = map fst (hd selected) in
     seqm (h_write H path (csv_line names))
     (eachm (\<lambda>r. bindm (liftm (dict_line False names (text_row r))) (\<lambda>cells. h_append H path (csv_line cells))) selected))"

definition SOURCES :: "string list" where
  "SOURCES = [''benchmarking/results/final_bench_results/summary.csv'',
     ''benchmarking/results/final_bench_results/merge_sources.json'',
     ''benchmarking/results/final_transfer_bench_results/transfer_summary.csv'',
     ''benchmarking/results/final_transfer_bench_results/merge_manifest.json'']"

definition source_digest :: "'w host \<Rightarrow> string \<Rightarrow> string \<Rightarrow> ('w, string \<times> pyval) io" where
  "source_digest H project name = bindm (h_read_bytes H (path_join project name)) (\<lambda>bs.
     retm (name, PStr (sha256_hex bs)))"

definition presentation_main :: "'w host \<Rightarrow> 'w disk \<Rightarrow> 'w presenter \<Rightarrow> string \<Rightarrow> ('w, unit) io" where
  "presentation_main H D P project =
     (let out = path_join project ''benchmarking/presentation_graphics'';
          handshake_dir = path_join project ''benchmarking/results/final_bench_results'';
          transfer_dir = path_join project ''benchmarking/results/final_transfer_bench_results'' in
      seqm (h_mkdir H out)
      (bindm (read_table H (path_join handshake_dir ''summary.csv'')) (\<lambda>rows0.
      bindm (read_table H (path_join transfer_dir ''transfer_summary.csv'')) (\<lambda>transfers.
      seqm (liftm (assertr (length rows0 = 351 \<and> length transfers = TRANSFER_CELLS) []))
      (bindm (liftm (add_total_memory_metrics rows0)) (\<lambda>rows.
      bindm (liftm (bindr (mapr (\<lambda>r. bindr (dindex r ''case_id'') (\<lambda>k. Inr (k, r))) rows) (\<lambda>kvs. Inr (dict_of kvs)))) (\<lambda>by_id.
      seqm (liftm (assertr (length by_id = 351) []))
      (bindm (validate_raw H D handshake_dir transfer_dir by_id transfers) (\<lambda>validation.
      bindm (mapm (present_layout P out rows) [(''homogeneous'', HOM), (''heterogeneous'', HET)]) (\<lambda>layouts.
      seqm (comparisons P out by_id)
      (seqm (resources P out by_id)
      (bindm (workload P out by_id transfers) (\<lambda>shares.
      seqm (eachm (present_direction P out by_id transfers) DIRECTIONS_SHOWN)
      (seqm (write_selected H (path_join out ''selected_cases.csv'') by_id)
      (bindm (mapm (source_digest H project) SOURCES) (\<lambda>digests.
      h_write H (path_join out ''audit.json'') (pr_json P (PDict
        [(''handshake_cases'', PInt (int (length rows))), (''transfer_cells'', PInt (int (length transfers))),
         (''raw_validation'', validation), (''layouts'', PDict layouts),
         (''handshake_share_percent'', PDict (map (\<lambda>(k, v). (k, PFloat v)) shares)),
         (''source_sha256'', PDict digests)]) @ newline)))))))))))))))))"

section \<open>What the recount shows\<close>

text \<open>The groups after a pass over the raw rows: every counted row is sound and in the group of its cell.\<close>

definition counted_in :: "string \<times> string \<times> string \<Rightarrow> string \<times> srow \<Rightarrow> bool" where
  "counted_in k item \<longleftrightarrow> counted_transmission (snd item) = Inr True \<and> cell_of_case (fst item) (snd item) = Inr k"

definition cell_rows :: "string \<times> string \<times> string \<Rightarrow> (string \<times> srow) list \<Rightarrow> srow list" where
  "cell_rows k items = map snd (filter (counted_in k) items)"

definition counted_sound :: "string \<times> srow \<Rightarrow> bool" where
  "counted_sound item \<longleftrightarrow> counted_transmission (snd item) = Inr True \<longrightarrow>
     sound_transmission (snd item) = Inr True \<and> isl (cell_of_case (fst item) (snd item)) = False"

definition grouped :: "(string \<times> srow) list \<Rightarrow> sent_cells \<Rightarrow> bool" where
  "grouped items sent \<longleftrightarrow> distinct (map fst sent) \<and> list_all counted_sound items \<and>
     (\<forall>k. dget sent k [] = cell_rows k items \<and> (dhas sent k \<longleftrightarrow> cell_rows k items \<noteq> []))"

lemma groupedD:
  assumes "grouped items sent"
  shows "distinct (map fst sent)" "list_all counted_sound items"
    "dget sent k [] = cell_rows k items" "dhas sent k \<longleftrightarrow> cell_rows k items \<noteq> []"
  using assms unfolding grouped_def by blast+

lemma groupedI:
  assumes "distinct (map fst sent)" "list_all counted_sound items"
    "\<And>k. dget sent k [] = cell_rows k items" "\<And>k. dhas sent k \<longleftrightarrow> cell_rows k items \<noteq> []"
  shows "grouped items sent"
  using assms unfolding grouped_def by blast

lemma cell_rows_snoc: "cell_rows k (items @ [x]) = cell_rows k items @ (if counted_in k x then [snd x] else [])"
  by (simp add: cell_rows_def)

lemma note_transmission_grouped:
  assumes "grouped items sent" and "note_transmission (seen, sent) x = Inr (seen', sent')"
  shows "grouped (items @ [x]) sent'"
proof (cases "counted_transmission (snd x) = Inr True")
  case False
  then have "sent' = sent"
    using assms(2) by (auto simp: note_transmission_def bindr_eq_Inr Let_def split: prod.splits)
  moreover have "\<not> counted_in k x" for k using False by (simp add: counted_in_def)
  ultimately show ?thesis
    using groupedD [OF assms(1)] False by (intro groupedI) (auto simp: cell_rows_snoc counted_sound_def)
next
  case True
  then obtain k where k: "cell_of_case (fst x) (snd x) = Inr k" "sound_transmission (snd x) = Inr True"
      "sent' = dappend k (snd x) sent"
    using assms(2) by (auto simp: note_transmission_def bindr_eq_Inr Let_def assertr_def split: prod.splits)
  have in_k: "counted_in j x \<longleftrightarrow> j = k" for j using True k(1) by (auto simp: counted_in_def)
  note g = groupedD [OF assms(1)]
  show ?thesis
  proof (rule groupedI)
    show "distinct (map fst sent')" unfolding k(3) dappend_def by (rule distinct_dset) (rule g(1))
    show "list_all counted_sound (items @ [x])" using g(2) k by (simp add: counted_sound_def)
    show "dget sent' j [] = cell_rows j (items @ [x])" for j
      unfolding k(3) dappend_def dget_dset g(3) cell_rows_snoc in_k by simp
    show "dhas sent' j \<longleftrightarrow> cell_rows j (items @ [x]) \<noteq> []" for j
      unfolding k(3) dappend_def dhas_dset g(4) cell_rows_snoc in_k by simp
  qed
qed

lemma transmissions_grouped:
  "foldr_res note_transmission ([], []) items = Inr (seen, sent) \<Longrightarrow> grouped items sent"
proof (induction items arbitrary: seen sent rule: rev_induct)
  case Nil
  then show ?case by (simp add: grouped_def dget_def dhas_def cell_rows_def)
next
  case (snoc x items)
  from snoc.prems obtain a b where st: "foldr_res note_transmission ([], []) items = Inr (a, b)"
    "note_transmission (a, b) x = Inr (seen, sent)"
    by (auto simp: foldr_res_append bindr_eq_Inr)
  show ?case by (rule note_transmission_grouped [OF snoc.IH [OF st(1)] st(2)])
qed

text \<open>One row of the summary that passes its check.\<close>

definition recounted :: "(string \<times> srow) list \<Rightarrow> srow \<Rightarrow> bool" where
  "recounted items t \<longleftrightarrow> (\<exists>k. transfer_cell t = Inr k \<and> length (cell_rows k items) = 10 \<and>
     (\<forall>metric\<in>set TRANSFER_METRICS. \<exists>xs x. mapr (\<lambda>r. row_value r metric) (cell_rows k items) = Inr xs \<and>
        row_value t (''mean_'' @ metric) = Inr x \<and> abs (fsub (stat_mean xs) x) < MEAN_TOLERANCE))"

lemma mapr_each: "mapr f xs = Inr ys \<Longrightarrow> x \<in> set xs \<Longrightarrow> \<exists>y. f x = Inr y"
  by (induction xs arbitrary: ys) (auto simp: bindr_eq_Inr)

lemma check_mean_close:
  "check_mean message t rows metric = Inr u \<Longrightarrow> \<exists>xs x. mapr (\<lambda>r. row_value r metric) rows = Inr xs \<and>
     row_value t (''mean_'' @ metric) = Inr x \<and> abs (fsub (stat_mean xs) x) < MEAN_TOLERANCE"
  by (auto simp: check_mean_def bindr_eq_Inr assertr_def close_means_def stat_mean_of_def split: if_splits)

lemma check_transfer_recounted:
  assumes "grouped items sent" and "check_transfer sent t = Inr cs"
  shows "recounted items t \<and> (\<exists>k. transfer_cell t = Inr k \<and> dhas sent k)"
proof -
  from assms(2) obtain k where k: "transfer_cell t = Inr k" "length (dget sent k []) = 10"
    and means: "mapr (check_mean [] t (dget sent k [])) TRANSFER_METRICS = Inr cs"
    by (auto simp: check_transfer_def bindr_eq_Inr assertr_def)
  have cell: "dget sent k [] = cell_rows k items" "dhas sent k \<longleftrightarrow> cell_rows k items \<noteq> []"
    by (rule groupedD [OF assms(1)])+
  have "dhas sent k" using k(2) cell by auto
  moreover have "\<exists>xs x. mapr (\<lambda>r. row_value r metric) (cell_rows k items) = Inr xs \<and>
      row_value t (''mean_'' @ metric) = Inr x \<and> abs (fsub (stat_mean xs) x) < MEAN_TOLERANCE"
    if "metric \<in> set TRANSFER_METRICS" for metric
    using mapr_each [OF means that] check_mean_close cell(1) by metis
  ultimately show ?thesis using k cell(1) by (auto simp: recounted_def)
qed

text \<open>
  As many cells as summary rows, and no cell twice in the summary: no cell of the raw rows is left
  without its row in the summary.
\<close>

lemma cells_covered:
  assumes "grouped items sent" "check_transfers n sent transfers = Inr cs" "distinct (map transfer_cell transfers)"
  shows "dhas sent k \<Longrightarrow> \<exists>t\<in>set transfers. transfer_cell t = Inr k"
proof -
  have sizes: "length sent = length transfers" and each: "mapr (check_transfer sent) transfers = Inr cs"
    using assms(2) by (auto simp: check_transfers_def bindr_eq_Inr assertr_def)
  let ?keys = "Inr ` set (map fst sent) :: (string \<times> string \<times> string) res set"
  have sub: "set (map transfer_cell transfers) \<subseteq> ?keys"
    using mapr_each [OF each] check_transfer_recounted [OF assms(1)] by (force simp: dhas_iff_key)
  have "card ?keys = length sent"
    using assms(1) by (simp add: grouped_def card_image distinct_card del: set_map)
  moreover have "card (set (map transfer_cell transfers)) = length transfers"
    using assms(3) by (simp add: distinct_card del: set_map)
  ultimately have "set (map transfer_cell transfers) = ?keys"
    using sub sizes by (intro card_subset_eq) simp_all
  then have cells: "transfer_cell ` set transfers = Inr ` fst ` set sent" by simp
  assume "dhas sent k"
  then have "Inr k \<in> transfer_cell ` set transfers" unfolding cells dhas_iff_key by (rule imageI)
  then show "\<exists>t\<in>set transfers. transfer_cell t = Inr k" by (metis imageE)
qed

text \<open>
  C17: When the check of the transfers passes and the summary names no cell twice, the summary is that
  of the raw rows: every row of it has exactly ten counted transmissions in its cell, whose means are
  those reported up to the tolerance; and every counted transmission of the raw rows is sound (powered
  and intact) and belongs to a row of the summary, so that none was left out.
\<close>

theorem transfers_recounted:
  assumes "foldr_res note_transmission ([], []) items = Inr (seen, sent)"
    and "check_transfers n sent transfers = Inr cs"
    and "distinct (map transfer_cell transfers)"
  shows "(\<forall>t\<in>set transfers. recounted items t) \<and>
    (\<forall>(case_id, r)\<in>set items. counted_transmission r = Inr True \<longrightarrow> sound_transmission r = Inr True \<and>
       (\<exists>t\<in>set transfers. transfer_cell t = cell_of_case case_id r))"
proof (intro conjI ballI, goal_cases)
  case (1 t)
  have each: "mapr (check_transfer sent) transfers = Inr cs"
    using assms(2) by (auto simp: check_transfers_def bindr_eq_Inr)
  show ?case
    using mapr_each [OF each 1] check_transfer_recounted [OF transmissions_grouped [OF assms(1)]] by blast
next
  case (2 x)
  note g = transmissions_grouped [OF assms(1)]
  have "sound_transmission (snd x) = Inr True \<and> (\<exists>t\<in>set transfers. transfer_cell t = cell_of_case (fst x) (snd x))"
    if counted: "counted_transmission (snd x) = Inr True"
  proof -
    have sound: "counted_sound x" using groupedD(2) [OF g] 2 by (simp add: list_all_iff)
    then obtain k where k: "cell_of_case (fst x) (snd x) = Inr k"
      using counted by (cases "cell_of_case (fst x) (snd x)") (auto simp: counted_sound_def)
    have "counted_in k x" using counted k by (simp add: counted_in_def)
    then have "cell_rows k items \<noteq> []" using 2 by (auto simp: cell_rows_def filter_empty_conv)
    then have "dhas sent k" unfolding groupedD(4) [OF g] .
    with cells_covered [OF g assms(2,3)] k sound counted show ?thesis by (simp add: counted_sound_def)
  qed
  then show ?case by (auto split: prod.splits)
qed

definition demo_transmission :: srow where
  "demo_transmission = [(''direction'', ''up''), (''payload_bytes'', ''128''), (''status'', ''success''),
     (''round_complete'', ''1''), (''power_status'', ''success''), (''integrity_match'', ''1''),
     (''end_to_end_ms'', ''2''), (''transfer_energy_uj'', ''0'')]"

definition demo_failure :: srow where
  "demo_failure = [(''direction'', ''up''), (''payload_bytes'', ''128''), (''status'', ''timeout''),
     (''round_complete'', ''0'')]"

definition demo_summary :: srow where
  "demo_summary = [(''case_id'', ''a''), (''direction'', ''up''), (''payload_bytes'', ''128''), (''success_count'', ''10''),
     (''mean_end_to_end_ms'', ''2''), (''mean_transfer_energy_uj'', ''0'')]"

abbreviation "demo_items \<equiv> (''a'', demo_failure) # replicate 10 (''a'', demo_transmission)"

theorem transfers_recounted_witness:
  "recounted demo_items demo_summary \<and> sound_transmission demo_transmission = Inr True"
proof -
  have a: "foldr_res note_transmission ([], []) demo_items =
      Inr ([(''timeout'', 1), (''success'', 10)], [((''a'', ''up'', ''128''), replicate 10 demo_transmission)])"
    by code_simp
  have b: "check_transfers 1 [((''a'', ''up'', ''128''), replicate 10 demo_transmission)] [demo_summary] = Inr [[(), ()]]"
    by code_simp
  have c: "distinct (map transfer_cell [demo_summary])" by simp
  have d: "counted_transmission demo_transmission = Inr True" by code_simp
  from transfers_recounted [OF a b c] d show ?thesis by (simp add: replicate_Suc [symmetric] del: replicate_Suc)
qed

end
