(* ===== verification/Spec2Isabelle.thy ===== *)
theory Spec2Isabelle
  imports Algorithms Scheduler Metrics Server_Backends Transfer_Plan Mqtt_Controller
    Case_Files Firmware_Profiles Summaries Power_Profiler Certificates Campaign Kem_Bench Cert_Bench
    Result_Tools Chart_Split Figure_Facts Table_Facts Chart_Facts Chart_Columns
    Analysis_Main Presentation
begin

text \<open>
  A model of the benchmarking harness of this repository: Python programs that measure
  post-quantum TLS and MQTT between a microcontroller board and a gateway.  The board runs a
  firmware over Bluetooth LE, a Raspberry Pi bridges it to a TLS server or an MQTT broker, and
  the programs plan the experiments, build the firmware and the certificates, drive board and
  Pi, read what both print, and write tables; another group of programs turns the tables into
  figures.  All paths below are under \<open>src/benchmarking/\<close>, those that begin with \<open>graphic/\<close> under
  \<open>src/\<close>.

  Parts and theories.

  The language.  \<open>Py_Prelude\<close> holds exceptions as values (\<open>pyexc\<close>, \<open>'a res\<close> is an exception or
  a value), dictionaries as association lists in insertion order, cells (\<open>pyval\<close>) and rows, and
  the string functions of Python the programs use.  \<open>Py_Float\<close> is binary64 arithmetic on
  rationals rounded to nearest even (\<open>round64\<close>), the statistics of the module \<open>statistics\<close>, and
  fixed-point formatting.  \<open>Py_State\<close> is the monad \<open>('s, 'a) io\<close> of state and exceptions.
  \<open>Py_Csv\<close>, \<open>Py_Json\<close>, \<open>Py_Sha256\<close> and \<open>Py_Random\<close> are the parts of the standard library the
  programs call: CSV readers and writers, JSON, SHA-256, and the Fisher-Yates shuffle over a
  generator that stays a parameter.

  The outside world.  \<open>Py_Host\<close> has the record \<open>host\<close> of the operating system's services
  (clock, sub-processes, files, serial port) over an arbitrary type of worlds; \<open>disk\<close>,
  \<open>console\<close>, \<open>ppk\<close> and \<open>meter\<close> in \<open>Certificates\<close>, \<open>Campaign_Setup\<close>, \<open>Power_Profiler\<close> and
  \<open>Campaign\<close> extend it to links and directories, prompts and environment, the driver of the
  PPK2 meter, and that driver as a campaign uses it.  A theorem holds for every such record;
  where it needs a law (a file reads back what was written, the clock moves on) the law is a
  named predicate and a witness instantiates it with a concrete scripted host.

  Planning.  \<open>Algorithms\<close> is \<open>benchmarklib/algorithms.py\<close> (tables of algorithms, PKI chains,
  identifiers), \<open>Scheduler\<close> \<open>benchmarklib/scheduler.py\<close> (jobs of a case, sessions, order),
  \<open>Transfer_Plan\<close> \<open>benchmarklib/transfer.py\<close> (payload bytes, digests, deadlines, plans),
  \<open>Server_Backends\<close> \<open>benchmarklib/server_backends.py\<close>, \<open>Case_Files\<close> the case tables of
  \<open>generate_cases.py\<close> and the manifests of \<open>run_benchmarks.py\<close>, \<open>Firmware_Profiles\<close> the
  packing of roots into firmware profiles.

  Observing.  \<open>Metrics\<close> is \<open>benchmarklib/metrics.py\<close> (log lines, sample statistics),
  \<open>Result_Wait\<close> the loops of \<open>run_benchmarks.py\<close> that wait for a result, \<open>Transfer_Rows\<close> the
  rows of a round of transfers, \<open>Power_Profiler\<close> \<open>benchmarklib/power_profiler.py\<close> (the windows
  of a current trace), \<open>Mqtt_Controller\<close> the MQTT client of
  \<open>gateway/mqtt_transfer_controller.py\<close>.

  Acting.  \<open>Pi_Gateway\<close> is \<open>benchmarklib/gateway.py\<close> (the scripts run on the Pi over ssh),
  \<open>Firmware_Build\<close> \<open>benchmarklib/firmware.py\<close>, \<open>Certificates\<close> \<open>benchmarklib/certificates.py\<close>,
  \<open>Run_Job\<close> one attempt of \<open>run_benchmarks.py\<close> with its retries, \<open>Summaries\<close> its statistics,
  \<open>Campaign_Setup\<close> and \<open>Campaign\<close> its \<open>main\<close>: options, new and resumed runs, profiles, the loop
  over the jobs, checkpoints, the final tables.

  Benchmarks on the board.  \<open>Board_Bench\<close> is what \<open>run_kem_benchmarks.py\<close> and
  \<open>run_certificate_benchmarks.py\<close> share: options, marked lines, the loop over the iterations of
  an algorithm and the locale \<open>iterations\<close>, whose laws say what the row of an attempt must be.
  \<open>Kem_Bench\<close> and \<open>Cert_Bench\<close> are the two programs; each interprets the locale with its own
  row.  \<open>run_transfer_benchmarks.py\<close> only calls \<open>main\<close> with two options.

  Checking and showing results.  \<open>Result_Tools\<close> is \<open>check_results.py\<close> and \<open>clean_work.py\<close>.
  \<open>Chart_Rows\<close> reads the tables of a run for \<open>graphic/plot_tls_handshake_bars.py\<close> and derives
  classes, labels, components and confidence intervals (\<open>Chart_Split\<close> bounds the rounding of the
  components); \<open>Tls_Figures\<close> is every figure of that program.  A figure is a value of the
  datatype \<open>figure\<close>: the bars, stacks, points, regions or cells with the labels and notes that
  the code hands to matplotlib, which is the parameter \<open>draw\<close>.  \<open>Transfer_Tables\<close> is
  \<open>graphic/generate_transfer_energy_table.py\<close> and \<open>graphic/generate_transfer_scaling_table.py\<close>,
  \<open>Run_Figures\<close> \<open>graphic/plot_benchmark_comparison_heatmaps.py\<close> and
  \<open>graphic/plot_battery_lifetime.py\<close>, \<open>Energy_Figures\<close> \<open>graphic/plot_energy_bars.py\<close>,
  \<open>Device_Charts\<close> \<open>graphic/plot_device_crypto_benchmarks.py\<close> and
  \<open>graphic/plot_certificate_summary.py\<close>.  Their theorems are in \<open>Figure_Facts\<close>, \<open>Table_Facts\<close> and
  \<open>Chart_Facts\<close>; \<open>Chart_Columns\<close> compares the columns these programs read with those the
  benchmarks write.

  Analysing results.  \<open>graphic/analyze_time_energy.py\<close> is six theories.  \<open>Np_Float\<close> has the floats
  of numpy as values (a number, the infinities, not-a-number) with their arithmetic and order;
  \<open>Attempt_Data\<close> reads the attempts of a run, keeps or rejects each with its reasons and joins
  them to the cases; \<open>Pareto_Ranks\<close> peels the fronts of two minimised coordinates and
  \<open>Pareto_Frontier\<close> is the tables and figures over them; \<open>Analysis_Stats\<close> is correlations,
  repeatability, bootstrap intervals and outliers, \<open>Analysis_Models\<close> the regressions,
  \<open>Analysis_Main\<close> the figures, the report and \<open>main\<close>.  A frame of pandas is the list of its rows;
  the routines of pandas, scipy and statsmodels that compute a number are parameters.
  \<open>Presentation\<close> is \<open>graphic/generate_presentation_graphics.py\<close>, which recounts the raw tables of
  the final runs before it draws the figures of a talk.

  How the parts interact.

  \<open>main\<close> (\<open>Campaign\<close>) opens a run (\<open>open_run\<close>: a new one writes its manifests, a resumed one
  reads them and the checkpoint), prepares the certificates of every case, chooses and builds
  firmware profiles, and runs the jobs.  \<open>run_scheduled\<close> takes one job: it switches the profile
  (flash, open the serial port), calls \<open>run_job\<close>, adds the row to the table of its case
  (\<open>record_row\<close>), writes the table and then the checkpoint.  \<open>run_job\<close> starts a session on the
  Pi, resets the board, waits for the result and derives the row.  Exceptions propagate through
  \<open>bindm\<close>; \<open>catchm\<close> and \<open>finallym\<close> are \<open>except\<close> and \<open>finally\<close>, so that every path on which a
  process stops early is a path of the model.

  What the lemmas show.

  Each property of the development stands after a text that numbers it (C1, C2, ...).  They
  fall in these groups: the plans are complete and ordered (scheduler, transfers, profiles);
  what is written is read back (case files, manifests, JSON, log lines, framed packets); what
  is reported was observed (a success of an attempt, a transfer, a capture or a controller run
  comes from a line, a frame or a pulse that says so); loops end; the tables of a campaign have
  exactly one row for each job that was run, in order, however the run ends, and a stored
  checkpoint resumes at the next job; what is shown is what was measured (every row with a value
  is counted in its cell, bar or line, the parts of a handshake add up to the whole, ranks and
  lifetimes are what their definition says, in the rounded arithmetic of the programs; every
  attempt an analysis reads is kept or rejected with a reason, and the Pareto rank of a case is
  one more than the greatest rank of a case that dominates it; the summary of transfers that a
  presentation shows is that of the raw rows).

  Bounds and fuel.

  A loop that polls the clock takes a fuel, the number of rounds it may make; \<open>out_of_fuel\<close> is
  an exception that no handler catches, and \<open>wait_for_result_returns\<close> shows that it does not
  occur when the clock advances and the fuel covers the deadline.  The recursive-descent reader
  of JSON takes the length of the text as fuel and its round trip shows that it is enough.
  Python integers are \<open>int\<close>, floats are the rationals of binary64 (overflow to infinity and
  not-a-number leave the model as \<open>OutsideModel\<close>), bytes are numbers below 256 and words of SHA-256
  have 32 bits.

  Choices.

  Printing is not modelled, a log is appended to at each line where the code flushes a buffer,
  text outside Latin-1 leaves the model, \<open>sum\<close> adds from left to right, the polling thread of
  the profiler is the list of its reads between start and stop, exit handlers are not run,
  numpy adds short lists from left to right and its zeros have no sign, and \<open>argparse\<close> is a function from the defaults that the program computes to the arguments.

  Not modelled.

  The C sources of firmware and gateway, the shell and Docker files, and the tests are outside
  the language of this model.  Of the figures, the drawing is not modelled: sizes, colours, fonts,
  axis limits, legends that follow from the series, and the warnings on the terminal.
  The routines of pandas, scipy, statsmodels and matplotlib are not under the source tree: what
  they return is a parameter.\<close>

end
